(* ===== verification/Prelude.thy ===== *)
theory Prelude
  imports Main "HOL-Library.Word"
begin

text \<open>
  Shared foundations of the development: machine integers and byte strings, the result
  type of fallible code (a program's own error, an Anchor or CPI failure, or a Rust panic),
  checked arithmetic (the release profile sets \<open>overflow-checks = true\<close>, so an overflow is a
  panic), bounds-checked slices, big- and little-endian integer codecs, and the list
  operations \<open>position\<close> and \<open>Vec::remove\<close> that the programs use.
\<close>

named_theorems result_simps \<open>inversion rules for fallible code\<close>
named_theorems codec_simps \<open>byte codec rewrite rules\<close>

section \<open>Machine integers and bytes\<close>

type_synonym u8 = "8 word"
type_synonym u16 = "16 word"
type_synonym u32 = "32 word"
type_synonym u64 = "64 word"
type_synonym bytes = "u8 list"

text \<open>Public keys are their 32 bytes; \<open>Pubkey::default()\<close> is all zero.\<close>

type_synonym pubkey = bytes

definition default_pubkey :: pubkey where
  "default_pubkey = replicate 32 0"

lemma length_default_pubkey [simp]: "length default_pubkey = 32"
  by (simp add: default_pubkey_def)

lemma default_pubkey_list: "default_pubkey = [0, 0, 0, 0, 0, 0, 0, 0, 0, 0, 0, 0, 0, 0, 0, 0,
    0, 0, 0, 0, 0, 0, 0, 0, 0, 0, 0, 0, 0, 0, 0, 0]"
  unfolding default_pubkey_def by (simp add: eval_nat_numeral del: replicate_0 numeral_One)

lemma two_zeros: "replicate 2 (0 :: u8) = [0, 0]"
  by (simp add: numeral_2_eq_2)

section \<open>Failures and results\<close>

text \<open>A Rust panic aborts the transaction; the reasons that occur in this code.\<close>

datatype panic = ArithmeticOverflow | IndexOutOfBounds | NoViableBump | MarkerWrite | UnwrapFailed

text \<open>The errors of Anchor's generated account validation, by the names of its ErrorCode.\<close>

datatype anchor_error =
    InstructionFallbackNotFound | InstructionDidNotDeserialize
  | IdlInstructionInvalidProgram | IdlAccountNotEmpty
  | AccountNotEnoughKeys | AccountDiscriminatorNotFound | AccountDiscriminatorMismatch
  | AccountNotSigner | AccountNotInitialized | AccountOwnedByWrongProgram
  | AccountDidNotDeserialize | AccountNotProgramData | InvalidProgramId
  | ConstraintSigner | ConstraintHasOne | ConstraintExecutable | ConstraintZero | RequireGteViolated | RequireEqViolated
  | ConstraintMut | ConstraintSeeds | ConstraintRaw | ConstraintAddress | ConstraintClose
  | ConstraintTokenMint | ConstraintTokenOwner | ConstraintTokenTokenProgram
  | ConstraintAssociated | ConstraintAssociatedTokenTokenProgram
  | AccountDidNotSerialize | ConstraintSpace | ConstraintOwner | ConstraintRentExempt
  | TryingToInitPayerAsProgramAccount

text \<open>Errors of the SPL token program, and the \<open>ProgramError\<close>s it returns.\<close>

datatype token_error =
    InvalidMint | InsufficientFunds | MintMismatch | OwnerMismatch | NativeNotSupported | Overflow
  | AccountFrozen | MissingRequiredSignature | UninitializedTokenAccount | NotRentExempt
  | AlreadyInUse | IncorrectProgramId | FixedSupply | InvalidNumberOfProvidedSigners
  | InvalidNumberOfRequiredSigners | NonNativeHasBalance | InvalidInstruction | InvalidState
  | AuthorityTypeNotSupported | MintCannotFreeze | MintDecimalsMismatch | NonNativeNotSupported
  | InvalidTokenAccountData | InvalidArgument

text \<open>Errors raised by the runtime or by a native program behind a CPI.\<close>

datatype runtime_error =
    PrivilegeEscalation | InvalidSignerSeeds | SystemProgramError | SysvarError | MissingAccount

datatype 'e failure =
    Custom 'e
  | Anchor anchor_error
  | Token token_error
  | Runtime runtime_error
  | Panic panic

type_synonym ('e, 'a) result = "'e failure + 'a"

text \<open>The \<open>?\<close> operator: continue with the value, or return the failure.\<close>

definition and_then :: "'f + 'a \<Rightarrow> ('a \<Rightarrow> 'f + 'b) \<Rightarrow> 'f + 'b" where
  "and_then m k = (case m of Inl e \<Rightarrow> Inl e | Inr x \<Rightarrow> k x)"

lemma and_then_Inl [simp]: "and_then (Inl e) k = Inl e"
  by (simp add: and_then_def)

lemma and_then_Inr [simp]: "and_then (Inr x) k = k x"
  by (simp add: and_then_def)

lemma and_then_eq_Inr [result_simps]:
  "and_then m k = Inr y \<longleftrightarrow> (\<exists>x. m = Inr x \<and> k x = Inr y)"
  by (cases m) auto

lemma and_then_eq_Inl [result_simps]:
  "and_then m k = Inl e \<longleftrightarrow> m = Inl e \<or> (\<exists>x. m = Inr x \<and> k x = Inl e)"
  by (cases m) auto

lemma and_then_assoc: "and_then (and_then m f) g = and_then m (\<lambda>x. and_then (f x) g)"
  by (cases m) auto

lemma and_then_cong [fundef_cong]:
  "m = m' \<Longrightarrow> (\<And>x. m' = Inr x \<Longrightarrow> k x = k' x) \<Longrightarrow> and_then m k = and_then m' k'"
  by (cases m') auto

text \<open>\<open>require!\<close> and its relatives: a failed condition returns the given error.\<close>

definition require :: "bool \<Rightarrow> 'f \<Rightarrow> 'f + unit" where
  "require c e = (if c then Inr () else Inl e)"

lemma require_True [simp]: "require True e = Inr ()"
  by (simp add: require_def)

lemma require_False [simp]: "require False e = Inl e"
  by (simp add: require_def)

lemma require_eq_Inr [result_simps]: "require c e = Inr u \<longleftrightarrow> c"
  by (simp add: require_def)

lemma require_eq_Inl [result_simps]: "require c e = Inl e' \<longleftrightarrow> \<not> c \<and> e' = e"
  by (auto simp: require_def)

text \<open>\<open>ok_or\<close> and \<open>map_err\<close> of Rust's Option and Result.\<close>

definition ok_or :: "'a option \<Rightarrow> 'f \<Rightarrow> 'f + 'a" where
  "ok_or m e = (case m of None \<Rightarrow> Inl e | Some x \<Rightarrow> Inr x)"

lemma ok_or_simps [simp]: "ok_or None e = Inl e" "ok_or (Some x) e = Inr x"
  by (simp_all add: ok_or_def)

lemma ok_or_eq_Inr [result_simps]: "ok_or m e = Inr x \<longleftrightarrow> m = Some x"
  by (cases m) auto

lemma ok_or_eq_Inl [result_simps]: "ok_or m e = Inl e' \<longleftrightarrow> m = None \<and> e' = e"
  by (cases m) auto

definition map_err :: "('f + 'a) \<Rightarrow> 'g \<Rightarrow> 'g + 'a" where
  "map_err m e = (case m of Inl _ \<Rightarrow> Inl e | Inr x \<Rightarrow> Inr x)"

lemma map_err_simps [simp]: "map_err (Inl f) e = Inl e" "map_err (Inr x) e = Inr x"
  by (simp_all add: map_err_def)

lemma map_err_eq_Inr [result_simps]: "map_err m e = Inr x \<longleftrightarrow> m = Inr x"
  by (cases m) auto

lemma map_err_eq_Inl [result_simps]: "map_err m e = Inl e' \<longleftrightarrow> (\<exists>f. m = Inl f) \<and> e' = e"
  by (cases m) auto

text \<open>A result that is not a panic: it is a value or an error the code returns on purpose.\<close>

definition no_panic :: "('e, 'a) result \<Rightarrow> bool" where
  "no_panic r \<longleftrightarrow> (\<forall>p. r \<noteq> Inl (Panic p))"

lemma no_panic_Inr [simp]: "no_panic (Inr x)"
  by (simp add: no_panic_def)

lemma no_panic_Inl: "no_panic (Inl e) \<longleftrightarrow> (\<forall>p. e \<noteq> Panic p)"
  by (simp add: no_panic_def)

lemma no_panic_Custom [simp]: "no_panic (Inl (Custom e))" "no_panic (Inl (Anchor a))"
  "no_panic (Inl (Token t))" "no_panic (Inl (Runtime r))" "\<not> no_panic (Inl (Panic p))"
  by (auto simp: no_panic_def)

lemma no_panic_require [simp]: "no_panic (require c (Custom e))" "no_panic (require c (Anchor a))"
  by (auto simp: require_def)

lemma no_panic_and_then [intro]:
  "no_panic m \<Longrightarrow> (\<And>x. m = Inr x \<Longrightarrow> no_panic (k x)) \<Longrightarrow> no_panic (and_then m k)"
  by (cases m) (auto simp: no_panic_def)

text \<open>A \<open>for\<close> loop whose body may fail, threading a state.\<close>

fun fold_result :: "('a \<Rightarrow> 's \<Rightarrow> 'f + 's) \<Rightarrow> 'a list \<Rightarrow> 's \<Rightarrow> 'f + 's" where
  "fold_result body [] s = Inr s"
| "fold_result body (x # xs) s = and_then (body x s) (fold_result body xs)"

lemma fold_result_append:
  "fold_result body (xs @ ys) s = and_then (fold_result body xs s) (fold_result body ys)"
  by (induction xs arbitrary: s) (auto simp: and_then_assoc cong: and_then_cong)

lemma fold_result_cong [fundef_cong]:
  "xs = ys \<Longrightarrow> s = t \<Longrightarrow> (\<And>x s. x \<in> set ys \<Longrightarrow> f x s = g x s) \<Longrightarrow>
     fold_result f xs s = fold_result g ys t"
  by (induction ys arbitrary: s t xs) (auto intro!: and_then_cong)

section \<open>Checked arithmetic\<close>

lemma unat_bound: "unat (w :: 'a::len word) < 2 ^ LENGTH('a)"
  by (rule unsigned_less)

text \<open>Incrementing an index that is below a bound of its own type does not wrap.\<close>

lemma unat_Suc_below: "i < n \<Longrightarrow> unat (i + 1 :: 'a::len word) = Suc (unat i)"
proof -
  assume "i < n"
  then have "unat i + 1 < 2 ^ LENGTH('a)"
    using unat_bound [of n] unfolding word_less_nat_alt by linarith
  then show ?thesis by (simp only: unat_word_ariths unsigned_1 mod_less)
qed

definition add_u64 :: "u64 \<Rightarrow> u64 \<Rightarrow> ('e, u64) result" where
  "add_u64 a b = (if unat a + unat b < 2 ^ 64 then Inr (a + b) else Inl (Panic ArithmeticOverflow))"

definition sub_u64 :: "u64 \<Rightarrow> u64 \<Rightarrow> ('e, u64) result" where
  "sub_u64 a b = (if b \<le> a then Inr (a - b) else Inl (Panic ArithmeticOverflow))"

definition saturating_sub_u64 :: "u64 \<Rightarrow> u64 \<Rightarrow> u64" where
  "saturating_sub_u64 a b = (if b \<le> a then a - b else 0)"

lemma add_u64_eq_Inr [result_simps]:
  "add_u64 a b = Inr c \<longleftrightarrow> unat a + unat b < 2 ^ 64 \<and> c = a + b"
  by (auto simp: add_u64_def)

lemma sub_u64_eq_Inr [result_simps]: "sub_u64 a b = Inr c \<longleftrightarrow> b \<le> a \<and> c = a - b"
  by (auto simp: sub_u64_def)

lemma unat_add_u64: "unat a + unat b < 2 ^ 64 \<Longrightarrow> unat (a + b :: u64) = unat a + unat b"
  by (simp add: unat_word_ariths)

lemma unat_sub_u64: "b \<le> a \<Longrightarrow> unat (a - b :: u64) = unat a - unat b"
  by (simp add: unat_sub)

lemma unat_saturating_sub_u64: "unat (saturating_sub_u64 a b) = unat a - unat b"
  by (auto simp: saturating_sub_u64_def unat_sub word_le_nat_alt)

lemma u64_less_iff: "(a :: u64) < b \<longleftrightarrow> unat a < unat b"
  by (rule word_less_nat_alt)

lemma u64_le_iff: "(a :: u64) \<le> b \<longleftrightarrow> unat a \<le> unat b"
  by (rule word_le_nat_alt)

lemma unat_u64_less: "unat (a :: u64) < 2 ^ 64"
  using unat_bound [of a] by simp

section \<open>Slices\<close>

text \<open>Rust's \<open>&data[i..j]\<close> panics unless \<open>i \<le> j \<le> len\<close>.\<close>

definition slice :: "'a list \<Rightarrow> nat \<Rightarrow> nat \<Rightarrow> ('e, 'a list) result" where
  "slice xs i j =
     (if i \<le> j \<and> j \<le> length xs then Inr (take (j - i) (drop i xs)) else Inl (Panic IndexOutOfBounds))"

lemma slice_eq_Inr [result_simps]:
  "slice xs i j = Inr ys \<longleftrightarrow> i \<le> j \<and> j \<le> length xs \<and> ys = take (j - i) (drop i xs)"
  by (auto simp: slice_def)

definition index_checked :: "'a list \<Rightarrow> nat \<Rightarrow> ('e, 'a) result" where
  "index_checked xs i = (if i < length xs then Inr (xs ! i) else Inl (Panic IndexOutOfBounds))"

lemma index_checked_eq_Inr [result_simps]:
  "index_checked xs i = Inr x \<longleftrightarrow> i < length xs \<and> x = xs ! i"
  by (auto simp: index_checked_def)

section \<open>Integer codecs\<close>

definition be_nat :: "bytes \<Rightarrow> nat" where
  "be_nat bs = foldl (\<lambda>n b. n * 256 + unat b) 0 bs"

fun be_bytes :: "nat \<Rightarrow> nat \<Rightarrow> bytes" where
  "be_bytes 0 n = []"
| "be_bytes (Suc k) n = be_bytes k (n div 256) @ [word_of_nat n]"

lemma be_nat_Nil [simp]: "be_nat [] = 0"
  by (simp add: be_nat_def)

lemma be_nat_snoc: "be_nat (bs @ [b]) = be_nat bs * 256 + unat b"
  by (simp add: be_nat_def)

lemma length_be_bytes [simp]: "length (be_bytes k n) = k"
  by (induction k arbitrary: n) auto

lemma unat_u8_less: "unat (b :: u8) < 256"
  using unat_bound [of b] by simp

lemma unat_u8_of_nat: "unat (word_of_nat n :: u8) = n mod 256"
  by (simp add: unat_of_nat)

lemma u8_of_nat_low: "(word_of_nat (n * 256 + unat b) :: u8) = b"
proof -
  have "(word_of_nat (n * 256 + unat b) :: u8) = word_of_nat (unat b)"
    by (simp only: word_of_nat_eq_iff) (simp add: take_bit_eq_mod)
  then show ?thesis by simp
qed

lemma be_nat_bound: "be_nat bs < 256 ^ length bs"
proof (induction bs rule: rev_induct)
  case (snoc b bs)
  have "be_nat bs * 256 + unat b < (be_nat bs + 1) * 256"
    using unat_u8_less [of b] by simp
  also have "\<dots> \<le> 256 ^ length bs * 256"
    using snoc.IH by (intro mult_right_mono) auto
  finally show ?case by (simp add: be_nat_snoc mult.commute)
qed simp

lemma be_nat_be_bytes [codec_simps]: "be_nat (be_bytes k n) = n mod 256 ^ k"
proof (induction k arbitrary: n)
  case (Suc k)
  have "n mod (256 * 256 ^ k) = 256 * (n div 256 mod 256 ^ k) + n mod 256"
    by (rule mod_mult2_eq)
  then show ?case by (simp add: be_nat_snoc Suc.IH unat_u8_of_nat mult.commute)
qed simp

lemma be_bytes_be_nat [codec_simps]: "be_bytes (length bs) (be_nat bs) = bs"
proof (induction bs rule: rev_induct)
  case (snoc b bs)
  have "(be_nat bs * 256 + unat b) div 256 = be_nat bs"
    using unat_u8_less [of b] by simp
  moreover have "(word_of_nat (be_nat bs * 256 + unat b) :: u8) = b"
    by (rule u8_of_nat_low)
  ultimately show ?case by (simp add: be_nat_snoc snoc.IH)
qed simp

text \<open>\<open>from_be_bytes\<close>, \<open>to_be_bytes\<close>, \<open>from_le_bytes\<close>, \<open>to_le_bytes\<close> at the widths used.\<close>

definition u32_from_be :: "bytes \<Rightarrow> u32" where "u32_from_be bs = word_of_nat (be_nat bs)"
definition u64_from_be :: "bytes \<Rightarrow> u64" where "u64_from_be bs = word_of_nat (be_nat bs)"
definition u16_from_le :: "bytes \<Rightarrow> u16" where "u16_from_le bs = word_of_nat (be_nat (rev bs))"
definition u32_to_be :: "u32 \<Rightarrow> bytes" where "u32_to_be w = be_bytes 4 (unat w)"
definition u64_to_be :: "u64 \<Rightarrow> bytes" where "u64_to_be w = be_bytes 8 (unat w)"
definition u16_to_le :: "u16 \<Rightarrow> bytes" where "u16_to_le w = rev (be_bytes 2 (unat w))"
definition u32_to_le :: "u32 \<Rightarrow> bytes" where "u32_to_le w = rev (be_bytes 4 (unat w))"

lemma length_codecs [simp]:
  "length (u32_to_be a) = 4" "length (u64_to_be b) = 8" "length (u16_to_le c) = 2"
  "length (u32_to_le d) = 4"
  by (simp_all add: u32_to_be_def u64_to_be_def u16_to_le_def u32_to_le_def)

lemma u32_be_roundtrip [simp]: "u32_from_be (u32_to_be w) = w"
proof -
  have "unat w mod 256 ^ 4 = unat w" using unat_bound [of w] by simp
  then show ?thesis by (simp add: u32_from_be_def u32_to_be_def be_nat_be_bytes)
qed

lemma u64_be_roundtrip [simp]: "u64_from_be (u64_to_be w) = w"
proof -
  have "unat w mod 256 ^ 8 = unat w" using unat_bound [of w] by simp
  then show ?thesis by (simp add: u64_from_be_def u64_to_be_def be_nat_be_bytes)
qed

lemma u16_le_roundtrip [simp]: "u16_from_le (u16_to_le w) = w"
proof -
  have "unat w mod 256 ^ 2 = unat w" using unat_bound [of w] by simp
  then show ?thesis by (simp add: u16_from_le_def u16_to_le_def be_nat_be_bytes)
qed

lemma unat_u32_from_be: "length bs = 4 \<Longrightarrow> unat (u32_from_be bs) = be_nat bs"
  using be_nat_bound [of bs] by (simp add: u32_from_be_def unat_of_nat)

lemma unat_u64_from_be: "length bs = 8 \<Longrightarrow> unat (u64_from_be bs) = be_nat bs"
  using be_nat_bound [of bs] by (simp add: u64_from_be_def unat_of_nat)

lemma unat_u16_from_le: "length bs = 2 \<Longrightarrow> unat (u16_from_le bs) = be_nat (rev bs)"
  using be_nat_bound [of "rev bs"] by (simp add: u16_from_le_def unat_of_nat)

lemma u32_to_from_be: "length bs = 4 \<Longrightarrow> u32_to_be (u32_from_be bs) = bs"
  using be_bytes_be_nat [of bs] by (simp add: u32_to_be_def unat_u32_from_be)

lemma u64_to_from_be: "length bs = 8 \<Longrightarrow> u64_to_be (u64_from_be bs) = bs"
  using be_bytes_be_nat [of bs] by (simp add: u64_to_be_def unat_u64_from_be)

lemma u16_to_from_le: "length bs = 2 \<Longrightarrow> u16_to_le (u16_from_le bs) = bs"
  using be_bytes_be_nat [of "rev bs"] by (simp add: u16_to_le_def unat_u16_from_le)

section \<open>Vectors\<close>

text \<open>\<open>iter().position(p)\<close> and \<open>Vec::remove(i)\<close> for an index in range.\<close>

fun position :: "('a \<Rightarrow> bool) \<Rightarrow> 'a list \<Rightarrow> nat option" where
  "position p [] = None"
| "position p (x # xs) = (if p x then Some 0 else map_option Suc (position p xs))"

definition vec_remove :: "'a list \<Rightarrow> nat \<Rightarrow> 'a list" where
  "vec_remove xs i = take i xs @ drop (Suc i) xs"

lemma position_None [simp]: "position p xs = None \<longleftrightarrow> (\<forall>x \<in> set xs. \<not> p x)"
  by (induction xs) auto

lemma position_Some:
  "position p xs = Some i \<Longrightarrow> i < length xs \<and> p (xs ! i) \<and> (\<forall>j < i. \<not> p (xs ! j))"
proof (induction xs arbitrary: i)
  case (Cons x xs)
  then show ?case
    by (auto split: if_splits simp: less_Suc_eq_0_disj nth_Cons')
qed simp

lemma position_in_set: "position p xs = Some i \<Longrightarrow> \<exists>x \<in> set xs. p x"
  using position_None [of p xs] by (cases "\<forall>x \<in> set xs. \<not> p x") auto

lemma vec_remove_position:
  "position (\<lambda>a. a = x) xs = Some i \<Longrightarrow> vec_remove xs i = remove1 x xs"
  by (induction xs arbitrary: i) (auto simp: vec_remove_def split: if_splits)

end
