(* ===== verification/WalletTypes.thy ===== *)
theory WalletTypes
  imports Prelude
begin

text \<open>
  The data of the GatewayWallet program: its error codes (error.rs), events (events.rs), PDA seeds
  (seeds.rs) and account records (state.rs), with the methods of \<open>impl GatewayWallet\<close>,
  \<open>impl GatewayDeposit\<close> and \<open>impl GatewayDelegate\<close> that only touch their own record.  Methods that
  perform token CPIs are in WalletFunds and GatewayBurn.
\<close>

section \<open>Errors, events and seeds\<close>

datatype GatewayWalletError =
    InvalidAuthority
  | InvalidPauser | InvalidDenylister | InvalidTokenController
  | ProgramPaused
  | AccountDenylisted
  | InvalidBurnSigner | BurnSignerLimitExceeded
  | MaxTokensSupported | TokenNotSupported
  | InvalidDepositor | InvalidDepositAmount | InvalidWithdrawalAmount
  | InsufficientDepositBalance | NoWithdrawalInProgress | WithdrawalDelayNotElapsed
  | InvalidWithdrawalDelay
  | InvalidDelegate | CannotDelegateToSelf
  | MalformedBurnData | InvalidBurnIntentMessagePrefix | InvalidBurnIntentValue
  | BurnIntentMagicMismatch | BurnIntentLengthMismatch | TransferSpecMagicMismatch
  | InvalidU64HighBytes
  | InvalidBurnSignerSignature | BurnSignerNotAuthorized
  | VersionMismatch | BurnIntentExpired | BurnFeeExceedsMaxFee | SourceDomainMismatch
  | SourceContractMismatch | SourceTokenMismatch | SourceDepositorMismatch
  | InvalidBalanceReductionAmount | InsufficientCustodyBalance
  | PreviousInstructionNotEd25519Program | InvalidEd25519InstructionData
  | InvalidDelegateAccount | DelegateDepositorMismatch | DelegateSignerMismatch
  | DelegateSignerNotAuthorized
  | RemainingAccountsLengthMismatch | InvalidTransferSpecHashAccount
  | TransferSpecHashAlreadyUsed

text \<open>The arguments of each event are the fields of its struct, in their order.\<close>

datatype WalletEvent =
    GatewayWalletInitialized
  | OwnershipTransferStarted pubkey pubkey
  | OwnershipTransferred pubkey pubkey
  | PauserChanged pubkey pubkey
  | DenylisterChanged pubkey pubkey
  | TokenControllerUpdated pubkey pubkey
  | TokenSupported pubkey pubkey
  | Deposited pubkey pubkey pubkey u64
  | DelegateAdded pubkey pubkey pubkey
  | DelegateRemoved pubkey pubkey pubkey
  | Denylisted pubkey
  | UnDenylisted pubkey
  | WithdrawalInitiated pubkey pubkey u64
      u64 u64 u64
  | BurnSignerAdded pubkey
  | BurnSignerRemoved pubkey
  | WithdrawalCompleted pubkey pubkey u64
  | WithdrawalDelayChanged u64 u64
  | FeeRecipientChanged pubkey pubkey
  | Paused pubkey
  | Unpaused pubkey
  | GatewayBurned pubkey pubkey bytes
      u32 bytes pubkey u64 u64
      u64 u64
  | InsufficientBalance pubkey pubkey u64
      u64 u64

text \<open>Byte string literals.\<close>

definition GATEWAY_WALLET_SEED :: bytes where
  "GATEWAY_WALLET_SEED = map of_char ''gateway_wallet''"
definition GATEWAY_WALLET_CUSTODY_SEED :: bytes where
  "GATEWAY_WALLET_CUSTODY_SEED = map of_char ''gateway_wallet_custody''"
definition GATEWAY_DEPOSIT_SEED :: bytes where
  "GATEWAY_DEPOSIT_SEED = map of_char ''gateway_deposit''"
definition GATEWAY_DELEGATE_SEED :: bytes where
  "GATEWAY_DELEGATE_SEED = map of_char ''gateway_delegate''"
definition DENYLIST_SEED :: bytes where
  "DENYLIST_SEED = map of_char ''denylist''"

section \<open>Account records\<close>

definition MAX_SUPPORTED_TOKENS :: nat where "MAX_SUPPORTED_TOKENS = 10"
definition MAX_BURN_SIGNERS :: nat where "MAX_BURN_SIGNERS = 10"

record GatewayWallet =
  gw_bump :: u8
  gw_owner :: pubkey
  gw_pending_owner :: pubkey
  gw_pauser :: pubkey
  gw_denylister :: pubkey
  gw_token_controller :: pubkey
  gw_fee_recipient :: pubkey
  gw_local_domain :: u32
  gw_version :: u32
  gw_withdrawal_delay :: u64
  gw_paused :: bool
  gw_supported_tokens :: "pubkey list"
  gw_custody_token_account_bumps :: "u8 list"
  gw_burn_signers :: "pubkey list"

record GatewayDeposit =
  dep_bump :: u8
  dep_depositor :: pubkey
  dep_token_mint :: pubkey
  dep_available_amount :: u64
  dep_withdrawing_amount :: u64
  dep_withdrawal_block :: u64

datatype DelegateStatus = Unauthorized | Authorized | Revoked

record GatewayDelegate =
  del_bump :: u8
  del_status :: DelegateStatus
  del_closeable_at_block :: u64
  del_token :: pubkey
  del_depositor :: pubkey
  del_delegate :: pubkey

text \<open>
  \<open>Account::default()\<close> of a freshly created account: \<open>try_from_unchecked\<close> deserialises the zeroed
  bytes, so every field is zero and the vectors are empty.
\<close>

definition zeroed_GatewayWallet :: GatewayWallet where
  "zeroed_GatewayWallet = \<lparr> gw_bump = 0, gw_owner = default_pubkey, gw_pending_owner = default_pubkey,
     gw_pauser = default_pubkey, gw_denylister = default_pubkey, gw_token_controller = default_pubkey,
     gw_fee_recipient = default_pubkey, gw_local_domain = 0, gw_version = 0, gw_withdrawal_delay = 0,
     gw_paused = False, gw_supported_tokens = [], gw_custody_token_account_bumps = [],
     gw_burn_signers = [] \<rparr>"

definition zeroed_GatewayDeposit :: GatewayDeposit where
  "zeroed_GatewayDeposit = \<lparr> dep_bump = 0, dep_depositor = default_pubkey,
     dep_token_mint = default_pubkey, dep_available_amount = 0, dep_withdrawing_amount = 0,
     dep_withdrawal_block = 0 \<rparr>"

definition zeroed_GatewayDelegate :: GatewayDelegate where
  "zeroed_GatewayDelegate = \<lparr> del_bump = 0, del_status = Unauthorized, del_closeable_at_block = 0,
     del_token = default_pubkey, del_depositor = default_pubkey, del_delegate = default_pubkey \<rparr>"

text \<open>Borsh sizes: the serialised length of a wallet state and the space \<open>InitSpace\<close> reserves.\<close>

definition wallet_serialized_len :: "GatewayWallet \<Rightarrow> nat" where
  "wallet_serialized_len w = 2 + (1 + 6 * 32 + 4 + 4 + 8 + 1
     + (4 + 32 * length (gw_supported_tokens w))
     + (4 + length (gw_custody_token_account_bumps w))
     + (4 + 32 * length (gw_burn_signers w)))"

definition WALLET_SPACE :: nat where
  "WALLET_SPACE = 2 + (1 + 6 * 32 + 4 + 4 + 8 + 1 + (4 + 32 * MAX_SUPPORTED_TOKENS)
     + (4 + MAX_SUPPORTED_TOKENS) + (4 + 32 * MAX_BURN_SIGNERS))"

definition DEPOSIT_SPACE :: nat where "DEPOSIT_SPACE = 2 + (1 + 32 + 32 + 8 + 8 + 8)"
definition DELEGATE_SPACE :: nat where "DELEGATE_SPACE = 2 + (1 + 1 + 8 + 32 + 32 + 32)"
definition DENYLIST_SPACE :: nat where "DENYLIST_SPACE = 2 + 0"

text \<open>The discriminator of \<open>UsedTransferSpecHash\<close>, all that its accounts hold.\<close>

definition WALLET_USED_MARKER :: bytes where "WALLET_USED_MARKER = [21, 4]"

lemma length_WALLET_USED_MARKER [simp]: "length WALLET_USED_MARKER = 2"
  by (simp add: WALLET_USED_MARKER_def)

section \<open>impl GatewayDelegate\<close>

definition was_ever_authorized_for_balance :: "GatewayDelegate \<Rightarrow> pubkey \<Rightarrow> pubkey \<Rightarrow> bool" where
  "was_ever_authorized_for_balance g depositor_key addr_key =
     (if addr_key = depositor_key then True else del_status g \<noteq> Unauthorized)"

section \<open>impl GatewayWallet: tokens and burn signers\<close>

type_synonym 'a wallet_result = "(GatewayWalletError, 'a) result"

definition is_token_supported :: "GatewayWallet \<Rightarrow> pubkey \<Rightarrow> bool" where
  "is_token_supported w token_mint = (token_mint \<in> set (gw_supported_tokens w))"

definition get_token_index :: "GatewayWallet \<Rightarrow> pubkey \<Rightarrow> nat option" where
  "get_token_index w token_mint = position (\<lambda>t. t = token_mint) (gw_supported_tokens w)"

definition add_token :: "GatewayWallet \<Rightarrow> pubkey \<Rightarrow> u8 \<Rightarrow> GatewayWallet wallet_result" where
  "add_token w token_mint bump =
     (if is_token_supported w token_mint then Inr w
      else if length (gw_supported_tokens w) \<ge> MAX_SUPPORTED_TOKENS
      then Inl (Custom MaxTokensSupported)
      else Inr (w\<lparr> gw_supported_tokens := gw_supported_tokens w @ [token_mint],
                  gw_custody_token_account_bumps := gw_custody_token_account_bumps w @ [bump] \<rparr>))"

definition get_custody_token_account_bump :: "GatewayWallet \<Rightarrow> pubkey \<Rightarrow> u8 wallet_result" where
  "get_custody_token_account_bump w token_mint =
     (case get_token_index w token_mint of
        None \<Rightarrow> Inl (Custom TokenNotSupported)
      | Some index \<Rightarrow> index_checked (gw_custody_token_account_bumps w) index)"

definition is_burn_signer :: "GatewayWallet \<Rightarrow> pubkey \<Rightarrow> bool" where
  "is_burn_signer w s = (s \<in> set (gw_burn_signers w))"

definition add_burn_signer :: "GatewayWallet \<Rightarrow> pubkey \<Rightarrow> GatewayWallet wallet_result" where
  "add_burn_signer w s =
     (if is_burn_signer w s then Inr w
      else if length (gw_burn_signers w) \<ge> MAX_BURN_SIGNERS
      then Inl (Custom BurnSignerLimitExceeded)
      else Inr (w\<lparr> gw_burn_signers := gw_burn_signers w @ [s] \<rparr>))"

definition remove_burn_signer :: "GatewayWallet \<Rightarrow> pubkey \<Rightarrow> GatewayWallet wallet_result" where
  "remove_burn_signer w s =
     (case position (\<lambda>t. t = s) (gw_burn_signers w) of
        None \<Rightarrow> Inr w
      | Some index \<Rightarrow> Inr (w\<lparr> gw_burn_signers := vec_remove (gw_burn_signers w) index \<rparr>))"

section \<open>impl GatewayDeposit: record-only methods\<close>

definition initialize_if_needed ::
    "GatewayDeposit \<Rightarrow> u8 \<Rightarrow> pubkey \<Rightarrow> pubkey \<Rightarrow> GatewayDeposit" where
  "initialize_if_needed d bump depositor_key token_mint =
     (if dep_bump d = 0
      then d\<lparr> dep_bump := bump, dep_depositor := depositor_key, dep_token_mint := token_mint \<rparr>
      else d)"

text \<open>
  \<open>initiate_withdrawal\<close>: the slot is read from the Clock sysvar after the balances moved; the two
  additions are overflow-checked.
\<close>

definition deposit_initiate_withdrawal ::
    "u64 \<Rightarrow> GatewayDeposit \<Rightarrow> u64 \<Rightarrow> u64 \<Rightarrow> GatewayWallet \<Rightarrow> pubkey \<Rightarrow>
     (GatewayDeposit \<times> (u64 \<times> u64 \<times> u64)) wallet_result" where
  "deposit_initiate_withdrawal current_slot d amount delay w token_mint =
     and_then (require (amount > 0) (Custom InvalidWithdrawalAmount)) (\<lambda>_.
     and_then (require (is_token_supported w token_mint) (Custom TokenNotSupported)) (\<lambda>_.
     and_then (require (amount \<le> dep_available_amount d) (Custom InsufficientDepositBalance)) (\<lambda>_.
     and_then (sub_u64 (dep_available_amount d) amount) (\<lambda>available.
     and_then (add_u64 (dep_withdrawing_amount d) amount) (\<lambda>withdrawing.
     and_then (add_u64 current_slot delay) (\<lambda>block.
     Inr (d\<lparr> dep_available_amount := available, dep_withdrawing_amount := withdrawing,
             dep_withdrawal_block := block \<rparr>, (available, withdrawing, block))))))))"

definition reduce_balance :: "GatewayDeposit \<Rightarrow> u64 \<Rightarrow> (GatewayDeposit \<times> (u64 \<times> u64)) wallet_result" where
  "reduce_balance d amount =
     and_then (require (amount > 0) (Custom InvalidBalanceReductionAmount)) (\<lambda>_.
       let available = dep_available_amount d in
       if available \<ge> amount
       then and_then (sub_u64 (dep_available_amount d) amount) (\<lambda>a.
              Inr (d\<lparr> dep_available_amount := a \<rparr>, (amount, 0)))
       else
         and_then (sub_u64 amount available) (\<lambda>needed.
           let withdrawing = dep_withdrawing_amount d in
           if withdrawing \<ge> needed
           then and_then (sub_u64 withdrawing needed) (\<lambda>r.
                  Inr (d\<lparr> dep_available_amount := 0, dep_withdrawing_amount := r \<rparr>,
                       (available, needed)))
           else Inr (d\<lparr> dep_available_amount := 0, dep_withdrawing_amount := 0 \<rparr>,
                     (available, withdrawing))))"

end
