(* ===== verification/MinterTypes.thy ===== *)
theory MinterTypes
  imports Prelude
begin

text \<open>
  The data of the GatewayMinter program: its error codes (error.rs), events (events.rs), PDA seeds
  (seeds.rs) and its account record (state.rs), with the methods of \<open>impl GatewayMinter\<close> that only
  touch the record.  Methods that perform token CPIs are in GatewayMint and MinterAdmin.
\<close>

section \<open>Errors, events and seeds\<close>

datatype GatewayMinterError =
    InvalidAuthority
  | InvalidPauser | InvalidTokenController
  | ProgramPaused
  | InvalidAttester | AttesterLimitExceeded
  | MaxTokensSupported | TokenNotSupported | InvalidBurnAmount
  | MalformedMintAttestation | AttestationMagicMismatch | AttestationTooShort
  | AttestationTooLong | EmptyAttestationSet
  | InvalidAttesterSignature
  | VersionMismatch | AttestationExpired | InvalidAttestationValue | DestinationDomainMismatch
  | DestinationContractMismatch | DestinationTokenMismatch | DestinationCallerMismatch
  | DestinationRecipientMismatch
  | RemainingAccountsLengthMismatch | InvalidTransferSpecHashAccount | TransferSpecHashAlreadyUsed
  | InvalidCustodyTokenAccount | InvalidDestinationTokenAccount

text \<open>The arguments of each event are the fields of its struct, in their order.\<close>

datatype MinterEvent =
    OwnershipTransferStarted pubkey pubkey
  | OwnershipTransferred pubkey pubkey
  | GatewayMinterInitialized
  | PauserChanged pubkey pubkey
  | AttestationSignerAdded pubkey
  | AttestationSignerRemoved pubkey
  | TokenControllerUpdated pubkey pubkey
  | TokenSupported pubkey pubkey
  | TokenCustodyBurned pubkey pubkey u64
  | Paused pubkey
  | Unpaused pubkey
  | AttestationUsed pubkey pubkey bytes u64

definition GATEWAY_MINTER_SEED :: bytes where
  "GATEWAY_MINTER_SEED = map of_char ''gateway_minter''"
definition GATEWAY_MINTER_CUSTODY_SEED :: bytes where
  "GATEWAY_MINTER_CUSTODY_SEED = map of_char ''gateway_minter_custody''"

section \<open>Account record\<close>

definition MINTER_MAX_SUPPORTED_TOKENS :: nat where "MINTER_MAX_SUPPORTED_TOKENS = 10"
definition MAX_ATTESTERS :: nat where "MAX_ATTESTERS = 10"

record GatewayMinter =
  gm_bump :: u8
  gm_owner :: pubkey
  gm_pending_owner :: pubkey
  gm_pauser :: pubkey
  gm_token_controller :: pubkey
  gm_paused :: bool
  gm_enabled_attesters :: "pubkey list"
  gm_local_domain :: u32
  gm_version :: u32
  gm_supported_tokens :: "pubkey list"
  gm_custody_token_account_bumps :: "u8 list"

definition zeroed_GatewayMinter :: GatewayMinter where
  "zeroed_GatewayMinter = \<lparr> gm_bump = 0, gm_owner = default_pubkey, gm_pending_owner = default_pubkey,
     gm_pauser = default_pubkey, gm_token_controller = default_pubkey, gm_paused = False,
     gm_enabled_attesters = [], gm_local_domain = 0, gm_version = 0, gm_supported_tokens = [],
     gm_custody_token_account_bumps = [] \<rparr>"

definition MINTER_USED_MARKER :: bytes where "MINTER_USED_MARKER = [11, 1]"

lemma length_MINTER_USED_MARKER [simp]: "length MINTER_USED_MARKER = 2"
  by (simp add: MINTER_USED_MARKER_def)

definition minter_serialized_len :: "GatewayMinter \<Rightarrow> nat" where
  "minter_serialized_len m = 2 + (1 + 4 * 32 + 1 + (4 + 32 * length (gm_enabled_attesters m)) + 4 + 4
     + (4 + 32 * length (gm_supported_tokens m))
     + (4 + length (gm_custody_token_account_bumps m)))"

definition MINTER_SPACE :: nat where
  "MINTER_SPACE = 2 + (1 + 4 * 32 + 1 + (4 + 32 * MAX_ATTESTERS) + 4 + 4
     + (4 + 32 * MINTER_MAX_SUPPORTED_TOKENS) + (4 + MINTER_MAX_SUPPORTED_TOKENS))"

section \<open>impl GatewayMinter: tokens and attesters\<close>

type_synonym 'a minter_result = "(GatewayMinterError, 'a) result"

definition minter_is_token_supported :: "GatewayMinter \<Rightarrow> pubkey \<Rightarrow> bool" where
  "minter_is_token_supported m token_mint = (token_mint \<in> set (gm_supported_tokens m))"

definition minter_get_token_index :: "GatewayMinter \<Rightarrow> pubkey \<Rightarrow> nat option" where
  "minter_get_token_index m token_mint = position (\<lambda>t. t = token_mint) (gm_supported_tokens m)"

definition minter_add_token :: "GatewayMinter \<Rightarrow> pubkey \<Rightarrow> u8 \<Rightarrow> GatewayMinter minter_result" where
  "minter_add_token m token_mint bump =
     (if minter_is_token_supported m token_mint then Inr m
      else if length (gm_supported_tokens m) \<ge> MINTER_MAX_SUPPORTED_TOKENS
      then Inl (Custom MaxTokensSupported)
      else Inr (m\<lparr> gm_supported_tokens := gm_supported_tokens m @ [token_mint],
                  gm_custody_token_account_bumps := gm_custody_token_account_bumps m @ [bump] \<rparr>))"

definition is_attester_enabled :: "GatewayMinter \<Rightarrow> pubkey \<Rightarrow> bool" where
  "is_attester_enabled m attester = (attester \<in> set (gm_enabled_attesters m))"

definition add_attester :: "GatewayMinter \<Rightarrow> pubkey \<Rightarrow> GatewayMinter minter_result" where
  "add_attester m attester =
     (if is_attester_enabled m attester then Inr m
      else if length (gm_enabled_attesters m) \<ge> MAX_ATTESTERS
      then Inl (Custom AttesterLimitExceeded)
      else Inr (m\<lparr> gm_enabled_attesters := gm_enabled_attesters m @ [attester] \<rparr>))"

definition remove_attester :: "GatewayMinter \<Rightarrow> pubkey \<Rightarrow> GatewayMinter minter_result" where
  "remove_attester m attester =
     (case position (\<lambda>a. a = attester) (gm_enabled_attesters m) of
        None \<Rightarrow> Inr m
      | Some index \<Rightarrow> Inr (m\<lparr> gm_enabled_attesters := vec_remove (gm_enabled_attesters m) index \<rparr>))"

definition minter_get_custody_token_account_bump :: "GatewayMinter \<Rightarrow> pubkey \<Rightarrow> u8 minter_result" where
  "minter_get_custody_token_account_bump m token_mint =
     (case minter_get_token_index m token_mint of
        None \<Rightarrow> Inl (Custom TokenNotSupported)
      | Some index \<Rightarrow> index_checked (gm_custody_token_account_bumps m) index)"

end
