(* ===== verification/Ledger.thy ===== *)
theory Ledger
  imports WalletTypes MinterTypes
begin

text \<open>
  The world the two programs run in: accounts and their data, the transaction (signers, writable
  keys, slot, the instructions sysvar), program-derived addresses, and the account validation that
  Anchor generates for the \<open>#[derive(Accounts)]\<close> structs.

  What is not in the repository is a parameter, collected in the record \<open>platform\<close>: the hash
  functions, the ed25519 curve test, \<open>secp256k1_recover\<close>, the rent sysvar and the four instructions
  of the system program.  What the code relies on of the system program is the predicate
  \<open>system_program_ok\<close>.
\<close>

section \<open>Program ids\<close>

text \<open>The system program's id is the zero key; the others are the \<open>declare_id!\<close> literals in base 58.\<close>

definition SYSTEM_PROGRAM_ID :: pubkey where "SYSTEM_PROGRAM_ID = default_pubkey"

definition WALLET_PROGRAM_ID :: pubkey where
  "WALLET_PROGRAM_ID = [9, 99, 201, 21, 152, 29, 129, 107, 24, 122, 71, 87, 139, 59, 13, 219, 214,
     48, 201, 24, 245, 72, 241, 181, 112, 205, 48, 154, 56, 60, 24, 234]"

definition MINTER_PROGRAM_ID :: pubkey where
  "MINTER_PROGRAM_ID = [9, 99, 199, 218, 26, 6, 120, 239, 145, 197, 63, 73, 90, 226, 12, 208, 103,
     165, 54, 253, 11, 44, 246, 133, 3, 44, 239, 169, 120, 251, 206, 181]"

definition TOKEN_PROGRAM_ID :: pubkey where
  "TOKEN_PROGRAM_ID = [6, 221, 246, 225, 215, 101, 161, 147, 217, 203, 225, 70, 206, 235, 121, 172,
     28, 180, 133, 237, 95, 91, 55, 145, 58, 140, 245, 133, 126, 255, 0, 169]"

definition ASSOCIATED_TOKEN_PROGRAM_ID :: pubkey where
  "ASSOCIATED_TOKEN_PROGRAM_ID = [140, 151, 37, 143, 78, 36, 137, 241, 187, 61, 16, 41, 20, 142, 13,
     131, 11, 90, 19, 153, 218, 255, 16, 132, 4, 142, 123, 216, 219, 233, 248, 89]"

definition ED25519_PROGRAM_ID :: pubkey where
  "ED25519_PROGRAM_ID = [3, 125, 70, 214, 124, 147, 251, 190, 18, 249, 66, 143, 131, 141, 64, 255, 5,
     112, 116, 73, 39, 244, 138, 100, 252, 202, 112, 68, 128, 0, 0, 0]"

definition INCINERATOR_ID :: pubkey where
  "INCINERATOR_ID = [0, 51, 144, 114, 141, 52, 17, 96, 121, 189, 201, 17, 191, 255, 0, 219, 212, 77,
     46, 205, 204, 247, 156, 166, 225, 0, 56, 225, 0, 0, 0, 0]"

definition NATIVE_MINT_ID :: pubkey where
  "NATIVE_MINT_ID = [6, 155, 136, 87, 254, 171, 129, 132, 251, 104, 127, 99, 70, 24, 192, 53, 218,
     196, 57, 220, 26, 235, 59, 85, 152, 160, 240, 0, 0, 0, 0, 1]"

definition LOADER_PROGRAM_ID :: pubkey where
  "LOADER_PROGRAM_ID = [2, 168, 246, 145, 78, 136, 161, 176, 226, 16, 21, 62, 247, 99, 174, 43, 0,
     194, 185, 61, 22, 193, 36, 210, 192, 83, 122, 16, 4, 128, 0, 0]"

definition INSTRUCTIONS_SYSVAR_ID :: pubkey where
  "INSTRUCTIONS_SYSVAR_ID = [6, 167, 213, 23, 24, 123, 209, 102, 53, 218, 212, 4, 85, 253, 194, 192,
     193, 36, 198, 143, 33, 86, 117, 165, 219, 186, 203, 95, 8, 0, 0, 0]"

lemmas program_id_defs = SYSTEM_PROGRAM_ID_def WALLET_PROGRAM_ID_def MINTER_PROGRAM_ID_def
  TOKEN_PROGRAM_ID_def ASSOCIATED_TOKEN_PROGRAM_ID_def

lemma program_ids_distinct [simp]:
  "WALLET_PROGRAM_ID \<noteq> SYSTEM_PROGRAM_ID" "MINTER_PROGRAM_ID \<noteq> SYSTEM_PROGRAM_ID"
  "TOKEN_PROGRAM_ID \<noteq> SYSTEM_PROGRAM_ID" "WALLET_PROGRAM_ID \<noteq> MINTER_PROGRAM_ID"
  "WALLET_PROGRAM_ID \<noteq> TOKEN_PROGRAM_ID" "MINTER_PROGRAM_ID \<noteq> TOKEN_PROGRAM_ID"
  by (simp_all add: program_id_defs default_pubkey_list)

lemmas program_ids_distinct' [simp] = program_ids_distinct [symmetric]

section \<open>Accounts\<close>

text \<open>The SPL token program's Account and Mint.\<close>

datatype AccountState = Uninitialized | Initialized | Frozen

record TokenAccount =
  ta_mint :: pubkey
  ta_owner :: pubkey
  ta_amount :: u64
  ta_delegate :: "pubkey option"
  ta_state :: AccountState
  ta_is_native :: "u64 option"
  ta_delegated_amount :: u64
  ta_close_authority :: "pubkey option"

record Mint =
  mi_mint_authority :: "pubkey option"
  mi_supply :: u64
  mi_decimals :: u8
  mi_is_initialized :: bool
  mi_freeze_authority :: "pubkey option"

text \<open>
  Account data, typed by its layout: the Anchor accounts of both programs, the token program's three
  layouts (a multisig by its \<open>m\<close>, its \<open>n\<close> and its signers), the upgradeable loader's program and program data, and raw
  bytes for everything else (wallets, fresh accounts, the used-hash markers).
\<close>

datatype account_data =
    Raw bytes
  | WalletData GatewayWallet
  | DepositData GatewayDeposit
  | DelegateData GatewayDelegate
  | DenylistData
  | MinterData GatewayMinter
  | TokenData TokenAccount
  | MintData Mint
  | MultisigData u8 u8 "pubkey list"
  | ProgramData "pubkey option"
  | ProgramInfo pubkey

text \<open>The length of the data, and its first two bytes (all that the programs read untyped).\<close>

definition TOKEN_ACCOUNT_LEN :: nat where "TOKEN_ACCOUNT_LEN = 165"
definition MINT_LEN :: nat where "MINT_LEN = 82"
definition MULTISIG_LEN :: nat where "MULTISIG_LEN = 355"
definition PROGRAM_DATA_LEN :: nat where "PROGRAM_DATA_LEN = 45"
definition PROGRAM_INFO_LEN :: nat where "PROGRAM_INFO_LEN = 36"

fun data_len :: "account_data \<Rightarrow> nat" where
  "data_len (Raw bs) = length bs"
| "data_len (WalletData w) = WALLET_SPACE"
| "data_len (DepositData d) = DEPOSIT_SPACE"
| "data_len (DelegateData g) = DELEGATE_SPACE"
| "data_len DenylistData = DENYLIST_SPACE"
| "data_len (MinterData m) = MINTER_SPACE"
| "data_len (TokenData t) = TOKEN_ACCOUNT_LEN"
| "data_len (MintData m) = MINT_LEN"
| "data_len (MultisigData m n ks) = MULTISIG_LEN"
| "data_len (ProgramData a) = PROGRAM_DATA_LEN"
| "data_len (ProgramInfo a) = PROGRAM_INFO_LEN"

fun data_head :: "account_data \<Rightarrow> bytes" where
  "data_head (Raw bs) = take 2 bs"
| "data_head (WalletData w) = [21, 0]"
| "data_head (DepositData d) = [21, 1]"
| "data_head (DelegateData g) = [21, 2]"
| "data_head DenylistData = [21, 3]"
| "data_head (MinterData m) = [11, 0]"
| "data_head (TokenData t) = take 2 (ta_mint t)"
| "data_head (MintData m) = [if mi_mint_authority m = None then 0 else 1, 0]"
| "data_head (MultisigData m n ks) = [m, n]"
| "data_head (ProgramData a) = [3, 0]"
| "data_head (ProgramInfo a) = [2, 0]"

record account =
  acc_lamports :: u64
  acc_owner :: pubkey
  acc_data :: account_data

text \<open>An address that was never used is a system account with no lamports and no data.\<close>

type_synonym ledger = "pubkey \<Rightarrow> account"

definition empty_account :: account where
  "empty_account = \<lparr> acc_lamports = 0, acc_owner = SYSTEM_PROGRAM_ID, acc_data = Raw [] \<rparr>"

section \<open>Transactions\<close>

text \<open>
  The privileges of the message (signers and writable keys), the slot of the Clock sysvar, and the
  instructions sysvar: program id and data of each top-level instruction, and the current index.
\<close>

record transaction =
  tx_signers :: "pubkey list"
  tx_writable :: "pubkey list"
  tx_slot :: u64
  tx_instructions :: "(pubkey \<times> bytes) list"
  tx_index :: u16

section \<open>The platform parameters\<close>

record platform =
  keccak256 :: "bytes \<Rightarrow> bytes"
  sha256 :: "bytes \<Rightarrow> bytes"
  on_curve :: "bytes \<Rightarrow> bool"
  secp256k1_recover :: "bytes \<Rightarrow> u8 \<Rightarrow> bytes \<Rightarrow> bytes option"
  minimum_balance :: "nat \<Rightarrow> u64"
  sys_create_account :: "pubkey \<Rightarrow> pubkey \<Rightarrow> u64 \<Rightarrow> nat \<Rightarrow> pubkey \<Rightarrow> ledger \<Rightarrow> ledger option"
  sys_transfer :: "pubkey \<Rightarrow> pubkey \<Rightarrow> u64 \<Rightarrow> ledger \<Rightarrow> ledger option"
  sys_allocate :: "pubkey \<Rightarrow> nat \<Rightarrow> ledger \<Rightarrow> ledger option"
  sys_assign :: "pubkey \<Rightarrow> pubkey \<Rightarrow> ledger \<Rightarrow> ledger option"

text \<open>
  What the documentation of the system program's instructions promises when they succeed: only an
  unused account can be created or allocated, only a system account can be assigned away, and a
  transfer moves lamports between accounts and leaves data and owners alone.
\<close>

definition add_lamports :: "u64 \<Rightarrow> account \<Rightarrow> account" where
  "add_lamports n a = a\<lparr> acc_lamports := acc_lamports a + n \<rparr>"

definition take_lamports :: "u64 \<Rightarrow> account \<Rightarrow> account" where
  "take_lamports n a = a\<lparr> acc_lamports := acc_lamports a - n \<rparr>"

definition system_create_ok :: "platform \<Rightarrow> bool" where
  "system_create_ok pf \<longleftrightarrow> (\<forall>src dst n space owner l l'.
     sys_create_account pf src dst n space owner l = Some l' \<longrightarrow>
       acc_lamports (l dst) = 0 \<and> acc_owner (l dst) = SYSTEM_PROGRAM_ID \<and> acc_data (l dst) = Raw [] \<and>
       n \<le> acc_lamports (l src) \<and> src \<noteq> dst \<and>
       l' = l(src := take_lamports n (l src),
              dst := \<lparr> acc_lamports = n, acc_owner = owner, acc_data = Raw (replicate space 0) \<rparr>))"

definition system_transfer_ok :: "platform \<Rightarrow> bool" where
  "system_transfer_ok pf \<longleftrightarrow> (\<forall>src dst n l l'.
     sys_transfer pf src dst n l = Some l' \<longrightarrow>
       n \<le> acc_lamports (l src) \<and>
       l' = (let l1 = l(src := take_lamports n (l src)) in l1(dst := add_lamports n (l1 dst))))"

definition system_allocate_ok :: "platform \<Rightarrow> bool" where
  "system_allocate_ok pf \<longleftrightarrow> (\<forall>k space l l'.
     sys_allocate pf k space l = Some l' \<longrightarrow>
       acc_owner (l k) = SYSTEM_PROGRAM_ID \<and> acc_data (l k) = Raw [] \<and>
       l' = l(k := (l k)\<lparr> acc_data := Raw (replicate space 0) \<rparr>))"

definition system_assign_ok :: "platform \<Rightarrow> bool" where
  "system_assign_ok pf \<longleftrightarrow> (\<forall>k owner l l'.
     sys_assign pf k owner l = Some l' \<longrightarrow>
       (acc_owner (l k) = SYSTEM_PROGRAM_ID \<or> acc_owner (l k) = owner) \<and>
       l' = l(k := (l k)\<lparr> acc_owner := owner \<rparr>))"

definition system_program_ok :: "platform \<Rightarrow> bool" where
  "system_program_ok pf \<longleftrightarrow>
     system_create_ok pf \<and> system_transfer_ok pf \<and> system_allocate_ok pf \<and> system_assign_ok pf"

section \<open>Program-derived addresses\<close>

definition MAX_SEEDS :: nat where "MAX_SEEDS = 16"
definition MAX_SEED_LEN :: nat where "MAX_SEED_LEN = 32"
definition PDA_MARKER :: bytes where "PDA_MARKER = map of_char ''ProgramDerivedAddress''"

datatype PubkeyError = MaxSeedLengthExceeded | InvalidSeeds

definition create_program_address :: "platform \<Rightarrow> bytes list \<Rightarrow> pubkey \<Rightarrow> PubkeyError + pubkey" where
  "create_program_address pf seeds program_id =
     (if length seeds > MAX_SEEDS then Inl MaxSeedLengthExceeded
      else if list_ex (\<lambda>seed. length seed > MAX_SEED_LEN) seeds then Inl MaxSeedLengthExceeded
      else let h = sha256 pf (concat seeds @ program_id @ PDA_MARKER)
           in if on_curve pf h then Inl InvalidSeeds else Inr h)"

text \<open>The search loop: 255 attempts, from bump 255 down to 1.\<close>

fun try_bumps :: "platform \<Rightarrow> bytes list \<Rightarrow> pubkey \<Rightarrow> nat \<Rightarrow> (pubkey \<times> u8) option" where
  "try_bumps pf seeds program_id 0 = None"
| "try_bumps pf seeds program_id (Suc n) =
     (case create_program_address pf (seeds @ [[word_of_nat (Suc n)]]) program_id of
        Inr address \<Rightarrow> Some (address, word_of_nat (Suc n))
      | Inl InvalidSeeds \<Rightarrow> try_bumps pf seeds program_id n
      | Inl MaxSeedLengthExceeded \<Rightarrow> None)"

definition find_program_address ::
    "platform \<Rightarrow> bytes list \<Rightarrow> pubkey \<Rightarrow> ('e, pubkey \<times> u8) result" where
  "find_program_address pf seeds program_id =
     ok_or (try_bumps pf seeds program_id 255) (Panic NoViableBump)"

definition get_associated_token_address :: "platform \<Rightarrow> pubkey \<Rightarrow> pubkey \<Rightarrow> ('e, pubkey) result" where
  "get_associated_token_address pf wallet mint =
     and_then (find_program_address pf [wallet, TOKEN_PROGRAM_ID, mint] ASSOCIATED_TOKEN_PROGRAM_ID)
       (\<lambda>(address, _). Inr address)"

text \<open>The bump found is never zero, and re-deriving with it gives the same address.\<close>

lemma try_bumps_Some:
  "try_bumps pf seeds pid n = Some (a, b) \<Longrightarrow> n < 256 \<Longrightarrow>
     b \<noteq> 0 \<and> create_program_address pf (seeds @ [[b]]) pid = Inr a"
proof (induction n)
  case (Suc n)
  have "word_of_nat (Suc n) \<noteq> (0 :: u8)"
    using Suc.prems(2) by (simp only: word_of_nat_eq_0_iff) (auto dest: dvd_imp_le)
  with Suc show ?case by (auto split: sum.splits PubkeyError.splits)
qed simp

lemma find_program_address_Inr [result_simps]:
  "find_program_address pf seeds pid = Inr r \<longleftrightarrow> try_bumps pf seeds pid 255 = Some r"
  by (simp add: find_program_address_def result_simps)

lemma canonical_bump:
  "try_bumps pf seeds pid 255 = Some (a, b) \<Longrightarrow>
     b \<noteq> 0 \<and> create_program_address pf (seeds @ [[b]]) pid = Inr a"
  by (simp add: try_bumps_Some)

section \<open>Anchor's account validation\<close>

text \<open>
  The checks that \<open>anchor-syn\<close> generates, in the vocabulary of the handlers.  A field of an accounts
  struct is deserialised first (in field order, \<open>init\<close> fields excepted); the constraints of \<open>init\<close>
  fields run next, then those of the other fields in order, each field's in the order seeds,
  associated token, \<open>mut\<close>, \<open>has_one\<close>, \<open>constraint\<close>, \<open>close\<close>, address, token.
\<close>

definition load_signer :: "transaction \<Rightarrow> pubkey \<Rightarrow> ('e, unit) result" where
  "load_signer tx k = require (k \<in> set (tx_signers tx)) (Anchor AccountNotSigner)"

definition load_program :: "pubkey \<Rightarrow> pubkey \<Rightarrow> ('e, unit) result" where
  "load_program k program_id = require (k = program_id) (Anchor InvalidProgramId)"

text \<open>
  \<open>Account::try_from\<close>.  \<open>T::try_deserialize\<close> is given by the typed view of the data and by the error it reports
  for data that is no \<open>T\<close>.
\<close>

definition load_account ::
    "pubkey \<Rightarrow> (account_data \<Rightarrow> 'a option) \<Rightarrow> (account_data \<Rightarrow> 'e failure) \<Rightarrow> account \<Rightarrow> ('e, 'a) result" where
  "load_account program_id deserialize err a =
     (if acc_owner a = SYSTEM_PROGRAM_ID \<and> acc_lamports a = 0 then Inl (Anchor AccountNotInitialized)
      else if acc_owner a \<noteq> program_id then Inl (Anchor AccountOwnedByWrongProgram)
      else ok_or (deserialize (acc_data a)) (err (acc_data a)))"

text \<open>
  An account type of the programs reports the missing or the wrong discriminator, and one of the token program
  data of another length or an uninitialised account.
\<close>

definition discriminator_error :: "account_data \<Rightarrow> 'e failure" where
  "discriminator_error x =
     Anchor (if data_len x < 2 then AccountDiscriminatorNotFound else AccountDiscriminatorMismatch)"

definition unpack_error :: "nat \<Rightarrow> account_data \<Rightarrow> 'e failure" where
  "unpack_error len x = Token (if data_len x = len then UninitializedTokenAccount else InvalidTokenAccountData)"

fun as_wallet :: "account_data \<Rightarrow> GatewayWallet option" where
  "as_wallet (WalletData w) = Some w" | "as_wallet _ = None"
fun as_deposit :: "account_data \<Rightarrow> GatewayDeposit option" where
  "as_deposit (DepositData d) = Some d" | "as_deposit _ = None"
fun as_delegate :: "account_data \<Rightarrow> GatewayDelegate option" where
  "as_delegate (DelegateData g) = Some g" | "as_delegate _ = None"
fun as_denylist :: "account_data \<Rightarrow> unit option" where
  "as_denylist DenylistData = Some ()" | "as_denylist _ = None"
fun as_minter :: "account_data \<Rightarrow> GatewayMinter option" where
  "as_minter (MinterData m) = Some m" | "as_minter _ = None"
fun as_token :: "account_data \<Rightarrow> TokenAccount option" where
  "as_token (TokenData t) = (if ta_state t = Uninitialized then None else Some t)"
| "as_token _ = None"
fun as_mint :: "account_data \<Rightarrow> Mint option" where
  "as_mint (MintData m) = (if mi_is_initialized m then Some m else None)" | "as_mint _ = None"
fun as_program_data :: "account_data \<Rightarrow> pubkey option option" where
  "as_program_data (ProgramData a) = Some a" | "as_program_data _ = None"
fun as_program_info :: "account_data \<Rightarrow> pubkey option" where
  "as_program_info (ProgramInfo a) = Some a" | "as_program_info _ = None"

definition load_wallet :: "ledger \<Rightarrow> pubkey \<Rightarrow> ('e, GatewayWallet) result" where
  "load_wallet l k = load_account WALLET_PROGRAM_ID as_wallet discriminator_error (l k)"
definition load_deposit :: "ledger \<Rightarrow> pubkey \<Rightarrow> ('e, GatewayDeposit) result" where
  "load_deposit l k = load_account WALLET_PROGRAM_ID as_deposit discriminator_error (l k)"
definition load_delegate :: "ledger \<Rightarrow> pubkey \<Rightarrow> ('e, GatewayDelegate) result" where
  "load_delegate l k = load_account WALLET_PROGRAM_ID as_delegate discriminator_error (l k)"
definition load_denylist :: "ledger \<Rightarrow> pubkey \<Rightarrow> ('e, unit) result" where
  "load_denylist l k = load_account WALLET_PROGRAM_ID as_denylist discriminator_error (l k)"
definition load_minter :: "ledger \<Rightarrow> pubkey \<Rightarrow> ('e, GatewayMinter) result" where
  "load_minter l k = load_account MINTER_PROGRAM_ID as_minter discriminator_error (l k)"
definition load_token :: "ledger \<Rightarrow> pubkey \<Rightarrow> ('e, TokenAccount) result" where
  "load_token l k = load_account TOKEN_PROGRAM_ID as_token (unpack_error TOKEN_ACCOUNT_LEN) (l k)"
definition load_mint :: "ledger \<Rightarrow> pubkey \<Rightarrow> ('e, Mint) result" where
  "load_mint l k = load_account TOKEN_PROGRAM_ID as_mint (unpack_error MINT_LEN) (l k)"

definition check_mut :: "transaction \<Rightarrow> pubkey \<Rightarrow> ('e, unit) result" where
  "check_mut tx k = require (k \<in> set (tx_writable tx)) (Anchor ConstraintMut)"

text \<open>\<open>seeds = [...], bump = b\<close>: the address is re-derived with the given bump.\<close>

definition check_seeds_bump ::
    "platform \<Rightarrow> pubkey \<Rightarrow> pubkey \<Rightarrow> bytes list \<Rightarrow> u8 \<Rightarrow> ('e, unit) result" where
  "check_seeds_bump pf program_id k seeds bump =
     (case create_program_address pf (seeds @ [[bump]]) program_id of
        Inl _ \<Rightarrow> Inl (Anchor ConstraintSeeds)
      | Inr address \<Rightarrow> require (k = address) (Anchor ConstraintSeeds))"

text \<open>\<open>seeds = [...], bump\<close>: the canonical bump is searched for and stored in \<open>ctx.bumps\<close>.\<close>

definition check_seeds_find ::
    "platform \<Rightarrow> pubkey \<Rightarrow> pubkey \<Rightarrow> bytes list \<Rightarrow> ('e, u8) result" where
  "check_seeds_find pf program_id k seeds =
     and_then (find_program_address pf seeds program_id) (\<lambda>(address, bump).
     and_then (require (k = address) (Anchor ConstraintSeeds)) (\<lambda>_. Inr bump))"

definition check_token_owner :: "TokenAccount \<Rightarrow> pubkey \<Rightarrow> ('e, unit) result" where
  "check_token_owner t authority = require (ta_owner t = authority) (Anchor ConstraintTokenOwner)"

definition check_token_mint :: "TokenAccount \<Rightarrow> pubkey \<Rightarrow> ('e, unit) result" where
  "check_token_mint t mint = require (ta_mint t = mint) (Anchor ConstraintTokenMint)"

lemma load_signer_Inr [result_simps]: "load_signer tx k = Inr u \<longleftrightarrow> k \<in> set (tx_signers tx)"
  by (simp add: load_signer_def result_simps)

lemma load_program_Inr [result_simps]: "load_program k p = Inr u \<longleftrightarrow> k = p"
  by (simp add: load_program_def result_simps)

lemma load_account_Inr [result_simps]:
  "p \<noteq> SYSTEM_PROGRAM_ID \<Longrightarrow>
     load_account p f err a = Inr x \<longleftrightarrow> acc_owner a = p \<and> f (acc_data a) = Some x"
  by (auto simp: load_account_def result_simps)

lemma check_mut_Inr [result_simps]: "check_mut tx k = Inr u \<longleftrightarrow> k \<in> set (tx_writable tx)"
  by (simp add: check_mut_def result_simps)

lemma check_seeds_bump_Inr [result_simps]:
  "check_seeds_bump pf p k seeds b = Inr u \<longleftrightarrow> create_program_address pf (seeds @ [[b]]) p = Inr k"
  by (auto simp: check_seeds_bump_def result_simps split: sum.splits)

lemma check_seeds_find_Inr [result_simps]:
  "check_seeds_find pf p k seeds = Inr b \<longleftrightarrow> try_bumps pf seeds p 255 = Some (k, b)"
  by (auto simp: check_seeds_find_def result_simps)

lemma check_token_Inr [result_simps]:
  "check_token_owner t a = Inr u \<longleftrightarrow> ta_owner t = a"
  "check_token_mint t m = Inr u \<longleftrightarrow> ta_mint t = m"
  by (simp_all add: check_token_owner_def check_token_mint_def result_simps)

lemma as_data_Some [result_simps]:
  "as_wallet x = Some w \<longleftrightarrow> x = WalletData w" "as_deposit x = Some d \<longleftrightarrow> x = DepositData d"
  "as_delegate x = Some g \<longleftrightarrow> x = DelegateData g" "as_denylist x = Some u \<longleftrightarrow> x = DenylistData"
  "as_minter x = Some m \<longleftrightarrow> x = MinterData m"
  "as_token x = Some t \<longleftrightarrow> x = TokenData t \<and> ta_state t \<noteq> Uninitialized"
  "as_mint x = Some mi \<longleftrightarrow> x = MintData mi \<and> mi_is_initialized mi"
  "as_program_data x = Some pd \<longleftrightarrow> x = ProgramData pd"
  "as_program_info x = Some pi \<longleftrightarrow> x = ProgramInfo pi"
  by (cases x; auto)+

lemma load_typed_Inr [result_simps]:
  "load_wallet l k = Inr w \<longleftrightarrow> acc_owner (l k) = WALLET_PROGRAM_ID \<and> acc_data (l k) = WalletData w"
  "load_deposit l k = Inr d \<longleftrightarrow> acc_owner (l k) = WALLET_PROGRAM_ID \<and> acc_data (l k) = DepositData d"
  "load_delegate l k = Inr g \<longleftrightarrow> acc_owner (l k) = WALLET_PROGRAM_ID \<and> acc_data (l k) = DelegateData g"
  "load_denylist l k = Inr u \<longleftrightarrow> acc_owner (l k) = WALLET_PROGRAM_ID \<and> acc_data (l k) = DenylistData"
  "load_minter l k = Inr m \<longleftrightarrow> acc_owner (l k) = MINTER_PROGRAM_ID \<and> acc_data (l k) = MinterData m"
  "load_token l k = Inr t \<longleftrightarrow>
     acc_owner (l k) = TOKEN_PROGRAM_ID \<and> acc_data (l k) = TokenData t \<and> ta_state t \<noteq> Uninitialized"
  "load_mint l k = Inr mi \<longleftrightarrow>
     acc_owner (l k) = TOKEN_PROGRAM_ID \<and> acc_data (l k) = MintData mi \<and> mi_is_initialized mi"
  by (simp_all add: load_wallet_def load_deposit_def load_delegate_def load_denylist_def
      load_minter_def load_token_def load_mint_def result_simps)

end
