(* ===== verification/TokenProgram.thy ===== *)
theory TokenProgram
  imports Ledger
begin

text \<open>
  The three instructions of the SPL token program that the gateway programs reach by CPI: Transfer,
  Burn and InitializeAccount3, translated from the vendored processor, and the CPI layer (privilege
  check, PDA signer seeds).  The lemmas give the exact effect of a successful transfer and burn on the
  ledger; \<open>amount_at\<close> reads a token balance.
\<close>

section \<open>The processor\<close>

definition unpack_token :: "ledger \<Rightarrow> pubkey \<Rightarrow> ('e, TokenAccount) result" where
  "unpack_token l k = ok_or (as_token (acc_data (l k))) (unpack_error TOKEN_ACCOUNT_LEN (acc_data (l k)))"

definition unpack_mint :: "ledger \<Rightarrow> pubkey \<Rightarrow> ('e, Mint) result" where
  "unpack_mint l k = ok_or (as_mint (acc_data (l k))) (unpack_error MINT_LEN (acc_data (l k)))"

text \<open>
  Writing account data: the runtime rejects a change to an account the token program does not own
  (the processor itself checks the owner only where the data may be unchanged).
\<close>

definition write_token_data :: "pubkey \<Rightarrow> account_data \<Rightarrow> ledger \<Rightarrow> ('e, ledger) result" where
  "write_token_data k x l =
     and_then (require (acc_owner (l k) = TOKEN_PROGRAM_ID) (Token IncorrectProgramId)) (\<lambda>_.
     Inr (l(k := (l k)\<lparr> acc_data := x \<rparr>)))"

text \<open>
  \<open>validate_owner\<close>: the owner signed, or it is a multisig of the token program and enough of its keys
  are among the additional accounts, which must have signed.  \<open>matched\<close> marks the keys already counted.
\<close>

definition match_signer ::
    "pubkey list \<Rightarrow> pubkey \<Rightarrow> nat \<times> pubkey \<Rightarrow> bool list \<times> nat \<Rightarrow> ('e, bool list \<times> nat) result" where
  "match_signer signers signer = (\<lambda>(position, key) (matched, num_signers).
     if key = signer \<and> \<not> matched ! position
     then and_then (require (signer \<in> set signers) (Token MissingRequiredSignature)) (\<lambda>_.
          Inr (matched[position := True], num_signers + 1))
     else Inr (matched, num_signers))"

definition count_signers :: "pubkey list \<Rightarrow> pubkey list \<Rightarrow> pubkey list \<Rightarrow> ('e, nat) result" where
  "count_signers signers additional keys =
     and_then (fold_result (\<lambda>signer. fold_result (match_signer signers signer) (enumerate 0 keys)) additional
                 (replicate (length keys) False, 0)) (\<lambda>(matched, num_signers). Inr num_signers)"

definition validate_owner :: "pubkey list \<Rightarrow> pubkey list \<Rightarrow> ledger \<Rightarrow> pubkey \<Rightarrow> pubkey \<Rightarrow> ('e, unit) result" where
  "validate_owner signers additional l expected_owner authority =
     and_then (require (expected_owner = authority) (Token OwnerMismatch)) (\<lambda>_.
     if acc_owner (l authority) = TOKEN_PROGRAM_ID \<and> data_len (acc_data (l authority)) = MULTISIG_LEN
     then (case acc_data (l authority) of
             MultisigData m n keys \<Rightarrow>
               and_then (count_signers signers additional (take (unat n) keys)) (\<lambda>num_signers.
               require (unat m \<le> num_signers) (Token MissingRequiredSignature))
           | _ \<Rightarrow> Inl (Token UninitializedTokenAccount))
     else require (authority \<in> set signers) (Token MissingRequiredSignature))"

text \<open>
  The authority check of transfer and burn: a delegate is bounded by its delegated amount, which it
  uses up; otherwise the owner must sign.  Returns the source account after the delegation update.
\<close>

definition authorize_source ::
    "pubkey list \<Rightarrow> pubkey list \<Rightarrow> ledger \<Rightarrow> TokenAccount \<Rightarrow> pubkey \<Rightarrow> u64 \<Rightarrow> bool \<Rightarrow> ('e, TokenAccount) result" where
  "authorize_source signers additional l source authority amount keep_delegation =
     (if ta_delegate source = Some authority
      then and_then (validate_owner signers additional l authority authority) (\<lambda>_.
           and_then (require (amount \<le> ta_delegated_amount source) (Token InsufficientFunds)) (\<lambda>_.
           let left = ta_delegated_amount source - amount in
           Inr (if keep_delegation then source
                else source\<lparr> ta_delegated_amount := left,
                             ta_delegate := (if left = 0 then None else ta_delegate source) \<rparr>)))
      else and_then (validate_owner signers additional l (ta_owner source) authority) (\<lambda>_. Inr source))"

text \<open>The \<open>Checked\<close> instructions name the decimals they expect, and transfer and approve also the mint.\<close>

definition check_decimals :: "u8 option \<Rightarrow> Mint \<Rightarrow> ('e, unit) result" where
  "check_decimals expected mint = (case expected of
     None \<Rightarrow> Inr () | Some decimals \<Rightarrow> require (decimals = mi_decimals mint) (Token MintDecimalsMismatch))"

definition check_expected_mint :: "(pubkey \<times> u8) option \<Rightarrow> TokenAccount \<Rightarrow> ledger \<Rightarrow> ('e, unit) result" where
  "check_expected_mint expected source l = (case expected of
     None \<Rightarrow> Inr ()
   | Some (mint_key, decimals) \<Rightarrow>
       and_then (require (mint_key = ta_mint source) (Token MintMismatch)) (\<lambda>_.
       and_then (unpack_mint l mint_key) (\<lambda>mint. check_decimals (Some decimals) mint)))"

text \<open>A native (wrapped SOL) account moves its lamports along with the tokens.\<close>

definition move_native_lamports ::
    "TokenAccount \<Rightarrow> pubkey \<Rightarrow> pubkey \<Rightarrow> u64 \<Rightarrow> ledger \<Rightarrow> ('e, ledger) result" where
  "move_native_lamports source source_key destination_key amount l =
     (if ta_is_native source \<noteq> None
      then and_then (require (amount \<le> acc_lamports (l source_key) \<and>
              unat (acc_lamports (l destination_key)) + unat amount < 2 ^ 64) (Token Overflow)) (\<lambda>_.
           Inr (l(source_key := take_lamports amount (l source_key),
                  destination_key := add_lamports amount (l destination_key))))
      else Inr l)"

definition process_transfer ::
    "pubkey list \<Rightarrow> pubkey list \<Rightarrow> (pubkey \<times> u8) option \<Rightarrow> pubkey \<Rightarrow> pubkey \<Rightarrow> pubkey \<Rightarrow> u64 \<Rightarrow> ledger \<Rightarrow>
     ('e, ledger) result" where
  "process_transfer signers additional expected source_key destination_key authority amount l =
     and_then (unpack_token l source_key) (\<lambda>source.
     and_then (unpack_token l destination_key) (\<lambda>destination.
     and_then (require (ta_state source \<noteq> Frozen \<and> ta_state destination \<noteq> Frozen)
        (Token AccountFrozen)) (\<lambda>_.
     and_then (require (amount \<le> ta_amount source) (Token InsufficientFunds)) (\<lambda>_.
     and_then (require (ta_mint source = ta_mint destination) (Token MintMismatch)) (\<lambda>_.
     and_then (check_expected_mint expected source l) (\<lambda>_.
     let self_transfer = (source_key = destination_key) in
     and_then (authorize_source signers additional l source authority amount self_transfer) (\<lambda>source.
     and_then (if self_transfer \<or> amount = 0
               then require (acc_owner (l source_key) = TOKEN_PROGRAM_ID \<and>
                             acc_owner (l destination_key) = TOKEN_PROGRAM_ID) (Token IncorrectProgramId)
               else Inr ()) (\<lambda>_.
     if self_transfer then Inr l
     else
       and_then (require (unat (ta_amount destination) + unat amount < 2 ^ 64) (Token Overflow)) (\<lambda>_.
       and_then (move_native_lamports source source_key destination_key amount l) (\<lambda>l.
       and_then (write_token_data source_key
                   (TokenData (source\<lparr> ta_amount := ta_amount source - amount \<rparr>)) l) (\<lambda>l.
       write_token_data destination_key
         (TokenData (destination\<lparr> ta_amount := ta_amount destination + amount \<rparr>)) l)))))))))))"

definition process_burn ::
    "pubkey list \<Rightarrow> pubkey list \<Rightarrow> u8 option \<Rightarrow> pubkey \<Rightarrow> pubkey \<Rightarrow> pubkey \<Rightarrow> u64 \<Rightarrow> ledger \<Rightarrow> ('e, ledger) result" where
  "process_burn signers additional expected_decimals source_key mint_key authority amount l =
     and_then (unpack_token l source_key) (\<lambda>source.
     and_then (unpack_mint l mint_key) (\<lambda>mint.
     and_then (require (ta_state source \<noteq> Frozen) (Token AccountFrozen)) (\<lambda>_.
     and_then (require (ta_is_native source = None) (Token NativeNotSupported)) (\<lambda>_.
     and_then (require (amount \<le> ta_amount source) (Token InsufficientFunds)) (\<lambda>_.
     and_then (require (mint_key = ta_mint source) (Token MintMismatch)) (\<lambda>_.
     and_then (check_decimals expected_decimals mint) (\<lambda>_.
     and_then (if ta_owner source = SYSTEM_PROGRAM_ID \<or> ta_owner source = INCINERATOR_ID
               then Inr source
               else authorize_source signers additional l source authority amount False) (\<lambda>source.
     and_then (if amount = 0
               then require (acc_owner (l source_key) = TOKEN_PROGRAM_ID \<and>
                             acc_owner (l mint_key) = TOKEN_PROGRAM_ID) (Token IncorrectProgramId)
               else Inr ()) (\<lambda>_.
     and_then (require (amount \<le> mi_supply mint) (Token Overflow)) (\<lambda>_.
     and_then (write_token_data source_key
                 (TokenData (source\<lparr> ta_amount := ta_amount source - amount \<rparr>)) l) (\<lambda>l.
     write_token_data mint_key (MintData (mint\<lparr> mi_supply := mi_supply mint - amount \<rparr>)) l)))))))))))"

text \<open>
  Initialisation of a token account.  The data of an account of the token program is zeroed until it is
  initialised, since nobody else writes it, so \<open>is_initialized\<close> is false exactly of zeroes.
\<close>

definition is_zeroed_token_account :: "account_data \<Rightarrow> bool" where
  "is_zeroed_token_account x = (x = Raw (replicate TOKEN_ACCOUNT_LEN 0))"

definition process_initialize_account3 ::
    "platform \<Rightarrow> pubkey \<Rightarrow> pubkey \<Rightarrow> pubkey \<Rightarrow> ledger \<Rightarrow> ('e, ledger) result" where
  "process_initialize_account3 pf k mint_key owner l =
     and_then (require (data_len (acc_data (l k)) = TOKEN_ACCOUNT_LEN) (Token InvalidTokenAccountData)) (\<lambda>_.
     and_then (require (is_zeroed_token_account (acc_data (l k))) (Token AlreadyInUse)) (\<lambda>_.
     let reserve = minimum_balance pf TOKEN_ACCOUNT_LEN; native = (mint_key = NATIVE_MINT_ID) in
     and_then (require (reserve \<le> acc_lamports (l k)) (Token NotRentExempt)) (\<lambda>_.
     and_then (if native then Inr ()
               else and_then (require (acc_owner (l mint_key) = TOKEN_PROGRAM_ID)
                                (Token IncorrectProgramId)) (\<lambda>_.
                    require (as_mint (acc_data (l mint_key)) \<noteq> None) (Token InvalidMint))) (\<lambda>_.
     write_token_data k (TokenData \<lparr> ta_mint = mint_key, ta_owner = owner,
       ta_amount = (if native then acc_lamports (l k) - reserve else 0), ta_delegate = None,
       ta_state = Initialized, ta_is_native = (if native then Some reserve else None),
       ta_delegated_amount = 0, ta_close_authority = None \<rparr>) l))))"

section \<open>Cross-program invocation\<close>

text \<open>
  \<open>invoke_signed\<close>: the seeds of each signer derive a PDA of the calling program, which joins the
  transaction's signers; every account the instruction wants to write must be writable in the
  transaction, and every signer it names must have signed.
\<close>

definition cpi_signers ::
    "platform \<Rightarrow> pubkey \<Rightarrow> transaction \<Rightarrow> bytes list option \<Rightarrow> ('e, pubkey list) result" where
  "cpi_signers pf program_id tx seeds =
     (case seeds of
        None \<Rightarrow> Inr (tx_signers tx)
      | Some s \<Rightarrow> (case create_program_address pf s program_id of
                     Inl _ \<Rightarrow> Inl (Runtime InvalidSignerSeeds)
                   | Inr k \<Rightarrow> Inr (k # tx_signers tx)))"

definition check_privileges ::
    "transaction \<Rightarrow> pubkey list \<Rightarrow> pubkey list \<Rightarrow> pubkey list \<Rightarrow> ('e, unit) result" where
  "check_privileges tx signers need_sign need_write =
     require (list_all (\<lambda>k. k \<in> set signers) need_sign \<and>
              list_all (\<lambda>k. k \<in> set (tx_writable tx)) need_write) (Runtime PrivilegeEscalation)"

definition token_transfer ::
    "platform \<Rightarrow> pubkey \<Rightarrow> transaction \<Rightarrow> bytes list option \<Rightarrow> pubkey \<Rightarrow> pubkey \<Rightarrow> pubkey \<Rightarrow> u64 \<Rightarrow>
     ledger \<Rightarrow> ('e, ledger) result" where
  "token_transfer pf program_id tx seeds src dst authority amount l =
     and_then (cpi_signers pf program_id tx seeds) (\<lambda>signers.
     and_then (check_privileges tx signers [authority] [src, dst]) (\<lambda>_.
     process_transfer signers [] None src dst authority amount l))"

definition token_burn ::
    "platform \<Rightarrow> pubkey \<Rightarrow> transaction \<Rightarrow> bytes list option \<Rightarrow> pubkey \<Rightarrow> pubkey \<Rightarrow> pubkey \<Rightarrow> u64 \<Rightarrow>
     ledger \<Rightarrow> ('e, ledger) result" where
  "token_burn pf program_id tx seeds mint src authority amount l =
     and_then (cpi_signers pf program_id tx seeds) (\<lambda>signers.
     and_then (check_privileges tx signers [authority] [src, mint]) (\<lambda>_.
     process_burn signers [] None src mint authority amount l))"

section \<open>Effects\<close>

definition amount_at :: "ledger \<Rightarrow> pubkey \<Rightarrow> nat" where
  "amount_at l k = (case acc_data (l k) of TokenData t \<Rightarrow> unat (ta_amount t) | _ \<Rightarrow> 0)"

definition supply_at :: "ledger \<Rightarrow> pubkey \<Rightarrow> nat" where
  "supply_at l k = (case acc_data (l k) of MintData m \<Rightarrow> unat (mi_supply m) | _ \<Rightarrow> 0)"

text \<open>
  Two ledgers agree up to token balances: outside the token program's accounts nothing changed but
  lamports, and a token account keeps its mint, owner and state.
\<close>

definition same_token_identity :: "account_data \<Rightarrow> account_data \<Rightarrow> bool" where
  "same_token_identity x y =
     (case x of
        TokenData t \<Rightarrow> (case y of TokenData u \<Rightarrow>
            ta_mint u = ta_mint t \<and> ta_owner u = ta_owner t \<and> ta_state u = ta_state t \<and>
            ta_is_native u = ta_is_native t \<and> ta_close_authority u = ta_close_authority t \<and>
            (ta_delegate t = None \<longrightarrow> ta_delegate u = None)
            | _ \<Rightarrow> False)
      | MintData m \<Rightarrow> (case y of MintData n \<Rightarrow>
            mi_is_initialized n = mi_is_initialized m \<and> mi_mint_authority n = mi_mint_authority m
            | _ \<Rightarrow> False)
      | _ \<Rightarrow> y = x)"

definition only_tokens_moved :: "ledger \<Rightarrow> ledger \<Rightarrow> bool" where
  "only_tokens_moved l l' \<longleftrightarrow>
     (\<forall>k. acc_owner (l' k) = acc_owner (l k) \<and> same_token_identity (acc_data (l k)) (acc_data (l' k)) \<and>
          (acc_owner (l k) \<noteq> TOKEN_PROGRAM_ID \<longrightarrow> l' k = l k))"

lemma same_token_identity_refl [simp]: "same_token_identity x x"
  by (cases x) (auto simp: same_token_identity_def)

lemma same_token_identity_trans:
  "same_token_identity x y \<Longrightarrow> same_token_identity y z \<Longrightarrow> same_token_identity x z"
  by (cases x) (auto simp: same_token_identity_def split: account_data.splits)

lemma only_tokens_moved_refl [simp]: "only_tokens_moved l l"
  by (simp add: only_tokens_moved_def)

lemma only_tokens_moved_trans:
  "only_tokens_moved l l' \<Longrightarrow> only_tokens_moved l' l'' \<Longrightarrow> only_tokens_moved l l''"
  unfolding only_tokens_moved_def by (metis same_token_identity_trans)

lemma authorize_source_same:
  "authorize_source sg ad l t a n keep = Inr t' \<Longrightarrow>
     ta_mint t' = ta_mint t \<and> ta_owner t' = ta_owner t \<and> ta_state t' = ta_state t \<and>
     ta_amount t' = ta_amount t \<and> ta_is_native t' = ta_is_native t \<and>
     ta_close_authority t' = ta_close_authority t \<and>
     (ta_delegate t = None \<longrightarrow> ta_delegate t' = None)"
  by (auto simp: authorize_source_def Let_def result_simps split: if_splits)

text \<open>A transfer's authority signed: it is the owner, or a delegate of the source.\<close>

lemma authorize_source_authority:
  "authorize_source sg ad l t a n keep = Inr t' \<Longrightarrow> ta_delegate t = Some a \<or> ta_owner t = a"
  by (auto simp: authorize_source_def validate_owner_def result_simps split: if_splits)

lemma write_token_data_Inr [result_simps]:
  "write_token_data k x l = Inr l' \<longleftrightarrow>
     acc_owner (l k) = TOKEN_PROGRAM_ID \<and> l' = l(k := (l k)\<lparr> acc_data := x \<rparr>)"
  by (auto simp: write_token_data_def result_simps)

lemma unpack_Inr [result_simps]:
  "unpack_token l k = Inr t \<longleftrightarrow> acc_data (l k) = TokenData t \<and> ta_state t \<noteq> Uninitialized"
  "unpack_mint l k = Inr m \<longleftrightarrow> acc_data (l k) = MintData m \<and> mi_is_initialized m"
  by (simp_all add: unpack_token_def unpack_mint_def result_simps)

lemma lamports_simps [simp]:
  "acc_owner (take_lamports n a) = acc_owner a" "acc_data (take_lamports n a) = acc_data a"
  "acc_owner (add_lamports n a) = acc_owner a" "acc_data (add_lamports n a) = acc_data a"
  by (simp_all add: take_lamports_def add_lamports_def)

text \<open>
  A successful transfer or burn, field by field: \<open>transferred l src dst a n l'\<close> says that \<open>n\<close> left
  \<open>src\<close> for \<open>dst\<close> under authority \<open>a\<close> and nothing else moved.
\<close>

definition same_account_identity :: "TokenAccount \<Rightarrow> TokenAccount \<Rightarrow> bool" where
  "same_account_identity t u \<longleftrightarrow> ta_mint u = ta_mint t \<and> ta_owner u = ta_owner t \<and>
     ta_state u = ta_state t \<and> ta_is_native u = ta_is_native t \<and>
     ta_close_authority u = ta_close_authority t \<and> (ta_delegate t = None \<longrightarrow> ta_delegate u = None)"

definition transferred :: "ledger \<Rightarrow> pubkey \<Rightarrow> pubkey \<Rightarrow> pubkey \<Rightarrow> u64 \<Rightarrow> ledger \<Rightarrow> bool" where
  "transferred l src dst a n l' \<longleftrightarrow> (\<exists>s d s' d'.
     acc_data (l src) = TokenData s \<and> acc_data (l dst) = TokenData d \<and>
     acc_data (l' src) = TokenData s' \<and> acc_data (l' dst) = TokenData d' \<and>
     same_account_identity s s' \<and> same_account_identity d d' \<and>
     ta_state s \<noteq> Frozen \<and> ta_mint s = ta_mint d \<and> n \<le> ta_amount s \<and>
     (ta_delegate s = Some a \<or> ta_owner s = a) \<and>
     (src \<noteq> dst \<longrightarrow> unat (ta_amount s') + unat n = unat (ta_amount s) \<and>
                  unat (ta_amount d') = unat (ta_amount d) + unat n) \<and>
     (src = dst \<longrightarrow> l' = l)) \<and>
   acc_owner (l src) = TOKEN_PROGRAM_ID \<and> acc_owner (l dst) = TOKEN_PROGRAM_ID \<and>
   (\<forall>k. acc_owner (l' k) = acc_owner (l k)) \<and> (\<forall>k. k \<noteq> src \<and> k \<noteq> dst \<longrightarrow> l' k = l k)"

lemma move_native_lamports_frame:
  "move_native_lamports t src dst n l = Inr m \<Longrightarrow> src \<noteq> dst \<Longrightarrow>
     acc_owner (m k) = acc_owner (l k) \<and> acc_data (m k) = acc_data (l k) \<and>
     (k \<noteq> src \<longrightarrow> k \<noteq> dst \<longrightarrow> m k = l k)"
  by (auto simp: move_native_lamports_def result_simps split: if_splits)

lemma process_transfer_transferred:
  assumes "process_transfer sg ad ex src dst a n l = (Inr l' :: ('e, ledger) result)"
  shows "transferred l src dst a n l'"
proof (cases "src = dst")
  case True
  from assms obtain s where "acc_data (l dst) = TokenData s" "l' = l" "ta_state s \<noteq> Frozen"
      "n \<le> ta_amount s" "acc_owner (l dst) = TOKEN_PROGRAM_ID"
      "ta_delegate s = Some a \<or> ta_owner s = a"
    unfolding True process_transfer_def Let_def
    by (auto simp: result_simps dest: authorize_source_authority)
  with True show ?thesis
    by (auto simp: transferred_def same_account_identity_def)
next
  case False
  from assms False obtain s d s' m where *:
    "acc_data (l src) = TokenData s" "acc_data (l dst) = TokenData d" "ta_state s \<noteq> Frozen"
    "n \<le> ta_amount s" "ta_mint s = ta_mint d" "unat (ta_amount d) + unat n < 2 ^ 64"
    and auth: "authorize_source sg ad l s a n False = (Inr s' :: ('e, TokenAccount) result)"
    and native: "move_native_lamports s' src dst n l = (Inr m :: ('e, ledger) result)"
    and w: "acc_owner (m src) = TOKEN_PROGRAM_ID" "acc_owner (m dst) = TOKEN_PROGRAM_ID"
    "l' = m(src := (m src)\<lparr> acc_data := TokenData (s'\<lparr> ta_amount := ta_amount s' - n \<rparr>) \<rparr>,
            dst := (m dst)\<lparr> acc_data := TokenData (d\<lparr> ta_amount := ta_amount d + n \<rparr>) \<rparr>)"
    unfolding process_transfer_def Let_def by (auto simp: result_simps)
  note m = move_native_lamports_frame [OF native False]
  note s' = authorize_source_same [OF auth] authorize_source_authority [OF auth]
  from w m have own: "acc_owner (l src) = TOKEN_PROGRAM_ID" "acc_owner (l dst) = TOKEN_PROGRAM_ID"
    "\<And>k. acc_owner (l' k) = acc_owner (l k)" "\<And>k. k \<noteq> src \<Longrightarrow> k \<noteq> dst \<Longrightarrow> l' k = l k"
    by simp_all
  let ?s = "s'\<lparr> ta_amount := ta_amount s' - n \<rparr>" and ?d = "d\<lparr> ta_amount := ta_amount d + n \<rparr>"
  have ids: "same_account_identity s ?s" "same_account_identity d ?d" "ta_delegate s = Some a \<or> ta_owner s = a"
    using s' by (simp_all add: same_account_identity_def)
  have moved: "unat (ta_amount ?s) + unat n = unat (ta_amount s)"
    "unat (ta_amount ?d) = unat (ta_amount d) + unat n"
    using s'(1) *(4,6) by (simp_all add: unat_sub_u64 unat_add_u64 u64_le_iff)
  have data: "acc_data (l' src) = TokenData ?s" "acc_data (l' dst) = TokenData ?d" using w(3) False by simp_all
  show ?thesis
    unfolding transferred_def
    using * ids moved data own False
    by (intro conjI exI [of _ s] exI [of _ d] exI [of _ ?s] exI [of _ ?d]) (assumption | simp)+
qed

text \<open>A burn takes \<open>n\<close> from the source's amount and from the mint's supply.\<close>

definition burned :: "ledger \<Rightarrow> pubkey \<Rightarrow> pubkey \<Rightarrow> pubkey \<Rightarrow> u64 \<Rightarrow> ledger \<Rightarrow> bool" where
  "burned l src mint a n l' \<longleftrightarrow> (\<exists>s s' m m'.
     acc_data (l src) = TokenData s \<and> acc_data (l mint) = MintData m \<and>
     acc_data (l' src) = TokenData s' \<and> acc_data (l' mint) = MintData m' \<and>
     same_account_identity s s' \<and> ta_mint s = mint \<and> ta_state s \<noteq> Frozen \<and>
     unat (ta_amount s') + unat n = unat (ta_amount s) \<and>
     unat (mi_supply m') + unat n = unat (mi_supply m) \<and>
     mi_is_initialized m' = mi_is_initialized m \<and> mi_mint_authority m' = mi_mint_authority m) \<and>
   acc_owner (l src) = TOKEN_PROGRAM_ID \<and> acc_owner (l mint) = TOKEN_PROGRAM_ID \<and>
   (\<forall>k. acc_owner (l' k) = acc_owner (l k)) \<and> (\<forall>k. k \<noteq> src \<and> k \<noteq> mint \<longrightarrow> l' k = l k)"

lemma process_burn_burned:
  assumes "process_burn sg ad ex src mint a n l = (Inr l' :: ('e, ledger) result)"
  shows "burned l src mint a n l'"
proof -
  from assms obtain s s' m where *:
    "acc_data (l src) = TokenData s" "acc_data (l mint) = MintData m" "ta_state s \<noteq> Frozen"
    "n \<le> ta_amount s" "ta_mint s = mint" "n \<le> mi_supply m"
    and auth: "s' = s \<or> authorize_source sg ad l s a n False = (Inr s' :: ('e, TokenAccount) result)"
    and w: "acc_owner (l src) = TOKEN_PROGRAM_ID" "acc_owner (l mint) = TOKEN_PROGRAM_ID \<or> mint = src"
      "l' = l(src := (l src)\<lparr> acc_data := TokenData (s'\<lparr> ta_amount := ta_amount s' - n \<rparr>) \<rparr>,
              mint := ((l(src := (l src)\<lparr> acc_data := TokenData (s'\<lparr> ta_amount := ta_amount s' - n \<rparr>) \<rparr>)) mint)
                 \<lparr> acc_data := MintData (m\<lparr> mi_supply := mi_supply m - n \<rparr>) \<rparr>)"
    unfolding process_burn_def by (fastforce simp: result_simps split: if_splits)
  have ne: "src \<noteq> mint" using * by auto
  from auth have s': "same_account_identity s s'" "ta_amount s' = ta_amount s"
    by (auto simp: same_account_identity_def dest: authorize_source_same)
  from * ne s' w show ?thesis
    unfolding burned_def
    by (intro conjI exI [of _ s] exI [of _ m] exI [of _ "s'\<lparr> ta_amount := ta_amount s' - n \<rparr>"]
          exI [of _ "m\<lparr> mi_supply := mi_supply m - n \<rparr>"])
      (auto simp: same_account_identity_def unat_sub_u64 u64_le_iff)
qed

text \<open>The same facts for the CPI wrappers, and the frame they share.\<close>

lemma token_transfer_transferred:
  "token_transfer pf p tx seeds src dst a n l = Inr l' \<Longrightarrow> transferred l src dst a n l'"
  by (auto simp: token_transfer_def result_simps intro: process_transfer_transferred)

lemma token_burn_burned:
  "token_burn pf p tx seeds mint src a n l = Inr l' \<Longrightarrow> burned l src mint a n l'"
  by (auto simp: token_burn_def result_simps intro: process_burn_burned)

lemma same_token_identity_TokenData [simp]:
  "same_token_identity (TokenData t) (TokenData u) \<longleftrightarrow> same_account_identity t u"
  by (simp add: same_token_identity_def same_account_identity_def)

lemma same_token_identity_MintData [simp]:
  "same_token_identity (MintData m) (MintData n) \<longleftrightarrow>
     mi_is_initialized n = mi_is_initialized m \<and> mi_mint_authority n = mi_mint_authority m"
  by (simp add: same_token_identity_def)

text \<open>A change confined to two token-program accounts that keep their identity is a token move.\<close>

lemma only_tokens_movedI:
  assumes "\<And>k. acc_owner (l' k) = acc_owner (l k)" "\<And>k. k \<noteq> i \<Longrightarrow> k \<noteq> j \<Longrightarrow> l' k = l k"
    and "acc_owner (l i) = TOKEN_PROGRAM_ID" "acc_owner (l j) = TOKEN_PROGRAM_ID"
    and "same_token_identity (acc_data (l i)) (acc_data (l' i))"
    and "same_token_identity (acc_data (l j)) (acc_data (l' j))"
  shows "only_tokens_moved l l'"
  unfolding only_tokens_moved_def
proof (intro allI conjI impI)
  fix k
  show "acc_owner (l' k) = acc_owner (l k)" by (rule assms(1))
  show "same_token_identity (acc_data (l k)) (acc_data (l' k))"
    by (cases "k = i"; cases "k = j") (simp_all add: assms(2,5,6))
  show "l' k = l k" if "acc_owner (l k) \<noteq> TOKEN_PROGRAM_ID"
    using that assms(3,4) by (intro assms(2)) auto
qed

lemma transferred_frame:
  assumes "transferred l src dst a n l'"
  shows "acc_owner (l src) = TOKEN_PROGRAM_ID" "acc_owner (l dst) = TOKEN_PROGRAM_ID"
    "acc_owner (l' k) = acc_owner (l k)" "k \<noteq> src \<Longrightarrow> k \<noteq> dst \<Longrightarrow> l' k = l k"
    "same_token_identity (acc_data (l src)) (acc_data (l' src))"
    "same_token_identity (acc_data (l dst)) (acc_data (l' dst))"
proof -
  from assms obtain s d s' d' where
    "acc_data (l src) = TokenData s" "acc_data (l' src) = TokenData s'" "same_account_identity s s'"
    "acc_data (l dst) = TokenData d" "acc_data (l' dst) = TokenData d'" "same_account_identity d d'"
    unfolding transferred_def by blast
  then show "same_token_identity (acc_data (l src)) (acc_data (l' src))"
    "same_token_identity (acc_data (l dst)) (acc_data (l' dst))" by simp_all
qed (use assms in \<open>simp_all add: transferred_def\<close>)

lemma burned_frame:
  assumes "burned l src mint a n l'"
  shows "acc_owner (l src) = TOKEN_PROGRAM_ID" "acc_owner (l mint) = TOKEN_PROGRAM_ID"
    "acc_owner (l' k) = acc_owner (l k)" "k \<noteq> src \<Longrightarrow> k \<noteq> mint \<Longrightarrow> l' k = l k"
    "same_token_identity (acc_data (l src)) (acc_data (l' src))"
    "same_token_identity (acc_data (l mint)) (acc_data (l' mint))"
proof -
  from assms obtain s s' m m' where
    "acc_data (l src) = TokenData s" "acc_data (l' src) = TokenData s'" "same_account_identity s s'"
    "acc_data (l mint) = MintData m" "acc_data (l' mint) = MintData m'"
    "mi_is_initialized m' = mi_is_initialized m" "mi_mint_authority m' = mi_mint_authority m"
    unfolding burned_def by blast
  then show "same_token_identity (acc_data (l src)) (acc_data (l' src))"
    "same_token_identity (acc_data (l mint)) (acc_data (l' mint))" by simp_all
qed (use assms in \<open>simp_all add: burned_def\<close>)

lemma transferred_only_tokens: "transferred l src dst a n l' \<Longrightarrow> only_tokens_moved l l'"
  by (rule only_tokens_movedI [of l' l src dst]) (erule transferred_frame; assumption)+

lemma burned_only_tokens: "burned l src mint a n l' \<Longrightarrow> only_tokens_moved l l'"
  by (rule only_tokens_movedI [of l' l src mint]) (erule burned_frame; assumption)+

lemma transferred_amounts:
  assumes "transferred l src dst a n l'"
  shows "src \<noteq> dst \<Longrightarrow> amount_at l' src + unat n = amount_at l src"
    and "src \<noteq> dst \<Longrightarrow> amount_at l' dst = amount_at l dst + unat n"
    and "k \<noteq> src \<Longrightarrow> k \<noteq> dst \<Longrightarrow> amount_at l' k = amount_at l k"
    and "src = dst \<Longrightarrow> amount_at l' k = amount_at l k"
proof -
  from assms obtain s d s' d' where *:
    "acc_data (l src) = TokenData s" "acc_data (l' src) = TokenData s'"
    "acc_data (l dst) = TokenData d" "acc_data (l' dst) = TokenData d'"
    "src \<noteq> dst \<longrightarrow> unat (ta_amount s') + unat n = unat (ta_amount s) \<and>
       unat (ta_amount d') = unat (ta_amount d) + unat n" "src = dst \<longrightarrow> l' = l"
    unfolding transferred_def by blast
  from * show "src \<noteq> dst \<Longrightarrow> amount_at l' src + unat n = amount_at l src"
    "src \<noteq> dst \<Longrightarrow> amount_at l' dst = amount_at l dst + unat n"
    by (simp_all add: amount_at_def)
  from * show "src = dst \<Longrightarrow> amount_at l' k = amount_at l k" by (simp add: amount_at_def)
  show "amount_at l' k = amount_at l k" if "k \<noteq> src" "k \<noteq> dst"
    using transferred_frame(4) [OF assms that] by (simp add: amount_at_def)
qed

lemma burned_amounts:
  assumes "burned l src mint a n l'"
  shows "amount_at l' src + unat n = amount_at l src"
    and "supply_at l' mint + unat n = supply_at l mint"
    and "k \<noteq> src \<Longrightarrow> amount_at l' k = amount_at l k"
proof -
  from assms obtain s s' m m' where *:
    "acc_data (l src) = TokenData s" "acc_data (l' src) = TokenData s'"
    "acc_data (l mint) = MintData m" "acc_data (l' mint) = MintData m'"
    "unat (ta_amount s') + unat n = unat (ta_amount s)"
    "unat (mi_supply m') + unat n = unat (mi_supply m)"
    unfolding burned_def by blast
  then show "amount_at l' src + unat n = amount_at l src"
    "supply_at l' mint + unat n = supply_at l mint"
    by (simp_all add: amount_at_def supply_at_def)
  show "amount_at l' k = amount_at l k" if "k \<noteq> src"
  proof (cases "k = mint")
    case True
    with * show ?thesis by (simp add: amount_at_def)
  next
    case False
    then show ?thesis using burned_frame(4) [OF assms that] by (simp add: amount_at_def)
  qed
qed

end
