(* ===== verification/Shared.thy ===== *)
theory Shared
  imports TokenProgram
begin

text \<open>
  The crate gateway_shared (shared/src/lib.rs): the used-transfer-spec-hash marker accounts that make
  every transfer spec usable once, the EIP-191 message hash, and the recovery of an EVM signer from a
  65-byte signature.
\<close>

section \<open>Marker accounts\<close>

definition DISCRIMINATOR_SIZE :: nat where "DISCRIMINATOR_SIZE = 2"

definition USED_TRANSFER_SPEC_HASH_ACCOUNT_SPACE :: nat where
  "USED_TRANSFER_SPEC_HASH_ACCOUNT_SPACE = DISCRIMINATOR_SIZE"

definition USED_TRANSFER_SPEC_HASH_SEED_PREFIX :: bytes where
  "USED_TRANSFER_SPEC_HASH_SEED_PREFIX = map of_char ''used_transfer_spec_hash''"

definition is_transfer_spec_hash_used :: "account_data \<Rightarrow> bytes \<Rightarrow> bool" where
  "is_transfer_spec_hash_used x discriminator =
     (data_len x \<ge> DISCRIMINATOR_SIZE \<and> data_head x = discriminator)"

text \<open>The system program's instructions behind their CPI checks.\<close>

definition system_create_account ::
    "platform \<Rightarrow> pubkey \<Rightarrow> transaction \<Rightarrow> bytes list option \<Rightarrow> pubkey \<Rightarrow> pubkey \<Rightarrow> u64 \<Rightarrow> nat \<Rightarrow> pubkey \<Rightarrow>
     ledger \<Rightarrow> ('e, ledger) result" where
  "system_create_account pf program_id tx seeds src dst lamports space owner l =
     and_then (cpi_signers pf program_id tx seeds) (\<lambda>signers.
     and_then (check_privileges tx signers [src, dst] [src, dst]) (\<lambda>_.
     ok_or (sys_create_account pf src dst lamports space owner l) (Runtime SystemProgramError)))"

definition system_transfer ::
    "platform \<Rightarrow> transaction \<Rightarrow> pubkey \<Rightarrow> pubkey \<Rightarrow> u64 \<Rightarrow> ledger \<Rightarrow> ('e, ledger) result" where
  "system_transfer pf tx src dst lamports l =
     and_then (check_privileges tx (tx_signers tx) [src] [src, dst]) (\<lambda>_.
     ok_or (sys_transfer pf src dst lamports l) (Runtime SystemProgramError))"

definition system_allocate ::
    "platform \<Rightarrow> pubkey \<Rightarrow> transaction \<Rightarrow> bytes list option \<Rightarrow> pubkey \<Rightarrow> nat \<Rightarrow>
     ledger \<Rightarrow> ('e, ledger) result" where
  "system_allocate pf program_id tx seeds k space l =
     and_then (cpi_signers pf program_id tx seeds) (\<lambda>signers.
     and_then (check_privileges tx signers [k] [k]) (\<lambda>_.
     ok_or (sys_allocate pf k space l) (Runtime SystemProgramError)))"

definition system_assign ::
    "platform \<Rightarrow> pubkey \<Rightarrow> transaction \<Rightarrow> bytes list option \<Rightarrow> pubkey \<Rightarrow> pubkey \<Rightarrow>
     ledger \<Rightarrow> ('e, ledger) result" where
  "system_assign pf program_id tx seeds k owner l =
     and_then (cpi_signers pf program_id tx seeds) (\<lambda>signers.
     and_then (check_privileges tx signers [k] [k]) (\<lambda>_.
     ok_or (sys_assign pf k owner l) (Runtime SystemProgramError)))"

text \<open>
  Writing the discriminator into the first two bytes.  The data is raw: the account was just created
  or allocated.
\<close>

definition write_discriminator :: "pubkey \<Rightarrow> bytes \<Rightarrow> ledger \<Rightarrow> ('e, ledger) result" where
  "write_discriminator k discriminator l =
     (case acc_data (l k) of
        Raw bs \<Rightarrow>
          and_then (require (DISCRIMINATOR_SIZE \<le> length bs \<and> length discriminator = DISCRIMINATOR_SIZE)
                      (Panic IndexOutOfBounds)) (\<lambda>_.
          Inr (l(k := (l k)\<lparr> acc_data := Raw (discriminator @ drop DISCRIMINATOR_SIZE bs) \<rparr>)))
      | _ \<Rightarrow> Inl (Panic MarkerWrite))"

definition create_used_transfer_spec_hash_account ::
    "platform \<Rightarrow> transaction \<Rightarrow> pubkey \<Rightarrow> bytes \<Rightarrow> u8 \<Rightarrow> pubkey \<Rightarrow> pubkey \<Rightarrow> bytes \<Rightarrow>
     ledger \<Rightarrow> ('e, ledger) result" where
  "create_used_transfer_spec_hash_account pf tx hash_account hash bump payer program_id discriminator l =
     (let required_rent = minimum_balance pf USED_TRANSFER_SPEC_HASH_ACCOUNT_SPACE;
          current_lamports = acc_lamports (l hash_account);
          seeds = Some [USED_TRANSFER_SPEC_HASH_SEED_PREFIX, hash, [bump]]
      in and_then
           (if current_lamports = 0
            then system_create_account pf program_id tx seeds payer hash_account required_rent
                   USED_TRANSFER_SPEC_HASH_ACCOUNT_SPACE program_id l
            else
              and_then (if current_lamports < required_rent
                        then system_transfer pf tx payer hash_account
                               (required_rent - current_lamports) l
                        else Inr l) (\<lambda>l.
              and_then (system_allocate pf program_id tx seeds hash_account
                          USED_TRANSFER_SPEC_HASH_ACCOUNT_SPACE l) (\<lambda>l.
              system_assign pf program_id tx seeds hash_account program_id l)))
           (write_discriminator hash_account discriminator))"

section \<open>EIP-191 and EVM signatures\<close>

definition ETHEREUM_PREFIX :: bytes where
  "ETHEREUM_PREFIX = 0x19 # map of_char ''Ethereum Signed Message:'' @ [0x0a] @ map of_char ''32''"

definition ethereum_signed_message_hash :: "platform \<Rightarrow> bytes \<Rightarrow> bytes" where
  "ethereum_signed_message_hash pf input_hash = keccak256 pf (ETHEREUM_PREFIX @ input_hash)"

datatype EvmSignatureError =
    InvalidMessageHash | InvalidSignatureLength | InvalidRecoveryId | InvalidSignature
  | InvalidSignatureSValue

definition SIGNATURE_LENGTH :: nat where "SIGNATURE_LENGTH = 65"

text \<open>
  libsecp256k1: the group order, and the bound from which \<open>Scalar::is_high\<close> answers yes (the limb
  comparison ends in \<open>>=\<close>, so the bound itself counts as high).
\<close>

definition SECP256K1_N :: nat where
  "SECP256K1_N = 0xFFFFFFFFFFFFFFFFFFFFFFFFFFFFFFFEBAAEDCE6AF48A03BBFD25E8CD0364141"

definition SECP256K1_N_H :: nat where
  "SECP256K1_N_H = 0x7FFFFFFFFFFFFFFFFFFFFFFFFFFFFFFF5D576E7357A4501DDFE92F46681B20A0"

definition parse_standard_slice :: "bytes \<Rightarrow> (nat \<times> nat) option" where
  "parse_standard_slice p =
     (if length p \<noteq> 64 then None
      else let r = be_nat (take 32 p); s = be_nat (drop 32 p)
           in if r \<ge> SECP256K1_N \<or> s \<ge> SECP256K1_N then None else Some (r, s))"

definition is_high :: "nat \<Rightarrow> bool" where "is_high s = (s \<ge> SECP256K1_N_H)"

definition evm_address :: "platform \<Rightarrow> bytes \<Rightarrow> pubkey" where
  "evm_address pf key = replicate 12 0 @ drop 12 (keccak256 pf key)"

definition recover_evm_signer :: "platform \<Rightarrow> bytes \<Rightarrow> bytes \<Rightarrow> EvmSignatureError + pubkey" where
  "recover_evm_signer pf message_hash signature =
     and_then (require (length message_hash = 32) InvalidMessageHash) (\<lambda>_.
     and_then (require (length signature = SIGNATURE_LENGTH) InvalidSignatureLength) (\<lambda>_.
     let recovery_id = signature ! (SIGNATURE_LENGTH - 1); rs = take (SIGNATURE_LENGTH - 1) signature in
     and_then (require (recovery_id = 27 \<or> recovery_id = 28) InvalidRecoveryId) (\<lambda>_.
     and_then (ok_or (parse_standard_slice rs) InvalidSignature) (\<lambda>(r, s).
     and_then (require (\<not> is_high s) InvalidSignatureSValue) (\<lambda>_.
     and_then (ok_or (secp256k1_recover pf message_hash (recovery_id - 27) rs) InvalidSignature) (\<lambda>pubkey.
     Inr (evm_address pf pubkey)))))))"

section \<open>Lemmas: markers\<close>

lemma system_program_okD:
  assumes "system_program_ok pf"
  shows "sys_create_account pf src dst n space owner l = Some l' \<Longrightarrow>
      acc_owner (l dst) = SYSTEM_PROGRAM_ID \<and> acc_data (l dst) = Raw [] \<and> src \<noteq> dst \<and>
      l' = l(src := take_lamports n (l src),
             dst := \<lparr> acc_lamports = n, acc_owner = owner, acc_data = Raw (replicate space 0) \<rparr>)"
    and "sys_transfer pf src dst n l = Some l' \<Longrightarrow>
      l' = (let l1 = l(src := take_lamports n (l src)) in l1(dst := add_lamports n (l1 dst)))"
    and "sys_allocate pf k space l = Some l' \<Longrightarrow>
      acc_owner (l k) = SYSTEM_PROGRAM_ID \<and> acc_data (l k) = Raw [] \<and>
      l' = l(k := (l k)\<lparr> acc_data := Raw (replicate space 0) \<rparr>)"
    and "sys_assign pf k owner l = Some l' \<Longrightarrow> l' = l(k := (l k)\<lparr> acc_owner := owner \<rparr>)"
  using assms
  unfolding system_program_ok_def system_create_ok_def system_transfer_ok_def
    system_allocate_ok_def system_assign_ok_def by blast+

lemma system_create_account_Inr:
  assumes "system_program_ok pf"
    and "system_create_account pf p tx seeds src dst n space owner l = Inr l'"
  shows "acc_owner (l dst) = SYSTEM_PROGRAM_ID \<and> acc_data (l dst) = Raw [] \<and> src \<noteq> dst \<and>
    l' = l(src := take_lamports n (l src),
           dst := \<lparr> acc_lamports = n, acc_owner = owner, acc_data = Raw (replicate space 0) \<rparr>)"
  using assms(2) unfolding system_create_account_def and_then_eq_Inr ok_or_eq_Inr
  by (blast dest: system_program_okD(1) [OF assms(1)])

lemma system_transfer_Inr:
  assumes "system_program_ok pf" and "system_transfer pf tx src dst n l = Inr l'"
  shows "acc_data (l' k) = acc_data (l k) \<and> acc_owner (l' k) = acc_owner (l k)"
proof -
  from assms(2) have "sys_transfer pf src dst n l = Some l'"
    unfolding system_transfer_def and_then_eq_Inr ok_or_eq_Inr by blast
  from system_program_okD(2) [OF assms(1) this] show ?thesis by (simp add: Let_def)
qed

lemma system_allocate_Inr:
  assumes "system_program_ok pf" and "system_allocate pf p tx seeds k space l = Inr l'"
  shows "acc_owner (l k) = SYSTEM_PROGRAM_ID \<and> acc_data (l k) = Raw [] \<and>
    l' = l(k := (l k)\<lparr> acc_data := Raw (replicate space 0) \<rparr>)"
  using assms(2) unfolding system_allocate_def and_then_eq_Inr ok_or_eq_Inr
  by (blast dest: system_program_okD(3) [OF assms(1)])

lemma system_assign_Inr:
  assumes "system_program_ok pf" and "system_assign pf p tx seeds k owner l = Inr l'"
  shows "l' = l(k := (l k)\<lparr> acc_owner := owner \<rparr>)"
  using assms(2) unfolding system_assign_def and_then_eq_Inr ok_or_eq_Inr
  by (blast dest: system_program_okD(4) [OF assms(1)])

text \<open>
  The effect of making an account: it was an unused system account, it becomes the program's with the
  given data, and every other account keeps its owner and data.
\<close>

definition account_made :: "ledger \<Rightarrow> pubkey \<Rightarrow> pubkey \<Rightarrow> account_data \<Rightarrow> ledger \<Rightarrow> bool" where
  "account_made l k owner x l' \<longleftrightarrow>
     acc_owner (l k) = SYSTEM_PROGRAM_ID \<and> acc_data (l k) = Raw [] \<and>
     acc_owner (l' k) = owner \<and> acc_data (l' k) = x \<and>
     (\<forall>j. j \<noteq> k \<longrightarrow> acc_owner (l' j) = acc_owner (l j) \<and> acc_data (l' j) = acc_data (l j))"

lemma account_madeD:
  assumes "account_made l k owner x l'"
  shows "acc_owner (l k) = SYSTEM_PROGRAM_ID" "acc_data (l k) = Raw []"
    "acc_owner (l' k) = owner" "acc_data (l' k) = x"
    "j \<noteq> k \<Longrightarrow> acc_owner (l' j) = acc_owner (l j)" "j \<noteq> k \<Longrightarrow> acc_data (l' j) = acc_data (l j)"
  using assms by (auto simp: account_made_def)

lemma write_discriminator_Inr:
  assumes "write_discriminator k disc l = Inr l'"
  shows "\<exists>bs. acc_data (l k) = Raw bs \<and> 2 \<le> length bs \<and> length disc = 2 \<and>
    l' = l(k := (l k)\<lparr> acc_data := Raw (disc @ drop 2 bs) \<rparr>)"
  using assms
  by (auto simp: write_discriminator_def result_simps DISCRIMINATOR_SIZE_def split: account_data.splits)

lemma create_marker_made:
  assumes ok: "system_program_ok pf"
    and run: "create_used_transfer_spec_hash_account pf tx k h b payer p disc l = (Inr l' :: ('e, ledger) result)"
  shows "account_made l k p (Raw disc) l' \<and> length disc = 2"
proof -
  let ?seeds = "Some [USED_TRANSFER_SPEC_HASH_SEED_PREFIX, h, [b]]"
  let ?rent = "minimum_balance pf USED_TRANSFER_SPEC_HASH_ACCOUNT_SPACE"
  from run obtain m where w: "write_discriminator k disc m = (Inr l' :: ('e, ledger) result)"
    and branches: "(if acc_lamports (l k) = 0
         then system_create_account pf p tx ?seeds payer k ?rent USED_TRANSFER_SPEC_HASH_ACCOUNT_SPACE p l
         else and_then (if acc_lamports (l k) < ?rent
                then system_transfer pf tx payer k (?rent - acc_lamports (l k)) l else Inr l) (\<lambda>l.
              and_then (system_allocate pf p tx ?seeds k USED_TRANSFER_SPEC_HASH_ACCOUNT_SPACE l) (\<lambda>l.
              system_assign pf p tx ?seeds k p l))) = (Inr m :: ('e, ledger) result)"
    unfolding create_used_transfer_spec_hash_account_def Let_def and_then_eq_Inr by blast
  have made: "account_made l k p (Raw [0, 0]) m"
  proof (cases "acc_lamports (l k) = 0")
    case True
    with branches have "system_create_account pf p tx ?seeds payer k ?rent
        USED_TRANSFER_SPEC_HASH_ACCOUNT_SPACE p l = (Inr m :: ('e, ledger) result)" by simp
    from system_create_account_Inr [OF ok this] show ?thesis
      by (auto simp: account_made_def USED_TRANSFER_SPEC_HASH_ACCOUNT_SPACE_def
          DISCRIMINATOR_SIZE_def numeral_2_eq_2)
  next
    case False
    with branches obtain l1 l2 where
      1: "(if acc_lamports (l k) < ?rent then system_transfer pf tx payer k (?rent - acc_lamports (l k)) l
           else Inr l) = (Inr l1 :: ('e, ledger) result)"
      and 2: "system_allocate pf p tx ?seeds k USED_TRANSFER_SPEC_HASH_ACCOUNT_SPACE l1
           = (Inr l2 :: ('e, ledger) result)"
      and 3: "system_assign pf p tx ?seeds k p l2 = (Inr m :: ('e, ledger) result)"
      by (auto simp: result_simps)
    have same: "acc_data (l1 j) = acc_data (l j) \<and> acc_owner (l1 j) = acc_owner (l j)" for j
      using 1 by (auto split: if_splits dest: system_transfer_Inr [OF ok, of _ _ _ _ _ _ j])
    from system_allocate_Inr [OF ok 2] system_assign_Inr [OF ok 3] same show ?thesis
      by (auto simp: account_made_def USED_TRANSFER_SPEC_HASH_ACCOUNT_SPACE_def
          DISCRIMINATOR_SIZE_def numeral_2_eq_2)
  qed
  with write_discriminator_Inr [OF w] show ?thesis
    by (auto simp: account_made_def)
qed

lemma marker_used: "length disc = 2 \<Longrightarrow> is_transfer_spec_hash_used (Raw disc) disc"
  by (simp add: is_transfer_spec_hash_used_def DISCRIMINATOR_SIZE_def)

section \<open>Lemmas: signatures\<close>

lemma recover_evm_signer_Inr:
  "recover_evm_signer pf h sig = Inr a \<longleftrightarrow>
     length h = 32 \<and> length sig = 65 \<and> (sig ! 64 = 27 \<or> sig ! 64 = 28) \<and>
     be_nat (take 32 sig) < SECP256K1_N \<and> be_nat (take 32 (drop 32 sig)) < SECP256K1_N_H \<and>
     (\<exists>key. secp256k1_recover pf h (sig ! 64 - 27) (take 64 sig) = Some key \<and> a = evm_address pf key)"
  by (auto simp: recover_evm_signer_def result_simps Let_def parse_standard_slice_def is_high_def
      SIGNATURE_LENGTH_def take_drop min_def SECP256K1_N_H_def SECP256K1_N_def split: if_splits)

end
