(* ===== verification/AccountInit.thy ===== *)
theory AccountInit
  imports Shared
begin

text \<open>
  The code Anchor generates for accounts that a struct creates (\<open>init\<close>, \<open>init_if_needed\<close>), writes back
  when the handler returns (\<open>exit\<close>) and closes (\<open>close = payer\<close>).  The lemmas reduce a successful
  initialisation to one of two cases: the account was made now, or it already existed unchanged.
\<close>

section \<open>Creating an account\<close>

definition max_u64 :: "u64 \<Rightarrow> u64 \<Rightarrow> u64" where
  "max_u64 a b = (if a \<le> b then b else a)"

definition create_init_account ::
    "platform \<Rightarrow> pubkey \<Rightarrow> transaction \<Rightarrow> pubkey \<Rightarrow> pubkey \<Rightarrow> nat \<Rightarrow> pubkey \<Rightarrow> bytes list \<Rightarrow>
     ledger \<Rightarrow> ('e, ledger) result" where
  "create_init_account pf program_id tx payer k space owner seeds l =
     (let current_lamports = acc_lamports (l k) in
      if current_lamports = 0
      then system_create_account pf program_id tx (Some seeds) payer k (minimum_balance pf space) space owner l
      else
        and_then (require (payer \<noteq> k) (Anchor TryingToInitPayerAsProgramAccount)) (\<lambda>_.
        let required_lamports =
          saturating_sub_u64 (max_u64 (minimum_balance pf space) 1) current_lamports in
        and_then (if required_lamports > 0
                  then system_transfer pf tx payer k required_lamports l else Inr l) (\<lambda>l.
        and_then (system_allocate pf program_id tx (Some seeds) k space l) (\<lambda>l.
        system_assign pf program_id tx (Some seeds) k owner l))))"

text \<open>
  \<open>init_if_needed\<close> of a program account: the canonical PDA, created when the system program still owns
  it and deserialised otherwise, then checked for space, owner and rent.  \<open>zeroed\<close> is the value of the
  freshly zeroed data.
\<close>

definition init_if_needed ::
    "platform \<Rightarrow> pubkey \<Rightarrow> transaction \<Rightarrow> pubkey \<Rightarrow> pubkey \<Rightarrow> bytes list \<Rightarrow> nat \<Rightarrow>
     (account_data \<Rightarrow> 'a option) \<Rightarrow> 'a \<Rightarrow> ledger \<Rightarrow> ('e, 'a \<times> u8 \<times> ledger) result" where
  "init_if_needed pf program_id tx payer k seeds space deserialize zeroed l =
     and_then (check_seeds_find pf program_id k seeds) (\<lambda>bump.
     and_then
       (if acc_owner (l k) = SYSTEM_PROGRAM_ID
        then and_then (create_init_account pf program_id tx payer k space program_id (seeds @ [[bump]]) l)
               (\<lambda>l. Inr (zeroed, l))
        else and_then (load_account program_id deserialize discriminator_error (l k)) (\<lambda>x. Inr (x, l))) (\<lambda>(x, l).
     and_then (require (data_len (acc_data (l k)) = space) (Anchor ConstraintSpace)) (\<lambda>_.
     and_then (require (acc_owner (l k) = program_id) (Anchor ConstraintOwner)) (\<lambda>_.
     and_then (require (minimum_balance pf space \<le> acc_lamports (l k)) (Anchor ConstraintRentExempt)) (\<lambda>_.
     and_then (check_mut tx k) (\<lambda>_.
     Inr (x, bump, l)))))))"

text \<open>\<open>init\<close>: the account must not exist yet.\<close>

definition init_account ::
    "platform \<Rightarrow> pubkey \<Rightarrow> transaction \<Rightarrow> pubkey \<Rightarrow> pubkey \<Rightarrow> bytes list \<Rightarrow> nat \<Rightarrow> 'a \<Rightarrow>
     ledger \<Rightarrow> ('e, 'a \<times> u8 \<times> ledger) result" where
  "init_account pf program_id tx payer k seeds space zeroed l =
     and_then (check_seeds_find pf program_id k seeds) (\<lambda>bump.
     and_then (create_init_account pf program_id tx payer k space program_id (seeds @ [[bump]]) l) (\<lambda>l.
     and_then (check_mut tx k) (\<lambda>_.
     Inr (zeroed, bump, l))))"

text \<open>\<open>init\<close> of a token account at a PDA: created for the token program, then initialised by CPI.\<close>

definition init_token_account ::
    "platform \<Rightarrow> pubkey \<Rightarrow> transaction \<Rightarrow> pubkey \<Rightarrow> pubkey \<Rightarrow> bytes list \<Rightarrow> pubkey \<Rightarrow> pubkey \<Rightarrow>
     bool \<Rightarrow> ledger \<Rightarrow> ('e, TokenAccount \<times> u8 \<times> ledger) result" where
  "init_token_account pf program_id tx payer k seeds mint authority if_needed l =
     and_then (check_seeds_find pf program_id k seeds) (\<lambda>bump.
     and_then
       (if \<not> if_needed \<or> acc_owner (l k) = SYSTEM_PROGRAM_ID
        then and_then (create_init_account pf program_id tx payer k TOKEN_ACCOUNT_LEN TOKEN_PROGRAM_ID
                         (seeds @ [[bump]]) l) (\<lambda>l.
             and_then (check_privileges tx (tx_signers tx) [] [k]) (\<lambda>_.
             process_initialize_account3 pf k mint authority l))
        else Inr l) (\<lambda>l.
     and_then (load_token l k) (\<lambda>t.
     and_then (if if_needed
               then and_then (check_token_mint t mint) (\<lambda>_.
                    and_then (check_token_owner t authority) (\<lambda>_.
                    require (acc_owner (l k) = TOKEN_PROGRAM_ID) (Anchor ConstraintTokenTokenProgram)))
               else Inr ()) (\<lambda>_.
     and_then (check_mut tx k) (\<lambda>_.
     Inr (t, bump, l))))))"

section \<open>The upgrade authority\<close>

text \<open>
  \<open>Account<ProgramData>\<close> and \<open>Program::programdata_address\<close> of the upgradeable loader, from which both
  programs' \<open>initialize\<close> learns who may call it.  A program account is executable.
\<close>

definition program_data_error :: "account_data \<Rightarrow> 'e failure" where
  "program_data_error x = (if as_program_info x \<noteq> None then Anchor AccountNotProgramData else Token InvalidTokenAccountData)"

definition load_program_data :: "ledger \<Rightarrow> pubkey \<Rightarrow> ('e, pubkey option) result" where
  "load_program_data l k = load_account LOADER_PROGRAM_ID as_program_data program_data_error (l k)"

definition programdata_address :: "ledger \<Rightarrow> pubkey \<Rightarrow> ('e, pubkey option) result" where
  "programdata_address l k =
     (if acc_owner (l k) = LOADER_PROGRAM_ID
      then and_then (ok_or (as_program_info (acc_data (l k))) (Token InvalidTokenAccountData))
             (\<lambda>address. Inr (Some address))
      else Inr None)"

section \<open>Exit and close\<close>

text \<open>
  When the handler returns, a \<open>mut\<close> account of the program is serialised back into its data; the data
  keeps its length, so a value that no longer fits is an error.
\<close>

definition exit_account ::
    "pubkey \<Rightarrow> nat \<Rightarrow> account_data \<Rightarrow> ledger \<Rightarrow> ('e, ledger) result" where
  "exit_account k serialized_len x l =
     and_then (require (serialized_len \<le> data_len (acc_data (l k))) (Anchor AccountDidNotSerialize)) (\<lambda>_.
     Inr (l(k := (l k)\<lparr> acc_data := x \<rparr>)))"

definition exit_wallet :: "pubkey \<Rightarrow> GatewayWallet \<Rightarrow> ledger \<Rightarrow> ('e, ledger) result" where
  "exit_wallet k w = exit_account k (wallet_serialized_len w) (WalletData w)"
definition exit_minter :: "pubkey \<Rightarrow> GatewayMinter \<Rightarrow> ledger \<Rightarrow> ('e, ledger) result" where
  "exit_minter k m = exit_account k (minter_serialized_len m) (MinterData m)"
definition exit_deposit :: "pubkey \<Rightarrow> GatewayDeposit \<Rightarrow> ledger \<Rightarrow> ('e, ledger) result" where
  "exit_deposit k d = exit_account k DEPOSIT_SPACE (DepositData d)"
definition exit_delegate :: "pubkey \<Rightarrow> GatewayDelegate \<Rightarrow> ledger \<Rightarrow> ('e, ledger) result" where
  "exit_delegate k g = exit_account k DELEGATE_SPACE (DelegateData g)"
definition exit_denylist :: "pubkey \<Rightarrow> ledger \<Rightarrow> ('e, ledger) result" where
  "exit_denylist k = exit_account k DENYLIST_SPACE DenylistData"

text \<open>\<open>close = destination\<close>: the lamports move, the account returns to the system program, empty.\<close>

definition close_account :: "pubkey \<Rightarrow> pubkey \<Rightarrow> ledger \<Rightarrow> ('e, ledger) result" where
  "close_account k destination l =
     and_then (add_u64 (acc_lamports (l destination)) (acc_lamports (l k))) (\<lambda>n.
     let l = l(destination := (l destination)\<lparr> acc_lamports := n \<rparr>) in
     Inr (l(k := \<lparr> acc_lamports = 0, acc_owner = SYSTEM_PROGRAM_ID, acc_data = Raw [] \<rparr>)))"

section \<open>Lemmas\<close>

lemma create_init_account_made:
  assumes ok: "system_program_ok pf"
    and run: "create_init_account pf p tx payer k space owner seeds l = (Inr l' :: ('e, ledger) result)"
  shows "account_made l k owner (Raw (replicate space 0)) l'"
proof (cases "acc_lamports (l k) = 0")
  case True
  with run have "system_create_account pf p tx (Some seeds) payer k (minimum_balance pf space) space owner l
      = (Inr l' :: ('e, ledger) result)"
    by (simp add: create_init_account_def)
  from system_create_account_Inr [OF ok this] show ?thesis by (auto simp: account_made_def)
next
  case False
  let ?n = "saturating_sub_u64 (max_u64 (minimum_balance pf space) 1) (acc_lamports (l k))"
  from False run obtain l1 l2 where
    1: "(if ?n > 0 then system_transfer pf tx payer k ?n l else Inr l) = (Inr l1 :: ('e, ledger) result)"
    and 2: "system_allocate pf p tx (Some seeds) k space l1 = (Inr l2 :: ('e, ledger) result)"
    and 3: "system_assign pf p tx (Some seeds) k owner l2 = (Inr l' :: ('e, ledger) result)"
    by (auto simp: create_init_account_def Let_def and_then_eq_Inr)
  have same: "acc_data (l1 j) = acc_data (l j) \<and> acc_owner (l1 j) = acc_owner (l j)" for j
    using 1 by (auto split: if_splits dest: system_transfer_Inr [OF ok, of _ _ _ _ _ _ j])
  from system_allocate_Inr [OF ok 2] system_assign_Inr [OF ok 3] same show ?thesis
    by (auto simp: account_made_def)
qed

text \<open>What \<open>init_if_needed\<close> leaves: a new zeroed account, or the existing one untouched.\<close>

definition initialised ::
    "ledger \<Rightarrow> pubkey \<Rightarrow> pubkey \<Rightarrow> nat \<Rightarrow> (account_data \<Rightarrow> 'a option) \<Rightarrow> 'a \<Rightarrow> 'a \<Rightarrow> ledger \<Rightarrow> bool" where
  "initialised l k owner space deserialize zeroed x l' \<longleftrightarrow>
     account_made l k owner (Raw (replicate space 0)) l' \<and> x = zeroed \<or>
     l' = l \<and> acc_owner (l k) = owner \<and> deserialize (acc_data (l k)) = Some x"

lemma init_if_needed_Inr:
  assumes ok: "system_program_ok pf" "p \<noteq> SYSTEM_PROGRAM_ID"
    and run: "init_if_needed pf p tx payer k seeds space f z l = (Inr (x, bump, l') :: ('e, 'a \<times> u8 \<times> ledger) result)"
  shows "initialised l k p space f z x l'" "try_bumps pf seeds p 255 = Some (k, bump)"
    "k \<in> set (tx_writable tx)" "data_len (acc_data (l' k)) = space" "acc_owner (l' k) = p"
proof -
  from run show "try_bumps pf seeds p 255 = Some (k, bump)" "k \<in> set (tx_writable tx)"
    "data_len (acc_data (l' k)) = space" "acc_owner (l' k) = p"
    by (auto simp: init_if_needed_def result_simps)
  show "initialised l k p space f z x l'"
  proof (cases "acc_owner (l k) = SYSTEM_PROGRAM_ID")
    case True
    with run have "x = z" and
      "create_init_account pf p tx payer k space p (seeds @ [[bump]]) l = (Inr l' :: ('e, ledger) result)"
      by (auto simp: init_if_needed_def and_then_eq_Inr check_seeds_find_Inr)
    from this(1) create_init_account_made [OF ok(1) this(2)] show ?thesis by (simp add: initialised_def)
  next
    case False
    with run ok(2) show ?thesis
      by (auto simp: init_if_needed_def initialised_def and_then_eq_Inr load_account_Inr)
  qed
qed

lemma init_account_Inr:
  assumes ok: "system_program_ok pf"
    and run: "init_account pf p tx payer k seeds space z l = (Inr (x, bump, l') :: ('e, 'a \<times> u8 \<times> ledger) result)"
  shows "account_made l k p (Raw (replicate space 0)) l'" "x = z"
    "try_bumps pf seeds p 255 = Some (k, bump)" "k \<in> set (tx_writable tx)"
proof -
  from run have "create_init_account pf p tx payer k space p (seeds @ [[bump]]) l = (Inr l' :: ('e, ledger) result)"
    by (auto simp: init_account_def and_then_eq_Inr)
  then show "account_made l k p (Raw (replicate space 0)) l'" by (rule create_init_account_made [OF ok])
qed (use run in \<open>auto simp: init_account_def result_simps\<close>)

lemma exit_account_Inr [result_simps]:
  "exit_account k n x l = Inr l' \<longleftrightarrow> n \<le> data_len (acc_data (l k)) \<and> l' = l(k := (l k)\<lparr> acc_data := x \<rparr>)"
  by (auto simp: exit_account_def result_simps)

lemmas exit_defs = exit_wallet_def exit_minter_def exit_deposit_def exit_delegate_def exit_denylist_def

lemma close_account_Inr [result_simps]:
  "close_account k d l = Inr l' \<longleftrightarrow>
     unat (acc_lamports (l d)) + unat (acc_lamports (l k)) < 2 ^ 64 \<and>
     l' = l(d := (l d)\<lparr> acc_lamports := acc_lamports (l d) + acc_lamports (l k) \<rparr>,
            k := \<lparr> acc_lamports = 0, acc_owner = SYSTEM_PROGRAM_ID, acc_data = Raw [] \<rparr>)"
  by (auto simp: close_account_def result_simps Let_def)

end
