(* ===== verification/Views.thy ===== *)
theory Views
  imports AccountInit
begin

text \<open>
  Reading a ledger as maps: \<open>typed p f l\<close> maps each key to the value of type \<open>f\<close> that program \<open>p\<close> keeps
  there, \<open>tok_at l\<close> to its token account.  \<open>touches l K l'\<close> bounds what a handler changed: outside \<open>K\<close>,
  owners stay, and only the token program's data may differ.  The lemmas follow every primitive of a
  handler (initialise, CPI to the token program, exit, close) through these views.
\<close>

section \<open>Typed views\<close>

definition typed :: "pubkey \<Rightarrow> (account_data \<Rightarrow> 'a option) \<Rightarrow> ledger \<Rightarrow> pubkey \<rightharpoonup> 'a" where
  "typed p f l k = (if acc_owner (l k) = p then f (acc_data (l k)) else None)"

abbreviation "wallet_at \<equiv> typed WALLET_PROGRAM_ID as_wallet"
abbreviation "deposit_at \<equiv> typed WALLET_PROGRAM_ID as_deposit"
abbreviation "delegate_at \<equiv> typed WALLET_PROGRAM_ID as_delegate"
abbreviation "minter_at \<equiv> typed MINTER_PROGRAM_ID as_minter"
abbreviation "tok_at \<equiv> typed TOKEN_PROGRAM_ID as_token"

lemma typed_Some: "typed p f l k = Some x \<longleftrightarrow> acc_owner (l k) = p \<and> f (acc_data (l k)) = Some x"
  by (simp add: typed_def)

lemma load_typed:
  "load_wallet l k = Inr w \<longleftrightarrow> wallet_at l k = Some w"
  "load_deposit l k = Inr d \<longleftrightarrow> deposit_at l k = Some d"
  "load_delegate l k = Inr g \<longleftrightarrow> delegate_at l k = Some g"
  "load_minter l k = Inr m \<longleftrightarrow> minter_at l k = Some m"
  "load_token l k = Inr t \<longleftrightarrow> tok_at l k = Some t"
  by (simp_all add: typed_Some result_simps)

lemma amount_at_tok: "tok_at l k = Some t \<Longrightarrow> amount_at l k = unat (ta_amount t)"
  by (auto simp: typed_Some amount_at_def result_simps)

section \<open>Footprints\<close>

definition touches :: "ledger \<Rightarrow> pubkey set \<Rightarrow> ledger \<Rightarrow> bool" where
  "touches l K l' \<longleftrightarrow> (\<forall>j. j \<notin> K \<longrightarrow> acc_owner (l' j) = acc_owner (l j) \<and>
     (acc_owner (l j) \<noteq> TOKEN_PROGRAM_ID \<longrightarrow> acc_data (l' j) = acc_data (l j)))"

definition untouched :: "ledger \<Rightarrow> pubkey set \<Rightarrow> ledger \<Rightarrow> bool" where
  "untouched l K l' \<longleftrightarrow>
     (\<forall>j. j \<notin> K \<longrightarrow> acc_owner (l' j) = acc_owner (l j) \<and> acc_data (l' j) = acc_data (l j))"

lemma touches_refl [simp]: "touches l K l"
  by (simp add: touches_def)

lemma touches_trans: "touches l K m \<Longrightarrow> touches m K l' \<Longrightarrow> touches l K l'"
  by (simp add: touches_def)

lemma touches_mono: "touches l K l' \<Longrightarrow> K \<subseteq> K' \<Longrightarrow> touches l K' l'"
  by (auto simp: touches_def)

lemma untouched_touches: "untouched l K l' \<Longrightarrow> touches l K l'"
  by (simp add: touches_def untouched_def)

lemma untouched_refl [simp]: "untouched l K l"
  by (simp add: untouched_def)

lemma untouched_trans: "untouched l K m \<Longrightarrow> untouched m K l' \<Longrightarrow> untouched l K l'"
  by (simp add: untouched_def)

lemma untouched_mono: "untouched l K l' \<Longrightarrow> K \<subseteq> K' \<Longrightarrow> untouched l K' l'"
  by (auto simp: untouched_def)

lemma touches_only_tokens: "only_tokens_moved l l' \<Longrightarrow> touches l K l'"
  by (auto simp: touches_def only_tokens_moved_def)

lemma untouched_made: "account_made l k p x l' \<Longrightarrow> untouched l {k} l'"
  by (simp add: account_made_def untouched_def)

lemma untouched_update: "untouched l {k} (l(k := a))"
  by (simp add: untouched_def)

lemma untouched_initialised: "initialised l k p n f z x l' \<Longrightarrow> untouched l {k} l'"
  by (auto simp: initialised_def dest: untouched_made)

lemma typed_touches:
  "touches l K l' \<Longrightarrow> k \<notin> K \<Longrightarrow> p \<noteq> TOKEN_PROGRAM_ID \<Longrightarrow> typed p f l' k = typed p f l k"
  by (auto simp: typed_def touches_def)

lemma typed_untouched: "untouched l K l' \<Longrightarrow> k \<notin> K \<Longrightarrow> typed p f l' k = typed p f l k"
  by (simp add: typed_def untouched_def)

section \<open>What was there before\<close>

text \<open>
  An account a handler writes held nothing yet, or the value it deserialised.  A program's raw account,
  such as a used-hash marker, is neither.
\<close>

definition fresh :: "ledger \<Rightarrow> pubkey \<Rightarrow> bool" where
  "fresh l k \<longleftrightarrow> acc_owner (l k) = SYSTEM_PROGRAM_ID \<and> acc_data (l k) = Raw []"

lemma fresh_typed: "fresh l k \<Longrightarrow> p \<noteq> SYSTEM_PROGRAM_ID \<Longrightarrow> typed p f l k = None"
  by (auto simp: fresh_def typed_def)

text \<open>
  Data without a record of the programs: neither a typed account nor a marker, such as the zeroed data of a
  new account or the buffer of an IDL.  \<open>keeps_records p\<close>: program \<open>p\<close>'s other accounts keep owner and
  data, an idle one stays idle or is closed, and a new account of \<open>p\<close> is idle.
\<close>

definition idle :: "account_data \<Rightarrow> bool" where
  "idle x \<longleftrightarrow> (\<exists>bs. x = Raw bs \<and> take 1 bs \<notin> {[21], [11]})"

definition keeps_records :: "pubkey \<Rightarrow> ledger \<Rightarrow> ledger \<Rightarrow> bool" where
  "keeps_records p l l' \<longleftrightarrow>
     (\<forall>k. acc_owner (l k) = p \<and> \<not> idle (acc_data (l k)) \<longrightarrow>
        acc_owner (l' k) = p \<and> acc_data (l' k) = acc_data (l k)) \<and>
     (\<forall>k. acc_owner (l k) = p \<longrightarrow> acc_owner (l' k) = p \<or> fresh l' k) \<and>
     (\<forall>k. acc_owner (l' k) = p \<longrightarrow>
        idle (acc_data (l' k)) \<or> acc_owner (l k) = p \<and> acc_data (l' k) = acc_data (l k))"

lemma idle_zeroed [simp]: "idle (Raw (replicate n 0))"
  by (cases n) (auto simp: idle_def)

lemma idle_not_typed: "idle x \<Longrightarrow> (\<And>bs. f (Raw bs) = None) \<Longrightarrow> f x = None"
  by (auto simp: idle_def)

lemma idle_not_marker: "\<not> idle (Raw WALLET_USED_MARKER)" "\<not> idle (Raw MINTER_USED_MARKER)"
  by (simp_all add: idle_def WALLET_USED_MARKER_def MINTER_USED_MARKER_def)

lemma keeps_records_typed:
  assumes "keeps_records p l l'" "\<And>bs. f (Raw bs) = None"
  shows "typed p f l' = typed p f l"
proof
  fix k
  note idle_not_typed [of _ f, OF _ assms(2)]
  then show "typed p f l' k = typed p f l k"
    using assms(1) unfolding keeps_records_def typed_def by metis
qed

lemma keeps_records_untouched:
  assumes "\<And>k. acc_owner (l k) = p \<Longrightarrow> acc_owner (l' k) = p \<and> acc_data (l' k) = acc_data (l k)"
    and "\<And>k. acc_owner (l k) \<noteq> p \<Longrightarrow> acc_owner (l' k) = p \<Longrightarrow> \<exists>n. acc_data (l' k) = Raw (replicate n 0)"
  shows "keeps_records p l l'"
  unfolding keeps_records_def using assms by (metis idle_zeroed)

lemma initialised_cases:
  assumes "initialised l k p n f z x l'"
  obtains (made) "fresh l k" "x = z" "acc_owner (l' k) = p" "acc_data (l' k) = Raw (replicate n 0)"
    | (existing) "l' = l" "typed p f l k = Some x"
  using assms by (auto simp: initialised_def account_made_def fresh_def typed_Some)

lemma initialised_data:
  assumes "initialised l k p n f z x l'"
  shows "acc_data (l' k) = Raw (replicate n 0) \<or> f (acc_data (l' k)) = Some x"
  using assms by (cases rule: initialised_cases) (simp_all add: typed_Some)

text \<open>Initialising a program account leaves every view of the other types as it was.\<close>

lemma typed_initialised:
  assumes "initialised l k p n f z x l'" "p \<noteq> SYSTEM_PROGRAM_ID" "q \<noteq> SYSTEM_PROGRAM_ID"
    and "\<And>bs. g (Raw bs) = None"
  shows "typed q g l' = typed q g l"
proof
  fix j
  show "typed q g l' j = typed q g l j"
  proof (cases "j = k")
    case True
    from assms(1) show ?thesis
    proof (cases rule: initialised_cases)
      case made
      with assms(3,4) True show ?thesis by (simp add: typed_def fresh_def)
    qed simp
  next
    case False
    then show ?thesis using untouched_initialised [OF assms(1)] by (auto intro: typed_untouched)
  qed
qed

lemma as_data_Raw [simp]:
  "as_wallet (Raw bs) = None" "as_deposit (Raw bs) = None" "as_delegate (Raw bs) = None"
  "as_denylist (Raw bs) = None" "as_minter (Raw bs) = None" "as_token (Raw bs) = None"
  "as_mint (Raw bs) = None"
  by simp_all

section \<open>Writing back\<close>

lemma typed_write:
  "acc_owner (l k) = p \<Longrightarrow> f x = Some v \<Longrightarrow>
     typed p f (l(k := (l k)\<lparr> acc_data := x \<rparr>)) = (typed p f l)(k \<mapsto> v)"
  by (auto simp: typed_def)

lemma typed_write_other:
  "acc_owner (l k) = p \<Longrightarrow> g x = None \<Longrightarrow> typed p g l k = None \<Longrightarrow>
     typed p g (l(k := (l k)\<lparr> acc_data := x \<rparr>)) = typed p g l"
  by (auto simp: typed_def)

lemma typed_write_foreign:
  "acc_owner (l k) \<noteq> q \<Longrightarrow> typed q g (l(k := (l k)\<lparr> acc_data := x \<rparr>)) = typed q g l"
  by (auto simp: typed_def)

section \<open>Token moves seen through the view\<close>

lemma typed_only_tokens:
  "only_tokens_moved l l' \<Longrightarrow> p \<noteq> TOKEN_PROGRAM_ID \<Longrightarrow> typed p f l' = typed p f l"
  by (intro ext typed_touches [of l "{}"]) (auto intro: touches_only_tokens)

text \<open>An account keeps its mint, owner and initialised state through any token move.\<close>

lemma tok_at_only_tokens:
  assumes "only_tokens_moved l l'" "tok_at l k = Some t"
  shows "\<exists>t'. tok_at l' k = Some t' \<and> same_account_identity t t'"
proof -
  from assms have *: "acc_owner (l' k) = TOKEN_PROGRAM_ID" "acc_data (l k) = TokenData t"
    "ta_state t \<noteq> Uninitialized"
    by (auto simp: typed_Some result_simps only_tokens_moved_def)
  moreover from assms(1) have "same_token_identity (acc_data (l k)) (acc_data (l' k))"
    by (simp add: only_tokens_moved_def)
  ultimately have *: "acc_owner (l' k) = TOKEN_PROGRAM_ID" "acc_data (l k) = TokenData t"
    "ta_state t \<noteq> Uninitialized" "same_token_identity (TokenData t) (acc_data (l' k))"
    by simp_all
  then obtain t' where "acc_data (l' k) = TokenData t'" "same_account_identity t t'"
    by (cases "acc_data (l' k)") (auto simp: same_token_identity_def same_account_identity_def)
  with * show ?thesis by (auto simp: typed_Some result_simps same_account_identity_def)
qed

text \<open>The authority of a transfer or burn, without a delegate, is the account's owner.\<close>

lemma transferred_authority:
  "transferred l src dst a n l' \<Longrightarrow>
     \<exists>s. acc_data (l src) = TokenData s \<and> n \<le> ta_amount s \<and> (ta_delegate s = Some a \<or> ta_owner s = a)"
  unfolding transferred_def by blast

section \<open>Amounts through initialisation and exit\<close>

lemma amount_at_initialised:
  assumes "initialised l k p n f z x l'"
  shows "amount_at l' j = amount_at l j"
proof (cases "j = k")
  case True
  from assms show ?thesis
    by (cases rule: initialised_cases) (simp_all add: True amount_at_def fresh_def)
next
  case False
  then show ?thesis using untouched_initialised [OF assms] by (simp add: untouched_def amount_at_def)
qed

lemma amount_at_write:
  "amount_at l k = 0 \<Longrightarrow> (\<And>t. x \<noteq> TokenData t) \<Longrightarrow>
     amount_at (l(k := (l k)\<lparr> acc_data := x \<rparr>)) j = amount_at l j"
  by (auto simp: amount_at_def split: account_data.splits)

section \<open>Initialising a token account\<close>

text \<open>The account exists afterwards with the mint and authority asked for; an existing one is kept.\<close>

definition token_initialised ::
    "ledger \<Rightarrow> pubkey \<Rightarrow> pubkey \<Rightarrow> pubkey \<Rightarrow> ledger \<Rightarrow> bool" where
  "token_initialised l k mint authority l' \<longleftrightarrow>
     (fresh l k \<or> l' = l) \<and> untouched l {k} l' \<and>
     (\<exists>t. tok_at l' k = Some t \<and> ta_mint t = mint \<and> ta_owner t = authority \<and>
          (l' = l \<or> ta_delegate t = None \<and> ta_close_authority t = None))"

lemma token_initialisedI:
  assumes ok: "system_program_ok pf"
    and run: "init_token_account pf p tx payer k seeds mint authority True l
      = (Inr (t, b, l') :: ('e, TokenAccount \<times> u8 \<times> ledger) result)"
  shows "token_initialised l k mint authority l'" "try_bumps pf seeds p 255 = Some (k, b)"
proof -
  from run show "try_bumps pf seeds p 255 = Some (k, b)"
    by (auto simp: init_token_account_def and_then_eq_Inr check_seeds_find_Inr)
  from run have t: "tok_at l' k = Some t" "ta_mint t = mint" "ta_owner t = authority"
    by (auto simp: init_token_account_def and_then_eq_Inr load_typed check_token_Inr)
  show "token_initialised l k mint authority l'"
  proof (cases "acc_owner (l k) = SYSTEM_PROGRAM_ID")
    case True
    with run obtain m where
      made: "create_init_account pf p tx payer k TOKEN_ACCOUNT_LEN TOKEN_PROGRAM_ID (seeds @ [[b]]) l
        = (Inr m :: ('e, ledger) result)"
      and init: "process_initialize_account3 pf k mint authority m = (Inr l' :: ('e, ledger) result)"
      by (auto simp: init_token_account_def and_then_eq_Inr check_seeds_find_Inr)
    from init obtain x where l': "l' = m(k := (m k)\<lparr> acc_data := TokenData x \<rparr>)"
      and bare: "ta_delegate x = None" "ta_close_authority x = None"
      by (auto simp: process_initialize_account3_def Let_def and_then_eq_Inr write_token_data_Inr)
    have "t = x" using t(1) by (simp add: typed_Some l' as_data_Some split: if_splits)
    with bare have bare: "ta_delegate t = None" "ta_close_authority t = None" by simp_all
    note mk = create_init_account_made [OF ok made]
    have "untouched l {k} l'"
      unfolding l' by (rule untouched_trans [OF untouched_made [OF mk] untouched_update])
    moreover have "fresh l k" using mk by (simp add: account_made_def fresh_def)
    ultimately show ?thesis using t bare by (auto simp: token_initialised_def)
  next
    case False
    with run have "l' = l" by (auto simp: init_token_account_def and_then_eq_Inr)
    with t show ?thesis by (auto simp: token_initialised_def)
  qed
qed

section \<open>An account written\<close>

text \<open>An account \<open>k\<close> of program \<open>p\<close> that was new or of type \<open>f\<close> now holds \<open>x\<close>; nothing else changed.\<close>

definition written ::
    "pubkey \<Rightarrow> ledger \<Rightarrow> pubkey \<Rightarrow> (account_data \<Rightarrow> 'a option) \<Rightarrow> account_data \<Rightarrow> ledger \<Rightarrow> bool" where
  "written p l k f x l' \<longleftrightarrow>
     untouched l {k} l' \<and> (fresh l k \<or> typed p f l k \<noteq> None) \<and> acc_owner (l' k) = p \<and> acc_data (l' k) = x"

lemma account_writtenI:
  assumes init: "initialised l k p n f z y l1" and own: "acc_owner (l1 k) = p"
    and ex: "exit_account k m x l1 = (Inr l' :: ('e, ledger) result)"
  shows "written p l k f x l'"
proof -
  from ex have l': "l' = l1(k := (l1 k)\<lparr> acc_data := x \<rparr>)" by (simp add: result_simps)
  have "untouched l {k} l'"
    unfolding l' by (rule untouched_trans [OF untouched_initialised [OF init] untouched_update])
  moreover have "fresh l k \<or> typed p f l k \<noteq> None"
    using init by (cases rule: initialised_cases) auto
  ultimately show ?thesis using own by (simp add: written_def l')
qed

lemma account_writtenI_loaded:
  assumes "typed p f l k = Some y" "exit_account k m x l = (Inr l' :: ('e, ledger) result)"
  shows "written p l k f x l'"
  using assms by (auto simp: written_def result_simps untouched_def typed_def split: if_splits)

lemma typed_written:
  assumes "written p l k f x l'" "p \<noteq> SYSTEM_PROGRAM_ID"
  shows "g x = Some v \<Longrightarrow> typed p g l' = (typed p g l)(k \<mapsto> v)"
    and "g x = None \<Longrightarrow> (\<And>bs. g (Raw bs) = None) \<Longrightarrow>
      (\<And>y z. f y = Some z \<Longrightarrow> g y = None) \<Longrightarrow> typed p g l' = typed p g l"
proof -
  have other: "typed p g l' j = typed p g l j" if "j \<noteq> k" for j
    using assms that by (auto simp: written_def intro: typed_untouched)
  show "typed p g l' = (typed p g l)(k \<mapsto> v)" if "g x = Some v"
    using assms that other by (auto simp: fun_eq_iff written_def typed_def)
  assume none: "g x = None" "\<And>bs. g (Raw bs) = None" "\<And>y z. f y = Some z \<Longrightarrow> g y = None"
  have "typed p g l' k = None" "typed p g l k = None"
    using assms none by (auto simp: written_def typed_def fresh_def split: if_splits)
  with other show "typed p g l' = typed p g l"
    by (intro ext) metis
qed

end
