(* ===== verification/Registry.thy ===== *)
theory Registry
  imports WalletTypes MinterTypes
begin

text \<open>
  The bounded registry contract, shared by the supported tokens and burn signers of the wallet and
  the supported tokens and attesters of the minter: adding a member that is there changes nothing, a
  full registry refuses a new one, and otherwise it is appended.  The contract is a locale, its
  extension adds removal, and each registry of the code is an interpretation.  At the end, the
  parallel vector of custody bumps.
\<close>

section \<open>The contract\<close>

definition well_formed_registry :: "nat \<Rightarrow> 'k list \<Rightarrow> bool" where
  "well_formed_registry limit xs \<longleftrightarrow> distinct xs \<and> length xs \<le> limit"

locale bounded_registry =
  fixes members :: "'s \<Rightarrow> 'k list"
    and enter :: "'s \<Rightarrow> 'k \<Rightarrow> ('e, 's) result"
    and limit :: nat
    and full_error :: 'e
  assumes enter_member: "k \<in> set (members s) \<Longrightarrow> enter s k = Inr s"
    and enter_full: "k \<notin> set (members s) \<Longrightarrow> limit \<le> length (members s) \<Longrightarrow>
      enter s k = Inl (Custom full_error)"
    and enter_new: "k \<notin> set (members s) \<Longrightarrow> length (members s) < limit \<Longrightarrow>
      \<exists>s'. enter s k = Inr s' \<and> members s' = members s @ [k]"
begin

lemma enter_cases:
  assumes "enter s k = Inr s'"
  obtains (present) "k \<in> set (members s)" "s' = s"
  | (appended) "k \<notin> set (members s)" "length (members s) < limit" "members s' = members s @ [k]"
proof (cases "k \<in> set (members s)")
  case True
  with assms enter_member [OF True] show ?thesis by (intro present) auto
next
  case False
  have "length (members s) < limit"
    using assms enter_full [OF False] by (cases "limit \<le> length (members s)") auto
  with assms enter_new [OF False] False show ?thesis by (intro appended) auto
qed

lemma enter_well_formed:
  "well_formed_registry limit (members s) \<Longrightarrow> enter s k = Inr s' \<Longrightarrow>
     well_formed_registry limit (members s')"
  by (erule enter_cases) (auto simp: well_formed_registry_def)

lemma enter_members: "enter s k = Inr s' \<Longrightarrow> set (members s') = insert k (set (members s))"
  by (erule enter_cases) auto

lemma enter_idempotent: "enter s k = Inr s' \<Longrightarrow> enter s' k = Inr s'"
  using enter_members [of s k s'] by (simp add: enter_member)

lemma enter_error_iff:
  "(\<exists>e. enter s k = Inl e) \<longleftrightarrow> k \<notin> set (members s) \<and> limit \<le> length (members s)"
  using enter_member [of k s] enter_full [of k s] enter_new [of k s]
  by (cases "k \<in> set (members s)"; cases "limit \<le> length (members s)") (auto simp: not_le)

end

locale removable_registry = bounded_registry members enter limit full_error
  for members :: "'s \<Rightarrow> 'k list" and enter :: "'s \<Rightarrow> 'k \<Rightarrow> ('e, 's) result"
    and limit :: nat and full_error :: 'e +
  fixes evict :: "'s \<Rightarrow> 'k \<Rightarrow> ('e, 's) result"
  assumes evict_members: "\<exists>s'. evict s k = Inr s' \<and> members s' = remove1 k (members s)"
begin

lemma evict_well_formed:
  "well_formed_registry limit (members s) \<Longrightarrow> evict s k = Inr s' \<Longrightarrow>
     well_formed_registry limit (members s')"
  using evict_members [of s k] by (auto simp: well_formed_registry_def length_remove1)

lemma evict_removes:
  "well_formed_registry limit (members s) \<Longrightarrow> evict s k = Inr s' \<Longrightarrow>
     set (members s') = set (members s) - {k}"
  using evict_members [of s k] by (auto simp: well_formed_registry_def)

lemma evict_frees_a_place:
  assumes "well_formed_registry limit (members s)" "k \<in> set (members s)" "evict s k = Inr s'"
  shows "\<exists>s''. enter s' k' = Inr s''"
proof -
  have "length (members s') < limit"
  proof -
    have "length (members s') = length (members s) - 1"
      using assms(2,3) evict_members [of s k] by (auto simp: length_remove1)
    with assms(1) length_pos_if_in_set [OF assms(2)] show ?thesis
      unfolding well_formed_registry_def by linarith
  qed
  then show ?thesis using enter_error_iff [of s' k'] by (cases "enter s' k'") auto
qed

lemma evict_enter_membership:
  "well_formed_registry limit (members s) \<Longrightarrow> evict s k = Inr s' \<Longrightarrow> enter s' k = Inr s'' \<Longrightarrow>
     set (members s'') = insert k (set (members s))"
  using enter_members [of s' k s''] evict_removes [of s k s'] by auto

end

section \<open>The registries of the two programs\<close>

interpretation burn_signer_registry:
  removable_registry gw_burn_signers add_burn_signer MAX_BURN_SIGNERS BurnSignerLimitExceeded
    remove_burn_signer
  by unfold_locales
    (auto simp: add_burn_signer_def is_burn_signer_def remove_burn_signer_def vec_remove_position
      split: option.splits intro: remove1_idem [symmetric])

interpretation wallet_token_registry:
  bounded_registry gw_supported_tokens "\<lambda>w mint. add_token w mint bump" WalletTypes.MAX_SUPPORTED_TOKENS
    GatewayWalletError.MaxTokensSupported for bump
  by unfold_locales (auto simp: add_token_def is_token_supported_def)

interpretation attester_registry:
  removable_registry gm_enabled_attesters add_attester MAX_ATTESTERS AttesterLimitExceeded remove_attester
  by unfold_locales
    (auto simp: add_attester_def is_attester_enabled_def remove_attester_def vec_remove_position
      split: option.splits intro: remove1_idem [symmetric])

interpretation minter_token_registry:
  bounded_registry gm_supported_tokens "\<lambda>m mint. minter_add_token m mint bump" MINTER_MAX_SUPPORTED_TOKENS
    GatewayMinterError.MaxTokensSupported for bump
  by unfold_locales (auto simp: minter_add_token_def minter_is_token_supported_def)

section \<open>The bump vector\<close>

text \<open>The bump of the custody account of a token, as recorded when the token was added.\<close>

lemma position_nth_distinct:
  "distinct xs \<Longrightarrow> i < length xs \<Longrightarrow> position (\<lambda>t. t = xs ! i) xs = Some i"
proof (induction xs arbitrary: i)
  case (Cons x xs)
  then show ?case by (cases i) auto
qed simp

lemma position_append_notin:
  "position p (xs @ ys) = (case position p xs of Some i \<Rightarrow> Some i
     | None \<Rightarrow> map_option (\<lambda>i. i + length xs) (position p ys))"
proof (induction xs)
  case Nil
  show ?case by (simp add: map_option.identity option.map_ident)
next
  case (Cons x xs)
  then show ?case by (cases "position p xs") (simp_all add: option.map_comp comp_def del: position_None)
qed

definition tokens_aligned :: "GatewayWallet \<Rightarrow> bool" where
  "tokens_aligned w \<longleftrightarrow>
     length (gw_custody_token_account_bumps w) = length (gw_supported_tokens w) \<and>
     well_formed_registry WalletTypes.MAX_SUPPORTED_TOKENS (gw_supported_tokens w)"

lemma get_bump_total:
  "tokens_aligned w \<Longrightarrow> is_token_supported w t \<Longrightarrow> \<exists>b. get_custody_token_account_bump w t = Inr b"
  by (auto simp: tokens_aligned_def is_token_supported_def get_custody_token_account_bump_def
      get_token_index_def index_checked_def dest: position_Some split: option.splits)

lemma get_bump_unsupported:
  "\<not> is_token_supported w t \<Longrightarrow> get_custody_token_account_bump w t = Inl (Custom GatewayWalletError.TokenNotSupported)"
  by (auto simp: is_token_supported_def get_custody_token_account_bump_def get_token_index_def
      split: option.splits dest!: position_Some)

lemma get_bump_supported:
  "get_custody_token_account_bump w t = Inr b \<Longrightarrow> is_token_supported w t"
  by (rule ccontr) (simp add: get_bump_unsupported)

lemma add_token_aligned:
  "tokens_aligned w \<Longrightarrow> add_token w t b = Inr w' \<Longrightarrow> tokens_aligned w'"
  by (auto simp: tokens_aligned_def add_token_def is_token_supported_def well_formed_registry_def
      split: if_splits)

lemma get_bump_add_token_other:
  assumes "tokens_aligned w" "add_token w t b = Inr w'" "is_token_supported w u"
  shows "get_custody_token_account_bump w' u = get_custody_token_account_bump w u"
  using assms
  by (auto simp: tokens_aligned_def add_token_def is_token_supported_def
      get_custody_token_account_bump_def get_token_index_def index_checked_def position_append_notin
      nth_append split: if_splits option.splits dest: position_Some)

lemma get_bump_add_token_new:
  assumes "tokens_aligned w" "add_token w t b = Inr w'" "\<not> is_token_supported w t"
  shows "get_custody_token_account_bump w' t = Inr b"
  using assms
  by (auto simp: tokens_aligned_def add_token_def is_token_supported_def
      get_custody_token_account_bump_def get_token_index_def index_checked_def position_append_notin
      split: if_splits option.splits dest: position_in_set)

definition minter_tokens_aligned :: "GatewayMinter \<Rightarrow> bool" where
  "minter_tokens_aligned m \<longleftrightarrow>
     length (gm_custody_token_account_bumps m) = length (gm_supported_tokens m) \<and>
     well_formed_registry MINTER_MAX_SUPPORTED_TOKENS (gm_supported_tokens m)"

lemma minter_add_token_aligned:
  "minter_tokens_aligned m \<Longrightarrow> minter_add_token m t b = Inr m' \<Longrightarrow> minter_tokens_aligned m'"
  by (auto simp: minter_tokens_aligned_def minter_add_token_def minter_is_token_supported_def
      well_formed_registry_def split: if_splits)

lemma minter_get_bump_total:
  "minter_tokens_aligned m \<Longrightarrow> minter_is_token_supported m t \<Longrightarrow>
     \<exists>b. minter_get_custody_token_account_bump m t = Inr b"
  by (auto simp: minter_tokens_aligned_def minter_is_token_supported_def
      minter_get_custody_token_account_bump_def minter_get_token_index_def index_checked_def
      dest: position_Some split: option.splits)

lemma minter_get_bump_supported:
  "minter_get_custody_token_account_bump m t = Inr b \<Longrightarrow> minter_is_token_supported m t"
  by (auto simp: minter_is_token_supported_def minter_get_custody_token_account_bump_def
      minter_get_token_index_def split: option.splits dest!: position_Some)

end
