(* ===== verification/WalletFunds.thy ===== *)
theory WalletFunds
  imports Views Registry
begin

text \<open>
  The instructions that move a depositor's money in and out of the GatewayWallet: deposit.rs,
  deposit_for.rs, initiate_withdrawal.rs and withdrawal.rs, with the CPI methods of
  \<open>impl GatewayDeposit\<close> and the denylist test of utils.rs.  Each instruction is its accounts struct (a
  record of keys), its account validation, and its handler, which returns the new ledger and the
  events it emitted.
\<close>

section \<open>Shared by the wallet's instructions\<close>

type_synonym wallet_outcome = "(ledger \<times> WalletEvent list) wallet_result"

definition is_account_denylisted :: "ledger \<Rightarrow> pubkey \<Rightarrow> bool" where
  "is_account_denylisted l k \<longleftrightarrow> data_len (acc_data (l k)) \<noteq> 0"

text \<open>\<open>seeds = [GATEWAY_WALLET_SEED], bump = gateway_wallet.bump\<close> and the pause constraint.\<close>

definition check_wallet_pda :: "platform \<Rightarrow> pubkey \<Rightarrow> GatewayWallet \<Rightarrow> unit wallet_result" where
  "check_wallet_pda pf k w = check_seeds_bump pf WALLET_PROGRAM_ID k [GATEWAY_WALLET_SEED] (gw_bump w)"

definition check_not_paused :: "GatewayWallet \<Rightarrow> unit wallet_result" where
  "check_not_paused w = require (\<not> gw_paused w) (Custom GatewayWalletError.ProgramPaused)"

text \<open>\<open>seeds = [CUSTODY, mint], bump = gateway_wallet.get_custody_token_account_bump(mint)?\<close>.\<close>

definition check_custody_pda ::
    "platform \<Rightarrow> GatewayWallet \<Rightarrow> pubkey \<Rightarrow> pubkey \<Rightarrow> unit wallet_result" where
  "check_custody_pda pf w mint k =
     and_then (get_custody_token_account_bump w mint) (\<lambda>bump.
     check_seeds_bump pf WALLET_PROGRAM_ID k [GATEWAY_WALLET_CUSTODY_SEED, mint] bump)"

lemma check_wallet_Inr [result_simps]:
  "check_wallet_pda pf k w = Inr u \<longleftrightarrow>
     create_program_address pf [GATEWAY_WALLET_SEED, [gw_bump w]] WALLET_PROGRAM_ID = Inr k"
  "check_not_paused w = Inr u \<longleftrightarrow> \<not> gw_paused w"
  "check_custody_pda pf w mint k = Inr u \<longleftrightarrow>
     (\<exists>b. get_custody_token_account_bump w mint = Inr b \<and>
          create_program_address pf [GATEWAY_WALLET_CUSTODY_SEED, mint, [b]] WALLET_PROGRAM_ID = Inr k)"
  by (simp_all add: check_wallet_pda_def check_not_paused_def check_custody_pda_def result_simps)

section \<open>impl GatewayDeposit: deposit and complete_withdrawal\<close>

definition deposit_transfer ::
    "platform \<Rightarrow> transaction \<Rightarrow> GatewayDeposit \<Rightarrow> pubkey \<Rightarrow> pubkey \<Rightarrow> pubkey \<Rightarrow> u64 \<Rightarrow> ledger \<Rightarrow>
     (GatewayDeposit \<times> ledger) wallet_result" where
  "deposit_transfer pf tx d from_account to_account authority amount l =
     and_then (require (amount > 0) (Custom InvalidDepositAmount)) (\<lambda>_.
     and_then (token_transfer pf WALLET_PROGRAM_ID tx None from_account to_account authority amount l) (\<lambda>l.
     and_then (add_u64 (dep_available_amount d) amount) (\<lambda>available.
     Inr (d\<lparr> dep_available_amount := available \<rparr>, l))))"

definition complete_withdrawal ::
    "platform \<Rightarrow> transaction \<Rightarrow> GatewayDeposit \<Rightarrow> pubkey \<Rightarrow> pubkey \<Rightarrow> pubkey \<Rightarrow> bytes list \<Rightarrow> ledger \<Rightarrow>
     (GatewayDeposit \<times> u64 \<times> ledger) wallet_result" where
  "complete_withdrawal pf tx d from_account to_account authority signer_seeds l =
     (let withdrawal_amount = dep_withdrawing_amount d;
          d = d\<lparr> dep_withdrawing_amount := 0, dep_withdrawal_block := 0 \<rparr> in
      and_then (token_transfer pf WALLET_PROGRAM_ID tx (Some signer_seeds) from_account to_account
                  authority withdrawal_amount l) (\<lambda>l.
      Inr (d, withdrawal_amount, l)))"

section \<open>deposit\<close>

record DepositContext =
  dp_payer :: pubkey
  dp_owner :: pubkey
  dp_gateway_wallet :: pubkey
  dp_owner_token_account :: pubkey
  dp_custody_token_account :: pubkey
  dp_deposit :: pubkey
  dp_depositor_denylist :: pubkey
  dp_token_program :: pubkey
  dp_system_program :: pubkey

definition deposit_accounts ::
    "platform \<Rightarrow> transaction \<Rightarrow> DepositContext \<Rightarrow> ledger \<Rightarrow>
     (TokenAccount \<times> GatewayDeposit \<times> u8 \<times> ledger) wallet_result" where
  "deposit_accounts pf tx c l =
     and_then (load_signer tx (dp_payer c)) (\<lambda>_.
     and_then (load_signer tx (dp_owner c)) (\<lambda>_.
     and_then (load_wallet l (dp_gateway_wallet c)) (\<lambda>gateway_wallet.
     and_then (load_token l (dp_owner_token_account c)) (\<lambda>owner_token_account.
     and_then (load_token l (dp_custody_token_account c)) (\<lambda>custody_token_account.
     and_then (load_program (dp_token_program c) TOKEN_PROGRAM_ID) (\<lambda>_.
     and_then (load_program (dp_system_program c) SYSTEM_PROGRAM_ID) (\<lambda>_.
     let mint = ta_mint custody_token_account in
     and_then (init_if_needed pf WALLET_PROGRAM_ID tx (dp_payer c) (dp_deposit c)
                 [GATEWAY_DEPOSIT_SEED, mint, dp_owner c] DEPOSIT_SPACE as_deposit
                 zeroed_GatewayDeposit l) (\<lambda>(deposit, deposit_bump, l).
     and_then (check_mut tx (dp_payer c)) (\<lambda>_.
     and_then (check_wallet_pda pf (dp_gateway_wallet c) gateway_wallet) (\<lambda>_.
     and_then (check_not_paused gateway_wallet) (\<lambda>_.
     and_then (check_mut tx (dp_owner_token_account c)) (\<lambda>_.
     and_then (check_token_owner owner_token_account (dp_owner c)) (\<lambda>_.
     and_then (check_token_mint owner_token_account mint) (\<lambda>_.
     and_then (check_custody_pda pf gateway_wallet mint (dp_custody_token_account c)) (\<lambda>_.
     and_then (check_mut tx (dp_custody_token_account c)) (\<lambda>_.
     and_then (check_token_owner custody_token_account (dp_gateway_wallet c)) (\<lambda>_.
     and_then (check_seeds_find pf WALLET_PROGRAM_ID (dp_depositor_denylist c)
                 [DENYLIST_SEED, dp_owner c]) (\<lambda>_.
     Inr (custody_token_account, deposit, deposit_bump, l)))))))))))))))))))"

definition deposit :: "platform \<Rightarrow> transaction \<Rightarrow> DepositContext \<Rightarrow> u64 \<Rightarrow> ledger \<Rightarrow> wallet_outcome" where
  "deposit pf tx c amount l =
     and_then (deposit_accounts pf tx c l) (\<lambda>(custody_token_account, deposit, deposit_bump, l).
     and_then (require (\<not> is_account_denylisted l (dp_depositor_denylist c))
                (Custom AccountDenylisted)) (\<lambda>_.
     let mint = ta_mint custody_token_account;
         deposit = initialize_if_needed deposit deposit_bump (dp_owner c) mint in
     and_then (deposit_transfer pf tx deposit (dp_owner_token_account c) (dp_custody_token_account c)
                 (dp_owner c) amount l) (\<lambda>(deposit, l).
     and_then (exit_deposit (dp_deposit c) deposit l) (\<lambda>l.
     Inr (l, [Deposited mint (dp_owner c) (dp_owner c) amount])))))"

section \<open>deposit_for\<close>

record DepositForContext =
  df_payer :: pubkey
  df_owner :: pubkey
  df_gateway_wallet :: pubkey
  df_owner_token_account :: pubkey
  df_custody_token_account :: pubkey
  df_deposit :: pubkey
  df_sender_denylist :: pubkey
  df_depositor_denylist :: pubkey
  df_token_program :: pubkey
  df_system_program :: pubkey

definition deposit_for_accounts ::
    "platform \<Rightarrow> transaction \<Rightarrow> DepositForContext \<Rightarrow> pubkey \<Rightarrow> ledger \<Rightarrow>
     (TokenAccount \<times> GatewayDeposit \<times> u8 \<times> ledger) wallet_result" where
  "deposit_for_accounts pf tx c depositor l =
     and_then (load_signer tx (df_payer c)) (\<lambda>_.
     and_then (load_signer tx (df_owner c)) (\<lambda>_.
     and_then (load_wallet l (df_gateway_wallet c)) (\<lambda>gateway_wallet.
     and_then (load_token l (df_owner_token_account c)) (\<lambda>owner_token_account.
     and_then (load_token l (df_custody_token_account c)) (\<lambda>custody_token_account.
     and_then (load_program (df_token_program c) TOKEN_PROGRAM_ID) (\<lambda>_.
     and_then (load_program (df_system_program c) SYSTEM_PROGRAM_ID) (\<lambda>_.
     let mint = ta_mint custody_token_account in
     and_then (init_if_needed pf WALLET_PROGRAM_ID tx (df_payer c) (df_deposit c)
                 [GATEWAY_DEPOSIT_SEED, mint, depositor] DEPOSIT_SPACE as_deposit
                 zeroed_GatewayDeposit l) (\<lambda>(deposit, deposit_bump, l).
     and_then (check_mut tx (df_payer c)) (\<lambda>_.
     and_then (check_wallet_pda pf (df_gateway_wallet c) gateway_wallet) (\<lambda>_.
     and_then (check_not_paused gateway_wallet) (\<lambda>_.
     and_then (check_mut tx (df_owner_token_account c)) (\<lambda>_.
     and_then (check_token_owner owner_token_account (df_owner c)) (\<lambda>_.
     and_then (check_token_mint owner_token_account mint) (\<lambda>_.
     and_then (check_custody_pda pf gateway_wallet mint (df_custody_token_account c)) (\<lambda>_.
     and_then (check_mut tx (df_custody_token_account c)) (\<lambda>_.
     and_then (check_token_owner custody_token_account (df_gateway_wallet c)) (\<lambda>_.
     and_then (check_seeds_find pf WALLET_PROGRAM_ID (df_sender_denylist c)
                 [DENYLIST_SEED, df_owner c]) (\<lambda>_.
     and_then (check_seeds_find pf WALLET_PROGRAM_ID (df_depositor_denylist c)
                 [DENYLIST_SEED, depositor]) (\<lambda>_.
     Inr (custody_token_account, deposit, deposit_bump, l))))))))))))))))))))"

definition deposit_for ::
    "platform \<Rightarrow> transaction \<Rightarrow> DepositForContext \<Rightarrow> u64 \<Rightarrow> pubkey \<Rightarrow> ledger \<Rightarrow> wallet_outcome" where
  "deposit_for pf tx c amount depositor l =
     and_then (deposit_for_accounts pf tx c depositor l) (\<lambda>(custody_token_account, deposit, deposit_bump, l).
     and_then (require (depositor \<noteq> default_pubkey) (Custom InvalidDepositor)) (\<lambda>_.
     and_then (require (\<not> is_account_denylisted l (df_sender_denylist c))
                (Custom AccountDenylisted)) (\<lambda>_.
     and_then (require (\<not> is_account_denylisted l (df_depositor_denylist c))
                (Custom AccountDenylisted)) (\<lambda>_.
     let mint = ta_mint custody_token_account;
         deposit = initialize_if_needed deposit deposit_bump depositor mint in
     and_then (deposit_transfer pf tx deposit (df_owner_token_account c) (df_custody_token_account c)
                 (df_owner c) amount l) (\<lambda>(deposit, l).
     and_then (exit_deposit (df_deposit c) deposit l) (\<lambda>l.
     Inr (l, [Deposited mint depositor (df_owner c) amount])))))))"

section \<open>initiate_withdrawal\<close>

record InitiateWithdrawalContext =
  iw_depositor :: pubkey
  iw_gateway_wallet :: pubkey
  iw_deposit :: pubkey

definition initiate_withdrawal_accounts ::
    "platform \<Rightarrow> transaction \<Rightarrow> InitiateWithdrawalContext \<Rightarrow> ledger \<Rightarrow>
     (GatewayWallet \<times> GatewayDeposit) wallet_result" where
  "initiate_withdrawal_accounts pf tx c l =
     and_then (load_signer tx (iw_depositor c)) (\<lambda>_.
     and_then (load_wallet l (iw_gateway_wallet c)) (\<lambda>gateway_wallet.
     and_then (load_deposit l (iw_deposit c)) (\<lambda>deposit.
     and_then (check_mut tx (iw_depositor c)) (\<lambda>_.
     and_then (check_wallet_pda pf (iw_gateway_wallet c) gateway_wallet) (\<lambda>_.
     and_then (check_not_paused gateway_wallet) (\<lambda>_.
     and_then (check_seeds_bump pf WALLET_PROGRAM_ID (iw_deposit c)
                 [GATEWAY_DEPOSIT_SEED, dep_token_mint deposit, iw_depositor c] (dep_bump deposit)) (\<lambda>_.
     and_then (check_mut tx (iw_deposit c)) (\<lambda>_.
     Inr (gateway_wallet, deposit)))))))))"

definition initiate_withdrawal ::
    "platform \<Rightarrow> transaction \<Rightarrow> InitiateWithdrawalContext \<Rightarrow> u64 \<Rightarrow> ledger \<Rightarrow> wallet_outcome" where
  "initiate_withdrawal pf tx c amount l =
     and_then (initiate_withdrawal_accounts pf tx c l) (\<lambda>(gateway_wallet, deposit).
     let token_mint = dep_token_mint deposit in
     and_then (deposit_initiate_withdrawal (tx_slot tx) deposit amount (gw_withdrawal_delay gateway_wallet)
                 gateway_wallet token_mint)
       (\<lambda>(deposit, remaining_available, total_withdrawing, withdrawal_block).
     and_then (exit_deposit (iw_deposit c) deposit l) (\<lambda>l.
     Inr (l, [WithdrawalInitiated token_mint (iw_depositor c) amount
                remaining_available total_withdrawing withdrawal_block]))))"

section \<open>withdraw\<close>

record WithdrawContext =
  wd_depositor :: pubkey
  wd_gateway_wallet :: pubkey
  wd_custody_token_account :: pubkey
  wd_depositor_token_account :: pubkey
  wd_deposit :: pubkey
  wd_token_program :: pubkey

definition withdraw_accounts ::
    "platform \<Rightarrow> transaction \<Rightarrow> WithdrawContext \<Rightarrow> ledger \<Rightarrow>
     (GatewayWallet \<times> TokenAccount \<times> GatewayDeposit) wallet_result" where
  "withdraw_accounts pf tx c l =
     and_then (load_signer tx (wd_depositor c)) (\<lambda>_.
     and_then (load_wallet l (wd_gateway_wallet c)) (\<lambda>gateway_wallet.
     and_then (load_token l (wd_custody_token_account c)) (\<lambda>custody_token_account.
     and_then (load_token l (wd_depositor_token_account c)) (\<lambda>depositor_token_account.
     and_then (load_deposit l (wd_deposit c)) (\<lambda>deposit.
     and_then (load_program (wd_token_program c) TOKEN_PROGRAM_ID) (\<lambda>_.
     let mint = ta_mint custody_token_account in
     and_then (check_mut tx (wd_depositor c)) (\<lambda>_.
     and_then (check_wallet_pda pf (wd_gateway_wallet c) gateway_wallet) (\<lambda>_.
     and_then (check_not_paused gateway_wallet) (\<lambda>_.
     and_then (check_custody_pda pf gateway_wallet mint (wd_custody_token_account c)) (\<lambda>_.
     and_then (check_mut tx (wd_custody_token_account c)) (\<lambda>_.
     and_then (check_token_owner custody_token_account (wd_gateway_wallet c)) (\<lambda>_.
     and_then (check_mut tx (wd_depositor_token_account c)) (\<lambda>_.
     and_then (check_token_owner depositor_token_account (wd_depositor c)) (\<lambda>_.
     and_then (check_token_mint depositor_token_account mint) (\<lambda>_.
     and_then (check_seeds_bump pf WALLET_PROGRAM_ID (wd_deposit c)
                 [GATEWAY_DEPOSIT_SEED, dep_token_mint deposit, wd_depositor c] (dep_bump deposit)) (\<lambda>_.
     and_then (check_mut tx (wd_deposit c)) (\<lambda>_.
     and_then (require (dep_token_mint deposit = mint) (Anchor ConstraintRaw)) (\<lambda>_.
     Inr (gateway_wallet, custody_token_account, deposit)))))))))))))))))))"

definition withdraw :: "platform \<Rightarrow> transaction \<Rightarrow> WithdrawContext \<Rightarrow> ledger \<Rightarrow> wallet_outcome" where
  "withdraw pf tx c l =
     and_then (withdraw_accounts pf tx c l) (\<lambda>(gateway_wallet, custody_token_account, deposit).
     let token_mint = ta_mint custody_token_account in
     and_then (require (dep_withdrawing_amount deposit > 0) (Custom NoWithdrawalInProgress)) (\<lambda>_.
     and_then (require (tx_slot tx \<ge> dep_withdrawal_block deposit) (Custom WithdrawalDelayNotElapsed)) (\<lambda>_.
     and_then (complete_withdrawal pf tx deposit (wd_custody_token_account c)
                 (wd_depositor_token_account c) (wd_gateway_wallet c)
                 [GATEWAY_WALLET_SEED, [gw_bump gateway_wallet]] l) (\<lambda>(deposit, withdrawal_amount, l).
     and_then (exit_deposit (wd_deposit c) deposit l) (\<lambda>l.
     Inr (l, [WithdrawalCompleted token_mint (wd_depositor c) withdrawal_amount]))))))"

section \<open>The effect of a credit\<close>

text \<open>
  What deposit and deposit_for share after validation: the deposit account is initialised if new, the
  tokens move into custody, the balance grows, the record is written back.
\<close>

definition credited ::
    "ledger \<Rightarrow> pubkey \<Rightarrow> pubkey \<Rightarrow> pubkey \<Rightarrow> pubkey \<Rightarrow> u64 \<Rightarrow> GatewayDeposit \<Rightarrow> GatewayDeposit \<Rightarrow> ledger \<Rightarrow> bool"
where
  "credited l k src cust sender amount d0 d l' \<longleftrightarrow>
     0 < amount \<and> deposit_at l' = (deposit_at l)(k \<mapsto> d) \<and>
     d = d0\<lparr> dep_available_amount := dep_available_amount d0 + amount \<rparr> \<and>
     unat (dep_available_amount d0) + unat amount < 2 ^ 64 \<and>
     (\<exists>l1 l2. amount_at l1 = amount_at l \<and> tok_at l1 = tok_at l \<and>
        transferred l1 src cust sender amount l2 \<and> amount_at l' = amount_at l2 \<and> tok_at l' = tok_at l2) \<and>
     wallet_at l' = wallet_at l \<and> delegate_at l' = delegate_at l \<and> touches l {k} l' \<and>
     (fresh l k \<or> deposit_at l k \<noteq> None) \<and> acc_owner (l' k) = WALLET_PROGRAM_ID"

lemma wallet_not_token [simp]: "WALLET_PROGRAM_ID \<noteq> TOKEN_PROGRAM_ID" "TOKEN_PROGRAM_ID \<noteq> WALLET_PROGRAM_ID"
  by simp_all

lemma creditedI:
  assumes init: "initialised l k WALLET_PROGRAM_ID DEPOSIT_SPACE as_deposit zeroed_GatewayDeposit x l1"
    and own: "acc_owner (l1 k) = WALLET_PROGRAM_ID"
    and run: "deposit_transfer pf tx d0 src cust sender amount l1 = Inr (d, l2)"
    and ex: "exit_deposit k d l2 = (Inr l' :: ledger wallet_result)"
  shows "credited l k src cust sender amount d0 d l'"
proof -
  from run have amount: "0 < amount" and d: "d = d0\<lparr> dep_available_amount := dep_available_amount d0 + amount \<rparr>"
    and bound: "unat (dep_available_amount d0) + unat amount < 2 ^ 64"
    and tr: "transferred l1 src cust sender amount l2"
    by (auto simp: deposit_transfer_def result_simps intro: token_transfer_transferred)
  from ex have l': "l' = l2(k := (l2 k)\<lparr> acc_data := DepositData d \<rparr>)"
    by (auto simp: exit_deposit_def result_simps)
  note ot = transferred_only_tokens [OF tr]
  have v1: "wallet_at l1 = wallet_at l" "delegate_at l1 = delegate_at l" "tok_at l1 = tok_at l"
    by (rule typed_initialised [OF init]; simp)+
  have v2: "deposit_at l2 = deposit_at l1" "wallet_at l2 = wallet_at l1" "delegate_at l2 = delegate_at l1"
    by (rule typed_only_tokens [OF ot], simp)+
  have own2: "acc_owner (l2 k) = WALLET_PROGRAM_ID" using own ot by (simp add: only_tokens_moved_def)
  have data2: "acc_data (l2 k) = acc_data (l1 k)" using own ot by (simp add: only_tokens_moved_def)
  have kind: "wallet_at l1 k = None" "delegate_at l1 k = None" "amount_at l1 k = 0"
    using initialised_data [OF init] by (auto simp: typed_def amount_at_def result_simps)
  have dep: "deposit_at l' = (deposit_at l)(k \<mapsto> d)"
  proof
    fix j
    have "deposit_at l' j = deposit_at l j" if "j \<noteq> k"
    proof -
      have "deposit_at l' j = deposit_at l2 j" using that by (simp add: l' typed_def)
      also have "\<dots> = deposit_at l j"
        unfolding v2 using that by (intro typed_untouched [OF untouched_initialised [OF init]]) simp
      finally show ?thesis .
    qed
    then show "deposit_at l' j = ((deposit_at l)(k \<mapsto> d)) j"
      using own2 by (cases "j = k") (simp_all add: l' typed_def)
  qed
  have others: "wallet_at l' = wallet_at l" "delegate_at l' = delegate_at l"
    using kind own2 unfolding l' by (subst typed_write_other; simp add: v1 v2)+
  have toks: "tok_at l' = tok_at l2" "tok_at l1 = tok_at l"
    using own2 by (simp_all add: l' typed_write_foreign v1)
  have amts: "amount_at l' = amount_at l2" "amount_at l1 = amount_at l"
  proof -
    have "amount_at l2 k = 0" using kind(3) data2 by (simp add: amount_at_def)
    then show "amount_at l' = amount_at l2" unfolding l' by (intro ext amount_at_write) simp_all
    show "amount_at l1 = amount_at l" by (intro ext amount_at_initialised [OF init])
  qed
  have "touches l {k} l'"
    unfolding l'
    by (rule touches_trans [OF untouched_touches [OF untouched_initialised [OF init]]],
        rule touches_trans [OF touches_only_tokens [OF ot]], rule untouched_touches, rule untouched_update)
  moreover have "fresh l k \<or> deposit_at l k \<noteq> None"
    using init by (cases rule: initialised_cases) auto
  moreover have "acc_owner (l' k) = WALLET_PROGRAM_ID" using own2 by (simp add: l')
  ultimately show ?thesis
    using amount d bound tr dep others toks amts unfolding credited_def by blast
qed

text \<open>The deposit record before the credit: the stored one, or a new one for this depositor and mint.\<close>

definition deposit_before :: "ledger \<Rightarrow> pubkey \<Rightarrow> u8 \<Rightarrow> pubkey \<Rightarrow> pubkey \<Rightarrow> GatewayDeposit" where
  "deposit_before l k bump depositor mint =
     initialize_if_needed (case deposit_at l k of None \<Rightarrow> zeroed_GatewayDeposit | Some d \<Rightarrow> d) bump depositor mint"

definition custody_of :: "platform \<Rightarrow> ledger \<Rightarrow> pubkey \<Rightarrow> GatewayWallet \<Rightarrow> pubkey \<Rightarrow> pubkey \<Rightarrow> bool" where
  "custody_of pf l g w mint cust \<longleftrightarrow>
     (\<exists>b. get_custody_token_account_bump w mint = Inr b \<and>
          create_program_address pf [GATEWAY_WALLET_CUSTODY_SEED, mint, [b]] WALLET_PROGRAM_ID = Inr cust) \<and>
     (\<exists>t. tok_at l cust = Some t \<and> ta_mint t = mint \<and> ta_owner t = g)"

definition wallet_running :: "platform \<Rightarrow> ledger \<Rightarrow> pubkey \<Rightarrow> GatewayWallet \<Rightarrow> bool" where
  "wallet_running pf l g w \<longleftrightarrow> wallet_at l g = Some w \<and> \<not> gw_paused w \<and>
     create_program_address pf [GATEWAY_WALLET_SEED, [gw_bump w]] WALLET_PROGRAM_ID = Inr g"

definition deposit_made ::
    "platform \<Rightarrow> transaction \<Rightarrow> ledger \<Rightarrow> pubkey \<Rightarrow> pubkey \<Rightarrow> pubkey \<Rightarrow> pubkey \<Rightarrow> pubkey \<Rightarrow> pubkey \<Rightarrow> u64 \<Rightarrow>
     WalletEvent list \<Rightarrow> ledger \<Rightarrow> bool" where
  "deposit_made pf tx l g src cust k sender depositor amount es l' \<longleftrightarrow>
     (\<exists>w mint bump d. wallet_running pf l g w \<and> custody_of pf l g w mint cust \<and>
        sender \<in> set (tx_signers tx) \<and> (\<exists>t. tok_at l src = Some t \<and> ta_owner t = sender \<and> ta_mint t = mint) \<and>
        try_bumps pf [GATEWAY_DEPOSIT_SEED, mint, depositor] WALLET_PROGRAM_ID 255 = Some (k, bump) \<and>
        credited l k src cust sender amount (deposit_before l k bump depositor mint) d l' \<and>
        es = [Deposited mint depositor sender amount])"

lemma wallet_runningI:
  "load_wallet l g = (Inr w :: GatewayWallet wallet_result) \<Longrightarrow> check_wallet_pda pf g w = Inr u \<Longrightarrow>
     check_not_paused w = Inr u' \<Longrightarrow> wallet_running pf l g w"
  by (simp add: wallet_running_def load_typed check_wallet_Inr)

lemma custody_ofI:
  "load_token l cust = (Inr t :: TokenAccount wallet_result) \<Longrightarrow> check_custody_pda pf w (ta_mint t) cust = Inr u \<Longrightarrow>
     check_token_owner t g = (Inr u' :: unit wallet_result) \<Longrightarrow> custody_of pf l g w (ta_mint t) cust"
  by (auto simp: custody_of_def load_typed check_wallet_Inr check_token_Inr)

lemma initialised_before:
  assumes "initialised l k WALLET_PROGRAM_ID DEPOSIT_SPACE as_deposit zeroed_GatewayDeposit x l1"
  shows "initialize_if_needed x bump depositor mint = deposit_before l k bump depositor mint"
  using assms
  by (cases rule: initialised_cases) (auto simp: deposit_before_def fresh_typed)

lemma not_denylisted_before:
  assumes "untouched l {k} l1" "data_len (acc_data (l1 k)) \<noteq> 0" "\<not> is_account_denylisted l1 j"
  shows "\<not> is_account_denylisted l j"
  using assms by (cases "j = k") (auto simp: is_account_denylisted_def untouched_def)

lemma deposit_effect:
  assumes ok: "system_program_ok pf" and run: "deposit pf tx c amount l = Inr (l', es)"
  shows "deposit_made pf tx l (dp_gateway_wallet c) (dp_owner_token_account c) (dp_custody_token_account c)
      (dp_deposit c) (dp_owner c) (dp_owner c) amount es l'"
    and "\<not> is_account_denylisted l (dp_depositor_denylist c)"
    and "\<exists>b. try_bumps pf [DENYLIST_SEED, dp_owner c] WALLET_PROGRAM_ID 255 = Some (dp_depositor_denylist c, b)"
proof -
  from run obtain ct x bump l1 where acc: "deposit_accounts pf tx c l = Inr (ct, x, bump, l1)"
    and allowed: "\<not> is_account_denylisted l1 (dp_depositor_denylist c)"
    and rest: "and_then (deposit_transfer pf tx (initialize_if_needed x bump (dp_owner c) (ta_mint ct))
        (dp_owner_token_account c) (dp_custody_token_account c) (dp_owner c) amount l1)
        (\<lambda>(d, l2). and_then (exit_deposit (dp_deposit c) d l2) (\<lambda>l3.
          Inr (l3, [Deposited (ta_mint ct) (dp_owner c) (dp_owner c) amount]))) = Inr (l', es)"
    unfolding deposit_def Let_def by (auto simp: and_then_eq_Inr require_eq_Inr)
  from rest obtain d l2 where
    tr: "deposit_transfer pf tx (initialize_if_needed x bump (dp_owner c) (ta_mint ct))
        (dp_owner_token_account c) (dp_custody_token_account c) (dp_owner c) amount l1 = Inr (d, l2)"
    and ex: "exit_deposit (dp_deposit c) d l2 = (Inr l' :: ledger wallet_result)"
    and es: "es = [Deposited (ta_mint ct) (dp_owner c) (dp_owner c) amount]"
    by (auto simp: and_then_eq_Inr)
  from acc obtain w ot u1 u2 u3 u4 u5 u6 u7 where
    w: "load_wallet l (dp_gateway_wallet c) = (Inr w :: GatewayWallet wallet_result)"
      "check_wallet_pda pf (dp_gateway_wallet c) w = Inr u1" "check_not_paused w = Inr u2"
    and ot: "load_token l (dp_owner_token_account c) = (Inr ot :: TokenAccount wallet_result)"
      "check_token_owner ot (dp_owner c) = (Inr u3 :: unit wallet_result)"
      "check_token_mint ot (ta_mint ct) = (Inr u4 :: unit wallet_result)"
    and ct: "load_token l (dp_custody_token_account c) = (Inr ct :: TokenAccount wallet_result)"
      "check_custody_pda pf w (ta_mint ct) (dp_custody_token_account c) = Inr u5"
      "check_token_owner ct (dp_gateway_wallet c) = (Inr u6 :: unit wallet_result)"
    and sig: "load_signer tx (dp_owner c) = (Inr u7 :: unit wallet_result)"
    and dl: "\<exists>b. try_bumps pf [DENYLIST_SEED, dp_owner c] WALLET_PROGRAM_ID 255 = Some (dp_depositor_denylist c, b)"
    and init: "init_if_needed pf WALLET_PROGRAM_ID tx (dp_payer c) (dp_deposit c)
      [GATEWAY_DEPOSIT_SEED, ta_mint ct, dp_owner c] DEPOSIT_SPACE as_deposit zeroed_GatewayDeposit l
      = (Inr (x, bump, l1) :: (GatewayDeposit \<times> u8 \<times> ledger) wallet_result)"
    unfolding deposit_accounts_def Let_def
    by (simp only: and_then_eq_Inr case_prod_conv prod.inject sum.inject split_paired_Ex check_seeds_find_Inr) blast
  note i = init_if_needed_Inr [OF ok program_ids_distinct(1) init]
  from creditedI [OF i(1,5) tr ex] initialised_before [OF i(1)]
  have "credited l (dp_deposit c) (dp_owner_token_account c) (dp_custody_token_account c) (dp_owner c) amount
      (deposit_before l (dp_deposit c) bump (dp_owner c) (ta_mint ct)) d l'" by simp
  with wallet_runningI [OF w] custody_ofI [OF ct] ot sig i(2) es
  show "deposit_made pf tx l (dp_gateway_wallet c) (dp_owner_token_account c) (dp_custody_token_account c)
      (dp_deposit c) (dp_owner c) (dp_owner c) amount es l'"
    unfolding deposit_made_def by (auto simp: load_typed check_token_Inr load_signer_Inr)
  show "\<not> is_account_denylisted l (dp_depositor_denylist c)"
    by (rule not_denylisted_before [OF untouched_initialised [OF i(1)] _ allowed])
      (simp add: i(4) DEPOSIT_SPACE_def)
  show "\<exists>b. try_bumps pf [DENYLIST_SEED, dp_owner c] WALLET_PROGRAM_ID 255 = Some (dp_depositor_denylist c, b)"
    by (rule dl)
qed

lemma deposit_for_effect:
  assumes ok: "system_program_ok pf" and run: "deposit_for pf tx c amount depositor l = Inr (l', es)"
  shows "deposit_made pf tx l (df_gateway_wallet c) (df_owner_token_account c) (df_custody_token_account c)
      (df_deposit c) (df_owner c) depositor amount es l'"
    and "\<not> is_account_denylisted l (df_sender_denylist c)" "\<not> is_account_denylisted l (df_depositor_denylist c)"
    and "\<exists>b. try_bumps pf [DENYLIST_SEED, df_owner c] WALLET_PROGRAM_ID 255 = Some (df_sender_denylist c, b)"
    and "\<exists>b. try_bumps pf [DENYLIST_SEED, depositor] WALLET_PROGRAM_ID 255 = Some (df_depositor_denylist c, b)"
    and "depositor \<noteq> default_pubkey"
proof -
  from run obtain ct x bump l1 where acc: "deposit_for_accounts pf tx c depositor l = Inr (ct, x, bump, l1)"
    and allowed: "\<not> is_account_denylisted l1 (df_sender_denylist c)"
      "\<not> is_account_denylisted l1 (df_depositor_denylist c)"
    and nonzero: "depositor \<noteq> default_pubkey"
    and rest: "and_then (deposit_transfer pf tx (initialize_if_needed x bump depositor (ta_mint ct))
        (df_owner_token_account c) (df_custody_token_account c) (df_owner c) amount l1)
        (\<lambda>(d, l2). and_then (exit_deposit (df_deposit c) d l2) (\<lambda>l3.
          Inr (l3, [Deposited (ta_mint ct) depositor (df_owner c) amount]))) = Inr (l', es)"
    unfolding deposit_for_def Let_def by (auto simp: and_then_eq_Inr require_eq_Inr)
  from rest obtain d l2 where
    tr: "deposit_transfer pf tx (initialize_if_needed x bump depositor (ta_mint ct))
        (df_owner_token_account c) (df_custody_token_account c) (df_owner c) amount l1 = Inr (d, l2)"
    and ex: "exit_deposit (df_deposit c) d l2 = (Inr l' :: ledger wallet_result)"
    and es: "es = [Deposited (ta_mint ct) depositor (df_owner c) amount]"
    by (auto simp: and_then_eq_Inr)
  from acc obtain w ot u1 u2 u3 u4 u5 u6 u7 where
    w: "load_wallet l (df_gateway_wallet c) = (Inr w :: GatewayWallet wallet_result)"
      "check_wallet_pda pf (df_gateway_wallet c) w = Inr u1" "check_not_paused w = Inr u2"
    and ot: "load_token l (df_owner_token_account c) = (Inr ot :: TokenAccount wallet_result)"
      "check_token_owner ot (df_owner c) = (Inr u3 :: unit wallet_result)"
      "check_token_mint ot (ta_mint ct) = (Inr u4 :: unit wallet_result)"
    and ct: "load_token l (df_custody_token_account c) = (Inr ct :: TokenAccount wallet_result)"
      "check_custody_pda pf w (ta_mint ct) (df_custody_token_account c) = Inr u5"
      "check_token_owner ct (df_gateway_wallet c) = (Inr u6 :: unit wallet_result)"
    and sig: "load_signer tx (df_owner c) = (Inr u7 :: unit wallet_result)"
    and dl: "\<exists>b. try_bumps pf [DENYLIST_SEED, df_owner c] WALLET_PROGRAM_ID 255 = Some (df_sender_denylist c, b)"
      "\<exists>b. try_bumps pf [DENYLIST_SEED, depositor] WALLET_PROGRAM_ID 255 = Some (df_depositor_denylist c, b)"
    and init: "init_if_needed pf WALLET_PROGRAM_ID tx (df_payer c) (df_deposit c)
      [GATEWAY_DEPOSIT_SEED, ta_mint ct, depositor] DEPOSIT_SPACE as_deposit zeroed_GatewayDeposit l
      = (Inr (x, bump, l1) :: (GatewayDeposit \<times> u8 \<times> ledger) wallet_result)"
    unfolding deposit_for_accounts_def Let_def
    by (simp only: and_then_eq_Inr case_prod_conv prod.inject sum.inject split_paired_Ex check_seeds_find_Inr) blast
  note i = init_if_needed_Inr [OF ok program_ids_distinct(1) init]
  from creditedI [OF i(1,5) tr ex] initialised_before [OF i(1)]
  have "credited l (df_deposit c) (df_owner_token_account c) (df_custody_token_account c) (df_owner c) amount
      (deposit_before l (df_deposit c) bump depositor (ta_mint ct)) d l'" by simp
  with wallet_runningI [OF w] custody_ofI [OF ct] ot sig i(2) es
  show "deposit_made pf tx l (df_gateway_wallet c) (df_owner_token_account c) (df_custody_token_account c)
      (df_deposit c) (df_owner c) depositor amount es l'"
    unfolding deposit_made_def by (auto simp: load_typed check_token_Inr load_signer_Inr)
  show "\<not> is_account_denylisted l (df_sender_denylist c)" "\<not> is_account_denylisted l (df_depositor_denylist c)"
    using not_denylisted_before [OF untouched_initialised [OF i(1)] _ allowed(1)]
      not_denylisted_before [OF untouched_initialised [OF i(1)] _ allowed(2)]
    by (simp_all add: i(4) DEPOSIT_SPACE_def)
  show "\<exists>b. try_bumps pf [DENYLIST_SEED, df_owner c] WALLET_PROGRAM_ID 255 = Some (df_sender_denylist c, b)"
    "\<exists>b. try_bumps pf [DENYLIST_SEED, depositor] WALLET_PROGRAM_ID 255 = Some (df_depositor_denylist c, b)"
    "depositor \<noteq> default_pubkey"
    by (fact dl nonzero)+
qed

section \<open>The effect of the withdrawal instructions\<close>

text \<open>A deposit record is rewritten in place and nothing else changes.\<close>

definition deposit_rewritten :: "ledger \<Rightarrow> pubkey \<Rightarrow> GatewayDeposit \<Rightarrow> GatewayDeposit \<Rightarrow> ledger \<Rightarrow> bool" where
  "deposit_rewritten l k d d' l' \<longleftrightarrow>
     deposit_at l k = Some d \<and> deposit_at l' = (deposit_at l)(k \<mapsto> d') \<and> wallet_at l' = wallet_at l \<and>
     delegate_at l' = delegate_at l \<and> tok_at l' = tok_at l \<and> amount_at l' = amount_at l \<and>
     untouched l {k} l' \<and> acc_owner (l' k) = WALLET_PROGRAM_ID"

lemma deposit_rewrittenI:
  assumes "deposit_at l k = Some d" "exit_deposit k d' l = (Inr l' :: ledger wallet_result)"
  shows "deposit_rewritten l k d d' l'"
proof -
  have l': "l' = l(k := (l k)\<lparr> acc_data := DepositData d' \<rparr>)" and own: "acc_owner (l k) = WALLET_PROGRAM_ID"
    and data: "acc_data (l k) = DepositData d"
    using assms by (auto simp: exit_deposit_def result_simps typed_Some)
  have "amount_at l' = amount_at l"
    unfolding l' by (intro ext amount_at_write) (simp_all add: amount_at_def data)
  moreover have "deposit_at l' = (deposit_at l)(k \<mapsto> d')"
    unfolding l' by (rule typed_write) (simp_all add: own)
  moreover have "wallet_at l' = wallet_at l" "delegate_at l' = delegate_at l" "tok_at l' = tok_at l"
    unfolding l' using own data by (simp_all add: typed_write_other typed_write_foreign typed_def)
  ultimately show ?thesis
    using assms(1) own by (simp add: deposit_rewritten_def l' untouched_def)
qed

lemma initiate_withdrawal_effect:
  assumes "initiate_withdrawal pf tx c amount l = Inr (l', es)"
  shows "\<exists>w d d' r. wallet_running pf l (iw_gateway_wallet c) w \<and> iw_depositor c \<in> set (tx_signers tx) \<and>
    create_program_address pf [GATEWAY_DEPOSIT_SEED, dep_token_mint d, iw_depositor c, [dep_bump d]]
      WALLET_PROGRAM_ID = Inr (iw_deposit c) \<and>
    deposit_initiate_withdrawal (tx_slot tx) d amount (gw_withdrawal_delay w) w (dep_token_mint d) = Inr (d', r) \<and>
    deposit_rewritten l (iw_deposit c) d d' l' \<and>
    es = [WithdrawalInitiated (dep_token_mint d) (iw_depositor c) amount (fst r) (fst (snd r)) (snd (snd r))]"
proof -
  from assms obtain w d where acc: "initiate_withdrawal_accounts pf tx c l = Inr (w, d)"
    and rest: "and_then (deposit_initiate_withdrawal (tx_slot tx) d amount (gw_withdrawal_delay w) w (dep_token_mint d))
       (\<lambda>(d', a, t, b). and_then (exit_deposit (iw_deposit c) d' l) (\<lambda>l.
         Inr (l, [WithdrawalInitiated (dep_token_mint d) (iw_depositor c) amount a t b]))) = Inr (l', es)"
    unfolding initiate_withdrawal_def Let_def by (auto simp: and_then_eq_Inr)
  from rest obtain d' a t b where
    run: "deposit_initiate_withdrawal (tx_slot tx) d amount (gw_withdrawal_delay w) w (dep_token_mint d) = Inr (d', a, t, b)"
    and ex: "exit_deposit (iw_deposit c) d' l = (Inr l' :: ledger wallet_result)"
    and es: "es = [WithdrawalInitiated (dep_token_mint d) (iw_depositor c) amount a t b]"
    by (auto simp: and_then_eq_Inr)
  from acc have "wallet_running pf l (iw_gateway_wallet c) w" "iw_depositor c \<in> set (tx_signers tx)"
    "create_program_address pf [GATEWAY_DEPOSIT_SEED, dep_token_mint d, iw_depositor c, [dep_bump d]]
      WALLET_PROGRAM_ID = Inr (iw_deposit c)" and d: "deposit_at l (iw_deposit c) = Some d"
    unfolding initiate_withdrawal_accounts_def
    by (auto simp: and_then_eq_Inr load_typed check_wallet_Inr load_signer_Inr check_seeds_bump_Inr wallet_running_def)
  with run es deposit_rewrittenI [OF d ex] show ?thesis by (intro exI [of _ w] exI [of _ d] exI [of _ d']) auto
qed

text \<open>A completed withdrawal: the tokens leave custody for the depositor, the withdrawing balance is zero.\<close>

definition withdrawn ::
    "ledger \<Rightarrow> pubkey \<Rightarrow> pubkey \<Rightarrow> pubkey \<Rightarrow> pubkey \<Rightarrow> GatewayDeposit \<Rightarrow> ledger \<Rightarrow> bool" where
  "withdrawn l k cust dst authority d l' \<longleftrightarrow>
     (\<exists>m. transferred l cust dst authority (dep_withdrawing_amount d) m \<and>
          deposit_rewritten m k d (d\<lparr> dep_withdrawing_amount := 0, dep_withdrawal_block := 0 \<rparr>) l')"

lemma withdraw_effect:
  assumes "withdraw pf tx c l = Inr (l', es)"
  shows "\<exists>w d. wallet_running pf l (wd_gateway_wallet c) w \<and> wd_depositor c \<in> set (tx_signers tx) \<and>
    custody_of pf l (wd_gateway_wallet c) w (dep_token_mint d) (wd_custody_token_account c) \<and>
    deposit_at l (wd_deposit c) = Some d \<and>
    create_program_address pf [GATEWAY_DEPOSIT_SEED, dep_token_mint d, wd_depositor c, [dep_bump d]]
      WALLET_PROGRAM_ID = Inr (wd_deposit c) \<and>
    (\<exists>t. tok_at l (wd_depositor_token_account c) = Some t \<and> ta_owner t = wd_depositor c) \<and>
    0 < dep_withdrawing_amount d \<and> dep_withdrawal_block d \<le> tx_slot tx \<and>
    withdrawn l (wd_deposit c) (wd_custody_token_account c) (wd_depositor_token_account c)
      (wd_gateway_wallet c) d l' \<and>
    es = [WithdrawalCompleted (dep_token_mint d) (wd_depositor c) (dep_withdrawing_amount d)]"
proof -
  from assms obtain w ct d m where acc: "withdraw_accounts pf tx c l = Inr (w, ct, d)"
    and pos: "0 < dep_withdrawing_amount d" "dep_withdrawal_block d \<le> tx_slot tx"
    and tr: "token_transfer pf WALLET_PROGRAM_ID tx (Some [GATEWAY_WALLET_SEED, [gw_bump w]])
      (wd_custody_token_account c) (wd_depositor_token_account c) (wd_gateway_wallet c)
      (dep_withdrawing_amount d) l = (Inr m :: ledger wallet_result)"
    and ex: "exit_deposit (wd_deposit c) (d\<lparr> dep_withdrawing_amount := 0, dep_withdrawal_block := 0 \<rparr>) m
      = (Inr l' :: ledger wallet_result)"
    and es: "es = [WithdrawalCompleted (ta_mint ct) (wd_depositor c) (dep_withdrawing_amount d)]"
    unfolding withdraw_def Let_def complete_withdrawal_def by (auto simp: and_then_eq_Inr require_eq_Inr)
  note t = token_transfer_transferred [OF tr]
  from acc have a: "wallet_running pf l (wd_gateway_wallet c) w" "wd_depositor c \<in> set (tx_signers tx)"
    "custody_of pf l (wd_gateway_wallet c) w (dep_token_mint d) (wd_custody_token_account c)"
    "deposit_at l (wd_deposit c) = Some d"
    "create_program_address pf [GATEWAY_DEPOSIT_SEED, dep_token_mint d, wd_depositor c, [dep_bump d]]
      WALLET_PROGRAM_ID = Inr (wd_deposit c)"
    "\<exists>t. tok_at l (wd_depositor_token_account c) = Some t \<and> ta_owner t = wd_depositor c"
    "ta_mint ct = dep_token_mint d"
    unfolding withdraw_accounts_def Let_def
    by (auto simp: and_then_eq_Inr load_typed check_wallet_Inr load_signer_Inr check_seeds_bump_Inr
        require_eq_Inr check_token_Inr wallet_running_def custody_of_def)
  have "deposit_at m (wd_deposit c) = Some d"
    using a(4) by (simp add: typed_only_tokens [OF transferred_only_tokens [OF t]])
  from deposit_rewrittenI [OF this ex] t
  have "withdrawn l (wd_deposit c) (wd_custody_token_account c) (wd_depositor_token_account c)
      (wd_gateway_wallet c) d l'"
    unfolding withdrawn_def by blast
  with a pos es show ?thesis by auto
qed

end
