(* ===== verification/WalletDelegates.thy ===== *)
theory WalletDelegates
  imports WalletFunds
begin

text \<open>
  Delegation and the denylist of the GatewayWallet: add_delegate.rs, remove_delegate.rs, denylist.rs,
  undenylist.rs and \<open>validate_signer_authorization\<close> of utils.rs.
\<close>

section \<open>add_delegate\<close>

record AddDelegateContext =
  ad_payer :: pubkey
  ad_depositor :: pubkey
  ad_gateway_wallet :: pubkey
  ad_token_mint :: pubkey
  ad_delegate_account :: pubkey
  ad_depositor_denylist :: pubkey
  ad_delegate_denylist :: pubkey
  ad_system_program :: pubkey

definition add_delegate_accounts ::
    "platform \<Rightarrow> transaction \<Rightarrow> AddDelegateContext \<Rightarrow> pubkey \<Rightarrow> ledger \<Rightarrow>
     (GatewayWallet \<times> GatewayDelegate \<times> u8 \<times> ledger) wallet_result" where
  "add_delegate_accounts pf tx c delegate l =
     and_then (load_signer tx (ad_payer c)) (\<lambda>_.
     and_then (load_signer tx (ad_depositor c)) (\<lambda>_.
     and_then (load_wallet l (ad_gateway_wallet c)) (\<lambda>gateway_wallet.
     and_then (load_mint l (ad_token_mint c)) (\<lambda>_.
     and_then (load_program (ad_system_program c) SYSTEM_PROGRAM_ID) (\<lambda>_.
     and_then (init_if_needed pf WALLET_PROGRAM_ID tx (ad_payer c) (ad_delegate_account c)
                 [GATEWAY_DELEGATE_SEED, ad_token_mint c, ad_depositor c, delegate] DELEGATE_SPACE
                 as_delegate zeroed_GatewayDelegate l) (\<lambda>(delegate_account, delegate_bump, l).
     and_then (check_mut tx (ad_payer c)) (\<lambda>_.
     and_then (check_wallet_pda pf (ad_gateway_wallet c) gateway_wallet) (\<lambda>_.
     and_then (check_not_paused gateway_wallet) (\<lambda>_.
     and_then (check_seeds_find pf WALLET_PROGRAM_ID (ad_depositor_denylist c)
                 [DENYLIST_SEED, ad_depositor c]) (\<lambda>_.
     and_then (check_seeds_find pf WALLET_PROGRAM_ID (ad_delegate_denylist c)
                 [DENYLIST_SEED, delegate]) (\<lambda>_.
     Inr (gateway_wallet, delegate_account, delegate_bump, l))))))))))))"

definition add_delegate ::
    "platform \<Rightarrow> transaction \<Rightarrow> AddDelegateContext \<Rightarrow> pubkey \<Rightarrow> ledger \<Rightarrow> wallet_outcome" where
  "add_delegate pf tx c delegate l =
     and_then (add_delegate_accounts pf tx c delegate l)
       (\<lambda>(gateway_wallet, delegate_account, delegate_bump, l).
     and_then (require (delegate \<noteq> default_pubkey) (Custom InvalidDelegate)) (\<lambda>_.
     and_then (require (delegate \<noteq> ad_depositor c) (Custom CannotDelegateToSelf)) (\<lambda>_.
     and_then (require (\<not> is_account_denylisted l (ad_depositor_denylist c))
                (Custom AccountDenylisted)) (\<lambda>_.
     and_then (require (\<not> is_account_denylisted l (ad_delegate_denylist c))
                (Custom AccountDenylisted)) (\<lambda>_.
     and_then (require (is_token_supported gateway_wallet (ad_token_mint c))
                (Custom GatewayWalletError.TokenNotSupported)) (\<lambda>_.
     let delegate_account = delegate_account\<lparr> del_bump := delegate_bump, del_status := Authorized,
           del_closeable_at_block := 0, del_token := ad_token_mint c,
           del_depositor := ad_depositor c, del_delegate := delegate \<rparr> in
     and_then (exit_delegate (ad_delegate_account c) delegate_account l) (\<lambda>l.
     Inr (l, [DelegateAdded (ad_token_mint c) (ad_depositor c) delegate]))))))))"

section \<open>remove_delegate\<close>

record RemoveDelegateContext =
  rd_depositor :: pubkey
  rd_gateway_wallet :: pubkey
  rd_token_mint :: pubkey
  rd_delegate_account :: pubkey
  rd_depositor_denylist :: pubkey

definition remove_delegate_accounts ::
    "platform \<Rightarrow> transaction \<Rightarrow> RemoveDelegateContext \<Rightarrow> pubkey \<Rightarrow> ledger \<Rightarrow>
     (GatewayWallet \<times> GatewayDelegate) wallet_result" where
  "remove_delegate_accounts pf tx c delegate l =
     and_then (load_signer tx (rd_depositor c)) (\<lambda>_.
     and_then (load_wallet l (rd_gateway_wallet c)) (\<lambda>gateway_wallet.
     and_then (load_mint l (rd_token_mint c)) (\<lambda>_.
     and_then (load_delegate l (rd_delegate_account c)) (\<lambda>delegate_account.
     and_then (check_mut tx (rd_depositor c)) (\<lambda>_.
     and_then (check_wallet_pda pf (rd_gateway_wallet c) gateway_wallet) (\<lambda>_.
     and_then (check_not_paused gateway_wallet) (\<lambda>_.
     and_then (check_seeds_find pf WALLET_PROGRAM_ID (rd_delegate_account c)
                 [GATEWAY_DELEGATE_SEED, rd_token_mint c, rd_depositor c, delegate]) (\<lambda>_.
     and_then (check_mut tx (rd_delegate_account c)) (\<lambda>_.
     and_then (check_seeds_find pf WALLET_PROGRAM_ID (rd_depositor_denylist c)
                 [DENYLIST_SEED, rd_depositor c]) (\<lambda>_.
     Inr (gateway_wallet, delegate_account)))))))))))"

definition remove_delegate ::
    "platform \<Rightarrow> transaction \<Rightarrow> RemoveDelegateContext \<Rightarrow> pubkey \<Rightarrow> ledger \<Rightarrow> wallet_outcome" where
  "remove_delegate pf tx c delegate l =
     and_then (remove_delegate_accounts pf tx c delegate l) (\<lambda>(gateway_wallet, delegate_account).
     and_then (require (delegate \<noteq> default_pubkey) (Custom InvalidDelegate)) (\<lambda>_.
     and_then (require (\<not> is_account_denylisted l (rd_depositor_denylist c))
                (Custom AccountDenylisted)) (\<lambda>_.
     and_then (require (is_token_supported gateway_wallet (rd_token_mint c))
                (Custom GatewayWalletError.TokenNotSupported)) (\<lambda>_.
     if del_status delegate_account = Unauthorized \<or> del_status delegate_account = Revoked
     then and_then (exit_delegate (rd_delegate_account c) delegate_account l) (\<lambda>l. Inr (l, []))
     else
       and_then (exit_delegate (rd_delegate_account c)
                   (delegate_account\<lparr> del_status := Revoked \<rparr>) l) (\<lambda>l.
       Inr (l, [DelegateRemoved (rd_token_mint c) (rd_depositor c) delegate]))))))"

section \<open>denylist and undenylist\<close>

record DenylistContext =
  dl_payer :: pubkey
  dl_denylister :: pubkey
  dl_gateway_wallet :: pubkey
  dl_denylist :: pubkey
  dl_system_program :: pubkey

definition denylist ::
    "platform \<Rightarrow> transaction \<Rightarrow> DenylistContext \<Rightarrow> pubkey \<Rightarrow> ledger \<Rightarrow> wallet_outcome" where
  "denylist pf tx c params_account l =
     and_then (load_signer tx (dl_payer c)) (\<lambda>_.
     and_then (load_signer tx (dl_denylister c)) (\<lambda>_.
     and_then (load_wallet l (dl_gateway_wallet c)) (\<lambda>gateway_wallet.
     and_then (load_program (dl_system_program c) SYSTEM_PROGRAM_ID) (\<lambda>_.
     and_then (init_if_needed pf WALLET_PROGRAM_ID tx (dl_payer c) (dl_denylist c)
                 [DENYLIST_SEED, params_account] DENYLIST_SPACE as_denylist () l) (\<lambda>(_, _, l).
     and_then (check_mut tx (dl_payer c)) (\<lambda>_.
     and_then (require (dl_denylister c = gw_denylister gateway_wallet)
                (Custom GatewayWalletError.InvalidAuthority)) (\<lambda>_.
     and_then (check_wallet_pda pf (dl_gateway_wallet c) gateway_wallet) (\<lambda>_.
     and_then (exit_denylist (dl_denylist c) l) (\<lambda>l.
     Inr (l, [Denylisted params_account]))))))))))"

record UndenylistContext =
  ud_payer :: pubkey
  ud_denylister :: pubkey
  ud_gateway_wallet :: pubkey
  ud_denylist :: pubkey

definition undenylist ::
    "platform \<Rightarrow> transaction \<Rightarrow> UndenylistContext \<Rightarrow> pubkey \<Rightarrow> ledger \<Rightarrow> wallet_outcome" where
  "undenylist pf tx c params_account l =
     and_then (load_signer tx (ud_payer c)) (\<lambda>_.
     and_then (load_signer tx (ud_denylister c)) (\<lambda>_.
     and_then (load_wallet l (ud_gateway_wallet c)) (\<lambda>gateway_wallet.
     and_then (load_denylist l (ud_denylist c)) (\<lambda>_.
     and_then (check_mut tx (ud_payer c)) (\<lambda>_.
     and_then (require (ud_denylister c = gw_denylister gateway_wallet)
                (Custom GatewayWalletError.InvalidAuthority)) (\<lambda>_.
     and_then (check_wallet_pda pf (ud_gateway_wallet c) gateway_wallet) (\<lambda>_.
     and_then (check_seeds_find pf WALLET_PROGRAM_ID (ud_denylist c)
                 [DENYLIST_SEED, params_account]) (\<lambda>_.
     and_then (check_mut tx (ud_denylist c)) (\<lambda>_.
     and_then (require (ud_denylist c \<noteq> ud_payer c) (Anchor ConstraintClose)) (\<lambda>_.
     and_then (close_account (ud_denylist c) (ud_payer c) l) (\<lambda>l.
     Inr (l, [UnDenylisted params_account]))))))))))))"

section \<open>validate_signer_authorization\<close>

definition validate_signer_authorization ::
    "pubkey \<Rightarrow> pubkey \<Rightarrow> GatewayDelegate option \<Rightarrow> unit wallet_result" where
  "validate_signer_authorization source_signer source_depositor delegate_account =
     (if source_signer = source_depositor then Inr ()
      else
        and_then (ok_or delegate_account (Custom InvalidDelegateAccount)) (\<lambda>delegate_account.
        and_then (require (del_depositor delegate_account = source_depositor)
                   (Custom DelegateDepositorMismatch)) (\<lambda>_.
        and_then (require (del_delegate delegate_account = source_signer)
                   (Custom DelegateSignerMismatch)) (\<lambda>_.
        require (was_ever_authorized_for_balance delegate_account source_depositor source_signer)
          (Custom DelegateSignerNotAuthorized)))))"

lemma validate_signer_authorization_Inr [result_simps]:
  "validate_signer_authorization s d a = Inr u \<longleftrightarrow>
     s = d \<or> (\<exists>g. a = Some g \<and> del_depositor g = d \<and> del_delegate g = s \<and> del_status g \<noteq> Unauthorized)"
  by (cases a)
    (auto simp: validate_signer_authorization_def result_simps was_ever_authorized_for_balance_def)

section \<open>Effects\<close>

abbreviation "account_written \<equiv> written WALLET_PROGRAM_ID"

lemma add_delegate_effect:
  assumes ok: "system_program_ok pf" and run: "add_delegate pf tx c delegate l = Inr (l', es)"
  shows "\<exists>w b g. wallet_running pf l (ad_gateway_wallet c) w \<and> is_token_supported w (ad_token_mint c) \<and>
    delegate \<noteq> default_pubkey \<and> delegate \<noteq> ad_depositor c \<and> ad_depositor c \<in> set (tx_signers tx) \<and>
    try_bumps pf [GATEWAY_DELEGATE_SEED, ad_token_mint c, ad_depositor c, delegate] WALLET_PROGRAM_ID 255
      = Some (ad_delegate_account c, b) \<and>
    account_written l (ad_delegate_account c) as_delegate (DelegateData g) l' \<and>
    g = \<lparr> del_bump = b, del_status = Authorized, del_closeable_at_block = 0, del_token = ad_token_mint c,
          del_depositor = ad_depositor c, del_delegate = delegate \<rparr>"
    and "\<not> is_account_denylisted l (ad_depositor_denylist c)" "\<not> is_account_denylisted l (ad_delegate_denylist c)"
proof -
  from run obtain w x b l1 where acc: "add_delegate_accounts pf tx c delegate l = Inr (w, x, b, l1)"
    and checks: "delegate \<noteq> default_pubkey" "delegate \<noteq> ad_depositor c" "is_token_supported w (ad_token_mint c)"
    and allowed: "\<not> is_account_denylisted l1 (ad_depositor_denylist c)"
      "\<not> is_account_denylisted l1 (ad_delegate_denylist c)"
    and ex: "exit_delegate (ad_delegate_account c) (x\<lparr> del_bump := b, del_status := Authorized,
        del_closeable_at_block := 0, del_token := ad_token_mint c, del_depositor := ad_depositor c,
        del_delegate := delegate \<rparr>) l1 = (Inr l' :: ledger wallet_result)"
    unfolding add_delegate_def Let_def by (auto simp: and_then_eq_Inr require_eq_Inr)
  from acc obtain u1 u2 u3 where
    w: "load_wallet l (ad_gateway_wallet c) = (Inr w :: GatewayWallet wallet_result)"
      "check_wallet_pda pf (ad_gateway_wallet c) w = Inr u1" "check_not_paused w = Inr u2"
    and sig: "load_signer tx (ad_depositor c) = (Inr u3 :: unit wallet_result)"
    and init: "init_if_needed pf WALLET_PROGRAM_ID tx (ad_payer c) (ad_delegate_account c)
      [GATEWAY_DELEGATE_SEED, ad_token_mint c, ad_depositor c, delegate] DELEGATE_SPACE as_delegate
      zeroed_GatewayDelegate l = (Inr (x, b, l1) :: (GatewayDelegate \<times> u8 \<times> ledger) wallet_result)"
    unfolding add_delegate_accounts_def
    by (simp only: and_then_eq_Inr case_prod_conv prod.inject sum.inject split_paired_Ex) blast
  note i = init_if_needed_Inr [OF ok program_ids_distinct(1) init]
  from account_writtenI [OF i(1,5)] ex
  have "account_written l (ad_delegate_account c) as_delegate (DelegateData (x\<lparr> del_bump := b, del_status := Authorized,
        del_closeable_at_block := 0, del_token := ad_token_mint c, del_depositor := ad_depositor c,
        del_delegate := delegate \<rparr>)) l'"
    by (simp add: exit_delegate_def)
  moreover have "x\<lparr> del_bump := b, del_status := Authorized,
        del_closeable_at_block := 0, del_token := ad_token_mint c, del_depositor := ad_depositor c,
        del_delegate := delegate \<rparr> = \<lparr> del_bump = b, del_status = Authorized, del_closeable_at_block = 0,
        del_token = ad_token_mint c, del_depositor = ad_depositor c, del_delegate = delegate \<rparr>"
    by (cases x) simp
  ultimately show "\<exists>w b g. wallet_running pf l (ad_gateway_wallet c) w \<and> is_token_supported w (ad_token_mint c) \<and>
    delegate \<noteq> default_pubkey \<and> delegate \<noteq> ad_depositor c \<and> ad_depositor c \<in> set (tx_signers tx) \<and>
    try_bumps pf [GATEWAY_DELEGATE_SEED, ad_token_mint c, ad_depositor c, delegate] WALLET_PROGRAM_ID 255
      = Some (ad_delegate_account c, b) \<and>
    account_written l (ad_delegate_account c) as_delegate (DelegateData g) l' \<and>
    g = \<lparr> del_bump = b, del_status = Authorized, del_closeable_at_block = 0, del_token = ad_token_mint c,
          del_depositor = ad_depositor c, del_delegate = delegate \<rparr>"
    using wallet_runningI [OF w] checks sig i(2) by (auto simp: load_signer_Inr)
  show "\<not> is_account_denylisted l (ad_depositor_denylist c)" "\<not> is_account_denylisted l (ad_delegate_denylist c)"
    using not_denylisted_before [OF untouched_initialised [OF i(1)] _ allowed(1)]
      not_denylisted_before [OF untouched_initialised [OF i(1)] _ allowed(2)]
    by (simp_all add: i(4) DELEGATE_SPACE_def)
qed

lemma not_authorized: "s = Unauthorized \<or> s = Revoked \<longleftrightarrow> s \<noteq> Authorized"
  by (cases s) simp_all

lemma remove_delegate_effect:
  assumes "remove_delegate pf tx c delegate l = Inr (l', es)"
  shows "\<exists>w g g'. wallet_running pf l (rd_gateway_wallet c) w \<and> rd_depositor c \<in> set (tx_signers tx) \<and>
    (\<exists>b. try_bumps pf [GATEWAY_DELEGATE_SEED, rd_token_mint c, rd_depositor c, delegate] WALLET_PROGRAM_ID 255
      = Some (rd_delegate_account c, b)) \<and>
    delegate_at l (rd_delegate_account c) = Some g \<and>
    account_written l (rd_delegate_account c) as_delegate (DelegateData g') l' \<and>
    g' = (if del_status g = Authorized then g\<lparr> del_status := Revoked \<rparr> else g)"
proof -
  from assms obtain w g where acc: "remove_delegate_accounts pf tx c delegate l = Inr (w, g)"
    and ex: "exit_delegate (rd_delegate_account c)
        (if del_status g = Authorized then g\<lparr> del_status := Revoked \<rparr> else g) l = (Inr l' :: ledger wallet_result)"
    unfolding remove_delegate_def not_authorized
    by (auto simp: and_then_eq_Inr require_eq_Inr split: if_splits)
  from acc have g: "delegate_at l (rd_delegate_account c) = Some g" and rest:
    "wallet_running pf l (rd_gateway_wallet c) w" "rd_depositor c \<in> set (tx_signers tx)"
    "\<exists>b. try_bumps pf [GATEWAY_DELEGATE_SEED, rd_token_mint c, rd_depositor c, delegate] WALLET_PROGRAM_ID 255
      = Some (rd_delegate_account c, b)"
    unfolding remove_delegate_accounts_def
    by (auto simp: and_then_eq_Inr load_typed check_wallet_Inr load_signer_Inr check_seeds_find_Inr
        wallet_running_def)
  from account_writtenI_loaded [OF g] ex
  have "account_written l (rd_delegate_account c) as_delegate
      (DelegateData (if del_status g = Authorized then g\<lparr> del_status := Revoked \<rparr> else g)) l'"
    by (auto simp: exit_delegate_def)
  with g rest show ?thesis by blast
qed

lemma denylist_effect:
  assumes ok: "system_program_ok pf" and run: "denylist pf tx c a l = Inr (l', es)"
  shows "\<exists>w. wallet_at l (dl_gateway_wallet c) = Some w \<and> gw_denylister w = dl_denylister c \<and>
      dl_denylister c \<in> set (tx_signers tx)"
    "\<exists>b. try_bumps pf [DENYLIST_SEED, a] WALLET_PROGRAM_ID 255 = Some (dl_denylist c, b)"
    "account_written l (dl_denylist c) as_denylist DenylistData l'" "es = [Denylisted a]"
proof -
  from run obtain w x b l1 u where
    w: "load_wallet l (dl_gateway_wallet c) = (Inr w :: GatewayWallet wallet_result)"
      "dl_denylister c = gw_denylister w" "load_signer tx (dl_denylister c) = (Inr u :: unit wallet_result)"
    and init: "init_if_needed pf WALLET_PROGRAM_ID tx (dl_payer c) (dl_denylist c) [DENYLIST_SEED, a]
      DENYLIST_SPACE as_denylist () l = (Inr (x, b, l1) :: (unit \<times> u8 \<times> ledger) wallet_result)"
    and ex: "exit_denylist (dl_denylist c) l1 = (Inr l' :: ledger wallet_result)" and es: "es = [Denylisted a]"
    unfolding denylist_def by (auto simp: and_then_eq_Inr require_eq_Inr)
  note i = init_if_needed_Inr [OF ok program_ids_distinct(1) init]
  show "\<exists>w. wallet_at l (dl_gateway_wallet c) = Some w \<and> gw_denylister w = dl_denylister c \<and>
      dl_denylister c \<in> set (tx_signers tx)"
    using w by (auto simp: load_typed load_signer_Inr)
  show "\<exists>b. try_bumps pf [DENYLIST_SEED, a] WALLET_PROGRAM_ID 255 = Some (dl_denylist c, b)"
    using i(2) by blast
  show "account_written l (dl_denylist c) as_denylist DenylistData l'"
    using account_writtenI [OF i(1,5)] ex by (simp add: exit_denylist_def)
  show "es = [Denylisted a]" by (rule es)
qed

text \<open>Closing returns the account to the system program, empty.\<close>

lemma undenylist_effect:
  assumes "undenylist pf tx c a l = Inr (l', es)"
  shows "\<exists>w. wallet_at l (ud_gateway_wallet c) = Some w \<and> gw_denylister w = ud_denylister c \<and>
      ud_denylister c \<in> set (tx_signers tx)"
    "\<exists>b. try_bumps pf [DENYLIST_SEED, a] WALLET_PROGRAM_ID 255 = Some (ud_denylist c, b)"
    "typed WALLET_PROGRAM_ID as_denylist l (ud_denylist c) = Some ()"
    "untouched l {ud_denylist c} l'" "fresh l' (ud_denylist c)" "es = [UnDenylisted a]"
  using assms
  by (auto simp: undenylist_def and_then_eq_Inr require_eq_Inr load_typed load_signer_Inr
      check_seeds_find_Inr close_account_Inr untouched_def fresh_def load_typed_Inr typed_Some)

end
