(* ===== verification/WalletAdmin.thy ===== *)
theory WalletAdmin
  imports WalletDelegates
begin

text \<open>
  Administration of the GatewayWallet: initialize.rs, the ownership transfer in two steps, the roles
  the owner assigns, the withdrawal delay, the burn signers, add_token.rs and the pause switch.  Except
  for the first and add_token.rs, these instructions take the wallet state and the signer of one role,
  so they share \<open>role_accounts\<close>; the role is the field their \<open>has_one\<close> names.
\<close>

section \<open>initialize\<close>

record InitializeContext =
  in_payer :: pubkey
  in_upgrade_authority :: pubkey
  in_gateway_wallet :: pubkey
  in_program_data :: pubkey
  in_program :: pubkey
  in_system_program :: pubkey

record InitializeParams =
  ip_local_domain :: u32
  ip_withdrawal_delay :: u64

definition initialize_accounts ::
    "platform \<Rightarrow> transaction \<Rightarrow> InitializeContext \<Rightarrow> ledger \<Rightarrow> (GatewayWallet \<times> u8 \<times> ledger) wallet_result"
where
  "initialize_accounts pf tx c l =
     and_then (load_signer tx (in_payer c)) (\<lambda>_.
     and_then (load_signer tx (in_upgrade_authority c)) (\<lambda>_.
     and_then (load_program_data l (in_program_data c)) (\<lambda>upgrade_authority_address.
     and_then (load_program (in_program c) WALLET_PROGRAM_ID) (\<lambda>_.
     and_then (load_program (in_system_program c) SYSTEM_PROGRAM_ID) (\<lambda>_.
     and_then (init_account pf WALLET_PROGRAM_ID tx (in_payer c) (in_gateway_wallet c)
                 [GATEWAY_WALLET_SEED] WALLET_SPACE zeroed_GatewayWallet l)
       (\<lambda>(gateway_wallet, gateway_wallet_bump, l).
     and_then (check_mut tx (in_payer c)) (\<lambda>_.
     and_then (require (upgrade_authority_address = Some (in_upgrade_authority c))
                (Anchor ConstraintRaw)) (\<lambda>_.
     and_then (programdata_address l (in_program c)) (\<lambda>address.
     and_then (require (address = Some (in_program_data c)) (Anchor ConstraintRaw)) (\<lambda>_.
     Inr (gateway_wallet, gateway_wallet_bump, l)))))))))))"

definition initialize ::
    "platform \<Rightarrow> transaction \<Rightarrow> InitializeContext \<Rightarrow> InitializeParams \<Rightarrow> ledger \<Rightarrow> wallet_outcome" where
  "initialize pf tx c params l =
     and_then (initialize_accounts pf tx c l) (\<lambda>(gateway_wallet, gateway_wallet_bump, l).
     and_then (require (ip_withdrawal_delay params > 0) (Custom InvalidWithdrawalDelay)) (\<lambda>_.
     let upgrade_authority = in_upgrade_authority c;
         gateway_wallet = gateway_wallet\<lparr> gw_bump := gateway_wallet_bump,
           gw_owner := upgrade_authority, gw_pending_owner := default_pubkey,
           gw_pauser := upgrade_authority, gw_denylister := upgrade_authority,
           gw_token_controller := upgrade_authority, gw_fee_recipient := upgrade_authority,
           gw_local_domain := ip_local_domain params, gw_version := 1,
           gw_withdrawal_delay := ip_withdrawal_delay params, gw_paused := False \<rparr> in
     and_then (exit_wallet (in_gateway_wallet c) gateway_wallet l) (\<lambda>l.
     Inr (l, [GatewayWalletInitialized]))))"

section \<open>Instructions of one role\<close>

record RoleContext =
  rc_signer :: pubkey
  rc_gateway_wallet :: pubkey

text \<open>\<open>mut, seeds, bump = gateway_wallet.bump, has_one = <role> @ InvalidAuthority\<close>.\<close>

definition role_accounts ::
    "platform \<Rightarrow> transaction \<Rightarrow> RoleContext \<Rightarrow> (GatewayWallet \<Rightarrow> pubkey) \<Rightarrow> ledger \<Rightarrow> GatewayWallet wallet_result"
where
  "role_accounts pf tx c role l =
     and_then (load_signer tx (rc_signer c)) (\<lambda>_.
     and_then (load_wallet l (rc_gateway_wallet c)) (\<lambda>gateway_wallet.
     and_then (check_wallet_pda pf (rc_gateway_wallet c) gateway_wallet) (\<lambda>_.
     and_then (check_mut tx (rc_gateway_wallet c)) (\<lambda>_.
     and_then (require (role gateway_wallet = rc_signer c) (Custom GatewayWalletError.InvalidAuthority)) (\<lambda>_.
     Inr gateway_wallet)))))"

text \<open>The handler's end: the state is written back and the event emitted.\<close>

definition finish ::
    "RoleContext \<Rightarrow> GatewayWallet \<Rightarrow> WalletEvent \<Rightarrow> ledger \<Rightarrow> wallet_outcome" where
  "finish c w event l = and_then (exit_wallet (rc_gateway_wallet c) w l) (\<lambda>l. Inr (l, [event]))"

definition transfer_ownership ::
    "platform \<Rightarrow> transaction \<Rightarrow> RoleContext \<Rightarrow> pubkey \<Rightarrow> ledger \<Rightarrow> wallet_outcome" where
  "transfer_ownership pf tx c new_owner l =
     and_then (role_accounts pf tx c gw_owner l) (\<lambda>state.
     let state = state\<lparr> gw_pending_owner := new_owner \<rparr> in
     finish c state (WalletEvent.OwnershipTransferStarted (gw_owner state) (gw_pending_owner state)) l)"

definition accept_ownership :: "platform \<Rightarrow> transaction \<Rightarrow> RoleContext \<Rightarrow> ledger \<Rightarrow> wallet_outcome" where
  "accept_ownership pf tx c l =
     and_then (role_accounts pf tx c gw_pending_owner l) (\<lambda>state.
     let previous_owner = gw_owner state;
         state = state\<lparr> gw_owner := gw_pending_owner state, gw_pending_owner := default_pubkey \<rparr> in
     finish c state (WalletEvent.OwnershipTransferred previous_owner (gw_owner state)) l)"

definition update_pauser ::
    "platform \<Rightarrow> transaction \<Rightarrow> RoleContext \<Rightarrow> pubkey \<Rightarrow> ledger \<Rightarrow> wallet_outcome" where
  "update_pauser pf tx c new_pauser l =
     and_then (role_accounts pf tx c gw_owner l) (\<lambda>state.
     and_then (require (new_pauser \<noteq> default_pubkey) (Custom GatewayWalletError.InvalidPauser)) (\<lambda>_.
     let old_pauser = gw_pauser state; state = state\<lparr> gw_pauser := new_pauser \<rparr> in
     finish c state (WalletEvent.PauserChanged old_pauser (gw_pauser state)) l))"

definition update_denylister ::
    "platform \<Rightarrow> transaction \<Rightarrow> RoleContext \<Rightarrow> pubkey \<Rightarrow> ledger \<Rightarrow> wallet_outcome" where
  "update_denylister pf tx c new_denylister l =
     and_then (role_accounts pf tx c gw_owner l) (\<lambda>state.
     and_then (require (new_denylister \<noteq> default_pubkey) (Custom InvalidDenylister)) (\<lambda>_.
     let old_denylister = gw_denylister state; state = state\<lparr> gw_denylister := new_denylister \<rparr> in
     finish c state (DenylisterChanged old_denylister (gw_denylister state)) l))"

definition update_token_controller ::
    "platform \<Rightarrow> transaction \<Rightarrow> RoleContext \<Rightarrow> pubkey \<Rightarrow> ledger \<Rightarrow> wallet_outcome" where
  "update_token_controller pf tx c new_token_controller l =
     and_then (role_accounts pf tx c gw_owner l) (\<lambda>state.
     and_then (require (new_token_controller \<noteq> default_pubkey)
                (Custom GatewayWalletError.InvalidTokenController)) (\<lambda>_.
     let previous_token_controller = gw_token_controller state;
         state = state\<lparr> gw_token_controller := new_token_controller \<rparr> in
     finish c state
       (WalletEvent.TokenControllerUpdated previous_token_controller (gw_token_controller state)) l))"

definition update_fee_recipient ::
    "platform \<Rightarrow> transaction \<Rightarrow> RoleContext \<Rightarrow> pubkey \<Rightarrow> ledger \<Rightarrow> wallet_outcome" where
  "update_fee_recipient pf tx c new_fee_recipient l =
     and_then (role_accounts pf tx c gw_owner l) (\<lambda>state.
     and_then (require (new_fee_recipient \<noteq> default_pubkey)
                (Custom GatewayWalletError.InvalidAuthority)) (\<lambda>_.
     let old_fee_recipient = gw_fee_recipient state;
         state = state\<lparr> gw_fee_recipient := new_fee_recipient \<rparr> in
     finish c state (FeeRecipientChanged old_fee_recipient (gw_fee_recipient state)) l))"

definition update_withdrawal_delay ::
    "platform \<Rightarrow> transaction \<Rightarrow> RoleContext \<Rightarrow> u64 \<Rightarrow> ledger \<Rightarrow> wallet_outcome" where
  "update_withdrawal_delay pf tx c new_delay l =
     and_then (role_accounts pf tx c gw_owner l) (\<lambda>state.
     and_then (require (new_delay > 0) (Custom InvalidWithdrawalDelay)) (\<lambda>_.
     let old_delay = gw_withdrawal_delay state; state = state\<lparr> gw_withdrawal_delay := new_delay \<rparr> in
     finish c state (WithdrawalDelayChanged old_delay new_delay) l))"

definition add_burn_signer_ix ::
    "platform \<Rightarrow> transaction \<Rightarrow> RoleContext \<Rightarrow> pubkey \<Rightarrow> ledger \<Rightarrow> wallet_outcome" where
  "add_burn_signer_ix pf tx c signer l =
     and_then (role_accounts pf tx c gw_owner l) (\<lambda>state.
     and_then (require (signer \<noteq> default_pubkey) (Custom InvalidBurnSigner)) (\<lambda>_.
     and_then (add_burn_signer state signer) (\<lambda>state.
     finish c state (BurnSignerAdded signer) l)))"

definition remove_burn_signer_ix ::
    "platform \<Rightarrow> transaction \<Rightarrow> RoleContext \<Rightarrow> pubkey \<Rightarrow> ledger \<Rightarrow> wallet_outcome" where
  "remove_burn_signer_ix pf tx c signer l =
     and_then (role_accounts pf tx c gw_owner l) (\<lambda>state.
     and_then (remove_burn_signer state signer) (\<lambda>state.
     finish c state (BurnSignerRemoved signer) l))"

definition pause :: "platform \<Rightarrow> transaction \<Rightarrow> RoleContext \<Rightarrow> ledger \<Rightarrow> wallet_outcome" where
  "pause pf tx c l =
     and_then (role_accounts pf tx c gw_pauser l) (\<lambda>state.
     finish c (state\<lparr> gw_paused := True \<rparr>) (WalletEvent.Paused (rc_signer c)) l)"

definition unpause :: "platform \<Rightarrow> transaction \<Rightarrow> RoleContext \<Rightarrow> ledger \<Rightarrow> wallet_outcome" where
  "unpause pf tx c l =
     and_then (role_accounts pf tx c gw_pauser l) (\<lambda>state.
     finish c (state\<lparr> gw_paused := False \<rparr>) (WalletEvent.Unpaused (rc_signer c)) l)"

section \<open>add_token\<close>

record AddTokenContext =
  at_payer :: pubkey
  at_token_controller :: pubkey
  at_gateway_wallet :: pubkey
  at_token_mint :: pubkey
  at_custody_token_account :: pubkey
  at_token_program :: pubkey
  at_system_program :: pubkey

definition add_token_accounts ::
    "platform \<Rightarrow> transaction \<Rightarrow> AddTokenContext \<Rightarrow> ledger \<Rightarrow> (GatewayWallet \<times> u8 \<times> ledger) wallet_result"
where
  "add_token_accounts pf tx c l =
     and_then (load_signer tx (at_payer c)) (\<lambda>_.
     and_then (load_signer tx (at_token_controller c)) (\<lambda>_.
     and_then (load_wallet l (at_gateway_wallet c)) (\<lambda>gateway_wallet.
     and_then (load_mint l (at_token_mint c)) (\<lambda>_.
     and_then (load_program (at_token_program c) TOKEN_PROGRAM_ID) (\<lambda>_.
     and_then (load_program (at_system_program c) SYSTEM_PROGRAM_ID) (\<lambda>_.
     and_then (init_token_account pf WALLET_PROGRAM_ID tx (at_payer c) (at_custody_token_account c)
                 [GATEWAY_WALLET_CUSTODY_SEED, at_token_mint c] (at_token_mint c) (at_gateway_wallet c)
                 True l) (\<lambda>(_, custody_bump, l).
     and_then (check_mut tx (at_payer c)) (\<lambda>_.
     and_then (check_wallet_pda pf (at_gateway_wallet c) gateway_wallet) (\<lambda>_.
     and_then (check_mut tx (at_gateway_wallet c)) (\<lambda>_.
     and_then (require (gw_token_controller gateway_wallet = at_token_controller c)
                (Custom GatewayWalletError.InvalidAuthority)) (\<lambda>_.
     Inr (gateway_wallet, custody_bump, l))))))))))))"

definition add_token_ix :: "platform \<Rightarrow> transaction \<Rightarrow> AddTokenContext \<Rightarrow> ledger \<Rightarrow> wallet_outcome" where
  "add_token_ix pf tx c l =
     and_then (add_token_accounts pf tx c l) (\<lambda>(gateway_wallet, custody_bump, l).
     and_then (add_token gateway_wallet (at_token_mint c) custody_bump) (\<lambda>gateway_wallet.
     and_then (exit_wallet (at_gateway_wallet c) gateway_wallet l) (\<lambda>l.
     Inr (l, [WalletEvent.TokenSupported (at_token_mint c) (at_custody_token_account c)]))))"

section \<open>Effects\<close>

lemma role_accounts_Inr [result_simps]:
  "role_accounts pf tx c role l = Inr w \<longleftrightarrow>
     rc_signer c \<in> set (tx_signers tx) \<and> wallet_at l (rc_gateway_wallet c) = Some w \<and>
     create_program_address pf [GATEWAY_WALLET_SEED, [gw_bump w]] WALLET_PROGRAM_ID = Inr (rc_gateway_wallet c) \<and>
     rc_gateway_wallet c \<in> set (tx_writable tx) \<and> role w = rc_signer c"
  by (auto simp: role_accounts_def and_then_eq_Inr load_signer_Inr load_typed check_wallet_Inr
      check_mut_Inr require_eq_Inr)

lemma finish_Inr:
  assumes "finish c w' e l = Inr (l', es)" "wallet_at l (rc_gateway_wallet c) = Some w"
  shows "account_written l (rc_gateway_wallet c) as_wallet (WalletData w') l'" "es = [e]"
  using assms account_writtenI_loaded [OF assms(2)]
  by (auto simp: finish_def and_then_eq_Inr exit_wallet_def)

text \<open>
  The effect of every instruction of one role: the role's holder signed, and the wallet state changed
  from \<open>w\<close> to \<open>w'\<close>.
\<close>

definition wallet_updated ::
    "transaction \<Rightarrow> RoleContext \<Rightarrow> (GatewayWallet \<Rightarrow> pubkey) \<Rightarrow> ledger \<Rightarrow> GatewayWallet \<Rightarrow> GatewayWallet \<Rightarrow>
     ledger \<Rightarrow> bool" where
  "wallet_updated tx c role l w w' l' \<longleftrightarrow>
     wallet_at l (rc_gateway_wallet c) = Some w \<and> role w = rc_signer c \<and> rc_signer c \<in> set (tx_signers tx) \<and>
     account_written l (rc_gateway_wallet c) as_wallet (WalletData w') l'"

lemma role_effects:
  "transfer_ownership pf tx c k l = Inr (l', es) \<Longrightarrow>
     \<exists>w. wallet_updated tx c gw_owner l w (w\<lparr> gw_pending_owner := k \<rparr>) l'"
  "accept_ownership pf tx c l = Inr (l', es) \<Longrightarrow>
     \<exists>w. wallet_updated tx c gw_pending_owner l w
       (w\<lparr> gw_owner := gw_pending_owner w, gw_pending_owner := default_pubkey \<rparr>) l'"
  "update_pauser pf tx c k l = Inr (l', es) \<Longrightarrow>
     \<exists>w. wallet_updated tx c gw_owner l w (w\<lparr> gw_pauser := k \<rparr>) l' \<and> k \<noteq> default_pubkey"
  "update_denylister pf tx c k l = Inr (l', es) \<Longrightarrow>
     \<exists>w. wallet_updated tx c gw_owner l w (w\<lparr> gw_denylister := k \<rparr>) l' \<and> k \<noteq> default_pubkey"
  "update_token_controller pf tx c k l = Inr (l', es) \<Longrightarrow>
     \<exists>w. wallet_updated tx c gw_owner l w (w\<lparr> gw_token_controller := k \<rparr>) l' \<and> k \<noteq> default_pubkey"
  "update_fee_recipient pf tx c k l = Inr (l', es) \<Longrightarrow>
     \<exists>w. wallet_updated tx c gw_owner l w (w\<lparr> gw_fee_recipient := k \<rparr>) l' \<and> k \<noteq> default_pubkey"
  "update_withdrawal_delay pf tx c delay l = Inr (l', es) \<Longrightarrow>
     \<exists>w. wallet_updated tx c gw_owner l w (w\<lparr> gw_withdrawal_delay := delay \<rparr>) l' \<and> 0 < delay"
  "add_burn_signer_ix pf tx c k l = Inr (l', es) \<Longrightarrow>
     \<exists>w w'. wallet_updated tx c gw_owner l w w' l' \<and> add_burn_signer w k = Inr w' \<and> k \<noteq> default_pubkey"
  "remove_burn_signer_ix pf tx c k l = Inr (l', es) \<Longrightarrow>
     \<exists>w w'. wallet_updated tx c gw_owner l w w' l' \<and> remove_burn_signer w k = Inr w'"
  "pause pf tx c l = Inr (l', es) \<Longrightarrow>
     \<exists>w. wallet_updated tx c gw_pauser l w (w\<lparr> gw_paused := True \<rparr>) l'"
  "unpause pf tx c l = Inr (l', es) \<Longrightarrow>
     \<exists>w. wallet_updated tx c gw_pauser l w (w\<lparr> gw_paused := False \<rparr>) l'"
  unfolding transfer_ownership_def accept_ownership_def update_pauser_def update_denylister_def
    update_token_controller_def update_fee_recipient_def update_withdrawal_delay_def
    add_burn_signer_ix_def remove_burn_signer_ix_def pause_def unpause_def Let_def wallet_updated_def
  by (auto simp: and_then_eq_Inr role_accounts_Inr require_eq_Inr dest: finish_Inr)

lemma initialize_effect:
  assumes ok: "system_program_ok pf" and run: "initialize pf tx c params l = Inr (l', es)"
  shows "\<exists>b. try_bumps pf [GATEWAY_WALLET_SEED] WALLET_PROGRAM_ID 255 = Some (in_gateway_wallet c, b) \<and>
      fresh l (in_gateway_wallet c) \<and> in_upgrade_authority c \<in> set (tx_signers tx) \<and>
      acc_data (l (in_program_data c)) = ProgramData (Some (in_upgrade_authority c)) \<and>
      account_written l (in_gateway_wallet c) as_wallet (WalletData
        (zeroed_GatewayWallet\<lparr> gw_bump := b, gw_owner := in_upgrade_authority c,
           gw_pauser := in_upgrade_authority c, gw_denylister := in_upgrade_authority c,
           gw_token_controller := in_upgrade_authority c, gw_fee_recipient := in_upgrade_authority c,
           gw_local_domain := ip_local_domain params, gw_version := 1,
           gw_withdrawal_delay := ip_withdrawal_delay params \<rparr>)) l'"
    "0 < ip_withdrawal_delay params"
proof -
  let ?k = "in_gateway_wallet c" and ?u = "in_upgrade_authority c"
  from run obtain x b l1 where acc: "initialize_accounts pf tx c l = Inr (x, b, l1)"
    and delay: "0 < ip_withdrawal_delay params"
    and ex: "exit_wallet ?k (x\<lparr> gw_bump := b, gw_owner := ?u, gw_pending_owner := default_pubkey,
        gw_pauser := ?u, gw_denylister := ?u, gw_token_controller := ?u, gw_fee_recipient := ?u,
        gw_local_domain := ip_local_domain params, gw_version := 1,
        gw_withdrawal_delay := ip_withdrawal_delay params, gw_paused := False \<rparr>) l1
      = (Inr l' :: ledger wallet_result)"
    unfolding initialize_def Let_def by (auto simp: and_then_eq_Inr require_eq_Inr)
  from acc have sig: "?u \<in> set (tx_signers tx)"
    and pd: "load_program_data l (in_program_data c) = (Inr (Some ?u) :: (pubkey option) wallet_result)"
    and init: "init_account pf WALLET_PROGRAM_ID tx (in_payer c) ?k [GATEWAY_WALLET_SEED] WALLET_SPACE
      zeroed_GatewayWallet l = (Inr (x, b, l1) :: (GatewayWallet \<times> u8 \<times> ledger) wallet_result)"
    unfolding initialize_accounts_def by (auto simp: and_then_eq_Inr require_eq_Inr load_signer_Inr)
  from pd have data: "acc_data (l (in_program_data c)) = ProgramData (Some ?u)"
    by (auto simp: load_program_data_def load_account_def ok_or_eq_Inr as_data_Some split: if_splits)
  note i = init_account_Inr [OF ok init]
  have made: "initialised l ?k WALLET_PROGRAM_ID WALLET_SPACE as_wallet zeroed_GatewayWallet x l1"
    and own: "acc_owner (l1 ?k) = WALLET_PROGRAM_ID" and fr: "fresh l ?k"
    using i(1,2) by (auto simp: initialised_def account_made_def fresh_def)
  from account_writtenI [OF made own] ex i(2)
  have "account_written l ?k as_wallet (WalletData
        (zeroed_GatewayWallet\<lparr> gw_bump := b, gw_owner := ?u, gw_pauser := ?u, gw_denylister := ?u,
           gw_token_controller := ?u, gw_fee_recipient := ?u,
           gw_local_domain := ip_local_domain params, gw_version := 1,
           gw_withdrawal_delay := ip_withdrawal_delay params \<rparr>)) l'"
    by (simp add: exit_wallet_def zeroed_GatewayWallet_def)
  with sig data fr i(3) show "\<exists>b. try_bumps pf [GATEWAY_WALLET_SEED] WALLET_PROGRAM_ID 255 = Some (?k, b) \<and>
      fresh l ?k \<and> ?u \<in> set (tx_signers tx) \<and>
      acc_data (l (in_program_data c)) = ProgramData (Some ?u) \<and>
      account_written l ?k as_wallet (WalletData
        (zeroed_GatewayWallet\<lparr> gw_bump := b, gw_owner := ?u,
           gw_pauser := ?u, gw_denylister := ?u,
           gw_token_controller := ?u, gw_fee_recipient := ?u,
           gw_local_domain := ip_local_domain params, gw_version := 1,
           gw_withdrawal_delay := ip_withdrawal_delay params \<rparr>)) l'"
    by blast
  show "0 < ip_withdrawal_delay params" by (rule delay)
qed

lemma add_token_effect:
  assumes ok: "system_program_ok pf" and run: "add_token_ix pf tx c l = Inr (l', es)"
  shows "\<exists>w w' b l1. wallet_at l (at_gateway_wallet c) = Some w \<and>
    gw_token_controller w = at_token_controller c \<and> at_token_controller c \<in> set (tx_signers tx) \<and>
    create_program_address pf [GATEWAY_WALLET_SEED, [gw_bump w]] WALLET_PROGRAM_ID = Inr (at_gateway_wallet c) \<and>
    try_bumps pf [GATEWAY_WALLET_CUSTODY_SEED, at_token_mint c] WALLET_PROGRAM_ID 255
      = Some (at_custody_token_account c, b) \<and>
    token_initialised l (at_custody_token_account c) (at_token_mint c) (at_gateway_wallet c) l1 \<and>
    add_token w (at_token_mint c) b = Inr w' \<and>
    account_written l1 (at_gateway_wallet c) as_wallet (WalletData w') l'"
proof -
  from run obtain w b l1 w' where acc: "add_token_accounts pf tx c l = Inr (w, b, l1)"
    and add: "add_token w (at_token_mint c) b = Inr w'"
    and ex: "exit_wallet (at_gateway_wallet c) w' l1 = (Inr l' :: ledger wallet_result)"
    unfolding add_token_ix_def by (auto simp: and_then_eq_Inr)
  from acc obtain t where w: "wallet_at l (at_gateway_wallet c) = Some w"
      "gw_token_controller w = at_token_controller c" "at_token_controller c \<in> set (tx_signers tx)"
      "create_program_address pf [GATEWAY_WALLET_SEED, [gw_bump w]] WALLET_PROGRAM_ID = Inr (at_gateway_wallet c)"
    and init: "init_token_account pf WALLET_PROGRAM_ID tx (at_payer c) (at_custody_token_account c)
      [GATEWAY_WALLET_CUSTODY_SEED, at_token_mint c] (at_token_mint c) (at_gateway_wallet c) True l
      = (Inr (t, b, l1) :: (TokenAccount \<times> u8 \<times> ledger) wallet_result)"
    unfolding add_token_accounts_def
    by (auto simp: and_then_eq_Inr require_eq_Inr load_signer_Inr load_typed check_wallet_Inr)
  note i = token_initialisedI [OF ok init]
  have "wallet_at l1 (at_gateway_wallet c) = Some w"
  proof (cases "at_gateway_wallet c = at_custody_token_account c")
    case True
    with i(1) w(1) show ?thesis by (auto simp: token_initialised_def fresh_def typed_def split: if_splits)
  next
    case False
    then show ?thesis using i(1) w(1) by (auto simp: token_initialised_def typed_untouched)
  qed
  from account_writtenI_loaded [OF this] ex
  have "account_written l1 (at_gateway_wallet c) as_wallet (WalletData w') l'"
    by (simp add: exit_wallet_def)
  with w add i show ?thesis by blast
qed

end
