(* ===== verification/FieldReader.thy ===== *)
theory FieldReader
  imports Prelude
begin

text \<open>
  Fixed-offset field access on a byte string: the private helpers \<open>read_u32\<close>, \<open>read_u64\<close>,
  \<open>read_bytes\<close>, \<open>read_pubkey\<close> and \<open>checked_add\<close> that attestation.rs and burn_data.rs both define, each
  with its own error.  The readers are parameterised by that error; the locale \<open>field_reader\<close> states
  what the two message formats rely on, and each format interprets it with its own readers.
\<close>

section \<open>The readers\<close>

text \<open>A \<open>usize\<close> has 64 bits on the target.\<close>

definition checked_add :: "'e \<Rightarrow> nat \<Rightarrow> nat \<Rightarrow> ('e, nat) result" where
  "checked_add err a b = (if a + b < 2 ^ 64 then Inr (a + b) else Inl (Custom err))"

text \<open>Plain \<open>usize\<close> addition and subtraction, overflow-checked.\<close>

definition add_usize :: "nat \<Rightarrow> nat \<Rightarrow> ('e, nat) result" where
  "add_usize a b = (if a + b < 2 ^ 64 then Inr (a + b) else Inl (Panic ArithmeticOverflow))"

definition sub_usize :: "nat \<Rightarrow> nat \<Rightarrow> ('e, nat) result" where
  "sub_usize a b = (if b \<le> a then Inr (a - b) else Inl (Panic ArithmeticOverflow))"

definition read_bytes :: "'e \<Rightarrow> nat \<Rightarrow> bytes \<Rightarrow> nat \<Rightarrow> ('e, bytes) result" where
  "read_bytes err n bs index = and_then (checked_add err index n) (slice bs index)"

definition read_u32 :: "'e \<Rightarrow> bytes \<Rightarrow> nat \<Rightarrow> ('e, u32) result" where
  "read_u32 err bs index = and_then (read_bytes err 4 bs index) (\<lambda>b. Inr (u32_from_be b))"

definition read_u64 :: "'e \<Rightarrow> bytes \<Rightarrow> nat \<Rightarrow> ('e, u64) result" where
  "read_u64 err bs index = and_then (read_bytes err 8 bs index) (\<lambda>b. Inr (u64_from_be b))"

definition read_pubkey :: "'e \<Rightarrow> bytes \<Rightarrow> nat \<Rightarrow> ('e, pubkey) result" where
  "read_pubkey err bs index = read_bytes err 32 bs index"

lemma checked_add_Inr [result_simps]: "checked_add e a b = Inr c \<longleftrightarrow> a + b < 2 ^ 64 \<and> c = a + b"
  by (auto simp: checked_add_def)

lemma usize_Inr [result_simps]:
  "add_usize a b = Inr c \<longleftrightarrow> a + b < 2 ^ 64 \<and> c = a + b"
  "sub_usize a b = Inr c \<longleftrightarrow> b \<le> a \<and> c = a - b"
  by (auto simp: add_usize_def sub_usize_def)

lemma read_bytes_ok:
  "index + n \<le> length bs \<Longrightarrow> length bs < 2 ^ 64 \<Longrightarrow>
     read_bytes e n bs index = Inr (take n (drop index bs))"
  by (simp add: read_bytes_def checked_add_def slice_def)

lemma read_bytes_Inr:
  "read_bytes e n bs index = Inr r \<longleftrightarrow>
     index + n < 2 ^ 64 \<and> index + n \<le> length bs \<and> r = take n (drop index bs)"
  by (auto simp: read_bytes_def result_simps)

section \<open>The contract of a message's readers\<close>

text \<open>
  A reader of each width: in range it returns the bytes at the index, decoded big-endian.  Lengths are
  below \<open>2\<^sup>6\<^sup>4\<close>, as those of any byte slice in memory.
\<close>

locale field_reader =
  fixes rd :: "nat \<Rightarrow> bytes \<Rightarrow> nat \<Rightarrow> ('e, bytes) result"
    and rd32 :: "bytes \<Rightarrow> nat \<Rightarrow> ('e, u32) result"
    and rd64 :: "bytes \<Rightarrow> nat \<Rightarrow> ('e, u64) result"
    and rdkey :: "bytes \<Rightarrow> nat \<Rightarrow> ('e, pubkey) result"
  assumes rd_in_range: "index + n \<le> length bs \<Longrightarrow> length bs < 2 ^ 64 \<Longrightarrow>
      rd n bs index = Inr (take n (drop index bs))"
    and rd32_rd: "rd32 bs index = and_then (rd 4 bs index) (\<lambda>b. Inr (u32_from_be b))"
    and rd64_rd: "rd64 bs index = and_then (rd 8 bs index) (\<lambda>b. Inr (u64_from_be b))"
    and rdkey_rd: "rdkey bs index = rd 32 bs index"
begin

lemma in_range:
  assumes "length bs < 2 ^ 64"
  shows "index + n \<le> length bs \<Longrightarrow> rd n bs index = Inr (take n (drop index bs))"
    and "index + 4 \<le> length bs \<Longrightarrow> rd32 bs index = Inr (u32_from_be (take 4 (drop index bs)))"
    and "index + 8 \<le> length bs \<Longrightarrow> rd64 bs index = Inr (u64_from_be (take 8 (drop index bs)))"
    and "index + 32 \<le> length bs \<Longrightarrow> rdkey bs index = Inr (take 32 (drop index bs))"
  using assms by (simp_all add: rd_in_range rd32_rd rd64_rd rdkey_rd)

text \<open>Reading back what was written at the same offset.\<close>

lemma read_back:
  assumes "length xs = index" and "length (xs @ f @ ys) < 2 ^ 64"
  shows "length f = n \<Longrightarrow> rd n (xs @ f @ ys) index = Inr f"
    and "f = u32_to_be w \<Longrightarrow> rd32 (xs @ f @ ys) index = Inr w"
    and "f = u64_to_be v \<Longrightarrow> rd64 (xs @ f @ ys) index = Inr v"
    and "length f = 32 \<Longrightarrow> rdkey (xs @ f @ ys) index = Inr f"
  using assms by (simp_all add: in_range)

text \<open>Two strings that agree on the field read alike.\<close>

lemma read_local:
  assumes "length bs < 2 ^ 64" "length cs < 2 ^ 64" "index + n \<le> length bs" "index + n \<le> length cs"
    and "take n (drop index bs) = take n (drop index cs)"
  shows "rd n bs index = rd n cs index"
  using assms by (simp add: rd_in_range)

lemma no_panic_in_range:
  assumes "length bs < 2 ^ 64"
  shows "index + n \<le> length bs \<Longrightarrow> no_panic (rd n bs index)"
    and "index + 4 \<le> length bs \<Longrightarrow> no_panic (rd32 bs index)"
    and "index + 8 \<le> length bs \<Longrightarrow> no_panic (rd64 bs index)"
    and "index + 32 \<le> length bs \<Longrightarrow> no_panic (rdkey bs index)"
  using assms by (simp_all add: in_range)

end

text \<open>Reassembling a string from its consecutive fields.\<close>

lemma take_drop_split: "take (n + m) (drop i xs) = take n (drop i xs) @ take m (drop (i + n) xs)"
  by (simp only: take_add drop_drop) (simp add: add.commute)

end
