(* ===== verification/BurnData.thy ===== *)
theory BurnData
  imports WalletTypes FieldReader Ledger
begin

text \<open>
  The burn message (programs/gateway-wallet/src/burn_data.rs): the fee and user signature, followed by
  the signed burn intent with its transfer spec.  \<open>burn_data_new\<close> is \<open>BurnData::new\<close>, the accessors keep
  their names.  An encoder stated from the layout in the module's documentation gives the properties
  their other side; the program itself only decodes.
\<close>

section \<open>Constants and readers\<close>

definition TRANSFER_SPEC_MAGIC :: u32 where "TRANSFER_SPEC_MAGIC = 0xca85def7"
definition BURN_INTENT_MAGIC :: u32 where "BURN_INTENT_MAGIC = 0x070afbc2"
definition BURN_INTENT_MESSAGE_PREFIX :: bytes where
  "BURN_INTENT_MESSAGE_PREFIX = 0xff # replicate 15 0"

definition BURN_DATA_FEE_OFFSET :: nat where "BURN_DATA_FEE_OFFSET = 0"
definition BURN_DATA_USER_SIGNATURE_OFFSET :: nat where "BURN_DATA_USER_SIGNATURE_OFFSET = 8"
definition BURN_INTENT_MESSAGE_PREFIX_OFFSET :: nat where "BURN_INTENT_MESSAGE_PREFIX_OFFSET = 72"
definition BI_MAGIC_OFFSET :: nat where "BI_MAGIC_OFFSET = 88"
definition BI_MAX_BLOCK_HEIGHT_OFFSET :: nat where "BI_MAX_BLOCK_HEIGHT_OFFSET = 92"
definition BI_MAX_FEE_OFFSET :: nat where "BI_MAX_FEE_OFFSET = 124"
definition TRANSFER_SPEC_LENGTH_OFFSET :: nat where "TRANSFER_SPEC_LENGTH_OFFSET = 156"
definition TRANSFER_SPEC_OFFSET :: nat where "TRANSFER_SPEC_OFFSET = 160"
definition TS_MAGIC_OFFSET :: nat where "TS_MAGIC_OFFSET = 160"
definition TS_VERSION_OFFSET :: nat where "TS_VERSION_OFFSET = 164"
definition TS_SOURCE_DOMAIN_OFFSET :: nat where "TS_SOURCE_DOMAIN_OFFSET = 168"
definition TS_DESTINATION_DOMAIN_OFFSET :: nat where "TS_DESTINATION_DOMAIN_OFFSET = 172"
definition TS_SOURCE_CONTRACT_OFFSET :: nat where "TS_SOURCE_CONTRACT_OFFSET = 176"
definition TS_DESTINATION_CONTRACT_OFFSET :: nat where "TS_DESTINATION_CONTRACT_OFFSET = 208"
definition TS_SOURCE_TOKEN_OFFSET :: nat where "TS_SOURCE_TOKEN_OFFSET = 240"
definition TS_DESTINATION_TOKEN_OFFSET :: nat where "TS_DESTINATION_TOKEN_OFFSET = 272"
definition TS_SOURCE_DEPOSITOR_OFFSET :: nat where "TS_SOURCE_DEPOSITOR_OFFSET = 304"
definition TS_DESTINATION_RECIPIENT_OFFSET :: nat where "TS_DESTINATION_RECIPIENT_OFFSET = 336"
definition TS_SOURCE_SIGNER_OFFSET :: nat where "TS_SOURCE_SIGNER_OFFSET = 368"
definition TS_DESTINATION_CALLER_OFFSET :: nat where "TS_DESTINATION_CALLER_OFFSET = 400"
definition TS_VALUE_OFFSET :: nat where "TS_VALUE_OFFSET = 432"
definition TS_SALT_OFFSET :: nat where "TS_SALT_OFFSET = 464"
definition TS_HOOK_DATA_LENGTH_OFFSET :: nat where "TS_HOOK_DATA_LENGTH_OFFSET = 496"
definition TS_HOOK_DATA_OFFSET :: nat where "TS_HOOK_DATA_OFFSET = 500"
definition U256_TO_U64_OFFSET :: nat where "U256_TO_U64_OFFSET = 24"

lemmas burn_offset_defs = BURN_DATA_FEE_OFFSET_def BURN_DATA_USER_SIGNATURE_OFFSET_def
  BURN_INTENT_MESSAGE_PREFIX_OFFSET_def BI_MAGIC_OFFSET_def BI_MAX_BLOCK_HEIGHT_OFFSET_def
  BI_MAX_FEE_OFFSET_def TRANSFER_SPEC_LENGTH_OFFSET_def TRANSFER_SPEC_OFFSET_def TS_MAGIC_OFFSET_def
  TS_VERSION_OFFSET_def TS_SOURCE_DOMAIN_OFFSET_def TS_DESTINATION_DOMAIN_OFFSET_def
  TS_SOURCE_CONTRACT_OFFSET_def TS_DESTINATION_CONTRACT_OFFSET_def TS_SOURCE_TOKEN_OFFSET_def
  TS_DESTINATION_TOKEN_OFFSET_def TS_SOURCE_DEPOSITOR_OFFSET_def TS_DESTINATION_RECIPIENT_OFFSET_def
  TS_SOURCE_SIGNER_OFFSET_def TS_DESTINATION_CALLER_OFFSET_def TS_VALUE_OFFSET_def TS_SALT_OFFSET_def
  TS_HOOK_DATA_LENGTH_OFFSET_def TS_HOOK_DATA_OFFSET_def U256_TO_U64_OFFSET_def

text \<open>\<open>BurnData\<close> is the byte slice it borrows.\<close>

type_synonym BurnData = bytes

definition bd_checked_add :: "nat \<Rightarrow> nat \<Rightarrow> nat wallet_result" where
  "bd_checked_add = checked_add MalformedBurnData"

definition bd_read_bytes :: "nat \<Rightarrow> BurnData \<Rightarrow> nat \<Rightarrow> bytes wallet_result" where
  "bd_read_bytes = read_bytes MalformedBurnData"

definition bd_read_u32 :: "BurnData \<Rightarrow> nat \<Rightarrow> u32 wallet_result" where
  "bd_read_u32 = read_u32 MalformedBurnData"

definition bd_read_u64 :: "BurnData \<Rightarrow> nat \<Rightarrow> u64 wallet_result" where
  "bd_read_u64 = read_u64 MalformedBurnData"

definition bd_read_pubkey :: "BurnData \<Rightarrow> nat \<Rightarrow> pubkey wallet_result" where
  "bd_read_pubkey = read_pubkey MalformedBurnData"

interpretation bd: field_reader bd_read_bytes bd_read_u32 bd_read_u64 bd_read_pubkey
  by unfold_locales
    (simp_all add: bd_read_bytes_def bd_read_u32_def bd_read_u64_def bd_read_pubkey_def
      read_u32_def read_u64_def read_pubkey_def read_bytes_ok)

definition read_u64_with_data_offset :: "BurnData \<Rightarrow> nat \<Rightarrow> nat \<Rightarrow> u64 wallet_result" where
  "read_u64_with_data_offset bs index data_offset =
     and_then (bd_checked_add index data_offset) (\<lambda>start_with_data_offset.
     and_then (slice bs index start_with_data_offset) (\<lambda>high.
     and_then (require (list_all (\<lambda>x. x = 0) high) (Custom InvalidU64HighBytes)) (\<lambda>_.
     and_then (bd_checked_add start_with_data_offset 8) (\<lambda>end.
     and_then (slice bs start_with_data_offset end) (\<lambda>b.
     Inr (u64_from_be b))))))"

section \<open>Accessors\<close>

definition bd_fee :: "BurnData \<Rightarrow> u64 wallet_result" where
  "bd_fee bs = bd_read_u64 bs BURN_DATA_FEE_OFFSET"

definition bd_user_signature :: "BurnData \<Rightarrow> bytes wallet_result" where
  "bd_user_signature bs = bd_read_bytes 64 bs BURN_DATA_USER_SIGNATURE_OFFSET"

definition burn_intent_message_prefix :: "BurnData \<Rightarrow> bytes wallet_result" where
  "burn_intent_message_prefix bs = bd_read_bytes 16 bs BURN_INTENT_MESSAGE_PREFIX_OFFSET"

definition bd_magic :: "BurnData \<Rightarrow> u32 wallet_result" where
  "bd_magic bs = bd_read_u32 bs BI_MAGIC_OFFSET"

definition bd_max_block_height :: "BurnData \<Rightarrow> u64 wallet_result" where
  "bd_max_block_height bs = read_u64_with_data_offset bs BI_MAX_BLOCK_HEIGHT_OFFSET U256_TO_U64_OFFSET"

definition bd_max_fee :: "BurnData \<Rightarrow> u64 wallet_result" where
  "bd_max_fee bs = read_u64_with_data_offset bs BI_MAX_FEE_OFFSET U256_TO_U64_OFFSET"

definition transfer_spec_length :: "BurnData \<Rightarrow> u32 wallet_result" where
  "transfer_spec_length bs = bd_read_u32 bs TRANSFER_SPEC_LENGTH_OFFSET"

definition transfer_spec_magic :: "BurnData \<Rightarrow> u32 wallet_result" where
  "transfer_spec_magic bs = bd_read_u32 bs TS_MAGIC_OFFSET"

definition encoded_transfer_spec :: "BurnData \<Rightarrow> bytes wallet_result" where
  "encoded_transfer_spec bs =
     and_then (transfer_spec_length bs) (\<lambda>n.
     and_then (add_usize TRANSFER_SPEC_OFFSET (unat n)) (slice bs TRANSFER_SPEC_OFFSET))"

definition bd_transfer_spec_hash :: "platform \<Rightarrow> BurnData \<Rightarrow> bytes wallet_result" where
  "bd_transfer_spec_hash pf bs =
     and_then (encoded_transfer_spec bs) (\<lambda>spec. Inr (keccak256 pf spec))"

definition bd_version :: "BurnData \<Rightarrow> u32 wallet_result" where
  "bd_version bs = bd_read_u32 bs TS_VERSION_OFFSET"

definition source_domain :: "BurnData \<Rightarrow> u32 wallet_result" where
  "source_domain bs = bd_read_u32 bs TS_SOURCE_DOMAIN_OFFSET"

definition bd_destination_domain :: "BurnData \<Rightarrow> u32 wallet_result" where
  "bd_destination_domain bs = bd_read_u32 bs TS_DESTINATION_DOMAIN_OFFSET"

definition source_contract :: "BurnData \<Rightarrow> pubkey wallet_result" where
  "source_contract bs = bd_read_pubkey bs TS_SOURCE_CONTRACT_OFFSET"

definition bd_destination_contract :: "BurnData \<Rightarrow> pubkey wallet_result" where
  "bd_destination_contract bs = bd_read_pubkey bs TS_DESTINATION_CONTRACT_OFFSET"

definition source_token :: "BurnData \<Rightarrow> pubkey wallet_result" where
  "source_token bs = bd_read_pubkey bs TS_SOURCE_TOKEN_OFFSET"

definition bd_destination_token :: "BurnData \<Rightarrow> pubkey wallet_result" where
  "bd_destination_token bs = bd_read_pubkey bs TS_DESTINATION_TOKEN_OFFSET"

definition source_depositor :: "BurnData \<Rightarrow> pubkey wallet_result" where
  "source_depositor bs = bd_read_pubkey bs TS_SOURCE_DEPOSITOR_OFFSET"

definition bd_destination_recipient :: "BurnData \<Rightarrow> pubkey wallet_result" where
  "bd_destination_recipient bs = bd_read_pubkey bs TS_DESTINATION_RECIPIENT_OFFSET"

definition source_signer :: "BurnData \<Rightarrow> pubkey wallet_result" where
  "source_signer bs = bd_read_pubkey bs TS_SOURCE_SIGNER_OFFSET"

definition bd_destination_caller :: "BurnData \<Rightarrow> pubkey wallet_result" where
  "bd_destination_caller bs = bd_read_pubkey bs TS_DESTINATION_CALLER_OFFSET"

definition bd_value :: "BurnData \<Rightarrow> u64 wallet_result" where
  "bd_value bs = read_u64_with_data_offset bs TS_VALUE_OFFSET U256_TO_U64_OFFSET"

definition salt :: "BurnData \<Rightarrow> bytes wallet_result" where
  "salt bs = bd_read_bytes 32 bs TS_SALT_OFFSET"

definition bd_hook_data_length :: "BurnData \<Rightarrow> u32 wallet_result" where
  "bd_hook_data_length bs = bd_read_u32 bs TS_HOOK_DATA_LENGTH_OFFSET"

definition bd_hook_data :: "BurnData \<Rightarrow> bytes wallet_result" where
  "bd_hook_data bs =
     and_then (bd_hook_data_length bs) (\<lambda>n.
     and_then (bd_checked_add TS_HOOK_DATA_OFFSET (unat n)) (slice bs TS_HOOK_DATA_OFFSET))"

definition burn_intent_message_length :: "BurnData \<Rightarrow> nat wallet_result" where
  "burn_intent_message_length bs = sub_usize (length bs) BURN_INTENT_MESSAGE_PREFIX_OFFSET"

text \<open>\<open>BurnData::new\<close>.\<close>

definition burn_data_new :: "bytes \<Rightarrow> BurnData wallet_result" where
  "burn_data_new message_bytes =
     and_then (require (length message_bytes \<ge> TS_HOOK_DATA_OFFSET) (Custom BurnIntentLengthMismatch)) (\<lambda>_.
     let burn_data = message_bytes in
     and_then (burn_intent_message_prefix burn_data) (\<lambda>prefix.
     and_then (require (prefix = BURN_INTENT_MESSAGE_PREFIX)
                (Custom InvalidBurnIntentMessagePrefix)) (\<lambda>_.
     and_then (bd_magic burn_data) (\<lambda>m.
     and_then (require (m = BURN_INTENT_MAGIC) (Custom BurnIntentMagicMismatch)) (\<lambda>_.
     and_then (transfer_spec_magic burn_data) (\<lambda>tm.
     and_then (require (tm = TRANSFER_SPEC_MAGIC) (Custom TransferSpecMagicMismatch)) (\<lambda>_.
     and_then (bd_hook_data_length burn_data) (\<lambda>hook_data_length.
     and_then (bd_checked_add TS_HOOK_DATA_OFFSET (unat hook_data_length)) (\<lambda>burn_data_length.
     and_then (require (length burn_data = burn_data_length) (Custom BurnIntentLengthMismatch)) (\<lambda>_.
     and_then (transfer_spec_length burn_data) (\<lambda>spec_length.
     and_then (bd_checked_add (TS_HOOK_DATA_OFFSET - TRANSFER_SPEC_OFFSET) (unat hook_data_length))
       (\<lambda>actual_transfer_spec_length.
     and_then (require (actual_transfer_spec_length = unat spec_length)
                (Custom BurnIntentLengthMismatch)) (\<lambda>_.
     and_then (bd_value burn_data) (\<lambda>v.
     and_then (require (v > 0) (Custom InvalidBurnIntentValue)) (\<lambda>_.
     Inr burn_data)))))))))))))))"

section \<open>What acceptance means\<close>

lemma read_u64_offset_Inr:
  assumes "length bs < 2 ^ 64" "i + n + 8 \<le> length bs"
  shows "read_u64_with_data_offset bs i n =
    (if list_all (\<lambda>x. x = 0) (take n (drop i bs)) then Inr (u64_from_be (take 8 (drop (i + n) bs)))
     else Inl (Custom InvalidU64HighBytes))"
  using assms by (simp add: read_u64_with_data_offset_def bd_checked_add_def checked_add_def slice_def)

definition hook_len :: "bytes \<Rightarrow> nat" where
  "hook_len bs = unat (u32_from_be (take 4 (drop 496 bs)))"

lemma hook_len_bound: "hook_len bs < 2 ^ 32"
  using unat_bound [of "u32_from_be (take 4 (drop 496 bs))"] by (simp add: hook_len_def)

text \<open>\<open>BurnData::new\<close> returns its argument, and succeeds exactly when every check passes.\<close>

lemma burn_data_new_reads:
  assumes "length bs < 2 ^ 64" "500 \<le> length bs"
  shows "burn_intent_message_prefix bs = Inr (take 16 (drop 72 bs))"
    "bd_magic bs = Inr (u32_from_be (take 4 (drop 88 bs)))"
    "transfer_spec_magic bs = Inr (u32_from_be (take 4 (drop 160 bs)))"
    "bd_hook_data_length bs = Inr (u32_from_be (take 4 (drop 496 bs)))"
    "transfer_spec_length bs = Inr (u32_from_be (take 4 (drop 156 bs)))"
    "bd_value bs = (if list_all (\<lambda>x. x = 0) (take 24 (drop 432 bs))
       then Inr (u64_from_be (take 8 (drop 456 bs))) else Inl (Custom InvalidU64HighBytes))"
  using assms
  by (simp_all add: burn_offset_defs burn_intent_message_prefix_def bd_magic_def transfer_spec_magic_def
      bd_hook_data_length_def transfer_spec_length_def bd_value_def bd.in_range read_u64_offset_Inr)

lemma burn_data_new_Inr:
  assumes "length bs < 2 ^ 64"
  shows "burn_data_new bs = Inr d \<longleftrightarrow>
    d = bs \<and> length bs = 500 + hook_len bs \<and>
    take 16 (drop 72 bs) = BURN_INTENT_MESSAGE_PREFIX \<and>
    u32_from_be (take 4 (drop 88 bs)) = BURN_INTENT_MAGIC \<and>
    u32_from_be (take 4 (drop 160 bs)) = TRANSFER_SPEC_MAGIC \<and>
    unat (u32_from_be (take 4 (drop 156 bs))) = 340 + hook_len bs \<and>
    list_all (\<lambda>x. x = 0) (take 24 (drop 432 bs)) \<and> 0 < u64_from_be (take 8 (drop 456 bs))"
proof (cases "500 \<le> length bs")
  case True
  have sums: "bd_checked_add TS_HOOK_DATA_OFFSET (hook_len bs) = Inr (500 + hook_len bs)"
    "bd_checked_add (TS_HOOK_DATA_OFFSET - TRANSFER_SPEC_OFFSET) (hook_len bs) = Inr (340 + hook_len bs)"
    using hook_len_bound [of bs]
    by (simp_all add: bd_checked_add_def checked_add_def burn_offset_defs)
  have "TS_HOOK_DATA_OFFSET \<le> length bs" using True by (simp add: burn_offset_defs)
  then show ?thesis
    unfolding burn_data_new_def Let_def burn_data_new_reads [OF assms True]
    by (simp only: and_then_Inr and_then_eq_Inr require_eq_Inr sums hook_len_def [symmetric])
      (cases "list_all (\<lambda>x. x = 0) (take 24 (drop 432 bs))", auto simp only: if_True if_False sum.inject simp_thms)
next
  case False
  then show ?thesis by (auto simp: burn_data_new_def burn_offset_defs)
qed

lemma burn_data_newD:
  assumes "length bs < 2 ^ 64" "burn_data_new bs = Inr d"
  shows "d = bs" "500 \<le> length bs" "length bs = 500 + hook_len bs"
    "unat (u32_from_be (take 4 (drop 156 bs))) = 340 + hook_len bs"
  using assms by (simp_all add: burn_data_new_Inr)

text \<open>The hash covers the message from the transfer spec to its end.\<close>

lemma burn_data_spec_hash:
  assumes "length bs < 2 ^ 64" "burn_data_new bs = Inr d"
  shows "encoded_transfer_spec d = Inr (drop 160 bs)"
    "bd_transfer_spec_hash pf d = Inr (keccak256 pf (drop 160 bs))"
proof -
  note d = burn_data_newD [OF assms]
  show spec: "encoded_transfer_spec d = Inr (drop 160 bs)"
    using d assms(1)
    by (simp add: encoded_transfer_spec_def transfer_spec_length_def burn_offset_defs bd.in_range
        add_usize_def slice_def)
  then show "bd_transfer_spec_hash pf d = Inr (keccak256 pf (drop 160 bs))"
    by (simp add: bd_transfer_spec_hash_def)
qed

section \<open>The layout as an encoder\<close>

record BurnMessage =
  bm_fee :: u64
  bm_user_signature :: bytes
  bm_max_block_height :: u64
  bm_max_fee :: u64
  bm_version :: u32
  bm_source_domain :: u32
  bm_destination_domain :: u32
  bm_source_contract :: pubkey
  bm_destination_contract :: pubkey
  bm_source_token :: pubkey
  bm_destination_token :: pubkey
  bm_source_depositor :: pubkey
  bm_destination_recipient :: pubkey
  bm_source_signer :: pubkey
  bm_destination_caller :: pubkey
  bm_value :: u64
  bm_salt :: bytes
  bm_hook_data :: bytes

text \<open>A 256-bit big-endian field holding a 64-bit value.\<close>

definition u256_of_u64 :: "u64 \<Rightarrow> bytes" where
  "u256_of_u64 v = replicate 24 0 @ u64_to_be v"

definition encode_transfer_spec :: "BurnMessage \<Rightarrow> bytes" where
  "encode_transfer_spec m =
     u32_to_be TRANSFER_SPEC_MAGIC @ u32_to_be (bm_version m) @ u32_to_be (bm_source_domain m) @
     u32_to_be (bm_destination_domain m) @ bm_source_contract m @ bm_destination_contract m @
     bm_source_token m @ bm_destination_token m @ bm_source_depositor m @
     bm_destination_recipient m @ bm_source_signer m @ bm_destination_caller m @
     u256_of_u64 (bm_value m) @ bm_salt m @ u32_to_be (word_of_nat (length (bm_hook_data m))) @
     bm_hook_data m"

definition encode_burn_message :: "BurnMessage \<Rightarrow> bytes" where
  "encode_burn_message m =
     u64_to_be (bm_fee m) @ bm_user_signature m @ BURN_INTENT_MESSAGE_PREFIX @
     u32_to_be BURN_INTENT_MAGIC @ u256_of_u64 (bm_max_block_height m) @ u256_of_u64 (bm_max_fee m) @
     u32_to_be (word_of_nat (340 + length (bm_hook_data m))) @ encode_transfer_spec m"

definition valid_burn_message :: "BurnMessage \<Rightarrow> bool" where
  "valid_burn_message m \<longleftrightarrow> length (bm_user_signature m) = 64 \<and> length (bm_source_contract m) = 32 \<and>
     length (bm_destination_contract m) = 32 \<and> length (bm_source_token m) = 32 \<and>
     length (bm_destination_token m) = 32 \<and> length (bm_source_depositor m) = 32 \<and>
     length (bm_destination_recipient m) = 32 \<and> length (bm_source_signer m) = 32 \<and>
     length (bm_destination_caller m) = 32 \<and> length (bm_salt m) = 32 \<and> 0 < bm_value m \<and>
     340 + length (bm_hook_data m) < 2 ^ 32"

text \<open>\<open>new\<close>, then every accessor.\<close>

definition decode_burn_message :: "bytes \<Rightarrow> BurnMessage wallet_result" where
  "decode_burn_message bs =
     and_then (burn_data_new bs) (\<lambda>d.
     and_then (bd_fee d) (\<lambda>fee. and_then (bd_user_signature d) (\<lambda>sig.
     and_then (bd_max_block_height d) (\<lambda>height. and_then (bd_max_fee d) (\<lambda>max_fee.
     and_then (bd_version d) (\<lambda>v. and_then (source_domain d) (\<lambda>sd.
     and_then (bd_destination_domain d) (\<lambda>dd. and_then (source_contract d) (\<lambda>sc.
     and_then (bd_destination_contract d) (\<lambda>dc. and_then (source_token d) (\<lambda>st.
     and_then (bd_destination_token d) (\<lambda>dt. and_then (source_depositor d) (\<lambda>dep.
     and_then (bd_destination_recipient d) (\<lambda>rec. and_then (source_signer d) (\<lambda>sgn.
     and_then (bd_destination_caller d) (\<lambda>clr. and_then (bd_value d) (\<lambda>val.
     and_then (salt d) (\<lambda>slt. and_then (bd_hook_data d) (\<lambda>hook.
     Inr \<lparr> bm_fee = fee, bm_user_signature = sig, bm_max_block_height = height, bm_max_fee = max_fee,
           bm_version = v, bm_source_domain = sd, bm_destination_domain = dd, bm_source_contract = sc,
           bm_destination_contract = dc, bm_source_token = st, bm_destination_token = dt,
           bm_source_depositor = dep, bm_destination_recipient = rec, bm_source_signer = sgn,
           bm_destination_caller = clr, bm_value = val, bm_salt = slt, bm_hook_data = hook \<rparr>)))))))))))))))))))"

text \<open>The message cut out of the bytes.\<close>

definition burn_message_at :: "bytes \<Rightarrow> BurnMessage" where
  "burn_message_at bs =
     \<lparr> bm_fee = u64_from_be (take 8 bs), bm_user_signature = take 64 (drop 8 bs),
       bm_max_block_height = u64_from_be (take 8 (drop 116 bs)),
       bm_max_fee = u64_from_be (take 8 (drop 148 bs)),
       bm_version = u32_from_be (take 4 (drop 164 bs)),
       bm_source_domain = u32_from_be (take 4 (drop 168 bs)),
       bm_destination_domain = u32_from_be (take 4 (drop 172 bs)),
       bm_source_contract = take 32 (drop 176 bs), bm_destination_contract = take 32 (drop 208 bs),
       bm_source_token = take 32 (drop 240 bs), bm_destination_token = take 32 (drop 272 bs),
       bm_source_depositor = take 32 (drop 304 bs), bm_destination_recipient = take 32 (drop 336 bs),
       bm_source_signer = take 32 (drop 368 bs), bm_destination_caller = take 32 (drop 400 bs),
       bm_value = u64_from_be (take 8 (drop 456 bs)), bm_salt = take 32 (drop 464 bs),
       bm_hook_data = take (hook_len bs) (drop 500 bs) \<rparr>"

lemmas burn_accessor_defs = bd_fee_def bd_user_signature_def bd_max_block_height_def bd_max_fee_def
  bd_version_def source_domain_def bd_destination_domain_def source_contract_def
  bd_destination_contract_def source_token_def bd_destination_token_def source_depositor_def
  bd_destination_recipient_def source_signer_def bd_destination_caller_def bd_value_def salt_def
  bd_hook_data_length_def bd_hook_data_def

text \<open>Every accessor of an accepted message reads its field.\<close>

lemma burn_accessors:
  assumes "length bs < 2 ^ 64" "500 \<le> length bs"
  shows "bd_fee bs = Inr (bm_fee (burn_message_at bs))"
    "bd_user_signature bs = Inr (bm_user_signature (burn_message_at bs))"
    "bd_version bs = Inr (bm_version (burn_message_at bs))"
    "source_domain bs = Inr (bm_source_domain (burn_message_at bs))"
    "bd_destination_domain bs = Inr (bm_destination_domain (burn_message_at bs))"
    "source_contract bs = Inr (bm_source_contract (burn_message_at bs))"
    "bd_destination_contract bs = Inr (bm_destination_contract (burn_message_at bs))"
    "source_token bs = Inr (bm_source_token (burn_message_at bs))"
    "bd_destination_token bs = Inr (bm_destination_token (burn_message_at bs))"
    "source_depositor bs = Inr (bm_source_depositor (burn_message_at bs))"
    "bd_destination_recipient bs = Inr (bm_destination_recipient (burn_message_at bs))"
    "source_signer bs = Inr (bm_source_signer (burn_message_at bs))"
    "bd_destination_caller bs = Inr (bm_destination_caller (burn_message_at bs))"
    "salt bs = Inr (bm_salt (burn_message_at bs))"
  using assms
  by (simp_all add: burn_accessor_defs burn_offset_defs bd.in_range burn_message_at_def)

lemma burn_hook_accessor:
  assumes "length bs < 2 ^ 64" "500 + hook_len bs \<le> length bs"
  shows "bd_hook_data bs = Inr (bm_hook_data (burn_message_at bs))"
  using assms
  by (simp add: bd_hook_data_def bd_hook_data_length_def burn_offset_defs bd.in_range
      burn_message_at_def bd_checked_add_def checked_add_def slice_def hook_len_def)

lemma burn_wide_accessors:
  assumes "length bs < 2 ^ 64" "500 \<le> length bs"
  shows "bd_value bs = Inr v \<longleftrightarrow>
      list_all (\<lambda>x. x = 0) (take 24 (drop 432 bs)) \<and> v = bm_value (burn_message_at bs)"
    "bd_max_fee bs = Inr v \<longleftrightarrow>
      list_all (\<lambda>x. x = 0) (take 24 (drop 124 bs)) \<and> v = bm_max_fee (burn_message_at bs)"
    "bd_max_block_height bs = Inr v \<longleftrightarrow>
      list_all (\<lambda>x. x = 0) (take 24 (drop 92 bs)) \<and> v = bm_max_block_height (burn_message_at bs)"
  using assms
  by (auto simp: bd_value_def bd_max_fee_def bd_max_block_height_def burn_offset_defs
      read_u64_offset_Inr burn_message_at_def)

section \<open>Round trip\<close>

text \<open>A message whose three 256-bit fields have zero high bytes.\<close>

definition narrow_fields :: "bytes \<Rightarrow> bool" where
  "narrow_fields bs \<longleftrightarrow> list_all (\<lambda>x. x = 0) (take 24 (drop 92 bs)) \<and>
     list_all (\<lambda>x. x = 0) (take 24 (drop 124 bs)) \<and> list_all (\<lambda>x. x = 0) (take 24 (drop 432 bs))"

lemma decode_burn_message_Inr:
  assumes "length bs < 2 ^ 64"
  shows "decode_burn_message bs = Inr m \<longleftrightarrow>
    (\<exists>d. burn_data_new bs = Inr d) \<and> narrow_fields bs \<and> m = burn_message_at bs"
proof (cases "burn_data_new bs")
  case (Inr d)
  note d = burn_data_newD [OF assms Inr]
  have "500 + hook_len bs \<le> length bs" using d(3) by simp
  note acc = burn_accessors [OF assms d(2)] burn_hook_accessor [OF assms this]
  have nf: "list_all (\<lambda>x. x = 0) (take 24 (drop 432 bs))" using Inr assms by (simp add: burn_data_new_Inr)
  have bm: "burn_message_at bs = \<lparr> bm_fee = bm_fee (burn_message_at bs), bm_user_signature = bm_user_signature (burn_message_at bs),
      bm_max_block_height = bm_max_block_height (burn_message_at bs), bm_max_fee = bm_max_fee (burn_message_at bs),
      bm_version = bm_version (burn_message_at bs), bm_source_domain = bm_source_domain (burn_message_at bs),
      bm_destination_domain = bm_destination_domain (burn_message_at bs),
      bm_source_contract = bm_source_contract (burn_message_at bs),
      bm_destination_contract = bm_destination_contract (burn_message_at bs),
      bm_source_token = bm_source_token (burn_message_at bs),
      bm_destination_token = bm_destination_token (burn_message_at bs),
      bm_source_depositor = bm_source_depositor (burn_message_at bs),
      bm_destination_recipient = bm_destination_recipient (burn_message_at bs),
      bm_source_signer = bm_source_signer (burn_message_at bs),
      bm_destination_caller = bm_destination_caller (burn_message_at bs),
      bm_value = bm_value (burn_message_at bs), bm_salt = bm_salt (burn_message_at bs),
      bm_hook_data = bm_hook_data (burn_message_at bs) \<rparr>" by simp
  show ?thesis
    unfolding decode_burn_message_def Inr and_then_Inr d(1) acc
    by (auto simp: and_then_eq_Inr burn_wide_accessors [OF assms d(2)] narrow_fields_def nf)
qed (simp add: decode_burn_message_def)

lemma zeros_eq: "list_all (\<lambda>x. x = 0) xs \<longleftrightarrow> xs = replicate (length xs) (0 :: u8)"
  by (induction xs) auto

lemma u256_split:
  assumes "list_all (\<lambda>x. x = 0) (take 24 (drop i bs))" "i + 32 \<le> length bs"
  shows "u256_of_u64 (u64_from_be (take 8 (drop (i + 24) bs))) = take 32 (drop i bs)"
proof -
  have "take (24 + 8) (drop i bs) = take 24 (drop i bs) @ take 8 (drop (i + 24) bs)"
    by (rule take_drop_split)
  also have "take 24 (drop i bs) = replicate 24 0" using assms by (simp add: zeros_eq)
  finally show ?thesis using assms(2) by (simp add: u256_of_u64_def u64_to_from_be)
qed

lemma length_u256 [simp]: "length (u256_of_u64 v) = 32"
  by (simp add: u256_of_u64_def)

text \<open>An accepted message re-encodes to itself.\<close>

lemma encode_burn_message_at:
  assumes "length bs < 2 ^ 64" "burn_data_new bs = Inr d" "narrow_fields bs"
  shows "encode_burn_message (burn_message_at bs) = bs" "valid_burn_message (burn_message_at bs)"
proof -
  note d = burn_data_newD [OF assms(1,2)]
  let ?m = "burn_message_at bs"
  have hook: "length (bm_hook_data ?m) = hook_len bs" using d by (simp add: burn_message_at_def)
  show "valid_burn_message ?m"
    using d hook assms(1,2) unat_bound [of "u32_from_be (take 4 (drop 156 bs))"]
    by (simp add: valid_burn_message_def burn_message_at_def burn_data_new_Inr)
  have wide: "u256_of_u64 (bm_max_block_height ?m) = take 32 (drop 92 bs)"
    "u256_of_u64 (bm_max_fee ?m) = take 32 (drop 124 bs)"
    "u256_of_u64 (bm_value ?m) = take 32 (drop 432 bs)"
    using u256_split [of 92 bs] u256_split [of 124 bs] u256_split [of 432 bs] assms(3) d(2)
    by (simp_all add: narrow_fields_def burn_message_at_def)
  have fixed: "BURN_INTENT_MESSAGE_PREFIX = take 16 (drop 72 bs)"
    "u32_to_be BURN_INTENT_MAGIC = take 4 (drop 88 bs)"
    "u32_to_be TRANSFER_SPEC_MAGIC = take 4 (drop 160 bs)"
    using assms(1,2) d(2) u32_to_from_be [of "take 4 (drop 88 bs)"] u32_to_from_be [of "take 4 (drop 160 bs)"]
    by (auto simp: burn_data_new_Inr)
  have lens: "u32_to_be (word_of_nat (340 + hook_len bs)) = take 4 (drop 156 bs)"
    "u32_to_be (word_of_nat (hook_len bs)) = take 4 (drop 496 bs)"
  proof -
    have "(word_of_nat (340 + hook_len bs) :: u32) = u32_from_be (take 4 (drop 156 bs))"
      by (simp only: d(4) [symmetric] of_nat_unat ucast_id)
    moreover have "(word_of_nat (hook_len bs) :: u32) = u32_from_be (take 4 (drop 496 bs))"
      by (simp only: hook_len_def of_nat_unat ucast_id)
    ultimately show "u32_to_be (word_of_nat (340 + hook_len bs)) = take 4 (drop 156 bs)"
      "u32_to_be (word_of_nat (hook_len bs)) = take 4 (drop 496 bs)"
      using d(2) by (simp_all only:) (simp_all add: u32_to_from_be)
  qed
  have flds: "u64_to_be (bm_fee ?m) = take 8 bs" "u32_to_be (bm_version ?m) = take 4 (drop 164 bs)"
    "u32_to_be (bm_source_domain ?m) = take 4 (drop 168 bs)"
    "u32_to_be (bm_destination_domain ?m) = take 4 (drop 172 bs)"
    using d(2) by (simp_all add: burn_message_at_def u32_to_from_be u64_to_from_be)
  have "bs = take (8 + (64 + (16 + (4 + (32 + (32 + (4 + (4 + (4 + (4 + (4 + (32 + (32 + (32 + (32 + (32 +
      (32 + (32 + (32 + (32 + (32 + (4 + hook_len bs)))))))))))))))))))))) (drop 0 bs)"
    using d(3) by simp
  also have "\<dots> = encode_burn_message ?m"
    unfolding take_drop_split encode_burn_message_def encode_transfer_spec_def wide fixed hook lens flds
    by (simp add: burn_message_at_def)
  finally show "encode_burn_message ?m = bs" ..
qed

lemma encode_burn_message_fields:
  assumes "valid_burn_message m"
  defines "bs \<equiv> encode_burn_message m"
  shows "burn_message_at bs = m" "narrow_fields bs"
    "length bs = 500 + length (bm_hook_data m)" "hook_len bs = length (bm_hook_data m)"
    "take 16 (drop 72 bs) = BURN_INTENT_MESSAGE_PREFIX"
    "u32_from_be (take 4 (drop 88 bs)) = BURN_INTENT_MAGIC"
    "u32_from_be (take 4 (drop 160 bs)) = TRANSFER_SPEC_MAGIC"
    "unat (u32_from_be (take 4 (drop 156 bs))) = 340 + length (bm_hook_data m)"
proof -
  have prefix: "length BURN_INTENT_MESSAGE_PREFIX = 16" by (simp add: BURN_INTENT_MESSAGE_PREFIX_def)
  have "unat (word_of_nat (length (bm_hook_data m)) :: u32) = length (bm_hook_data m)"
    "unat (word_of_nat (340 + length (bm_hook_data m)) :: u32) = 340 + length (bm_hook_data m)"
    using assms(1) by (simp_all only: valid_burn_message_def unat_of_nat) simp_all
  note nums = this
  note lens = assms(1) [unfolded valid_burn_message_def]
  note layout = bs_def encode_burn_message_def encode_transfer_spec_def u256_of_u64_def
  show hook: "hook_len bs = length (bm_hook_data m)"
    using lens prefix nums(1) by (simp add: hook_len_def layout)
  show "length bs = 500 + length (bm_hook_data m)"
    "take 16 (drop 72 bs) = BURN_INTENT_MESSAGE_PREFIX"
    "u32_from_be (take 4 (drop 88 bs)) = BURN_INTENT_MAGIC"
    "u32_from_be (take 4 (drop 160 bs)) = TRANSFER_SPEC_MAGIC"
    using lens prefix by (simp_all add: layout)
  show "unat (u32_from_be (take 4 (drop 156 bs))) = 340 + length (bm_hook_data m)"
    using lens prefix nums(2) by (simp add: layout del: of_nat_add of_nat_numeral)
  show "narrow_fields bs"
    using lens prefix by (simp add: narrow_fields_def layout list_all_iff)
  show "burn_message_at bs = m"
    using lens prefix hook by (simp add: burn_message_at_def layout)
qed

section \<open>Properties\<close>

lemma encode_burn_message_accepted:
  assumes "valid_burn_message m"
  shows "length (encode_burn_message m) < 2 ^ 64"
    and "burn_data_new (encode_burn_message m) = Inr (encode_burn_message m)"
    and "decode_burn_message (encode_burn_message m) = Inr m"
proof -
  note f = encode_burn_message_fields [OF assms]
  have short: "length (encode_burn_message m) < 2 ^ 64"
    using assms f(3) by (simp add: valid_burn_message_def)
  have "bm_value (burn_message_at (encode_burn_message m)) > 0"
    using assms by (simp add: f(1) valid_burn_message_def)
  then have "0 < u64_from_be (take 8 (drop 456 (encode_burn_message m)))" by (simp add: burn_message_at_def)
  with f(2-8) have "burn_data_new (encode_burn_message m) = Inr (encode_burn_message m)"
    by (simp only: burn_data_new_Inr [OF short] narrow_fields_def simp_thms)
  with f(1,2) short show "length (encode_burn_message m) < 2 ^ 64"
    "burn_data_new (encode_burn_message m) = Inr (encode_burn_message m)"
    "decode_burn_message (encode_burn_message m) = Inr m"
    by (simp_all only: decode_burn_message_Inr [OF short]) blast
qed

text \<open>The burn message parser reads back every field of a message laid out as the module documents,
  the 256-bit amounts and heights included.\<close>

theorem burn_message_roundtrip:
  assumes "valid_burn_message m"
  shows "decode_burn_message (encode_burn_message m) = Inr m"
  using assms by (rule encode_burn_message_accepted)

definition sample_burn_message :: BurnMessage where
  "sample_burn_message =
     \<lparr> bm_fee = 3, bm_user_signature = replicate 64 9, bm_max_block_height = 900, bm_max_fee = 10,
       bm_version = 1, bm_source_domain = 5, bm_destination_domain = 2,
       bm_source_contract = replicate 32 1, bm_destination_contract = replicate 32 2,
       bm_source_token = replicate 32 3, bm_destination_token = replicate 32 4,
       bm_source_depositor = replicate 32 5, bm_destination_recipient = replicate 32 6,
       bm_source_signer = replicate 32 7, bm_destination_caller = replicate 32 0,
       bm_value = 1000, bm_salt = replicate 32 8, bm_hook_data = [1, 2] \<rparr>"

lemma sample_burn_message_valid: "valid_burn_message sample_burn_message"
  by (simp add: sample_burn_message_def valid_burn_message_def)

theorem burn_message_roundtrip_witness:
  "decode_burn_message (encode_burn_message sample_burn_message) = Inr sample_burn_message"
  by (rule burn_message_roundtrip) (rule sample_burn_message_valid)

text \<open>C37: the burn message parser accepts only canonical messages: a byte string whose checks and
  accessors all succeed is exactly the encoding of the message it is read as, so a user signature over
  the intent bytes fixes every field.\<close>

theorem burn_message_canonical:
  assumes "length bs < 2 ^ 64" "decode_burn_message bs = Inr m"
  shows "encode_burn_message m = bs \<and> valid_burn_message m"
  using assms encode_burn_message_at [of bs] by (auto simp: decode_burn_message_Inr)

theorem burn_message_canonical_witness:
  "decode_burn_message (encode_burn_message sample_burn_message) = Inr sample_burn_message \<and>
   valid_burn_message sample_burn_message"
  using burn_message_canonical encode_burn_message_accepted [OF sample_burn_message_valid] by blast

text \<open>the transfer spec hash that identifies a burn covers every byte of an accepted message from the
  transfer spec to its end, hook data included, and nothing else.\<close>

theorem transfer_spec_hash_covers:
  assumes "length bs < 2 ^ 64" "burn_data_new bs = Inr d"
  shows "bd_transfer_spec_hash pf d = Inr (keccak256 pf (drop 160 bs)) \<and>
    length (drop 160 bs) = 340 + hook_len bs"
  using burn_data_spec_hash(2) [OF assms] burn_data_newD(3) [OF assms] by simp

theorem transfer_spec_hash_covers_witness:
  "\<forall>pf. bd_transfer_spec_hash pf (encode_burn_message sample_burn_message) =
       Inr (keccak256 pf (drop 160 (encode_burn_message sample_burn_message))) \<and>
     length (drop 160 (encode_burn_message sample_burn_message)) =
       340 + hook_len (encode_burn_message sample_burn_message)"
  by (intro allI, rule transfer_spec_hash_covers) (rule encode_burn_message_accepted [OF sample_burn_message_valid])+

lemma no_panic_wide: "length bs < 2 ^ 64 \<Longrightarrow> i + n + 8 \<le> length bs \<Longrightarrow>
    no_panic (read_u64_with_data_offset bs i n)"
  by (simp add: read_u64_offset_Inr)

lemma no_panic_burn_data_new:
  assumes "length bs < 2 ^ 64"
  shows "no_panic (burn_data_new bs)"
proof (cases "500 \<le> length bs")
  case True
  have "TS_HOOK_DATA_OFFSET \<le> length bs" using True by (simp add: burn_offset_defs)
  then show ?thesis
    unfolding burn_data_new_def Let_def burn_data_new_reads [OF assms True] bd_checked_add_def checked_add_def
    by (auto intro!: no_panic_and_then)
next
  case False
  then show ?thesis by (simp add: burn_data_new_def burn_offset_defs)
qed

text \<open>No byte string makes the burn message parser or an accessor of an accepted message panic.\<close>

theorem decode_burn_message_no_panic:
  assumes "length bs < 2 ^ 64"
  shows "no_panic (decode_burn_message bs)"
proof (cases "burn_data_new bs")
  case (Inl e)
  then show ?thesis using no_panic_burn_data_new [OF assms] by (simp add: decode_burn_message_def no_panic_Inl)
next
  case (Inr d)
  note d = burn_data_newD [OF assms Inr]
  have "500 + hook_len bs \<le> length bs" using d(3) by simp
  note acc = burn_accessors [OF assms d(2)] burn_hook_accessor [OF assms this]
  have wide: "no_panic (bd_value bs)" "no_panic (bd_max_fee bs)" "no_panic (bd_max_block_height bs)"
    using assms d(2)
    by (simp_all add: bd_value_def bd_max_fee_def bd_max_block_height_def burn_offset_defs no_panic_wide)
  show ?thesis
    unfolding decode_burn_message_def Inr and_then_Inr d(1) acc
    by (intro no_panic_and_then wide no_panic_Inr)
qed

theorem decode_burn_message_no_panic_witness: "no_panic (decode_burn_message [7])"
  by (rule decode_burn_message_no_panic) simp

end
