(* ===== verification/Ed25519.thy ===== *)
theory Ed25519
  imports WalletTypes FieldReader
begin

text \<open>
  The Ed25519 instruction header (programs/gateway-wallet/src/ed25519.rs): \<open>Ed25519InstructionData\<close>, whose
  fields are little-endian, and the fact that nine field tests pin down all of its sixteen bytes.
\<close>

definition NUM_SIGNATURES_OFFSET :: nat where "NUM_SIGNATURES_OFFSET = 0"
definition PADDING_OFFSET :: nat where "PADDING_OFFSET = 1"
definition SIGNATURE_OFFSET :: nat where "SIGNATURE_OFFSET = 2"
definition SIGNATURE_INSTRUCTION_INDEX_OFFSET :: nat where "SIGNATURE_INSTRUCTION_INDEX_OFFSET = 4"
definition PUBLIC_KEY_OFFSET :: nat where "PUBLIC_KEY_OFFSET = 6"
definition PUBLIC_KEY_INSTRUCTION_INDEX_OFFSET :: nat where "PUBLIC_KEY_INSTRUCTION_INDEX_OFFSET = 8"
definition MESSAGE_DATA_OFFSET :: nat where "MESSAGE_DATA_OFFSET = 10"
definition MESSAGE_DATA_SIZE_OFFSET :: nat where "MESSAGE_DATA_SIZE_OFFSET = 12"
definition MESSAGE_INSTRUCTION_INDEX_OFFSET :: nat where "MESSAGE_INSTRUCTION_INDEX_OFFSET = 14"
definition HEADER_SIZE :: nat where "HEADER_SIZE = 16"

lemmas ed_offset_defs = NUM_SIGNATURES_OFFSET_def PADDING_OFFSET_def SIGNATURE_OFFSET_def
  SIGNATURE_INSTRUCTION_INDEX_OFFSET_def PUBLIC_KEY_OFFSET_def PUBLIC_KEY_INSTRUCTION_INDEX_OFFSET_def
  MESSAGE_DATA_OFFSET_def MESSAGE_DATA_SIZE_OFFSET_def MESSAGE_INSTRUCTION_INDEX_OFFSET_def
  HEADER_SIZE_def

text \<open>The struct borrows its bytes.\<close>

type_synonym Ed25519InstructionData = bytes

definition ed_new :: "bytes \<Rightarrow> Ed25519InstructionData wallet_result" where
  "ed_new bs = and_then (require (length bs = HEADER_SIZE) (Custom InvalidEd25519InstructionData)) (\<lambda>_. Inr bs)"

definition ed_read_u8 :: "Ed25519InstructionData \<Rightarrow> nat \<Rightarrow> u8 wallet_result" where
  "ed_read_u8 bs index =
     (if index < length bs then Inr (bs ! index) else Inl (Custom InvalidEd25519InstructionData))"

definition ed_read_u16 :: "Ed25519InstructionData \<Rightarrow> nat \<Rightarrow> u16 wallet_result" where
  "ed_read_u16 bs index =
     and_then (checked_add InvalidEd25519InstructionData index 2) (\<lambda>end.
     and_then (slice bs index end) (\<lambda>b. Inr (u16_from_le b)))"

definition num_signatures :: "Ed25519InstructionData \<Rightarrow> u8 wallet_result" where
  "num_signatures bs = ed_read_u8 bs NUM_SIGNATURES_OFFSET"
definition padding :: "Ed25519InstructionData \<Rightarrow> u8 wallet_result" where
  "padding bs = ed_read_u8 bs PADDING_OFFSET"
definition signature_offset :: "Ed25519InstructionData \<Rightarrow> u16 wallet_result" where
  "signature_offset bs = ed_read_u16 bs SIGNATURE_OFFSET"
definition signature_instruction_index :: "Ed25519InstructionData \<Rightarrow> u16 wallet_result" where
  "signature_instruction_index bs = ed_read_u16 bs SIGNATURE_INSTRUCTION_INDEX_OFFSET"
definition public_key_offset :: "Ed25519InstructionData \<Rightarrow> u16 wallet_result" where
  "public_key_offset bs = ed_read_u16 bs PUBLIC_KEY_OFFSET"
definition public_key_instruction_index :: "Ed25519InstructionData \<Rightarrow> u16 wallet_result" where
  "public_key_instruction_index bs = ed_read_u16 bs PUBLIC_KEY_INSTRUCTION_INDEX_OFFSET"
definition message_data_offset :: "Ed25519InstructionData \<Rightarrow> u16 wallet_result" where
  "message_data_offset bs = ed_read_u16 bs MESSAGE_DATA_OFFSET"
definition message_data_size :: "Ed25519InstructionData \<Rightarrow> u16 wallet_result" where
  "message_data_size bs = ed_read_u16 bs MESSAGE_DATA_SIZE_OFFSET"
definition message_instruction_index :: "Ed25519InstructionData \<Rightarrow> u16 wallet_result" where
  "message_instruction_index bs = ed_read_u16 bs MESSAGE_INSTRUCTION_INDEX_OFFSET"

text \<open>The header that states one signature with the given offsets, all in instruction \<open>i\<close>.\<close>

definition ed_header :: "u16 \<Rightarrow> u16 \<Rightarrow> u16 \<Rightarrow> u16 \<Rightarrow> u16 \<Rightarrow> bytes" where
  "ed_header sig key msg sz i =
     [1, 0] @ u16_to_le sig @ u16_to_le i @ u16_to_le key @ u16_to_le i @
     u16_to_le msg @ u16_to_le sz @ u16_to_le i"

lemma ed_reads:
  assumes "length bs = 16"
  shows "ed_new bs = Inr bs" "num_signatures bs = Inr (bs ! 0)" "padding bs = Inr (bs ! 1)"
    "signature_offset bs = Inr (u16_from_le (take 2 (drop 2 bs)))"
    "signature_instruction_index bs = Inr (u16_from_le (take 2 (drop 4 bs)))"
    "public_key_offset bs = Inr (u16_from_le (take 2 (drop 6 bs)))"
    "public_key_instruction_index bs = Inr (u16_from_le (take 2 (drop 8 bs)))"
    "message_data_offset bs = Inr (u16_from_le (take 2 (drop 10 bs)))"
    "message_data_size bs = Inr (u16_from_le (take 2 (drop 12 bs)))"
    "message_instruction_index bs = Inr (u16_from_le (take 2 (drop 14 bs)))"
  using assms
  by (simp_all add: ed_new_def num_signatures_def padding_def signature_offset_def
      signature_instruction_index_def public_key_offset_def public_key_instruction_index_def
      message_data_offset_def message_data_size_def message_instruction_index_def
      ed_read_u8_def ed_read_u16_def checked_add_def slice_def ed_offset_defs)

text \<open>The nine tests hold of exactly one header.\<close>

lemma ed_header_unique:
  assumes "length bs = 16"
  shows "bs = ed_header sig key msg sz i \<longleftrightarrow>
    bs ! 0 = 1 \<and> bs ! 1 = 0 \<and> u16_from_le (take 2 (drop 2 bs)) = sig \<and>
    u16_from_le (take 2 (drop 4 bs)) = i \<and> u16_from_le (take 2 (drop 6 bs)) = key \<and>
    u16_from_le (take 2 (drop 8 bs)) = i \<and> u16_from_le (take 2 (drop 10 bs)) = msg \<and>
    u16_from_le (take 2 (drop 12 bs)) = sz \<and> u16_from_le (take 2 (drop 14 bs)) = i"
proof
  assume "bs = ed_header sig key msg sz i"
  then show "bs ! 0 = 1 \<and> bs ! 1 = 0 \<and> u16_from_le (take 2 (drop 2 bs)) = sig \<and>
    u16_from_le (take 2 (drop 4 bs)) = i \<and> u16_from_le (take 2 (drop 6 bs)) = key \<and>
    u16_from_le (take 2 (drop 8 bs)) = i \<and> u16_from_le (take 2 (drop 10 bs)) = msg \<and>
    u16_from_le (take 2 (drop 12 bs)) = sz \<and> u16_from_le (take 2 (drop 14 bs)) = i"
    by (simp add: ed_header_def)
next
  assume tests: "bs ! 0 = 1 \<and> bs ! 1 = 0 \<and> u16_from_le (take 2 (drop 2 bs)) = sig \<and>
    u16_from_le (take 2 (drop 4 bs)) = i \<and> u16_from_le (take 2 (drop 6 bs)) = key \<and>
    u16_from_le (take 2 (drop 8 bs)) = i \<and> u16_from_le (take 2 (drop 10 bs)) = msg \<and>
    u16_from_le (take 2 (drop 12 bs)) = sz \<and> u16_from_le (take 2 (drop 14 bs)) = i"
  have fld: "u16_to_le (u16_from_le (take 2 (drop n bs))) = take 2 (drop n bs)" if "n + 2 \<le> 16" for n
    using that assms by (intro u16_to_from_le) simp
  have "take 2 bs = [bs ! 0, bs ! 1]"
    using assms by (cases bs; cases "tl bs") auto
  then have head: "take 2 bs = [1, 0]" using tests by simp
  have "bs = take (2 + (2 + (2 + (2 + (2 + (2 + (2 + 2))))))) (drop 0 bs)" using assms by simp
  also have "\<dots> = ed_header sig key msg sz i"
    unfolding take_drop_split
    using tests fld [of 2] fld [of 4] fld [of 6] fld [of 8] fld [of 10] fld [of 12] fld [of 14] head
    by (auto simp: ed_header_def simp del: add_2_eq_Suc add_2_eq_Suc')
  finally show "bs = ed_header sig key msg sz i" .
qed

lemma length_ed_header [simp]: "length (ed_header sig key msg sz i) = 16"
  by (simp add: ed_header_def)

end
