(* ===== verification/Balances.thy ===== *)
theory Balances
  imports WalletTypes
begin

text \<open>
  The arithmetic of \<open>impl GatewayDeposit\<close>: exact effects of \<open>reduce_balance\<close> and \<open>initiate_withdrawal\<close>
  over the natural numbers, and the conditions under which they fail.
\<close>

definition dep_total :: "GatewayDeposit \<Rightarrow> nat" where
  "dep_total d = unat (dep_available_amount d) + unat (dep_withdrawing_amount d)"

text \<open>A deposit record changed only in its amounts and withdrawal block.\<close>

definition same_deposit_owner :: "GatewayDeposit \<Rightarrow> GatewayDeposit \<Rightarrow> bool" where
  "same_deposit_owner d d' \<longleftrightarrow> dep_bump d' = dep_bump d \<and> dep_depositor d' = dep_depositor d \<and>
     dep_token_mint d' = dep_token_mint d"

lemma same_deposit_owner_refl [simp]: "same_deposit_owner d d"
  by (simp add: same_deposit_owner_def)

lemma reduce_balance_cases:
  assumes "reduce_balance d n = Inr (d', fa, fw)"
  obtains
    (available) "n \<le> dep_available_amount d" "fa = n" "fw = 0"
      "d' = d\<lparr> dep_available_amount := dep_available_amount d - n \<rparr>"
  | (both) "dep_available_amount d < n" "n - dep_available_amount d \<le> dep_withdrawing_amount d"
      "fa = dep_available_amount d" "fw = n - dep_available_amount d"
      "d' = d\<lparr> dep_available_amount := 0,
               dep_withdrawing_amount := dep_withdrawing_amount d - (n - dep_available_amount d) \<rparr>"
  | (short) "dep_available_amount d < n" "dep_withdrawing_amount d < n - dep_available_amount d"
      "fa = dep_available_amount d" "fw = dep_withdrawing_amount d"
      "d' = d\<lparr> dep_available_amount := 0, dep_withdrawing_amount := 0 \<rparr>"
proof (cases "n \<le> dep_available_amount d")
  case True
  with assms show ?thesis
    by (intro available) (auto simp: reduce_balance_def Let_def and_then_eq_Inr sub_u64_def require_eq_Inr)
next
  case False
  then have lt: "dep_available_amount d < n" by simp
  then have le: "dep_available_amount d \<le> n" by simp
  show ?thesis
  proof (cases "n - dep_available_amount d \<le> dep_withdrawing_amount d")
    case True
    with False lt le assms show ?thesis
      by (intro both) (auto simp: reduce_balance_def Let_def and_then_eq_Inr sub_u64_def require_eq_Inr)
  next
    case short': False
    with False lt le assms show ?thesis
      by (intro short) (auto simp: reduce_balance_def Let_def and_then_eq_Inr sub_u64_def require_eq_Inr)
  qed
qed

lemma reduce_balance_amounts:
  assumes "reduce_balance d n = Inr (d', fa, fw)"
  shows "unat fa = min (unat n) (unat (dep_available_amount d))"
    "unat fw = min (unat n - unat fa) (unat (dep_withdrawing_amount d))"
    "unat (dep_available_amount d') + unat fa = unat (dep_available_amount d)"
    "unat (dep_withdrawing_amount d') + unat fw = unat (dep_withdrawing_amount d)"
    "dep_withdrawal_block d' = dep_withdrawal_block d" "same_deposit_owner d d'"
proof -
  have "unat fa = min (unat n) (unat (dep_available_amount d)) \<and>
    unat fw = min (unat n - unat fa) (unat (dep_withdrawing_amount d)) \<and>
    unat (dep_available_amount d') + unat fa = unat (dep_available_amount d) \<and>
    unat (dep_withdrawing_amount d') + unat fw = unat (dep_withdrawing_amount d) \<and>
    dep_withdrawal_block d' = dep_withdrawal_block d \<and> same_deposit_owner d d'"
    using assms
  proof (cases rule: reduce_balance_cases)
    case available
    then show ?thesis by (simp add: u64_le_iff unat_sub_u64 same_deposit_owner_def)
  next
    case both
    then have "unat (n - dep_available_amount d) = unat n - unat (dep_available_amount d)"
      by (simp add: unat_sub_u64)
    with both show ?thesis by (simp add: u64_le_iff u64_less_iff unat_sub_u64 same_deposit_owner_def)
  next
    case short
    then have "unat (n - dep_available_amount d) = unat n - unat (dep_available_amount d)"
      by (simp add: unat_sub_u64)
    with short show ?thesis by (simp add: u64_less_iff same_deposit_owner_def)
  qed
  then show "unat fa = min (unat n) (unat (dep_available_amount d))"
    "unat fw = min (unat n - unat fa) (unat (dep_withdrawing_amount d))"
    "unat (dep_available_amount d') + unat fa = unat (dep_available_amount d)"
    "unat (dep_withdrawing_amount d') + unat fw = unat (dep_withdrawing_amount d)"
    "dep_withdrawal_block d' = dep_withdrawal_block d" "same_deposit_owner d d'" by blast+
qed

lemma reduce_balance_total:
  assumes "reduce_balance d n = Inr (d', fa, fw)"
  shows "unat fa + unat fw = min (unat n) (dep_total d)"
    "dep_total d' + (unat fa + unat fw) = dep_total d"
  using reduce_balance_amounts(1-4) [OF assms] unfolding dep_total_def by linarith+

lemma reduce_balance_succeeds: "0 < n \<Longrightarrow> \<exists>r. reduce_balance d n = Inr r"
  by (auto simp: reduce_balance_def Let_def sub_u64_def not_le split: if_splits)

section \<open>Properties\<close>

text \<open>A balance reduction takes exactly what is asked for, or everything there is when that is less; it
  drains the available balance before it touches a pending withdrawal, and what it reports as taken from
  each balance is what that balance lost.\<close>

theorem reduce_balance_spec:
  assumes "reduce_balance d amount = Inr (d', from_available, from_withdrawing)"
  shows "unat from_available + unat from_withdrawing = min (unat amount) (dep_total d) \<and>
    unat from_available = min (unat amount) (unat (dep_available_amount d)) \<and>
    unat (dep_available_amount d') + unat from_available = unat (dep_available_amount d) \<and>
    unat (dep_withdrawing_amount d') + unat from_withdrawing = unat (dep_withdrawing_amount d) \<and>
    dep_depositor d' = dep_depositor d \<and> dep_token_mint d' = dep_token_mint d \<and>
    dep_withdrawal_block d' = dep_withdrawal_block d"
  using reduce_balance_amounts [OF assms] reduce_balance_total(1) [OF assms]
  by (simp add: same_deposit_owner_def)

definition sample_deposit :: GatewayDeposit where
  "sample_deposit = \<lparr> dep_bump = 255, dep_depositor = replicate 32 5, dep_token_mint = replicate 32 3,
     dep_available_amount = 70, dep_withdrawing_amount = 50, dep_withdrawal_block = 12 \<rparr>"

theorem reduce_balance_spec_witness:
  "\<exists>d'. reduce_balance sample_deposit 100 = Inr (d', 70, 30) \<and>
     unat (70 :: u64) + unat (30 :: u64) = min (unat (100 :: u64)) (dep_total sample_deposit)"
proof -
  let ?d = "sample_deposit\<lparr> dep_available_amount := 0, dep_withdrawing_amount := 20 \<rparr>"
  have "reduce_balance sample_deposit 100 = Inr (?d, 70, 30)"
    by (simp add: reduce_balance_def sample_deposit_def Let_def sub_u64_def)
  with reduce_balance_spec [OF this] show ?thesis by blast
qed

text \<open>A balance reduction fails only on a zero amount, with the program's error and not a panic.\<close>

theorem reduce_balance_error:
  "reduce_balance d amount = Inl e \<longleftrightarrow> amount = 0 \<and> e = Custom InvalidBalanceReductionAmount"
proof (cases "amount = 0")
  case True
  then show ?thesis by (auto simp: reduce_balance_def)
next
  case False
  then have "0 < amount" by (simp add: word_greater_zero_iff)
  from reduce_balance_succeeds [OF this, of d] False show ?thesis by auto
qed

lemma initiate_withdrawal_amounts:
  assumes "deposit_initiate_withdrawal slot d amount delay w mint = Inr (d', a, t, b)"
  shows "0 < amount" "amount \<le> dep_available_amount d" "is_token_supported w mint"
    "unat (dep_available_amount d') + unat amount = unat (dep_available_amount d)"
    "unat (dep_withdrawing_amount d') = unat (dep_withdrawing_amount d) + unat amount"
    "unat (dep_withdrawal_block d') = unat slot + unat delay" "same_deposit_owner d d'"
    "a = dep_available_amount d'" "t = dep_withdrawing_amount d'" "b = dep_withdrawal_block d'"
  using assms
  by (auto simp: deposit_initiate_withdrawal_def result_simps unat_sub_u64 unat_add_u64 u64_le_iff
      same_deposit_owner_def)

text \<open>starting a withdrawal moves the amount from the available to the withdrawing balance without
  creating or losing tokens, and sets the unlock slot exactly the configured delay after the current
  slot, also when a withdrawal was already pending.\<close>

theorem initiate_withdrawal_spec:
  assumes "deposit_initiate_withdrawal slot d amount delay w mint = Inr (d', remaining, pending, block)"
  shows "dep_total d' = dep_total d \<and> unat remaining + unat amount = unat (dep_available_amount d) \<and>
    unat pending = unat (dep_withdrawing_amount d) + unat amount \<and> unat block = unat slot + unat delay \<and>
    dep_available_amount d' = remaining \<and> dep_withdrawing_amount d' = pending \<and>
    dep_withdrawal_block d' = block \<and> 0 < unat amount"
  using initiate_withdrawal_amounts [OF assms]
  by (simp add: dep_total_def u64_less_iff)

theorem initiate_withdrawal_spec_witness:
  "\<exists>d' w. deposit_initiate_withdrawal 10 sample_deposit 20 5 w (replicate 32 3) = Inr (d', 50, 70, 15) \<and>
     dep_total d' = dep_total sample_deposit"
proof -
  let ?w = "zeroed_GatewayWallet\<lparr> gw_supported_tokens := [replicate 32 3] \<rparr>"
  have "deposit_initiate_withdrawal 10 sample_deposit 20 5 ?w (replicate 32 3) =
      Inr (sample_deposit\<lparr> dep_available_amount := 50, dep_withdrawing_amount := 70,
             dep_withdrawal_block := 15 \<rparr>, 50, 70, 15)"
    by (simp add: deposit_initiate_withdrawal_def sample_deposit_def is_token_supported_def sub_u64_def
        add_u64_def)
  with initiate_withdrawal_spec [OF this] show ?thesis by blast
qed

end
