(* ===== verification/GatewayBurn.thy ===== *)
theory GatewayBurn
  imports WalletAdmin BurnData Ed25519 Balances
begin

text \<open>
  instructions/gateway_burn.rs, with \<open>verify_burn_signature\<close> and \<open>burn_token\<close> of state.rs: a burn intent,
  countersigned by a burn signer and signed by the depositor or a delegate through the Ed25519
  precompile, deducts the depositor's balance once, pays the fee and burns the rest.
\<close>

section \<open>impl GatewayWallet: verify_burn_signature and burn_token\<close>

definition BURN_SIGNATURE_LENGTH :: nat where "BURN_SIGNATURE_LENGTH = 65"

definition verify_burn_signature ::
    "platform \<Rightarrow> GatewayWallet \<Rightarrow> bytes \<Rightarrow> bytes \<Rightarrow> unit wallet_result" where
  "verify_burn_signature pf w message_hash signature =
     and_then (require (length signature = BURN_SIGNATURE_LENGTH)
                (Custom InvalidBurnSignerSignature)) (\<lambda>_.
     and_then (map_err (recover_evm_signer pf message_hash signature)
                (Custom InvalidBurnSignerSignature)) (\<lambda>recovered_signer.
     require (is_burn_signer w recovered_signer) (Custom BurnSignerNotAuthorized)))"

definition burn_token ::
    "platform \<Rightarrow> transaction \<Rightarrow> pubkey \<Rightarrow> pubkey \<Rightarrow> pubkey \<Rightarrow> u8 \<Rightarrow> u64 \<Rightarrow> ledger \<Rightarrow> ledger wallet_result" where
  "burn_token pf tx mint custody_account authority authority_bump amount l =
     token_burn pf WALLET_PROGRAM_ID tx (Some [GATEWAY_WALLET_SEED, [authority_bump]])
       mint custody_account authority amount l"

section \<open>verify_user_signature\<close>

definition BURN_DATA_OFFSET :: nat where "BURN_DATA_OFFSET = DISCRIMINATOR_SIZE + 4"

definition u16_of :: "nat \<Rightarrow> u16" where "u16_of n = word_of_nat n"

text \<open>The instructions sysvar: the current index, and the instruction before the current one.\<close>

definition previous_instruction :: "transaction \<Rightarrow> (pubkey \<times> bytes) wallet_result" where
  "previous_instruction tx =
     (if unat (tx_index tx) - 1 < length (tx_instructions tx)
      then Inr (tx_instructions tx ! (unat (tx_index tx) - 1)) else Inl (Runtime SysvarError))"

text \<open>
  The nine field tests are one \<open>&&\<close> chain in the code; the header has its sixteen bytes by then, so
  every read succeeds and their order does not matter.
\<close>

definition verify_user_signature :: "transaction \<Rightarrow> nat \<Rightarrow> unit wallet_result" where
  "verify_user_signature tx message_length =
     and_then (require (65535 \<ge> message_length) (Custom MalformedBurnData)) (\<lambda>_.
     let current_instruction_index = tx_index tx in
     and_then (require (current_instruction_index > 0)
                (Custom PreviousInstructionNotEd25519Program)) (\<lambda>_.
     and_then (previous_instruction tx) (\<lambda>(program_id, ix_data).
     and_then (require (program_id = ED25519_PROGRAM_ID)
                (Custom PreviousInstructionNotEd25519Program)) (\<lambda>_.
     and_then (ed_new ix_data) (\<lambda>data.
     and_then (num_signatures data) (\<lambda>n.
     and_then (padding data) (\<lambda>p.
     and_then (signature_offset data) (\<lambda>so.
     and_then (signature_instruction_index data) (\<lambda>si.
     and_then (public_key_offset data) (\<lambda>ko.
     and_then (public_key_instruction_index data) (\<lambda>ki.
     and_then (message_data_offset data) (\<lambda>mo.
     and_then (message_data_size data) (\<lambda>ms.
     and_then (message_instruction_index data) (\<lambda>mi.
     require
       (n = 1 \<and> p = 0 \<and> so = u16_of (BURN_DATA_OFFSET + BURN_DATA_USER_SIGNATURE_OFFSET) \<and>
        si = current_instruction_index \<and> ko = u16_of (BURN_DATA_OFFSET + TS_SOURCE_SIGNER_OFFSET) \<and>
        ki = current_instruction_index \<and>
        mo = u16_of (BURN_DATA_OFFSET + BURN_INTENT_MESSAGE_PREFIX_OFFSET) \<and>
        ms = u16_of message_length \<and> mi = current_instruction_index)
       (Custom InvalidEd25519InstructionData)))))))))))))))"

section \<open>gateway_burn\<close>

record GatewayBurnContext =
  gb_payer :: pubkey
  gb_gateway_wallet :: pubkey
  gb_token_mint :: pubkey
  gb_custody_token_account :: pubkey
  gb_fee_recipient_token_account :: pubkey
  gb_deposit :: pubkey
  gb_delegate_account :: pubkey
  gb_instructions_sysvar :: pubkey
  gb_system_program :: pubkey
  gb_token_program :: pubkey
  gb_associated_token_program :: pubkey
  gb_remaining_accounts :: "pubkey list"

record GatewayBurnParams =
  encoded_burn_data :: bytes
  burn_signature :: bytes

text \<open>An optional account is passed as the program's own id when absent.\<close>

definition load_optional_delegate :: "ledger \<Rightarrow> pubkey \<Rightarrow> GatewayDelegate option wallet_result" where
  "load_optional_delegate l k =
     (if k = WALLET_PROGRAM_ID then Inr None else and_then (load_delegate l k) (\<lambda>g. Inr (Some g)))"

text \<open>\<open>associated_token::mint, authority, token_program\<close>.\<close>

definition check_associated_token ::
    "platform \<Rightarrow> ledger \<Rightarrow> pubkey \<Rightarrow> TokenAccount \<Rightarrow> pubkey \<Rightarrow> pubkey \<Rightarrow> unit wallet_result" where
  "check_associated_token pf l k t wallet mint =
     and_then (require (acc_owner (l k) = TOKEN_PROGRAM_ID)
                (Anchor ConstraintAssociatedTokenTokenProgram)) (\<lambda>_.
     and_then (check_token_owner t wallet) (\<lambda>_.
     and_then (get_associated_token_address pf wallet mint) (\<lambda>address.
     require (k = address) (Anchor ConstraintAssociated))))"

definition check_delegate_pda ::
    "platform \<Rightarrow> pubkey \<Rightarrow> pubkey \<Rightarrow> GatewayDelegate option \<Rightarrow> unit wallet_result" where
  "check_delegate_pda pf k mint delegate_account =
     (case delegate_account of
        None \<Rightarrow> Inr ()
      | Some g \<Rightarrow> check_seeds_bump pf WALLET_PROGRAM_ID k
                   [GATEWAY_DELEGATE_SEED, mint, del_depositor g, del_delegate g] (del_bump g))"

definition gateway_burn_accounts ::
    "platform \<Rightarrow> transaction \<Rightarrow> GatewayBurnContext \<Rightarrow> ledger \<Rightarrow>
     (GatewayWallet \<times> TokenAccount \<times> GatewayDeposit \<times> GatewayDelegate option) wallet_result" where
  "gateway_burn_accounts pf tx c l =
     and_then (load_signer tx (gb_payer c)) (\<lambda>_.
     and_then (load_wallet l (gb_gateway_wallet c)) (\<lambda>gateway_wallet.
     and_then (load_mint l (gb_token_mint c)) (\<lambda>_.
     and_then (load_token l (gb_custody_token_account c)) (\<lambda>custody_token_account.
     and_then (load_token l (gb_fee_recipient_token_account c)) (\<lambda>fee_recipient_token_account.
     and_then (load_deposit l (gb_deposit c)) (\<lambda>deposit.
     and_then (load_optional_delegate l (gb_delegate_account c)) (\<lambda>delegate_account.
     and_then (load_program (gb_system_program c) SYSTEM_PROGRAM_ID) (\<lambda>_.
     and_then (load_program (gb_token_program c) TOKEN_PROGRAM_ID) (\<lambda>_.
     and_then (load_program (gb_associated_token_program c) ASSOCIATED_TOKEN_PROGRAM_ID) (\<lambda>_.
     and_then (check_mut tx (gb_payer c)) (\<lambda>_.
     and_then (check_wallet_pda pf (gb_gateway_wallet c) gateway_wallet) (\<lambda>_.
     and_then (check_not_paused gateway_wallet) (\<lambda>_.
     and_then (check_mut tx (gb_token_mint c)) (\<lambda>_.
     and_then (check_custody_pda pf gateway_wallet (gb_token_mint c) (gb_custody_token_account c)) (\<lambda>_.
     and_then (check_mut tx (gb_custody_token_account c)) (\<lambda>_.
     and_then (check_token_owner custody_token_account (gb_gateway_wallet c)) (\<lambda>_.
     and_then (check_token_mint custody_token_account (gb_token_mint c)) (\<lambda>_.
     and_then (check_associated_token pf l (gb_fee_recipient_token_account c)
                 fee_recipient_token_account (gw_fee_recipient gateway_wallet) (gb_token_mint c)) (\<lambda>_.
     and_then (check_mut tx (gb_fee_recipient_token_account c)) (\<lambda>_.
     and_then (check_seeds_bump pf WALLET_PROGRAM_ID (gb_deposit c)
                 [GATEWAY_DEPOSIT_SEED, gb_token_mint c, dep_depositor deposit] (dep_bump deposit)) (\<lambda>_.
     and_then (check_mut tx (gb_deposit c)) (\<lambda>_.
     and_then (check_delegate_pda pf (gb_delegate_account c) (gb_token_mint c) delegate_account) (\<lambda>_.
     and_then (require (gb_instructions_sysvar c = INSTRUCTIONS_SYSVAR_ID)
                (Anchor ConstraintAddress)) (\<lambda>_.
     Inr (gateway_wallet, custody_token_account, deposit, delegate_account)))))))))))))))))))))))))"

text \<open>The handler's checks of the message, up to the fee and the custody balance.\<close>

definition check_burn_intent ::
    "transaction \<Rightarrow> GatewayBurnContext \<Rightarrow> GatewayWallet \<Rightarrow> TokenAccount \<Rightarrow> GatewayDeposit \<Rightarrow>
     GatewayDelegate option \<Rightarrow> BurnData \<Rightarrow> (u64 \<times> u64) wallet_result" where
  "check_burn_intent tx c gateway_wallet custody_token_account dep delegate_account burn_data =
     and_then (bd_version burn_data) (\<lambda>intent_version.
     and_then (require (intent_version = gw_version gateway_wallet)
                (Custom GatewayWalletError.VersionMismatch)) (\<lambda>_.
     and_then (bd_max_block_height burn_data) (\<lambda>max_block_height.
     and_then (require (max_block_height \<ge> tx_slot tx) (Custom BurnIntentExpired)) (\<lambda>_.
     and_then (source_domain burn_data) (\<lambda>domain.
     and_then (require (domain = gw_local_domain gateway_wallet) (Custom SourceDomainMismatch)) (\<lambda>_.
     and_then (source_contract burn_data) (\<lambda>contract.
     and_then (require (contract = WALLET_PROGRAM_ID) (Custom SourceContractMismatch)) (\<lambda>_.
     and_then (source_token burn_data) (\<lambda>token.
     and_then (require (token = gb_token_mint c) (Custom SourceTokenMismatch)) (\<lambda>_.
     and_then (source_depositor burn_data) (\<lambda>depositor.
     and_then (require (depositor = dep_depositor dep) (Custom SourceDepositorMismatch)) (\<lambda>_.
     and_then (source_signer burn_data) (\<lambda>signer.
     and_then (validate_signer_authorization signer depositor delegate_account) (\<lambda>_.
     and_then (bd_max_fee burn_data) (\<lambda>max_fee.
     and_then (bd_fee burn_data) (\<lambda>fee.
     and_then (require (max_fee \<ge> fee) (Custom BurnFeeExceedsMaxFee)) (\<lambda>_.
     and_then (bd_value burn_data) (\<lambda>value.
     and_then (add_u64 value fee) (\<lambda>total.
     and_then (require (ta_amount custody_token_account \<ge> total)
                (Custom InsufficientCustodyBalance)) (\<lambda>_.
     Inr (value, fee)))))))))))))))))))))"

text \<open>The marker of the transfer spec hash: its address, that it is unused, and its creation.\<close>

definition mark_burn_hash ::
    "platform \<Rightarrow> transaction \<Rightarrow> GatewayBurnContext \<Rightarrow> bytes \<Rightarrow> ledger \<Rightarrow> ledger wallet_result" where
  "mark_burn_hash pf tx c transfer_spec_hash l =
     and_then (index_checked (gb_remaining_accounts c) 0) (\<lambda>hash_account.
     and_then (find_program_address pf [USED_TRANSFER_SPEC_HASH_SEED_PREFIX, transfer_spec_hash]
                 WALLET_PROGRAM_ID) (\<lambda>(expected_pda, bump).
     and_then (require (expected_pda = hash_account)
                (Custom GatewayWalletError.InvalidTransferSpecHashAccount)) (\<lambda>_.
     and_then (require (\<not> is_transfer_spec_hash_used (acc_data (l hash_account)) WALLET_USED_MARKER)
                (Custom GatewayWalletError.TransferSpecHashAlreadyUsed)) (\<lambda>_.
     create_used_transfer_spec_hash_account pf tx hash_account transfer_spec_hash bump (gb_payer c)
       WALLET_PROGRAM_ID WALLET_USED_MARKER l))))"

text \<open>The fee transfer, skipped when no fee is charged.\<close>

definition pay_fee ::
    "platform \<Rightarrow> transaction \<Rightarrow> GatewayBurnContext \<Rightarrow> GatewayWallet \<Rightarrow> u64 \<Rightarrow> ledger \<Rightarrow> ledger wallet_result"
where
  "pay_fee pf tx c gateway_wallet actual_fee_charged l =
     (if actual_fee_charged > 0
      then token_transfer pf WALLET_PROGRAM_ID tx (Some [GATEWAY_WALLET_SEED, [gw_bump gateway_wallet]])
             (gb_custody_token_account c) (gb_fee_recipient_token_account c) (gb_gateway_wallet c)
             actual_fee_charged l
      else Inr l)"

definition gateway_burn ::
    "platform \<Rightarrow> transaction \<Rightarrow> GatewayBurnContext \<Rightarrow> GatewayBurnParams \<Rightarrow> ledger \<Rightarrow> wallet_outcome" where
  "gateway_burn pf tx c params l =
     and_then (gateway_burn_accounts pf tx c l)
       (\<lambda>(gateway_wallet, custody_token_account, deposit, delegate_account).
     let encoded_data_hash = keccak256 pf (encoded_burn_data params);
         eth_signed_hash = ethereum_signed_message_hash pf encoded_data_hash in
     and_then (verify_burn_signature pf gateway_wallet eth_signed_hash (burn_signature params)) (\<lambda>_.
     and_then (burn_data_new (encoded_burn_data params)) (\<lambda>burn_data.
     and_then (burn_intent_message_length burn_data) (\<lambda>message_length.
     and_then (verify_user_signature tx message_length) (\<lambda>_.
     and_then (check_burn_intent tx c gateway_wallet custody_token_account deposit delegate_account
                 burn_data) (\<lambda>(value, fee).
     and_then (require (length (gb_remaining_accounts c) = 1)
                (Custom GatewayWalletError.RemainingAccountsLengthMismatch)) (\<lambda>_.
     and_then (bd_transfer_spec_hash pf burn_data) (\<lambda>transfer_spec_hash.
     and_then (mark_burn_hash pf tx c transfer_spec_hash l) (\<lambda>l.
     and_then (add_u64 value fee) (\<lambda>total.
     and_then (reduce_balance deposit total) (\<lambda>(deposit, from_available, from_withdrawing).
     and_then (add_u64 from_available from_withdrawing) (\<lambda>deducted_amount.
     let shortage = (if deducted_amount < total
           then [InsufficientBalance (gb_token_mint c) (dep_depositor deposit) total
                   from_available from_withdrawing] else []);
         actual_fee_charged = saturating_sub_u64 deducted_amount value in
     and_then (pay_fee pf tx c gateway_wallet actual_fee_charged l) (\<lambda>l.
     and_then (sub_u64 deducted_amount actual_fee_charged) (\<lambda>burn_amount.
     and_then (burn_token pf tx (gb_token_mint c) (gb_custody_token_account c) (gb_gateway_wallet c)
                 (gw_bump gateway_wallet) burn_amount l) (\<lambda>l.
     and_then (bd_destination_domain burn_data) (\<lambda>destination_domain.
     and_then (bd_destination_recipient burn_data) (\<lambda>destination_recipient.
     and_then (source_signer burn_data) (\<lambda>signer.
     and_then (exit_deposit (gb_deposit c) deposit l) (\<lambda>l.
     Inr (l, shortage @ [GatewayBurned (gb_token_mint c) (dep_depositor deposit) transfer_spec_hash
            destination_domain destination_recipient signer burn_amount actual_fee_charged
            from_available from_withdrawing]))))))))))))))))))))"

section \<open>What the checks establish\<close>

lemma gateway_burn_accounts_Inr:
  assumes "gateway_burn_accounts pf tx c l = Inr (w, ct, d, dlg)"
  shows "wallet_running pf l (gb_gateway_wallet c) w"
    "custody_of pf l (gb_gateway_wallet c) w (gb_token_mint c) (gb_custody_token_account c)"
    "tok_at l (gb_custody_token_account c) = Some ct" "deposit_at l (gb_deposit c) = Some d"
    "create_program_address pf [GATEWAY_DEPOSIT_SEED, gb_token_mint c, dep_depositor d, [dep_bump d]]
      WALLET_PROGRAM_ID = Inr (gb_deposit c)"
    "\<exists>t. tok_at l (gb_fee_recipient_token_account c) = Some t \<and> ta_owner t = gw_fee_recipient w"
    "dlg = None \<or> (\<exists>g. dlg = Some g \<and> delegate_at l (gb_delegate_account c) = Some g \<and>
       create_program_address pf [GATEWAY_DELEGATE_SEED, gb_token_mint c, del_depositor g, del_delegate g,
         [del_bump g]] WALLET_PROGRAM_ID = Inr (gb_delegate_account c))"
  using assms unfolding gateway_burn_accounts_def
  by (auto simp: and_then_eq_Inr load_typed check_wallet_Inr check_seeds_bump_Inr check_token_Inr
      load_optional_delegate_def check_delegate_pda_def check_associated_token_def
      wallet_running_def custody_of_def split: if_splits)

lemma verify_burn_signature_Inr [result_simps]:
  "verify_burn_signature pf w h sig = Inr u \<longleftrightarrow>
     (\<exists>signer. recover_evm_signer pf h sig = Inr signer \<and> signer \<in> set (gw_burn_signers w))"
  by (auto simp: verify_burn_signature_def and_then_eq_Inr require_eq_Inr map_err_eq_Inr
      is_burn_signer_def BURN_SIGNATURE_LENGTH_def recover_evm_signer_Inr)

text \<open>The precompile's header is pinned down byte by byte.\<close>

definition expected_ed_header :: "transaction \<Rightarrow> nat \<Rightarrow> bytes" where
  "expected_ed_header tx message_length =
     ed_header (u16_of (BURN_DATA_OFFSET + BURN_DATA_USER_SIGNATURE_OFFSET))
       (u16_of (BURN_DATA_OFFSET + TS_SOURCE_SIGNER_OFFSET))
       (u16_of (BURN_DATA_OFFSET + BURN_INTENT_MESSAGE_PREFIX_OFFSET))
       (u16_of message_length) (tx_index tx)"

lemma verify_user_signature_Inr:
  "verify_user_signature tx n = Inr u \<longleftrightarrow>
     n \<le> 65535 \<and> 0 < tx_index tx \<and> unat (tx_index tx) - 1 < length (tx_instructions tx) \<and>
     tx_instructions tx ! (unat (tx_index tx) - 1) = (ED25519_PROGRAM_ID, expected_ed_header tx n)"
proof (cases "n \<le> 65535 \<and> 0 < tx_index tx \<and> unat (tx_index tx) - 1 < length (tx_instructions tx)")
  case True
  obtain p bs where pb: "tx_instructions tx ! (unat (tx_index tx) - 1) = (p, bs)" by (cases "tx_instructions tx ! (unat (tx_index tx) - 1)")
  have prev: "previous_instruction tx = Inr (p, bs)" using True pb by (simp add: previous_instruction_def)
  show ?thesis
  proof (cases "length bs = 16")
    case len: True
    show ?thesis
      using True pb
      unfolding verify_user_signature_def prev Let_def and_then_Inr case_prod_conv expected_ed_header_def
      by (auto simp: ed_reads [OF len] ed_header_unique [OF len] and_then_eq_Inr require_eq_Inr)
  next
    case False
    then have "bs \<noteq> expected_ed_header tx n" by (auto simp: expected_ed_header_def)
    with False True pb show ?thesis
      unfolding verify_user_signature_def prev Let_def and_then_Inr case_prod_conv
      by (auto simp: and_then_eq_Inr require_eq_Inr ed_new_def HEADER_SIZE_def)
  qed
next
  case False
  then show ?thesis
    by (auto simp: verify_user_signature_def previous_instruction_def and_then_eq_Inr require_eq_Inr Let_def
        split: if_splits)
qed

lemma check_burn_intent_Inr:
  assumes "length bs < 2 ^ 64" "500 \<le> length bs"
    and "check_burn_intent tx c w ct d dlg bs = Inr (value, fee)"
  shows "bm_version (burn_message_at bs) = gw_version w" "narrow_fields bs"
    "tx_slot tx \<le> bm_max_block_height (burn_message_at bs)"
    "bm_source_domain (burn_message_at bs) = gw_local_domain w"
    "bm_source_contract (burn_message_at bs) = WALLET_PROGRAM_ID"
    "bm_source_token (burn_message_at bs) = gb_token_mint c"
    "bm_source_depositor (burn_message_at bs) = dep_depositor d"
    "validate_signer_authorization (bm_source_signer (burn_message_at bs)) (dep_depositor d) dlg = Inr ()"
    "fee \<le> bm_max_fee (burn_message_at bs)" "fee = bm_fee (burn_message_at bs)"
    "value = bm_value (burn_message_at bs)" "unat value + unat fee < 2 ^ 64"
    "unat value + unat fee \<le> unat (ta_amount ct)"
  using assms(3) burn_accessors [OF assms(1,2)] burn_wide_accessors [OF assms(1,2)]
  by (auto simp: check_burn_intent_def and_then_eq_Inr require_eq_Inr add_u64_eq_Inr narrow_fields_def
      u64_le_iff unat_add_u64)

lemma mark_burn_hash_made:
  assumes ok: "system_program_ok pf" and run: "mark_burn_hash pf tx c h l = Inr l'"
  shows "\<exists>k b. gb_remaining_accounts c ! 0 = k \<and>
    try_bumps pf [USED_TRANSFER_SPEC_HASH_SEED_PREFIX, h] WALLET_PROGRAM_ID 255 = Some (k, b) \<and>
    \<not> is_transfer_spec_hash_used (acc_data (l k)) WALLET_USED_MARKER \<and>
    account_made l k WALLET_PROGRAM_ID (Raw WALLET_USED_MARKER) l'"
  using run create_marker_made [OF ok]
  by (fastforce simp: mark_burn_hash_def and_then_eq_Inr require_eq_Inr index_checked_eq_Inr
      find_program_address_Inr)

section \<open>The effect of a burn\<close>

text \<open>
  The four ledger steps of a burn and the split of the deducted amount: the marker is made, the fee (if
  any) leaves custody, the rest is burned from custody, the deposit record is written back.
\<close>

definition burn_settled ::
    "ledger \<Rightarrow> GatewayBurnContext \<Rightarrow> pubkey \<Rightarrow> u64 \<Rightarrow> u64 \<Rightarrow> GatewayDeposit \<Rightarrow> GatewayDeposit \<Rightarrow>
     u64 \<Rightarrow> u64 \<Rightarrow> ledger \<Rightarrow> bool" where
  "burn_settled l c hash_key burn_amount charged d d' from_available from_withdrawing l' \<longleftrightarrow>
     (\<exists>l1 l2 l3.
        account_made l hash_key WALLET_PROGRAM_ID (Raw WALLET_USED_MARKER) l1 \<and>
        (if charged > 0
         then transferred l1 (gb_custody_token_account c) (gb_fee_recipient_token_account c)
                (gb_gateway_wallet c) charged l2
         else l2 = l1) \<and>
        burned l2 (gb_custody_token_account c) (gb_token_mint c) (gb_gateway_wallet c) burn_amount l3 \<and>
        deposit_rewritten l3 (gb_deposit c) d d' l') \<and>
     unat burn_amount + unat charged = unat from_available + unat from_withdrawing"

text \<open>Everything a successful burn has checked, and what it did.\<close>

definition burn_executed ::
    "platform \<Rightarrow> transaction \<Rightarrow> GatewayBurnContext \<Rightarrow> GatewayBurnParams \<Rightarrow> ledger \<Rightarrow> GatewayWallet \<Rightarrow>
     GatewayDeposit \<Rightarrow> GatewayDeposit \<Rightarrow> pubkey \<Rightarrow> u64 \<Rightarrow> u64 \<Rightarrow> WalletEvent list \<Rightarrow> ledger \<Rightarrow> bool" where
  "burn_executed pf tx c params l w d d' hash_key burn_amount charged es l' \<longleftrightarrow>
    (let bs = encoded_burn_data params; m = burn_message_at bs; h = keccak256 pf (drop 160 bs) in
     wallet_running pf l (gb_gateway_wallet c) w \<and>
     custody_of pf l (gb_gateway_wallet c) w (gb_token_mint c) (gb_custody_token_account c) \<and>
     deposit_at l (gb_deposit c) = Some d \<and>
     create_program_address pf [GATEWAY_DEPOSIT_SEED, gb_token_mint c, dep_depositor d, [dep_bump d]]
       WALLET_PROGRAM_ID = Inr (gb_deposit c) \<and>
     (\<exists>signer. recover_evm_signer pf (ethereum_signed_message_hash pf (keccak256 pf bs)) (burn_signature params)
        = Inr signer \<and> signer \<in> set (gw_burn_signers w)) \<and>
     burn_data_new bs = Inr bs \<and> verify_user_signature tx (length bs - 72) = Inr () \<and>
     bm_version m = gw_version w \<and> tx_slot tx \<le> bm_max_block_height m \<and>
     bm_source_domain m = gw_local_domain w \<and> bm_source_contract m = WALLET_PROGRAM_ID \<and>
     bm_source_token m = gb_token_mint c \<and> bm_source_depositor m = dep_depositor d \<and>
     (bm_source_signer m = bm_source_depositor m \<or>
      (\<exists>g. delegate_at l (gb_delegate_account c) = Some g \<and> del_depositor g = bm_source_depositor m \<and>
           del_delegate g = bm_source_signer m \<and> del_status g \<noteq> Unauthorized)) \<and>
     bm_fee m \<le> bm_max_fee m \<and> unat (bm_value m) + unat (bm_fee m) < 2 ^ 64 \<and>
     (\<exists>b. try_bumps pf [USED_TRANSFER_SPEC_HASH_SEED_PREFIX, h] WALLET_PROGRAM_ID 255 = Some (hash_key, b)) \<and>
     \<not> is_transfer_spec_hash_used (acc_data (l hash_key)) WALLET_USED_MARKER \<and>
     unat burn_amount = min (unat (bm_value m)) (dep_total d) \<and>
     unat charged = min (unat (bm_fee m)) (dep_total d - unat (bm_value m)) \<and>
     (\<exists>fa fw. reduce_balance d (bm_value m + bm_fee m) = Inr (d', fa, fw) \<and>
        burn_settled l c hash_key burn_amount charged d d' fa fw l' \<and>
        es = (if unat fa + unat fw < unat (bm_value m) + unat (bm_fee m)
              then [InsufficientBalance (gb_token_mint c) (dep_depositor d) (bm_value m + bm_fee m) fa fw]
              else []) @
          [GatewayBurned (gb_token_mint c) (dep_depositor d) h (bm_destination_domain m)
             (bm_destination_recipient m) (bm_source_signer m) burn_amount charged fa fw]))"

lemma gateway_burn_run:
  assumes "gateway_burn pf tx c params l = Inr (l', es)"
  obtains w ct d dlg bs n amt fee h l1 d' fa fw l2 l3 dd dr sg where
    "gateway_burn_accounts pf tx c l = Inr (w, ct, d, dlg)"
    "verify_burn_signature pf w (ethereum_signed_message_hash pf (keccak256 pf (encoded_burn_data params)))
       (burn_signature params) = Inr ()"
    "burn_data_new (encoded_burn_data params) = Inr bs" "burn_intent_message_length bs = Inr n"
    "verify_user_signature tx n = Inr ()"
    "check_burn_intent tx c w ct d dlg bs = Inr (amt, fee)"
    "bd_transfer_spec_hash pf bs = Inr h" "mark_burn_hash pf tx c h l = Inr l1"
    "unat amt + unat fee < 2 ^ 64" "reduce_balance d (amt + fee) = Inr (d', fa, fw)"
    "unat fa + unat fw < 2 ^ 64"
    "pay_fee pf tx c w (saturating_sub_u64 (fa + fw) amt) l1 = Inr l2"
    "saturating_sub_u64 (fa + fw) amt \<le> fa + fw"
    "burn_token pf tx (gb_token_mint c) (gb_custody_token_account c) (gb_gateway_wallet c) (gw_bump w)
       (fa + fw - saturating_sub_u64 (fa + fw) amt) l2 = Inr l3"
    "bd_destination_domain bs = Inr dd" "bd_destination_recipient bs = Inr dr" "source_signer bs = Inr sg"
    "exit_deposit (gb_deposit c) d' l3 = (Inr l' :: ledger wallet_result)"
    "es = (if fa + fw < amt + fee
           then [InsufficientBalance (gb_token_mint c) (dep_depositor d') (amt + fee) fa fw] else []) @
       [GatewayBurned (gb_token_mint c) (dep_depositor d') h dd dr sg
          (fa + fw - saturating_sub_u64 (fa + fw) amt) (saturating_sub_u64 (fa + fw) amt) fa fw]"
proof -
  from assms show thesis
    unfolding gateway_burn_def Let_def
    by (simp only: and_then_eq_Inr case_prod_conv prod.inject sum.inject split_paired_Ex require_eq_Inr
        add_u64_eq_Inr sub_u64_eq_Inr) (elim exE conjE, rule that, assumption+, auto)
qed

text \<open>How the deducted amount splits.\<close>

lemma burn_split:
  assumes red: "reduce_balance d (amt + fee) = Inr (d', fa, fw)"
    and bounds: "unat amt + unat fee < 2 ^ 64" "unat fa + unat fw < 2 ^ 64"
  defines "charged \<equiv> saturating_sub_u64 (fa + fw) amt"
  shows "unat charged = min (unat fee) (dep_total d - unat amt)"
    "unat (fa + fw - charged) = min (unat amt) (dep_total d)"
    "unat (fa + fw - charged) + unat charged = unat fa + unat fw"
proof -
  have total: "unat fa + unat fw = min (unat amt + unat fee) (dep_total d)"
    using reduce_balance_total(1) [OF red] bounds by (simp add: unat_add_u64)
  have c: "unat charged = unat fa + unat fw - unat amt"
    using bounds by (simp add: charged_def unat_saturating_sub_u64 unat_add_u64)
  then have "charged \<le> fa + fw" using bounds by (simp add: u64_le_iff unat_add_u64)
  then have b: "unat (fa + fw - charged) = unat fa + unat fw - unat charged"
    using bounds by (simp add: unat_sub_u64 unat_add_u64)
  show "unat charged = min (unat fee) (dep_total d - unat amt)"
    "unat (fa + fw - charged) = min (unat amt) (dep_total d)"
    "unat (fa + fw - charged) + unat charged = unat fa + unat fw"
    using total b c by linarith+
qed

lemma gateway_burn_effect:
  assumes ok: "system_program_ok pf" and len: "length (encoded_burn_data params) < 2 ^ 64"
    and run: "gateway_burn pf tx c params l = Inr (l', es)"
  shows "\<exists>w d d' hash_key burn_amount charged.
    burn_executed pf tx c params l w d d' hash_key burn_amount charged es l'"
  using run
proof (rule gateway_burn_run)
  fix w ct d dlg bs n amt fee h l1 d' fa fw l2 l3 dd dr sg
  let ?total = "amt + fee" and ?charged = "saturating_sub_u64 (fa + fw) amt"
  assume acc: "gateway_burn_accounts pf tx c l = Inr (w, ct, d, dlg)"
    and sig: "verify_burn_signature pf w (ethereum_signed_message_hash pf (keccak256 pf (encoded_burn_data params)))
       (burn_signature params) = Inr ()"
    and new: "burn_data_new (encoded_burn_data params) = Inr bs"
    and n: "burn_intent_message_length bs = Inr n" and user: "verify_user_signature tx n = Inr ()"
    and intent: "check_burn_intent tx c w ct d dlg bs = Inr (amt, fee)"
    and h: "bd_transfer_spec_hash pf bs = Inr h" and mark: "mark_burn_hash pf tx c h l = Inr l1"
    and bound: "unat amt + unat fee < 2 ^ 64" and red: "reduce_balance d ?total = Inr (d', fa, fw)"
    and bound': "unat fa + unat fw < 2 ^ 64" and pay: "pay_fee pf tx c w ?charged l1 = Inr l2"
    and burn: "burn_token pf tx (gb_token_mint c) (gb_custody_token_account c) (gb_gateway_wallet c) (gw_bump w)
       (fa + fw - ?charged) l2 = Inr l3"
    and out: "bd_destination_domain bs = Inr dd" "bd_destination_recipient bs = Inr dr" "source_signer bs = Inr sg"
    and ex: "exit_deposit (gb_deposit c) d' l3 = (Inr l' :: ledger wallet_result)"
    and es: "es = (if fa + fw < ?total
           then [InsufficientBalance (gb_token_mint c) (dep_depositor d') ?total fa fw] else []) @
       [GatewayBurned (gb_token_mint c) (dep_depositor d') h dd dr sg (fa + fw - ?charged) ?charged fa fw]"
  note new' = burn_data_newD [OF len new]
  note a = gateway_burn_accounts_Inr [OF acc]
  have bs: "bs = encoded_burn_data params" "length bs < 2 ^ 64" "500 \<le> length bs" using new' len by simp_all
  note i = check_burn_intent_Inr [OF bs(2,3) intent]
  have hash: "h = keccak256 pf (drop 160 bs)"
    using burn_data_spec_hash(2) [OF len new, of pf] h by (simp add: bs(1))
  from mark_burn_hash_made [OF ok mark] obtain k b where
    k: "try_bumps pf [USED_TRANSFER_SPEC_HASH_SEED_PREFIX, h] WALLET_PROGRAM_ID 255 = Some (k, b)"
      "\<not> is_transfer_spec_hash_used (acc_data (l k)) WALLET_USED_MARKER"
      "account_made l k WALLET_PROGRAM_ID (Raw WALLET_USED_MARKER) l1" by blast
  have dd: "dep_depositor d' = dep_depositor d"
    using reduce_balance_amounts(6) [OF red] by (simp add: same_deposit_owner_def)
  have fee_step: "if ?charged > 0 then transferred l1 (gb_custody_token_account c)
      (gb_fee_recipient_token_account c) (gb_gateway_wallet c) ?charged l2 else l2 = l1"
    using pay by (auto simp: pay_fee_def intro: token_transfer_transferred split: if_splits)
  have burn_step: "burned l2 (gb_custody_token_account c) (gb_token_mint c) (gb_gateway_wallet c)
      (fa + fw - ?charged) l3"
    using burn by (auto simp: burn_token_def intro: token_burn_burned)
  have "deposit_at l1 (gb_deposit c) = Some d"
  proof -
    have "gb_deposit c \<noteq> k" using a(4) k(3) by (auto simp: account_made_def typed_def split: if_splits)
    then have "deposit_at l1 (gb_deposit c) = deposit_at l (gb_deposit c)"
      by (intro typed_untouched [OF untouched_made [OF k(3)]]) simp
    then show ?thesis using a(4) by simp
  qed
  moreover have "only_tokens_moved l1 l3"
    using fee_step burned_only_tokens [OF burn_step]
    by (auto intro: only_tokens_moved_trans transferred_only_tokens split: if_splits)
  then have "deposit_at l3 = deposit_at l1" by (rule typed_only_tokens) simp
  ultimately have "deposit_at l3 (gb_deposit c) = Some d" by simp
  note rew = deposit_rewrittenI [OF this ex]
  note split = burn_split [OF red bound bound']
  have settled: "burn_settled l c k (fa + fw - ?charged) ?charged d d' fa fw l'"
    unfolding burn_settled_def using k(3) fee_step burn_step rew split(3) by blast
  have es': "es = (if unat fa + unat fw < unat (bm_value (burn_message_at bs)) + unat (bm_fee (burn_message_at bs))
      then [InsufficientBalance (gb_token_mint c) (dep_depositor d)
              (bm_value (burn_message_at bs) + bm_fee (burn_message_at bs)) fa fw] else []) @
      [GatewayBurned (gb_token_mint c) (dep_depositor d) h (bm_destination_domain (burn_message_at bs))
        (bm_destination_recipient (burn_message_at bs)) (bm_source_signer (burn_message_at bs))
        (fa + fw - ?charged) ?charged fa fw]"
    using es out burn_accessors [OF bs(2,3)] i(10,11) bound bound'
    by (simp add: dd u64_less_iff unat_add_u64)
  have user': "verify_user_signature tx (length bs - 72) = Inr ()"
    using n user by (simp add: burn_intent_message_length_def usize_Inr burn_offset_defs)
  have auth: "bm_source_signer (burn_message_at bs) = bm_source_depositor (burn_message_at bs) \<or>
      (\<exists>g. delegate_at l (gb_delegate_account c) = Some g \<and>
         del_depositor g = bm_source_depositor (burn_message_at bs) \<and>
         del_delegate g = bm_source_signer (burn_message_at bs) \<and> del_status g \<noteq> Unauthorized)"
    using i(7,8) a(7) by (auto simp: validate_signer_authorization_Inr)
  have "burn_executed pf tx c params l w d d' k (fa + fw - ?charged) ?charged es l'"
    unfolding burn_executed_def Let_def bs(1) [symmetric]
    using a(1,2,4,5) sig new i(1-7,9-12) k(1,2) hash auth user' settled es' red split(1,2)
    by (auto simp: verify_burn_signature_Inr bs(1))
  then show ?thesis by blast
qed

text \<open>What a settled burn leaves behind, account by account.\<close>

lemma burn_settled_views:
  assumes "burn_settled l c k burn_amount charged d d' fa fw l'"
  shows "deposit_at l' = (deposit_at l)(gb_deposit c \<mapsto> d')" "deposit_at l (gb_deposit c) = Some d"
    "wallet_at l' = wallet_at l" "delegate_at l' = delegate_at l"
    "touches l {k, gb_deposit c} l'" "fresh l k" "k \<noteq> gb_deposit c"
    "acc_owner (l' k) = WALLET_PROGRAM_ID" "acc_data (l' k) = Raw WALLET_USED_MARKER"
    "acc_owner (l' (gb_deposit c)) = WALLET_PROGRAM_ID"
    "tok_at l j = Some t \<Longrightarrow> \<exists>t'. tok_at l' j = Some t' \<and> same_account_identity t t'"
proof -
  from assms obtain l1 l2 l3 where
    made: "account_made l k WALLET_PROGRAM_ID (Raw WALLET_USED_MARKER) l1"
    and fee: "if charged > 0
         then transferred l1 (gb_custody_token_account c) (gb_fee_recipient_token_account c)
                (gb_gateway_wallet c) charged l2 else l2 = l1"
    and burn: "burned l2 (gb_custody_token_account c) (gb_token_mint c) (gb_gateway_wallet c) burn_amount l3"
    and rew: "deposit_rewritten l3 (gb_deposit c) d d' l'"
    unfolding burn_settled_def by blast
  have moved: "only_tokens_moved l1 l3"
    using fee burned_only_tokens [OF burn]
    by (auto intro: only_tokens_moved_trans transferred_only_tokens split: if_splits)
  show fr: "fresh l k" using made by (simp add: account_made_def fresh_def)
  have v1: "typed p f l1 = typed p f l" if "p \<noteq> SYSTEM_PROGRAM_ID" "f (Raw WALLET_USED_MARKER) = None" for p f
  proof
    fix j
    show "typed p f l1 j = typed p f l j"
      using made that typed_untouched [OF untouched_made [OF made], of j p f]
      by (cases "j = k") (auto simp: account_made_def typed_def)
  qed
  have v3: "typed p f l3 = typed p f l1" if "p \<noteq> TOKEN_PROGRAM_ID" for p f
    using moved that by (rule typed_only_tokens)
  show "deposit_at l (gb_deposit c) = Some d"
    using rew by (simp add: deposit_rewritten_def v1 v3)
  then show ne: "k \<noteq> gb_deposit c" using fr by (auto simp: fresh_def typed_def split: if_splits)
  show "deposit_at l' = (deposit_at l)(gb_deposit c \<mapsto> d')" "wallet_at l' = wallet_at l"
    "delegate_at l' = delegate_at l"
    using rew by (simp_all add: deposit_rewritten_def v1 v3)
  show "touches l {k, gb_deposit c} l'"
  proof -
    have "touches l {k, gb_deposit c} l1"
      by (rule touches_mono [OF untouched_touches [OF untouched_made [OF made]]]) simp
    moreover have "touches l1 {k, gb_deposit c} l3" by (rule touches_only_tokens [OF moved])
    moreover have "touches l3 {k, gb_deposit c} l'"
      using rew unfolding deposit_rewritten_def
      by (blast intro: touches_mono [OF untouched_touches])
    ultimately show ?thesis by (blast intro: touches_trans)
  qed
  have "acc_owner (l3 k) = WALLET_PROGRAM_ID" "acc_data (l3 k) = Raw WALLET_USED_MARKER"
    using made moved by (auto simp: account_made_def only_tokens_moved_def)
  then show "acc_owner (l' k) = WALLET_PROGRAM_ID" "acc_data (l' k) = Raw WALLET_USED_MARKER"
    using rew ne by (simp_all add: deposit_rewritten_def untouched_def)
  show "acc_owner (l' (gb_deposit c)) = WALLET_PROGRAM_ID" using rew by (simp add: deposit_rewritten_def)
  show "\<exists>t'. tok_at l' j = Some t' \<and> same_account_identity t t'" if "tok_at l j = Some t"
  proof -
    have "tok_at l1 j = Some t" using that by (simp add: v1)
    from tok_at_only_tokens [OF moved this] rew show ?thesis by (simp add: deposit_rewritten_def)
  qed
qed

lemma amount_at_made: "account_made l k p (Raw bs) l' \<Longrightarrow> amount_at l' j = amount_at l j"
  by (cases "j = k") (auto simp: account_made_def amount_at_def)

text \<open>
  Custody pays at most what was deducted, exactly that unless the fee account is custody itself; no
  other token account loses anything, and the supply falls by the burned amount.
\<close>

lemma burn_settled_amounts:
  assumes "burn_settled l c k burn_amount charged d d' fa fw l'"
  shows "amount_at l (gb_custody_token_account c) \<le>
      amount_at l' (gb_custody_token_account c) + (unat fa + unat fw)"
    "gb_fee_recipient_token_account c \<noteq> gb_custody_token_account c \<Longrightarrow>
      amount_at l' (gb_custody_token_account c) + (unat fa + unat fw) = amount_at l (gb_custody_token_account c) \<and>
      amount_at l' (gb_fee_recipient_token_account c) = amount_at l (gb_fee_recipient_token_account c) + unat charged"
    "j \<noteq> gb_custody_token_account c \<Longrightarrow> amount_at l j \<le> amount_at l' j"
proof -
  let ?cust = "gb_custody_token_account c" and ?fee = "gb_fee_recipient_token_account c"
  from assms obtain l1 l2 l3 where
    made: "account_made l k WALLET_PROGRAM_ID (Raw WALLET_USED_MARKER) l1"
    and fee: "if charged > 0
         then transferred l1 ?cust ?fee (gb_gateway_wallet c) charged l2 else l2 = l1"
    and burn: "burned l2 ?cust (gb_token_mint c) (gb_gateway_wallet c) burn_amount l3"
    and rew: "deposit_rewritten l3 (gb_deposit c) d d' l'"
    and sum: "unat burn_amount + unat charged = unat fa + unat fw"
    unfolding burn_settled_def by blast
  have ends: "amount_at l1 = amount_at l" "amount_at l' = amount_at l3"
    using amount_at_made [OF made] rew by (auto simp: deposit_rewritten_def)
  have zero: "\<not> charged > 0 \<Longrightarrow> unat charged = 0" by (simp add: u64_less_iff)
  have f: "?fee = ?cust \<Longrightarrow> amount_at l2 i = amount_at l1 i"
    "?fee \<noteq> ?cust \<Longrightarrow> amount_at l2 ?cust + unat charged = amount_at l1 ?cust"
    "?fee \<noteq> ?cust \<Longrightarrow> amount_at l2 ?fee = amount_at l1 ?fee + unat charged"
    "i \<noteq> ?cust \<Longrightarrow> amount_at l1 i \<le> amount_at l2 i" for i
  proof -
    show "?fee = ?cust \<Longrightarrow> amount_at l2 i = amount_at l1 i"
      "?fee \<noteq> ?cust \<Longrightarrow> amount_at l2 ?cust + unat charged = amount_at l1 ?cust"
      "?fee \<noteq> ?cust \<Longrightarrow> amount_at l2 ?fee = amount_at l1 ?fee + unat charged"
      using fee zero by (auto dest: transferred_amounts split: if_splits)
    show "amount_at l1 i \<le> amount_at l2 i" if "i \<noteq> ?cust"
    proof (cases "charged > 0 \<and> ?fee \<noteq> ?cust")
      case True
      then have tr: "transferred l1 ?cust ?fee (gb_gateway_wallet c) charged l2" using fee by simp
      have "?cust \<noteq> ?fee" using True by auto
      from transferred_amounts(2) [OF tr this] transferred_amounts(3) [OF tr that] show ?thesis
        by (cases "i = ?fee") simp_all
    next
      case False
      show ?thesis
      proof (cases "charged > 0")
        case True
        with False have eq: "?cust = ?fee" by auto
        from fee True have tr: "transferred l1 ?cust ?fee (gb_gateway_wallet c) charged l2" by simp
        from transferred_amounts(4) [OF tr eq] show ?thesis by (rule eq_refl [OF sym])
      next
        case False
        with fee have "l2 = l1" by simp
        then show ?thesis by simp
      qed
    qed
  qed
  note b = burned_amounts [OF burn]
  show "amount_at l ?cust \<le> amount_at l' ?cust + (unat fa + unat fw)"
    using f(1) [of ?cust] f(2) b(1) sum unfolding ends by (cases "?fee = ?cust") linarith+
  show "?fee \<noteq> ?cust \<Longrightarrow>
      amount_at l' ?cust + (unat fa + unat fw) = amount_at l ?cust \<and>
      amount_at l' ?fee = amount_at l ?fee + unat charged"
    using f(2,3) b(1) b(3) [of ?fee] sum unfolding ends by (simp add: ends)
  show "j \<noteq> ?cust \<Longrightarrow> amount_at l j \<le> amount_at l' j"
    using f(4) [of j] b(3) [of j] unfolding ends by (simp add: ends)
qed

end
