(* ===== verification/Markers.thy ===== *)
theory Markers
  imports Views
begin

text \<open>
  The marker accounts of a program seen on the ledger: an account of program \<open>p\<close> holding the
  discriminator \<open>disc\<close>, at the PDA of a transfer spec hash.  A handler that only writes accounts that were
  new or typed leaves every marker alone.
\<close>

definition marked :: "pubkey \<Rightarrow> bytes \<Rightarrow> ledger \<Rightarrow> pubkey \<Rightarrow> bool" where
  "marked p disc l k \<longleftrightarrow> acc_owner (l k) = p \<and> acc_data (l k) = Raw disc"

definition hash_used :: "pubkey \<Rightarrow> bytes \<Rightarrow> platform \<Rightarrow> ledger \<Rightarrow> bytes \<Rightarrow> bool" where
  "hash_used p disc pf l h \<longleftrightarrow>
     (\<exists>k b. try_bumps pf [USED_TRANSFER_SPEC_HASH_SEED_PREFIX, h] p 255 = Some (k, b) \<and> marked p disc l k)"

lemma keeps_records_used: "keeps_records p l l' \<Longrightarrow> \<not> idle (Raw d) \<Longrightarrow> hash_used p d pf l h \<Longrightarrow> hash_used p d pf l' h"
  unfolding hash_used_def keeps_records_def marked_def by metis

lemma marked_not_fresh: "marked p disc l k \<Longrightarrow> p \<noteq> SYSTEM_PROGRAM_ID \<Longrightarrow> \<not> fresh l k"
  by (auto simp: marked_def fresh_def)

lemma marked_untyped: "marked p disc l k \<Longrightarrow> (\<And>bs. f (Raw bs) = None) \<Longrightarrow> typed p f l k = None"
  by (simp add: marked_def typed_def)

lemma marked_touches: "touches l K l' \<Longrightarrow> j \<notin> K \<Longrightarrow> p \<noteq> TOKEN_PROGRAM_ID \<Longrightarrow> marked p disc l j \<Longrightarrow> marked p disc l' j"
  by (simp add: marked_def touches_def)

lemma marked_only_tokens: "only_tokens_moved l l' \<Longrightarrow> p \<noteq> TOKEN_PROGRAM_ID \<Longrightarrow> marked p disc l j \<Longrightarrow> marked p disc l' j"
  by (auto simp: marked_def only_tokens_moved_def)

lemma marked_replaced:
  assumes "touches l {k} l'" "fresh l k \<or> typed p f l k \<noteq> None" "\<And>bs. f (Raw bs) = None"
    and m: "marked p disc l j" and p: "p \<noteq> SYSTEM_PROGRAM_ID" "p \<noteq> TOKEN_PROGRAM_ID"
  shows "marked p disc l' j"
proof -
  have "j \<noteq> k" using m assms(2,3) p(1) by (auto simp: marked_def fresh_def typed_def)
  with marked_touches [OF assms(1) _ p(2) m] show ?thesis by simp
qed

lemma marked_written:
  assumes "written p l k f x l'" "\<And>bs. f (Raw bs) = None" "marked p disc l j"
    "p \<noteq> SYSTEM_PROGRAM_ID" "p \<noteq> TOKEN_PROGRAM_ID"
  shows "marked p disc l' j"
proof -
  from assms(1) have "touches l {k} l'" "fresh l k \<or> typed p f l k \<noteq> None"
    by (auto simp: written_def intro: untouched_touches)
  from marked_replaced [OF this assms(2-5)] show ?thesis .
qed

lemma marked_made:
  assumes "account_made l k q x l'" "marked p disc l j" "p \<noteq> SYSTEM_PROGRAM_ID"
  shows "marked p disc l' j"
  using assms by (cases "j = k") (auto simp: account_made_def marked_def)

lemma marked_token_initialised:
  assumes "token_initialised l k mint a l'" "marked p disc l j" "p \<noteq> SYSTEM_PROGRAM_ID"
  shows "marked p disc l' j"
  using assms by (cases "j = k") (auto simp: token_initialised_def marked_def fresh_def untouched_def)

lemma used_fresh: "try_bumps pf [USED_TRANSFER_SPEC_HASH_SEED_PREFIX, h] p 255 = Some (k, b) \<Longrightarrow>
    fresh l k \<Longrightarrow> p \<noteq> SYSTEM_PROGRAM_ID \<Longrightarrow> \<not> hash_used p disc pf l h"
  using marked_not_fresh by (auto simp: hash_used_def)

end
