(* ===== verification/Progress.thy ===== *)
theory Progress
  imports Markers
begin

text \<open>
  Progress: when the steps the programs are built from cannot fail.  \<open>system_program_live\<close> is the documented
  promise of the system program; under it a marker can be created at an unused address; a token transfer and a
  token burn go through between unfrozen accounts of one mint.  The completeness properties of the two programs
  compose these lemmas.
\<close>

section \<open>The system program\<close>

text \<open>What the documentation of the system program promises when its conditions hold: it does not fail.\<close>

definition system_program_live :: "platform \<Rightarrow> bool" where
  "system_program_live pf \<longleftrightarrow>
     (\<forall>src dst n space owner l. acc_owner (l src) = SYSTEM_PROGRAM_ID \<and> acc_data (l src) = Raw [] \<and> src \<noteq> dst \<and>
        n \<le> acc_lamports (l src) \<and> acc_lamports (l dst) = 0 \<and> acc_owner (l dst) = SYSTEM_PROGRAM_ID \<and>
        acc_data (l dst) = Raw [] \<and> space \<le> 10485760 \<longrightarrow> sys_create_account pf src dst n space owner l \<noteq> None) \<and>
     (\<forall>src dst n l. acc_owner (l src) = SYSTEM_PROGRAM_ID \<and> acc_data (l src) = Raw [] \<and> src \<noteq> dst \<and>
        n \<le> acc_lamports (l src) \<and> unat (acc_lamports (l dst)) + unat n < 2 ^ 64 \<longrightarrow> sys_transfer pf src dst n l \<noteq> None) \<and>
     (\<forall>k space l. acc_owner (l k) = SYSTEM_PROGRAM_ID \<and> acc_data (l k) = Raw [] \<and> space \<le> 10485760 \<longrightarrow>
        sys_allocate pf k space l \<noteq> None) \<and>
     (\<forall>k owner l. acc_owner (l k) = SYSTEM_PROGRAM_ID \<longrightarrow> sys_assign pf k owner l \<noteq> None)"

lemma system_program_liveD:
  assumes "system_program_live pf"
  shows "acc_owner (l src) = SYSTEM_PROGRAM_ID \<Longrightarrow> acc_data (l src) = Raw [] \<Longrightarrow> src \<noteq> dst \<Longrightarrow> n \<le> acc_lamports (l src) \<Longrightarrow>
      acc_lamports (l dst) = 0 \<Longrightarrow> acc_owner (l dst) = SYSTEM_PROGRAM_ID \<Longrightarrow> acc_data (l dst) = Raw [] \<Longrightarrow>
      space \<le> 10485760 \<Longrightarrow> \<exists>m. sys_create_account pf src dst n space owner l = Some m"
    and "acc_owner (l src) = SYSTEM_PROGRAM_ID \<Longrightarrow> acc_data (l src) = Raw [] \<Longrightarrow> src \<noteq> dst \<Longrightarrow> n \<le> acc_lamports (l src) \<Longrightarrow>
      unat (acc_lamports (l dst)) + unat n < 2 ^ 64 \<Longrightarrow> \<exists>m. sys_transfer pf src dst n l = Some m"
    and "acc_owner (l k) = SYSTEM_PROGRAM_ID \<Longrightarrow> acc_data (l k) = Raw [] \<Longrightarrow> space \<le> 10485760 \<Longrightarrow>
      \<exists>m. sys_allocate pf k space l = Some m"
    and "acc_owner (l k) = SYSTEM_PROGRAM_ID \<Longrightarrow> \<exists>m. sys_assign pf k owner l = Some m"
  using assms unfolding system_program_live_def not_None_eq by blast+

lemma write_discriminator_succeeds:
  "acc_data (l k) = Raw [0, 0] \<Longrightarrow> length disc = 2 \<Longrightarrow> \<exists>l'. write_discriminator k disc l = (Inr l' :: ('e, ledger) result)"
  by (simp add: write_discriminator_def DISCRIMINATOR_SIZE_def)

section \<open>Markers\<close>

abbreviation marker_rent :: "platform \<Rightarrow> u64" where
  "marker_rent pf \<equiv> minimum_balance pf USED_TRANSFER_SPEC_HASH_ACCOUNT_SPACE"

lemma marker_space: "USED_TRANSFER_SPEC_HASH_ACCOUNT_SPACE = 2"
  by (simp add: USED_TRANSFER_SPEC_HASH_ACCOUNT_SPACE_def DISCRIMINATOR_SIZE_def)

text \<open>The branch for an address that already holds lamports: the missing rent, if any, can be paid.\<close>

lemma marker_rent_payable:
  assumes ok: "system_program_ok pf" and live: "system_program_live pf"
    and unused: "acc_owner (l k) = SYSTEM_PROGRAM_ID" "acc_data (l k) = Raw []"
    and payer: "acc_owner (l payer) = SYSTEM_PROGRAM_ID" "acc_data (l payer) = Raw []" "payer \<noteq> k"
      "marker_rent pf \<le> acc_lamports (l payer)"
    and tx: "payer \<in> set (tx_signers tx)" "{payer, k} \<subseteq> set (tx_writable tx)"
  shows "\<exists>l1. (if acc_lamports (l k) < marker_rent pf
       then system_transfer pf tx payer k (marker_rent pf - acc_lamports (l k)) l else Inr l) = (Inr l1 :: ('e, ledger) result) \<and>
     acc_owner (l1 k) = SYSTEM_PROGRAM_ID \<and> acc_data (l1 k) = Raw []"
proof (cases "acc_lamports (l k) < marker_rent pf")
  case True
  then have diff: "unat (marker_rent pf - acc_lamports (l k)) = unat (marker_rent pf) - unat (acc_lamports (l k))"
    by (simp add: unat_sub_u64 u64_less_iff u64_le_iff)
  have "unat (acc_lamports (l k)) + unat (marker_rent pf - acc_lamports (l k)) < 2 ^ 64"
    using True unat_u64_less [of "marker_rent pf"] unfolding diff by (simp add: u64_less_iff)
  moreover have "marker_rent pf - acc_lamports (l k) \<le> acc_lamports (l payer)"
    using payer(4) diff by (simp add: u64_le_iff)
  ultimately obtain m where m: "sys_transfer pf payer k (marker_rent pf - acc_lamports (l k)) l = Some m"
    using system_program_liveD(2) [OF live, of l payer k] payer by blast
  then have run: "system_transfer pf tx payer k (marker_rent pf - acc_lamports (l k)) l = (Inr m :: ('e, ledger) result)"
    using tx by (simp add: system_transfer_def check_privileges_def)
  from system_transfer_Inr [OF ok run, of k] run unused True show ?thesis by auto
qed (use unused in simp)

text \<open>Allocating, assigning and writing the marker then cannot fail.\<close>

lemma marker_allocatable:
  assumes ok: "system_program_ok pf" and live: "system_program_live pf"
    and unused: "acc_owner (l k) = SYSTEM_PROGRAM_ID" "acc_data (l k) = Raw []" and tx: "k \<in> set (tx_writable tx)"
    and pda: "create_program_address pf seeds p = Inr k" and disc: "length disc = 2"
  shows "\<exists>l'. and_then (system_allocate pf p tx (Some seeds) k 2 l) (\<lambda>l1.
    and_then (system_assign pf p tx (Some seeds) k p l1) (write_discriminator k disc)) = (Inr l' :: ('e, ledger) result)"
proof -
  obtain l2 where l2: "sys_allocate pf k 2 l = Some l2"
    using system_program_liveD(3) [OF live, of l k 2] unused by auto
  then have own: "acc_owner (l2 k) = SYSTEM_PROGRAM_ID" "acc_data (l2 k) = Raw [0, 0]"
    using system_program_okD(3) [OF ok l2] unused by (simp_all add: two_zeros)
  then obtain l3 where l3: "sys_assign pf k p l2 = Some l3" using system_program_liveD(4) [OF live] by blast
  then have "acc_data (l3 k) = Raw [0, 0]" using system_program_okD(4) [OF ok l3] own by simp
  then obtain l' where "write_discriminator k disc l3 = (Inr l' :: ('e, ledger) result)"
    using write_discriminator_succeeds disc by blast
  then show ?thesis
    using l2 l3 tx pda by (simp add: system_allocate_def system_assign_def cpi_signers_def check_privileges_def)
qed

lemma marker_progress:
  assumes ok: "system_program_ok pf" and live: "system_program_live pf"
    and unused: "acc_owner (l k) = SYSTEM_PROGRAM_ID" "acc_data (l k) = Raw []"
    and payer: "acc_owner (l payer) = SYSTEM_PROGRAM_ID" "acc_data (l payer) = Raw []" "payer \<noteq> k"
      "marker_rent pf \<le> acc_lamports (l payer)"
    and tx: "payer \<in> set (tx_signers tx)" "{payer, k} \<subseteq> set (tx_writable tx)"
    and pda: "create_program_address pf [USED_TRANSFER_SPEC_HASH_SEED_PREFIX, h, [b]] p = Inr k"
    and disc: "length disc = 2"
  shows "\<exists>l'. create_used_transfer_spec_hash_account pf tx k h b payer p disc l = (Inr l' :: ('e, ledger) result)"
proof (cases "acc_lamports (l k) = 0")
  case True
  obtain m where m: "sys_create_account pf payer k (marker_rent pf) 2 p l = Some m"
    using system_program_liveD(1) [OF live, of l payer k "marker_rent pf" 2 p] payer True unused by auto
  then have "acc_data (m k) = Raw [0, 0]"
    using system_program_okD(1) [OF ok m] by (simp add: two_zeros)
  then obtain l' where "write_discriminator k disc m = (Inr l' :: ('e, ledger) result)"
    using write_discriminator_succeeds disc by blast
  then show ?thesis
    using True m tx pda
    by (simp add: create_used_transfer_spec_hash_account_def Let_def system_create_account_def cpi_signers_def
        check_privileges_def marker_space)
next
  case False
  obtain l1 where l1: "(if acc_lamports (l k) < marker_rent pf
       then system_transfer pf tx payer k (marker_rent pf - acc_lamports (l k)) l else Inr l) = (Inr l1 :: ('e, ledger) result)"
    and new: "acc_owner (l1 k) = SYSTEM_PROGRAM_ID" "acc_data (l1 k) = Raw []"
    using marker_rent_payable [OF ok live unused payer tx] by blast
  have "k \<in> set (tx_writable tx)" using tx by simp
  from marker_allocatable [where l = l1 and k = k, OF ok live new this pda disc] show ?thesis
    unfolding create_used_transfer_spec_hash_account_def Let_def if_not_P [OF False] and_then_assoc
      l1 [unfolded marker_space] and_then_Inr marker_space .
qed

text \<open>A marker costs its payer at most the rent.\<close>

lemma top_up_cost:
  assumes ok: "system_program_ok pf" and payer: "payer \<noteq> k" "n \<le> acc_lamports (l payer)"
    and run: "system_transfer pf tx payer k (n - acc_lamports (l k)) l = (Inr l1 :: ('e, ledger) result)"
    and low: "acc_lamports (l k) < n"
  shows "unat (acc_lamports (l payer)) \<le> unat (acc_lamports (l1 payer)) + unat n"
proof -
  from run have "sys_transfer pf payer k (n - acc_lamports (l k)) l = Some l1"
    unfolding system_transfer_def and_then_eq_Inr ok_or_eq_Inr by blast
  from system_program_okD(2) [OF ok this] payer(1)
  have "acc_lamports (l1 payer) = acc_lamports (l payer) - (n - acc_lamports (l k))"
    by (simp add: Let_def take_lamports_def)
  with payer(2) low show ?thesis by (simp add: unat_sub_u64 u64_le_iff u64_less_iff)
qed

lemma marker_cost:
  assumes ok: "system_program_ok pf" and payer: "payer \<noteq> k" "marker_rent pf \<le> acc_lamports (l payer)"
    and run: "create_used_transfer_spec_hash_account pf tx k h b payer p disc l = (Inr l' :: ('e, ledger) result)"
  shows "unat (acc_lamports (l payer)) \<le> unat (acc_lamports (l' payer)) + unat (marker_rent pf)"
proof -
  obtain m where w: "write_discriminator k disc m = (Inr l' :: ('e, ledger) result)"
    and cost: "unat (acc_lamports (l payer)) \<le> unat (acc_lamports (m payer)) + unat (marker_rent pf)"
  proof (cases "acc_lamports (l k) = 0")
    case True
    with run obtain m where "system_create_account pf p tx (Some [USED_TRANSFER_SPEC_HASH_SEED_PREFIX, h, [b]]) payer k
        (marker_rent pf) USED_TRANSFER_SPEC_HASH_ACCOUNT_SPACE p l = (Inr m :: ('e, ledger) result)"
      and w: "write_discriminator k disc m = (Inr l' :: ('e, ledger) result)"
      by (auto simp: create_used_transfer_spec_hash_account_def and_then_eq_Inr)
    from system_create_account_Inr [OF ok this(1)] payer have
      "acc_lamports (m payer) = acc_lamports (l payer) - marker_rent pf" by (simp add: take_lamports_def)
    with payer(2) have "unat (acc_lamports (l payer)) \<le> unat (acc_lamports (m payer)) + unat (marker_rent pf)"
      by (simp add: unat_sub_u64 u64_le_iff)
    with w that show ?thesis by blast
  next
    case False
    with run obtain l1 l2 m where
      l1: "(if acc_lamports (l k) < marker_rent pf
         then system_transfer pf tx payer k (marker_rent pf - acc_lamports (l k)) l else Inr l) = (Inr l1 :: ('e, ledger) result)"
      and "system_allocate pf p tx (Some [USED_TRANSFER_SPEC_HASH_SEED_PREFIX, h, [b]]) k
         USED_TRANSFER_SPEC_HASH_ACCOUNT_SPACE l1 = (Inr l2 :: ('e, ledger) result)"
      and "system_assign pf p tx (Some [USED_TRANSFER_SPEC_HASH_SEED_PREFIX, h, [b]]) k p l2 = (Inr m :: ('e, ledger) result)"
      and w: "write_discriminator k disc m = (Inr l' :: ('e, ledger) result)"
      unfolding create_used_transfer_spec_hash_account_def Let_def if_not_P [OF False] and_then_assoc and_then_eq_Inr
      by blast
    then have "m payer = l1 payer" using payer(1) system_allocate_Inr [OF ok] system_assign_Inr [OF ok] by fastforce
    moreover have "unat (acc_lamports (l payer)) \<le> unat (acc_lamports (l1 payer)) + unat (marker_rent pf)"
      using l1 payer top_up_cost [where l = l, OF ok payer] by (auto split: if_splits)
    ultimately show ?thesis using w that by metis
  qed
  from w payer(1) cost show ?thesis by (auto dest: write_discriminator_Inr)
qed

text \<open>The payer can pay for \<open>n\<close> more markers.\<close>

definition payer_ready :: "platform \<Rightarrow> ledger \<Rightarrow> pubkey \<Rightarrow> nat \<Rightarrow> bool" where
  "payer_ready pf l payer n \<longleftrightarrow> acc_owner (l payer) = SYSTEM_PROGRAM_ID \<and> acc_data (l payer) = Raw [] \<and>
     n * unat (marker_rent pf) \<le> unat (acc_lamports (l payer))"

text \<open>The marker of an unused hash: the address is not taken for used, creating it succeeds, and the payer's
  lamports fall by at most one rent.\<close>

lemma unused_marker_progress:
  assumes ok: "system_program_ok pf" and live: "system_program_live pf"
    and b: "try_bumps pf [USED_TRANSFER_SPEC_HASH_SEED_PREFIX, h] p 255 = Some (mark, b)"
    and mark: "acc_owner (l mark) = SYSTEM_PROGRAM_ID" "acc_data (l mark) = Raw []" "payer \<noteq> mark"
    and payer: "payer \<in> set (tx_signers tx)" "{payer, mark} \<subseteq> set (tx_writable tx)" "payer_ready pf l payer (Suc n)"
    and disc: "length disc = 2"
  shows "\<not> is_transfer_spec_hash_used (acc_data (l mark)) disc \<and>
    (\<exists>l1. create_used_transfer_spec_hash_account pf tx mark h b payer p disc l = (Inr l1 :: ('e, ledger) result) \<and>
      account_made l mark p (Raw disc) l1 \<and>
      unat (acc_lamports (l payer)) \<le> unat (acc_lamports (l1 payer)) + unat (marker_rent pf))"
proof -
  have paid: "acc_owner (l payer) = SYSTEM_PROGRAM_ID" "acc_data (l payer) = Raw []"
    "marker_rent pf \<le> acc_lamports (l payer)"
    using payer(3) by (auto simp: payer_ready_def u64_le_iff)
  have pda: "create_program_address pf [USED_TRANSFER_SPEC_HASH_SEED_PREFIX, h, [b]] p = Inr mark"
    using canonical_bump [OF b] by simp
  obtain l1 where "create_used_transfer_spec_hash_account pf tx mark h b payer p disc l = (Inr l1 :: ('e, ledger) result)"
    using marker_progress [OF ok live mark(1,2) paid(1,2) mark(3) paid(3) payer(1,2) pda disc] by blast
  with create_marker_made [OF ok this] marker_cost [OF ok mark(3) paid(3) this] mark(2) show ?thesis
    by (simp add: is_transfer_spec_hash_used_def DISCRIMINATOR_SIZE_def)
qed

lemma tok_at_made: "account_made l k p (Raw bs) l' \<Longrightarrow> tok_at l j = Some t \<Longrightarrow> tok_at l' j = Some t"
  by (cases "j = k") (auto simp: account_made_def typed_Some)

section \<open>Tokens\<close>

text \<open>Between unfrozen accounts of one mint a transfer goes through, also from an account to itself.\<close>

lemma process_transfer_succeeds:
  assumes src: "tok_at l src = Some s" "ta_state s \<noteq> Frozen" "n \<le> ta_amount s" "ta_is_native s = None"
    and dst: "tok_at l dst = Some d" "ta_state d \<noteq> Frozen" "ta_mint d = ta_mint s" "unat (ta_amount d) + unat n < 2 ^ 64"
    and auth: "ta_owner s = a" "ta_delegate s = None" "a \<in> set sg" "acc_owner (l a) \<noteq> TOKEN_PROGRAM_ID"
  shows "\<exists>l'. process_transfer sg [] None src dst a n l = (Inr l' :: ('e, ledger) result)"
proof -
  have data: "acc_data (l src) = TokenData s" "acc_data (l dst) = TokenData d" "ta_state s \<noteq> Uninitialized"
    "ta_state d \<noteq> Uninitialized" "acc_owner (l src) = TOKEN_PROGRAM_ID" "acc_owner (l dst) = TOKEN_PROGRAM_ID"
    using src(1) dst(1) by (auto simp: typed_Some as_data_Some)
  have source: "authorize_source sg [] l s a n keep = (Inr s :: ('e, TokenAccount) result)" for keep
    using auth by (simp add: authorize_source_def validate_owner_def)
  have u: "(unpack_token l src :: ('e, TokenAccount) result) = Inr s"
    "(unpack_token l dst :: ('e, TokenAccount) result) = Inr d"
    using data by (simp_all add: unpack_Inr)
  show ?thesis
    using src dst data(5,6)
    by (cases "src = dst")
      (simp_all add: process_transfer_def Let_def check_expected_mint_def u source move_native_lamports_def write_token_data_def)
qed

lemma process_burn_succeeds:
  assumes src: "tok_at l src = Some s" "ta_state s \<noteq> Frozen" "n \<le> ta_amount s" "ta_is_native s = None" "ta_mint s = mint"
    and mint: "typed TOKEN_PROGRAM_ID as_mint l mint = Some mi" "n \<le> mi_supply mi"
    and auth: "ta_owner s = a" "ta_delegate s = None" "a \<in> set sg" "acc_owner (l a) \<noteq> TOKEN_PROGRAM_ID"
  shows "\<exists>l'. process_burn sg [] None src mint a n l = (Inr l' :: ('e, ledger) result)"
proof -
  have data: "acc_data (l src) = TokenData s" "ta_state s \<noteq> Uninitialized" "acc_owner (l src) = TOKEN_PROGRAM_ID"
    "acc_data (l mint) = MintData mi" "mi_is_initialized mi" "acc_owner (l mint) = TOKEN_PROGRAM_ID"
    using src(1) mint(1) by (auto simp: typed_Some as_data_Some)
  have source: "authorize_source sg [] l s a n False = (Inr s :: ('e, TokenAccount) result)"
    using auth by (simp add: authorize_source_def validate_owner_def)
  have u: "(unpack_token l src :: ('e, TokenAccount) result) = Inr s" "(unpack_mint l mint :: ('e, Mint) result) = Inr mi"
    using data by (simp_all add: unpack_Inr)
  show ?thesis
    using src mint data
    by (simp add: process_burn_def check_decimals_def u source write_token_data_def)
qed

text \<open>The CPIs of a program whose address holds the tokens; the amounts as \<^const>\<open>amount_at\<close> reads them.\<close>

definition spendable :: "pubkey \<Rightarrow> TokenAccount \<Rightarrow> bool" where
  "spendable g t \<longleftrightarrow> ta_owner t = g \<and> ta_state t \<noteq> Frozen \<and> ta_is_native t = None \<and> ta_delegate t = None"

lemma pda_transfer_progress:
  assumes t: "tok_at l src = Some t" "spendable g t"
    and u: "tok_at l dst = Some u" "ta_mint u = ta_mint t" "ta_state u \<noteq> Frozen"
    and g: "acc_owner (l g) \<noteq> TOKEN_PROGRAM_ID" "create_program_address pf seeds p = Inr g"
    and funds: "unat n \<le> amount_at l src" "amount_at l dst + unat n < 2 ^ 64"
    and tx: "{src, dst} \<subseteq> set (tx_writable tx)"
  shows "\<exists>l'. token_transfer pf p tx (Some seeds) src dst g n l = (Inr l' :: ('e, ledger) result) \<and>
    transferred l src dst g n l'"
proof -
  have s: "ta_owner t = g" "ta_state t \<noteq> Frozen" "ta_is_native t = None" "ta_delegate t = None"
    using t(2) by (simp_all add: spendable_def)
  have amounts: "n \<le> ta_amount t" "unat (ta_amount u) + unat n < 2 ^ 64"
    using funds amount_at_tok [OF t(1)] amount_at_tok [OF u(1)] by (simp_all add: u64_le_iff)
  obtain l' where tr: "process_transfer (g # tx_signers tx) [] None src dst g n l = (Inr l' :: ('e, ledger) result)"
    using process_transfer_succeeds [where sg = "g # tx_signers tx", OF t(1) s(2) amounts(1) s(3) u(1,3,2) amounts(2)
        s(1,4) _ g(1)] by auto
  with g(2) tx have "token_transfer pf p tx (Some seeds) src dst g n l = (Inr l' :: ('e, ledger) result)"
    by (simp add: token_transfer_def cpi_signers_def check_privileges_def)
  with process_transfer_transferred [OF tr] show ?thesis by blast
qed

lemma pda_burn_progress:
  assumes t: "tok_at l src = Some t" "spendable g t" "ta_mint t = mint"
    and mi: "typed TOKEN_PROGRAM_ID as_mint l mint = Some mi" "unat n \<le> unat (mi_supply mi)"
    and g: "acc_owner (l g) \<noteq> TOKEN_PROGRAM_ID" "create_program_address pf seeds p = Inr g"
    and funds: "unat n \<le> amount_at l src" and tx: "{src, mint} \<subseteq> set (tx_writable tx)"
  shows "\<exists>l'. token_burn pf p tx (Some seeds) mint src g n l = (Inr l' :: ('e, ledger) result) \<and> burned l src mint g n l'"
proof -
  have s: "ta_owner t = g" "ta_state t \<noteq> Frozen" "ta_is_native t = None" "ta_delegate t = None"
    using t(2) by (simp_all add: spendable_def)
  have amounts: "n \<le> ta_amount t" "n \<le> mi_supply mi"
    using funds mi(2) amount_at_tok [OF t(1)] by (simp_all add: u64_le_iff)
  obtain l' where burn: "process_burn (g # tx_signers tx) [] None src mint g n l = (Inr l' :: ('e, ledger) result)"
    using process_burn_succeeds [where sg = "g # tx_signers tx", OF t(1) s(2) amounts(1) s(3) t(3) mi(1) amounts(2)
        s(1,4) _ g(1)] by auto
  with g(2) tx have "token_burn pf p tx (Some seeds) mint src g n l = (Inr l' :: ('e, ledger) result)"
    by (simp add: token_burn_def cpi_signers_def check_privileges_def)
  with process_burn_burned [OF burn] show ?thesis by blast
qed

end
