(* ===== verification/Samples.thy ===== *)
theory Samples
  imports GatewayBurn Progress
begin

text \<open>
  A concrete world on which the instructions run: a platform whose hash keeps 32 of the bytes, one of
  them the last byte of the program in an address derivation, a system program that satisfies its
  contract, and a ledger with an initialised wallet and an initialised minter, one supported token, a
  depositor and two custody accounts.  The witnesses of the properties evaluate the handlers here.
\<close>

section \<open>The platform\<close>

definition sample_hash :: "bytes \<Rightarrow> bytes" where
  "sample_hash bs = (let xs = bs @ replicate 48 0 in
     take 16 xs @ take 15 (drop 32 xs) @ [(rev bs @ replicate 22 0) ! 21])"

definition sample_curve :: "bytes \<Rightarrow> bool" where
  "sample_curve h = (h ! 0 = h ! 16)"

definition sample_create ::
    "pubkey \<Rightarrow> pubkey \<Rightarrow> u64 \<Rightarrow> nat \<Rightarrow> pubkey \<Rightarrow> ledger \<Rightarrow> ledger option" where
  "sample_create src dst n space owner l =
     (if acc_lamports (l dst) = 0 \<and> acc_owner (l dst) = SYSTEM_PROGRAM_ID \<and> acc_data (l dst) = Raw [] \<and>
         n \<le> acc_lamports (l src) \<and> src \<noteq> dst
      then Some (l(src := take_lamports n (l src),
              dst := \<lparr> acc_lamports = n, acc_owner = owner, acc_data = Raw (replicate space 0) \<rparr>))
      else None)"

definition sample_transfer :: "pubkey \<Rightarrow> pubkey \<Rightarrow> u64 \<Rightarrow> ledger \<Rightarrow> ledger option" where
  "sample_transfer src dst n l =
     (if n \<le> acc_lamports (l src)
      then Some (let l1 = l(src := take_lamports n (l src)) in l1(dst := add_lamports n (l1 dst)))
      else None)"

definition sample_allocate :: "pubkey \<Rightarrow> nat \<Rightarrow> ledger \<Rightarrow> ledger option" where
  "sample_allocate k space l =
     (if acc_owner (l k) = SYSTEM_PROGRAM_ID \<and> acc_data (l k) = Raw []
      then Some (l(k := (l k)\<lparr> acc_data := Raw (replicate space 0) \<rparr>)) else None)"

definition sample_assign :: "pubkey \<Rightarrow> pubkey \<Rightarrow> ledger \<Rightarrow> ledger option" where
  "sample_assign k owner l =
     (if acc_owner (l k) = SYSTEM_PROGRAM_ID \<or> acc_owner (l k) = owner
      then Some (l(k := (l k)\<lparr> acc_owner := owner \<rparr>)) else None)"

definition sample_platform :: platform where
  "sample_platform = \<lparr> keccak256 = sample_hash, sha256 = sample_hash, on_curve = sample_curve,
     secp256k1_recover = (\<lambda>h i s. Some s), minimum_balance = (\<lambda>n. 10),
     sys_create_account = sample_create, sys_transfer = sample_transfer,
     sys_allocate = sample_allocate, sys_assign = sample_assign \<rparr>"

lemma sample_platform_ok: "system_program_ok sample_platform"
  by (simp add: system_program_ok_def system_create_ok_def system_transfer_ok_def
      system_allocate_ok_def system_assign_ok_def sample_platform_def sample_create_def
      sample_transfer_def sample_allocate_def sample_assign_def)

lemma sample_platform_live: "system_program_live sample_platform"
  by (simp add: system_program_live_def sample_platform_def sample_create_def sample_transfer_def
      sample_allocate_def sample_assign_def)

section \<open>The wallet's world\<close>

definition key :: "u8 \<Rightarrow> pubkey" where "key n = replicate 32 n"

definition pda :: "bytes list \<Rightarrow> pubkey \<Rightarrow> pubkey" where
  "pda seeds program_id = sample_hash (concat (seeds @ [[255]]) @ program_id @ PDA_MARKER)"

definition W_KEY :: pubkey where "W_KEY = pda [GATEWAY_WALLET_SEED] WALLET_PROGRAM_ID"
definition MINT_KEY :: pubkey where "MINT_KEY = key 3"
definition ALICE :: pubkey where "ALICE = key 5"
definition CUSTODY_KEY :: pubkey where
  "CUSTODY_KEY = pda [GATEWAY_WALLET_CUSTODY_SEED, MINT_KEY] WALLET_PROGRAM_ID"
definition DEPOSIT_KEY :: pubkey where
  "DEPOSIT_KEY = pda [GATEWAY_DEPOSIT_SEED, MINT_KEY, ALICE] WALLET_PROGRAM_ID"

definition sample_burn_signer :: pubkey where
  "sample_burn_signer = replicate 12 0 @ replicate 20 1"

definition sample_wallet :: GatewayWallet where
  "sample_wallet = \<lparr> gw_bump = 255, gw_owner = key 40, gw_pending_owner = default_pubkey,
     gw_pauser = key 41, gw_denylister = key 42, gw_token_controller = key 43, gw_fee_recipient = key 44,
     gw_local_domain = 5, gw_version = 1, gw_withdrawal_delay = 100, gw_paused = False,
     gw_supported_tokens = [MINT_KEY], gw_custody_token_account_bumps = [255],
     gw_burn_signers = [sample_burn_signer] \<rparr>"

definition sample_token :: "pubkey \<Rightarrow> u64 \<Rightarrow> TokenAccount" where
  "sample_token owner n = \<lparr> ta_mint = MINT_KEY, ta_owner = owner, ta_amount = n, ta_delegate = None,
     ta_state = Initialized, ta_is_native = None, ta_delegated_amount = 0, ta_close_authority = None \<rparr>"

definition holding :: "pubkey \<Rightarrow> account_data \<Rightarrow> account" where
  "holding owner x = \<lparr> acc_lamports = 1000, acc_owner = owner, acc_data = x \<rparr>"

definition FEE_KEY :: pubkey where
  "FEE_KEY = pda [key 44, TOKEN_PROGRAM_ID, MINT_KEY] ASSOCIATED_TOKEN_PROGRAM_ID"
definition ALICE_TOKENS :: pubkey where "ALICE_TOKENS = key 6"

definition sample_alice_deposit :: GatewayDeposit where
  "sample_alice_deposit = \<lparr> dep_bump = 255, dep_depositor = ALICE, dep_token_mint = MINT_KEY,
     dep_available_amount = 70, dep_withdrawing_amount = 50, dep_withdrawal_block = 90 \<rparr>"

definition M_KEY :: pubkey where "M_KEY = pda [GATEWAY_MINTER_SEED] MINTER_PROGRAM_ID"
definition M_CUSTODY :: pubkey where "M_CUSTODY = pda [GATEWAY_MINTER_CUSTODY_SEED, MINT_KEY] MINTER_PROGRAM_ID"

definition sample_minter :: GatewayMinter where
  "sample_minter = \<lparr> gm_bump = 255, gm_owner = key 50, gm_pending_owner = default_pubkey, gm_pauser = key 51,
     gm_token_controller = key 52, gm_paused = False, gm_enabled_attesters = [sample_burn_signer],
     gm_local_domain = 5, gm_version = 1, gm_supported_tokens = [MINT_KEY],
     gm_custody_token_account_bumps = [255] \<rparr>"

definition sample_ledger :: ledger where
  "sample_ledger = (\<lambda>_. empty_account)
     (M_KEY := holding MINTER_PROGRAM_ID (MinterData sample_minter),
      M_CUSTODY := holding TOKEN_PROGRAM_ID (TokenData (sample_token M_KEY 500)),
      W_KEY := holding WALLET_PROGRAM_ID (WalletData sample_wallet),
      MINT_KEY := holding TOKEN_PROGRAM_ID (MintData \<lparr> mi_mint_authority = None, mi_supply = 5000,
        mi_decimals = 6, mi_is_initialized = True, mi_freeze_authority = None \<rparr>),
      CUSTODY_KEY := holding TOKEN_PROGRAM_ID (TokenData (sample_token W_KEY 500)),
      FEE_KEY := holding TOKEN_PROGRAM_ID (TokenData (sample_token (key 44) 0)),
      ALICE_TOKENS := holding TOKEN_PROGRAM_ID (TokenData (sample_token ALICE 300)),
      DEPOSIT_KEY := holding WALLET_PROGRAM_ID (DepositData sample_alice_deposit),
      ALICE := holding SYSTEM_PROGRAM_ID (Raw []))"

section \<open>Evaluation\<close>

lemma key_list: "key n = [n, n, n, n, n, n, n, n, n, n, n, n, n, n, n, n, n, n, n, n, n, n, n, n, n, n, n, n, n, n, n, n]"
  by (simp add: key_def numeral_eq_Suc)

lemmas seed_defs = GATEWAY_MINTER_SEED_def GATEWAY_MINTER_CUSTODY_SEED_def GATEWAY_WALLET_SEED_def GATEWAY_WALLET_CUSTODY_SEED_def GATEWAY_DEPOSIT_SEED_def
  GATEWAY_DELEGATE_SEED_def DENYLIST_SEED_def USED_TRANSFER_SPEC_HASH_SEED_PREFIX_def

lemma length_seeds [simp]:
  "length GATEWAY_WALLET_SEED = 14" "length GATEWAY_WALLET_CUSTODY_SEED = 22"
  "length GATEWAY_DEPOSIT_SEED = 15" "length GATEWAY_DELEGATE_SEED = 16" "length DENYLIST_SEED = 8"
  "length USED_TRANSFER_SPEC_HASH_SEED_PREFIX = 23" "length WALLET_PROGRAM_ID = 32"
  "length TOKEN_PROGRAM_ID = 32" "length (key n) = 32"
  by (simp_all add: seed_defs key_def WALLET_PROGRAM_ID_def TOKEN_PROGRAM_ID_def)

lemma length_sample_keys [simp]: "length MINT_KEY = 32" "length ALICE = 32"
  by (simp_all add: MINT_KEY_def ALICE_def)

lemmas sample_key_defs = M_KEY_def M_CUSTODY_def W_KEY_def MINT_KEY_def CUSTODY_KEY_def FEE_KEY_def ALICE_TOKENS_def
  DEPOSIT_KEY_def ALICE_def pda_def

lemma sample_keys_distinct:
  "distinct [W_KEY, MINT_KEY, CUSTODY_KEY, FEE_KEY, ALICE_TOKENS, DEPOSIT_KEY, ALICE, M_KEY, M_CUSTODY]"
  "distinct [M_CUSTODY, M_KEY, ALICE, DEPOSIT_KEY, ALICE_TOKENS, FEE_KEY, CUSTODY_KEY, MINT_KEY, W_KEY]"
  by (simp_all add: sample_key_defs sample_hash_def key_list seed_defs WALLET_PROGRAM_ID_def TOKEN_PROGRAM_ID_def
      MINTER_PROGRAM_ID_def)

lemmas sample_keys_neq [simp] = sample_keys_distinct [simplified]

text \<open>Every seed list derives its address at the first bump.\<close>

lemma sample_create_address:
  "create_program_address sample_platform seeds p =
     (if length seeds > 16 \<or> list_ex (\<lambda>s. length s > 32) seeds then Inl MaxSeedLengthExceeded
      else let h = sample_hash (concat seeds @ p @ PDA_MARKER) in
        if sample_curve h then Inl InvalidSeeds else Inr h)"
  by (simp add: create_program_address_def sample_platform_def MAX_SEEDS_def MAX_SEED_LEN_def)

lemma sample_pda:
  assumes "length seeds < 16" "list_all (\<lambda>s. length s \<le> 32) seeds" "\<not> sample_curve (pda seeds p)"
  shows "try_bumps sample_platform seeds p 255 = Some (pda seeds p, 255)"
    and "create_program_address sample_platform (seeds @ [[255]]) p = Inr (pda seeds p)"
  using assms try_bumps.simps(2) [of sample_platform seeds p 254]
  by (auto simp: sample_create_address pda_def list_ex_iff list_all_iff not_less Let_def)

lemma sample_off_curve [simp]:
  "\<not> sample_curve W_KEY" "\<not> sample_curve CUSTODY_KEY" "\<not> sample_curve DEPOSIT_KEY" "\<not> sample_curve FEE_KEY"
  by (simp_all add: sample_curve_def sample_key_defs sample_hash_def key_list seed_defs WALLET_PROGRAM_ID_def
      TOKEN_PROGRAM_ID_def)

lemmas sample_pda_at =
  sample_pda [of "[GATEWAY_WALLET_SEED]" WALLET_PROGRAM_ID, folded W_KEY_def]
  sample_pda [of "[GATEWAY_WALLET_CUSTODY_SEED, MINT_KEY]" WALLET_PROGRAM_ID, folded CUSTODY_KEY_def]
  sample_pda [of "[GATEWAY_DEPOSIT_SEED, MINT_KEY, ALICE]" WALLET_PROGRAM_ID, folded DEPOSIT_KEY_def]
  sample_pda [of "[key 44, TOKEN_PROGRAM_ID, MINT_KEY]" ASSOCIATED_TOKEN_PROGRAM_ID, folded FEE_KEY_def]

lemmas sample_pdas [simp] = sample_pda_at [simplified]

lemma holding_simps [simp]:
  "acc_owner (holding p x) = p" "acc_data (holding p x) = x" "acc_lamports (holding p x) = 1000"
  by (simp_all add: holding_def)

lemma holding_write: "(holding p x)\<lparr> acc_data := y \<rparr> = holding p y"
  by (simp add: holding_def)

lemma sample_token_simps [simp]:
  "ta_mint (sample_token a n) = MINT_KEY" "ta_owner (sample_token a n) = a"
  "ta_state (sample_token a n) = Initialized" "ta_amount (sample_token a n) = n"
  "ta_delegate (sample_token a n) = None" "ta_is_native (sample_token a n) = None"
  by (simp_all add: sample_token_def)

lemma sample_ledger_at [simp]:
  "sample_ledger W_KEY = holding WALLET_PROGRAM_ID (WalletData sample_wallet)"
  "sample_ledger CUSTODY_KEY = holding TOKEN_PROGRAM_ID (TokenData (sample_token W_KEY 500))"
  "sample_ledger FEE_KEY = holding TOKEN_PROGRAM_ID (TokenData (sample_token (key 44) 0))"
  "sample_ledger ALICE_TOKENS = holding TOKEN_PROGRAM_ID (TokenData (sample_token ALICE 300))"
  "sample_ledger DEPOSIT_KEY = holding WALLET_PROGRAM_ID (DepositData sample_alice_deposit)"
  "sample_ledger ALICE = holding SYSTEM_PROGRAM_ID (Raw [])"
  "sample_ledger MINT_KEY = holding TOKEN_PROGRAM_ID (MintData \<lparr> mi_mint_authority = None, mi_supply = 5000,
        mi_decimals = 6, mi_is_initialized = True, mi_freeze_authority = None \<rparr>)"
  "sample_ledger M_KEY = holding MINTER_PROGRAM_ID (MinterData sample_minter)"
  "sample_ledger M_CUSTODY = holding TOKEN_PROGRAM_ID (TokenData (sample_token M_KEY 500))"
  "k \<notin> {W_KEY, CUSTODY_KEY, FEE_KEY, ALICE_TOKENS, DEPOSIT_KEY, ALICE, MINT_KEY, M_KEY, M_CUSTODY} \<Longrightarrow>
     sample_ledger k = empty_account"
  by (simp_all add: sample_ledger_def)

lemma sample_wallet_simps [simp]:
  "gw_bump sample_wallet = 255" "gw_paused sample_wallet = False" "gw_supported_tokens sample_wallet = [MINT_KEY]"
  "gw_version sample_wallet = 1" "gw_local_domain sample_wallet = 5" "gw_fee_recipient sample_wallet = key 44"
  "gw_burn_signers sample_wallet = [sample_burn_signer]" "gw_withdrawal_delay sample_wallet = 100"
  "gw_owner sample_wallet = key 40" "gw_pending_owner sample_wallet = default_pubkey"
  "get_custody_token_account_bump sample_wallet MINT_KEY = Inr 255"
  by (simp_all add: sample_wallet_def get_custody_token_account_bump_def get_token_index_def index_checked_def)

lemma sample_alice_simps [simp]:
  "dep_bump sample_alice_deposit = 255" "dep_depositor sample_alice_deposit = ALICE"
  "dep_token_mint sample_alice_deposit = MINT_KEY" "dep_available_amount sample_alice_deposit = 70"
  "dep_withdrawing_amount sample_alice_deposit = 50" "dep_withdrawal_block sample_alice_deposit = 90"
  by (simp_all add: sample_alice_deposit_def)

lemmas sample_checks = load_signer_def load_wallet_def load_account_def load_token_def load_deposit_def
  load_program_def load_mint_def check_mut_def check_wallet_pda_def check_custody_pda_def
  check_seeds_bump_def check_not_paused_def check_token_owner_def check_token_mint_def
  check_seeds_find_def find_program_address_def ok_or_def

lemmas sample_steps = token_transfer_def token_burn_def cpi_signers_def check_privileges_def
  process_transfer_def process_burn_def check_expected_mint_def check_decimals_def unpack_token_def unpack_mint_def authorize_source_def
  validate_owner_def Let_def move_native_lamports_def write_token_data_def exit_deposit_def exit_account_def

section \<open>Accepted instructions\<close>

definition sample_tx :: transaction where
  "sample_tx = \<lparr> tx_signers = [ALICE],
     tx_writable = [ALICE, W_KEY, MINT_KEY, CUSTODY_KEY, FEE_KEY, ALICE_TOKENS, DEPOSIT_KEY],
     tx_slot = 100, tx_instructions = [], tx_index = 0 \<rparr>"

definition sample_withdraw :: WithdrawContext where
  "sample_withdraw = \<lparr> wd_depositor = ALICE, wd_gateway_wallet = W_KEY,
     wd_custody_token_account = CUSTODY_KEY, wd_depositor_token_account = ALICE_TOKENS,
     wd_deposit = DEPOSIT_KEY, wd_token_program = TOKEN_PROGRAM_ID \<rparr>"

lemma sample_withdraw_runs:
  "\<exists>l' es. withdraw sample_platform sample_tx sample_withdraw sample_ledger = Inr (l', es)"
  by (simp add: withdraw_def withdraw_accounts_def sample_withdraw_def sample_tx_def sample_checks
      complete_withdrawal_def sample_steps)

definition sample_initiate :: InitiateWithdrawalContext where
  "sample_initiate = \<lparr> iw_depositor = ALICE, iw_gateway_wallet = W_KEY, iw_deposit = DEPOSIT_KEY \<rparr>"

lemma sample_initiate_runs:
  "\<exists>l' es. initiate_withdrawal sample_platform sample_tx sample_initiate 20 sample_ledger = Inr (l', es)"
  by (simp add: initiate_withdrawal_def initiate_withdrawal_accounts_def sample_initiate_def sample_tx_def
      sample_checks deposit_initiate_withdrawal_def is_token_supported_def sub_u64_def add_u64_def
      sample_steps)

section \<open>An accepted deposit\<close>

definition ALICE_DENY :: pubkey where "ALICE_DENY = pda [DENYLIST_SEED, ALICE] WALLET_PROGRAM_ID"

lemma ALICE_DENY_off_curve: "\<not> sample_curve ALICE_DENY"
  by (simp add: ALICE_DENY_def sample_curve_def sample_key_defs sample_hash_def key_list seed_defs
      WALLET_PROGRAM_ID_def)

lemma ALICE_DENY_new [simp]:
  "sample_ledger ALICE_DENY = empty_account"
  "try_bumps sample_platform [DENYLIST_SEED, ALICE] WALLET_PROGRAM_ID 255 = Some (ALICE_DENY, 255)"
proof -
  show "sample_ledger ALICE_DENY = empty_account"
    by (rule sample_ledger_at(10)) (simp add: ALICE_DENY_def sample_key_defs sample_hash_def key_list seed_defs
        WALLET_PROGRAM_ID_def TOKEN_PROGRAM_ID_def MINTER_PROGRAM_ID_def)
  show "try_bumps sample_platform [DENYLIST_SEED, ALICE] WALLET_PROGRAM_ID 255 = Some (ALICE_DENY, 255)"
    using sample_pda(1) [of "[DENYLIST_SEED, ALICE]" WALLET_PROGRAM_ID, folded ALICE_DENY_def] ALICE_DENY_off_curve
    by simp
qed

definition sample_deposit_ctx :: DepositContext where
  "sample_deposit_ctx = \<lparr> dp_payer = ALICE, dp_owner = ALICE, dp_gateway_wallet = W_KEY,
     dp_owner_token_account = ALICE_TOKENS, dp_custody_token_account = CUSTODY_KEY, dp_deposit = DEPOSIT_KEY,
     dp_depositor_denylist = ALICE_DENY, dp_token_program = TOKEN_PROGRAM_ID,
     dp_system_program = SYSTEM_PROGRAM_ID \<rparr>"

lemma sample_deposit_runs:
  "\<exists>l' es. deposit sample_platform sample_tx sample_deposit_ctx 25 sample_ledger = Inr (l', es)"
  by (simp add: deposit_def deposit_accounts_def sample_deposit_ctx_def sample_tx_def sample_checks
      init_if_needed_def is_account_denylisted_def empty_account_def deposit_transfer_def
      initialize_if_needed_def add_u64_def sample_steps sample_platform_def [THEN arg_cong, of minimum_balance])

section \<open>An accepted burn\<close>

definition sample_intent :: BurnMessage where
  "sample_intent =
     \<lparr> bm_fee = 3, bm_user_signature = replicate 64 9, bm_max_block_height = 900, bm_max_fee = 10,
       bm_version = 1, bm_source_domain = 5, bm_destination_domain = 2,
       bm_source_contract = WALLET_PROGRAM_ID, bm_destination_contract = key 2,
       bm_source_token = MINT_KEY, bm_destination_token = key 4,
       bm_source_depositor = ALICE, bm_destination_recipient = key 6,
       bm_source_signer = ALICE, bm_destination_caller = key 0,
       bm_value = 80, bm_salt = key 8, bm_hook_data = [] \<rparr>"

lemma sample_intent_valid: "valid_burn_message sample_intent"
  by (simp add: sample_intent_def valid_burn_message_def)

definition sample_burn_data :: bytes where "sample_burn_data = encode_burn_message sample_intent"
definition sample_spec_hash :: bytes where "sample_spec_hash = sample_hash (drop 160 sample_burn_data)"
definition MARK_KEY :: pubkey where
  "MARK_KEY = pda [USED_TRANSFER_SPEC_HASH_SEED_PREFIX, sample_spec_hash] WALLET_PROGRAM_ID"

lemma sample_burn_data_facts:
  "length sample_burn_data = 500" "burn_message_at sample_burn_data = sample_intent"
  "burn_data_new sample_burn_data = Inr sample_burn_data" "narrow_fields sample_burn_data"
  using encode_burn_message_accepted [OF sample_intent_valid] encode_burn_message_fields [OF sample_intent_valid]
  by (simp_all add: sample_burn_data_def sample_intent_def)

lemma sample_spec_hash_length [simp]: "length sample_spec_hash = 32"
  by (simp add: sample_spec_hash_def sample_hash_def)

lemma MARK_KEY_new [simp]:
  "sample_ledger MARK_KEY = empty_account" "MARK_KEY \<noteq> W_KEY" "MARK_KEY \<noteq> ALICE" "MARK_KEY \<noteq> CUSTODY_KEY"
  "MARK_KEY \<noteq> MINT_KEY" "MARK_KEY \<noteq> FEE_KEY" "MARK_KEY \<noteq> DEPOSIT_KEY" "MARK_KEY \<noteq> ALICE_TOKENS"
  "MARK_KEY \<noteq> M_KEY" "MARK_KEY \<noteq> M_CUSTODY"
proof -
  have "hd MARK_KEY = 117"
    by (simp add: MARK_KEY_def pda_def sample_hash_def USED_TRANSFER_SPEC_HASH_SEED_PREFIX_def)
  moreover have "hd W_KEY \<noteq> 117" "hd ALICE \<noteq> 117" "hd CUSTODY_KEY \<noteq> 117" "hd MINT_KEY \<noteq> 117"
    "hd FEE_KEY \<noteq> 117" "hd DEPOSIT_KEY \<noteq> 117" "hd ALICE_TOKENS \<noteq> 117"
    "hd M_KEY \<noteq> 117" "hd M_CUSTODY \<noteq> 117"
    by (simp_all add: sample_key_defs sample_hash_def key_list seed_defs)
  ultimately show "MARK_KEY \<noteq> W_KEY" "MARK_KEY \<noteq> ALICE" "MARK_KEY \<noteq> CUSTODY_KEY"
    "MARK_KEY \<noteq> MINT_KEY" "MARK_KEY \<noteq> FEE_KEY" "MARK_KEY \<noteq> DEPOSIT_KEY" "MARK_KEY \<noteq> ALICE_TOKENS"
  "MARK_KEY \<noteq> M_KEY" "MARK_KEY \<noteq> M_CUSTODY"
    by metis+
  then show "sample_ledger MARK_KEY = empty_account" by (simp add: sample_ledger_def)
qed

lemmas MARK_KEY_new' [simp] = MARK_KEY_new(2-10) [symmetric]

lemma MARK_KEY_off_curve: "\<not> sample_curve MARK_KEY"
proof -
  have "length (bm_user_signature sample_intent) = 64" "length BURN_INTENT_MESSAGE_PREFIX = 16"
    by (simp_all add: sample_intent_def BURN_INTENT_MESSAGE_PREFIX_def)
  moreover have "drop 160 (xs @ ys) = ys" if "length xs = 160" for xs ys :: bytes
    using that by simp
  ultimately have spec: "drop 160 sample_burn_data = encode_transfer_spec sample_intent"
    unfolding sample_burn_data_def encode_burn_message_def append_assoc [symmetric] by simp
  have "u32_to_be 5 ! 1 = 0" by code_simp
  then have "encode_transfer_spec sample_intent ! 9 = 0"
    by (simp add: encode_transfer_spec_def nth_append
        sample_intent_def [THEN arg_cong, of bm_source_domain])
  then have "sample_spec_hash ! 9 = 0"
    by (simp add: sample_spec_hash_def spec sample_hash_def Let_def nth_append)
  then show ?thesis
    by (simp add: MARK_KEY_def sample_curve_def sample_hash_def pda_def nth_append seed_defs)
qed

lemmas MARK_KEY_pda [simp] =
  sample_pda [of "[USED_TRANSFER_SPEC_HASH_SEED_PREFIX, sample_spec_hash]" WALLET_PROGRAM_ID,
    folded MARK_KEY_def, simplified MARK_KEY_off_curve, simplified]

definition sample_burn_ctx :: GatewayBurnContext where
  "sample_burn_ctx = \<lparr> gb_payer = ALICE, gb_gateway_wallet = W_KEY, gb_token_mint = MINT_KEY,
     gb_custody_token_account = CUSTODY_KEY, gb_fee_recipient_token_account = FEE_KEY,
     gb_deposit = DEPOSIT_KEY, gb_delegate_account = WALLET_PROGRAM_ID,
     gb_instructions_sysvar = INSTRUCTIONS_SYSVAR_ID, gb_system_program = SYSTEM_PROGRAM_ID,
     gb_token_program = TOKEN_PROGRAM_ID, gb_associated_token_program = ASSOCIATED_TOKEN_PROGRAM_ID,
     gb_remaining_accounts = [MARK_KEY] \<rparr>"

definition sample_burn_params :: GatewayBurnParams where
  "sample_burn_params = \<lparr> encoded_burn_data = sample_burn_data, burn_signature = key 1 @ key 1 @ [27] \<rparr>"

text \<open>The transaction, for an outer instruction: the burn itself, or one that calls it.\<close>

definition sample_burn_call :: "pubkey \<times> bytes \<Rightarrow> transaction" where
  "sample_burn_call outer = \<lparr> tx_signers = [ALICE],
     tx_writable = [ALICE, W_KEY, MINT_KEY, CUSTODY_KEY, FEE_KEY, DEPOSIT_KEY, MARK_KEY],
     tx_slot = 100, tx_instructions = [(ED25519_PROGRAM_ID, ed_header 14 374 78 428 1), outer], tx_index = 1 \<rparr>"

definition sample_burn_tx :: transaction where
  "sample_burn_tx = sample_burn_call (WALLET_PROGRAM_ID, [])"

lemma length_sample_hash [simp]: "length (sample_hash bs) = 32"
  by (simp add: sample_hash_def)

lemma sample_signature:
  "verify_burn_signature sample_platform sample_wallet (ethereum_signed_message_hash sample_platform h)
     (key 1 @ key 1 @ [27]) = Inr ()"
proof -
  have "be_nat (key 1) < SECP256K1_N" "be_nat (key 1) < SECP256K1_N_H"
    by (simp_all add: be_nat_def key_list SECP256K1_N_def SECP256K1_N_H_def)
  moreover have "evm_address sample_platform (key 1 @ key 1) = sample_burn_signer"
    by (simp add: evm_address_def sample_platform_def sample_hash_def sample_burn_signer_def key_list numeral_eq_Suc)
  ultimately show ?thesis
    by (simp add: verify_burn_signature_Inr recover_evm_signer_Inr ethereum_signed_message_hash_def nth_append)
       (simp add: sample_platform_def)
qed

lemma sample_bound: "length sample_burn_data < 2 ^ 64" "500 \<le> length sample_burn_data"
  by (simp_all add: sample_burn_data_facts(1))

lemma sample_intent_reads:
  "bd_value sample_burn_data = Inr 80" "bd_max_fee sample_burn_data = Inr 10"
  "bd_max_block_height sample_burn_data = Inr 900"
  using sample_burn_data_facts(4)
  by (simp_all add: burn_wide_accessors [OF sample_bound] sample_burn_data_facts(2) narrow_fields_def sample_intent_def)

lemma sample_message_length: "burn_intent_message_length sample_burn_data = Inr 428"
  by (simp add: burn_intent_message_length_def usize_Inr burn_offset_defs sample_burn_data_facts(1) sub_usize_def)

lemma sample_spec: "bd_transfer_spec_hash sample_platform sample_burn_data = Inr sample_spec_hash"
  using burn_data_spec_hash(2) [OF sample_bound(1) sample_burn_data_facts(3), of sample_platform]
  by (simp add: sample_spec_hash_def sample_platform_def)

lemma sample_user: "verify_user_signature (sample_burn_call outer) 428 = Inr ()"
  by (simp add: verify_user_signature_Inr sample_burn_call_def expected_ed_header_def BURN_DATA_OFFSET_def burn_offset_defs DISCRIMINATOR_SIZE_def u16_of_def)


lemma sample_platform_simps [simp]: "minimum_balance sample_platform n = 10"
  "sys_create_account sample_platform = sample_create"
  by (simp_all add: sample_platform_def)

lemma sample_burn_call_runs:
  "\<exists>l' es. gateway_burn sample_platform (sample_burn_call outer) sample_burn_ctx sample_burn_params sample_ledger = Inr (l', es)"
proof -
  note msg = sample_burn_data_facts(3) sample_intent_reads sample_message_length sample_spec
     burn_accessors [OF sample_bound, unfolded sample_burn_data_facts(2)]
  have acc: "gateway_burn_accounts sample_platform (sample_burn_call outer) sample_burn_ctx sample_ledger =
    Inr (sample_wallet, sample_token W_KEY 500, sample_alice_deposit, None)"
    by (simp add: gateway_burn_accounts_def sample_burn_ctx_def sample_burn_call_def sample_checks load_optional_delegate_def
      check_associated_token_def get_associated_token_address_def check_delegate_pda_def)
  have intent: "check_burn_intent (sample_burn_call outer) sample_burn_ctx sample_wallet (sample_token W_KEY 500) sample_alice_deposit None
     sample_burn_data = Inr (80, 3)"
    by (simp add: check_burn_intent_def msg sample_intent_def sample_burn_call_def sample_burn_ctx_def add_u64_def validate_signer_authorization_def)
  have mark: "mark_burn_hash sample_platform (sample_burn_call outer) sample_burn_ctx sample_spec_hash sample_ledger = Inr
     (sample_ledger(ALICE := take_lamports 10 (sample_ledger ALICE),
       MARK_KEY := \<lparr> acc_lamports = 10, acc_owner = WALLET_PROGRAM_ID, acc_data = Raw [21, 4] \<rparr>))"
    by (simp add: mark_burn_hash_def index_checked_def find_program_address_def ok_or_def sample_burn_ctx_def is_transfer_spec_hash_used_def
     empty_account_def create_used_transfer_spec_hash_account_def Let_def DISCRIMINATOR_SIZE_def system_create_account_def cpi_signers_def
     check_privileges_def sample_burn_call_def USED_TRANSFER_SPEC_HASH_ACCOUNT_SPACE_def write_discriminator_def WALLET_USED_MARKER_def
     sample_create_def two_zeros)
  show ?thesis
    unfolding gateway_burn_def acc
    by (simp add: sample_burn_params_def sample_signature msg sample_user intent mark)
       (simp add: sample_burn_ctx_def sample_burn_call_def reduce_balance_def pay_fee_def burn_token_def
         saturating_sub_u64_def add_u64_def sub_u64_def sample_steps)
qed

lemma sample_burn_runs:
  "\<exists>l' es. gateway_burn sample_platform sample_burn_tx sample_burn_ctx sample_burn_params sample_ledger = Inr (l', es)"
  unfolding sample_burn_tx_def by (rule sample_burn_call_runs)

section \<open>An accepted delegation\<close>

definition BOB :: pubkey where "BOB = key 9"
definition BOB_DENY :: pubkey where "BOB_DENY = pda [DENYLIST_SEED, BOB] WALLET_PROGRAM_ID"
definition DELEGATION_KEY :: pubkey where
  "DELEGATION_KEY = pda [GATEWAY_DELEGATE_SEED, MINT_KEY, ALICE, BOB] WALLET_PROGRAM_ID"

lemmas bob_key_defs = BOB_def BOB_DENY_def DELEGATION_KEY_def sample_key_defs

lemma bob_keys_neq [simp]:
  "DELEGATION_KEY \<noteq> W_KEY" "DELEGATION_KEY \<noteq> MINT_KEY" "DELEGATION_KEY \<noteq> CUSTODY_KEY" "DELEGATION_KEY \<noteq> FEE_KEY"
  "DELEGATION_KEY \<noteq> ALICE_TOKENS" "DELEGATION_KEY \<noteq> DEPOSIT_KEY" "DELEGATION_KEY \<noteq> ALICE"
  "BOB_DENY \<noteq> W_KEY" "BOB_DENY \<noteq> MINT_KEY" "BOB_DENY \<noteq> CUSTODY_KEY" "BOB_DENY \<noteq> FEE_KEY"
  "BOB_DENY \<noteq> ALICE_TOKENS" "BOB_DENY \<noteq> DEPOSIT_KEY" "BOB_DENY \<noteq> ALICE" "BOB_DENY \<noteq> DELEGATION_KEY"
  "DELEGATION_KEY \<noteq> M_KEY" "DELEGATION_KEY \<noteq> M_CUSTODY" "BOB_DENY \<noteq> M_KEY" "BOB_DENY \<noteq> M_CUSTODY"
  "ALICE_DENY \<noteq> DELEGATION_KEY" "ALICE_DENY \<noteq> ALICE"
  by (simp_all add: bob_key_defs ALICE_DENY_def sample_hash_def key_list seed_defs WALLET_PROGRAM_ID_def
      TOKEN_PROGRAM_ID_def MINTER_PROGRAM_ID_def)

lemmas bob_keys_neq' [simp] = bob_keys_neq [symmetric]

lemma BOB_simps [simp]: "length BOB = 32" "BOB \<noteq> default_pubkey" "BOB \<noteq> ALICE"
  by (simp_all add: BOB_def ALICE_def key_list default_pubkey_list)

lemma bob_off_curve: "\<not> sample_curve BOB_DENY" "\<not> sample_curve DELEGATION_KEY"
  by (simp_all add: bob_key_defs sample_curve_def sample_hash_def key_list seed_defs WALLET_PROGRAM_ID_def)

lemmas bob_pdas [simp] =
  sample_pda [of "[DENYLIST_SEED, BOB]" WALLET_PROGRAM_ID, folded BOB_DENY_def, simplified bob_off_curve, simplified]
  sample_pda [of "[GATEWAY_DELEGATE_SEED, MINT_KEY, ALICE, BOB]" WALLET_PROGRAM_ID, folded DELEGATION_KEY_def,
    simplified bob_off_curve, simplified]

lemma bob_new [simp]: "sample_ledger DELEGATION_KEY = empty_account" "sample_ledger BOB_DENY = empty_account"
  by (simp_all add: sample_ledger_def)

definition sample_delegate_ctx :: AddDelegateContext where
  "sample_delegate_ctx = \<lparr> ad_payer = ALICE, ad_depositor = ALICE, ad_gateway_wallet = W_KEY,
     ad_token_mint = MINT_KEY, ad_delegate_account = DELEGATION_KEY, ad_depositor_denylist = ALICE_DENY,
     ad_delegate_denylist = BOB_DENY, ad_system_program = SYSTEM_PROGRAM_ID \<rparr>"

definition sample_delegate_tx :: transaction where
  "sample_delegate_tx = sample_tx\<lparr> tx_writable := [ALICE, DELEGATION_KEY] \<rparr>"

lemma sample_add_delegate_runs:
  "\<exists>l'. add_delegate sample_platform sample_delegate_tx sample_delegate_ctx BOB sample_ledger =
     Inr (l', [DelegateAdded MINT_KEY ALICE BOB])"
  by (simp add: add_delegate_def add_delegate_accounts_def sample_delegate_ctx_def sample_delegate_tx_def
      sample_tx_def sample_checks init_if_needed_def create_init_account_def is_account_denylisted_def
      empty_account_def is_token_supported_def sample_steps exit_delegate_def system_create_account_def
      sample_create_def)

end
