(* ===== verification/MinterAdmin.thy ===== *)
theory MinterAdmin
  imports Views Registry
begin

text \<open>
  Administration of the GatewayMinter: initialize.rs, the two-step ownership transfer, the roles, the
  attesters, add_token.rs, burn_token_custody.rs and the pause switch.  The layout follows WalletAdmin;
  the names carry the prefix \<open>minter\<close>.
\<close>

type_synonym minter_outcome = "(ledger \<times> MinterEvent list) minter_result"

definition check_minter_pda :: "platform \<Rightarrow> pubkey \<Rightarrow> GatewayMinter \<Rightarrow> unit minter_result" where
  "check_minter_pda pf k m = check_seeds_bump pf MINTER_PROGRAM_ID k [GATEWAY_MINTER_SEED] (gm_bump m)"

lemma check_minter_pda_Inr [result_simps]:
  "check_minter_pda pf k m = Inr u \<longleftrightarrow>
     create_program_address pf [GATEWAY_MINTER_SEED, [gm_bump m]] MINTER_PROGRAM_ID = Inr k"
  by (simp add: check_minter_pda_def result_simps)

section \<open>initialize\<close>

record MinterInitializeContext =
  mn_payer :: pubkey
  mn_upgrade_authority :: pubkey
  mn_gateway_minter :: pubkey
  mn_program_data :: pubkey
  mn_program :: pubkey
  mn_system_program :: pubkey

definition minter_initialize_accounts ::
    "platform \<Rightarrow> transaction \<Rightarrow> MinterInitializeContext \<Rightarrow> ledger \<Rightarrow>
     (GatewayMinter \<times> u8 \<times> ledger) minter_result" where
  "minter_initialize_accounts pf tx c l =
     and_then (load_signer tx (mn_payer c)) (\<lambda>_.
     and_then (load_signer tx (mn_upgrade_authority c)) (\<lambda>_.
     and_then (load_program_data l (mn_program_data c)) (\<lambda>upgrade_authority_address.
     and_then (load_program (mn_program c) MINTER_PROGRAM_ID) (\<lambda>_.
     and_then (load_program (mn_system_program c) SYSTEM_PROGRAM_ID) (\<lambda>_.
     and_then (init_account pf MINTER_PROGRAM_ID tx (mn_payer c) (mn_gateway_minter c)
                 [GATEWAY_MINTER_SEED] MINTER_SPACE zeroed_GatewayMinter l)
       (\<lambda>(gateway_minter, gateway_minter_bump, l).
     and_then (check_mut tx (mn_payer c)) (\<lambda>_.
     and_then (require (upgrade_authority_address = Some (mn_upgrade_authority c))
                (Anchor ConstraintRaw)) (\<lambda>_.
     and_then (programdata_address l (mn_program c)) (\<lambda>address.
     and_then (require (address = Some (mn_program_data c)) (Anchor ConstraintRaw)) (\<lambda>_.
     Inr (gateway_minter, gateway_minter_bump, l)))))))))))"

definition minter_initialize ::
    "platform \<Rightarrow> transaction \<Rightarrow> MinterInitializeContext \<Rightarrow> u32 \<Rightarrow> ledger \<Rightarrow> minter_outcome" where
  "minter_initialize pf tx c params_local_domain l =
     and_then (minter_initialize_accounts pf tx c l) (\<lambda>(gateway_minter, gateway_minter_bump, l).
     let upgrade_authority = mn_upgrade_authority c;
         gateway_minter = gateway_minter\<lparr> gm_bump := gateway_minter_bump,
           gm_local_domain := params_local_domain, gm_version := 1, gm_owner := upgrade_authority,
           gm_pending_owner := default_pubkey, gm_pauser := upgrade_authority,
           gm_token_controller := upgrade_authority, gm_paused := False \<rparr> in
     and_then (exit_minter (mn_gateway_minter c) gateway_minter l) (\<lambda>l.
     Inr (l, [GatewayMinterInitialized])))"

section \<open>Instructions of one role\<close>

record MinterRoleContext =
  mr_signer :: pubkey
  mr_gateway_minter :: pubkey

text \<open>\<open>mut, seeds, bump = gateway_minter.bump, has_one = <role> @ InvalidAuthority\<close>.\<close>

definition minter_role_accounts ::
    "platform \<Rightarrow> transaction \<Rightarrow> MinterRoleContext \<Rightarrow> (GatewayMinter \<Rightarrow> pubkey) \<Rightarrow> ledger \<Rightarrow>
     GatewayMinter minter_result" where
  "minter_role_accounts pf tx c role l =
     and_then (load_signer tx (mr_signer c)) (\<lambda>_.
     and_then (load_minter l (mr_gateway_minter c)) (\<lambda>gateway_minter.
     and_then (check_minter_pda pf (mr_gateway_minter c) gateway_minter) (\<lambda>_.
     and_then (check_mut tx (mr_gateway_minter c)) (\<lambda>_.
     and_then (require (role gateway_minter = mr_signer c) (Custom GatewayMinterError.InvalidAuthority)) (\<lambda>_.
     Inr gateway_minter)))))"

definition minter_finish ::
    "MinterRoleContext \<Rightarrow> GatewayMinter \<Rightarrow> MinterEvent \<Rightarrow> ledger \<Rightarrow> minter_outcome" where
  "minter_finish c m event l = and_then (exit_minter (mr_gateway_minter c) m l) (\<lambda>l. Inr (l, [event]))"

definition minter_transfer_ownership ::
    "platform \<Rightarrow> transaction \<Rightarrow> MinterRoleContext \<Rightarrow> pubkey \<Rightarrow> ledger \<Rightarrow> minter_outcome" where
  "minter_transfer_ownership pf tx c new_owner l =
     and_then (minter_role_accounts pf tx c gm_owner l) (\<lambda>state.
     let state = state\<lparr> gm_pending_owner := new_owner \<rparr> in
     minter_finish c state
       (MinterEvent.OwnershipTransferStarted (gm_owner state) (gm_pending_owner state)) l)"

definition minter_accept_ownership ::
    "platform \<Rightarrow> transaction \<Rightarrow> MinterRoleContext \<Rightarrow> ledger \<Rightarrow> minter_outcome" where
  "minter_accept_ownership pf tx c l =
     and_then (minter_role_accounts pf tx c gm_pending_owner l) (\<lambda>state.
     let previous_owner = gm_owner state;
         state = state\<lparr> gm_owner := gm_pending_owner state, gm_pending_owner := default_pubkey \<rparr> in
     minter_finish c state (MinterEvent.OwnershipTransferred previous_owner (gm_owner state)) l)"

definition minter_update_pauser ::
    "platform \<Rightarrow> transaction \<Rightarrow> MinterRoleContext \<Rightarrow> pubkey \<Rightarrow> ledger \<Rightarrow> minter_outcome" where
  "minter_update_pauser pf tx c new_pauser l =
     and_then (minter_role_accounts pf tx c gm_owner l) (\<lambda>state.
     and_then (require (new_pauser \<noteq> default_pubkey) (Custom GatewayMinterError.InvalidPauser)) (\<lambda>_.
     let old_pauser = gm_pauser state; state = state\<lparr> gm_pauser := new_pauser \<rparr> in
     minter_finish c state (MinterEvent.PauserChanged old_pauser (gm_pauser state)) l))"

definition minter_update_token_controller ::
    "platform \<Rightarrow> transaction \<Rightarrow> MinterRoleContext \<Rightarrow> pubkey \<Rightarrow> ledger \<Rightarrow> minter_outcome" where
  "minter_update_token_controller pf tx c new_token_controller l =
     and_then (minter_role_accounts pf tx c gm_owner l) (\<lambda>state.
     and_then (require (new_token_controller \<noteq> default_pubkey)
                (Custom GatewayMinterError.InvalidTokenController)) (\<lambda>_.
     let previous_token_controller = gm_token_controller state;
         state = state\<lparr> gm_token_controller := new_token_controller \<rparr> in
     minter_finish c state
       (MinterEvent.TokenControllerUpdated previous_token_controller (gm_token_controller state)) l))"

definition add_attester_ix ::
    "platform \<Rightarrow> transaction \<Rightarrow> MinterRoleContext \<Rightarrow> pubkey \<Rightarrow> ledger \<Rightarrow> minter_outcome" where
  "add_attester_ix pf tx c attester l =
     and_then (minter_role_accounts pf tx c gm_owner l) (\<lambda>state.
     and_then (require (attester \<noteq> default_pubkey) (Custom InvalidAttester)) (\<lambda>_.
     and_then (add_attester state attester) (\<lambda>state.
     minter_finish c state (AttestationSignerAdded attester) l)))"

definition remove_attester_ix ::
    "platform \<Rightarrow> transaction \<Rightarrow> MinterRoleContext \<Rightarrow> pubkey \<Rightarrow> ledger \<Rightarrow> minter_outcome" where
  "remove_attester_ix pf tx c attester l =
     and_then (minter_role_accounts pf tx c gm_owner l) (\<lambda>state.
     and_then (remove_attester state attester) (\<lambda>state.
     minter_finish c state (AttestationSignerRemoved attester) l))"

definition minter_pause ::
    "platform \<Rightarrow> transaction \<Rightarrow> MinterRoleContext \<Rightarrow> ledger \<Rightarrow> minter_outcome" where
  "minter_pause pf tx c l =
     and_then (minter_role_accounts pf tx c gm_pauser l) (\<lambda>state.
     minter_finish c (state\<lparr> gm_paused := True \<rparr>) (MinterEvent.Paused (mr_signer c)) l)"

definition minter_unpause ::
    "platform \<Rightarrow> transaction \<Rightarrow> MinterRoleContext \<Rightarrow> ledger \<Rightarrow> minter_outcome" where
  "minter_unpause pf tx c l =
     and_then (minter_role_accounts pf tx c gm_pauser l) (\<lambda>state.
     minter_finish c (state\<lparr> gm_paused := False \<rparr>) (MinterEvent.Unpaused (mr_signer c)) l)"

section \<open>add_token\<close>

record MinterAddTokenContext =
  ma_payer :: pubkey
  ma_token_controller :: pubkey
  ma_gateway_minter :: pubkey
  ma_token_mint :: pubkey
  ma_custody_token_account :: pubkey
  ma_token_program :: pubkey
  ma_system_program :: pubkey

definition minter_add_token_accounts ::
    "platform \<Rightarrow> transaction \<Rightarrow> MinterAddTokenContext \<Rightarrow> ledger \<Rightarrow>
     (GatewayMinter \<times> u8 \<times> ledger) minter_result" where
  "minter_add_token_accounts pf tx c l =
     and_then (load_signer tx (ma_payer c)) (\<lambda>_.
     and_then (load_signer tx (ma_token_controller c)) (\<lambda>_.
     and_then (load_minter l (ma_gateway_minter c)) (\<lambda>gateway_minter.
     and_then (load_mint l (ma_token_mint c)) (\<lambda>_.
     and_then (load_program (ma_token_program c) TOKEN_PROGRAM_ID) (\<lambda>_.
     and_then (load_program (ma_system_program c) SYSTEM_PROGRAM_ID) (\<lambda>_.
     and_then (init_token_account pf MINTER_PROGRAM_ID tx (ma_payer c) (ma_custody_token_account c)
                 [GATEWAY_MINTER_CUSTODY_SEED, ma_token_mint c] (ma_token_mint c) (ma_gateway_minter c)
                 True l) (\<lambda>(_, custody_bump, l).
     and_then (check_mut tx (ma_payer c)) (\<lambda>_.
     and_then (check_minter_pda pf (ma_gateway_minter c) gateway_minter) (\<lambda>_.
     and_then (check_mut tx (ma_gateway_minter c)) (\<lambda>_.
     and_then (require (gm_token_controller gateway_minter = ma_token_controller c)
                (Custom GatewayMinterError.InvalidAuthority)) (\<lambda>_.
     Inr (gateway_minter, custody_bump, l))))))))))))"

definition minter_add_token_ix ::
    "platform \<Rightarrow> transaction \<Rightarrow> MinterAddTokenContext \<Rightarrow> ledger \<Rightarrow> minter_outcome" where
  "minter_add_token_ix pf tx c l =
     and_then (minter_add_token_accounts pf tx c l) (\<lambda>(gateway_minter, custody_bump, l).
     and_then (minter_add_token gateway_minter (ma_token_mint c) custody_bump) (\<lambda>gateway_minter.
     and_then (exit_minter (ma_gateway_minter c) gateway_minter l) (\<lambda>l.
     Inr (l, [MinterEvent.TokenSupported (ma_token_mint c) (ma_custody_token_account c)]))))"

section \<open>burn_token_custody\<close>

record BurnTokenCustodyContext =
  bc_token_controller :: pubkey
  bc_gateway_minter :: pubkey
  bc_token_mint :: pubkey
  bc_custody_token_account :: pubkey
  bc_token_program :: pubkey

text \<open>\<open>GatewayMinter::burn_token_custody\<close>, a CPI to burn under the minter's PDA.\<close>

definition burn_token_custody ::
    "platform \<Rightarrow> transaction \<Rightarrow> pubkey \<Rightarrow> pubkey \<Rightarrow> u8 \<Rightarrow> pubkey \<Rightarrow> u64 \<Rightarrow> ledger \<Rightarrow> ledger minter_result" where
  "burn_token_custody pf tx mint authority authority_bump custody_account amount l =
     token_burn pf MINTER_PROGRAM_ID tx (Some [GATEWAY_MINTER_SEED, [authority_bump]])
       mint custody_account authority amount l"

text \<open>\<open>seeds = [CUSTODY, mint], bump = gateway_minter.get_custody_token_account_bump(mint)?\<close>.\<close>

definition check_minter_custody_pda ::
    "platform \<Rightarrow> GatewayMinter \<Rightarrow> pubkey \<Rightarrow> pubkey \<Rightarrow> unit minter_result" where
  "check_minter_custody_pda pf m mint k =
     and_then (minter_get_custody_token_account_bump m mint) (\<lambda>bump.
     check_seeds_bump pf MINTER_PROGRAM_ID k [GATEWAY_MINTER_CUSTODY_SEED, mint] bump)"

definition burn_token_custody_accounts ::
    "platform \<Rightarrow> transaction \<Rightarrow> BurnTokenCustodyContext \<Rightarrow> ledger \<Rightarrow>
     (GatewayMinter \<times> TokenAccount) minter_result" where
  "burn_token_custody_accounts pf tx c l =
     and_then (load_signer tx (bc_token_controller c)) (\<lambda>_.
     and_then (load_minter l (bc_gateway_minter c)) (\<lambda>gateway_minter.
     and_then (load_mint l (bc_token_mint c)) (\<lambda>_.
     and_then (load_token l (bc_custody_token_account c)) (\<lambda>custody_token_account.
     and_then (load_program (bc_token_program c) TOKEN_PROGRAM_ID) (\<lambda>_.
     and_then (check_mut tx (bc_token_controller c)) (\<lambda>_.
     and_then (check_minter_pda pf (bc_gateway_minter c) gateway_minter) (\<lambda>_.
     and_then (require (gm_token_controller gateway_minter = bc_token_controller c)
                (Custom GatewayMinterError.InvalidAuthority)) (\<lambda>_.
     and_then (check_mut tx (bc_token_mint c)) (\<lambda>_.
     and_then (check_minter_custody_pda pf gateway_minter (bc_token_mint c)
                 (bc_custody_token_account c)) (\<lambda>_.
     and_then (check_mut tx (bc_custody_token_account c)) (\<lambda>_.
     and_then (check_token_owner custody_token_account (bc_gateway_minter c)) (\<lambda>_.
     and_then (check_token_mint custody_token_account (bc_token_mint c)) (\<lambda>_.
     Inr (gateway_minter, custody_token_account))))))))))))))"

definition burn_token_custody_ix ::
    "platform \<Rightarrow> transaction \<Rightarrow> BurnTokenCustodyContext \<Rightarrow> u64 \<Rightarrow> ledger \<Rightarrow> minter_outcome" where
  "burn_token_custody_ix pf tx c amount l =
     and_then (burn_token_custody_accounts pf tx c l) (\<lambda>(gateway_minter, custody_token_account).
     and_then (require (amount \<noteq> 0) (Custom InvalidBurnAmount)) (\<lambda>_.
     let burn_amount = (if ta_amount custody_token_account > amount then amount
                        else ta_amount custody_token_account) in
     and_then (burn_token_custody pf tx (bc_token_mint c) (bc_gateway_minter c) (gm_bump gateway_minter)
                 (bc_custody_token_account c) burn_amount l) (\<lambda>l.
     Inr (l, [TokenCustodyBurned (bc_token_mint c) (bc_custody_token_account c) burn_amount]))))"

end
