(* ===== verification/Attestation.thy ===== *)
theory Attestation
  imports MinterTypes FieldReader
begin

text \<open>
  The mint attestation set (programs/gateway-minter/src/attestation.rs): the zero-copy iterator
  \<open>MintAttestation\<close> with its accessors, and the encoder \<open>MintAttestationStruct::encode_attestation\<close>.
  The lemmas relate them: the iterator accepts exactly the encodings, and reads back every field.
\<close>

section \<open>The iterator\<close>

record MintAttestation =
  ma_data :: bytes
  ma_offset :: nat
  ma_index :: u32
  ma_num_elements :: u32

definition ATTESTATION_SET_MAGIC :: u32 where "ATTESTATION_SET_MAGIC = 0x10cbb1ec"

definition MAGIC_OFFSET :: nat where "MAGIC_OFFSET = 0"
definition VERSION_OFFSET :: nat where "VERSION_OFFSET = 4"
definition DESTINATION_DOMAIN_OFFSET :: nat where "DESTINATION_DOMAIN_OFFSET = 8"
definition DESTINATION_CONTRACT_OFFSET :: nat where "DESTINATION_CONTRACT_OFFSET = 12"
definition DESTINATION_CALLER_OFFSET :: nat where "DESTINATION_CALLER_OFFSET = 44"
definition MAX_BLOCK_HEIGHT_OFFSET :: nat where "MAX_BLOCK_HEIGHT_OFFSET = 76"
definition NUM_ATTESTATIONS_OFFSET :: nat where "NUM_ATTESTATIONS_OFFSET = 84"
definition ATTESTATIONS_OFFSET :: nat where "ATTESTATIONS_OFFSET = 88"
definition DESTINATION_TOKEN_OFFSET :: nat where "DESTINATION_TOKEN_OFFSET = 0"
definition DESTINATION_RECIPIENT_OFFSET :: nat where "DESTINATION_RECIPIENT_OFFSET = 32"
definition VALUE_OFFSET :: nat where "VALUE_OFFSET = 64"
definition TRANSFER_SPEC_HASH_OFFSET :: nat where "TRANSFER_SPEC_HASH_OFFSET = 72"
definition HOOK_DATA_LENGTH_OFFSET :: nat where "HOOK_DATA_LENGTH_OFFSET = 104"
definition HOOK_DATA_OFFSET :: nat where "HOOK_DATA_OFFSET = 108"

lemmas offset_defs = MAGIC_OFFSET_def VERSION_OFFSET_def DESTINATION_DOMAIN_OFFSET_def
  DESTINATION_CONTRACT_OFFSET_def DESTINATION_CALLER_OFFSET_def MAX_BLOCK_HEIGHT_OFFSET_def
  NUM_ATTESTATIONS_OFFSET_def ATTESTATIONS_OFFSET_def DESTINATION_TOKEN_OFFSET_def
  DESTINATION_RECIPIENT_OFFSET_def VALUE_OFFSET_def TRANSFER_SPEC_HASH_OFFSET_def
  HOOK_DATA_LENGTH_OFFSET_def HOOK_DATA_OFFSET_def

text \<open>The private helpers, with this format's error.\<close>

definition att_checked_add :: "nat \<Rightarrow> nat \<Rightarrow> nat minter_result" where
  "att_checked_add = checked_add MalformedMintAttestation"

definition att_read_bytes :: "nat \<Rightarrow> bytes \<Rightarrow> nat \<Rightarrow> bytes minter_result" where
  "att_read_bytes = read_bytes MalformedMintAttestation"

definition att_read_u32 :: "bytes \<Rightarrow> nat \<Rightarrow> u32 minter_result" where
  "att_read_u32 = read_u32 MalformedMintAttestation"

definition att_read_u64 :: "bytes \<Rightarrow> nat \<Rightarrow> u64 minter_result" where
  "att_read_u64 = read_u64 MalformedMintAttestation"

definition att_read_pubkey :: "bytes \<Rightarrow> nat \<Rightarrow> pubkey minter_result" where
  "att_read_pubkey = read_pubkey MalformedMintAttestation"

interpretation att: field_reader att_read_bytes att_read_u32 att_read_u64 att_read_pubkey
  by unfold_locales
    (simp_all add: att_read_bytes_def att_read_u32_def att_read_u64_def att_read_pubkey_def
      read_u32_def read_u64_def read_pubkey_def read_bytes_ok)

text \<open>Accessors of the set header and of the current element.\<close>

definition magic :: "MintAttestation \<Rightarrow> u32 minter_result" where
  "magic a = att_read_u32 (ma_data a) MAGIC_OFFSET"

definition num_attestations :: "MintAttestation \<Rightarrow> u32 minter_result" where
  "num_attestations a = att_read_u32 (ma_data a) NUM_ATTESTATIONS_OFFSET"

definition version :: "MintAttestation \<Rightarrow> u32 minter_result" where
  "version a = att_read_u32 (ma_data a) VERSION_OFFSET"

definition destination_domain :: "MintAttestation \<Rightarrow> u32 minter_result" where
  "destination_domain a = att_read_u32 (ma_data a) DESTINATION_DOMAIN_OFFSET"

definition destination_contract :: "MintAttestation \<Rightarrow> pubkey minter_result" where
  "destination_contract a = att_read_pubkey (ma_data a) DESTINATION_CONTRACT_OFFSET"

definition destination_caller :: "MintAttestation \<Rightarrow> pubkey minter_result" where
  "destination_caller a = att_read_pubkey (ma_data a) DESTINATION_CALLER_OFFSET"

definition max_block_height :: "MintAttestation \<Rightarrow> u64 minter_result" where
  "max_block_height a = att_read_u64 (ma_data a) MAX_BLOCK_HEIGHT_OFFSET"

definition destination_token :: "MintAttestation \<Rightarrow> pubkey minter_result" where
  "destination_token a =
     and_then (att_checked_add (ma_offset a) DESTINATION_TOKEN_OFFSET) (att_read_pubkey (ma_data a))"

definition destination_recipient :: "MintAttestation \<Rightarrow> pubkey minter_result" where
  "destination_recipient a =
     and_then (att_checked_add (ma_offset a) DESTINATION_RECIPIENT_OFFSET) (att_read_pubkey (ma_data a))"

definition attestation_value :: "MintAttestation \<Rightarrow> u64 minter_result" where
  "attestation_value a = and_then (att_checked_add (ma_offset a) VALUE_OFFSET) (att_read_u64 (ma_data a))"

definition transfer_spec_hash :: "MintAttestation \<Rightarrow> bytes minter_result" where
  "transfer_spec_hash a =
     and_then (att_checked_add (ma_offset a) TRANSFER_SPEC_HASH_OFFSET) (att_read_bytes 32 (ma_data a))"

definition hook_data_length :: "MintAttestation \<Rightarrow> u32 minter_result" where
  "hook_data_length a =
     and_then (att_checked_add (ma_offset a) HOOK_DATA_LENGTH_OFFSET) (att_read_u32 (ma_data a))"

definition hook_data :: "MintAttestation \<Rightarrow> bytes minter_result" where
  "hook_data a =
     and_then (att_checked_add (ma_offset a) HOOK_DATA_OFFSET) (\<lambda>hook_data_offset.
     and_then (hook_data_length a) (\<lambda>n.
     and_then (att_checked_add hook_data_offset (unat n)) (slice (ma_data a) hook_data_offset)))"

text \<open>\<open>MintAttestation::new\<close>.\<close>

definition attestation_new :: "bytes \<Rightarrow> MintAttestation minter_result" where
  "attestation_new message_bytes =
     and_then (require (length message_bytes \<ge> ATTESTATIONS_OFFSET + HOOK_DATA_OFFSET)
                (Custom AttestationTooShort)) (\<lambda>_.
     let a = \<lparr> ma_data = message_bytes, ma_offset = 0, ma_index = 0, ma_num_elements = 0 \<rparr> in
     and_then (magic a) (\<lambda>m.
     and_then (require (m = ATTESTATION_SET_MAGIC) (Custom AttestationMagicMismatch)) (\<lambda>_.
     and_then (num_attestations a) (\<lambda>n.
     let a = a\<lparr> ma_num_elements := n, ma_offset := ATTESTATIONS_OFFSET \<rparr> in
     and_then (require (ma_num_elements a > 0) (Custom EmptyAttestationSet)) (\<lambda>_. Inr a)))))"

text \<open>\<open>next\<close>: the length of the current element, the step to the following one, and its checks.\<close>

definition attestation_length :: "MintAttestation \<Rightarrow> nat minter_result" where
  "attestation_length a =
     and_then (hook_data_length a) (\<lambda>n. att_checked_add HOOK_DATA_OFFSET (unat n))"

definition attestation_next :: "MintAttestation \<Rightarrow> (MintAttestation \<times> bool) minter_result" where
  "attestation_next a =
     (if ma_index a \<ge> ma_num_elements a then Inr (a, False)
      else
        and_then (if ma_index a > 0
                  then and_then (attestation_length a) (\<lambda>n.
                       and_then (att_checked_add (ma_offset a) n) (\<lambda>offset.
                       Inr (a\<lparr> ma_offset := offset \<rparr>)))
                  else Inr a) (\<lambda>a.
        let a = a\<lparr> ma_index := ma_index a + 1 \<rparr> in
        and_then (sub_usize (length (ma_data a)) (ma_offset a)) (\<lambda>remaining_length.
        and_then (require (remaining_length \<ge> HOOK_DATA_OFFSET) (Custom AttestationTooShort)) (\<lambda>_.
        and_then (attestation_length a) (\<lambda>n.
        and_then (require (remaining_length \<ge> n) (Custom AttestationTooShort)) (\<lambda>_.
        and_then (if ma_index a = ma_num_elements a
                  then and_then (add_usize (ma_offset a) n) (\<lambda>end.
                       require (end = length (ma_data a)) (Custom AttestationTooLong))
                  else Inr ()) (\<lambda>_.
        Inr (a, True))))))))"

text \<open>The index strictly grows towards \<open>num_elements\<close>, so a loop over \<open>next\<close> ends.\<close>

lemma attestation_next_index:
  assumes "attestation_next a = Inr (a', True)"
  shows "unat (ma_index a') = Suc (unat (ma_index a))" "ma_num_elements a' = ma_num_elements a"
    "ma_data a' = ma_data a" "unat (ma_index a) < unat (ma_num_elements a)"
proof -
  from assms have lt: "ma_index a < ma_num_elements a" and
    "ma_index a' = ma_index a + 1" and "ma_num_elements a' = ma_num_elements a" "ma_data a' = ma_data a"
    by (auto simp: attestation_next_def result_simps Let_def split: if_splits)
  then show "unat (ma_index a') = Suc (unat (ma_index a))" "ma_num_elements a' = ma_num_elements a"
    "ma_data a' = ma_data a" "unat (ma_index a) < unat (ma_num_elements a)"
    by (simp_all add: unat_Suc_below word_less_nat_alt [symmetric])
qed

text \<open>\<open>while attestation.next()? { body }\<close>.\<close>

function while_next ::
    "(MintAttestation \<Rightarrow> 's \<Rightarrow> 's minter_result) \<Rightarrow> MintAttestation \<Rightarrow> 's \<Rightarrow> 's minter_result" where
  "while_next body a s =
     (case attestation_next a of
        Inl e \<Rightarrow> Inl e
      | Inr (a', found) \<Rightarrow> if found then and_then (body a' s) (while_next body a') else Inr s)"
  by pat_completeness auto
termination
proof (relation "measure (\<lambda>(_, a, _). unat (ma_num_elements a) - unat (ma_index a))")
  fix body :: "MintAttestation \<Rightarrow> 's \<Rightarrow> 's minter_result" and a r a' found and s x :: 's
  assume "attestation_next a = Inr r" "(a', found) = r" "found"
  then have "attestation_next a = Inr (a', True)" by auto
  from attestation_next_index [OF this]
  show "((body, a', x), body, a, s) \<in> measure (\<lambda>(_, a, _). unat (ma_num_elements a) - unat (ma_index a))"
    by simp
qed simp

declare while_next.simps [simp del]

section \<open>The encoder\<close>

record MintAttestationElementStruct =
  el_destination_token :: bytes
  el_destination_recipient :: bytes
  el_value :: u64
  el_transfer_spec_hash :: bytes
  el_hook_data :: bytes

record MintAttestationStruct =
  as_version :: u32
  as_destination_domain :: u32
  as_destination_contract :: bytes
  as_destination_caller :: bytes
  as_max_block_height :: u64
  as_elements :: "MintAttestationElementStruct list"

text \<open>\<open>len() as u32\<close> truncates.\<close>

definition encode_element :: "MintAttestationElementStruct \<Rightarrow> bytes" where
  "encode_element e =
     el_destination_token e @ el_destination_recipient e @ u64_to_be (el_value e) @
     el_transfer_spec_hash e @ u32_to_be (word_of_nat (length (el_hook_data e))) @ el_hook_data e"

definition encode_header :: "MintAttestationStruct \<Rightarrow> bytes" where
  "encode_header s =
     u32_to_be ATTESTATION_SET_MAGIC @ u32_to_be (as_version s) @ u32_to_be (as_destination_domain s) @
     as_destination_contract s @ as_destination_caller s @ u64_to_be (as_max_block_height s) @
     u32_to_be (word_of_nat (length (as_elements s)))"

definition encode_attestation :: "MintAttestationStruct \<Rightarrow> bytes" where
  "encode_attestation s = encode_header s @ concat (map encode_element (as_elements s))"

section \<open>The loop as a recursion over the remaining elements\<close>

text \<open>The hook length stored in the element at offset \<open>i\<close>, and where that element ends.\<close>

definition hook_length_at :: "bytes \<Rightarrow> nat \<Rightarrow> nat" where
  "hook_length_at bs i = unat (u32_from_be (take 4 (drop (i + 104) bs)))"

definition element_end :: "bytes \<Rightarrow> nat \<Rightarrow> nat" where
  "element_end bs i = i + 108 + hook_length_at bs i"

lemma hook_length_at_bound: "hook_length_at bs i < 2 ^ 32"
  using unat_bound [of "u32_from_be (take 4 (drop (i + 104) bs))"] by (simp add: hook_length_at_def)

text \<open>The iterator is ready: before the first element, or on an element that fits.\<close>

definition next_offset :: "MintAttestation \<Rightarrow> nat" where
  "next_offset a = (if ma_index a = 0 then ma_offset a else element_end (ma_data a) (ma_offset a))"

definition ready :: "MintAttestation \<Rightarrow> bool" where
  "ready a \<longleftrightarrow> length (ma_data a) < 2 ^ 64 \<and> next_offset a \<le> length (ma_data a) \<and>
     ma_offset a + 108 \<le> length (ma_data a)"

lemma attestation_length_ok:
  assumes "length (ma_data a) < 2 ^ 64" "ma_offset a + 108 \<le> length (ma_data a)"
  shows "attestation_length a = Inr (108 + hook_length_at (ma_data a) (ma_offset a))"
proof -
  have "hook_data_length a = Inr (u32_from_be (take 4 (drop (ma_offset a + 104) (ma_data a))))"
    using assms
    by (simp add: hook_data_length_def att_checked_add_def checked_add_def offset_defs att.in_range)
  moreover have "108 + hook_length_at (ma_data a) (ma_offset a) < 2 ^ 64"
    using hook_length_at_bound [of "ma_data a" "ma_offset a"] by simp
  ultimately show ?thesis
    by (simp add: attestation_length_def att_checked_add_def checked_add_def offset_defs
        hook_length_at_def)
qed

lemma attestation_next_ready:
  assumes "ready a" and "ma_index a < ma_num_elements a"
  defines "i \<equiv> next_offset a" and "bs \<equiv> ma_data a"
  shows "attestation_next a =
    (if length bs < i + 108 \<or> length bs < element_end bs i then Inl (Custom AttestationTooShort)
     else if ma_index a + 1 = ma_num_elements a \<and> element_end bs i \<noteq> length bs
     then Inl (Custom AttestationTooLong)
     else Inr (a\<lparr> ma_offset := i, ma_index := ma_index a + 1 \<rparr>, True))"
proof -
  have step: "(if ma_index a > 0 then and_then (attestation_length a) (\<lambda>n.
        and_then (att_checked_add (ma_offset a) n) (\<lambda>offset. Inr (a\<lparr> ma_offset := offset \<rparr>)))
      else Inr a) = Inr (a\<lparr> ma_offset := i \<rparr>)"
  proof (cases "ma_index a = 0")
    case True
    then show ?thesis by (simp add: i_def next_offset_def)
  next
    case False
    then have "0 < ma_index a" by (simp add: word_greater_zero_iff)
    with False assms(1) show ?thesis
      by (simp add: i_def next_offset_def ready_def attestation_length_ok att_checked_add_def
          checked_add_def element_end_def add.assoc)
  qed
  have le: "i \<le> length bs" "length bs < 2 ^ 64" using assms(1) by (auto simp: ready_def i_def bs_def)
  show ?thesis
  proof (cases "length bs < i + 108")
    case True
    with le have "\<not> 108 \<le> length bs - i" by simp
    with True le assms(2) show ?thesis
      unfolding attestation_next_def step
      by (simp add: Let_def sub_usize_def bs_def [symmetric] offset_defs require_def not_le)
  next
    case False
    have len: "attestation_length (a\<lparr> ma_offset := i, ma_index := ma_index a + 1 \<rparr>)
        = Inr (108 + hook_length_at bs i)"
      using False le by (subst attestation_length_ok) (auto simp: bs_def)
    from False le assms(2) len hook_length_at_bound [of bs i] show ?thesis
      unfolding attestation_next_def step
      by (auto simp: Let_def sub_usize_def add_usize_def bs_def [symmetric] offset_defs require_def
          element_end_def)
  qed
qed

text \<open>
  \<open>run_elements body num bs s i k n\<close>: the loop with \<open>n\<close> elements to go, the next one at offset \<open>i\<close> with
  index \<open>k\<close>.
\<close>

fun run_elements ::
    "(MintAttestation \<Rightarrow> 's \<Rightarrow> 's minter_result) \<Rightarrow> u32 \<Rightarrow> bytes \<Rightarrow> 's \<Rightarrow> nat \<Rightarrow> nat \<Rightarrow> nat \<Rightarrow> 's minter_result"
where
  "run_elements body num bs s i k 0 = Inr s"
| "run_elements body num bs s i k (Suc n) =
     (if length bs < i + 108 \<or> length bs < element_end bs i then Inl (Custom AttestationTooShort)
      else if n = 0 \<and> element_end bs i \<noteq> length bs then Inl (Custom AttestationTooLong)
      else and_then (body \<lparr> ma_data = bs, ma_offset = i, ma_index = word_of_nat (Suc k),
                           ma_num_elements = num \<rparr> s)
             (\<lambda>s. run_elements body num bs s (element_end bs i) (Suc k) n))"

lemma while_next_run_elements:
  assumes "ready a" and "unat (ma_num_elements a) = unat (ma_index a) + n"
  shows "while_next body a s =
    run_elements body (ma_num_elements a) (ma_data a) s (next_offset a) (unat (ma_index a)) n"
  using assms
proof (induction n arbitrary: a s)
  case 0
  then have "ma_index a \<ge> ma_num_elements a" by (simp add: word_le_nat_alt)
  then show ?case by (simp add: while_next.simps [of body a] attestation_next_def)
next
  case (Suc n)
  let ?i = "next_offset a" and ?bs = "ma_data a"
  let ?a = "a\<lparr> ma_offset := ?i, ma_index := ma_index a + 1 \<rparr>"
  have lt: "ma_index a < ma_num_elements a" using Suc.prems(2) by (simp add: word_less_nat_alt)
  then have idx: "unat (ma_index a + 1) = Suc (unat (ma_index a))"
    by (simp add: unat_Suc_below)
  then have nz: "ma_index a + 1 \<noteq> 0" by auto
  have idx_word: "ma_index a + 1 = word_of_nat (Suc (unat (ma_index a)))" by simp
  have last: "ma_index a + 1 = ma_num_elements a \<longleftrightarrow> n = 0"
    using Suc.prems(2) idx by (metis add.right_neutral add_Suc_right add_left_cancel nat.inject
        unsigned_word_eqI)
  have a_eq: "?a = \<lparr> ma_data = ?bs, ma_offset = ?i, ma_index = word_of_nat (Suc (unat (ma_index a))),
      ma_num_elements = ma_num_elements a \<rparr>" by simp
  note nxt = attestation_next_ready [OF Suc.prems(1) lt, unfolded last]
  show ?case
  proof (cases "length ?bs < ?i + 108 \<or> length ?bs < element_end ?bs ?i \<or>
      n = 0 \<and> element_end ?bs ?i \<noteq> length ?bs")
    case True
    then show ?thesis by (auto simp: while_next.simps [of body a] nxt)
  next
    case False
    have ready': "ready ?a" and off: "next_offset ?a = element_end ?bs ?i"
      using False Suc.prems(1) nz by (auto simp: ready_def next_offset_def)
    have "while_next body ?a s' = run_elements body (ma_num_elements a) ?bs s'
        (element_end ?bs ?i) (Suc (unat (ma_index a))) n" for s'
      using Suc.IH [OF ready', of s'] Suc.prems(2) off idx by simp
    then have loop: "while_next body ?a = (\<lambda>s'. run_elements body (ma_num_elements a) ?bs s'
        (element_end ?bs ?i) (Suc (unat (ma_index a))) n)" by (rule ext)
    have "while_next body a s = and_then (body ?a s) (while_next body ?a)"
      using False by (subst while_next.simps) (auto simp: nxt)
    also have "\<dots> = and_then (body ?a s) (\<lambda>s'. run_elements body (ma_num_elements a) ?bs s'
        (element_end ?bs ?i) (Suc (unat (ma_index a))) n)"
      by (simp only: loop)
    also have "\<dots> = run_elements body (ma_num_elements a) ?bs s ?i (unat (ma_index a)) (Suc n)"
      using False by (simp only: a_eq run_elements.simps) auto
    finally show ?thesis .
  qed
qed

section \<open>Elements and their encodings\<close>

definition valid_element :: "MintAttestationElementStruct \<Rightarrow> bool" where
  "valid_element e \<longleftrightarrow> length (el_destination_token e) = 32 \<and> length (el_destination_recipient e) = 32 \<and>
     length (el_transfer_spec_hash e) = 32 \<and> length (el_hook_data e) < 2 ^ 32"

definition current_element :: "MintAttestation \<Rightarrow> MintAttestationElementStruct minter_result" where
  "current_element a =
     and_then (destination_token a) (\<lambda>token.
     and_then (destination_recipient a) (\<lambda>recipient.
     and_then (attestation_value a) (\<lambda>amount.
     and_then (transfer_spec_hash a) (\<lambda>h.
     and_then (hook_data a) (\<lambda>hook.
     Inr \<lparr> el_destination_token = token, el_destination_recipient = recipient, el_value = amount,
           el_transfer_spec_hash = h, el_hook_data = hook \<rparr>)))))"

lemma length_encode_element:
  "valid_element e \<Longrightarrow> length (encode_element e) = 108 + length (el_hook_data e)"
  by (simp add: encode_element_def valid_element_def)

text \<open>The element at an offset, cut out of the bytes.\<close>

definition element_at :: "bytes \<Rightarrow> nat \<Rightarrow> MintAttestationElementStruct" where
  "element_at bs i =
     \<lparr> el_destination_token = take 32 (drop i bs), el_destination_recipient = take 32 (drop (i + 32) bs),
       el_value = u64_from_be (take 8 (drop (i + 64) bs)),
       el_transfer_spec_hash = take 32 (drop (i + 72) bs),
       el_hook_data = take (hook_length_at bs i) (drop (i + 108) bs) \<rparr>"

lemma current_element_at:
  assumes "length (ma_data a) < 2 ^ 64" "element_end (ma_data a) (ma_offset a) \<le> length (ma_data a)"
  shows "current_element a = Inr (element_at (ma_data a) (ma_offset a))"
  using assms
  by (simp add: current_element_def destination_token_def destination_recipient_def
      attestation_value_def transfer_spec_hash_def hook_data_def hook_data_length_def
      att_checked_add_def checked_add_def offset_defs att.in_range element_end_def slice_def
      element_at_def hook_length_at_def)

lemma element_at_valid:
  assumes "element_end bs i \<le> length bs"
  shows "valid_element (element_at bs i)"
    and "encode_element (element_at bs i) = take (108 + hook_length_at bs i) (drop i bs)"
proof -
  have hook: "length (el_hook_data (element_at bs i)) = hook_length_at bs i"
    using assms by (simp add: element_at_def element_end_def)
  then show "valid_element (element_at bs i)"
    using assms hook_length_at_bound [of bs i]
    by (simp add: valid_element_def element_at_def element_end_def)
  let ?h = "hook_length_at bs i"
  have hl: "u32_to_be (word_of_nat ?h) = take 4 (drop (i + 104) bs)"
    using assms by (simp add: hook_length_at_def element_end_def u32_to_from_be)
  have "take (108 + ?h) (drop i bs) = take (32 + (32 + (8 + (32 + (4 + ?h))))) (drop i bs)" by simp
  also have "\<dots> = encode_element (element_at bs i)"
    using assms hl hook
    by (simp only: take_drop_split encode_element_def)
      (simp add: element_at_def element_end_def add.assoc u64_to_from_be)
  finally show "encode_element (element_at bs i) = take (108 + ?h) (drop i bs)" by simp
qed

lemma element_at_encode:
  assumes "valid_element e"
  shows "element_end (xs @ encode_element e @ ys) (length xs) = length xs + length (encode_element e)"
    and "element_at (xs @ encode_element e @ ys) (length xs) = e"
proof -
  have hl: "hook_length_at (xs @ encode_element e @ ys) (length xs) = length (el_hook_data e)"
    using assms by (simp add: hook_length_at_def encode_element_def valid_element_def unat_of_nat)
  then show "element_end (xs @ encode_element e @ ys) (length xs) = length xs + length (encode_element e)"
    using assms by (simp add: element_end_def length_encode_element)
  show "element_at (xs @ encode_element e @ ys) (length xs) = e"
    using assms hl by (simp add: element_at_def encode_element_def valid_element_def)
qed

section \<open>The loop as a fold over the elements\<close>

text \<open>The iterator states a run over \<open>n\<close> elements from offset \<open>i\<close> shows to its body.\<close>

fun views :: "u32 \<Rightarrow> bytes \<Rightarrow> nat \<Rightarrow> nat \<Rightarrow> nat \<Rightarrow> MintAttestation list" where
  "views num bs i k 0 = []"
| "views num bs i k (Suc n) =
     \<lparr> ma_data = bs, ma_offset = i, ma_index = word_of_nat (Suc k), ma_num_elements = num \<rparr> #
     views num bs (element_end bs i) (Suc k) n"

text \<open>\<open>n\<close> elements fit from offset \<open>i\<close>, and the last one ends the data.\<close>

fun well_placed :: "bytes \<Rightarrow> nat \<Rightarrow> nat \<Rightarrow> bool" where
  "well_placed bs i 0 = True"
| "well_placed bs i (Suc n) \<longleftrightarrow>
     element_end bs i \<le> length bs \<and> (n = 0 \<longrightarrow> element_end bs i = length bs) \<and>
     well_placed bs (element_end bs i) n"

definition view_element :: "MintAttestation \<Rightarrow> MintAttestationElementStruct" where
  "view_element a = element_at (ma_data a) (ma_offset a)"

lemma run_elements_Inr [result_simps]:
  "run_elements body num bs s i k n = Inr s' \<longleftrightarrow>
     well_placed bs i n \<and> fold_result body (views num bs i k n) s = Inr s'"
proof (induction n arbitrary: s i k)
  case (Suc n)
  show ?case
    by (auto simp: Suc.IH result_simps element_end_def split: if_splits)
qed auto

lemma well_placed_concat:
  assumes "well_placed bs i n" "0 < n"
  shows "drop i bs = concat (map (encode_element \<circ> view_element) (views num bs i k n))"
  using assms
proof (induction n arbitrary: i k)
  case (Suc n)
  let ?j = "element_end bs i"
  have fits: "?j \<le> length bs" using Suc.prems by simp
  have "drop i bs = encode_element (element_at bs i) @ drop ?j bs"
    using element_at_valid(2) [OF fits] append_take_drop_id [of "108 + hook_length_at bs i" "drop i bs"]
    by (simp add: element_end_def add.commute add.left_commute)
  moreover have "drop ?j bs = concat (map (encode_element \<circ> view_element) (views num bs ?j (Suc k) n))"
  proof (cases "n = 0")
    case False
    then show ?thesis using Suc.IH [of ?j "Suc k"] Suc.prems by (simp add: comp_def)
  qed (use Suc.prems in simp)
  ultimately show ?case by (simp add: comp_def view_element_def)
qed simp

lemma views_valid:
  "well_placed bs i n \<Longrightarrow> a \<in> set (views num bs i k n) \<Longrightarrow>
     valid_element (view_element a) \<and> ma_data a = bs \<and> element_end bs (ma_offset a) \<le> length bs \<and>
     i \<le> ma_offset a"
proof (induction n arbitrary: i k)
  case (Suc n)
  from Suc.prems Suc.IH [of "element_end bs i" "Suc k"] show ?case
    using element_at_valid(1) [of bs i]
    by (fastforce simp: view_element_def element_end_def)
qed simp

lemma length_views [simp]: "length (views num bs i k n) = n"
  by (induction n arbitrary: i k) auto

lemma encoded_elements:
  assumes "\<forall>e \<in> set es. valid_element e"
  shows "well_placed (xs @ concat (map encode_element es)) (length xs) (length es)"
    and "map view_element (views num (xs @ concat (map encode_element es)) (length xs) k (length es)) = es"
  using assms
proof (induction es arbitrary: xs k)
  case (Cons e es)
  {
    case 1
    then show ?case
      using Cons.IH(1) [of "xs @ encode_element e"] element_at_encode(1) [of e xs]
        element_at_encode(1) [of e xs "[]"]
      by (simp add: length_encode_element)
  next
    case 2
    then show ?case
      using Cons.IH(2) [of "xs @ encode_element e" "Suc k"] element_at_encode [of e xs]
      by (simp add: view_element_def)
  }
qed auto

section \<open>Decoding a whole set\<close>

text \<open>\<open>new\<close>, every header accessor, and a loop over \<open>next\<close> that reads each element.\<close>

definition collect_element ::
    "MintAttestation \<Rightarrow> MintAttestationElementStruct list \<Rightarrow> MintAttestationElementStruct list minter_result"
where
  "collect_element a es = and_then (current_element a) (\<lambda>e. Inr (es @ [e]))"

definition decode_attestation :: "bytes \<Rightarrow> MintAttestationStruct minter_result" where
  "decode_attestation bs =
     and_then (attestation_new bs) (\<lambda>a.
     and_then (version a) (\<lambda>v.
     and_then (destination_domain a) (\<lambda>d.
     and_then (destination_contract a) (\<lambda>c.
     and_then (destination_caller a) (\<lambda>r.
     and_then (max_block_height a) (\<lambda>b.
     and_then (while_next collect_element a []) (\<lambda>es.
     Inr \<lparr> as_version = v, as_destination_domain = d, as_destination_contract = c,
           as_destination_caller = r, as_max_block_height = b, as_elements = es \<rparr>)))))))"

definition valid_attestation :: "MintAttestationStruct \<Rightarrow> bool" where
  "valid_attestation s \<longleftrightarrow> length (as_destination_contract s) = 32 \<and>
     length (as_destination_caller s) = 32 \<and> as_elements s \<noteq> [] \<and> length (as_elements s) < 2 ^ 32 \<and>
     (\<forall>e \<in> set (as_elements s). valid_element e)"

lemma length_encode_header:
  "length (as_destination_contract s) = 32 \<Longrightarrow> length (as_destination_caller s) = 32 \<Longrightarrow>
     length (encode_header s) = 88"
  by (simp add: encode_header_def)

definition header_at :: "bytes \<Rightarrow> u32 \<times> u32 \<times> u32 \<times> pubkey \<times> pubkey \<times> u64 \<times> u32" where
  "header_at bs =
     (u32_from_be (take 4 bs), u32_from_be (take 4 (drop 4 bs)), u32_from_be (take 4 (drop 8 bs)),
      take 32 (drop 12 bs), take 32 (drop 44 bs), u64_from_be (take 8 (drop 76 bs)),
      u32_from_be (take 4 (drop 84 bs)))"

lemma header_accessors:
  assumes "88 \<le> length (ma_data a)" "length (ma_data a) < 2 ^ 64"
    and "header_at (ma_data a) = (m, v, d, c, r, b, n)"
  shows "magic a = Inr m" "version a = Inr v" "destination_domain a = Inr d"
    "destination_contract a = Inr c" "destination_caller a = Inr r" "max_block_height a = Inr b"
    "num_attestations a = Inr n"
  using assms
  by (auto simp: magic_def version_def destination_domain_def destination_contract_def
      destination_caller_def max_block_height_def num_attestations_def offset_defs att.in_range
      header_at_def)

text \<open>\<open>new\<close> succeeds exactly on a long enough string with the magic number and a positive count.\<close>

lemma attestation_new_Inr:
  assumes "length bs < 2 ^ 64"
  shows "attestation_new bs = Inr a \<longleftrightarrow>
    196 \<le> length bs \<and> u32_from_be (take 4 bs) = ATTESTATION_SET_MAGIC \<and>
    0 < u32_from_be (take 4 (drop 84 bs)) \<and>
    a = \<lparr> ma_data = bs, ma_offset = 88, ma_index = 0,
          ma_num_elements = u32_from_be (take 4 (drop 84 bs)) \<rparr>"
  using assms
  by (auto simp: attestation_new_def result_simps Let_def offset_defs magic_def num_attestations_def
      att.in_range)

lemma attestation_new_ready:
  assumes "length bs < 2 ^ 64" "attestation_new bs = Inr a"
  shows "ready a" "next_offset a = 88" "ma_data a = bs" "ma_index a = 0"
    "ma_num_elements a = u32_from_be (take 4 (drop 84 bs))" "0 < ma_num_elements a" "196 \<le> length bs"
  using assms by (auto simp: attestation_new_Inr ready_def next_offset_def)

text \<open>A loop over \<open>next\<close> after \<open>new\<close> is a fold of the body over the views of the elements.\<close>

definition set_views :: "bytes \<Rightarrow> MintAttestation list" where
  "set_views bs = (let n = u32_from_be (take 4 (drop 84 bs)) in views n bs 88 0 (unat n))"

definition set_elements :: "bytes \<Rightarrow> MintAttestationElementStruct list" where
  "set_elements bs = map view_element (set_views bs)"

definition set_placed :: "bytes \<Rightarrow> bool" where
  "set_placed bs = well_placed bs 88 (unat (u32_from_be (take 4 (drop 84 bs))))"

lemma while_next_fold:
  assumes "length bs < 2 ^ 64" "attestation_new bs = Inr a"
  shows "while_next body a s = Inr s' \<longleftrightarrow> set_placed bs \<and> fold_result body (set_views bs) s = Inr s'"
proof -
  note r = attestation_new_ready [OF assms]
  have "while_next body a s = run_elements body (ma_num_elements a) bs s 88 0 (unat (ma_num_elements a))"
    using while_next_run_elements [OF r(1), of "unat (ma_num_elements a)" body s] by (simp add: r)
  then show ?thesis
    by (simp add: run_elements_Inr r(5) set_placed_def set_views_def Let_def)
qed

lemma set_views_valid:
  assumes "set_placed bs" "a \<in> set (set_views bs)"
  shows "valid_element (view_element a)" "ma_data a = bs" "element_end bs (ma_offset a) \<le> length bs"
  using assms views_valid [of bs 88] by (auto simp: set_placed_def set_views_def Let_def)

lemma fold_collect:
  assumes "\<forall>a \<in> set as. length (ma_data a) < 2 ^ 64 \<and> element_end (ma_data a) (ma_offset a) \<le> length (ma_data a)"
  shows "fold_result collect_element as es = Inr (es @ map view_element as)"
  using assms
  by (induction as arbitrary: es) (auto simp: collect_element_def current_element_at view_element_def)

definition struct_at :: "bytes \<Rightarrow> MintAttestationStruct" where
  "struct_at bs =
     \<lparr> as_version = u32_from_be (take 4 (drop 4 bs)),
       as_destination_domain = u32_from_be (take 4 (drop 8 bs)),
       as_destination_contract = take 32 (drop 12 bs), as_destination_caller = take 32 (drop 44 bs),
       as_max_block_height = u64_from_be (take 8 (drop 76 bs)), as_elements = set_elements bs \<rparr>"

lemma decode_attestation_Inr:
  assumes "length bs < 2 ^ 64"
  shows "decode_attestation bs = Inr s \<longleftrightarrow>
    (\<exists>a. attestation_new bs = Inr a) \<and> set_placed bs \<and> s = struct_at bs"
proof (cases "attestation_new bs")
  case (Inr a)
  note r = attestation_new_ready [OF assms Inr]
  have "88 \<le> length (ma_data a)" "length (ma_data a) < 2 ^ 64" using r assms by auto
  note h = header_accessors [OF this]
  have loop: "while_next collect_element a [] = Inr es \<longleftrightarrow> set_placed bs \<and> es = set_elements bs" for es
  proof -
    have "set_placed bs \<Longrightarrow> fold_result collect_element (set_views bs) [] = Inr (set_elements bs)"
      using fold_collect [of "set_views bs" "[]"] assms set_views_valid [of bs]
      by (simp add: set_elements_def)
    then show ?thesis using while_next_fold [OF assms Inr, of collect_element "[]" es] by auto
  qed
  show ?thesis
    using h by (auto simp: decode_attestation_def Inr r(3) header_at_def result_simps loop struct_at_def)
qed (simp add: decode_attestation_def)

lemma encode_struct_at:
  assumes "length bs < 2 ^ 64" "attestation_new bs = Inr a" "set_placed bs"
  shows "encode_attestation (struct_at bs) = bs" "valid_attestation (struct_at bs)"
proof -
  note r = attestation_new_ready [OF assms(1,2)]
  let ?n = "u32_from_be (take 4 (drop 84 bs))"
  have len: "196 \<le> length bs" and pos: "0 < ?n" using r by auto
  have magic: "u32_to_be ATTESTATION_SET_MAGIC = take 4 bs"
    using assms(1,2) u32_to_from_be [of "take 4 bs"] by (auto simp: attestation_new_Inr)
  have cnt: "length (set_elements bs) = unat ?n"
    by (simp add: set_elements_def set_views_def Let_def)
  have "take 88 bs = take (4 + (4 + (4 + (32 + (32 + (8 + 4)))))) (drop 0 bs)" by simp
  also have "\<dots> = encode_header (struct_at bs)"
    using len magic cnt
    by (simp only: take_drop_split encode_header_def)
      (simp add: struct_at_def u32_to_from_be u64_to_from_be)
  finally have hd: "encode_header (struct_at bs) = take 88 bs" ..
  have "0 < unat ?n" using pos by (simp add: word_less_nat_alt)
  with assms(3) have "drop 88 bs = concat (map encode_element (set_elements bs))"
    unfolding set_placed_def set_elements_def set_views_def Let_def
    by (subst well_placed_concat) (auto simp: comp_def)
  with hd show "encode_attestation (struct_at bs) = bs"
    using append_take_drop_id [of 88 bs] by (simp add: encode_attestation_def struct_at_def)
  have "set_elements bs \<noteq> []" using cnt \<open>0 < unat ?n\<close> by auto
  then show "valid_attestation (struct_at bs)"
    using len cnt unat_bound [of ?n] set_views_valid(1) [OF assms(3)]
    by (auto simp: valid_attestation_def struct_at_def set_elements_def)
qed

lemma encode_attestation_structure:
  assumes "valid_attestation s" "length (encode_attestation s) < 2 ^ 64"
  defines "bs \<equiv> encode_attestation s"
  shows "\<exists>a. attestation_new bs = Inr a" "set_placed bs" "struct_at bs = s"
proof -
  let ?es = "as_elements s"
  have hd: "length (encode_header s) = 88"
    using assms(1) by (simp add: length_encode_header valid_attestation_def)
  have flds: "take 4 bs = u32_to_be ATTESTATION_SET_MAGIC" "take 4 (drop 4 bs) = u32_to_be (as_version s)"
    "take 4 (drop 8 bs) = u32_to_be (as_destination_domain s)"
    "take 32 (drop 12 bs) = as_destination_contract s" "take 32 (drop 44 bs) = as_destination_caller s"
    "take 8 (drop 76 bs) = u64_to_be (as_max_block_height s)"
    "take 4 (drop 84 bs) = u32_to_be (word_of_nat (length ?es))"
    using assms(1) by (simp_all add: bs_def encode_attestation_def encode_header_def valid_attestation_def)
  have num: "unat (u32_from_be (take 4 (drop 84 bs))) = length ?es"
    using assms(1) by (simp add: flds valid_attestation_def unat_of_nat)
  have valid: "\<forall>e \<in> set ?es. valid_element e" and ne: "?es \<noteq> []"
    using assms(1) by (auto simp: valid_attestation_def)
  note enc = encoded_elements(1) [OF valid, of "encode_header s", unfolded hd]
    encoded_elements(2) [OF valid, of _ "encode_header s", unfolded hd]
  have bs: "bs = encode_header s @ concat (map encode_element ?es)" by (simp add: bs_def encode_attestation_def)
  show "set_placed bs" using enc(1) by (simp add: set_placed_def num bs [symmetric])
  have els: "set_elements bs = ?es"
    using enc(2) by (simp add: set_elements_def set_views_def num Let_def bs [symmetric])
  then show "struct_at bs = s" by (simp add: struct_at_def flds)
  have "108 \<le> length (concat (map encode_element ?es))"
    using ne valid by (cases ?es) (auto simp: length_encode_element)
  then have "196 \<le> length bs" using hd by (simp add: bs)
  moreover have "0 < u32_from_be (take 4 (drop 84 bs))" using num ne by (simp add: word_less_nat_alt)
  ultimately show "\<exists>a. attestation_new bs = Inr a"
    using assms(2) by (auto simp: attestation_new_Inr bs_def [symmetric] flds(1))
qed

section \<open>Properties\<close>

text \<open>Decoding what the encoder wrote gives back the attestation set: the iterator's accessors and
  loop read every field of every element that \<open>encode_attestation\<close> laid out.\<close>

theorem attestation_roundtrip:
  assumes "valid_attestation s" "length (encode_attestation s) < 2 ^ 64"
  shows "decode_attestation (encode_attestation s) = Inr s"
  using decode_attestation_Inr [OF assms(2)] encode_attestation_structure [OF assms] by auto

definition sample_attestation :: MintAttestationStruct where
  "sample_attestation =
     \<lparr> as_version = 1, as_destination_domain = 5, as_destination_contract = replicate 32 7,
       as_destination_caller = replicate 32 0, as_max_block_height = 900,
       as_elements = [\<lparr> el_destination_token = replicate 32 1, el_destination_recipient = replicate 32 2,
         el_value = 1000, el_transfer_spec_hash = replicate 32 3, el_hook_data = [4, 5] \<rparr>] \<rparr>"

lemma sample_attestation_valid:
  "valid_attestation sample_attestation" "length (encode_attestation sample_attestation) = 198"
  by (simp_all add: sample_attestation_def valid_attestation_def valid_element_def
      encode_attestation_def encode_header_def encode_element_def)

theorem attestation_roundtrip_witness:
  "decode_attestation (encode_attestation sample_attestation) = Inr sample_attestation"
  by (rule attestation_roundtrip) (simp_all add: sample_attestation_valid)

text \<open>C34: the iterator accepts only canonical encodings: whatever byte string it reads through to the
  end is exactly the encoding of the attestation set it returned, with every length in range, so two
  accepted strings with the same content are the same string.\<close>

theorem attestation_canonical:
  assumes "length bs < 2 ^ 64" "decode_attestation bs = Inr s"
  shows "encode_attestation s = bs \<and> valid_attestation s"
  using assms encode_struct_at [of bs] by (auto simp: decode_attestation_Inr)

theorem attestation_canonical_witness:
  "decode_attestation (encode_attestation sample_attestation) = Inr sample_attestation \<and>
   valid_attestation sample_attestation"
proof -
  have short: "length (encode_attestation sample_attestation) < 2 ^ 64"
    by (simp add: sample_attestation_valid)
  moreover from short have "decode_attestation (encode_attestation sample_attestation) = Inr sample_attestation"
    by (simp add: decode_attestation_Inr encode_attestation_structure sample_attestation_valid)
  ultimately show ?thesis using attestation_canonical by blast
qed

lemma element_accessors_no_panic:
  assumes "element_end (ma_data a) (ma_offset a) \<le> length (ma_data a)" "length (ma_data a) < 2 ^ 64"
  shows "no_panic (collect_element a es)"
  using assms by (simp add: collect_element_def current_element_at)

lemma run_elements_no_panic:
  assumes "\<And>a s. element_end bs (ma_offset a) \<le> length bs \<Longrightarrow> ma_data a = bs \<Longrightarrow> no_panic (body a s)"
  shows "no_panic (run_elements body num bs s i k n)"
  using assms
  by (induction n arbitrary: s i k) (auto simp: not_less)

text \<open>No byte string makes the iterator panic: every slice and subtraction it performs is guarded,
  so a malformed message is answered by an error of the program.\<close>

theorem decode_attestation_no_panic:
  assumes "length bs < 2 ^ 64"
  shows "no_panic (decode_attestation bs)"
proof (cases "attestation_new bs")
  case (Inl e)
  have "no_panic (attestation_new bs)"
    using assms by (auto simp: attestation_new_def Let_def magic_def num_attestations_def offset_defs
        att.in_range require_def intro!: no_panic_and_then split: if_splits)
  with Inl show ?thesis by (simp add: decode_attestation_def no_panic_Inl)
next
  case (Inr a)
  note r = attestation_new_ready [OF assms Inr]
  have "88 \<le> length (ma_data a)" "length (ma_data a) < 2 ^ 64" using r assms by auto
  note h = header_accessors [OF this]
  have "no_panic (while_next collect_element a [])"
    using while_next_run_elements [OF r(1), of "unat (ma_num_elements a)" collect_element "[]"]
      run_elements_no_panic [of bs collect_element] element_accessors_no_panic assms
    by (simp add: r)
  then show ?thesis
    using h by (auto simp: decode_attestation_def Inr header_at_def r(3) intro!: no_panic_and_then)
qed

theorem decode_attestation_no_panic_witness: "no_panic (decode_attestation [0, 1])"
  by (rule decode_attestation_no_panic) simp

end
