(* ===== verification/GatewayMint.thy ===== *)
theory GatewayMint
  imports MinterAdmin Attestation
begin

text \<open>
  instructions/gateway_mint.rs, with \<open>verify_attestation_signature\<close> and \<open>mint_token\<close> of state.rs: an
  attestation set signed by an enabled attester releases, for each element, its value from the custody
  account to the recipient, once.
\<close>

section \<open>impl GatewayMinter: verify_attestation_signature and mint_token\<close>

definition ATTESTATION_SIGNATURE_LENGTH :: nat where "ATTESTATION_SIGNATURE_LENGTH = 65"

definition verify_attestation_signature ::
    "platform \<Rightarrow> GatewayMinter \<Rightarrow> bytes \<Rightarrow> bytes \<Rightarrow> unit minter_result" where
  "verify_attestation_signature pf m message_hash signature =
     and_then (require (length signature = ATTESTATION_SIGNATURE_LENGTH)
                (Custom InvalidAttesterSignature)) (\<lambda>_.
     and_then (map_err (recover_evm_signer pf message_hash signature)
                (Custom InvalidAttesterSignature)) (\<lambda>recovered_signer.
     require (is_attester_enabled m recovered_signer) (Custom InvalidAttesterSignature)))"

definition mint_token ::
    "platform \<Rightarrow> transaction \<Rightarrow> pubkey \<Rightarrow> pubkey \<Rightarrow> pubkey \<Rightarrow> u8 \<Rightarrow> u64 \<Rightarrow> ledger \<Rightarrow> ledger minter_result" where
  "mint_token pf tx custody_account destination_account authority authority_bump amount l =
     token_transfer pf MINTER_PROGRAM_ID tx (Some [GATEWAY_MINTER_SEED, [authority_bump]])
       custody_account destination_account authority amount l"

section \<open>Accounts\<close>

record GatewayMintContext =
  gc_payer :: pubkey
  gc_destination_caller :: pubkey
  gc_gateway_minter :: pubkey
  gc_system_program :: pubkey
  gc_token_program :: pubkey
  gc_remaining_accounts :: "pubkey list"

record GatewayMintParams =
  gp_attestation :: bytes
  gp_signature :: bytes

record MintAttestationParams =
  mp_value :: u64
  mp_transfer_spec_hash :: bytes
  mp_hook_data :: bytes

record GatewayMintReconstructParams =
  rp_is_default_destination_caller :: bool
  rp_max_block_height :: u64
  rp_elements :: "MintAttestationParams list"
  rp_signature :: bytes

definition gateway_mint_accounts ::
    "platform \<Rightarrow> transaction \<Rightarrow> GatewayMintContext \<Rightarrow> ledger \<Rightarrow> GatewayMinter minter_result" where
  "gateway_mint_accounts pf tx c l =
     and_then (load_signer tx (gc_payer c)) (\<lambda>_.
     and_then (load_signer tx (gc_destination_caller c)) (\<lambda>_.
     and_then (load_minter l (gc_gateway_minter c)) (\<lambda>gateway_minter.
     and_then (load_program (gc_system_program c) SYSTEM_PROGRAM_ID) (\<lambda>_.
     and_then (load_program (gc_token_program c) TOKEN_PROGRAM_ID) (\<lambda>_.
     and_then (check_mut tx (gc_payer c)) (\<lambda>_.
     and_then (check_minter_pda pf (gc_gateway_minter c) gateway_minter) (\<lambda>_.
     and_then (require (\<not> gm_paused gateway_minter) (Custom GatewayMinterError.ProgramPaused)) (\<lambda>_.
     Inr gateway_minter))))))))"

section \<open>Validation of an element's accounts\<close>

definition validate_custody_token_account ::
    "platform \<Rightarrow> ledger \<Rightarrow> pubkey \<Rightarrow> GatewayMinter \<Rightarrow> pubkey \<Rightarrow> TokenAccount minter_result" where
  "validate_custody_token_account pf l k gateway_minter gateway_minter_key =
     and_then (map_err (load_token l k :: TokenAccount minter_result)
                (Custom InvalidCustodyTokenAccount)) (\<lambda>custody_account.
     and_then (require (ta_owner custody_account = gateway_minter_key)
                (Custom InvalidCustodyTokenAccount)) (\<lambda>_.
     and_then (minter_get_custody_token_account_bump gateway_minter (ta_mint custody_account)) (\<lambda>custody_bump.
     and_then (map_err (create_program_address pf
                  [GATEWAY_MINTER_CUSTODY_SEED, ta_mint custody_account, [custody_bump]] MINTER_PROGRAM_ID)
                (Custom InvalidCustodyTokenAccount)) (\<lambda>expected_custody_pda.
     and_then (require (expected_custody_pda = k) (Custom InvalidCustodyTokenAccount)) (\<lambda>_.
     Inr custody_account)))))"

definition validate_destination_token_account :: "ledger \<Rightarrow> pubkey \<Rightarrow> TokenAccount minter_result" where
  "validate_destination_token_account l k =
     map_err (load_token l k :: TokenAccount minter_result) (Custom InvalidDestinationTokenAccount)"

definition process_used_transfer_spec_hash ::
    "platform \<Rightarrow> transaction \<Rightarrow> bytes \<Rightarrow> pubkey \<Rightarrow> pubkey \<Rightarrow> ledger \<Rightarrow> (bytes \<times> ledger) minter_result" where
  "process_used_transfer_spec_hash pf tx spec_hash hash_account payer l =
     and_then (find_program_address pf [USED_TRANSFER_SPEC_HASH_SEED_PREFIX, spec_hash]
                 MINTER_PROGRAM_ID) (\<lambda>(expected_pda, bump).
     and_then (require (expected_pda = hash_account)
                (Custom GatewayMinterError.InvalidTransferSpecHashAccount)) (\<lambda>_.
     and_then (require (\<not> is_transfer_spec_hash_used (acc_data (l hash_account)) MINTER_USED_MARKER)
                (Custom GatewayMinterError.TransferSpecHashAlreadyUsed)) (\<lambda>_.
     and_then (create_used_transfer_spec_hash_account pf tx hash_account spec_hash bump payer
                 MINTER_PROGRAM_ID MINTER_USED_MARKER l) (\<lambda>l.
     Inr (spec_hash, l)))))"

section \<open>gateway_mint\<close>

definition mul_u32 :: "u32 \<Rightarrow> u32 \<Rightarrow> ('e, u32) result" where
  "mul_u32 a b = (if unat a * unat b < 2 ^ 32 then Inr (a * b) else Inl (Panic ArithmeticOverflow))"

text \<open>The state of the loop: the account index, the ledger and the events so far.\<close>

type_synonym mint_loop = "nat \<times> ledger \<times> MinterEvent list"

definition mint_element ::
    "platform \<Rightarrow> transaction \<Rightarrow> GatewayMintContext \<Rightarrow> GatewayMinter \<Rightarrow> MintAttestation \<Rightarrow> mint_loop \<Rightarrow>
     mint_loop minter_result" where
  "mint_element pf tx c gateway_minter attestation = (\<lambda>(account_index, l, events).
     and_then (index_checked (gc_remaining_accounts c) account_index) (\<lambda>custody_info.
     and_then (validate_custody_token_account pf l custody_info gateway_minter (gc_gateway_minter c))
       (\<lambda>custody_token_account.
     and_then (index_checked (gc_remaining_accounts c) (account_index + 1)) (\<lambda>destination_info.
     and_then (validate_destination_token_account l destination_info) (\<lambda>destination_recipient_account.
     and_then (transfer_spec_hash attestation) (\<lambda>spec_hash.
     and_then (index_checked (gc_remaining_accounts c) (account_index + 2)) (\<lambda>hash_info.
     and_then (process_used_transfer_spec_hash pf tx spec_hash hash_info (gc_payer c) l)
       (\<lambda>(spec_hash, l).
     and_then (destination_token attestation) (\<lambda>token.
     and_then (require (ta_mint custody_token_account = token) (Custom DestinationTokenMismatch)) (\<lambda>_.
     and_then (require (ta_mint destination_recipient_account = token) (Custom DestinationTokenMismatch)) (\<lambda>_.
     and_then (destination_recipient attestation) (\<lambda>recipient.
     and_then (require (destination_info = recipient) (Custom DestinationRecipientMismatch)) (\<lambda>_.
     and_then (attestation_value attestation) (\<lambda>value.
     and_then (require (value > 0) (Custom InvalidAttestationValue)) (\<lambda>_.
     and_then (mint_token pf tx custody_info destination_info (gc_gateway_minter c)
                 (gm_bump gateway_minter) value l) (\<lambda>l.
     Inr (account_index + 3, l, events @ [AttestationUsed token recipient spec_hash value])))))))))))))))))"

text \<open>The checks of the set's header.\<close>

definition check_attestation_header ::
    "transaction \<Rightarrow> GatewayMintContext \<Rightarrow> GatewayMinter \<Rightarrow> MintAttestation \<Rightarrow> unit minter_result" where
  "check_attestation_header tx c gateway_minter attestation =
     and_then (version attestation) (\<lambda>v.
     and_then (require (v = gm_version gateway_minter) (Custom GatewayMinterError.VersionMismatch)) (\<lambda>_.
     and_then (max_block_height attestation) (\<lambda>height.
     and_then (require (height \<ge> tx_slot tx) (Custom AttestationExpired)) (\<lambda>_.
     and_then (destination_caller attestation) (\<lambda>caller.
     and_then (if caller \<noteq> default_pubkey
               then require (caller = gc_destination_caller c) (Custom DestinationCallerMismatch)
               else Inr ()) (\<lambda>_.
     and_then (destination_domain attestation) (\<lambda>domain.
     and_then (require (domain = gm_local_domain gateway_minter) (Custom DestinationDomainMismatch)) (\<lambda>_.
     and_then (destination_contract attestation) (\<lambda>contract.
     and_then (require (contract = MINTER_PROGRAM_ID) (Custom DestinationContractMismatch)) (\<lambda>_.
     and_then (num_attestations attestation) (\<lambda>n.
     and_then (mul_u32 n 3) (\<lambda>expected.
     require (length (gc_remaining_accounts c) = unat expected)
       (Custom GatewayMinterError.RemainingAccountsLengthMismatch)))))))))))))"

definition gateway_mint ::
    "platform \<Rightarrow> transaction \<Rightarrow> GatewayMintContext \<Rightarrow> GatewayMintParams \<Rightarrow> ledger \<Rightarrow> minter_outcome" where
  "gateway_mint pf tx c params l =
     and_then (gateway_mint_accounts pf tx c l) (\<lambda>gateway_minter.
     let attestation_hash = keccak256 pf (gp_attestation params);
         eth_signed_hash = ethereum_signed_message_hash pf attestation_hash in
     and_then (verify_attestation_signature pf gateway_minter eth_signed_hash (gp_signature params)) (\<lambda>_.
     and_then (attestation_new (gp_attestation params)) (\<lambda>attestation.
     and_then (check_attestation_header tx c gateway_minter attestation) (\<lambda>_.
     and_then (while_next (mint_element pf tx c gateway_minter) attestation (0, l, []))
       (\<lambda>(account_index, l, events).
     and_then (require (account_index = length (gc_remaining_accounts c))
                (Custom GatewayMinterError.RemainingAccountsLengthMismatch)) (\<lambda>_.
     Inr (l, events)))))))"

section \<open>gateway_mint_with_params\<close>

text \<open>Each element takes its token and recipient from the second of its three accounts.\<close>

fun reconstruct_elements ::
    "ledger \<Rightarrow> pubkey list \<Rightarrow> nat \<Rightarrow> MintAttestationParams list \<Rightarrow>
     MintAttestationElementStruct list minter_result" where
  "reconstruct_elements l remaining_accounts account_index [] = Inr []"
| "reconstruct_elements l remaining_accounts account_index (element # elements) =
     and_then (index_checked remaining_accounts (account_index + 1)) (\<lambda>info.
     and_then (validate_destination_token_account l info) (\<lambda>destination_account.
     and_then (reconstruct_elements l remaining_accounts (account_index + 3) elements) (\<lambda>rest.
     Inr (\<lparr> el_destination_token = ta_mint destination_account, el_destination_recipient = info,
            el_value = mp_value element, el_transfer_spec_hash = mp_transfer_spec_hash element,
            el_hook_data = mp_hook_data element \<rparr> # rest))))"

definition mul_usize :: "nat \<Rightarrow> nat \<Rightarrow> ('e, nat) result" where
  "mul_usize a b = (if a * b < 2 ^ 64 then Inr (a * b) else Inl (Panic ArithmeticOverflow))"

definition reconstruct_attestation_bytes ::
    "GatewayMintContext \<Rightarrow> GatewayMinter \<Rightarrow> GatewayMintReconstructParams \<Rightarrow> ledger \<Rightarrow> bytes minter_result" where
  "reconstruct_attestation_bytes c gateway_minter params l =
     and_then (mul_usize (length (rp_elements params)) 3) (\<lambda>expected.
     and_then (require (length (gc_remaining_accounts c) = expected)
                (Custom GatewayMinterError.RemainingAccountsLengthMismatch)) (\<lambda>_.
     and_then (reconstruct_elements l (gc_remaining_accounts c) 0 (rp_elements params)) (\<lambda>elements.
     let caller = (if rp_is_default_destination_caller params then default_pubkey
                   else gc_destination_caller c) in
     Inr (encode_attestation
       \<lparr> as_version = gm_version gateway_minter, as_destination_domain = gm_local_domain gateway_minter,
         as_destination_contract = MINTER_PROGRAM_ID, as_destination_caller = caller,
         as_max_block_height = rp_max_block_height params, as_elements = elements \<rparr>))))"

text \<open>
  Mode 2 runs account validation, rebuilds the bytes, and calls the mode 1 handler on the validated
  accounts; \<open>gateway_mint\<close> repeats that validation on the same ledger, with the same outcome.
\<close>

definition gateway_mint_with_params ::
    "platform \<Rightarrow> transaction \<Rightarrow> GatewayMintContext \<Rightarrow> GatewayMintReconstructParams \<Rightarrow> ledger \<Rightarrow>
     minter_outcome" where
  "gateway_mint_with_params pf tx c params l =
     and_then (gateway_mint_accounts pf tx c l) (\<lambda>gateway_minter.
     and_then (require (rp_elements params \<noteq> []) (Custom EmptyAttestationSet)) (\<lambda>_.
     and_then (reconstruct_attestation_bytes c gateway_minter params l) (\<lambda>attestation_bytes.
     gateway_mint pf tx c \<lparr> gp_attestation = attestation_bytes, gp_signature = rp_signature params \<rparr> l)))"

end
