(* ===== verification/Machine.thy ===== *)
theory Machine
  imports Prelude
begin

text \<open>
  Runs of a program: a step takes a state to the next and emits events, a run is a sequence of steps.
  The contracts that both programs meet are locales over the step relation: an invariant that every
  step keeps, a guard that makes every spent id unique (\<open>replay_guard\<close>), and an ownership that only its
  nominee can take over (\<open>two_step_ownership\<close>), and stocks that shrink only by what the events say
  (\<open>accounted\<close>).  \<open>rely_guarantee\<close> puts two programs on one state: each one's actions are silent steps of
  the other.  WalletContracts, MinterContracts, Solvency, Books and Gateway interpret them.
\<close>

section \<open>Runs\<close>

inductive machine_run :: "('s \<Rightarrow> 'e list \<Rightarrow> 's \<Rightarrow> bool) \<Rightarrow> 's \<Rightarrow> 'e list \<Rightarrow> 's \<Rightarrow> bool" for step where
  run_refl: "machine_run step s [] s"
| run_step: "machine_run step s es t \<Longrightarrow> step t e u \<Longrightarrow> machine_run step s (es @ e) u"

lemma run_single: "step s e t \<Longrightarrow> machine_run step s e t"
  using run_step [OF run_refl] by fastforce

lemma run_trans: "machine_run step t fs u \<Longrightarrow> machine_run step s es t \<Longrightarrow> machine_run step s (es @ fs) u"
proof (induction rule: machine_run.induct)
  case (run_refl t)
  then show ?case by simp
next
  case (run_step t fs u f v)
  then show ?case using machine_run.run_step [of step s "es @ fs" u f v] by simp
qed

text \<open>A run whose events all pass a test is a run of the steps whose events pass it.\<close>

lemma run_restrict: "machine_run step s es t \<Longrightarrow> (\<And>es fs. Q (es @ fs) \<longleftrightarrow> Q es \<and> Q fs) \<Longrightarrow> Q es \<Longrightarrow>
    machine_run (\<lambda>s es t. step s es t \<and> Q es) s es t"
  by (induction rule: machine_run.induct) (auto intro: machine_run.intros)

section \<open>Invariants\<close>

locale machine =
  fixes step :: "'s \<Rightarrow> 'e list \<Rightarrow> 's \<Rightarrow> bool" and inv :: "'s \<Rightarrow> bool"
  assumes inv_step: "inv s \<Longrightarrow> step s es t \<Longrightarrow> inv t"
begin

lemma inv_run: "machine_run step s es t \<Longrightarrow> inv s \<Longrightarrow> inv t"
  by (induction rule: machine_run.induct) (auto intro: inv_step)

text \<open>If every step from a good state is a step of another machine, so is every run.\<close>

lemma run_refines:
  assumes "\<And>s es t. inv s \<Longrightarrow> step s es t \<Longrightarrow> step' s es t"
  shows "machine_run step s es t \<Longrightarrow> inv s \<Longrightarrow> machine_run step' s es t"
  by (induction rule: machine_run.induct) (auto intro: machine_run.intros assms inv_run)

text \<open>A property of states that steps from good states keep.\<close>

lemma run_stable:
  assumes "\<And>s es t. inv s \<Longrightarrow> step s es t \<Longrightarrow> P s \<Longrightarrow> P t"
  shows "machine_run step s es t \<Longrightarrow> inv s \<Longrightarrow> P s \<Longrightarrow> P t"
  by (induction rule: machine_run.induct) (auto intro: assms inv_run)

end

section \<open>Ids that are spent once\<close>

lemma spent_in: "h \<in> set (List.map_filter spent es) \<longleftrightarrow> (\<exists>e \<in> set es. spent e = Some h)"
  by (force simp: List.map_filter_def)

locale replay_guard = machine step inv
  for step :: "'s \<Rightarrow> 'e list \<Rightarrow> 's \<Rightarrow> bool" and inv +
  fixes used :: "'s \<Rightarrow> 'h \<Rightarrow> bool" and spent :: "'e \<Rightarrow> 'h option"
  assumes used_stays: "inv s \<Longrightarrow> step s es t \<Longrightarrow> used s h \<Longrightarrow> used t h"
    and spent_fresh: "inv s \<Longrightarrow> step s es t \<Longrightarrow> e \<in> set es \<Longrightarrow> spent e = Some h \<Longrightarrow> \<not> used s h \<and> used t h"
    and spent_distinct: "inv s \<Longrightarrow> step s es t \<Longrightarrow> distinct (List.map_filter spent es)"
begin

lemma run_used_stays: "machine_run step s es t \<Longrightarrow> inv s \<Longrightarrow> used s h \<Longrightarrow> used t h"
  by (rule run_stable [where P = "\<lambda>s. used s h"]) (auto intro: used_stays)

lemma run_spent:
  "machine_run step s es t \<Longrightarrow> inv s \<Longrightarrow>
     distinct (List.map_filter spent es) \<and>
     (\<forall>h \<in> set (List.map_filter spent es). (\<not> used s h) \<and> used t h)"
proof (induction rule: machine_run.induct)
  case (run_refl s)
  then show ?case by (simp add: List.map_filter_def)
next
  case (run_step s es t e u)
  note IH = run_step.IH [OF run_step.prems]
  have inv: "inv t" using run_step.hyps(1) run_step.prems by (rule inv_run)
  have step: "\<not> used t h \<and> used u h" if "h \<in> set (List.map_filter spent e)" for h
    using that spent_fresh [OF inv run_step.hyps(2)] by (auto simp: spent_in)
  have keep: "used t h \<Longrightarrow> used u h" for h by (rule used_stays [OF inv run_step.hyps(2)])
  have earlier: "\<not> used t h \<Longrightarrow> \<not> used s h" for h
    using run_used_stays [OF run_step.hyps(1) run_step.prems] by blast
  have split: "List.map_filter spent (es @ e) = List.map_filter spent es @ List.map_filter spent e"
    by (simp add: List.map_filter_def)
  show ?case
    unfolding split using IH step keep earlier spent_distinct [OF inv run_step.hyps(2)] by auto
qed

end

section \<open>Ownership in two steps\<close>

text \<open>The abstract machine: the owner and the nominee, and the two events that change them.\<close>

datatype ownership_event = Nominated pubkey pubkey | TakenOver pubkey pubkey | OtherEvent

fun ownership_next :: "pubkey \<times> pubkey \<Rightarrow> ownership_event \<Rightarrow> (pubkey \<times> pubkey) option" where
  "ownership_next (owner, nominee) (Nominated by new) = (if by = owner then Some (owner, new) else None)"
| "ownership_next (owner, nominee) (TakenOver old new) =
     (if old = owner \<and> new = nominee then Some (nominee, default_pubkey) else None)"
| "ownership_next s OtherEvent = Some s"

fun ownership_run :: "pubkey \<times> pubkey \<Rightarrow> ownership_event list \<Rightarrow> (pubkey \<times> pubkey) option" where
  "ownership_run s [] = Some s"
| "ownership_run s (e # es) = Option.bind (ownership_next s e) (\<lambda>s. ownership_run s es)"

lemma ownership_run_append:
  "ownership_run s (es @ fs) = Option.bind (ownership_run s es) (\<lambda>s. ownership_run s fs)"
  by (induction es arbitrary: s) (auto split: Option.bind_splits)

lemma ownership_run_other:
  "\<forall>e \<in> set es. kind e = OtherEvent \<Longrightarrow> ownership_run x (map kind es) = Some x"
  by (induction es) auto

text \<open>Whoever became owner had been nominated by the owner of that time, or was the nominee before.\<close>

lemma ownership_run_nominated:
  "ownership_run (o1, n1) es = Some (o2, n2) \<Longrightarrow> o2 \<noteq> o1 \<Longrightarrow> o2 \<noteq> default_pubkey \<Longrightarrow>
     (o2 = n1 \<or> (\<exists>by. Nominated by o2 \<in> set es)) \<and> (\<exists>old. TakenOver old o2 \<in> set es)"
proof (induction es arbitrary: o1 n1)
  case (Cons e es)
  then obtain o3 n3 where e: "ownership_next (o1, n1) e = Some (o3, n3)"
    and es: "ownership_run (o3, n3) es = Some (o2, n2)"
    by (auto split: Option.bind_splits)
  show ?case
  proof (cases "o2 = o3")
    case True
    with e Cons.prems(2) show ?thesis by (cases e) (auto split: if_splits)
  next
    case False
    from Cons.IH [OF es False Cons.prems(3)] Cons.prems(3) e show ?thesis by (cases e) (auto split: if_splits)
  qed
qed simp

locale two_step_ownership = machine step inv
  for step :: "'s \<Rightarrow> 'e list \<Rightarrow> 's \<Rightarrow> bool" and inv +
  fixes ownership :: "'s \<Rightarrow> (pubkey \<times> pubkey) option" and kind :: "'e \<Rightarrow> ownership_event"
  assumes ownership_step: "inv s \<Longrightarrow> step s es t \<Longrightarrow> ownership s = Some x \<Longrightarrow>
      \<exists>y. ownership t = Some y \<and> ownership_run x (map kind es) = Some y"
begin

lemma run_ownership:
  "machine_run step s es t \<Longrightarrow> inv s \<Longrightarrow> ownership s = Some x \<Longrightarrow>
     \<exists>y. ownership t = Some y \<and> ownership_run x (map kind es) = Some y"
proof (induction rule: machine_run.induct)
  case (run_step s es t e u)
  then obtain y where y: "ownership t = Some y" "ownership_run x (map kind es) = Some y" by blast
  have "inv t" using run_step.hyps(1) run_step.prems(1) by (rule inv_run)
  from ownership_step [OF this run_step.hyps(2) y(1)] y(2) show ?case
    by (auto simp: ownership_run_append)
qed simp

end

section \<open>Stocks\<close>

text \<open>A stock \<open>k\<close> of some kind loses at most what the events report for that kind.\<close>

locale accounted = machine step inv
  for step :: "'s \<Rightarrow> 'e list \<Rightarrow> 's \<Rightarrow> bool" and inv +
  fixes stock :: "'s \<Rightarrow> 'k \<Rightarrow> ('m \<times> nat) option" and out :: "'m \<Rightarrow> 'e \<Rightarrow> nat"
  assumes step_stock: "inv s \<Longrightarrow> step s es t \<Longrightarrow> stock s k = Some (m, n) \<Longrightarrow>
      \<exists>n'. stock t k = Some (m, n') \<and> n \<le> n' + sum_list (map (out m) es)"
begin

lemma run_stock:
  "machine_run step s es t \<Longrightarrow> inv s \<Longrightarrow> stock s k = Some (m, n) \<Longrightarrow>
     \<exists>n'. stock t k = Some (m, n') \<and> n \<le> n' + sum_list (map (out m) es)"
proof (induction rule: machine_run.induct)
  case (run_step s es t e u)
  then obtain i where i: "stock t k = Some (m, i)" "n \<le> i + sum_list (map (out m) es)" by blast
  have "inv t" using run_step.hyps(1) run_step.prems(1) by (rule inv_run)
  from step_stock [OF this run_step.hyps(2) i(1)] i(2) show ?case by auto
qed simp

end

section \<open>Two programs on one state\<close>

definition lefts :: "('a + 'b) list \<Rightarrow> 'a list" where
  "lefts = List.map_filter (\<lambda>x. case x of Inl a \<Rightarrow> Some a | Inr b \<Rightarrow> None)"

definition rights :: "('a + 'b) list \<Rightarrow> 'b list" where
  "rights = List.map_filter (\<lambda>x. case x of Inl a \<Rightarrow> None | Inr b \<Rightarrow> Some b)"

lemma lefts_rights [simp]:
  "lefts [] = []" "rights [] = []" "lefts (Inl a # xs) = a # lefts xs" "lefts (Inr b # xs) = lefts xs"
  "rights (Inl a # xs) = rights xs" "rights (Inr b # xs) = b # rights xs"
  by (simp_all add: lefts_def rights_def List.map_filter_def)

lemma lefts_append [simp]: "lefts (xs @ ys) = lefts xs @ lefts ys" "rights (xs @ ys) = rights xs @ rights ys"
  by (simp_all add: lefts_def rights_def List.map_filter_def)

lemma lefts_map [simp]: "lefts (map Inl es) = es" "lefts (map Inr fs) = []"
  "rights (map Inl es) = []" "rights (map Inr fs) = fs"
  by (simp_all add: lefts_def rights_def List.map_filter_def comp_def)

inductive interleaved ::
    "('s \<Rightarrow> 'a list \<Rightarrow> 's \<Rightarrow> bool) \<Rightarrow> ('s \<Rightarrow> 'b list \<Rightarrow> 's \<Rightarrow> bool) \<Rightarrow> ('s \<Rightarrow> 's \<Rightarrow> bool) \<Rightarrow>
     's \<Rightarrow> ('a + 'b) list \<Rightarrow> 's \<Rightarrow> bool" for A B rest where
  by_left: "A s es t \<Longrightarrow> interleaved A B rest s (map Inl es) t"
| by_right: "B s fs t \<Longrightarrow> interleaved A B rest s (map Inr fs) t"
| by_rest: "rest s t \<Longrightarrow> interleaved A B rest s [] t"

locale rely_guarantee = A: machine stepA invA + B: machine stepB invB
  for stepA :: "'s \<Rightarrow> 'a list \<Rightarrow> 's \<Rightarrow> bool" and invA and stepB :: "'s \<Rightarrow> 'b list \<Rightarrow> 's \<Rightarrow> bool" and invB +
  fixes actA :: "'s \<Rightarrow> 'a list \<Rightarrow> 's \<Rightarrow> bool" and actB :: "'s \<Rightarrow> 'b list \<Rightarrow> 's \<Rightarrow> bool" and rest :: "'s \<Rightarrow> 's \<Rightarrow> bool"
  assumes actA: "invA s \<Longrightarrow> invB s \<Longrightarrow> actA s es t \<Longrightarrow> stepA s es t \<and> stepB s [] t"
    and actB: "invA s \<Longrightarrow> invB s \<Longrightarrow> actB s fs t \<Longrightarrow> stepA s [] t \<and> stepB s fs t"
    and rest: "invA s \<Longrightarrow> invB s \<Longrightarrow> rest s t \<Longrightarrow> stepA s [] t \<and> stepB s [] t"
begin

lemma step_projects:
  "interleaved actA actB rest s es t \<Longrightarrow> invA s \<Longrightarrow> invB s \<Longrightarrow> stepA s (lefts es) t \<and> stepB s (rights es) t"
  by (erule interleaved.cases) (auto dest: actA actB rest)

sublocale joint: machine "interleaved actA actB rest" "\<lambda>s. invA s \<and> invB s"
  by unfold_locales (blast dest: step_projects intro: A.inv_step B.inv_step)

lemma run_projects:
  "machine_run (interleaved actA actB rest) s es t \<Longrightarrow> invA s \<Longrightarrow> invB s \<Longrightarrow>
     machine_run stepA s (lefts es) t \<and> machine_run stepB s (rights es) t"
proof (induction rule: machine_run.induct)
  case (run_refl s)
  then show ?case by (simp add: machine_run.run_refl)
next
  case (run_step s es t e u)
  have "invA t \<and> invB t" using run_step.hyps(1) by (rule joint.inv_run) (use run_step.prems in simp)
  with step_projects [OF run_step.hyps(2)] have "stepA t (lefts e) u" "stepB t (rights e) u" by simp_all
  with run_step.IH [OF run_step.prems] show ?case by (auto intro: machine_run.run_step)
qed

end

end
