(* ===== verification/MinterMachine.thy ===== *)
theory MinterMachine
  imports GatewayMint Machine
begin

text \<open>
  The GatewayMinter program as a machine: the dispatch of lib.rs and the effect of every instruction.
  The effect of a mint is a list of releases, one per element of the attestation set.
\<close>

section \<open>The program's instructions\<close>

datatype MinterInstruction =
    IxGatewayMint GatewayMintContext GatewayMintParams
  | IxGatewayMintWithParams GatewayMintContext GatewayMintReconstructParams
  | IxMinterInitialize MinterInitializeContext u32
  | IxMinterTransferOwnership MinterRoleContext pubkey
  | IxMinterAcceptOwnership MinterRoleContext
  | IxMinterUpdatePauser MinterRoleContext pubkey
  | IxMinterUpdateTokenController MinterRoleContext pubkey
  | IxAddAttester MinterRoleContext pubkey
  | IxRemoveAttester MinterRoleContext pubkey
  | IxMinterAddToken MinterAddTokenContext
  | IxBurnTokenCustody BurnTokenCustodyContext u64
  | IxMinterPause MinterRoleContext
  | IxMinterUnpause MinterRoleContext

fun minter_dispatch :: "platform \<Rightarrow> transaction \<Rightarrow> MinterInstruction \<Rightarrow> ledger \<Rightarrow> minter_outcome" where
  "minter_dispatch pf tx (IxGatewayMint c params) l = gateway_mint pf tx c params l"
| "minter_dispatch pf tx (IxGatewayMintWithParams c params) l = gateway_mint_with_params pf tx c params l"
| "minter_dispatch pf tx (IxMinterInitialize c domain) l = minter_initialize pf tx c domain l"
| "minter_dispatch pf tx (IxMinterTransferOwnership c k) l = minter_transfer_ownership pf tx c k l"
| "minter_dispatch pf tx (IxMinterAcceptOwnership c) l = minter_accept_ownership pf tx c l"
| "minter_dispatch pf tx (IxMinterUpdatePauser c k) l = minter_update_pauser pf tx c k l"
| "minter_dispatch pf tx (IxMinterUpdateTokenController c k) l = minter_update_token_controller pf tx c k l"
| "minter_dispatch pf tx (IxAddAttester c k) l = add_attester_ix pf tx c k l"
| "minter_dispatch pf tx (IxRemoveAttester c k) l = remove_attester_ix pf tx c k l"
| "minter_dispatch pf tx (IxMinterAddToken c) l = minter_add_token_ix pf tx c l"
| "minter_dispatch pf tx (IxBurnTokenCustody c amount) l = burn_token_custody_ix pf tx c amount l"
| "minter_dispatch pf tx (IxMinterPause c) l = minter_pause pf tx c l"
| "minter_dispatch pf tx (IxMinterUnpause c) l = minter_unpause pf tx c l"

section \<open>Minting\<close>

text \<open>
  The release of one element \<open>e\<close> from custody account \<open>cust\<close>: its hash was unused and is marked, and its
  value moved from the program's custody account of its token to its recipient.
\<close>

definition released ::
    "platform \<Rightarrow> pubkey \<Rightarrow> GatewayMinter \<Rightarrow> MintAttestationElementStruct \<Rightarrow> pubkey \<Rightarrow> pubkey \<Rightarrow> ledger \<Rightarrow> ledger \<Rightarrow> bool"
where
  "released pf g m e cust mark l l' \<longleftrightarrow>
     (\<exists>t. tok_at l cust = Some t \<and> ta_owner t = g \<and> ta_mint t = el_destination_token e) \<and>
     (\<exists>b. minter_get_custody_token_account_bump m (el_destination_token e) = Inr b \<and>
          create_program_address pf [GATEWAY_MINTER_CUSTODY_SEED, el_destination_token e, [b]] MINTER_PROGRAM_ID
            = Inr cust) \<and>
     (\<exists>t. tok_at l (el_destination_recipient e) = Some t \<and> ta_mint t = el_destination_token e) \<and>
     0 < el_value e \<and>
     (\<exists>b. try_bumps pf [USED_TRANSFER_SPEC_HASH_SEED_PREFIX, el_transfer_spec_hash e] MINTER_PROGRAM_ID 255
        = Some (mark, b)) \<and>
     \<not> is_transfer_spec_hash_used (acc_data (l mark)) MINTER_USED_MARKER \<and>
     (\<exists>l1. account_made l mark MINTER_PROGRAM_ID (Raw MINTER_USED_MARKER) l1 \<and>
           transferred l1 cust (el_destination_recipient e) g (el_value e) l')"

fun released_all ::
    "platform \<Rightarrow> pubkey \<Rightarrow> GatewayMinter \<Rightarrow> MintAttestationElementStruct list \<Rightarrow> ledger \<Rightarrow> ledger \<Rightarrow> bool" where
  "released_all pf g m [] l l' \<longleftrightarrow> l' = l"
| "released_all pf g m (e # es) l l' \<longleftrightarrow> (\<exists>cust mark l1. released pf g m e cust mark l l1 \<and> released_all pf g m es l1 l')"

definition attestation_event :: "MintAttestationElementStruct \<Rightarrow> MinterEvent" where
  "attestation_event e = AttestationUsed (el_destination_token e) (el_destination_recipient e)
     (el_transfer_spec_hash e) (el_value e)"

lemma current_element_Inr: "current_element a = Inr e \<longleftrightarrow>
    destination_token a = Inr (el_destination_token e) \<and>
    destination_recipient a = Inr (el_destination_recipient e) \<and> attestation_value a = Inr (el_value e) \<and>
    transfer_spec_hash a = Inr (el_transfer_spec_hash e) \<and> hook_data a = Inr (el_hook_data e)"
  by (cases e) (auto simp: current_element_def and_then_eq_Inr)

lemma mint_element_Inr:
  assumes ok: "system_program_ok pf" and e: "current_element a = Inr e"
    and run: "mint_element pf tx c m a (i, l, es) = Inr (i', l', es')"
  shows "i' = i + 3 \<and> es' = es @ [attestation_event e] \<and>
    gc_remaining_accounts c ! (i + 1) = el_destination_recipient e \<and>
    (\<exists>cust mark. released pf (gc_gateway_minter c) m e cust mark l l')"
proof -
  note el = e [unfolded current_element_Inr]
  from run el obtain cust ct dt mark l1 where
    cust: "validate_custody_token_account pf l cust m (gc_gateway_minter c) = Inr ct"
    and dest: "validate_destination_token_account l (el_destination_recipient e) = Inr dt"
    and mark: "process_used_transfer_spec_hash pf tx (el_transfer_spec_hash e) mark (gc_payer c) l
      = Inr (el_transfer_spec_hash e, l1)"
    and mints: "ta_mint ct = el_destination_token e" "ta_mint dt = el_destination_token e" "0 < el_value e"
    and tr: "mint_token pf tx cust (el_destination_recipient e) (gc_gateway_minter c) (gm_bump m) (el_value e) l1 = Inr l'"
    and out: "i' = i + 3" "es' = es @ [attestation_event e]"
      "gc_remaining_accounts c ! (i + 1) = el_destination_recipient e"
    unfolding mint_element_def attestation_event_def process_used_transfer_spec_hash_def
    by (auto simp: and_then_eq_Inr require_eq_Inr index_checked_eq_Inr)
  have "tok_at l cust = Some ct" "ta_owner ct = gc_gateway_minter c"
    "\<exists>b. minter_get_custody_token_account_bump m (ta_mint ct) = Inr b \<and>
       create_program_address pf [GATEWAY_MINTER_CUSTODY_SEED, ta_mint ct, [b]] MINTER_PROGRAM_ID = Inr cust"
    using cust unfolding validate_custody_token_account_def
    by (auto simp: and_then_eq_Inr require_eq_Inr map_err_eq_Inr load_typed)
  moreover have "tok_at l (el_destination_recipient e) = Some dt"
    using dest by (simp add: validate_destination_token_account_def map_err_eq_Inr load_typed)
  moreover have "\<exists>b. try_bumps pf [USED_TRANSFER_SPEC_HASH_SEED_PREFIX, el_transfer_spec_hash e] MINTER_PROGRAM_ID 255
      = Some (mark, b)" "\<not> is_transfer_spec_hash_used (acc_data (l mark)) MINTER_USED_MARKER"
    "account_made l mark MINTER_PROGRAM_ID (Raw MINTER_USED_MARKER) l1"
    using mark create_marker_made [OF ok] unfolding process_used_transfer_spec_hash_def
    by (fastforce simp: and_then_eq_Inr require_eq_Inr find_program_address_Inr)+
  moreover have "transferred l1 cust (el_destination_recipient e) (gc_gateway_minter c) (el_value e) l'"
    using tr by (auto simp: mint_token_def intro: token_transfer_transferred)
  ultimately have "released pf (gc_gateway_minter c) m e cust mark l l'"
    unfolding released_def using mints by (intro conjI) (simp_all, blast+)
  with out show ?thesis by blast
qed

lemma mint_loop_Inr:
  assumes ok: "system_program_ok pf"
    and els: "\<forall>a \<in> set as. current_element a = Inr (view_element a)"
    and run: "fold_result (mint_element pf tx c m) as (i, l, es) = Inr (i', l', es')"
  shows "i' = i + 3 * length as \<and> es' = es @ map attestation_event (map view_element as) \<and>
    (\<forall>j < length as. gc_remaining_accounts c ! (i + 3 * j + 1) = el_destination_recipient (view_element (as ! j))) \<and>
    released_all pf (gc_gateway_minter c) m (map view_element as) l l'"
  using els run
proof (induction as arbitrary: i l es)
  case (Cons a as)
  then obtain i1 l1 es1 where step: "mint_element pf tx c m a (i, l, es) = Inr (i1, l1, es1)"
    and rest: "fold_result (mint_element pf tx c m) as (i1, l1, es1) = Inr (i', l', es')"
    by (auto simp: and_then_eq_Inr)
  from Cons.prems(1) have "current_element a = Inr (view_element a)" by simp
  note e = mint_element_Inr [OF ok this step]
  have "gc_remaining_accounts c ! (i + 3 * j + 1) = el_destination_recipient (view_element ((a # as) ! j))"
    if "j < length (a # as)" for j
    using e Cons.IH [OF _ rest] Cons.prems(1) that by (cases j) (auto simp: algebra_simps)
  with e Cons.IH [OF _ rest] Cons.prems(1) show ?case by auto
qed simp

text \<open>Everything a successful mint has checked, and what it did.\<close>

definition mint_executed ::
    "platform \<Rightarrow> transaction \<Rightarrow> GatewayMintContext \<Rightarrow> bytes \<Rightarrow> bytes \<Rightarrow> ledger \<Rightarrow> GatewayMinter \<Rightarrow>
     MintAttestationStruct \<Rightarrow> MinterEvent list \<Rightarrow> ledger \<Rightarrow> bool" where
  "mint_executed pf tx c bs sig l m s es l' \<longleftrightarrow>
     minter_at l (gc_gateway_minter c) = Some m \<and> \<not> gm_paused m \<and>
     create_program_address pf [GATEWAY_MINTER_SEED, [gm_bump m]] MINTER_PROGRAM_ID = Inr (gc_gateway_minter c) \<and>
     gc_payer c \<in> set (tx_signers tx) \<and> gc_destination_caller c \<in> set (tx_signers tx) \<and>
     (\<exists>attester. recover_evm_signer pf (ethereum_signed_message_hash pf (keccak256 pf bs)) sig = Inr attester \<and>
        attester \<in> set (gm_enabled_attesters m)) \<and>
     bs = encode_attestation s \<and> valid_attestation s \<and>
     as_version s = gm_version m \<and> tx_slot tx \<le> as_max_block_height s \<and>
     (as_destination_caller s = default_pubkey \<or> as_destination_caller s = gc_destination_caller c) \<and>
     as_destination_domain s = gm_local_domain m \<and> as_destination_contract s = MINTER_PROGRAM_ID \<and>
     length (gc_remaining_accounts c) = 3 * length (as_elements s) \<and>
     (\<forall>j < length (as_elements s). gc_remaining_accounts c ! (3 * j + 1) = el_destination_recipient (as_elements s ! j)) \<and>
     released_all pf (gc_gateway_minter c) m (as_elements s) l l' \<and> es = map attestation_event (as_elements s)"

lemma verify_attestation_signature_Inr [result_simps]:
  "verify_attestation_signature pf m h sig = Inr u \<longleftrightarrow>
     (\<exists>a. recover_evm_signer pf h sig = Inr a \<and> a \<in> set (gm_enabled_attesters m))"
  by (auto simp: verify_attestation_signature_def result_simps is_attester_enabled_def
      ATTESTATION_SIGNATURE_LENGTH_def recover_evm_signer_Inr)

lemma gateway_mint_accounts_Inr:
  "gateway_mint_accounts pf tx c l = Inr m \<longleftrightarrow>
     gc_payer c \<in> set (tx_signers tx) \<and> gc_destination_caller c \<in> set (tx_signers tx) \<and>
     minter_at l (gc_gateway_minter c) = Some m \<and> gc_system_program c = SYSTEM_PROGRAM_ID \<and>
     gc_token_program c = TOKEN_PROGRAM_ID \<and> gc_payer c \<in> set (tx_writable tx) \<and>
     create_program_address pf [GATEWAY_MINTER_SEED, [gm_bump m]] MINTER_PROGRAM_ID = Inr (gc_gateway_minter c) \<and>
     \<not> gm_paused m"
  by (auto simp: gateway_mint_accounts_def and_then_eq_Inr require_eq_Inr load_signer_Inr load_program_Inr
      check_mut_Inr load_typed check_minter_pda_Inr)

lemma gateway_mint_effect:
  assumes ok: "system_program_ok pf" and len: "length (gp_attestation params) < 2 ^ 64"
    and run: "gateway_mint pf tx c params l = Inr (l', es)"
  shows "\<exists>m s. mint_executed pf tx c (gp_attestation params) (gp_signature params) l m s es l'"
proof -
  let ?bs = "gp_attestation params"
  from run obtain m a i where acc: "gateway_mint_accounts pf tx c l = Inr m"
    and sig: "verify_attestation_signature pf m
      (ethereum_signed_message_hash pf (keccak256 pf ?bs)) (gp_signature params) = Inr ()"
    and new: "attestation_new ?bs = Inr a" and hdr: "check_attestation_header tx c m a = Inr ()"
    and loop: "while_next (mint_element pf tx c m) a (0, l, []) = Inr (i, l', es)"
    and all: "i = length (gc_remaining_accounts c)"
    unfolding gateway_mint_def Let_def by (auto simp: and_then_eq_Inr require_eq_Inr)
  note r = attestation_new_ready [OF len new]
  have "88 \<le> length (ma_data a)" "length (ma_data a) < 2 ^ 64" using r len by auto
  note h = header_accessors [OF this]
  from loop have placed: "set_placed ?bs"
    and fold: "fold_result (mint_element pf tx c m) (set_views ?bs) (0, l, []) = Inr (i, l', es)"
    by (simp_all add: while_next_fold [OF len new])
  note s = encode_struct_at [OF len new placed]
  have views: "\<forall>v \<in> set (set_views ?bs). current_element v = Inr (view_element v)"
    using set_views_valid [OF placed] len by (auto simp: current_element_at view_element_def)
  from mint_loop_Inr [OF ok views fold]
  have body: "i = 3 * length (as_elements (struct_at ?bs))"
    "\<forall>j < length (as_elements (struct_at ?bs)).
       gc_remaining_accounts c ! (3 * j + 1) = el_destination_recipient (as_elements (struct_at ?bs) ! j)" "es = map attestation_event (as_elements (struct_at ?bs))"
    "released_all pf (gc_gateway_minter c) m (as_elements (struct_at ?bs)) l l'"
    by (simp_all add: struct_at_def set_elements_def)
  have head: "as_version (struct_at ?bs) = gm_version m" "tx_slot tx \<le> as_max_block_height (struct_at ?bs)"
    "as_destination_caller (struct_at ?bs) = default_pubkey \<or>
     as_destination_caller (struct_at ?bs) = gc_destination_caller c"
    "as_destination_domain (struct_at ?bs) = gm_local_domain m"
    "as_destination_contract (struct_at ?bs) = MINTER_PROGRAM_ID"
    using hdr h unfolding check_attestation_header_def
    by (auto simp: and_then_eq_Inr require_eq_Inr r(3) header_at_def struct_at_def split: if_splits)
  show ?thesis
    unfolding mint_executed_def
    by (rule exI [of _ m], rule exI [of _ "struct_at ?bs"])
      (use acc sig s body head all in \<open>auto simp: gateway_mint_accounts_Inr verify_attestation_signature_Inr\<close>)
qed

lemma gateway_mint_with_params_run:
  "gateway_mint_with_params pf tx c params l = Inr (l', es) \<longleftrightarrow>
     (\<exists>m bs. gateway_mint_accounts pf tx c l = Inr m \<and> rp_elements params \<noteq> [] \<and>
        reconstruct_attestation_bytes c m params l = Inr bs \<and>
        gateway_mint pf tx c \<lparr> gp_attestation = bs, gp_signature = rp_signature params \<rparr> l = Inr (l', es))"
  by (auto simp: gateway_mint_with_params_def and_then_eq_Inr require_eq_Inr)

end
