(* ===== verification/MinterEffects.thy ===== *)
theory MinterEffects
  imports MinterMachine
begin

text \<open>
  The effect of every instruction of the GatewayMinter as one of five kinds, and the steps of a ledger
  under the program (a successful instruction, or whatever the rest of the chain does).
\<close>

section \<open>Administration\<close>

inductive minter_role_change :: "(GatewayMinter \<Rightarrow> pubkey) \<Rightarrow> GatewayMinter \<Rightarrow> GatewayMinter \<Rightarrow> MinterEvent \<Rightarrow> bool" where
  m_nominate: "minter_role_change gm_owner m (m\<lparr> gm_pending_owner := k \<rparr>)
    (MinterEvent.OwnershipTransferStarted (gm_owner m) k)"
| m_take_over: "minter_role_change gm_pending_owner m
    (m\<lparr> gm_owner := gm_pending_owner m, gm_pending_owner := default_pubkey \<rparr>)
    (MinterEvent.OwnershipTransferred (gm_owner m) (gm_pending_owner m))"
| m_set_pauser: "k \<noteq> default_pubkey \<Longrightarrow>
    minter_role_change gm_owner m (m\<lparr> gm_pauser := k \<rparr>) (MinterEvent.PauserChanged (gm_pauser m) k)"
| m_set_token_controller: "k \<noteq> default_pubkey \<Longrightarrow>
    minter_role_change gm_owner m (m\<lparr> gm_token_controller := k \<rparr>)
      (MinterEvent.TokenControllerUpdated (gm_token_controller m) k)"
| m_enter_attester: "k \<noteq> default_pubkey \<Longrightarrow> add_attester m k = Inr m' \<Longrightarrow>
    minter_role_change gm_owner m m' (AttestationSignerAdded k)"
| m_evict_attester: "remove_attester m k = Inr m' \<Longrightarrow>
    minter_role_change gm_owner m m' (AttestationSignerRemoved k)"
| m_switch_off: "minter_role_change gm_pauser m (m\<lparr> gm_paused := True \<rparr>) (MinterEvent.Paused (gm_pauser m))"
| m_switch_on: "minter_role_change gm_pauser m (m\<lparr> gm_paused := False \<rparr>) (MinterEvent.Unpaused (gm_pauser m))"

abbreviation "minter_written l k m \<equiv> written MINTER_PROGRAM_ID l k as_minter (MinterData m)"

definition minter_role_done :: "transaction \<Rightarrow> ledger \<Rightarrow> MinterEvent list \<Rightarrow> ledger \<Rightarrow> bool" where
  "minter_role_done tx l es l' \<longleftrightarrow> (\<exists>k role m m' e. minter_at l k = Some m \<and> role m \<in> set (tx_signers tx) \<and>
     minter_written l k m' l' \<and> minter_role_change role m m' e \<and> es = [e])"

lemma minter_role_accounts_Inr [result_simps]:
  "minter_role_accounts pf tx c role l = Inr m \<longleftrightarrow>
     mr_signer c \<in> set (tx_signers tx) \<and> minter_at l (mr_gateway_minter c) = Some m \<and>
     create_program_address pf [GATEWAY_MINTER_SEED, [gm_bump m]] MINTER_PROGRAM_ID = Inr (mr_gateway_minter c) \<and>
     mr_gateway_minter c \<in> set (tx_writable tx) \<and> role m = mr_signer c"
  by (auto simp: minter_role_accounts_def and_then_eq_Inr load_signer_Inr load_typed check_minter_pda_Inr
      check_mut_Inr require_eq_Inr)

lemma minter_role_doneI:
  assumes "minter_role_accounts pf tx c role l = Inr m" "minter_finish c m' e l = Inr (l', es)"
    "minter_role_change role m m' e"
  shows "minter_role_done tx l es l'"
proof -
  from assms(1) have m: "minter_at l (mr_gateway_minter c) = Some m" "role m \<in> set (tx_signers tx)"
    by (auto simp: minter_role_accounts_Inr)
  from assms(2) have "minter_written l (mr_gateway_minter c) m' l'" "es = [e]"
    by (auto simp: minter_finish_def and_then_eq_Inr exit_minter_def intro: account_writtenI_loaded [OF m(1)])
  with m assms(3) show ?thesis unfolding minter_role_done_def by blast
qed

lemma minter_role_instruction:
  "minter_transfer_ownership pf tx c k l = Inr (l', es) \<Longrightarrow> minter_role_done tx l es l'"
  "minter_accept_ownership pf tx c l = Inr (l', es) \<Longrightarrow> minter_role_done tx l es l'"
  "minter_update_pauser pf tx c k l = Inr (l', es) \<Longrightarrow> minter_role_done tx l es l'"
  "minter_update_token_controller pf tx c k l = Inr (l', es) \<Longrightarrow> minter_role_done tx l es l'"
  "add_attester_ix pf tx c k l = Inr (l', es) \<Longrightarrow> minter_role_done tx l es l'"
  "remove_attester_ix pf tx c k l = Inr (l', es) \<Longrightarrow> minter_role_done tx l es l'"
  unfolding minter_transfer_ownership_def minter_accept_ownership_def minter_update_pauser_def
    minter_update_token_controller_def add_attester_ix_def remove_attester_ix_def Let_def
  by (clarsimp simp: and_then_eq_Inr require_eq_Inr, erule (1) minter_role_doneI,
      auto intro: minter_role_change.intros)+

lemma minter_role_switch:
  "minter_pause pf tx c l = Inr (l', es) \<Longrightarrow> minter_role_done tx l es l'"
  "minter_unpause pf tx c l = Inr (l', es) \<Longrightarrow> minter_role_done tx l es l'"
  unfolding minter_pause_def minter_unpause_def and_then_eq_Inr
  using m_switch_off m_switch_on minter_role_doneI by (metis minter_role_accounts_Inr)+

section \<open>The five kinds of effect\<close>

inductive minter_effect :: "platform \<Rightarrow> transaction \<Rightarrow> ledger \<Rightarrow> MinterEvent list \<Rightarrow> ledger \<Rightarrow> bool" for pf tx where
  m_release: "mint_executed pf tx c bs sig l m s es l' \<Longrightarrow> minter_effect pf tx l es l'"
| m_administer: "minter_role_done tx l es l' \<Longrightarrow> minter_effect pf tx l es l'"
| m_create: "try_bumps pf [GATEWAY_MINTER_SEED] MINTER_PROGRAM_ID 255 = Some (k, b) \<Longrightarrow> fresh l k \<Longrightarrow>
    u \<in> set (tx_signers tx) \<Longrightarrow> acc_data (l pd) = ProgramData (Some u) \<Longrightarrow>
    m = zeroed_GatewayMinter\<lparr> gm_bump := b, gm_local_domain := domain, gm_version := 1, gm_owner := u,
      gm_pauser := u, gm_token_controller := u \<rparr> \<Longrightarrow>
    minter_written l k m l' \<Longrightarrow> minter_effect pf tx l [GatewayMinterInitialized] l'"
| m_support: "minter_at l g = Some m \<Longrightarrow> gm_token_controller m \<in> set (tx_signers tx) \<Longrightarrow>
    create_program_address pf [GATEWAY_MINTER_SEED, [gm_bump m]] MINTER_PROGRAM_ID = Inr g \<Longrightarrow>
    try_bumps pf [GATEWAY_MINTER_CUSTODY_SEED, mint] MINTER_PROGRAM_ID 255 = Some (cust, b) \<Longrightarrow>
    token_initialised l cust mint g l1 \<Longrightarrow> minter_add_token m mint b = Inr m' \<Longrightarrow>
    minter_written l1 g m' l' \<Longrightarrow> minter_effect pf tx l [MinterEvent.TokenSupported mint cust] l'"
| m_burn: "minter_at l g = Some m \<Longrightarrow> gm_token_controller m \<in> set (tx_signers tx) \<Longrightarrow>
    create_program_address pf [GATEWAY_MINTER_SEED, [gm_bump m]] MINTER_PROGRAM_ID = Inr g \<Longrightarrow>
    minter_get_custody_token_account_bump m mint = Inr b \<Longrightarrow>
    create_program_address pf [GATEWAY_MINTER_CUSTODY_SEED, mint, [b]] MINTER_PROGRAM_ID = Inr cust \<Longrightarrow>
    tok_at l cust = Some t \<Longrightarrow> ta_owner t = g \<Longrightarrow> ta_mint t = mint \<Longrightarrow> amount \<noteq> 0 \<Longrightarrow>
    unat n = min (unat (amount :: u64)) (unat (ta_amount t)) \<Longrightarrow> burned l cust mint g n l' \<Longrightarrow>
    minter_effect pf tx l [TokenCustodyBurned mint cust n] l'"

lemma minter_initialize_kind:
  assumes ok: "system_program_ok pf" and run: "minter_initialize pf tx c domain l = Inr (l', es)"
  shows "minter_effect pf tx l es l'"
proof -
  let ?k = "mn_gateway_minter c" and ?u = "mn_upgrade_authority c"
  from run obtain x b l1 where acc: "minter_initialize_accounts pf tx c l = Inr (x, b, l1)"
    and ex: "exit_minter ?k (x\<lparr> gm_bump := b, gm_local_domain := domain, gm_version := 1, gm_owner := ?u,
        gm_pending_owner := default_pubkey, gm_pauser := ?u, gm_token_controller := ?u, gm_paused := False \<rparr>) l1
      = (Inr l' :: ledger minter_result)" and es: "es = [GatewayMinterInitialized]"
    unfolding minter_initialize_def Let_def by (auto simp: and_then_eq_Inr)
  from acc have sig: "?u \<in> set (tx_signers tx)"
    and pd: "load_program_data l (mn_program_data c) = (Inr (Some ?u) :: (pubkey option) minter_result)"
    and init: "init_account pf MINTER_PROGRAM_ID tx (mn_payer c) ?k [GATEWAY_MINTER_SEED] MINTER_SPACE
      zeroed_GatewayMinter l = (Inr (x, b, l1) :: (GatewayMinter \<times> u8 \<times> ledger) minter_result)"
    unfolding minter_initialize_accounts_def by (auto simp: and_then_eq_Inr require_eq_Inr load_signer_Inr)
  from pd have data: "acc_data (l (mn_program_data c)) = ProgramData (Some ?u)"
    by (auto simp: load_program_data_def load_account_def ok_or_eq_Inr as_data_Some split: if_splits)
  note i = init_account_Inr [OF ok init]
  have made: "initialised l ?k MINTER_PROGRAM_ID MINTER_SPACE as_minter zeroed_GatewayMinter x l1"
    and own: "acc_owner (l1 ?k) = MINTER_PROGRAM_ID" and fr: "fresh l ?k"
    using i(1,2) by (auto simp: initialised_def account_made_def fresh_def)
  have "minter_written l ?k (zeroed_GatewayMinter\<lparr> gm_bump := b, gm_local_domain := domain, gm_version := 1,
      gm_owner := ?u, gm_pauser := ?u, gm_token_controller := ?u \<rparr>) l'"
    using account_writtenI [OF made own] ex i(2) by (simp add: exit_minter_def zeroed_GatewayMinter_def)
  from m_create [OF i(3) fr sig data refl this] es show ?thesis by simp
qed

lemma minter_add_token_kind:
  assumes ok: "system_program_ok pf" and run: "minter_add_token_ix pf tx c l = Inr (l', es)"
  shows "minter_effect pf tx l es l'"
proof -
  let ?g = "ma_gateway_minter c" and ?cust = "ma_custody_token_account c" and ?mint = "ma_token_mint c"
  from run obtain m b l1 m' where acc: "minter_add_token_accounts pf tx c l = Inr (m, b, l1)"
    and add: "minter_add_token m ?mint b = Inr m'"
    and ex: "exit_minter ?g m' l1 = (Inr l' :: ledger minter_result)"
    and es: "es = [MinterEvent.TokenSupported ?mint ?cust]"
    unfolding minter_add_token_ix_def by (auto simp: and_then_eq_Inr)
  from acc obtain t where m: "minter_at l ?g = Some m" "gm_token_controller m \<in> set (tx_signers tx)"
      "create_program_address pf [GATEWAY_MINTER_SEED, [gm_bump m]] MINTER_PROGRAM_ID = Inr ?g"
    and init: "init_token_account pf MINTER_PROGRAM_ID tx (ma_payer c) ?cust
      [GATEWAY_MINTER_CUSTODY_SEED, ?mint] ?mint ?g True l
      = (Inr (t, b, l1) :: (TokenAccount \<times> u8 \<times> ledger) minter_result)"
    unfolding minter_add_token_accounts_def
    by (auto simp: and_then_eq_Inr require_eq_Inr load_signer_Inr load_typed check_minter_pda_Inr)
  note i = token_initialisedI [OF ok init]
  have "minter_at l1 ?g = Some m"
  proof (cases "?g = ?cust")
    case True
    with i(1) m(1) show ?thesis by (auto simp: token_initialised_def fresh_def typed_def split: if_splits)
  next
    case False
    then show ?thesis using i(1) m(1) by (auto simp: token_initialised_def typed_untouched)
  qed
  from account_writtenI_loaded [OF this] ex have "minter_written l1 ?g m' l'" by (simp add: exit_minter_def)
  from m_support [OF m i(2,1) add this] es show ?thesis by simp
qed

lemma burn_custody_effect:
  assumes run: "burn_token_custody_ix pf tx c amount l = Inr (l', es)"
  obtains m b t n where "minter_at l (bc_gateway_minter c) = Some m" "gm_token_controller m \<in> set (tx_signers tx)"
    "create_program_address pf [GATEWAY_MINTER_SEED, [gm_bump m]] MINTER_PROGRAM_ID = Inr (bc_gateway_minter c)"
    "minter_get_custody_token_account_bump m (bc_token_mint c) = Inr b"
    "create_program_address pf [GATEWAY_MINTER_CUSTODY_SEED, bc_token_mint c, [b]] MINTER_PROGRAM_ID
      = Inr (bc_custody_token_account c)"
    "tok_at l (bc_custody_token_account c) = Some t" "ta_owner t = bc_gateway_minter c" "ta_mint t = bc_token_mint c"
    "amount \<noteq> 0" "unat n = min (unat amount) (unat (ta_amount t))"
    "burned l (bc_custody_token_account c) (bc_token_mint c) (bc_gateway_minter c) n l'"
    "es = [TokenCustodyBurned (bc_token_mint c) (bc_custody_token_account c) n]"
proof -
  let ?n = "\<lambda>t. if amount < ta_amount t then amount else ta_amount t"
  from run obtain m t where acc: "burn_token_custody_accounts pf tx c l = Inr (m, t)" and "amount \<noteq> 0"
    and burn: "burn_token_custody pf tx (bc_token_mint c) (bc_gateway_minter c) (gm_bump m)
      (bc_custody_token_account c) (?n t) l = Inr l'"
    and es: "es = [TokenCustodyBurned (bc_token_mint c) (bc_custody_token_account c) (?n t)]"
    unfolding burn_token_custody_ix_def Let_def by (auto simp: and_then_eq_Inr require_eq_Inr)
  from acc obtain b where a: "minter_at l (bc_gateway_minter c) = Some m" "gm_token_controller m \<in> set (tx_signers tx)"
    "create_program_address pf [GATEWAY_MINTER_SEED, [gm_bump m]] MINTER_PROGRAM_ID = Inr (bc_gateway_minter c)"
    "minter_get_custody_token_account_bump m (bc_token_mint c) = Inr b"
    "create_program_address pf [GATEWAY_MINTER_CUSTODY_SEED, bc_token_mint c, [b]] MINTER_PROGRAM_ID
      = Inr (bc_custody_token_account c)"
    "tok_at l (bc_custody_token_account c) = Some t" "ta_owner t = bc_gateway_minter c" "ta_mint t = bc_token_mint c"
    unfolding burn_token_custody_accounts_def check_minter_custody_pda_def
    by (auto simp: and_then_eq_Inr require_eq_Inr load_signer_Inr load_typed check_minter_pda_Inr check_token_Inr
        check_seeds_bump_Inr)
  have "unat (?n t) = min (unat amount) (unat (ta_amount t))" by (simp add: u64_less_iff)
  moreover have "burned l (bc_custody_token_account c) (bc_token_mint c) (bc_gateway_minter c) (?n t) l'"
    using burn unfolding burn_token_custody_def by (rule token_burn_burned)
  ultimately show ?thesis by (rule that [OF a \<open>amount \<noteq> 0\<close> _ _ es])
qed

lemma burn_custody_kind:
  "burn_token_custody_ix pf tx c amount l = Inr (l', es) \<Longrightarrow> minter_effect pf tx l es l'"
  by (erule burn_custody_effect) (simp only:, rule m_burn)

text \<open>The byte vector of the attestation has a length that fits a \<open>usize\<close>.\<close>

fun attestation_fits :: "MinterInstruction \<Rightarrow> ledger \<Rightarrow> bool" where
  "attestation_fits (IxGatewayMint c params) l \<longleftrightarrow> length (gp_attestation params) < 2 ^ 64"
| "attestation_fits (IxGatewayMintWithParams c params) l \<longleftrightarrow>
     (\<forall>m bs. minter_at l (gc_gateway_minter c) = Some m \<longrightarrow>
        reconstruct_attestation_bytes c m params l = Inr bs \<longrightarrow> length bs < 2 ^ 64)"
| "attestation_fits _ l \<longleftrightarrow> True"

lemma minter_dispatch_effect:
  assumes ok: "system_program_ok pf" and fits: "attestation_fits ix l"
    and run: "minter_dispatch pf tx ix l = Inr (l', es)"
  shows "minter_effect pf tx l es l'"
proof (cases ix)
  case (IxGatewayMint c params)
  with fits run gateway_mint_effect [OF ok, of params tx c l l' es] show ?thesis by (auto intro: m_release)
next
  case (IxGatewayMintWithParams c params)
  with run obtain m bs where acc: "gateway_mint_accounts pf tx c l = Inr m"
    and bs: "reconstruct_attestation_bytes c m params l = Inr bs"
    and mint: "gateway_mint pf tx c \<lparr> gp_attestation = bs, gp_signature = rp_signature params \<rparr> l = Inr (l', es)"
    by (auto simp: gateway_mint_with_params_run)
  have "length bs < 2 ^ 64" using fits acc bs IxGatewayMintWithParams by (simp add: gateway_mint_accounts_Inr)
  with gateway_mint_effect [OF ok _ mint] show ?thesis by (auto intro: m_release)
qed (use run in \<open>auto intro: m_administer minter_role_instruction minter_role_switch
  minter_initialize_kind [OF ok] minter_add_token_kind [OF ok] burn_custody_kind\<close>)

end
