(* ===== verification/MinterContracts.thy ===== *)
theory MinterContracts
  imports MinterEffects Markers
begin

text \<open>
  The GatewayMinter's well-formedness and the contracts of Machine on it: every step keeps the accounts
  well formed (\<open>minter_machine\<close>), a transfer spec hash releases funds at most once (\<open>minter_replay\<close>), and
  the ownership moves only by nomination and acceptance (\<open>minter_ownership\<close>).
\<close>

section \<open>Steps\<close>

definition minter_pda :: "platform \<Rightarrow> pubkey \<Rightarrow> bool" where
  "minter_pda pf k \<longleftrightarrow> (\<exists>seeds. create_program_address pf seeds MINTER_PROGRAM_ID = Inr k)"

definition signed_by_minter_users :: "platform \<Rightarrow> transaction \<Rightarrow> bool" where
  "signed_by_minter_users pf tx \<longleftrightarrow> (\<forall>k \<in> set (tx_signers tx). \<not> minter_pda pf k)"

text \<open>The rest of the chain keeps the program's records.\<close>

abbreviation minter_env :: "ledger \<Rightarrow> ledger \<Rightarrow> bool" where
  "minter_env \<equiv> keeps_records MINTER_PROGRAM_ID"

inductive minter_step :: "platform \<Rightarrow> ledger \<Rightarrow> MinterEvent list \<Rightarrow> ledger \<Rightarrow> bool" for pf where
  minter_call: "signed_by_minter_users pf tx \<Longrightarrow> attestation_fits ix l \<Longrightarrow>
    minter_dispatch pf tx ix l = Inr (l', es) \<Longrightarrow> minter_step pf l es l'"
| minter_rest: "minter_env l l' \<Longrightarrow> minter_step pf l [] l'"

abbreviation "minter_run pf \<equiv> machine_run (minter_step pf)"

section \<open>Releases on the ledger\<close>

abbreviation "minter_marked \<equiv> marked MINTER_PROGRAM_ID MINTER_USED_MARKER"
abbreviation "minter_hash_used \<equiv> hash_used MINTER_PROGRAM_ID MINTER_USED_MARKER"

lemma released_views:
  assumes "released pf g m e cust mark l l'"
  shows "minter_at l' = minter_at l" "minter_marked l j \<Longrightarrow> minter_marked l' j"
    "\<not> minter_hash_used pf l (el_transfer_spec_hash e)" "minter_hash_used pf l' (el_transfer_spec_hash e)"
proof -
  from assms obtain l1 b where made: "account_made l mark MINTER_PROGRAM_ID (Raw MINTER_USED_MARKER) l1"
    and tr: "transferred l1 cust (el_destination_recipient e) g (el_value e) l'"
    and mark: "try_bumps pf [USED_TRANSFER_SPEC_HASH_SEED_PREFIX, el_transfer_spec_hash e] MINTER_PROGRAM_ID 255
      = Some (mark, b)"
    unfolding released_def by blast
  note ot = transferred_only_tokens [OF tr]
  have "minter_at l1 j = minter_at l j" for j
    using made by (cases "j = mark") (auto simp: account_made_def typed_def)
  then show "minter_at l' = minter_at l" using typed_only_tokens [OF ot, of MINTER_PROGRAM_ID as_minter] by auto
  show "minter_marked l j \<Longrightarrow> minter_marked l' j"
    using marked_only_tokens [OF ot] marked_made [OF made] by simp
  have "fresh l mark" using made by (simp add: account_made_def fresh_def)
  from used_fresh [OF mark this] show "\<not> minter_hash_used pf l (el_transfer_spec_hash e)" by simp
  have "minter_marked l1 mark" using made by (simp add: account_made_def marked_def)
  with marked_only_tokens [OF ot] mark show "minter_hash_used pf l' (el_transfer_spec_hash e)"
    unfolding hash_used_def by auto
qed

lemma released_all_views:
  "released_all pf g m es l l' \<Longrightarrow> minter_at l' = minter_at l \<and> (\<forall>j. minter_marked l j \<longrightarrow> minter_marked l' j) \<and>
     distinct (map el_transfer_spec_hash es) \<and>
     (\<forall>e \<in> set es. \<not> minter_hash_used pf l (el_transfer_spec_hash e) \<and> minter_hash_used pf l' (el_transfer_spec_hash e))"
proof (induction es arbitrary: l)
  case (Cons e es)
  then obtain cust mark l1 where r: "released pf g m e cust mark l l1" and rest: "released_all pf g m es l1 l'"
    by auto
  note v = released_views [OF r] and IH = Cons.IH [OF rest]
  have mono: "minter_hash_used pf l h \<Longrightarrow> minter_hash_used pf l1 h" "minter_hash_used pf l1 h \<Longrightarrow> minter_hash_used pf l' h" for h
    using v(2) IH unfolding hash_used_def by blast+
  have "el_transfer_spec_hash e \<notin> set (map el_transfer_spec_hash es)" using IH v(4) by auto
  with IH v mono show ?case by auto
qed simp

section \<open>How each effect changes the minter state\<close>

fun minter_ownership_kind :: "MinterEvent \<Rightarrow> ownership_event" where
  "minter_ownership_kind (MinterEvent.OwnershipTransferStarted owner k) = Nominated owner k"
| "minter_ownership_kind (MinterEvent.OwnershipTransferred owner k) = TakenOver owner k"
| "minter_ownership_kind _ = OtherEvent"

fun used_hash :: "MinterEvent \<Rightarrow> bytes option" where
  "used_hash (AttestationUsed token recipient h n) = Some h"
| "used_hash _ = None"

inductive minters_change :: "platform \<Rightarrow> transaction \<Rightarrow> ledger \<Rightarrow> MinterEvent list \<Rightarrow> ledger \<Rightarrow> bool" for pf tx where
  minters_same: "minter_at l' = minter_at l \<Longrightarrow> \<forall>e \<in> set es. minter_ownership_kind e = OtherEvent \<Longrightarrow>
    minters_change pf tx l es l'"
| minters_role: "minter_at l k = Some m \<Longrightarrow> role m \<in> set (tx_signers tx) \<Longrightarrow> minter_role_change role m m' e \<Longrightarrow>
    minter_at l' = (minter_at l)(k \<mapsto> m') \<Longrightarrow> minters_change pf tx l [e] l'"
| minters_created: "try_bumps pf [GATEWAY_MINTER_SEED] MINTER_PROGRAM_ID 255 = Some (k, b) \<Longrightarrow> fresh l k \<Longrightarrow>
    minter_at l' = (minter_at l)(k \<mapsto> zeroed_GatewayMinter\<lparr> gm_bump := b, gm_local_domain := domain,
      gm_version := 1, gm_owner := u, gm_pauser := u, gm_token_controller := u \<rparr>) \<Longrightarrow>
    minters_change pf tx l es l'"
| minters_token: "minter_at l k = Some m \<Longrightarrow> gm_token_controller m \<in> set (tx_signers tx) \<Longrightarrow>
    try_bumps pf [GATEWAY_MINTER_CUSTODY_SEED, mint] MINTER_PROGRAM_ID 255 = Some (cust, b) \<Longrightarrow>
    minter_add_token m mint b = Inr m' \<Longrightarrow> minter_at l' = (minter_at l)(k \<mapsto> m') \<Longrightarrow>
    minters_change pf tx l [MinterEvent.TokenSupported mint cust] l'"

lemma minter_written_views: "minter_written l k m l' \<Longrightarrow> minter_at l' = (minter_at l)(k \<mapsto> m)"
  using typed_written(1) [of MINTER_PROGRAM_ID l k as_minter "MinterData m" l' as_minter m] by simp

lemma minter_token_initialised: "token_initialised l k mint a l' \<Longrightarrow> minter_at l' = minter_at l"
proof
  fix j
  assume "token_initialised l k mint a l'"
  then show "minter_at l' j = minter_at l j"
    by (cases "j = k") (auto simp: token_initialised_def typed_def fresh_def untouched_def split: if_splits)
qed

lemma effect_minters:
  assumes "minter_effect pf tx l es l'"
  shows "minters_change pf tx l es l'"
  using assms
proof cases
  case (m_release c bs sig m s)
  then have "released_all pf (gc_gateway_minter c) m (as_elements s) l l'" "es = map attestation_event (as_elements s)"
    by (simp_all add: mint_executed_def)
  with released_all_views [OF this(1)] show ?thesis by (auto intro!: minters_same simp: attestation_event_def)
next
  case m_administer
  then obtain k role m m' e where "minter_at l k = Some m" "role m \<in> set (tx_signers tx)"
    "minter_written l k m' l'" "minter_role_change role m m' e" "es = [e]"
    unfolding minter_role_done_def by blast
  then show ?thesis using minter_written_views by (auto intro: minters_role)
next
  case (m_create k b u pd m domain)
  show ?thesis by (rule minters_created [OF m_create(2,3)])
    (use minter_written_views [OF m_create(7)] m_create(6) in simp)
next
  case (m_support g m mint cust b l1 m')
  show ?thesis unfolding m_support(1)
    by (rule minters_token [OF m_support(2,3,5,7)])
      (use minter_written_views [OF m_support(8)] minter_token_initialised [OF m_support(6)] in simp)
next
  case (m_burn g m mint b cust t amount n)
  then have "minter_at l' = minter_at l" by (intro typed_only_tokens burned_only_tokens) simp_all
  with m_burn(1) show ?thesis by (intro minters_same) simp_all
qed

lemma effect_minter_marked:
  assumes "minter_effect pf tx l es l'" and m: "minter_marked l j"
  shows "minter_marked l' j"
  using assms(1)
proof cases
  case (m_release c bs sig m s)
  then have "released_all pf (gc_gateway_minter c) m (as_elements s) l l'" by (simp add: mint_executed_def)
  from released_all_views [OF this] assms(2) show ?thesis by blast
next
  case m_administer
  then obtain k m' where "minter_written l k m' l'" unfolding minter_role_done_def by blast
  then show ?thesis by (rule marked_written [OF _ _ assms(2)]) simp_all
next
  case (m_create k b u pd m domain)
  show ?thesis by (rule marked_written [OF m_create(7) _ assms(2)]) simp_all
next
  case (m_support g m mint cust b l1 m')
  have "minter_marked l1 j" using marked_token_initialised [OF m_support(6) assms(2)] by simp
  from marked_written [OF m_support(8) _ this] show ?thesis by simp
next
  case (m_burn g m mint b cust t amount n)
  show ?thesis by (rule marked_only_tokens [OF burned_only_tokens [OF m_burn(12)] _ assms(2)]) simp
qed

section \<open>Well-formedness\<close>

definition minter_ok :: "platform \<Rightarrow> GatewayMinter \<Rightarrow> bool" where
  "minter_ok pf m \<longleftrightarrow> minter_tokens_aligned m \<and> well_formed_registry MAX_ATTESTERS (gm_enabled_attesters m) \<and>
     (\<forall>t b. minter_get_custody_token_account_bump m t = Inr b \<longrightarrow>
        (\<exists>c. try_bumps pf [GATEWAY_MINTER_CUSTODY_SEED, t] MINTER_PROGRAM_ID 255 = Some (c, b)))"

definition minter_wf :: "platform \<Rightarrow> ledger \<Rightarrow> bool" where
  "minter_wf pf l \<longleftrightarrow> (\<forall>k m. minter_at l k = Some m \<longrightarrow>
     try_bumps pf [GATEWAY_MINTER_SEED] MINTER_PROGRAM_ID 255 = Some (k, gm_bump m) \<and> minter_ok pf m)"

lemma minter_wfD: "minter_wf pf l \<Longrightarrow> minter_at l k = Some m \<Longrightarrow>
    try_bumps pf [GATEWAY_MINTER_SEED] MINTER_PROGRAM_ID 255 = Some (k, gm_bump m) \<and> minter_ok pf m"
  by (simp add: minter_wf_def)

lemma minter_wf_update: "minter_wf pf l \<Longrightarrow> minter_at l' = (minter_at l)(k \<mapsto> m) \<Longrightarrow>
    try_bumps pf [GATEWAY_MINTER_SEED] MINTER_PROGRAM_ID 255 = Some (k, gm_bump m) \<Longrightarrow> minter_ok pf m \<Longrightarrow>
    minter_wf pf l'"
  by (simp add: minter_wf_def)

lemma minter_role_change_fields:
  assumes "minter_role_change role m m' e"
  shows "gm_bump m' = gm_bump m" "gm_supported_tokens m' = gm_supported_tokens m"
    "gm_custody_token_account_bumps m' = gm_custody_token_account_bumps m"
    "gm_local_domain m' = gm_local_domain m" "gm_version m' = gm_version m"
  using assms by (auto elim!: minter_role_change.cases simp: add_attester_def remove_attester_def
      split: if_splits option.splits)

lemma minter_role_change_ok:
  assumes "minter_role_change role m m' e" "minter_ok pf m"
  shows "minter_ok pf m'"
proof -
  note f = minter_role_change_fields [OF assms(1)]
  have "minter_get_custody_token_account_bump m' = minter_get_custody_token_account_bump m"
    by (simp add: fun_eq_iff minter_get_custody_token_account_bump_def minter_get_token_index_def f
        cong: option.case_cong)
  moreover have "minter_tokens_aligned m'" using assms(2) by (simp add: minter_ok_def minter_tokens_aligned_def f)
  moreover have "well_formed_registry MAX_ATTESTERS (gm_enabled_attesters m')"
    using assms by cases (auto simp: minter_ok_def intro: attester_registry.enter_well_formed
        attester_registry.evict_well_formed)
  ultimately show ?thesis using assms(2) by (simp add: minter_ok_def)
qed

lemma minter_get_bump_add_token:
  assumes "minter_tokens_aligned m" "minter_add_token m t b = Inr m'"
  shows "minter_get_custody_token_account_bump m' u =
    (if u = t \<and> \<not> minter_is_token_supported m t then Inr b else minter_get_custody_token_account_bump m u)"
proof (cases "minter_is_token_supported m t")
  case True
  with assms(2) show ?thesis by (simp add: minter_add_token_def)
next
  case False
  with assms(2) have m': "m' = m\<lparr> gm_supported_tokens := gm_supported_tokens m @ [t],
      gm_custody_token_account_bumps := gm_custody_token_account_bumps m @ [b] \<rparr>"
    by (simp add: minter_add_token_def split: if_splits)
  have len: "length (gm_custody_token_account_bumps m) = length (gm_supported_tokens m)"
    using assms(1) by (simp add: minter_tokens_aligned_def)
  show ?thesis
  proof (cases "position (\<lambda>x. x = u) (gm_supported_tokens m)")
    case None
    with False len show ?thesis
      by (auto simp: m' minter_get_custody_token_account_bump_def minter_get_token_index_def index_checked_def
          position_append_notin nth_append simp del: position_None)
  next
    case (Some i)
    from position_Some [OF this] False have "i < length (gm_supported_tokens m)" "u \<noteq> t"
      by (auto simp: minter_is_token_supported_def)
    with Some len show ?thesis
      by (simp add: m' minter_get_custody_token_account_bump_def minter_get_token_index_def index_checked_def
          position_append_notin nth_append)
  qed
qed

lemma minter_add_token_ok:
  assumes ok: "minter_ok pf m" and add: "minter_add_token m mint b = Inr m'"
    and pda: "try_bumps pf [GATEWAY_MINTER_CUSTODY_SEED, mint] MINTER_PROGRAM_ID 255 = Some (c, b)"
  shows "minter_ok pf m'" "gm_bump m' = gm_bump m"
proof -
  from ok have al: "minter_tokens_aligned m" by (simp add: minter_ok_def)
  show "gm_bump m' = gm_bump m" using add by (auto simp: minter_add_token_def split: if_splits)
  have "gm_enabled_attesters m' = gm_enabled_attesters m"
    using add by (auto simp: minter_add_token_def split: if_splits)
  with ok pda minter_get_bump_add_token [OF al add] minter_add_token_aligned [OF al add] show "minter_ok pf m'"
    unfolding minter_ok_def by (auto split: if_splits)
qed

lemma minters_change_wf:
  assumes "minters_change pf tx l es l'" and ok: "minter_wf pf l"
  shows "minter_wf pf l'"
  using assms(1)
proof cases
  case (minters_role k m role m' e)
  note m = minter_wfD [OF ok minters_role(2)]
  show ?thesis
    by (rule minter_wf_update [OF ok minters_role(5)])
      (use m minter_role_change_ok [OF minters_role(4)] minter_role_change_fields(1) [OF minters_role(4)] in simp_all)
next
  case (minters_created k b domain u)
  show ?thesis
    by (rule minter_wf_update [OF ok minters_created(3)])
      (use minters_created in \<open>simp_all add: minter_ok_def zeroed_GatewayMinter_def minter_tokens_aligned_def
         well_formed_registry_def minter_get_custody_token_account_bump_def minter_get_token_index_def\<close>)
next
  case (minters_token k m mint cust b m')
  note m = minter_wfD [OF ok minters_token(2)]
  note m' = minter_add_token_ok [OF conjunct2 [OF m] minters_token(5,4)]
  show ?thesis
    by (rule minter_wf_update [OF ok minters_token(6)]) (use m m' in simp_all)
qed (use ok in \<open>simp add: minter_wf_def\<close>)

definition minter_inv :: "platform \<Rightarrow> ledger \<Rightarrow> bool" where
  "minter_inv pf l \<longleftrightarrow> system_program_ok pf \<and> minter_wf pf l"

lemma minter_env_views: "minter_env l l' \<Longrightarrow> minter_at l' = minter_at l"
  by (rule keeps_records_typed) simp_all

text \<open>A step is an effect or leaves the program's accounts alone.\<close>

lemma minter_step_cases:
  assumes "minter_inv pf l" "minter_step pf l es l'"
  obtains (effect) tx where "minter_effect pf tx l es l'" | (rest) "es = []" "minter_env l l'"
  using assms(2)
proof cases
  case (minter_call tx ix)
  with assms(1) show thesis by (intro effect) (auto simp: minter_inv_def intro: minter_dispatch_effect)
qed (rule rest)

interpretation minter_machine: machine "minter_step pf" "minter_inv pf" for pf
proof unfold_locales
  fix l es l'
  assume inv: "minter_inv pf l" and "minter_step pf l es l'"
  then show "minter_inv pf l'"
  proof (cases rule: minter_step_cases)
    case (effect tx)
    from minters_change_wf [OF effect_minters [OF this]] inv show ?thesis by (simp add: minter_inv_def)
  next
    case rest
    with inv show ?thesis by (simp add: minter_inv_def minter_wf_def minter_env_views)
  qed
qed

section \<open>Replay protection\<close>

lemma effect_used:
  assumes "minter_effect pf tx l es l'"
  shows "distinct (List.map_filter used_hash es) \<and>
    (\<forall>h \<in> set (List.map_filter used_hash es). \<not> minter_hash_used pf l h \<and> minter_hash_used pf l' h)"
  using assms
proof cases
  case (m_release c bs sig m s)
  have "List.map_filter used_hash (map attestation_event xs) = map el_transfer_spec_hash xs" for xs
    by (induction xs) (auto simp: List.map_filter_def attestation_event_def)
  with m_release released_all_views [of pf "gc_gateway_minter c" m "as_elements s" l l'] show ?thesis
    by (auto simp: mint_executed_def)
next
  case m_administer
  then obtain role m m' e where "minter_role_change role m m' e" "es = [e]" unfolding minter_role_done_def by blast
  then show ?thesis by (cases rule: minter_role_change.cases) (simp_all add: List.map_filter_def)
qed (simp_all add: List.map_filter_def)

interpretation minter_replay: replay_guard "minter_step pf" "minter_inv pf" "minter_hash_used pf" used_hash for pf
proof unfold_locales
  fix l es l' h
  assume inv: "minter_inv pf l" and step: "minter_step pf l es l'"
  show "minter_hash_used pf l h \<Longrightarrow> minter_hash_used pf l' h"
    using inv step
  proof (cases rule: minter_step_cases)
    case (effect tx)
    then show "minter_hash_used pf l h \<Longrightarrow> minter_hash_used pf l' h"
      unfolding hash_used_def by (blast intro: effect_minter_marked)
  next
    case rest
    show "minter_hash_used pf l h \<Longrightarrow> minter_hash_used pf l' h"
      by (rule keeps_records_used [OF rest(2) idle_not_marker(2)])
  qed
  have spent: "distinct (List.map_filter used_hash es) \<and>
    (\<forall>h \<in> set (List.map_filter used_hash es). \<not> minter_hash_used pf l h \<and> minter_hash_used pf l' h)"
    using inv step
  proof (cases rule: minter_step_cases)
    case (effect tx)
    then show ?thesis by (rule effect_used)
  qed (simp add: List.map_filter_def)
  then show "distinct (List.map_filter used_hash es)" by simp
  fix e
  assume "e \<in> set es" "used_hash e = Some h"
  with spent show "\<not> minter_hash_used pf l h \<and> minter_hash_used pf l' h" by (auto simp: spent_in)
qed

section \<open>Ownership\<close>

definition minter_ownership_of :: "platform \<Rightarrow> ledger \<Rightarrow> (pubkey \<times> pubkey) option" where
  "minter_ownership_of pf l =
     (case try_bumps pf [GATEWAY_MINTER_SEED] MINTER_PROGRAM_ID 255 of
        None \<Rightarrow> None
      | Some (k, b) \<Rightarrow> map_option (\<lambda>m. (gm_owner m, gm_pending_owner m)) (minter_at l k))"

lemma minter_role_change_ownership:
  "minter_role_change role m m' e \<Longrightarrow>
     ownership_run (gm_owner m, gm_pending_owner m) [minter_ownership_kind e] = Some (gm_owner m', gm_pending_owner m')"
  by (auto elim!: minter_role_change.cases simp: add_attester_def remove_attester_def
      split: if_splits option.splits)

lemma minter_add_token_roles: "minter_add_token m mint b = Inr m' \<Longrightarrow> gm_owner m' = gm_owner m \<and>
    gm_pending_owner m' = gm_pending_owner m"
  by (auto simp: minter_add_token_def split: if_splits)

lemma minters_change_ownership:
  assumes "minters_change pf tx l es l'" and ok: "minter_wf pf l" and x: "minter_ownership_of pf l = Some x"
  shows "\<exists>y. minter_ownership_of pf l' = Some y \<and> ownership_run x (map minter_ownership_kind es) = Some y"
proof -
  from x obtain g b0 m0 where g: "try_bumps pf [GATEWAY_MINTER_SEED] MINTER_PROGRAM_ID 255 = Some (g, b0)"
    and m0: "minter_at l g = Some m0" and x': "x = (gm_owner m0, gm_pending_owner m0)"
    by (auto simp: minter_ownership_of_def split: option.splits)
  have own: "minter_ownership_of pf k = map_option (\<lambda>m. (gm_owner m, gm_pending_owner m)) (minter_at k g)" for k
    by (simp add: minter_ownership_of_def g)
  have at: "k = g \<and> m = m0" if "minter_at l k = Some m" for k m
    using minter_wfD [OF ok that] g m0 that by simp
  from assms(1) show ?thesis
  proof cases
    case minters_same
    then show ?thesis by (simp add: own x' m0 ownership_run_other)
  next
    case (minters_role k m role m' e)
    with at [OF minters_role(2)] minter_role_change_ownership [OF minters_role(4)] show ?thesis by (simp add: own x')
  next
    case (minters_created k b domain u)
    with g m0 show ?thesis by (simp add: fresh_typed)
  next
    case (minters_token k m mint cust b m')
    with at [OF minters_token(2)] minter_add_token_roles [OF minters_token(5)] show ?thesis by (simp add: own x')
  qed
qed

interpretation minter_ownership:
  two_step_ownership "minter_step pf" "minter_inv pf" "minter_ownership_of pf" minter_ownership_kind for pf
proof unfold_locales
  fix l es l' x
  assume inv: "minter_inv pf l" and step: "minter_step pf l es l'" and x: "minter_ownership_of pf l = Some x"
  from inv step show "\<exists>y. minter_ownership_of pf l' = Some y \<and> ownership_run x (map minter_ownership_kind es) = Some y"
  proof (cases rule: minter_step_cases)
    case (effect tx)
    from minters_change_ownership [OF effect_minters [OF effect] _ x] inv show ?thesis by (simp add: minter_inv_def)
  next
    case rest
    have "minter_ownership_of pf l' = Some x"
      using x unfolding minter_ownership_of_def minter_env_views [OF rest(2)] .
    with rest(1) show ?thesis by (intro exI [of _ x]) simp
  qed
qed

end
