(* ===== verification/MinterSamples.thy ===== *)
theory MinterSamples
  imports Samples MinterContracts
begin

text \<open>
  A concrete world of the GatewayMinter on the sample platform: an initialised minter with one attester,
  one supported token and a funded custody account, and an accepted mint of a one-element attestation.
\<close>

section \<open>The minter's world\<close>

definition M_HASH :: bytes where "M_HASH = key 12"
definition M_MARK :: pubkey where "M_MARK = pda [USED_TRANSFER_SPEC_HASH_SEED_PREFIX, M_HASH] MINTER_PROGRAM_ID"

abbreviation "minter_ledger \<equiv> sample_ledger"

lemmas minter_key_defs = M_KEY_def M_CUSTODY_def M_HASH_def M_MARK_def pda_def MINT_KEY_def ALICE_def
  ALICE_TOKENS_def GATEWAY_MINTER_SEED_def GATEWAY_MINTER_CUSTODY_SEED_def USED_TRANSFER_SPEC_HASH_SEED_PREFIX_def

lemma minter_keys_distinct:
  "distinct [M_KEY, MINT_KEY, M_CUSTODY, ALICE_TOKENS, ALICE, M_MARK]"
  "distinct [M_MARK, ALICE, ALICE_TOKENS, M_CUSTODY, MINT_KEY, M_KEY]"
  by (simp_all add: minter_key_defs sample_hash_def key_list MINTER_PROGRAM_ID_def)

lemmas minter_keys_neq [simp] = minter_keys_distinct [simplified]

lemma minter_lengths [simp]: "length GATEWAY_MINTER_SEED = 14" "length GATEWAY_MINTER_CUSTODY_SEED = 22"
  "length MINTER_PROGRAM_ID = 32" "length M_HASH = 32" "length ALICE_TOKENS = 32"
  by (simp_all add: minter_key_defs MINTER_PROGRAM_ID_def)

lemma minter_off_curve: "\<not> sample_curve M_KEY" "\<not> sample_curve M_CUSTODY" "\<not> sample_curve M_MARK"
  by (simp_all add: sample_curve_def minter_key_defs sample_hash_def key_list MINTER_PROGRAM_ID_def)

lemmas minter_pdas [simp] =
  sample_pda [of "[GATEWAY_MINTER_SEED]" MINTER_PROGRAM_ID, folded M_KEY_def, simplified minter_off_curve, simplified]
  sample_pda [of "[GATEWAY_MINTER_CUSTODY_SEED, MINT_KEY]" MINTER_PROGRAM_ID, folded M_CUSTODY_def,
    simplified minter_off_curve, simplified]
  sample_pda [of "[USED_TRANSFER_SPEC_HASH_SEED_PREFIX, M_HASH]" MINTER_PROGRAM_ID, folded M_MARK_def,
    simplified minter_off_curve, simplified]

lemma M_MARK_new [simp]: "sample_ledger M_MARK = empty_account"
  by (rule sample_ledger_at(10)) (simp add: minter_key_defs sample_key_defs sample_hash_def key_list
      seed_defs WALLET_PROGRAM_ID_def TOKEN_PROGRAM_ID_def MINTER_PROGRAM_ID_def)

lemma sample_minter_simps [simp]:
  "gm_bump sample_minter = 255" "gm_paused sample_minter = False" "gm_version sample_minter = 1"
  "gm_local_domain sample_minter = 5" "gm_enabled_attesters sample_minter = [sample_burn_signer]"
  "gm_owner sample_minter = key 50" "gm_pending_owner sample_minter = default_pubkey"
  "gm_token_controller sample_minter = key 52" "gm_supported_tokens sample_minter = [MINT_KEY]"
  "minter_get_custody_token_account_bump sample_minter MINT_KEY = Inr 255"
  by (simp_all add: sample_minter_def minter_get_custody_token_account_bump_def minter_get_token_index_def
      index_checked_def)

lemma minter_ledger_views: "minter_at minter_ledger = [M_KEY \<mapsto> sample_minter]"
  by (auto simp: fun_eq_iff typed_def sample_ledger_def holding_def empty_account_def)

lemma minter_ledger_wf: "minter_wf sample_platform minter_ledger"
proof -
  have bump: "minter_get_custody_token_account_bump sample_minter t = Inr b \<Longrightarrow> t = MINT_KEY \<and> b = 255" for t b
    by (auto simp: sample_minter_def minter_get_custody_token_account_bump_def minter_get_token_index_def
        index_checked_def split: if_splits)
  have "try_bumps sample_platform [GATEWAY_MINTER_CUSTODY_SEED, t] MINTER_PROGRAM_ID 255 = Some (M_CUSTODY, b)"
    if "minter_get_custody_token_account_bump sample_minter t = Inr b" for t b
    using bump [OF that] by simp
  moreover have "minter_tokens_aligned sample_minter" "well_formed_registry MAX_ATTESTERS (gm_enabled_attesters sample_minter)"
    by (simp_all add: sample_minter_def minter_tokens_aligned_def well_formed_registry_def MAX_ATTESTERS_def
        MINTER_MAX_SUPPORTED_TOKENS_def)
  ultimately show ?thesis by (auto simp: minter_wf_def minter_ledger_views minter_ok_def)
qed

section \<open>An accepted mint\<close>

definition sample_set_element :: MintAttestationElementStruct where
  "sample_set_element = \<lparr> el_destination_token = MINT_KEY, el_destination_recipient = ALICE_TOKENS,
     el_value = 30, el_transfer_spec_hash = M_HASH, el_hook_data = [] \<rparr>"

definition sample_set :: MintAttestationStruct where
  "sample_set = \<lparr> as_version = 1, as_destination_domain = 5, as_destination_contract = MINTER_PROGRAM_ID,
     as_destination_caller = default_pubkey, as_max_block_height = 900, as_elements = [sample_set_element] \<rparr>"

definition sample_set_bytes :: bytes where "sample_set_bytes = encode_attestation sample_set"

lemma sample_set_valid: "valid_attestation sample_set" "length sample_set_bytes = 196"
  by (simp_all add: sample_set_def sample_set_element_def valid_attestation_def valid_element_def
      sample_set_bytes_def encode_attestation_def encode_header_def encode_element_def default_pubkey_list)

definition sample_mint_ctx :: GatewayMintContext where
  "sample_mint_ctx = \<lparr> gc_payer = ALICE, gc_destination_caller = ALICE, gc_gateway_minter = M_KEY,
     gc_system_program = SYSTEM_PROGRAM_ID, gc_token_program = TOKEN_PROGRAM_ID,
     gc_remaining_accounts = [M_CUSTODY, ALICE_TOKENS, M_MARK] \<rparr>"

definition sample_mint_tx :: transaction where
  "sample_mint_tx = \<lparr> tx_signers = [ALICE], tx_writable = [ALICE, M_CUSTODY, ALICE_TOKENS, M_MARK],
     tx_slot = 100, tx_instructions = [], tx_index = 0 \<rparr>"

definition sample_mint_params :: GatewayMintParams where
  "sample_mint_params = \<lparr> gp_attestation = sample_set_bytes, gp_signature = key 1 @ key 1 @ [27] \<rparr>"

lemma sample_attester: "verify_attestation_signature sample_platform sample_minter
    (ethereum_signed_message_hash sample_platform h) (key 1 @ key 1 @ [27]) = Inr ()"
  using sample_signature [of h]
  by (simp add: verify_attestation_signature_Inr verify_burn_signature_Inr)

lemma sample_mint_element:
  assumes "current_element a = Inr sample_set_element"
  shows "\<exists>l'. mint_element sample_platform sample_mint_tx sample_mint_ctx sample_minter a (0, minter_ledger, []) =
    Inr (3, l', [attestation_event sample_set_element])"
  using assms unfolding current_element_Inr
  by (simp add: mint_element_def sample_mint_ctx_def index_checked_def validate_custody_token_account_def
      validate_destination_token_account_def process_used_transfer_spec_hash_def sample_checks
      is_transfer_spec_hash_used_def empty_account_def create_used_transfer_spec_hash_account_def
      DISCRIMINATOR_SIZE_def system_create_account_def sample_mint_tx_def USED_TRANSFER_SPEC_HASH_ACCOUNT_SPACE_def
      write_discriminator_def MINTER_USED_MARKER_def sample_create_def two_zeros sample_set_element_def
      mint_token_def attestation_event_def sample_steps)

lemma sample_mint_runs:
  "\<exists>l'. gateway_mint sample_platform sample_mint_tx sample_mint_ctx sample_mint_params minter_ledger =
    Inr (l', [AttestationUsed MINT_KEY ALICE_TOKENS M_HASH 30])"
proof -
  have short: "length sample_set_bytes < 2 ^ 64" by (simp add: sample_set_valid)
  note s = encode_attestation_structure [OF sample_set_valid(1), folded sample_set_bytes_def, OF short]
  from s(1) obtain a where a: "attestation_new sample_set_bytes = Inr a" by blast
  note r = attestation_new_ready [OF short a]
  have "set_elements sample_set_bytes = as_elements (struct_at sample_set_bytes)" by (simp add: struct_at_def)
  then have "map view_element (set_views sample_set_bytes) = [sample_set_element]"
    unfolding s(3) by (simp add: set_elements_def sample_set_def)
  then obtain v where v: "set_views sample_set_bytes = [v]" "view_element v = sample_set_element" by blast
  from set_views_valid [OF s(2), of v] v short have "current_element v = Inr sample_set_element"
    by (simp add: current_element_at view_element_def)
  from sample_mint_element [OF this] obtain l' where
    m: "mint_element sample_platform sample_mint_tx sample_mint_ctx sample_minter v (0, minter_ledger, []) =
      Inr (3, l', [attestation_event sample_set_element])" by blast
  have "while_next (mint_element sample_platform sample_mint_tx sample_mint_ctx sample_minter) a (0, minter_ledger, []) =
      Inr (3, l', [attestation_event sample_set_element])"
    unfolding while_next_fold [OF short a] by (simp add: s(2) v(1) m)
  moreover have "check_attestation_header sample_mint_tx sample_mint_ctx sample_minter a = Inr ()"
  proof -
    have b: "88 \<le> length (ma_data a)" "length (ma_data a) < 2 ^ 64" using r short by auto
    have n: "u32_from_be (take 4 (drop 84 sample_set_bytes)) = 1"
      using v(1) by (simp add: set_views_def Let_def) (metis length_views length_Cons list.size(3) One_nat_def word_unat_eq_iff unat_1)
    note h = header_accessors [OF b, of "u32_from_be (take 4 sample_set_bytes)" 1 5 MINTER_PROGRAM_ID default_pubkey 900 1]
    have "as_version (struct_at sample_set_bytes) = 1" "as_destination_domain (struct_at sample_set_bytes) = 5"
      "as_destination_contract (struct_at sample_set_bytes) = MINTER_PROGRAM_ID"
      "as_destination_caller (struct_at sample_set_bytes) = default_pubkey"
      "as_max_block_height (struct_at sample_set_bytes) = 900"
      unfolding s(3) by (simp_all add: sample_set_def)
    then have "header_at (ma_data a) = (u32_from_be (take 4 sample_set_bytes), 1, 5, MINTER_PROGRAM_ID, default_pubkey, 900, 1)"
      by (simp add: r(3) header_at_def struct_at_def n)
    note h = h [OF this]
    show ?thesis
      by (simp add: check_attestation_header_def h sample_mint_tx_def sample_mint_ctx_def mul_u32_def)
  qed
  moreover have "gateway_mint_accounts sample_platform sample_mint_tx sample_mint_ctx minter_ledger = Inr sample_minter"
    by (simp add: gateway_mint_accounts_Inr sample_mint_tx_def sample_mint_ctx_def minter_ledger_views)
  ultimately show ?thesis
    by (simp add: gateway_mint_def Let_def sample_mint_params_def sample_attester a sample_mint_ctx_def
        attestation_event_def sample_set_element_def)
qed

end
