(* ===== verification/MinterSafety.thy ===== *)
theory MinterSafety
  imports MinterSamples
begin

text \<open>
  What every history of the GatewayMinter program guarantees: a transfer spec releases funds once, the
  accounts stay well formed, ownership follows nomination and acceptance, and every change of the minter
  state carries the signature of the role it belongs to.
\<close>

section \<open>Sample histories\<close>

lemma sample_minter_key: "\<not> minter_pda sample_platform (key n)"
proof -
  have "sample_curve (key n)" by (simp add: sample_curve_def key_def)
  then show ?thesis
    unfolding minter_pda_def sample_create_address by (auto simp: Let_def split: if_splits)
qed

lemma sample_minter_users: "set (tx_signers tx) \<subseteq> range key \<Longrightarrow> signed_by_minter_users sample_platform tx"
  using sample_minter_key by (auto simp: signed_by_minter_users_def)

lemma sample_mint_step:
  "\<exists>l'. minter_run sample_platform minter_ledger [AttestationUsed MINT_KEY ALICE_TOKENS M_HASH 30] l'"
proof -
  obtain l' where run: "gateway_mint sample_platform sample_mint_tx sample_mint_ctx sample_mint_params minter_ledger =
    Inr (l', [AttestationUsed MINT_KEY ALICE_TOKENS M_HASH 30])" using sample_mint_runs by blast
  have "signed_by_minter_users sample_platform sample_mint_tx"
    by (rule sample_minter_users) (simp add: sample_mint_tx_def ALICE_def)
  moreover have "attestation_fits (IxGatewayMint sample_mint_ctx sample_mint_params) minter_ledger"
    using sample_set_valid(2) by (simp add: sample_mint_params_def)
  ultimately have "minter_step sample_platform minter_ledger [AttestationUsed MINT_KEY ALICE_TOKENS M_HASH 30] l'"
    by (rule minter_call) (simp add: run)
  then show ?thesis by (blast intro: run_single)
qed

definition minter_role :: "u8 \<Rightarrow> MinterRoleContext" where
  "minter_role n = \<lparr> mr_signer = key n, mr_gateway_minter = M_KEY \<rparr>"

definition minter_signed_by :: "u8 \<Rightarrow> transaction" where
  "minter_signed_by n = \<lparr> tx_signers = [key n], tx_writable = [M_KEY], tx_slot = 100, tx_instructions = [],
     tx_index = 0 \<rparr>"

definition nominated_ledger :: ledger where
  "nominated_ledger = minter_ledger
     (M_KEY := holding MINTER_PROGRAM_ID (MinterData (sample_minter\<lparr> gm_pending_owner := key 55 \<rparr>)))"

lemma sample_minter_space: "minter_serialized_len (sample_minter\<lparr> gm_pending_owner := k \<rparr>) \<le> MINTER_SPACE"
  "minter_serialized_len (sample_minter\<lparr> gm_owner := k, gm_pending_owner := k' \<rparr>) \<le> MINTER_SPACE"
  by (simp_all add: sample_minter_def minter_serialized_len_def MINTER_SPACE_def
      MINTER_MAX_SUPPORTED_TOKENS_def MAX_ATTESTERS_def)

lemma sample_minter_nominate:
  "minter_transfer_ownership sample_platform (minter_signed_by 50) (minter_role 50) (key 55) minter_ledger =
     Inr (nominated_ledger, [MinterEvent.OwnershipTransferStarted (key 50) (key 55)])"
  by (simp add: minter_transfer_ownership_def minter_role_accounts_def minter_finish_def exit_minter_def
      minter_role_def minter_signed_by_def sample_checks load_minter_def check_minter_pda_def exit_account_def
      sample_minter_space holding_write nominated_ledger_def)

lemma sample_minter_accept:
  "\<exists>l'. minter_accept_ownership sample_platform (minter_signed_by 55) (minter_role 55) nominated_ledger =
      Inr (l', [MinterEvent.OwnershipTransferred (key 50) (key 55)]) \<and>
    minter_ownership_of sample_platform l' = Some (key 55, default_pubkey)"
  by (simp add: minter_accept_ownership_def minter_role_accounts_def minter_finish_def exit_minter_def
      minter_role_def minter_signed_by_def sample_checks load_minter_def check_minter_pda_def exit_account_def
      sample_minter_space holding_write nominated_ledger_def minter_ownership_of_def typed_def)

lemma sample_minter_handover:
  "\<exists>l'. minter_run sample_platform minter_ledger [MinterEvent.OwnershipTransferStarted (key 50) (key 55),
       MinterEvent.OwnershipTransferred (key 50) (key 55)] l' \<and>
     minter_ownership_of sample_platform l' = Some (key 55, default_pubkey)"
proof -
  have users: "signed_by_minter_users sample_platform (minter_signed_by n)" for n
    by (rule sample_minter_users) (simp add: minter_signed_by_def)
  obtain l2 where accept: "minter_accept_ownership sample_platform (minter_signed_by 55) (minter_role 55) nominated_ledger =
      Inr (l2, [MinterEvent.OwnershipTransferred (key 50) (key 55)])"
    and l2: "minter_ownership_of sample_platform l2 = Some (key 55, default_pubkey)"
    using sample_minter_accept by blast
  have 1: "minter_step sample_platform minter_ledger [MinterEvent.OwnershipTransferStarted (key 50) (key 55)] nominated_ledger"
    by (rule minter_call [OF users, of "IxMinterTransferOwnership (minter_role 50) (key 55)" _ 50])
      (simp_all only: attestation_fits.simps minter_dispatch.simps sample_minter_nominate)
  have 2: "minter_step sample_platform nominated_ledger [MinterEvent.OwnershipTransferred (key 50) (key 55)] l2"
    by (rule minter_call [OF users, of "IxMinterAcceptOwnership (minter_role 55)" _ 55])
      (simp_all only: attestation_fits.simps minter_dispatch.simps accept)
  from run_trans [OF run_single [of "minter_step sample_platform", OF 2]
      run_single [of "minter_step sample_platform", OF 1]] l2
  show ?thesis by auto
qed

section \<open>A transfer spec releases funds once\<close>

text \<open>C11: Over every history of the minter, in either minting mode, the transfer spec hashes of the
  AttestationUsed events are distinct, none of them was marked used at the start, and all of them are
  marked used at the end: neither a whole attestation set nor one of its elements can be replayed, also
  when it occurs twice in one set.\<close>

theorem mint_replay_protection:
  assumes "system_program_ok pf" "minter_wf pf l" "minter_run pf l es l'"
  shows "distinct (List.map_filter used_hash es) \<and>
    (\<forall>h \<in> set (List.map_filter used_hash es). (\<not> minter_hash_used pf l h) \<and> minter_hash_used pf l' h)"
  using minter_replay.run_spent [OF assms(3)] assms(1,2) by (simp add: minter_inv_def)

theorem mint_replay_protection_witness:
  "\<exists>es l'. minter_run sample_platform minter_ledger es l' \<and> minter_hash_used sample_platform l' M_HASH"
proof -
  obtain l' where run: "minter_run sample_platform minter_ledger [AttestationUsed MINT_KEY ALICE_TOKENS M_HASH 30] l'"
    using sample_mint_step by blast
  from mint_replay_protection [OF sample_platform_ok minter_ledger_wf run] run show ?thesis
    by (auto simp: List.map_filter_def)
qed

section \<open>The accounts stay well formed\<close>

text \<open>Every history of the minter keeps its state well formed: it sits at the canonical PDA, its
  supported tokens and enabled attesters are distinct and within their limits, and every supported
  token is paired with the canonical bump of its custody account.\<close>

theorem minter_well_formed_run:
  assumes "system_program_ok pf" "minter_wf pf l" "minter_run pf l es l'"
  shows "minter_wf pf l'"
  using minter_machine.inv_run [OF assms(3)] assms(1,2) by (simp add: minter_inv_def)

theorem minter_well_formed_run_witness:
  "\<exists>l'. minter_run sample_platform minter_ledger [AttestationUsed MINT_KEY ALICE_TOKENS M_HASH 30] l' \<and>
     minter_wf sample_platform l'"
  using sample_mint_step minter_well_formed_run [OF sample_platform_ok minter_ledger_wf] by blast

section \<open>Ownership\<close>

text \<open>The minter refines the two-step ownership machine: over every history its owner and pending owner
  are what the events OwnershipTransferStarted and OwnershipTransferred determine, so only the owner
  nominates and only the current nominee takes over.\<close>

theorem minter_ownership_refines:
  assumes "system_program_ok pf" "minter_wf pf l" "minter_run pf l es l'" "minter_ownership_of pf l = Some s"
  shows "\<exists>s'. minter_ownership_of pf l' = Some s' \<and> ownership_run s (map minter_ownership_kind es) = Some s'"
  using minter_ownership.run_ownership [OF assms(3) _ assms(4)] assms(1,2) by (simp add: minter_inv_def)

theorem minter_ownership_refines_witness:
  "ownership_run (key 50, default_pubkey) (map minter_ownership_kind
     [MinterEvent.OwnershipTransferStarted (key 50) (key 55), MinterEvent.OwnershipTransferred (key 50) (key 55)])
     = Some (key 55, default_pubkey)"
proof -
  obtain l' where run: "minter_run sample_platform minter_ledger [MinterEvent.OwnershipTransferStarted (key 50) (key 55),
       MinterEvent.OwnershipTransferred (key 50) (key 55)] l'"
    and l': "minter_ownership_of sample_platform l' = Some (key 55, default_pubkey)"
    using sample_minter_handover by blast
  have "minter_ownership_of sample_platform minter_ledger = Some (key 50, default_pubkey)"
    by (simp add: minter_ownership_of_def minter_ledger_views)
  from minter_ownership_refines [OF sample_platform_ok minter_ledger_wf run this] l' show ?thesis by force
qed

section \<open>Who may change the minter state\<close>

lemma minter_role_change_signed:
  assumes "minter_role_change role m m' e" "role m \<in> S"
  shows "(gm_owner m' \<noteq> gm_owner m \<longrightarrow> gm_pending_owner m \<in> S \<and> gm_owner m' = gm_pending_owner m) \<and>
    (gm_pending_owner m' \<noteq> gm_pending_owner m \<longrightarrow> gm_owner m \<in> S \<and> gm_owner m' = gm_owner m \<or>
       gm_pending_owner m \<in> S \<and> gm_owner m' = gm_pending_owner m \<and> gm_pending_owner m' = default_pubkey) \<and>
    (gm_paused m' \<noteq> gm_paused m \<longrightarrow> gm_pauser m \<in> S) \<and> gm_supported_tokens m' = gm_supported_tokens m \<and>
    gm_custody_token_account_bumps m' = gm_custody_token_account_bumps m \<and>
    (gm_pauser m' \<noteq> gm_pauser m \<or> gm_token_controller m' \<noteq> gm_token_controller m \<or>
     gm_enabled_attesters m' \<noteq> gm_enabled_attesters m \<longrightarrow> gm_owner m \<in> S)"
  using assms by cases (auto simp: add_attester_def remove_attester_def split: if_splits option.splits)

lemma minter_add_token_fields:
  assumes "minter_add_token m mint b = Inr m'"
  shows "gm_owner m' = gm_owner m" "gm_paused m' = gm_paused m" "gm_pauser m' = gm_pauser m"
    "gm_token_controller m' = gm_token_controller m" "gm_enabled_attesters m' = gm_enabled_attesters m"
    "gm_local_domain m' = gm_local_domain m" "gm_version m' = gm_version m" "gm_bump m' = gm_bump m"
    "gm_pending_owner m' = gm_pending_owner m"
    "gm_supported_tokens m' \<noteq> gm_supported_tokens m \<or>
     gm_custody_token_account_bumps m' \<noteq> gm_custody_token_account_bumps m \<longrightarrow>
       gm_supported_tokens m' = gm_supported_tokens m @ [mint] \<and>
       gm_custody_token_account_bumps m' = gm_custody_token_account_bumps m @ [b]"
  using assms by (auto simp: minter_add_token_def split: if_splits)

text \<open>C28: The minter state changes only by the hand of the role it belongs to.  When an instruction succeeds,
  the state is still there; the owner changed only if the pending owner signed and became it; the pending
  owner only if the owner signed, or by being cleared when it became the owner; the pause switch only if the
  pauser signed; the supported tokens and their custody bumps only if the token controller signed, by one
  token with its bump at the end; the roles and the enabled attesters only if the owner signed; the domain, the
  version and the bump never changed.\<close>

theorem minter_change_authorised:
  assumes "system_program_ok pf" "attestation_fits ix l" "minter_dispatch pf tx ix l = Inr (l', es)"
    and m: "minter_at l k = Some m"
  shows "\<exists>m'. minter_at l' k = Some m' \<and>
    (gm_owner m' \<noteq> gm_owner m \<longrightarrow> gm_pending_owner m \<in> set (tx_signers tx) \<and> gm_owner m' = gm_pending_owner m) \<and>
    (gm_pending_owner m' \<noteq> gm_pending_owner m \<longrightarrow>
       gm_owner m \<in> set (tx_signers tx) \<and> gm_owner m' = gm_owner m \<or>
       gm_pending_owner m \<in> set (tx_signers tx) \<and> gm_owner m' = gm_pending_owner m \<and>
         gm_pending_owner m' = default_pubkey) \<and>
    (gm_paused m' \<noteq> gm_paused m \<longrightarrow> gm_pauser m \<in> set (tx_signers tx)) \<and>
    (gm_supported_tokens m' \<noteq> gm_supported_tokens m \<or>
     gm_custody_token_account_bumps m' \<noteq> gm_custody_token_account_bumps m \<longrightarrow>
       gm_token_controller m \<in> set (tx_signers tx) \<and>
       (\<exists>mint b. gm_supported_tokens m' = gm_supported_tokens m @ [mint] \<and>
          gm_custody_token_account_bumps m' = gm_custody_token_account_bumps m @ [b])) \<and>
    (gm_pauser m' \<noteq> gm_pauser m \<or> gm_token_controller m' \<noteq> gm_token_controller m \<or>
     gm_enabled_attesters m' \<noteq> gm_enabled_attesters m \<longrightarrow> gm_owner m \<in> set (tx_signers tx)) \<and>
    gm_local_domain m' = gm_local_domain m \<and> gm_version m' = gm_version m \<and> gm_bump m' = gm_bump m"
  using effect_minters [OF minter_dispatch_effect [OF assms(1-3)]]
proof cases
  case minters_same
  with m show ?thesis by simp
next
  case (minters_role k' m0 role m' e)
  note r = minter_role_change_signed [OF minters_role(4,3)] minter_role_change_fields [OF minters_role(4)]
  show ?thesis using m minters_role(2,5) r by (cases "k = k'") auto
next
  case (minters_created k' b domain u)
  then show ?thesis using m by (cases "k = k'") (auto simp: fresh_typed)
next
  case (minters_token k' m0 mint cust b m')
  note t = minter_add_token_fields [OF minters_token(5)]
  show ?thesis using m minters_token(2,3,6) t by (cases "k = k'") auto
qed

theorem minter_change_authorised_witness:
  "minter_dispatch sample_platform (minter_signed_by 50) (IxMinterTransferOwnership (minter_role 50) (key 55)) minter_ledger
     = Inr (nominated_ledger, [MinterEvent.OwnershipTransferStarted (key 50) (key 55)]) \<and>
   (\<exists>m'. minter_at nominated_ledger M_KEY = Some m' \<and> gm_owner m' = key 50 \<and> \<not> gm_paused m' \<and>
      gm_supported_tokens m' = [MINT_KEY])"
proof -
  have run: "minter_dispatch sample_platform (minter_signed_by 50) (IxMinterTransferOwnership (minter_role 50) (key 55))
      minter_ledger = Inr (nominated_ledger, [MinterEvent.OwnershipTransferStarted (key 50) (key 55)])"
    by (simp add: sample_minter_nominate)
  have "minter_at minter_ledger M_KEY = Some sample_minter" by (simp add: minter_ledger_views)
  from minter_change_authorised [OF sample_platform_ok _ run this] obtain m' where
    "minter_at nominated_ledger M_KEY = Some m'" "gm_owner m' = key 50" "\<not> gm_paused m'"
      "gm_supported_tokens m' = [MINT_KEY]"
    by (auto simp: sample_minter_def minter_signed_by_def key_list default_pubkey_list)
  with run show ?thesis by blast
qed

end
