(* ===== verification/MintSpec.thy ===== *)
theory MintSpec
  imports MinterSafety
begin

text \<open>
  What one minting or custody-burning instruction does: who must have authorised it, which tokens move,
  how often the loop runs, and that the two minting modes accept the same attestation sets.
\<close>

section \<open>Authorisation\<close>

text \<open>C10: Minting needs an attestation.  A mint that succeeds was given the canonical encoding of a valid
  attestation set; an enabled attester signed the EIP-191 hash of exactly these bytes; the minter is
  not paused; the set is for this version, domain and program, has not expired, and names nobody or
  the signing destination caller; three accounts were passed per element; and one AttestationUsed event
  per element, in order, carries the element's token, recipient, hash and value.\<close>

theorem mint_authorised:
  assumes "system_program_ok pf" "length (gp_attestation params) < 2 ^ 64"
    and "gateway_mint pf tx c params l = Inr (l', es)"
  shows "\<exists>m s attester. minter_at l (gc_gateway_minter c) = Some m \<and> \<not> gm_paused m \<and>
    gp_attestation params = encode_attestation s \<and> valid_attestation s \<and>
    recover_evm_signer pf (ethereum_signed_message_hash pf (keccak256 pf (gp_attestation params)))
      (gp_signature params) = Inr attester \<and> attester \<in> set (gm_enabled_attesters m) \<and>
    as_version s = gm_version m \<and> as_destination_domain s = gm_local_domain m \<and>
    as_destination_contract s = MINTER_PROGRAM_ID \<and> tx_slot tx \<le> as_max_block_height s \<and>
    (as_destination_caller s = default_pubkey \<or> as_destination_caller s = gc_destination_caller c) \<and>
    gc_destination_caller c \<in> set (tx_signers tx) \<and>
    length (gc_remaining_accounts c) = 3 * length (as_elements s) \<and>
    es = map attestation_event (as_elements s)"
  using gateway_mint_effect [OF assms] unfolding mint_executed_def by blast

theorem mint_authorised_witness:
  "\<exists>s. sample_set_bytes = encode_attestation s \<and> valid_attestation s \<and> as_destination_contract s = MINTER_PROGRAM_ID"
proof -
  obtain l' where run: "gateway_mint sample_platform sample_mint_tx sample_mint_ctx sample_mint_params minter_ledger =
    Inr (l', [AttestationUsed MINT_KEY ALICE_TOKENS M_HASH 30])" using sample_mint_runs by blast
  have "length (gp_attestation sample_mint_params) < 2 ^ 64"
    using sample_set_valid(2) by (simp add: sample_mint_params_def)
  from mint_authorised [OF sample_platform_ok this run] show ?thesis by (auto simp: sample_mint_params_def)
qed

section \<open>Amounts\<close>

text \<open>The custody address of a token, and what a list of elements takes from and gives to an account.\<close>

definition custody_address :: "platform \<Rightarrow> GatewayMinter \<Rightarrow> pubkey \<Rightarrow> pubkey option" where
  "custody_address pf m token =
     (case minter_get_custody_token_account_bump m token of
        Inl _ \<Rightarrow> None
      | Inr b \<Rightarrow> (case create_program_address pf [GATEWAY_MINTER_CUSTODY_SEED, token, [b]] MINTER_PROGRAM_ID of
            Inl _ \<Rightarrow> None | Inr c \<Rightarrow> Some c))"

definition outflow :: "platform \<Rightarrow> GatewayMinter \<Rightarrow> MintAttestationElementStruct list \<Rightarrow> pubkey \<Rightarrow> nat" where
  "outflow pf m es k =
     (\<Sum>e \<leftarrow> es. if custody_address pf m (el_destination_token e) = Some k then unat (el_value e) else 0)"

definition inflow :: "MintAttestationElementStruct list \<Rightarrow> pubkey \<Rightarrow> nat" where
  "inflow es k = (\<Sum>e \<leftarrow> es. if el_destination_recipient e = k then unat (el_value e) else 0)"

lemma released_amounts:
  assumes "released pf g m e cust mark l l'"
  shows "amount_at l' k + (if custody_address pf m (el_destination_token e) = Some k then unat (el_value e) else 0)
    = amount_at l k + (if el_destination_recipient e = k then unat (el_value e) else 0)"
proof -
  from assms obtain l1 where made: "account_made l mark MINTER_PROGRAM_ID (Raw MINTER_USED_MARKER) l1"
    and tr: "transferred l1 cust (el_destination_recipient e) g (el_value e) l'"
    and cust: "custody_address pf m (el_destination_token e) = Some cust"
    unfolding released_def custody_address_def by auto
  have "amount_at l1 = amount_at l" using amount_at_made [OF made] by auto
  with transferred_amounts(1,2) [OF tr] transferred_amounts(3,4) [OF tr, of k] cust show ?thesis
    by (cases "cust = el_destination_recipient e"; cases "k = cust"; cases "k = el_destination_recipient e") auto
qed

lemma released_all_amounts:
  "released_all pf g m es l l' \<Longrightarrow> amount_at l' k + outflow pf m es k = amount_at l k + inflow es k"
proof (induction es arbitrary: l)
  case (Cons e es)
  then obtain cust mark l1 where r: "released pf g m e cust mark l l1" and rest: "released_all pf g m es l1 l'"
    by auto
  from released_amounts [OF r, of k] Cons.IH [OF rest] show ?case by (simp add: outflow_def inflow_def)
qed (simp add: outflow_def inflow_def)

text \<open>C18: A mint moves exactly what the attestation says.  The balance of every token account changes by the
  values of the elements that name it as recipient, minus the values of the elements whose token it is
  the custody account of; every value is positive, and no other balance changes.\<close>

theorem mint_amounts:
  assumes "system_program_ok pf" "length (gp_attestation params) < 2 ^ 64"
    and "gateway_mint pf tx c params l = Inr (l', es)"
  shows "\<exists>m s. minter_at l (gc_gateway_minter c) = Some m \<and> gp_attestation params = encode_attestation s \<and>
    valid_attestation s \<and> (\<forall>k. amount_at l' k + outflow pf m (as_elements s) k = amount_at l k + inflow (as_elements s) k)"
  using gateway_mint_effect [OF assms] released_all_amounts unfolding mint_executed_def by blast

theorem mint_amounts_witness:
  "\<exists>l' es. gateway_mint sample_platform sample_mint_tx sample_mint_ctx sample_mint_params minter_ledger = Inr (l', es) \<and>
     amount_at l' ALICE_TOKENS = 330 \<and> amount_at l' M_CUSTODY = 470"
proof -
  obtain l' es where run: "gateway_mint sample_platform sample_mint_tx sample_mint_ctx sample_mint_params minter_ledger =
    Inr (l', es)" using sample_mint_runs by blast
  have short: "length (gp_attestation sample_mint_params) < 2 ^ 64"
    using sample_set_valid(2) by (simp add: sample_mint_params_def)
  from mint_amounts [OF sample_platform_ok short run] obtain m s where
    m: "m = sample_minter" and s: "encode_attestation sample_set = encode_attestation s" "valid_attestation s"
    and a: "\<And>k. amount_at l' k + outflow sample_platform m (as_elements s) k = amount_at minter_ledger k + inflow (as_elements s) k"
    by (auto simp: sample_mint_ctx_def sample_mint_params_def sample_set_bytes_def minter_ledger_views)
  have "s = sample_set"
    using encode_attestation_structure(3) [OF s(2)] encode_attestation_structure(3) [OF sample_set_valid(1)] s(1)
      sample_set_valid(2) by (simp add: sample_set_bytes_def)
  then have "outflow sample_platform m (as_elements s) k = (if k = M_CUSTODY then 30 else 0)"
    "inflow (as_elements s) k = (if k = ALICE_TOKENS then 30 else 0)" for k
    by (auto simp: outflow_def inflow_def sample_set_def sample_set_element_def custody_address_def m)
  with a [of ALICE_TOKENS] a [of M_CUSTODY] run show ?thesis by (auto simp: amount_at_def)
qed

section \<open>The two modes\<close>

text \<open>The parameters of mode 2 that describe an attestation set.\<close>

definition mode2_params :: "MintAttestationStruct \<Rightarrow> bytes \<Rightarrow> GatewayMintReconstructParams" where
  "mode2_params s sig =
     \<lparr> rp_is_default_destination_caller = (as_destination_caller s = default_pubkey),
       rp_max_block_height = as_max_block_height s,
       rp_elements = map (\<lambda>e. \<lparr> mp_value = el_value e, mp_transfer_spec_hash = el_transfer_spec_hash e,
         mp_hook_data = el_hook_data e \<rparr>) (as_elements s),
       rp_signature = sig \<rparr>"

text \<open>The recipients' token accounts were there before the first release.\<close>

lemma released_tok_back:
  assumes "released pf g m e cust mark l l'" "tok_at l' k = Some t'"
  shows "\<exists>t. tok_at l k = Some t \<and> ta_mint t = ta_mint t'"
proof -
  from assms(1) obtain l1 where made: "account_made l mark MINTER_PROGRAM_ID (Raw MINTER_USED_MARKER) l1"
    and moved: "only_tokens_moved l1 l'"
    unfolding released_def by (blast intro: transferred_only_tokens)
  have t': "acc_owner (l' k) = TOKEN_PROGRAM_ID" "acc_data (l' k) = TokenData t'" "ta_state t' \<noteq> Uninitialized"
    using assms(2) by (auto simp: typed_Some as_data_Some)
  have own: "acc_owner (l1 k) = TOKEN_PROGRAM_ID" and same: "same_token_identity (acc_data (l1 k)) (TokenData t')"
    using moved t' by (auto simp: only_tokens_moved_def) (metis)
  from same obtain t where t: "acc_data (l1 k) = TokenData t" "ta_mint t = ta_mint t'" "ta_state t = ta_state t'"
    by (cases "acc_data (l1 k)") (auto simp: same_token_identity_def)
  have "k \<noteq> mark" using made own by (auto simp: account_made_def)
  with made have "l k = l k" "acc_owner (l k) = acc_owner (l1 k)" "acc_data (l k) = acc_data (l1 k)"
    by (auto simp: account_made_def)
  with own t t'(3) show ?thesis by (auto simp: typed_Some as_data_Some)
qed

lemma released_all_recipients:
  "released_all pf g m es l l' \<Longrightarrow> e \<in> set es \<Longrightarrow>
     \<exists>t. tok_at l (el_destination_recipient e) = Some t \<and> ta_mint t = el_destination_token e"
proof (induction es arbitrary: l)
  case (Cons e' es)
  then obtain cust mark l1 where r: "released pf g m e' cust mark l l1" and rest: "released_all pf g m es l1 l'"
    by auto
  show ?case
  proof (cases "e = e'")
    case True
    with r show ?thesis unfolding released_def by blast
  next
    case False
    with Cons.prems(2) Cons.IH [OF rest] released_tok_back [OF r] show ?thesis by fastforce
  qed
qed simp

lemma reconstruct_elements_given:
  assumes "\<And>j. j < length es \<Longrightarrow> i + 3 * j + 1 < length accts \<and> accts ! (i + 3 * j + 1) = el_destination_recipient (es ! j)"
    and "\<And>e. e \<in> set es \<Longrightarrow> \<exists>t. tok_at l (el_destination_recipient e) = Some t \<and> ta_mint t = el_destination_token e"
  shows "reconstruct_elements l accts i (map (\<lambda>e. \<lparr> mp_value = el_value e,
    mp_transfer_spec_hash = el_transfer_spec_hash e, mp_hook_data = el_hook_data e \<rparr>) es) = Inr es"
  using assms
proof (induction es arbitrary: i)
  case (Cons e es)
  have acct: "index_checked accts (i + 1) = (Inr (el_destination_recipient e) :: pubkey minter_result)"
    using Cons.prems(1) [of 0] by (simp add: index_checked_def)
  from Cons.prems(2) [of e] obtain t where
    t: "validate_destination_token_account l (el_destination_recipient e) = Inr t" "ta_mint t = el_destination_token e"
    by (auto simp: validate_destination_token_account_def map_err_eq_Inr load_typed)
  have "i + 3 + 3 * j + 1 < length accts \<and> accts ! (i + 3 + 3 * j + 1) = el_destination_recipient (es ! j)"
    if "j < length es" for j
    using Cons.prems(1) [of "Suc j"] that by (simp add: algebra_simps)
  from Cons.IH [OF this] Cons.prems(2) have
    "reconstruct_elements l accts (i + 3) (map (\<lambda>e. \<lparr> mp_value = el_value e,
       mp_transfer_spec_hash = el_transfer_spec_hash e, mp_hook_data = el_hook_data e \<rparr>) es) = Inr es"
    by simp
  with acct t show ?case by simp
qed simp

text \<open>C26: The two minting modes agree.  Every mint that mode 1 accepts can be sent in mode 2, with the
  parameters read off the attestation set: the program rebuilds the same bytes from the accounts, so
  the signature still holds and the outcome (ledger and events) is the same.\<close>

theorem mint_modes_agree:
  assumes ok: "system_program_ok pf" and len: "length (encode_attestation s) < 2 ^ 64" and valid: "valid_attestation s"
    and run: "gateway_mint pf tx c \<lparr> gp_attestation = encode_attestation s, gp_signature = sig \<rparr> l = Inr r"
  shows "gateway_mint_with_params pf tx c (mode2_params s sig) l = Inr r"
proof -
  obtain l' es where r: "r = (l', es)" by (cases r)
  have run': "gateway_mint pf tx c \<lparr> gp_attestation = encode_attestation s, gp_signature = sig \<rparr> l = Inr (l', es)"
    using run r by simp
  have len': "length (gp_attestation \<lparr> gp_attestation = encode_attestation s, gp_signature = sig \<rparr>) < 2 ^ 64"
    using len by simp
  from gateway_mint_effect [OF ok len' run'] obtain m s' where
    ex: "mint_executed pf tx c (encode_attestation s) sig l m s' es l'" by auto
  then have "encode_attestation s = encode_attestation s'" "valid_attestation s'" by (simp_all add: mint_executed_def)
  then have "s' = s"
    using encode_attestation_structure(3) [OF valid len] encode_attestation_structure(3) [of s'] len by simp
  note ex = ex [unfolded this]
  have acc: "gateway_mint_accounts pf tx c l = Inr m"
  proof -
    from run' obtain m' where "gateway_mint_accounts pf tx c l = Inr m'"
      unfolding gateway_mint_def by (auto simp: and_then_eq_Inr)
    moreover with ex have "m' = m" by (auto simp: gateway_mint_accounts_Inr mint_executed_def)
    ultimately show ?thesis by simp
  qed
  have els: "reconstruct_elements l (gc_remaining_accounts c) 0 (rp_elements (mode2_params s sig)) = Inr (as_elements s)"
    unfolding mode2_params_def GatewayMintReconstructParams.simps
    by (rule reconstruct_elements_given)
      (use ex released_all_recipients [of pf "gc_gateway_minter c" m "as_elements s" l l'] in
        \<open>auto simp: mint_executed_def\<close>)
  have caller: "(if as_destination_caller s = default_pubkey then default_pubkey else gc_destination_caller c)
      = as_destination_caller s"
    using ex by (auto simp: mint_executed_def)
  have few: "length (as_elements s) < 2 ^ 32" "as_elements s \<noteq> []" using valid by (simp_all add: valid_attestation_def)
  have accts: "length (gc_remaining_accounts c) = 3 * length (as_elements s)" using ex by (simp add: mint_executed_def)
  have "as_version s = gm_version m" "as_destination_domain s = gm_local_domain m"
    "as_destination_contract s = MINTER_PROGRAM_ID"
    using ex by (simp_all add: mint_executed_def)
  then have rec: "\<lparr> as_version = gm_version m, as_destination_domain = gm_local_domain m,
      as_destination_contract = MINTER_PROGRAM_ID, as_destination_caller = as_destination_caller s,
      as_max_block_height = as_max_block_height s, as_elements = as_elements s \<rparr> = s"
    by (cases s) simp
  have fields: "rp_is_default_destination_caller (mode2_params s sig) \<longleftrightarrow> as_destination_caller s = default_pubkey"
    "rp_max_block_height (mode2_params s sig) = as_max_block_height s"
    "length (rp_elements (mode2_params s sig)) = length (as_elements s)" "rp_signature (mode2_params s sig) = sig"
    "rp_elements (mode2_params s sig) \<noteq> []"
    using few by (simp_all add: mode2_params_def)
  have "mul_usize (length (as_elements s)) 3 = (Inr (length (gc_remaining_accounts c)) :: nat minter_result)"
    using few(1) accts by (simp add: mul_usize_def)
  then have "reconstruct_attestation_bytes c m (mode2_params s sig) l = Inr (encode_attestation s)"
    unfolding reconstruct_attestation_bytes_def els fields caller Let_def by (simp add: rec)
  with acc run fields(4,5) show ?thesis by (simp add: gateway_mint_with_params_def)
qed

theorem mint_modes_agree_witness:
  "\<exists>l'. gateway_mint_with_params sample_platform sample_mint_tx sample_mint_ctx
     (mode2_params sample_set (key 1 @ key 1 @ [27])) minter_ledger =
     Inr (l', [AttestationUsed MINT_KEY ALICE_TOKENS M_HASH 30])"
proof -
  obtain l' where "gateway_mint sample_platform sample_mint_tx sample_mint_ctx sample_mint_params minter_ledger =
    Inr (l', [AttestationUsed MINT_KEY ALICE_TOKENS M_HASH 30])" using sample_mint_runs by blast
  then show ?thesis
    using mint_modes_agree [OF sample_platform_ok _ sample_set_valid(1), of sample_mint_tx sample_mint_ctx
        "key 1 @ key 1 @ [27]" minter_ledger] sample_set_valid(2)
    by (auto simp: sample_mint_params_def sample_set_bytes_def)
qed

section \<open>The element loop\<close>

text \<open>C39: The element loop returns, after exactly as many rounds as the set declares.  For every byte string the
  iterator accepts and every loop body, the while-let loop runs the body once per element, in order, on
  the views of the elements and on nothing else; it ends with the body's last result when the elements fill the
  bytes exactly, and with an error otherwise.\<close>

theorem mint_loop_visits_elements:
  assumes "length bs < 2 ^ 64" "attestation_new bs = Inr a"
  shows "length (set_views bs) = unat (ma_num_elements a) \<and> 0 < unat (ma_num_elements a) \<and>
    (while_next body a s = Inr s' \<longleftrightarrow> set_placed bs \<and> fold_result body (set_views bs) s = Inr s') \<and>
    (\<not> set_placed bs \<longrightarrow> (\<exists>e. while_next body a s = Inl e))"
proof -
  have "0 < unat (ma_num_elements a)" using attestation_new_ready(6) [OF assms] by (simp add: word_less_nat_alt)
  with while_next_fold [OF assms, of body s] attestation_new_ready(5) [OF assms] show ?thesis
    by (cases "while_next body a s") (auto simp: set_views_def Let_def)
qed

theorem mint_loop_visits_elements_witness:
  "\<exists>a. attestation_new sample_set_bytes = Inr a \<and> length (set_views sample_set_bytes) = unat (ma_num_elements a) \<and>
     while_next (\<lambda>_ n. Inr (Suc n)) a 0 = Inr 1"
proof -
  have short: "length sample_set_bytes < 2 ^ 64" by (simp add: sample_set_valid)
  note s = encode_attestation_structure [OF sample_set_valid(1), folded sample_set_bytes_def, OF short]
  from s(1) obtain a where a: "attestation_new sample_set_bytes = Inr a" by blast
  have "set_elements sample_set_bytes = as_elements (struct_at sample_set_bytes)" by (simp add: struct_at_def)
  then have "length (set_views sample_set_bytes) = 1"
    unfolding s(3) by (auto simp: set_elements_def sample_set_def map_eq_Cons_conv)
  then obtain v where "set_views sample_set_bytes = [v]" by (auto simp: length_Suc_conv)
  with a mint_loop_visits_elements [OF short a, of "\<lambda>_ n. Inr (Suc n)" 0 1] s(2) show ?thesis by simp
qed

section \<open>Burning custody\<close>

text \<open>Burning custody takes at most what is asked for, from custody only.  A burn_token_custody that succeeds
  was signed by the token controller of the minter; the amount is not zero; the custody account of the token and
  the supply of its mint both fall by the smaller of the amount and the custody balance, no other token
  balance changes, and the event reports what was burned.\<close>

theorem burn_custody_spec:
  assumes "burn_token_custody_ix pf tx c amount l = Inr (l', es)"
  shows "\<exists>m n. minter_at l (bc_gateway_minter c) = Some m \<and> gm_token_controller m \<in> set (tx_signers tx) \<and> 0 < unat amount \<and>
    custody_address pf m (bc_token_mint c) = Some (bc_custody_token_account c) \<and>
    unat n = min (unat amount) (amount_at l (bc_custody_token_account c)) \<and>
    amount_at l' (bc_custody_token_account c) + unat n = amount_at l (bc_custody_token_account c) \<and>
    supply_at l' (bc_token_mint c) + unat n = supply_at l (bc_token_mint c) \<and>
    (\<forall>k. k \<noteq> bc_custody_token_account c \<longrightarrow> amount_at l' k = amount_at l k) \<and>
    es = [TokenCustodyBurned (bc_token_mint c) (bc_custody_token_account c) n]"
proof -
  from assms show ?thesis
  proof (rule burn_custody_effect)
    fix m b t n
    assume m: "minter_at l (bc_gateway_minter c) = Some m" "gm_token_controller m \<in> set (tx_signers tx)"
      and b: "minter_get_custody_token_account_bump m (bc_token_mint c) = Inr b"
        "create_program_address pf [GATEWAY_MINTER_CUSTODY_SEED, bc_token_mint c, [b]] MINTER_PROGRAM_ID
          = Inr (bc_custody_token_account c)"
      and t: "tok_at l (bc_custody_token_account c) = Some t" and pos: "amount \<noteq> 0"
      and n: "unat n = min (unat amount) (unat (ta_amount t))"
      and burn: "burned l (bc_custody_token_account c) (bc_token_mint c) (bc_gateway_minter c) n l'"
      and es: "es = [TokenCustodyBurned (bc_token_mint c) (bc_custody_token_account c) n]"
    have "custody_address pf m (bc_token_mint c) = Some (bc_custody_token_account c)"
      using b by (simp add: custody_address_def)
    moreover have "0 < unat amount" using pos by (simp add: unat_gt_0)
    ultimately show ?thesis
      using m n es burned_amounts [OF burn] amount_at_tok [OF t] by auto
  qed
qed

definition sample_custody_burn :: BurnTokenCustodyContext where
  "sample_custody_burn = \<lparr> bc_token_controller = key 52, bc_gateway_minter = M_KEY, bc_token_mint = MINT_KEY,
     bc_custody_token_account = M_CUSTODY, bc_token_program = TOKEN_PROGRAM_ID \<rparr>"

definition sample_controller_tx :: transaction where
  "sample_controller_tx = \<lparr> tx_signers = [key 52], tx_writable = [key 52, MINT_KEY, M_CUSTODY], tx_slot = 100,
     tx_instructions = [], tx_index = 0 \<rparr>"

lemma sample_custody_burn_runs:
  "\<exists>l' es. burn_token_custody_ix sample_platform sample_controller_tx sample_custody_burn 700 minter_ledger = Inr (l', es)"
  by (simp add: burn_token_custody_ix_def burn_token_custody_accounts_def sample_custody_burn_def
      sample_controller_tx_def sample_checks load_minter_def check_minter_pda_def check_minter_custody_pda_def
      burn_token_custody_def sample_steps)

theorem burn_custody_spec_witness:
  "\<exists>l' es. burn_token_custody_ix sample_platform sample_controller_tx sample_custody_burn 700 minter_ledger = Inr (l', es) \<and>
     amount_at l' M_CUSTODY = 0 \<and> supply_at l' MINT_KEY = 4500"
proof -
  obtain l' es where run: "burn_token_custody_ix sample_platform sample_controller_tx sample_custody_burn 700
      minter_ledger = Inr (l', es)" using sample_custody_burn_runs by blast
  from burn_custody_spec [OF run] run show ?thesis
    by (auto simp: sample_custody_burn_def amount_at_def [of minter_ledger] supply_at_def [of minter_ledger])
qed

section \<open>Revoking an attester\<close>

text \<open>A revoked attester is powerless at once.  Removing an attester from a well-formed minter always
  succeeds; afterwards every signature that recovers to it is rejected with InvalidAttesterSignature, while
  every other signature is judged as before.\<close>

theorem revoked_attester_rejected:
  assumes "well_formed_registry MAX_ATTESTERS (gm_enabled_attesters m)" "recover_evm_signer pf h sig = Inr signer"
  shows "\<exists>m'. remove_attester m a = Inr m' \<and> verify_attestation_signature pf m' h sig =
    (if signer = a then Inl (Custom InvalidAttesterSignature) else verify_attestation_signature pf m h sig)"
proof -
  obtain m' where m': "remove_attester m a = Inr m'"
    using attester_registry.evict_members by blast
  then have "set (gm_enabled_attesters m') = set (gm_enabled_attesters m) - {a}"
    using attester_registry.evict_removes [OF assms(1)] by blast
  then have "is_attester_enabled m' signer \<longleftrightarrow> is_attester_enabled m signer \<and> signer \<noteq> a"
    by (simp add: is_attester_enabled_def)
  moreover have "length sig = ATTESTATION_SIGNATURE_LENGTH"
    using assms(2) by (simp add: recover_evm_signer_Inr ATTESTATION_SIGNATURE_LENGTH_def)
  ultimately show ?thesis using m' assms(2) by (auto simp: verify_attestation_signature_def require_def)
qed

theorem revoked_attester_rejected_witness:
  "verify_attestation_signature sample_platform sample_minter
      (ethereum_signed_message_hash sample_platform []) (key 1 @ key 1 @ [27]) = Inr () \<and>
   (\<exists>m'. remove_attester sample_minter sample_burn_signer = Inr m' \<and>
     verify_attestation_signature sample_platform m' (ethereum_signed_message_hash sample_platform [])
       (key 1 @ key 1 @ [27]) = Inl (Custom InvalidAttesterSignature))"
proof -
  have ok: "verify_attestation_signature sample_platform sample_minter
      (ethereum_signed_message_hash sample_platform []) (key 1 @ key 1 @ [27]) = Inr ()" by (rule sample_attester)
  then have run: "recover_evm_signer sample_platform (ethereum_signed_message_hash sample_platform [])
      (key 1 @ key 1 @ [27]) = Inr sample_burn_signer"
    by (auto simp: verify_attestation_signature_def and_then_eq_Inr require_eq_Inr map_err_eq_Inr is_attester_enabled_def)
  have "well_formed_registry MAX_ATTESTERS (gm_enabled_attesters sample_minter)"
    by (simp add: well_formed_registry_def MAX_ATTESTERS_def)
  from revoked_attester_rejected [OF this run, of sample_burn_signer] ok show ?thesis by simp
qed

end
