(* ===== verification/WalletMachine.thy ===== *)
theory WalletMachine
  imports GatewayBurn WalletDelegates WalletAdmin Machine
begin

text \<open>
  The GatewayWallet program as a machine: the dispatch of lib.rs, the steps of a ledger under it (a
  successful instruction, or whatever the rest of the chain does), and the effect of every instruction
  as one of ten kinds.
\<close>

section \<open>The program's instructions\<close>

datatype WalletInstruction =
    IxDeposit DepositContext u64
  | IxDepositFor DepositForContext u64 pubkey
  | IxGatewayBurn GatewayBurnContext GatewayBurnParams
  | IxWithdraw WithdrawContext
  | IxInitiateWithdrawal InitiateWithdrawalContext u64
  | IxInitialize InitializeContext InitializeParams
  | IxTransferOwnership RoleContext pubkey
  | IxAcceptOwnership RoleContext
  | IxUpdatePauser RoleContext pubkey
  | IxUpdateDenylister RoleContext pubkey
  | IxUpdateTokenController RoleContext pubkey
  | IxUpdateWithdrawalDelay RoleContext u64
  | IxAddToken AddTokenContext
  | IxAddBurnSigner RoleContext pubkey
  | IxRemoveBurnSigner RoleContext pubkey
  | IxAddDelegate AddDelegateContext pubkey
  | IxRemoveDelegate RemoveDelegateContext pubkey
  | IxDenylist DenylistContext pubkey
  | IxUndenylist UndenylistContext pubkey
  | IxPause RoleContext
  | IxUnpause RoleContext
  | IxUpdateFeeRecipient RoleContext pubkey

fun wallet_dispatch :: "platform \<Rightarrow> transaction \<Rightarrow> WalletInstruction \<Rightarrow> ledger \<Rightarrow> wallet_outcome" where
  "wallet_dispatch pf tx (IxDeposit c amount) l = deposit pf tx c amount l"
| "wallet_dispatch pf tx (IxDepositFor c amount depositor) l = deposit_for pf tx c amount depositor l"
| "wallet_dispatch pf tx (IxGatewayBurn c params) l = gateway_burn pf tx c params l"
| "wallet_dispatch pf tx (IxWithdraw c) l = withdraw pf tx c l"
| "wallet_dispatch pf tx (IxInitiateWithdrawal c amount) l = initiate_withdrawal pf tx c amount l"
| "wallet_dispatch pf tx (IxInitialize c params) l = initialize pf tx c params l"
| "wallet_dispatch pf tx (IxTransferOwnership c k) l = transfer_ownership pf tx c k l"
| "wallet_dispatch pf tx (IxAcceptOwnership c) l = accept_ownership pf tx c l"
| "wallet_dispatch pf tx (IxUpdatePauser c k) l = update_pauser pf tx c k l"
| "wallet_dispatch pf tx (IxUpdateDenylister c k) l = update_denylister pf tx c k l"
| "wallet_dispatch pf tx (IxUpdateTokenController c k) l = update_token_controller pf tx c k l"
| "wallet_dispatch pf tx (IxUpdateWithdrawalDelay c delay) l = update_withdrawal_delay pf tx c delay l"
| "wallet_dispatch pf tx (IxAddToken c) l = add_token_ix pf tx c l"
| "wallet_dispatch pf tx (IxAddBurnSigner c k) l = add_burn_signer_ix pf tx c k l"
| "wallet_dispatch pf tx (IxRemoveBurnSigner c k) l = remove_burn_signer_ix pf tx c k l"
| "wallet_dispatch pf tx (IxAddDelegate c k) l = add_delegate pf tx c k l"
| "wallet_dispatch pf tx (IxRemoveDelegate c k) l = remove_delegate pf tx c k l"
| "wallet_dispatch pf tx (IxDenylist c k) l = denylist pf tx c k l"
| "wallet_dispatch pf tx (IxUndenylist c k) l = undenylist pf tx c k l"
| "wallet_dispatch pf tx (IxPause c) l = pause pf tx c l"
| "wallet_dispatch pf tx (IxUnpause c) l = unpause pf tx c l"
| "wallet_dispatch pf tx (IxUpdateFeeRecipient c k) l = update_fee_recipient pf tx c k l"

section \<open>Steps\<close>

text \<open>
  The addresses that only the program can sign for, and the transactions signed by others.  The rest of
  the chain: the program's records stay, a new account of the program has none and is not at a PDA; an
  unused PDA stays unused; and a token account whose owner is a PDA, with neither delegate nor close
  authority, keeps mint and owner and can only gain.
\<close>

definition wallet_pda :: "platform \<Rightarrow> pubkey \<Rightarrow> bool" where
  "wallet_pda pf k \<longleftrightarrow> (\<exists>seeds. create_program_address pf seeds WALLET_PROGRAM_ID = Inr k)"

definition signed_by_users :: "platform \<Rightarrow> transaction \<Rightarrow> bool" where
  "signed_by_users pf tx \<longleftrightarrow> (\<forall>k \<in> set (tx_signers tx). \<not> wallet_pda pf k)"

definition held_safely :: "platform \<Rightarrow> TokenAccount \<Rightarrow> bool" where
  "held_safely pf t \<longleftrightarrow> wallet_pda pf (ta_owner t) \<and> ta_delegate t = None \<and> ta_close_authority t = None"

definition wallet_env :: "platform \<Rightarrow> ledger \<Rightarrow> ledger \<Rightarrow> bool" where
  "wallet_env pf l l' \<longleftrightarrow>
     keeps_records WALLET_PROGRAM_ID l l' \<and>
     (\<forall>k. acc_owner (l k) \<noteq> WALLET_PROGRAM_ID \<and> acc_owner (l' k) = WALLET_PROGRAM_ID \<longrightarrow> \<not> wallet_pda pf k) \<and>
     (\<forall>k. wallet_pda pf k \<and> fresh l k \<longrightarrow> fresh l' k) \<and>
     (\<forall>k t. tok_at l k = Some t \<and> held_safely pf t \<longrightarrow>
        (\<exists>t'. tok_at l' k = Some t' \<and> ta_mint t' = ta_mint t \<and> ta_owner t' = ta_owner t \<and>
              ta_delegate t' = None \<and> ta_close_authority t' = None \<and> ta_amount t \<le> ta_amount t'))"

text \<open>A byte vector of the instruction data has a length that fits a \<open>usize\<close>.\<close>

fun fits_usize :: "WalletInstruction \<Rightarrow> bool" where
  "fits_usize (IxGatewayBurn c params) \<longleftrightarrow> length (encoded_burn_data params) < 2 ^ 64"
| "fits_usize _ \<longleftrightarrow> True"

inductive wallet_step :: "platform \<Rightarrow> ledger \<Rightarrow> WalletEvent list \<Rightarrow> ledger \<Rightarrow> bool" for pf where
  wallet_call: "signed_by_users pf tx \<Longrightarrow> fits_usize ix \<Longrightarrow> wallet_dispatch pf tx ix l = Inr (l', es) \<Longrightarrow> wallet_step pf l es l'"
| wallet_rest: "wallet_env pf l l' \<Longrightarrow> wallet_step pf l [] l'"

abbreviation "wallet_run pf \<equiv> machine_run (wallet_step pf)"

section \<open>The effect of an instruction\<close>

text \<open>What an instruction of a role may do to the wallet state, with the event it emits.\<close>

inductive role_change :: "(GatewayWallet \<Rightarrow> pubkey) \<Rightarrow> GatewayWallet \<Rightarrow> GatewayWallet \<Rightarrow> WalletEvent \<Rightarrow> bool" where
  nominate: "role_change gw_owner w (w\<lparr> gw_pending_owner := k \<rparr>) (WalletEvent.OwnershipTransferStarted (gw_owner w) k)"
| take_over: "role_change gw_pending_owner w (w\<lparr> gw_owner := gw_pending_owner w, gw_pending_owner := default_pubkey \<rparr>)
    (WalletEvent.OwnershipTransferred (gw_owner w) (gw_pending_owner w))"
| set_pauser: "k \<noteq> default_pubkey \<Longrightarrow>
    role_change gw_owner w (w\<lparr> gw_pauser := k \<rparr>) (WalletEvent.PauserChanged (gw_pauser w) k)"
| set_denylister: "k \<noteq> default_pubkey \<Longrightarrow>
    role_change gw_owner w (w\<lparr> gw_denylister := k \<rparr>) (DenylisterChanged (gw_denylister w) k)"
| set_token_controller: "k \<noteq> default_pubkey \<Longrightarrow>
    role_change gw_owner w (w\<lparr> gw_token_controller := k \<rparr>)
      (WalletEvent.TokenControllerUpdated (gw_token_controller w) k)"
| set_fee_recipient: "k \<noteq> default_pubkey \<Longrightarrow>
    role_change gw_owner w (w\<lparr> gw_fee_recipient := k \<rparr>) (FeeRecipientChanged (gw_fee_recipient w) k)"
| set_delay: "0 < delay \<Longrightarrow>
    role_change gw_owner w (w\<lparr> gw_withdrawal_delay := delay \<rparr>)
      (WithdrawalDelayChanged (gw_withdrawal_delay w) delay)"
| enter_signer: "k \<noteq> default_pubkey \<Longrightarrow> add_burn_signer w k = Inr w' \<Longrightarrow>
    role_change gw_owner w w' (BurnSignerAdded k)"
| evict_signer: "remove_burn_signer w k = Inr w' \<Longrightarrow> role_change gw_owner w w' (BurnSignerRemoved k)"
| switch_off: "role_change gw_pauser w (w\<lparr> gw_paused := True \<rparr>) (WalletEvent.Paused (gw_pauser w))"
| switch_on: "role_change gw_pauser w (w\<lparr> gw_paused := False \<rparr>) (WalletEvent.Unpaused (gw_pauser w))"

definition role_done :: "transaction \<Rightarrow> ledger \<Rightarrow> WalletEvent list \<Rightarrow> ledger \<Rightarrow> bool" where
  "role_done tx l es l' \<longleftrightarrow>
     (\<exists>c role w w' e. wallet_updated tx c role l w w' l' \<and> role_change role w w' e \<and> es = [e])"

lemma role_doneI:
  assumes "role_accounts pf tx c role l = Inr w" "finish c w' e l = Inr (l', es)" "role_change role w w' e"
  shows "role_done tx l es l'"
  using assms finish_Inr [OF assms(2), of w]
  unfolding role_done_def wallet_updated_def role_accounts_Inr by blast

lemma role_instruction:
  "transfer_ownership pf tx c k l = Inr (l', es) \<Longrightarrow> role_done tx l es l'"
  "accept_ownership pf tx c l = Inr (l', es) \<Longrightarrow> role_done tx l es l'"
  "update_pauser pf tx c k l = Inr (l', es) \<Longrightarrow> role_done tx l es l'"
  "update_denylister pf tx c k l = Inr (l', es) \<Longrightarrow> role_done tx l es l'"
  "update_token_controller pf tx c k l = Inr (l', es) \<Longrightarrow> role_done tx l es l'"
  "update_fee_recipient pf tx c k l = Inr (l', es) \<Longrightarrow> role_done tx l es l'"
  "update_withdrawal_delay pf tx c delay l = Inr (l', es) \<Longrightarrow> role_done tx l es l'"
  "add_burn_signer_ix pf tx c k l = Inr (l', es) \<Longrightarrow> role_done tx l es l'"
  "remove_burn_signer_ix pf tx c k l = Inr (l', es) \<Longrightarrow> role_done tx l es l'"
  unfolding transfer_ownership_def accept_ownership_def update_pauser_def update_denylister_def
    update_token_controller_def update_fee_recipient_def update_withdrawal_delay_def
    add_burn_signer_ix_def remove_burn_signer_ix_def Let_def
  by (clarsimp simp: and_then_eq_Inr require_eq_Inr, erule (1) role_doneI,
      auto intro: role_change.intros)+

lemma role_switch:
  "pause pf tx c l = Inr (l', es) \<Longrightarrow> role_done tx l es l'"
  "unpause pf tx c l = Inr (l', es) \<Longrightarrow> role_done tx l es l'"
  unfolding pause_def unpause_def and_then_eq_Inr
  using switch_off switch_on role_doneI by (metis role_accounts_Inr)+

text \<open>The ten kinds of effect.\<close>

inductive wallet_effect :: "platform \<Rightarrow> transaction \<Rightarrow> ledger \<Rightarrow> WalletEvent list \<Rightarrow> ledger \<Rightarrow> bool" for pf tx where
  credit: "deposit_made pf tx l g src cust k sender depositor amount es l' \<Longrightarrow> wallet_effect pf tx l es l'"
| start: "wallet_running pf l g w \<Longrightarrow> depositor \<in> set (tx_signers tx) \<Longrightarrow>
    create_program_address pf [GATEWAY_DEPOSIT_SEED, dep_token_mint d, depositor, [dep_bump d]]
      WALLET_PROGRAM_ID = Inr k \<Longrightarrow>
    deposit_initiate_withdrawal (tx_slot tx) d amount (gw_withdrawal_delay w) w (dep_token_mint d)
      = Inr (d', a, t, b) \<Longrightarrow>
    deposit_rewritten l k d d' l' \<Longrightarrow>
    wallet_effect pf tx l [WithdrawalInitiated (dep_token_mint d) depositor amount a t b] l'"
| pay_out: "wallet_running pf l g w \<Longrightarrow> depositor \<in> set (tx_signers tx) \<Longrightarrow>
    custody_of pf l g w (dep_token_mint d) cust \<Longrightarrow> deposit_at l k = Some d \<Longrightarrow>
    create_program_address pf [GATEWAY_DEPOSIT_SEED, dep_token_mint d, depositor, [dep_bump d]]
      WALLET_PROGRAM_ID = Inr k \<Longrightarrow>
    tok_at l dst = Some t \<Longrightarrow> ta_owner t = depositor \<Longrightarrow>
    0 < dep_withdrawing_amount d \<Longrightarrow> dep_withdrawal_block d \<le> tx_slot tx \<Longrightarrow> withdrawn l k cust dst g d l' \<Longrightarrow>
    wallet_effect pf tx l [WithdrawalCompleted (dep_token_mint d) depositor (dep_withdrawing_amount d)] l'"
| burn: "burn_executed pf tx c params l w d d' h burn_amount charged es l' \<Longrightarrow> wallet_effect pf tx l es l'"
| authorise: "depositor \<in> set (tx_signers tx) \<Longrightarrow>
    try_bumps pf [GATEWAY_DELEGATE_SEED, token, depositor, delegate] WALLET_PROGRAM_ID 255 = Some (k, b) \<Longrightarrow>
    g = \<lparr> del_bump = b, del_status = Authorized, del_closeable_at_block = 0, del_token = token,
      del_depositor = depositor, del_delegate = delegate \<rparr> \<Longrightarrow>
    account_written l k as_delegate (DelegateData g) l' \<Longrightarrow>
    wallet_effect pf tx l [DelegateAdded token depositor delegate] l'"
| revoke: "depositor \<in> set (tx_signers tx) \<Longrightarrow>
    try_bumps pf [GATEWAY_DELEGATE_SEED, token, depositor, delegate] WALLET_PROGRAM_ID 255 = Some (k, b) \<Longrightarrow>
    delegate_at l k = Some g \<Longrightarrow> g' = (if del_status g = Authorized then g\<lparr> del_status := Revoked \<rparr> else g) \<Longrightarrow>
    account_written l k as_delegate (DelegateData g') l' \<Longrightarrow>
    es = (if del_status g = Authorized then [DelegateRemoved token depositor delegate] else []) \<Longrightarrow>
    wallet_effect pf tx l es l'"
| ban: "try_bumps pf [DENYLIST_SEED, a] WALLET_PROGRAM_ID 255 = Some (k, b) \<Longrightarrow> wallet_at l g = Some w \<Longrightarrow>
    gw_denylister w \<in> set (tx_signers tx) \<Longrightarrow> account_written l k as_denylist DenylistData l' \<Longrightarrow>
    wallet_effect pf tx l [Denylisted a] l'"
| unban: "try_bumps pf [DENYLIST_SEED, a] WALLET_PROGRAM_ID 255 = Some (k, b) \<Longrightarrow> wallet_at l g = Some w \<Longrightarrow>
    gw_denylister w \<in> set (tx_signers tx) \<Longrightarrow> typed WALLET_PROGRAM_ID as_denylist l k = Some () \<Longrightarrow>
    untouched l {k} l' \<Longrightarrow> fresh l' k \<Longrightarrow> wallet_effect pf tx l [UnDenylisted a] l'"
| administer: "role_done tx l es l' \<Longrightarrow> wallet_effect pf tx l es l'"
| create: "try_bumps pf [GATEWAY_WALLET_SEED] WALLET_PROGRAM_ID 255 = Some (k, b) \<Longrightarrow> fresh l k \<Longrightarrow>
    u \<in> set (tx_signers tx) \<Longrightarrow> acc_data (l pd) = ProgramData (Some u) \<Longrightarrow> 0 < delay \<Longrightarrow>
    w = zeroed_GatewayWallet\<lparr> gw_bump := b, gw_owner := u, gw_pauser := u, gw_denylister := u,
      gw_token_controller := u, gw_fee_recipient := u, gw_local_domain := domain, gw_version := 1,
      gw_withdrawal_delay := delay \<rparr> \<Longrightarrow>
    account_written l k as_wallet (WalletData w) l' \<Longrightarrow>
    wallet_effect pf tx l [WalletEvent.GatewayWalletInitialized] l'"
| support: "wallet_at l g = Some w \<Longrightarrow> gw_token_controller w \<in> set (tx_signers tx) \<Longrightarrow>
    create_program_address pf [GATEWAY_WALLET_SEED, [gw_bump w]] WALLET_PROGRAM_ID = Inr g \<Longrightarrow>
    try_bumps pf [GATEWAY_WALLET_CUSTODY_SEED, mint] WALLET_PROGRAM_ID 255 = Some (cust, b) \<Longrightarrow>
    token_initialised l cust mint g l1 \<Longrightarrow> add_token w mint b = Inr w' \<Longrightarrow>
    account_written l1 g as_wallet (WalletData w') l' \<Longrightarrow>
    wallet_effect pf tx l [WalletEvent.TokenSupported mint cust] l'"

lemma add_delegate_event: "add_delegate pf tx c k l = Inr (l', es) \<Longrightarrow>
    es = [DelegateAdded (ad_token_mint c) (ad_depositor c) k]"
  by (auto simp: add_delegate_def and_then_eq_Inr Let_def)

lemma remove_delegate_event:
  assumes "remove_delegate pf tx c k l = Inr (l', es)" "delegate_at l (rd_delegate_account c) = Some g"
  shows "es = (if del_status g = Authorized then [DelegateRemoved (rd_token_mint c) (rd_depositor c) k] else [])"
  using assms unfolding remove_delegate_def not_authorized remove_delegate_accounts_def
  by (auto simp: and_then_eq_Inr load_typed split: if_splits)

lemma initialize_event: "initialize pf tx c params l = Inr (l', es) \<Longrightarrow> es = [GatewayWalletInitialized]"
  by (auto simp: initialize_def and_then_eq_Inr Let_def)

lemma add_token_event: "add_token_ix pf tx c l = Inr (l', es) \<Longrightarrow>
    es = [WalletEvent.TokenSupported (at_token_mint c) (at_custody_token_account c)]"
  by (auto simp: add_token_ix_def and_then_eq_Inr)

text \<open>Every instruction has one of the effects.\<close>

lemma deposit_kinds:
  assumes ok: "system_program_ok pf"
  shows "deposit pf tx c amount l = Inr (l', es) \<Longrightarrow> wallet_effect pf tx l es l'"
    "deposit_for pf tx c' amount depositor l = Inr (l', es) \<Longrightarrow> wallet_effect pf tx l es l'"
  by (erule credit [OF deposit_effect(1) [OF ok]], erule credit [OF deposit_for_effect(1) [OF ok]])

lemma withdrawal_kinds:
  "initiate_withdrawal pf tx c amount l = Inr (l', es) \<Longrightarrow> wallet_effect pf tx l es l'"
  "withdraw pf tx c' l = Inr (l', es) \<Longrightarrow> wallet_effect pf tx l es l'"
proof -
  assume "initiate_withdrawal pf tx c amount l = Inr (l', es)"
  from initiate_withdrawal_effect [OF this] show "wallet_effect pf tx l es l'"
    by (auto intro: start)
next
  assume "withdraw pf tx c' l = Inr (l', es)"
  from withdraw_effect [OF this] show "wallet_effect pf tx l es l'"
    by (auto intro: pay_out)
qed

lemma delegate_kinds:
  assumes ok: "system_program_ok pf"
  shows "add_delegate pf tx c k l = Inr (l', es) \<Longrightarrow> wallet_effect pf tx l es l'"
    "remove_delegate pf tx c' k l = Inr (l', es) \<Longrightarrow> wallet_effect pf tx l es l'"
proof -
  assume run: "add_delegate pf tx c k l = Inr (l', es)"
  from add_delegate_effect(1) [OF ok run] add_delegate_event [OF run] show "wallet_effect pf tx l es l'"
    by (auto intro: authorise)
next
  assume run: "remove_delegate pf tx c' k l = Inr (l', es)"
  from remove_delegate_effect [OF run] obtain b g where
    "rd_depositor c' \<in> set (tx_signers tx)" "delegate_at l (rd_delegate_account c') = Some g"
    "try_bumps pf [GATEWAY_DELEGATE_SEED, rd_token_mint c', rd_depositor c', k] WALLET_PROGRAM_ID 255
      = Some (rd_delegate_account c', b)"
    "account_written l (rd_delegate_account c') as_delegate
       (DelegateData (if del_status g = Authorized then g\<lparr> del_status := Revoked \<rparr> else g)) l'"
    by blast
  from revoke [OF this(1,3,2) refl this(4) remove_delegate_event [OF run this(2)]]
  show "wallet_effect pf tx l es l'" .
qed

lemma denylist_kinds:
  assumes ok: "system_program_ok pf"
  shows "denylist pf tx c a l = Inr (l', es) \<Longrightarrow> wallet_effect pf tx l es l'"
    "undenylist pf tx c' a l = Inr (l', es) \<Longrightarrow> wallet_effect pf tx l es l'"
proof -
  assume run: "denylist pf tx c a l = Inr (l', es)"
  from denylist_effect [OF ok run] show "wallet_effect pf tx l es l'" by (auto intro: ban)
next
  assume run: "undenylist pf tx c' a l = Inr (l', es)"
  from undenylist_effect [OF run] show "wallet_effect pf tx l es l'" by (auto intro: unban)
qed

lemma creation_kinds:
  assumes ok: "system_program_ok pf"
  shows "initialize pf tx c params l = Inr (l', es) \<Longrightarrow> wallet_effect pf tx l es l'"
    "add_token_ix pf tx c' l = Inr (l', es) \<Longrightarrow> wallet_effect pf tx l es l'"
proof -
  assume run: "initialize pf tx c params l = Inr (l', es)"
  from initialize_effect [OF ok run] show "wallet_effect pf tx l es l'"
    unfolding initialize_event [OF run] by (blast intro: create)
next
  assume run: "add_token_ix pf tx c' l = Inr (l', es)"
  from add_token_effect [OF ok run] show "wallet_effect pf tx l es l'"
    unfolding add_token_event [OF run] by (metis support)
qed

lemma wallet_dispatch_effect:
  assumes ok: "system_program_ok pf" and fits: "fits_usize ix"
    and run: "wallet_dispatch pf tx ix l = Inr (l', es)"
  shows "wallet_effect pf tx l es l'"
proof (cases ix)
  case (IxGatewayBurn c params)
  with fits run gateway_burn_effect [OF ok, of params tx c l l' es] show ?thesis by (auto intro: burn)
qed (use run in \<open>auto intro: deposit_kinds [OF ok] withdrawal_kinds delegate_kinds [OF ok]
  denylist_kinds [OF ok] creation_kinds [OF ok] administer role_instruction role_switch\<close>)

end
