(* ===== verification/WalletInvariant.thy ===== *)
theory WalletInvariant
  imports WalletMachine
begin

text \<open>
  The well-formedness of the wallet program's accounts and its preservation by every step: each typed
  account sits at the canonical PDA of the seeds it records, the wallet state is within its bounds, and
  a stored delegate record was authorised once.
\<close>

section \<open>Views after a write\<close>

lemma written_views:
  "account_written l k as_wallet (WalletData w) l' \<Longrightarrow> wallet_at l' = (wallet_at l)(k \<mapsto> w) \<and>
     deposit_at l' = deposit_at l \<and> delegate_at l' = delegate_at l"
  "account_written l k as_delegate (DelegateData g) l' \<Longrightarrow> delegate_at l' = (delegate_at l)(k \<mapsto> g) \<and>
     deposit_at l' = deposit_at l \<and> wallet_at l' = wallet_at l"
  "account_written l k as_denylist DenylistData l' \<Longrightarrow> delegate_at l' = delegate_at l \<and>
     deposit_at l' = deposit_at l \<and> wallet_at l' = wallet_at l"
  by (intro conjI; erule typed_written; auto simp: as_data_Some)+

lemma typed_closed:
  assumes "untouched l {k} l'" "fresh l' k" "typed WALLET_PROGRAM_ID as_denylist l k = Some ()" "f DenylistData = None"
  shows "typed WALLET_PROGRAM_ID f l' = typed WALLET_PROGRAM_ID f l"
proof
  fix j
  show "typed WALLET_PROGRAM_ID f l' j = typed WALLET_PROGRAM_ID f l j"
    using assms by (cases "j = k") (auto simp: untouched_def typed_def fresh_def as_data_Some split: if_splits)
qed

lemma closed_views:
  assumes "untouched l {k} l'" "fresh l' k" "typed WALLET_PROGRAM_ID as_denylist l k = Some ()"
  shows "delegate_at l' = delegate_at l" "deposit_at l' = deposit_at l" "wallet_at l' = wallet_at l"
  by (simp_all add: typed_closed [OF assms])

lemma token_initialised_views:
  assumes "token_initialised l k mint a l'" "p \<noteq> SYSTEM_PROGRAM_ID" "p \<noteq> TOKEN_PROGRAM_ID"
  shows "typed p f l' = typed p f l"
proof
  fix j
  show "typed p f l' j = typed p f l j"
  proof (cases "j = k")
    case True
    with assms show ?thesis by (auto simp: token_initialised_def typed_def fresh_def split: if_splits)
  next
    case False
    with assms show ?thesis by (auto simp: token_initialised_def intro: typed_untouched)
  qed
qed

section \<open>How each effect changes each kind of account\<close>

text \<open>A deposit record is credited at the address of its seeds, or changes its amounts in place.\<close>

definition deposits_change :: "platform \<Rightarrow> ledger \<Rightarrow> ledger \<Rightarrow> bool" where
  "deposits_change pf l l' \<longleftrightarrow> deposit_at l' = deposit_at l \<or>
     (\<exists>k d d'. deposit_at l k = Some d \<and> same_deposit_owner d d' \<and> deposit_at l' = (deposit_at l)(k \<mapsto> d')) \<or>
     (\<exists>k b depositor mint n.
        try_bumps pf [GATEWAY_DEPOSIT_SEED, mint, depositor] WALLET_PROGRAM_ID 255 = Some (k, b) \<and>
        deposit_at l' = (deposit_at l)(k \<mapsto>
          (deposit_before l k b depositor mint)\<lparr> dep_available_amount := n \<rparr>))"

lemma role_done_views:
  assumes "role_done tx l es l'"
  obtains k role w w' e where "wallet_at l k = Some w" "role w \<in> set (tx_signers tx)" "role_change role w w' e"
    "wallet_at l' = (wallet_at l)(k \<mapsto> w')" "deposit_at l' = deposit_at l" "delegate_at l' = delegate_at l"
    "es = [e]"
  using assms unfolding role_done_def wallet_updated_def by (metis written_views(1))

lemma support_views:
  assumes "token_initialised l cust mint g l1" "account_written l1 g as_wallet (WalletData w') l'"
  shows "wallet_at l' = (wallet_at l)(g \<mapsto> w')" "deposit_at l' = deposit_at l" "delegate_at l' = delegate_at l"
  using written_views(1) [OF assms(2)] by (simp_all add: token_initialised_views [OF assms(1)])

lemma withdrawn_views:
  assumes "withdrawn l k cust dst a d l'"
  shows "wallet_at l' = wallet_at l" "delegate_at l' = delegate_at l" "deposit_at l k = Some d"
    "deposit_at l' = (deposit_at l)(k \<mapsto> d\<lparr> dep_withdrawing_amount := 0, dep_withdrawal_block := 0 \<rparr>)"
proof -
  from assms obtain m where tr: "transferred l cust dst a (dep_withdrawing_amount d) m"
    and rew: "deposit_rewritten m k d (d\<lparr> dep_withdrawing_amount := 0, dep_withdrawal_block := 0 \<rparr>) l'"
    unfolding withdrawn_def by blast
  have "wallet_at m = wallet_at l" "delegate_at m = delegate_at l" "deposit_at m = deposit_at l"
    by (rule typed_only_tokens [OF transferred_only_tokens [OF tr]]; simp)+
  then show "wallet_at l' = wallet_at l" "delegate_at l' = delegate_at l" "deposit_at l k = Some d"
    "deposit_at l' = (deposit_at l)(k \<mapsto> d\<lparr> dep_withdrawing_amount := 0, dep_withdrawal_block := 0 \<rparr>)"
    using rew by (simp_all add: deposit_rewritten_def)
qed

lemma burn_executed_settled:
  assumes "burn_executed pf tx c params l w d d' h burn_amount charged es l'"
  obtains fa fw where "reduce_balance d (bm_value (burn_message_at (encoded_burn_data params)) +
        bm_fee (burn_message_at (encoded_burn_data params))) = Inr (d', fa, fw)"
    "burn_settled l c h burn_amount charged d d' fa fw l'"
  using assms unfolding burn_executed_def Let_def by blast

lemma effect_deposits:
  assumes "wallet_effect pf tx l es l'"
  shows "deposits_change pf l l'"
  using assms
proof cases
  case (credit g src cust k sender depositor amount)
  then show ?thesis unfolding deposit_made_def credited_def deposits_change_def by metis
next
  case (start g w depositor d k amount d' a t b)
  then show ?thesis
    using initiate_withdrawal_amounts(7) unfolding deposit_rewritten_def deposits_change_def by metis
next
  case (pay_out g w depositor d cust k dst t)
  have "same_deposit_owner d (d\<lparr> dep_withdrawing_amount := 0, dep_withdrawal_block := 0 \<rparr>)"
    by (simp add: same_deposit_owner_def)
  with withdrawn_views [OF \<open>withdrawn l k cust dst g d l'\<close>] show ?thesis unfolding deposits_change_def by blast
next
  case (burn c params w d d' h burn_amount charged)
  then show ?thesis
    using burn_settled_views(1,2) reduce_balance_amounts(6)
    unfolding deposits_change_def by (metis burn_executed_settled)
qed (auto simp: deposits_change_def dest: written_views closed_views support_views elim: role_done_views)

text \<open>
  The wallet state is created at its PDA, changed by a role, or learns a token.  Only a role's change
  emits an event of the ownership.
\<close>

fun ownership_kind :: "WalletEvent \<Rightarrow> ownership_event" where
  "ownership_kind (WalletEvent.OwnershipTransferStarted owner k) = Nominated owner k"
| "ownership_kind (WalletEvent.OwnershipTransferred owner k) = TakenOver owner k"
| "ownership_kind _ = OtherEvent"

inductive wallets_change :: "platform \<Rightarrow> transaction \<Rightarrow> ledger \<Rightarrow> WalletEvent list \<Rightarrow> ledger \<Rightarrow> bool" for pf tx where
  wallets_same: "wallet_at l' = wallet_at l \<Longrightarrow> \<forall>e \<in> set es. ownership_kind e = OtherEvent \<Longrightarrow>
    wallets_change pf tx l es l'"
| wallet_role: "wallet_at l k = Some w \<Longrightarrow> role w \<in> set (tx_signers tx) \<Longrightarrow> role_change role w w' e \<Longrightarrow>
    wallet_at l' = (wallet_at l)(k \<mapsto> w') \<Longrightarrow> wallets_change pf tx l [e] l'"
| wallet_created: "try_bumps pf [GATEWAY_WALLET_SEED] WALLET_PROGRAM_ID 255 = Some (k, b) \<Longrightarrow>
    fresh l k \<Longrightarrow> 0 < delay \<Longrightarrow> wallet_at l' = (wallet_at l)(k \<mapsto>
      zeroed_GatewayWallet\<lparr> gw_bump := b, gw_owner := u, gw_pauser := u, gw_denylister := u,
        gw_token_controller := u, gw_fee_recipient := u, gw_local_domain := domain, gw_version := 1,
        gw_withdrawal_delay := delay \<rparr>) \<Longrightarrow> wallets_change pf tx l es l'"
| wallet_token: "wallet_at l k = Some w \<Longrightarrow> gw_token_controller w \<in> set (tx_signers tx) \<Longrightarrow>
    try_bumps pf [GATEWAY_WALLET_CUSTODY_SEED, mint] WALLET_PROGRAM_ID 255 = Some (cust, b) \<Longrightarrow>
    add_token w mint b = Inr w' \<Longrightarrow> wallet_at l' = (wallet_at l)(k \<mapsto> w') \<Longrightarrow>
    wallets_change pf tx l [WalletEvent.TokenSupported mint cust] l'"

lemma effect_wallets:
  assumes "wallet_effect pf tx l es l'"
  shows "wallets_change pf tx l es l'"
  using assms
proof cases
  case (burn c params w d d' h burn_amount charged)
  then have "wallet_at l' = wallet_at l" using burn_settled_views(3) by (metis burn_executed_settled)
  moreover have "\<forall>e \<in> set es. ownership_kind e = OtherEvent"
    using burn unfolding burn_executed_def Let_def by (elim conjE exE) (simp split: if_splits)
  ultimately show ?thesis by (rule wallets_same)
next
  case administer
  then show ?thesis by (rule role_done_views) (simp add: wallet_role)
next
  case (create k b u pd delay w domain)
  then show ?thesis using wallet_created written_views(1) by blast
next
  case (support g w mint cust b l1 w')
  show ?thesis unfolding support(1)
    by (rule wallet_token [OF support(2,3,5,7) support_views(1) [OF support(6,8)]])
qed (auto intro!: wallets_same simp: deposit_made_def credited_def deposit_rewritten_def
  dest: written_views closed_views withdrawn_views)

text \<open>A delegate record is authorised at the address of its seeds, or revoked in place.\<close>

inductive delegates_change :: "platform \<Rightarrow> transaction \<Rightarrow> ledger \<Rightarrow> ledger \<Rightarrow> bool" for pf tx where
  delegates_same: "delegate_at l' = delegate_at l \<Longrightarrow> delegates_change pf tx l l'"
| delegate_authorised: "depositor \<in> set (tx_signers tx) \<Longrightarrow>
    try_bumps pf [GATEWAY_DELEGATE_SEED, token, depositor, delegate] WALLET_PROGRAM_ID 255 = Some (k, b) \<Longrightarrow>
    delegate_at l' = (delegate_at l)(k \<mapsto> \<lparr> del_bump = b, del_status = Authorized,
      del_closeable_at_block = 0, del_token = token, del_depositor = depositor, del_delegate = delegate \<rparr>) \<Longrightarrow>
    delegates_change pf tx l l'"
| delegate_revoked: "depositor \<in> set (tx_signers tx) \<Longrightarrow> delegate_at l k = Some g \<Longrightarrow>
    try_bumps pf [GATEWAY_DELEGATE_SEED, token, depositor, delegate] WALLET_PROGRAM_ID 255 = Some (k, b) \<Longrightarrow>
    delegate_at l' = (delegate_at l)
      (k \<mapsto> if del_status g = Authorized then g\<lparr> del_status := Revoked \<rparr> else g) \<Longrightarrow>
    delegates_change pf tx l l'"

lemma effect_delegates:
  assumes "wallet_effect pf tx l es l'"
  shows "delegates_change pf tx l l'"
  using assms
proof cases
  case (burn c params w d d' h burn_amount charged)
  then have "delegate_at l' = delegate_at l" using burn_settled_views(4) by (metis burn_executed_settled)
  then show ?thesis by (rule delegates_same)
next
  case administer
  then show ?thesis by (rule role_done_views) (simp add: delegates_same)
next
  case (authorise depositor token delegate k b g)
  then show ?thesis using delegate_authorised written_views(2) by blast
next
  case (revoke depositor token delegate k b g g')
  show ?thesis
    by (rule delegate_revoked [OF revoke(1,3,2)]) (use written_views(2) [OF revoke(5)] revoke(4) in simp)
next
  case (support g w mint cust b l1 w')
  show ?thesis by (rule delegates_same [OF support_views(3) [OF support(6,8)]])
qed (auto intro!: delegates_same simp: deposit_made_def credited_def deposit_rewritten_def
  dest: written_views closed_views withdrawn_views)

text \<open>The rest of the chain changes none of the three.\<close>

lemma env_views:
  assumes "wallet_env pf l l'" "\<And>bs. f (Raw bs) = None"
  shows "typed WALLET_PROGRAM_ID f l' = typed WALLET_PROGRAM_ID f l"
  using assms(1) by (intro keeps_records_typed assms(2)) (simp add: wallet_env_def)

section \<open>Well-formedness\<close>

definition wallet_ok :: "platform \<Rightarrow> GatewayWallet \<Rightarrow> bool" where
  "wallet_ok pf w \<longleftrightarrow> tokens_aligned w \<and> well_formed_registry MAX_BURN_SIGNERS (gw_burn_signers w) \<and>
     0 < gw_withdrawal_delay w \<and>
     (\<forall>t b. get_custody_token_account_bump w t = Inr b \<longrightarrow>
        (\<exists>c. try_bumps pf [GATEWAY_WALLET_CUSTODY_SEED, t] WALLET_PROGRAM_ID 255 = Some (c, b)))"

definition wallets_ok :: "platform \<Rightarrow> ledger \<Rightarrow> bool" where
  "wallets_ok pf l \<longleftrightarrow> (\<forall>k w. wallet_at l k = Some w \<longrightarrow>
     try_bumps pf [GATEWAY_WALLET_SEED] WALLET_PROGRAM_ID 255 = Some (k, gw_bump w) \<and> wallet_ok pf w)"

definition deposits_ok :: "platform \<Rightarrow> ledger \<Rightarrow> bool" where
  "deposits_ok pf l \<longleftrightarrow> (\<forall>k d. deposit_at l k = Some d \<longrightarrow>
     try_bumps pf [GATEWAY_DEPOSIT_SEED, dep_token_mint d, dep_depositor d] WALLET_PROGRAM_ID 255
       = Some (k, dep_bump d))"

definition delegates_ok :: "platform \<Rightarrow> ledger \<Rightarrow> bool" where
  "delegates_ok pf l \<longleftrightarrow> (\<forall>k g. delegate_at l k = Some g \<longrightarrow> del_status g \<noteq> Unauthorized \<and>
     try_bumps pf [GATEWAY_DELEGATE_SEED, del_token g, del_depositor g, del_delegate g] WALLET_PROGRAM_ID 255
       = Some (k, del_bump g))"

lemma wallets_okD: "wallets_ok pf l \<Longrightarrow> wallet_at l k = Some w \<Longrightarrow>
    try_bumps pf [GATEWAY_WALLET_SEED] WALLET_PROGRAM_ID 255 = Some (k, gw_bump w) \<and> wallet_ok pf w"
  by (simp add: wallets_ok_def)

lemma wallets_ok_update: "wallets_ok pf l \<Longrightarrow> wallet_at l' = (wallet_at l)(k \<mapsto> w) \<Longrightarrow>
    try_bumps pf [GATEWAY_WALLET_SEED] WALLET_PROGRAM_ID 255 = Some (k, gw_bump w) \<Longrightarrow> wallet_ok pf w \<Longrightarrow>
    wallets_ok pf l'"
  by (simp add: wallets_ok_def)

lemma deposits_okD: "deposits_ok pf l \<Longrightarrow> deposit_at l k = Some d \<Longrightarrow>
    try_bumps pf [GATEWAY_DEPOSIT_SEED, dep_token_mint d, dep_depositor d] WALLET_PROGRAM_ID 255
      = Some (k, dep_bump d)"
  by (simp add: deposits_ok_def)

definition wallet_wf :: "platform \<Rightarrow> ledger \<Rightarrow> bool" where
  "wallet_wf pf l \<longleftrightarrow> wallets_ok pf l \<and> deposits_ok pf l \<and> delegates_ok pf l"

lemma role_change_fields:
  assumes "role_change role w w' e"
  shows "gw_bump w' = gw_bump w" "gw_supported_tokens w' = gw_supported_tokens w"
    "gw_custody_token_account_bumps w' = gw_custody_token_account_bumps w"
    "gw_local_domain w' = gw_local_domain w" "gw_version w' = gw_version w"
  using assms by (auto elim!: role_change.cases simp: add_burn_signer_def remove_burn_signer_def
      split: if_splits option.splits)

lemma role_change_ok:
  assumes "role_change role w w' e" "wallet_ok pf w"
  shows "wallet_ok pf w'"
proof -
  note f = role_change_fields [OF assms(1)]
  have "get_custody_token_account_bump w' = get_custody_token_account_bump w"
    by (simp add: fun_eq_iff get_custody_token_account_bump_def get_token_index_def f cong: option.case_cong)
  moreover have "tokens_aligned w'" using assms(2) by (simp add: wallet_ok_def tokens_aligned_def f)
  moreover have "0 < gw_withdrawal_delay w'"
    using assms by cases (auto simp: wallet_ok_def add_burn_signer_def remove_burn_signer_def
        split: if_splits option.splits)
  moreover have "well_formed_registry MAX_BURN_SIGNERS (gw_burn_signers w')"
    using assms by cases (auto simp: wallet_ok_def intro: burn_signer_registry.enter_well_formed
        burn_signer_registry.evict_well_formed)
  ultimately show ?thesis using assms(2) by (simp add: wallet_ok_def)
qed

lemma add_token_ok:
  assumes ok: "wallet_ok pf w" and add: "add_token w mint b = Inr w'"
    and pda: "try_bumps pf [GATEWAY_WALLET_CUSTODY_SEED, mint] WALLET_PROGRAM_ID 255 = Some (c, b)"
  shows "wallet_ok pf w'" "gw_bump w' = gw_bump w"
proof -
  from ok have al: "tokens_aligned w" by (simp add: wallet_ok_def)
  show "gw_bump w' = gw_bump w" using add by (auto simp: add_token_def split: if_splits)
  have "\<exists>c. try_bumps pf [GATEWAY_WALLET_CUSTODY_SEED, t] WALLET_PROGRAM_ID 255 = Some (c, b')"
    if b': "get_custody_token_account_bump w' t = Inr b'" for t b'
  proof (cases "is_token_supported w t")
    case True
    with b' get_bump_add_token_other [OF al add True] ok show ?thesis by (auto simp: wallet_ok_def)
  next
    case False
    have "is_token_supported w' t" using get_bump_supported [OF b'] .
    then have "t = mint" using False add by (auto simp: add_token_def is_token_supported_def split: if_splits)
    with get_bump_add_token_new [OF al add] False b' pda show ?thesis by auto
  qed
  moreover have "well_formed_registry MAX_BURN_SIGNERS (gw_burn_signers w')" "0 < gw_withdrawal_delay w'"
    using ok add by (auto simp: wallet_ok_def add_token_def split: if_splits)
  ultimately show "wallet_ok pf w'" using add_token_aligned [OF al add] by (simp add: wallet_ok_def)
qed

lemma initialised_wallet_ok: "0 < delay \<Longrightarrow> wallet_ok pf (zeroed_GatewayWallet\<lparr> gw_bump := b, gw_owner := u,
    gw_pauser := u, gw_denylister := u, gw_token_controller := u, gw_fee_recipient := u,
    gw_local_domain := domain, gw_version := 1, gw_withdrawal_delay := delay \<rparr>)"
  by (simp add: wallet_ok_def zeroed_GatewayWallet_def tokens_aligned_def well_formed_registry_def
      get_custody_token_account_bump_def get_token_index_def)

text \<open>A record found at its address is kept as it is: its bump is not zero.\<close>

lemma deposit_before_known:
  assumes "deposits_ok pf l" "deposit_at l k = Some d"
  shows "deposit_before l k b depositor mint = d"
  using canonical_bump [OF deposits_okD [OF assms]] assms(2)
  by (simp add: deposit_before_def initialize_if_needed_def)

lemma deposit_before_new:
  "deposit_at l k = None \<Longrightarrow> deposit_before l k b depositor mint =
     \<lparr> dep_bump = b, dep_depositor = depositor, dep_token_mint = mint, dep_available_amount = 0,
       dep_withdrawing_amount = 0, dep_withdrawal_block = 0 \<rparr>"
  by (simp add: deposit_before_def initialize_if_needed_def zeroed_GatewayDeposit_def)

lemma wallets_change_ok:
  assumes "wallets_change pf tx l es l'" and ok: "wallets_ok pf l"
  shows "wallets_ok pf l'"
  using assms(1)
proof cases
  case (wallet_role k w role w' e)
  note w = wallets_okD [OF ok wallet_role(2)]
  show ?thesis
    by (rule wallets_ok_update [OF ok wallet_role(5)])
      (use w role_change_ok [OF wallet_role(4)] role_change_fields(1) [OF wallet_role(4)] in simp_all)
next
  case (wallet_created k b delay u domain)
  show ?thesis
    by (rule wallets_ok_update [OF ok wallet_created(4)])
      (use wallet_created initialised_wallet_ok in simp_all)
next
  case (wallet_token k w mint cust b w')
  note w = wallets_okD [OF ok wallet_token(2)]
  note w' = add_token_ok [OF conjunct2 [OF w] wallet_token(5,4)]
  show ?thesis
    by (rule wallets_ok_update [OF ok wallet_token(6)]) (use w w' in simp_all)
qed (use ok in \<open>simp add: wallets_ok_def\<close>)

lemma deposits_change_ok:
  assumes "deposits_change pf l l'" "deposits_ok pf l"
  shows "deposits_ok pf l'"
  using assms(1) unfolding deposits_change_def
proof (elim disjE exE conjE)
  assume "deposit_at l' = deposit_at l"
  then show ?thesis using assms(2) by (simp add: deposits_ok_def)
next
  fix k d d'
  assume "deposit_at l k = Some d" "same_deposit_owner d d'" "deposit_at l' = (deposit_at l)(k \<mapsto> d')"
  then show ?thesis using assms(2) by (auto simp: deposits_ok_def same_deposit_owner_def)
next
  fix k b depositor mint n
  assume at: "try_bumps pf [GATEWAY_DEPOSIT_SEED, mint, depositor] WALLET_PROGRAM_ID 255 = Some (k, b)"
    and l': "deposit_at l' = (deposit_at l)(k \<mapsto>
      (deposit_before l k b depositor mint)\<lparr> dep_available_amount := n \<rparr>)"
  show ?thesis
  proof (cases "deposit_at l k")
    case None
    with at l' assms(2) show ?thesis by (auto simp: deposits_ok_def deposit_before_new)
  next
    case (Some d)
    with l' assms(2) deposit_before_known [OF assms(2) Some] show ?thesis by (auto simp: deposits_ok_def)
  qed
qed

lemma delegates_change_ok:
  assumes "delegates_change pf tx l l'" "delegates_ok pf l"
  shows "delegates_ok pf l'"
  using assms by cases (auto simp: delegates_ok_def split: if_splits)

lemma dispatch_wf:
  assumes "system_program_ok pf" "fits_usize ix" "wallet_dispatch pf tx ix l = Inr (l', es)" "wallet_wf pf l"
  shows "wallet_wf pf l'"
proof -
  note e = wallet_dispatch_effect [OF assms(1-3)]
  show ?thesis
    using wallets_change_ok [OF effect_wallets [OF e]] deposits_change_ok [OF effect_deposits [OF e]]
      delegates_change_ok [OF effect_delegates [OF e]] assms(4)
    by (simp add: wallet_wf_def)
qed

lemma env_wf: "wallet_env pf l l' \<Longrightarrow> wallet_wf pf l \<Longrightarrow> wallet_wf pf l'"
  by (simp add: wallet_wf_def wallets_ok_def deposits_ok_def delegates_ok_def env_views)

definition wallet_inv :: "platform \<Rightarrow> ledger \<Rightarrow> bool" where
  "wallet_inv pf l \<longleftrightarrow> system_program_ok pf \<and> wallet_wf pf l"

interpretation wallet_machine: machine "wallet_step pf" "wallet_inv pf" for pf
proof unfold_locales
  fix l es l'
  assume "wallet_inv pf l" "wallet_step pf l es l'"
  from this(2,1) show "wallet_inv pf l'"
    by cases (auto simp: wallet_inv_def intro: dispatch_wf env_wf)
qed

end
