(* ===== verification/Custody.thy ===== *)
theory Custody
  imports WalletInvariant
begin

text \<open>
  The token accounts under the wallet program: they keep mint, owner and authorities through every
  instruction, the slots of the custody accounts stay safe, and an instruction takes tokens only from
  the custody account of the mint it books.
\<close>

section \<open>Token accounts persist\<close>

lemma tok_not_written: "fresh l k \<or> typed WALLET_PROGRAM_ID f l k \<noteq> None \<Longrightarrow> tok_at l k = None"
  by (auto simp: fresh_def typed_def split: if_splits)

lemma same_identity_refl [simp]: "same_account_identity t t"
  by (simp add: same_account_identity_def)

lemma tok_untouched:
  assumes "untouched l {k} l'" "tok_at l k = None" "tok_at l j = Some t"
  shows "tok_at l' j = Some t" "amount_at l' j = amount_at l j"
proof -
  have "j \<noteq> k" using assms(2,3) by auto
  with assms(1,3) show "tok_at l' j = Some t" "amount_at l' j = amount_at l j"
    by (auto simp: untouched_def typed_def amount_at_def split: if_splits)
qed

lemma tok_written:
  assumes "account_written l k f x l'" "tok_at l j = Some t"
  shows "tok_at l' j = Some t" "amount_at l' j = amount_at l j"
  using tok_untouched [OF _ tok_not_written assms(2), of k l' f] assms(1) by (auto simp: written_def)

lemma tok_initialised:
  assumes "token_initialised l k mint a l'" "tok_at l j = Some t"
  shows "tok_at l' j = Some t" "amount_at l' j = amount_at l j"
proof -
  have "fresh l k \<Longrightarrow> tok_at l k = None" by (rule fresh_typed) simp_all
  then have "l' = l \<or> untouched l {k} l' \<and> tok_at l k = None"
    using assms(1) by (auto simp: token_initialised_def)
  then show "tok_at l' j = Some t" "amount_at l' j = amount_at l j"
    using tok_untouched [OF _ _ assms(2), of k l'] assms(2) by auto
qed

text \<open>The effects that move no tokens leave every token account alone.\<close>

lemma effect_still:
  assumes "wallet_effect pf tx l es l'" "tok_at l j = Some t"
  obtains (still) "tok_at l' j = Some t" "amount_at l' j = amount_at l j"
  | (credit) g src cust k sender depositor amount where
      "deposit_made pf tx l g src cust k sender depositor amount es l'"
  | (pay_out) g w depositor d cust k dst u where "wallet_running pf l g w" "depositor \<in> set (tx_signers tx)"
      "custody_of pf l g w (dep_token_mint d) cust" "deposit_at l k = Some d"
      "tok_at l dst = Some u" "ta_owner u = depositor" "withdrawn l k cust dst g d l'"
      "es = [WithdrawalCompleted (dep_token_mint d) depositor (dep_withdrawing_amount d)]"
  | (burn) c params w d d' h n charged where "burn_executed pf tx c params l w d d' h n charged es l'"
  using assms(1)
proof cases
  case administer
  then obtain k w' where "account_written l k as_wallet (WalletData w') l'"
    unfolding role_done_def wallet_updated_def by blast
  from tok_written [OF this assms(2)] show thesis by (rule still)
next
  case (start g w depositor d k amount d' a t b)
  then have "tok_at l' = tok_at l" "amount_at l' = amount_at l" by (simp_all add: deposit_rewritten_def)
  then show thesis using assms(2) by (intro still) simp_all
next
  case (unban a k b g w)
  from tok_untouched [OF unban(6) tok_not_written assms(2), of as_denylist] unban(5) show thesis by (auto intro: still)
next
  case (support g w mint cust b l1 w')
  note i = tok_initialised [OF support(6) assms(2)]
  from tok_written [OF support(8) i(1)] i(2) show thesis by (intro still) simp_all
next
  case (pay_out g w depositor d cust k dst u)
  show thesis by (rule that(3) [OF pay_out(2,3,4,5,7,8,11,1)])
qed (blast intro: that(2,4) | (rule that(1); rule tok_written [OF _ assms(2)], assumption))+

lemma effect_tok:
  assumes e: "wallet_effect pf tx l es l'" and t: "tok_at l j = Some t"
  shows "\<exists>t'. tok_at l' j = Some t' \<and> same_account_identity t t'"
  using e t
proof (cases rule: effect_still)
  case (credit g src cust k sender depositor amount)
  then obtain l1 l2 where "tok_at l1 = tok_at l" "transferred l1 src cust sender amount l2" "tok_at l' = tok_at l2"
    unfolding deposit_made_def credited_def by blast
  then show ?thesis using t tok_at_only_tokens [OF transferred_only_tokens, of l1 src cust sender amount l2 j t] by simp
next
  case (pay_out g w depositor d cust k dst u)
  then obtain m where "transferred l cust dst g (dep_withdrawing_amount d) m" "tok_at l' = tok_at m"
    unfolding withdrawn_def deposit_rewritten_def by blast
  then show ?thesis using t tok_at_only_tokens [OF transferred_only_tokens] by simp
next
  case (burn c params w d d' h n charged)
  then show ?thesis using burn_executed_settled [OF burn] burn_settled_views(11) t by metis
qed (use t in simp)

section \<open>Safe slots\<close>

text \<open>The slot of a custody account: unused, the program's, or a token account held safely.\<close>

definition safe_slot :: "platform \<Rightarrow> ledger \<Rightarrow> pubkey \<Rightarrow> bool" where
  "safe_slot pf l k \<longleftrightarrow> fresh l k \<or> acc_owner (l k) = WALLET_PROGRAM_ID \<or>
     (\<exists>t. tok_at l k = Some t \<and> held_safely pf t)"

definition custody_slots_safe :: "platform \<Rightarrow> ledger \<Rightarrow> bool" where
  "custody_slots_safe pf l \<longleftrightarrow> (\<forall>mint c b.
     try_bumps pf [GATEWAY_WALLET_CUSTODY_SEED, mint] WALLET_PROGRAM_ID 255 = Some (c, b) \<longrightarrow> safe_slot pf l c)"

lemma held_safely_same: "held_safely pf t \<Longrightarrow> same_account_identity t t' \<Longrightarrow> held_safely pf t'"
  by (auto simp: held_safely_def same_account_identity_def)

lemma safe_slot_tok: "safe_slot pf l k \<Longrightarrow> tok_at l k = Some t \<Longrightarrow> held_safely pf t"
  by (auto simp: safe_slot_def fresh_def typed_def split: if_splits)

lemma safe_slot_touches:
  assumes "touches l K l'" "\<And>j. j \<in> K \<Longrightarrow> acc_owner (l' j) = WALLET_PROGRAM_ID \<or> fresh l' j"
    and tok: "\<And>t. tok_at l k = Some t \<Longrightarrow> \<exists>t'. tok_at l' k = Some t' \<and> same_account_identity t t'"
    and safe: "safe_slot pf l k"
  shows "safe_slot pf l' k"
proof (cases "k \<in> K")
  case True
  then show ?thesis using assms(2) by (auto simp: safe_slot_def)
next
  case False
  with assms(1) have "acc_owner (l' k) = acc_owner (l k)"
    "acc_owner (l k) \<noteq> TOKEN_PROGRAM_ID \<Longrightarrow> acc_data (l' k) = acc_data (l k)"
    by (auto simp: touches_def)
  note same = this
  from safe consider "fresh l k" | "acc_owner (l k) = WALLET_PROGRAM_ID"
    | t where "tok_at l k = Some t" "held_safely pf t"
    by (auto simp: safe_slot_def)
  then show ?thesis
  proof cases
    case 3
    with tok [OF 3(1)] held_safely_same show ?thesis unfolding safe_slot_def by blast
  qed (use same in \<open>auto simp: safe_slot_def fresh_def\<close>)
qed

lemma effect_footprint:
  assumes "wallet_effect pf tx l es l'"
  obtains (program) K where "touches l K l'" "\<And>j. j \<in> K \<Longrightarrow> acc_owner (l' j) = WALLET_PROGRAM_ID \<or> fresh l' j"
  | (custody) g cust mint l1 w' where "wallet_pda pf g"
      "token_initialised l cust mint g l1" "account_written l1 g as_wallet (WalletData w') l'"
  using assms
proof cases
  case (credit g src cust k sender depositor amount)
  then have "touches l {k} l'" "acc_owner (l' k) = WALLET_PROGRAM_ID"
    unfolding deposit_made_def credited_def by blast+
  then show thesis by (intro program [of "{k}"]) auto
next
  case (start g w depositor d k amount d' a t b)
  then have "touches l {k} l'" "acc_owner (l' k) = WALLET_PROGRAM_ID"
    by (auto simp: deposit_rewritten_def intro: untouched_touches)
  then show thesis by (intro program [of "{k}"]) auto
next
  case (pay_out g w depositor d cust k dst t)
  then obtain m where "touches l {k} m" "touches m {k} l'" "acc_owner (l' k) = WALLET_PROGRAM_ID"
    unfolding withdrawn_def deposit_rewritten_def
    by (blast intro: touches_only_tokens transferred_only_tokens untouched_touches)
  then show thesis by (intro program [of "{k}"]) (auto intro: touches_trans)
next
  case (burn c params w d d' h n charged)
  from burn_executed_settled [OF burn] obtain fa fw where "burn_settled l c h n charged d d' fa fw l'" .
  note v = burn_settled_views(5,8,10) [OF this]
  show thesis by (rule program [OF v(1)]) (use v(2,3) in auto)
next
  case (unban a k b g w)
  then show thesis by (intro program [of "{k}"]) (auto intro: untouched_touches)
next
  case administer
  then obtain k w' where "account_written l k as_wallet (WalletData w') l'"
    unfolding role_done_def wallet_updated_def by blast
  then show thesis
    by (intro program [of "{k}"]) (auto simp: written_def intro: untouched_touches)
next
  case (support g w mint cust b l1 w')
  have "wallet_pda pf g" using support(4) unfolding wallet_pda_def by blast
  then show thesis using support(6,8) by (rule custody)
qed (auto simp: written_def intro: program [OF untouched_touches])

lemma effect_safe_slot:
  assumes e: "wallet_effect pf tx l es l'" and safe: "safe_slot pf l k"
  shows "safe_slot pf l' k"
  using e
proof (cases rule: effect_footprint)
  case (program K)
  then show ?thesis by (rule safe_slot_touches [OF _ _ effect_tok [OF e] safe])
next
  case (custody g cust mint l1 w')
  have 1: "safe_slot pf l1 k"
  proof (cases "k = cust \<and> l1 \<noteq> l")
    case True
    then show ?thesis using custody(1,2) by (auto simp: token_initialised_def safe_slot_def held_safely_def)
  next
    case False
    then have "l1 = l \<or> untouched l {cust} l1 \<and> k \<noteq> cust" using custody(2) by (auto simp: token_initialised_def)
    then show ?thesis using safe by (auto simp: safe_slot_def untouched_def fresh_def typed_def)
  qed
  have "touches l1 {g} l'" "acc_owner (l' g) = WALLET_PROGRAM_ID"
    using custody(3) by (auto simp: written_def intro: untouched_touches)
  then show ?thesis
    using tok_written(1) [OF custody(3)] by (intro safe_slot_touches [OF _ _ _ 1]) auto
qed

lemma custody_slot_pda:
  "try_bumps pf [GATEWAY_WALLET_CUSTODY_SEED, mint] WALLET_PROGRAM_ID 255 = Some (c, b) \<Longrightarrow> wallet_pda pf c"
  using canonical_bump unfolding wallet_pda_def by blast

lemma env_safe_slot:
  assumes "wallet_env pf l l'" "wallet_pda pf k" "safe_slot pf l k"
  shows "safe_slot pf l' k"
proof -
  have "held_safely pf t'" if "held_safely pf t" "ta_owner t' = ta_owner t" "ta_delegate t' = None"
    "ta_close_authority t' = None" for t t'
    using that by (simp add: held_safely_def)
  moreover have "\<forall>k. wallet_pda pf k \<and> fresh l k \<longrightarrow> fresh l' k"
    "\<forall>k. acc_owner (l k) = WALLET_PROGRAM_ID \<longrightarrow> acc_owner (l' k) = WALLET_PROGRAM_ID \<or> fresh l' k"
    "\<forall>k t. tok_at l k = Some t \<and> held_safely pf t \<longrightarrow> (\<exists>t'. tok_at l' k = Some t' \<and> ta_mint t' = ta_mint t \<and>
        ta_owner t' = ta_owner t \<and> ta_delegate t' = None \<and> ta_close_authority t' = None \<and> ta_amount t \<le> ta_amount t')"
    using assms(1) by (simp_all add: wallet_env_def keeps_records_def)
  ultimately show ?thesis using assms(2,3) unfolding safe_slot_def by metis
qed

end
