(* ===== verification/WalletContracts.thy ===== *)
theory WalletContracts
  imports WalletInvariant Markers
begin

text \<open>
  The two contracts of Machine on the GatewayWallet program: a transfer spec hash is burned at most once
  (\<open>wallet_replay\<close>), and the ownership moves only by nomination and acceptance (\<open>wallet_ownership\<close>).
\<close>

section \<open>The markers of used transfer specs\<close>

abbreviation "wallet_marked \<equiv> marked WALLET_PROGRAM_ID WALLET_USED_MARKER"
abbreviation "wallet_hash_used \<equiv> hash_used WALLET_PROGRAM_ID WALLET_USED_MARKER"

fun burned_hash :: "WalletEvent \<Rightarrow> bytes option" where
  "burned_hash (GatewayBurned mint depositor h dd dr signer n fee fa fw) = Some h"
| "burned_hash _ = None"

lemma marked_rewritten: "deposit_rewritten l k d d' l' \<Longrightarrow> wallet_marked l j \<Longrightarrow> wallet_marked l' j"
  using marked_replaced [of l k l' WALLET_PROGRAM_ID as_deposit] unfolding deposit_rewritten_def
  by (simp add: untouched_touches)

lemma effect_marked:
  assumes "wallet_effect pf tx l es l'" and m: "wallet_marked l j"
  shows "wallet_marked l' j"
  using assms(1)
proof cases
  case (credit g src cust k sender depositor amount)
  then have "touches l {k} l'" "fresh l k \<or> deposit_at l k \<noteq> None"
    unfolding deposit_made_def credited_def by blast+
  from marked_replaced [OF this _ m] show ?thesis by simp
next
  case (start g w depositor d k amount d' a t b)
  show ?thesis by (rule marked_rewritten [OF start(6) m])
next
  case (pay_out g w depositor d cust k dst t)
  from \<open>withdrawn l k cust dst g d l'\<close> obtain l1 where moved: "only_tokens_moved l l1"
    and r: "deposit_rewritten l1 k d (d\<lparr> dep_withdrawing_amount := 0, dep_withdrawal_block := 0 \<rparr>) l'"
    unfolding withdrawn_def by (blast intro: transferred_only_tokens)
  show ?thesis by (rule marked_rewritten [OF r marked_only_tokens [OF moved _ m]]) simp
next
  case (burn c params w d d' h burn_amount charged)
  from burn_executed_settled [OF this] obtain fa fw
    where s: "burn_settled l c h burn_amount charged d d' fa fw l'" .
  note v = burn_settled_views [OF s]
  have "j \<noteq> h" using marked_not_fresh [OF m] v(6) by auto
  moreover have "j \<noteq> gb_deposit c" using marked_untyped [OF m, of as_deposit] v(2) by auto
  ultimately show ?thesis using marked_touches [OF v(5) _ _ m] by simp
next
  case (authorise depositor token delegate k b g)
  show ?thesis by (rule marked_written [OF authorise(5) _ m]) simp_all
next
  case (revoke depositor token delegate k b g g')
  show ?thesis by (rule marked_written [OF revoke(5) _ m]) simp_all
next
  case (ban a k b g w)
  show ?thesis by (rule marked_written [OF ban(5) _ m]) simp_all
next
  case (unban a k b g w)
  from marked_replaced [OF untouched_touches [OF unban(6)] _ _ m, of as_denylist] unban(5)
  show ?thesis by simp
next
  case administer
  then obtain k w' where "account_written l k as_wallet (WalletData w') l'"
    unfolding role_done_def wallet_updated_def by blast
  then show ?thesis by (rule marked_written [OF _ _ m]) simp_all
next
  case (create k b u pd delay w domain)
  show ?thesis by (rule marked_written [OF create(8) _ m]) simp_all
next
  case (support g w mint cust b l1 w')
  have "wallet_marked l1 j" using marked_token_initialised [OF support(6) m] by simp
  from marked_written [OF support(8) _ this] show ?thesis by simp
qed

text \<open>Which hash an instruction spends: none, or the one whose marker it makes.\<close>

lemma effect_spent:
  assumes "wallet_effect pf tx l es l'"
  shows "List.map_filter burned_hash es = [] \<or>
    (\<exists>h k b. List.map_filter burned_hash es = [h] \<and>
       try_bumps pf [USED_TRANSFER_SPEC_HASH_SEED_PREFIX, h] WALLET_PROGRAM_ID 255 = Some (k, b) \<and>
       fresh l k \<and> wallet_marked l' k)"
  using assms
proof cases
  case (burn c params w d d' k burn_amount charged)
  from burn_executed_settled [OF this] obtain fa fw
    where s: "burn_settled l c k burn_amount charged d d' fa fw l'" .
  note v = burn_settled_views [OF s]
  let ?h = "keccak256 pf (drop 160 (encoded_burn_data params))"
  have "List.map_filter burned_hash es = [?h]"
    using burn unfolding burn_executed_def Let_def
    by (elim conjE exE) (simp add: List.map_filter_def split: if_splits)
  moreover have "\<exists>b. try_bumps pf [USED_TRANSFER_SPEC_HASH_SEED_PREFIX, ?h] WALLET_PROGRAM_ID 255 = Some (k, b)"
    using burn unfolding burn_executed_def Let_def by blast
  ultimately show ?thesis using v(6,8,9) by (auto simp: marked_def)
next
  case administer
  then obtain role w w' e where "role_change role w w' e" "es = [e]" unfolding role_done_def by blast
  then show ?thesis by (cases rule: role_change.cases) (simp_all add: List.map_filter_def)
qed (auto simp: deposit_made_def List.map_filter_def)

lemma step_used:
  assumes "wallet_inv pf l" "wallet_step pf l es l'"
  shows "wallet_hash_used pf l h \<Longrightarrow> wallet_hash_used pf l' h"
  using assms(2)
proof cases
  case (wallet_call tx ix)
  then have "wallet_effect pf tx l es l'" using assms(1) by (auto simp: wallet_inv_def intro: wallet_dispatch_effect)
  then show "wallet_hash_used pf l h \<Longrightarrow> wallet_hash_used pf l' h" unfolding hash_used_def by (blast intro: effect_marked)
next
  case wallet_rest
  then show "wallet_hash_used pf l h \<Longrightarrow> wallet_hash_used pf l' h"
    unfolding wallet_env_def using keeps_records_used [OF _ idle_not_marker(1)] by blast
qed

lemma step_spent:
  assumes "wallet_inv pf l" "wallet_step pf l es l'"
  shows "List.map_filter burned_hash es = [] \<or>
    (\<exists>h. List.map_filter burned_hash es = [h] \<and> \<not> wallet_hash_used pf l h \<and> wallet_hash_used pf l' h)"
  using assms(2)
proof cases
  case (wallet_call tx ix)
  then have "wallet_effect pf tx l es l'" using assms(1) by (auto simp: wallet_inv_def intro: wallet_dispatch_effect)
  from effect_spent [OF this] show ?thesis
  proof (elim disjE exE conjE)
    fix h k b
    assume h: "List.map_filter burned_hash es = [h]" "fresh l k" "wallet_marked l' k"
      and k: "try_bumps pf [USED_TRANSFER_SPEC_HASH_SEED_PREFIX, h] WALLET_PROGRAM_ID 255 = Some (k, b)"
    from used_fresh [OF k h(2)] have "\<not> wallet_hash_used pf l h" by simp
    moreover have "wallet_hash_used pf l' h" unfolding hash_used_def using k h(3) by blast
    ultimately show ?thesis using h(1) by blast
  qed simp
qed (simp add: List.map_filter_def)

interpretation wallet_replay: replay_guard "wallet_step pf" "wallet_inv pf" "wallet_hash_used pf" burned_hash for pf
proof unfold_locales
  fix l es l' h
  assume step: "wallet_inv pf l" "wallet_step pf l es l'"
  show "wallet_hash_used pf l h \<Longrightarrow> wallet_hash_used pf l' h" by (rule step_used [OF step])
  show "distinct (List.map_filter burned_hash es)" using step_spent [OF step] by auto
  fix e
  assume "e \<in> set es" "burned_hash e = Some h"
  then have "h \<in> set (List.map_filter burned_hash es)" by (auto simp: spent_in)
  with step_spent [OF step] show "\<not> wallet_hash_used pf l h \<and> wallet_hash_used pf l' h" by auto
qed

section \<open>Ownership\<close>

definition wallet_ownership_of :: "platform \<Rightarrow> ledger \<Rightarrow> (pubkey \<times> pubkey) option" where
  "wallet_ownership_of pf l =
     (case try_bumps pf [GATEWAY_WALLET_SEED] WALLET_PROGRAM_ID 255 of
        None \<Rightarrow> None
      | Some (k, b) \<Rightarrow> map_option (\<lambda>w. (gw_owner w, gw_pending_owner w)) (wallet_at l k))"

lemma role_change_ownership:
  "role_change role w w' e \<Longrightarrow>
     ownership_run (gw_owner w, gw_pending_owner w) [ownership_kind e] = Some (gw_owner w', gw_pending_owner w')"
  by (auto elim!: role_change.cases simp: add_burn_signer_def remove_burn_signer_def
      split: if_splits option.splits)

lemma add_token_roles: "add_token w mint b = Inr w' \<Longrightarrow> gw_owner w' = gw_owner w \<and>
    gw_pending_owner w' = gw_pending_owner w"
  by (auto simp: add_token_def split: if_splits)

lemma wallets_change_ownership:
  assumes "wallets_change pf tx l es l'" and ok: "wallets_ok pf l" and x: "wallet_ownership_of pf l = Some x"
  shows "\<exists>y. wallet_ownership_of pf l' = Some y \<and> ownership_run x (map ownership_kind es) = Some y"
proof -
  from x obtain g b0 w0 where g: "try_bumps pf [GATEWAY_WALLET_SEED] WALLET_PROGRAM_ID 255 = Some (g, b0)"
    and w0: "wallet_at l g = Some w0" and x': "x = (gw_owner w0, gw_pending_owner w0)"
    by (auto simp: wallet_ownership_of_def split: option.splits)
  have own: "wallet_ownership_of pf m = map_option (\<lambda>w. (gw_owner w, gw_pending_owner w)) (wallet_at m g)" for m
    by (simp add: wallet_ownership_of_def g)
  have at: "k = g \<and> w = w0" if "wallet_at l k = Some w" for k w
    using wallets_okD [OF ok that] g w0 that by simp
  from assms(1) show ?thesis
  proof cases
    case wallets_same
    then show ?thesis by (simp add: own x' w0 ownership_run_other)
  next
    case (wallet_role k w role w' e)
    with at [OF wallet_role(2)] role_change_ownership [OF wallet_role(4)] show ?thesis by (simp add: own x')
  next
    case (wallet_created k b delay u domain)
    with g w0 show ?thesis by (simp add: fresh_typed)
  next
    case (wallet_token k w mint cust b w')
    with at [OF wallet_token(2)] add_token_roles [OF wallet_token(5)] show ?thesis by (simp add: own x')
  qed
qed

interpretation wallet_ownership:
  two_step_ownership "wallet_step pf" "wallet_inv pf" "wallet_ownership_of pf" ownership_kind for pf
proof unfold_locales
  fix l es l' x
  assume inv: "wallet_inv pf l" and step: "wallet_step pf l es l'" and x: "wallet_ownership_of pf l = Some x"
  from step show "\<exists>y. wallet_ownership_of pf l' = Some y \<and> ownership_run x (map ownership_kind es) = Some y"
  proof cases
    case (wallet_call tx ix)
    then have "wallet_effect pf tx l es l'" using inv by (auto simp: wallet_inv_def intro: wallet_dispatch_effect)
    from wallets_change_ownership [OF effect_wallets [OF this] _ x] inv show ?thesis
      by (simp add: wallet_inv_def wallet_wf_def)
  next
    case wallet_rest
    from wallet_rest(2) have "wallet_at l' = wallet_at l" by (rule env_views) simp
    have "wallet_ownership_of pf l' = Some x"
      using x unfolding wallet_ownership_of_def \<open>wallet_at l' = wallet_at l\<close> .
    with wallet_rest(1) show ?thesis by (intro exI [of _ x]) simp
  qed
qed

end
