(* ===== verification/Solvency.thy ===== *)
theory Solvency
  imports Custody WalletContracts
begin

text \<open>
  Solvency of the GatewayWallet: for every mint, the custody account holds at least the sum of all
  deposit balances (available and withdrawing).  The books of each effect, the invariant over runs, and
  its interpretation as a machine whose events stay within a set of accounts without address collisions.
\<close>

section \<open>Liabilities and custody\<close>

definition owed :: "pubkey \<Rightarrow> GatewayDeposit \<Rightarrow> nat" where
  "owed mint d = (if dep_token_mint d = mint then dep_total d else 0)"

definition liability :: "ledger \<Rightarrow> pubkey \<Rightarrow> nat" where
  "liability l mint = (\<Sum>k \<in> dom (deposit_at l). owed mint (the (deposit_at l k)))"

definition custody_balance :: "platform \<Rightarrow> ledger \<Rightarrow> pubkey \<Rightarrow> nat" where
  "custody_balance pf l mint =
     (case try_bumps pf [GATEWAY_WALLET_CUSTODY_SEED, mint] WALLET_PROGRAM_ID 255 of
        None \<Rightarrow> 0
      | Some (c, b) \<Rightarrow> (case tok_at l c of
            None \<Rightarrow> 0
          | Some t \<Rightarrow> if ta_mint t = mint then amount_at l c else 0))"

lemma custody_balance_at:
  "try_bumps pf [GATEWAY_WALLET_CUSTODY_SEED, mint] WALLET_PROGRAM_ID 255 = Some (c, b) \<Longrightarrow> tok_at l c = Some t \<Longrightarrow>
     custody_balance pf l mint = (if ta_mint t = mint then amount_at l c else 0)"
  by (simp add: custody_balance_def)

lemma custody_balance_cases:
  obtains "custody_balance pf l mint = 0"
  | c b t where "try_bumps pf [GATEWAY_WALLET_CUSTODY_SEED, mint] WALLET_PROGRAM_ID 255 = Some (c, b)"
      "tok_at l c = Some t" "ta_mint t = mint" "custody_balance pf l mint = amount_at l c"
  by (cases "custody_balance pf l mint = 0")
    (auto simp: custody_balance_def split: option.splits if_splits)

lemma liability_update:
  assumes fin: "finite (dom (deposit_at l))" and upd: "deposit_at l' = (deposit_at l)(k \<mapsto> d')"
  shows "liability l' mint + (case deposit_at l k of None \<Rightarrow> 0 | Some d \<Rightarrow> owed mint d)
    = liability l mint + owed mint d'"
proof -
  let ?D = "dom (deposit_at l)" and ?f = "\<lambda>l k. owed mint (the (deposit_at l k))"
  have "liability l' mint = sum (?f l') (insert k (?D - {k}))"
    by (simp add: liability_def upd insert_Diff_if)
  also have "\<dots> = ?f l' k + sum (?f l') (?D - {k})"
    using fin by (subst sum.insert) auto
  also have "sum (?f l') (?D - {k}) = sum (?f l) (?D - {k})"
    by (rule sum.cong) (auto simp: upd)
  also have "?f l' k = owed mint d'" by (simp add: upd)
  finally have l': "liability l' mint = owed mint d' + sum (?f l) (?D - {k})" .
  show ?thesis
  proof (cases "deposit_at l k")
    case None
    then have "?D - {k} = ?D" by auto
    with l' None show ?thesis by (simp add: liability_def)
  next
    case (Some d)
    then have "liability l mint = owed mint d + sum (?f l) (?D - {k})"
      unfolding liability_def using fin by (subst sum.remove [of _ k]) auto
    with l' Some show ?thesis by simp
  qed
qed

section \<open>Accounts without address collisions\<close>

fun booked_pair :: "WalletEvent \<Rightarrow> (pubkey \<times> pubkey) option" where
  "booked_pair (Deposited mint depositor sender n) = Some (mint, depositor)"
| "booked_pair (GatewayBurned mint depositor h dd dr signer n fee fa fw) = Some (mint, depositor)"
| "booked_pair _ = None"

definition books_within :: "(pubkey \<times> pubkey) set \<Rightarrow> WalletEvent list \<Rightarrow> bool" where
  "books_within P es \<longleftrightarrow> (\<forall>e \<in> set es. \<forall>p. booked_pair e = Some p \<longrightarrow> p \<in> P)"

definition records_within :: "(pubkey \<times> pubkey) set \<Rightarrow> ledger \<Rightarrow> bool" where
  "records_within P l \<longleftrightarrow> (\<forall>k d. deposit_at l k = Some d \<longrightarrow> (dep_token_mint d, dep_depositor d) \<in> P)"

definition no_deposit_collision :: "platform \<Rightarrow> (pubkey \<times> pubkey) set \<Rightarrow> bool" where
  "no_deposit_collision pf P \<longleftrightarrow> (\<forall>(m, d) \<in> P. \<forall>(m', d') \<in> P. \<forall>b b' k.
     create_program_address pf [GATEWAY_DEPOSIT_SEED, m, d, [b]] WALLET_PROGRAM_ID = Inr k \<longrightarrow>
     create_program_address pf [GATEWAY_DEPOSIT_SEED, m', d', [b']] WALLET_PROGRAM_ID = Inr k \<longrightarrow>
     m = m' \<and> d = d')"

lemma deposit_known:
  assumes "no_deposit_collision pf P" "deposits_ok pf l" "records_within P l" "deposit_at l k = Some d"
    "(mint, depositor) \<in> P"
    "create_program_address pf [GATEWAY_DEPOSIT_SEED, mint, depositor, [b]] WALLET_PROGRAM_ID = Inr k"
  shows "dep_token_mint d = mint" "dep_depositor d = depositor"
proof -
  have "create_program_address pf [GATEWAY_DEPOSIT_SEED, dep_token_mint d, dep_depositor d, [dep_bump d]]
      WALLET_PROGRAM_ID = Inr k"
    using canonical_bump [OF deposits_okD [OF assms(2,4)]] by simp
  moreover have "(dep_token_mint d, dep_depositor d) \<in> P" using assms(3,4) by (simp add: records_within_def)
  ultimately show "dep_token_mint d = mint" "dep_depositor d = depositor"
    using assms(1,5,6) unfolding no_deposit_collision_def by blast+
qed

section \<open>The books of an effect\<close>

definition no_loss :: "platform \<Rightarrow> pubkey set \<Rightarrow> ledger \<Rightarrow> ledger \<Rightarrow> bool" where
  "no_loss pf K l l' \<longleftrightarrow> (\<forall>j t. j \<notin> K \<longrightarrow> tok_at l j = Some t \<longrightarrow> held_safely pf t \<longrightarrow> amount_at l j \<le> amount_at l' j)"

text \<open>
  A deposit record changes its amounts against the custody account of its mint: what it gains came in,
  and what went out it lost.
\<close>

definition booked :: "platform \<Rightarrow> ledger \<Rightarrow> pubkey \<Rightarrow> GatewayDeposit \<Rightarrow> pubkey \<Rightarrow> ledger \<Rightarrow> bool" where
  "booked pf l k d' c l' \<longleftrightarrow> deposit_at l' = (deposit_at l)(k \<mapsto> d') \<and>
     (\<forall>d. deposit_at l k = Some d \<longrightarrow> dep_token_mint d = dep_token_mint d') \<and>
     (\<exists>b. try_bumps pf [GATEWAY_WALLET_CUSTODY_SEED, dep_token_mint d'] WALLET_PROGRAM_ID 255 = Some (c, b)) \<and>
     (\<exists>t. tok_at l c = Some t \<and> ta_mint t = dep_token_mint d') \<and> no_loss pf {c} l l' \<and>
     amount_at l c + dep_total d' \<le> amount_at l' c + (case deposit_at l k of None \<Rightarrow> 0 | Some d \<Rightarrow> dep_total d)"

inductive funds_change :: "platform \<Rightarrow> ledger \<Rightarrow> ledger \<Rightarrow> bool" for pf l l' where
  books_same: "deposit_at l' = deposit_at l \<Longrightarrow> no_loss pf {} l l' \<Longrightarrow> funds_change pf l l'"
| books_moved: "deposit_at l k = Some d \<Longrightarrow> same_deposit_owner d d' \<Longrightarrow> dep_total d' = dep_total d \<Longrightarrow>
    deposit_at l' = (deposit_at l)(k \<mapsto> d') \<Longrightarrow> no_loss pf {} l l' \<Longrightarrow> funds_change pf l l'"
| books_booked: "booked pf l k d' c l' \<Longrightarrow> funds_change pf l l'"

lemma custody_canonical:
  assumes "wallets_ok pf l" "wallet_running pf l g w" "custody_of pf l g w mint c"
  shows "\<exists>b. try_bumps pf [GATEWAY_WALLET_CUSTODY_SEED, mint] WALLET_PROGRAM_ID 255 = Some (c, b)"
    and "\<exists>t. tok_at l c = Some t \<and> ta_mint t = mint \<and> ta_owner t = g" and "wallet_pda pf g"
    and "\<exists>t. tok_at l c = Some t \<and> ta_mint t = mint"
proof -
  have w: "wallet_ok pf w" using wallets_okD [OF assms(1)] assms(2) by (auto simp: wallet_running_def)
  from assms(3) obtain b where b: "get_custody_token_account_bump w mint = Inr b"
    "create_program_address pf [GATEWAY_WALLET_CUSTODY_SEED, mint, [b]] WALLET_PROGRAM_ID = Inr c"
    by (auto simp: custody_of_def)
  from w b(1) obtain c' where
    c': "try_bumps pf [GATEWAY_WALLET_CUSTODY_SEED, mint] WALLET_PROGRAM_ID 255 = Some (c', b)"
    unfolding wallet_ok_def by blast
  from canonical_bump [OF c'] b(2) have "c' = c" by simp
  with c' show "\<exists>b. try_bumps pf [GATEWAY_WALLET_CUSTODY_SEED, mint] WALLET_PROGRAM_ID 255 = Some (c, b)" by blast
  show "\<exists>t. tok_at l c = Some t \<and> ta_mint t = mint \<and> ta_owner t = g" using assms(3) by (simp add: custody_of_def)
  then show "\<exists>t. tok_at l c = Some t \<and> ta_mint t = mint" by blast
  show "wallet_pda pf g" using assms(2) unfolding wallet_running_def wallet_pda_def by blast
qed

text \<open>What users sign for is never an account held by the program.\<close>

lemma no_loss_transferred:
  assumes tr: "transferred l src dst a n l'" "tok_at l src = Some s" "\<not> wallet_pda pf (ta_owner s)"
  shows "no_loss pf {} l l'"
  unfolding no_loss_def
proof (intro allI impI)
  fix j t
  assume "tok_at l j = Some t" "held_safely pf t"
  with assms(2,3) have "j \<noteq> src" by (auto simp: held_safely_def)
  then show "amount_at l j \<le> amount_at l' j"
    using transferred_amounts(2,3,4) [OF tr(1)] by (cases "j = dst"; cases "src = dst") (auto simp: eq_refl)
qed

lemma no_loss_mono: "no_loss pf {} l l' \<Longrightarrow> no_loss pf K l l'"
  by (simp add: no_loss_def)

lemma not_user_key: "signed_by_users pf tx \<Longrightarrow> k \<in> set (tx_signers tx) \<Longrightarrow> \<not> wallet_pda pf k"
  by (simp add: signed_by_users_def)

lemma booked_credit:
  assumes users: "signed_by_users pf tx" and wf: "wallet_wf pf l"
    and P: "no_deposit_collision pf P" "records_within P l" "books_within P es"
    and made: "deposit_made pf tx l g src cust k sender depositor amount es l'"
  shows "\<exists>d'. booked pf l k d' cust l' \<and> (dep_token_mint d', dep_depositor d') \<in> P"
proof -
  from made obtain w mint bump d s where run: "wallet_running pf l g w" and cust: "custody_of pf l g w mint cust"
    and sender: "sender \<in> set (tx_signers tx)" and s: "tok_at l src = Some s" "ta_owner s = sender"
    and k: "try_bumps pf [GATEWAY_DEPOSIT_SEED, mint, depositor] WALLET_PROGRAM_ID 255 = Some (k, bump)"
    and c: "credited l k src cust sender amount (deposit_before l k bump depositor mint) d l'"
    and es: "es = [Deposited mint depositor sender amount]"
    unfolding deposit_made_def by blast
  have ok: "wallets_ok pf l" "deposits_ok pf l" using wf by (simp_all add: wallet_wf_def)
  note cc = custody_canonical [OF ok(1) run cust]
  have pair: "(mint, depositor) \<in> P" using P(3) es by (simp add: books_within_def)
  from c obtain l1 l2 where same: "amount_at l1 = amount_at l" "tok_at l1 = tok_at l"
    and tr: "transferred l1 src cust sender amount l2" and l2: "amount_at l' = amount_at l2"
    and upd: "deposit_at l' = (deposit_at l)(k \<mapsto> d)"
    and d: "d = (deposit_before l k bump depositor mint)
        \<lparr> dep_available_amount := dep_available_amount (deposit_before l k bump depositor mint) + amount \<rparr>"
    and bound: "unat (dep_available_amount (deposit_before l k bump depositor mint)) + unat amount < 2 ^ 64"
    unfolding credited_def by blast
  have user: "\<not> wallet_pda pf (ta_owner s)" using not_user_key [OF users sender] s(2) by simp
  then have ne: "src \<noteq> cust" using s cc(2,3) by auto
  have loss: "no_loss pf {} l l'"
    using no_loss_transferred [OF tr _ user] s(1) by (simp add: no_loss_def same l2)
  have total: "dep_total d = dep_total (deposit_before l k bump depositor mint) + unat amount"
    using bound by (simp add: d dep_total_def unat_add_u64)
  have known: "deposit_at l k = Some d0 \<Longrightarrow> deposit_before l k bump depositor mint = d0 \<and>
      dep_token_mint d0 = mint \<and> dep_depositor d0 = depositor" for d0
    using deposit_known [OF P(1) ok(2) P(2) _ pair] canonical_bump [OF k] deposit_before_known [OF ok(2)] by auto
  have m: "dep_token_mint d = mint" "dep_depositor d = depositor"
    using known by (cases "deposit_at l k"; simp add: d deposit_before_new)+
  have "(case deposit_at l k of None \<Rightarrow> 0 | Some d \<Rightarrow> dep_total d) = dep_total (deposit_before l k bump depositor mint)"
    using known by (cases "deposit_at l k") (simp_all add: deposit_before_new dep_total_def)
  then have "booked pf l k d cust l'"
    unfolding booked_def m using upd known cc(1,2) no_loss_mono [OF loss] total transferred_amounts(2) [OF tr ne]
    by (auto simp: same l2)
  with pair m show ?thesis by metis
qed

lemma booked_pay_out:
  assumes users: "signed_by_users pf tx" and wf: "wallet_wf pf l"
    and run: "wallet_running pf l g w" and depositor: "depositor \<in> set (tx_signers tx)"
    and cust: "custody_of pf l g w (dep_token_mint d) cust" and d: "deposit_at l k = Some d"
    and dst: "tok_at l dst = Some u" "ta_owner u = depositor" and out: "withdrawn l k cust dst g d l'"
  shows "booked pf l k (d\<lparr> dep_withdrawing_amount := 0, dep_withdrawal_block := 0 \<rparr>) cust l'"
proof -
  have "wallets_ok pf l" using wf by (simp add: wallet_wf_def)
  note cc = custody_canonical [OF this run cust]
  have ne: "cust \<noteq> dst" using not_user_key [OF users depositor] dst cc(2,3) by auto
  from out obtain m where tr: "transferred l cust dst g (dep_withdrawing_amount d) m" and m: "amount_at l' = amount_at m"
    unfolding withdrawn_def deposit_rewritten_def by blast
  note a = transferred_amounts(1-3) [OF tr]
  have "no_loss pf {cust} l l'"
    unfolding no_loss_def m using a(2) [OF ne] a(3) ne by (metis le_add1 order_refl singletonI)
  moreover have "amount_at l cust + dep_total (d\<lparr> dep_withdrawing_amount := 0, dep_withdrawal_block := 0 \<rparr>)
      \<le> amount_at l' cust + dep_total d"
    using a(1) [OF ne] by (simp add: m dep_total_def)
  ultimately show ?thesis
    unfolding booked_def using withdrawn_views(4) [OF out] cc(1,4) d by simp
qed

lemma burn_executed_event:
  assumes "burn_executed pf tx c params l w d d' hk n charged es l'"
  shows "\<exists>h dd dr signer fa fw. GatewayBurned (gb_token_mint c) (dep_depositor d) h dd dr signer n charged fa fw \<in> set es"
proof -
  from assms obtain pre h dd dr signer fa fw where
    "es = pre @ [GatewayBurned (gb_token_mint c) (dep_depositor d) h dd dr signer n charged fa fw]"
    unfolding burn_executed_def Let_def by blast
  then show ?thesis by fastforce
qed

lemma booked_burn:
  assumes wf: "wallet_wf pf l" and P: "no_deposit_collision pf P" "records_within P l" "books_within P es"
    and ex: "burn_executed pf tx c params l w d d' h n charged es l'"
  shows "booked pf l (gb_deposit c) d' (gb_custody_token_account c) l'"
proof -
  have ok: "wallets_ok pf l" "deposits_ok pf l" using wf by (simp_all add: wallet_wf_def)
  have run: "wallet_running pf l (gb_gateway_wallet c) w"
    and cust: "custody_of pf l (gb_gateway_wallet c) w (gb_token_mint c) (gb_custody_token_account c)"
    and k: "create_program_address pf [GATEWAY_DEPOSIT_SEED, gb_token_mint c, dep_depositor d, [dep_bump d]]
       WALLET_PROGRAM_ID = Inr (gb_deposit c)"
    using ex unfolding burn_executed_def Let_def by blast+
  have pair: "(gb_token_mint c, dep_depositor d) \<in> P"
    using burn_executed_event [OF ex] P(3) by (force simp: books_within_def)
  note cc = custody_canonical [OF ok(1) run cust]
  from burn_executed_settled [OF ex] obtain n' fa fw where red: "reduce_balance d n' = Inr (d', fa, fw)"
    and s: "burn_settled l c h n charged d d' fa fw l'" by blast
  note v = burn_settled_views(1,2) [OF s] and a = burn_settled_amounts [OF s]
  have m: "dep_token_mint d = gb_token_mint c" by (rule deposit_known [OF P(1) ok(2) P(2) v(2) pair k])
  have "dep_token_mint d' = gb_token_mint c"
    using reduce_balance_amounts(6) [OF red] m by (simp add: same_deposit_owner_def)
  moreover have "no_loss pf {gb_custody_token_account c} l l'" using a(3) by (simp add: no_loss_def)
  moreover have "amount_at l (gb_custody_token_account c) + dep_total d' \<le>
      amount_at l' (gb_custody_token_account c) + dep_total d"
    using a(1) reduce_balance_total(2) [OF red] by linarith
  ultimately show ?thesis unfolding booked_def using v cc(1,4) m by simp
qed

lemma moved_start: "deposit_initiate_withdrawal slot d amount delay w mint = Inr (d', r) \<Longrightarrow>
    dep_total d' = dep_total d \<and> same_deposit_owner d d'"
  by (cases r) (use initiate_withdrawal_amounts [of slot d amount delay w mint d'] in \<open>auto simp: dep_total_def\<close>)

lemma records_within_update: "records_within P l \<Longrightarrow> deposit_at l' = (deposit_at l)(k \<mapsto> d') \<Longrightarrow>
    (dep_token_mint d', dep_depositor d') \<in> P \<Longrightarrow> records_within P l'"
  by (simp add: records_within_def)

lemma records_within_same: "records_within P l \<Longrightarrow> deposit_at l k = Some d \<Longrightarrow> same_deposit_owner d d' \<Longrightarrow>
    deposit_at l' = (deposit_at l)(k \<mapsto> d') \<Longrightarrow> records_within P l'"
  by (rule records_within_update) (auto simp: records_within_def same_deposit_owner_def)

lemma no_loss_still: "(\<And>j t. tok_at l j = Some t \<Longrightarrow> amount_at l' j = amount_at l j) \<Longrightarrow> no_loss pf {} l l'"
  by (simp add: no_loss_def)

text \<open>Every effect leaves the books in one of the three ways.\<close>

lemma effect_funds:
  assumes users: "signed_by_users pf tx" and wf: "wallet_wf pf l"
    and P: "no_deposit_collision pf P" "records_within P l" "books_within P es"
    and e: "wallet_effect pf tx l es l'"
  shows "funds_change pf l l' \<and> records_within P l'"
  using e
proof cases
  case (credit g src cust k sender depositor amount)
  from booked_credit [OF users wf P credit] obtain d' where b: "booked pf l k d' cust l'"
    "(dep_token_mint d', dep_depositor d') \<in> P" by blast
  then have "deposit_at l' = (deposit_at l)(k \<mapsto> d')" by (simp add: booked_def)
  from records_within_update [OF P(2) this b(2)] books_booked [OF b(1)] show ?thesis by simp
next
  case (pay_out g w depositor d cust k dst t)
  note b = booked_pay_out [OF users wf pay_out(2,3,4,5,7,8,11)]
  have "same_deposit_owner d (d\<lparr> dep_withdrawing_amount := 0, dep_withdrawal_block := 0 \<rparr>)"
    by (simp add: same_deposit_owner_def)
  from records_within_same [OF P(2) pay_out(5) this] books_booked [OF b] b show ?thesis by (simp add: booked_def)
next
  case (burn c params w d d' h n charged)
  from burn_executed_settled [OF burn] obtain n' fa fw where r: "reduce_balance d n' = Inr (d', fa, fw)"
    and s: "burn_settled l c h n charged d d' fa fw l'" by blast
  note b = booked_burn [OF wf P burn]
  from records_within_same [OF P(2) burn_settled_views(2) [OF s] reduce_balance_amounts(6) [OF r]
      burn_settled_views(1) [OF s]] books_booked [OF b] show ?thesis by simp
next
  case (start g w depositor d k amount d' a t b)
  note m = moved_start [OF start(5)]
  have r: "deposit_at l k = Some d" "deposit_at l' = (deposit_at l)(k \<mapsto> d')" "amount_at l' = amount_at l"
    using start(6) by (simp_all add: deposit_rewritten_def)
  have "funds_change pf l l'"
    by (rule books_moved [OF r(1) _ _ r(2)]) (use m r(3) in \<open>auto intro: no_loss_still\<close>)
  then show ?thesis using records_within_same [OF P(2) r(1) _ r(2)] m by simp
next
  case (unban a k b g w)
  note t = tok_untouched(2) [OF unban(6) tok_not_written, of as_denylist]
  show ?thesis using P(2) closed_views(2) [OF unban(6,7,5)] t unban(5)
    by (auto simp: records_within_def intro!: books_same no_loss_still)
next
  case (support g w mint cust b l1 w')
  have "amount_at l' j = amount_at l j" if "tok_at l j = Some t" for j t
    using tok_initialised [OF support(6) that] tok_written(2) [OF support(8), of j t] by simp
  with P(2) support_views(2) [OF support(6,8)] show ?thesis
    by (auto simp: records_within_def intro!: books_same no_loss_still)
next
  case administer
  then obtain k w' where w: "account_written l k as_wallet (WalletData w') l'"
    unfolding role_done_def wallet_updated_def by blast
  with P(2) written_views(1) [OF w] show ?thesis
    by (auto simp: records_within_def intro!: books_same no_loss_still tok_written(2) [OF w])
qed (use P(2) in \<open>auto simp: records_within_def intro!: books_same no_loss_still
      intro: tok_written(2) dest: written_views\<close>)

section \<open>The invariant\<close>

definition solvent :: "platform \<Rightarrow> ledger \<Rightarrow> bool" where
  "solvent pf l \<longleftrightarrow> (\<forall>mint. liability l mint \<le> custody_balance pf l mint)"

definition solvency_inv :: "platform \<Rightarrow> (pubkey \<times> pubkey) set \<Rightarrow> ledger \<Rightarrow> bool" where
  "solvency_inv pf P l \<longleftrightarrow> wallet_inv pf l \<and> no_deposit_collision pf P \<and> records_within P l \<and>
     custody_slots_safe pf l \<and> finite (dom (deposit_at l)) \<and> solvent pf l"

text \<open>Custody without a loss: the balance does not fall.\<close>

lemma custody_balance_kept:
  assumes slots: "custody_slots_safe pf l" and loss: "no_loss pf K l l'"
    and tok: "\<And>j t. tok_at l j = Some t \<Longrightarrow> held_safely pf t \<Longrightarrow> \<exists>t'. tok_at l' j = Some t' \<and> ta_mint t' = ta_mint t"
    and K: "\<And>c b. try_bumps pf [GATEWAY_WALLET_CUSTODY_SEED, mint] WALLET_PROGRAM_ID 255 = Some (c, b) \<Longrightarrow> c \<notin> K"
  shows "custody_balance pf l mint \<le> custody_balance pf l' mint"
proof (cases rule: custody_balance_cases [of pf l mint])
  case (2 c b t)
  have "safe_slot pf l c" using slots 2(1) unfolding custody_slots_safe_def by blast
  then have held: "held_safely pf t" using 2(2) by (rule safe_slot_tok)
  from tok [OF 2(2) held] obtain t' where "tok_at l' c = Some t'" "ta_mint t' = mint" using 2(3) by auto
  moreover have "amount_at l c \<le> amount_at l' c"
    using loss K [OF 2(1)] 2(2) held by (simp add: no_loss_def)
  ultimately show ?thesis using 2(1,4) by (simp add: custody_balance_at)
qed simp

lemma funds_solvent:
  assumes f: "funds_change pf l l'" and slots: "custody_slots_safe pf l" and sol: "solvent pf l"
    and fin: "finite (dom (deposit_at l))"
    and tok: "\<And>j t. tok_at l j = Some t \<Longrightarrow> held_safely pf t \<Longrightarrow> \<exists>t'. tok_at l' j = Some t' \<and> ta_mint t' = ta_mint t"
  shows "solvent pf l' \<and> finite (dom (deposit_at l'))"
  using f
proof cases
  case books_same
  have "custody_balance pf l mint \<le> custody_balance pf l' mint" for mint
    by (rule custody_balance_kept [OF slots books_same(2) tok]) simp_all
  with books_same(1) sol fin show ?thesis by (simp add: solvent_def liability_def) (meson le_trans)
next
  case (books_moved k d d')
  have "custody_balance pf l mint \<le> custody_balance pf l' mint" for mint
    by (rule custody_balance_kept [OF slots books_moved(5) tok]) simp_all
  moreover have "liability l' mint = liability l mint" for mint
    using liability_update [OF fin books_moved(4), of mint] books_moved(1,2,3)
    by (simp add: owed_def same_deposit_owner_def split: if_splits)
  ultimately show ?thesis using sol fin books_moved(4) by (simp add: solvent_def) (meson le_trans)
next
  case (books_booked k d' c)
  then obtain b t where upd: "deposit_at l' = (deposit_at l)(k \<mapsto> d')"
    and old: "\<And>d. deposit_at l k = Some d \<Longrightarrow> dep_token_mint d = dep_token_mint d'"
    and c: "try_bumps pf [GATEWAY_WALLET_CUSTODY_SEED, dep_token_mint d'] WALLET_PROGRAM_ID 255 = Some (c, b)"
    and t: "tok_at l c = Some t" "ta_mint t = dep_token_mint d'" and loss: "no_loss pf {c} l l'"
    and amount: "amount_at l c + dep_total d' \<le> amount_at l' c + (case deposit_at l k of None \<Rightarrow> 0 | Some d \<Rightarrow> dep_total d)"
    unfolding booked_def by blast
  have "safe_slot pf l c" using slots c unfolding custody_slots_safe_def by blast
  then have held: "held_safely pf t" using t(1) by (rule safe_slot_tok)
  from tok [OF t(1) held] t(2) obtain t' where t': "tok_at l' c = Some t'" "ta_mint t' = dep_token_mint d'" by auto
  have "liability l' mint \<le> custody_balance pf l' mint" for mint
  proof (cases "mint = dep_token_mint d'")
    case True
    have "liability l' mint + (case deposit_at l k of None \<Rightarrow> 0 | Some d \<Rightarrow> dep_total d) = liability l mint + dep_total d'"
      using liability_update [OF fin upd, of mint] old True by (cases "deposit_at l k") (auto simp: owed_def)
    moreover have "liability l mint \<le> amount_at l c"
      using sol c t True by (auto simp: solvent_def custody_balance_at dest: spec [of _ mint])
    ultimately show ?thesis using amount c t' True by (simp add: custody_balance_at)
  next
    case False
    then have same: "liability l' mint = liability l mint"
      using liability_update [OF fin upd, of mint] old by (cases "deposit_at l k") (auto simp: owed_def)
    show ?thesis
    proof (cases "\<exists>b. try_bumps pf [GATEWAY_WALLET_CUSTODY_SEED, mint] WALLET_PROGRAM_ID 255 = Some (c, b)")
      case True
      then have "custody_balance pf l mint = 0" using t False by (auto simp: custody_balance_at)
      with sol same show ?thesis by (simp add: solvent_def) (metis le_0_eq le0)
    next
      case no: False
      have "custody_balance pf l mint \<le> custody_balance pf l' mint"
        by (rule custody_balance_kept [OF slots loss tok]) (use no in auto)
      with sol same show ?thesis by (simp add: solvent_def) (meson le_trans)
    qed
  qed
  with fin upd show ?thesis by (simp add: solvent_def)
qed

lemma env_funds:
  assumes env: "wallet_env pf l l'"
  shows "funds_change pf l l'"
    and "tok_at l j = Some t \<Longrightarrow> held_safely pf t \<Longrightarrow> \<exists>t'. tok_at l' j = Some t' \<and> ta_mint t' = ta_mint t"
proof -
  have kept: "\<exists>t'. tok_at l' j = Some t' \<and> ta_mint t' = ta_mint t \<and> ta_amount t \<le> ta_amount t'"
    if "tok_at l j = Some t" "held_safely pf t" for j t
    using env that unfolding wallet_env_def by blast
  have "no_loss pf {} l l'"
    unfolding no_loss_def using kept amount_at_tok by (metis u64_le_iff)
  with env_views [OF env, of as_deposit] show "funds_change pf l l'" by (intro books_same) simp_all
  show "tok_at l j = Some t \<Longrightarrow> held_safely pf t \<Longrightarrow> \<exists>t'. tok_at l' j = Some t' \<and> ta_mint t' = ta_mint t"
    using kept by blast
qed

abbreviation "wallet_step_within pf P \<equiv> \<lambda>l es l'. wallet_step pf l es l' \<and> books_within P es"

interpretation solvency: machine "wallet_step_within pf P" "solvency_inv pf P" for pf P
proof unfold_locales
  fix l es l'
  assume inv: "solvency_inv pf P l" and step: "wallet_step_within pf P l es l'"
  then have w: "wallet_inv pf l" "wallet_inv pf l'"
    using wallet_machine.inv_step by (auto simp: solvency_inv_def)
  from inv have i: "no_deposit_collision pf P" "records_within P l" "custody_slots_safe pf l"
    "finite (dom (deposit_at l))" "solvent pf l" by (simp_all add: solvency_inv_def)
  from step have "wallet_step pf l es l'" by simp
  then have "funds_change pf l l' \<and> records_within P l' \<and> custody_slots_safe pf l' \<and>
    (\<forall>j t. tok_at l j = Some t \<longrightarrow> held_safely pf t \<longrightarrow> (\<exists>t'. tok_at l' j = Some t' \<and> ta_mint t' = ta_mint t))"
  proof cases
    case (wallet_call tx ix)
    then have e: "wallet_effect pf tx l es l'" using w(1) by (auto simp: wallet_inv_def intro: wallet_dispatch_effect)
    have "funds_change pf l l' \<and> records_within P l'"
      using effect_funds [OF wallet_call(1) _ i(1,2) _ e] w(1) step by (simp add: wallet_inv_def)
    then show ?thesis
      using effect_safe_slot [OF e] effect_tok [OF e] i(3)
      unfolding custody_slots_safe_def same_account_identity_def by metis
  next
    case wallet_rest
    then show ?thesis
      using env_funds [OF wallet_rest(2)] env_safe_slot [OF wallet_rest(2) custody_slot_pda] i(2,3)
        env_views [OF wallet_rest(2), of as_deposit]
      unfolding custody_slots_safe_def records_within_def by auto
  qed
  then show "solvency_inv pf P l'"
    using funds_solvent [OF _ i(3,5,4)] i(1) w(2) by (auto simp: solvency_inv_def)
qed

lemma solvency_run:
  assumes run: "wallet_run pf l es l'" and books: "books_within P es" and inv: "solvency_inv pf P l"
  shows "solvency_inv pf P l'"
proof -
  have "machine_run (wallet_step_within pf P) l es l'"
    by (rule run_restrict [OF run]) (use books in \<open>auto simp: books_within_def\<close>)
  from solvency.inv_run [OF this inv] show ?thesis .
qed

end
