(* ===== verification/WalletSafety.thy ===== *)
theory WalletSafety
  imports Samples Solvency
begin

text \<open>
  What every history of the GatewayWallet program guarantees: the accounts stay well formed, no transfer
  spec is burned twice, ownership follows nomination and acceptance, every change of the wallet state
  or of a delegate record carries the signature of the role it belongs to, and custody stays solvent.
\<close>

section \<open>The sample world\<close>

lemma sample_views: "wallet_at sample_ledger = [W_KEY \<mapsto> sample_wallet]"
  "deposit_at sample_ledger = [DEPOSIT_KEY \<mapsto> sample_alice_deposit]" "delegate_at sample_ledger = Map.empty"
  by (auto simp: fun_eq_iff typed_def sample_ledger_def holding_def empty_account_def)

lemma sample_wf: "wallet_wf sample_platform sample_ledger"
proof -
  have bump: "get_custody_token_account_bump sample_wallet t = Inr b \<Longrightarrow> t = MINT_KEY \<and> b = 255" for t b
    by (auto simp: sample_wallet_def get_custody_token_account_bump_def get_token_index_def index_checked_def
        split: if_splits)
  have "try_bumps sample_platform [GATEWAY_WALLET_CUSTODY_SEED, t] WALLET_PROGRAM_ID 255 = Some (CUSTODY_KEY, b)"
    if "get_custody_token_account_bump sample_wallet t = Inr b" for t b
    using bump [OF that] by simp
  moreover have "tokens_aligned sample_wallet" "well_formed_registry MAX_BURN_SIGNERS (gw_burn_signers sample_wallet)"
    by (simp_all add: sample_wallet_def tokens_aligned_def well_formed_registry_def MAX_BURN_SIGNERS_def
        WalletTypes.MAX_SUPPORTED_TOKENS_def)
  ultimately have "wallet_ok sample_platform sample_wallet" by (auto simp: wallet_ok_def)
  then show ?thesis
    by (auto simp: wallet_wf_def wallets_ok_def deposits_ok_def delegates_ok_def sample_views)
qed

lemma sample_inv: "wallet_inv sample_platform sample_ledger"
  by (simp add: wallet_inv_def sample_platform_ok sample_wf)

lemma sample_user_key: "\<not> wallet_pda sample_platform (key n)"
proof -
  have "sample_curve (key n)" by (simp add: sample_curve_def key_def)
  then show ?thesis
    unfolding wallet_pda_def sample_create_address by (auto simp: Let_def split: if_splits)
qed

lemma sample_users: "set (tx_signers tx) \<subseteq> range key \<Longrightarrow> signed_by_users sample_platform tx"
  using sample_user_key by (auto simp: signed_by_users_def)

lemma sample_burn_step:
  "\<exists>es l'. wallet_run sample_platform sample_ledger es l' \<and> burned_hash (last es) = Some sample_spec_hash \<and> es \<noteq> []"
proof -
  obtain l' es where run:
    "gateway_burn sample_platform sample_burn_tx sample_burn_ctx sample_burn_params sample_ledger = Inr (l', es)"
    using sample_burn_runs by blast
  have fits: "length (encoded_burn_data sample_burn_params) < 2 ^ 64"
    using sample_burn_data_facts(1) by (simp add: sample_burn_params_def)
  have "signed_by_users sample_platform sample_burn_tx"
    by (rule sample_users) (simp add: sample_burn_tx_def sample_burn_call_def ALICE_def)
  then have "wallet_step sample_platform sample_ledger es l'"
    by (rule wallet_call [of _ _ "IxGatewayBurn sample_burn_ctx sample_burn_params"]) (use fits run in simp_all)
  moreover have "burned_hash (last es) = Some sample_spec_hash \<and> es \<noteq> []"
    using gateway_burn_effect [OF sample_platform_ok fits run]
    unfolding burn_executed_def Let_def
    by (auto simp: sample_burn_params_def sample_spec_hash_def sample_platform_def)
  ultimately show ?thesis by (blast intro: run_single)
qed

definition sample_role :: "u8 \<Rightarrow> RoleContext" where
  "sample_role n = \<lparr> rc_signer = key n, rc_gateway_wallet = W_KEY \<rparr>"

definition signed_by :: "u8 \<Rightarrow> transaction" where
  "signed_by n = \<lparr> tx_signers = [key n], tx_writable = [W_KEY], tx_slot = 100, tx_instructions = [], tx_index = 0 \<rparr>"

lemma sample_wallet_space: "wallet_serialized_len (sample_wallet\<lparr> gw_pending_owner := k \<rparr>) \<le> WALLET_SPACE"
  "wallet_serialized_len (sample_wallet\<lparr> gw_owner := k, gw_pending_owner := k' \<rparr>) \<le> WALLET_SPACE"
  by (simp_all add: sample_wallet_def wallet_serialized_len_def WALLET_SPACE_def
      WalletTypes.MAX_SUPPORTED_TOKENS_def MAX_BURN_SIGNERS_def)

lemma sample_nominate:
  "transfer_ownership sample_platform (signed_by 40) (sample_role 40) (key 45) sample_ledger =
     Inr (sample_ledger(W_KEY := holding WALLET_PROGRAM_ID (WalletData (sample_wallet\<lparr> gw_pending_owner := key 45 \<rparr>))),
       [WalletEvent.OwnershipTransferStarted (key 40) (key 45)])"
  by (simp add: transfer_ownership_def role_accounts_def finish_def exit_wallet_def sample_role_def
      signed_by_def sample_checks exit_account_def sample_wallet_space holding_write)

lemma sample_accept: "\<exists>l'. accept_ownership sample_platform (signed_by 45) (sample_role 45)
    (sample_ledger(W_KEY := holding WALLET_PROGRAM_ID (WalletData (sample_wallet\<lparr> gw_pending_owner := key 45 \<rparr>)))) =
      Inr (l', [WalletEvent.OwnershipTransferred (key 40) (key 45)]) \<and>
    wallet_ownership_of sample_platform l' = Some (key 45, default_pubkey)"
  by (simp add: accept_ownership_def role_accounts_def finish_def exit_wallet_def sample_role_def
      signed_by_def sample_checks exit_account_def sample_wallet_space holding_write
      wallet_ownership_of_def typed_def)

section \<open>The accounts stay well formed\<close>

text \<open>Every history of the program keeps its accounts well formed.  Instructions signed by users in any
  order, interleaved with anything the rest of the chain may do, leave each wallet state, deposit and
  delegate record at the canonical PDA of the seeds it records; the supported tokens and burn signers
  distinct and within their limits, every token with the canonical bump of its custody account, the
  withdrawal delay positive; and no delegate record in the Unauthorized state.\<close>

theorem wallet_well_formed_run:
  assumes "system_program_ok pf" "wallet_wf pf l" "wallet_run pf l es l'"
  shows "wallet_wf pf l'"
  using wallet_machine.inv_run [OF assms(3)] assms(1,2) by (simp add: wallet_inv_def)

theorem wallet_well_formed_run_witness:
  "\<exists>es l'. es \<noteq> [] \<and> wallet_run sample_platform sample_ledger es l' \<and> wallet_wf sample_platform l'"
  using sample_burn_step wallet_well_formed_run [OF sample_platform_ok sample_wf] by blast

section \<open>A transfer spec is burned at most once\<close>

text \<open>C12: Over every history of the program, the transfer spec hashes of the GatewayBurned events are
  distinct, none of them was marked used at the start, and all of them are marked used at the end: a
  burn intent cannot be replayed, whatever instructions and other transactions come in between.\<close>

theorem burn_replay_protection:
  assumes "system_program_ok pf" "wallet_wf pf l" "wallet_run pf l es l'"
  shows "distinct (List.map_filter burned_hash es) \<and>
    (\<forall>h \<in> set (List.map_filter burned_hash es). (\<not> wallet_hash_used pf l h) \<and> wallet_hash_used pf l' h)"
  using wallet_replay.run_spent [OF assms(3)] assms(1,2) by (simp add: wallet_inv_def)

theorem burn_replay_protection_witness:
  "\<exists>es l'. wallet_run sample_platform sample_ledger es l' \<and> wallet_hash_used sample_platform l' sample_spec_hash"
proof -
  obtain es l' where run: "wallet_run sample_platform sample_ledger es l'"
    and last: "burned_hash (last es) = Some sample_spec_hash" "es \<noteq> []"
    using sample_burn_step by blast
  have "sample_spec_hash \<in> set (List.map_filter burned_hash es)"
    using last last_in_set [of es] unfolding spent_in by blast
  with burn_replay_protection [OF sample_platform_ok sample_wf run] run show ?thesis by blast
qed

section \<open>Ownership\<close>

text \<open>C22: The program refines the two-step ownership machine.  Over every history, the owner and pending
  owner of the wallet state are what the events OwnershipTransferStarted and OwnershipTransferred
  determine: only the owner nominates, and only the current nominee takes over.\<close>

theorem wallet_ownership_refines:
  assumes "system_program_ok pf" "wallet_wf pf l" "wallet_run pf l es l'" "wallet_ownership_of pf l = Some s"
  shows "\<exists>s'. wallet_ownership_of pf l' = Some s' \<and> ownership_run s (map ownership_kind es) = Some s'"
  using wallet_ownership.run_ownership [OF assms(3) _ assms(4)] assms(1,2) by (simp add: wallet_inv_def)

theorem wallet_ownership_refines_witness:
  "\<exists>es l' s'. wallet_run sample_platform sample_ledger es l' \<and>
     wallet_ownership_of sample_platform l' = Some (key 45, default_pubkey) \<and>
     ownership_run (key 40, default_pubkey) (map ownership_kind es) = Some (key 45, default_pubkey)"
proof -
  have users: "signed_by_users sample_platform (signed_by n)" for n
    by (rule sample_users) (simp add: signed_by_def)
  obtain l2 where accept: "accept_ownership sample_platform (signed_by 45) (sample_role 45)
      (sample_ledger(W_KEY := holding WALLET_PROGRAM_ID (WalletData (sample_wallet\<lparr> gw_pending_owner := key 45 \<rparr>)))) =
        Inr (l2, [WalletEvent.OwnershipTransferred (key 40) (key 45)])"
    and l2: "wallet_ownership_of sample_platform l2 = Some (key 45, default_pubkey)"
    using sample_accept by blast
  have 1: "wallet_step sample_platform sample_ledger [WalletEvent.OwnershipTransferStarted (key 40) (key 45)]
      (sample_ledger(W_KEY := holding WALLET_PROGRAM_ID (WalletData (sample_wallet\<lparr> gw_pending_owner := key 45 \<rparr>))))"
    by (rule wallet_call [OF users, of "IxTransferOwnership (sample_role 40) (key 45)" 40])
      (simp_all only: fits_usize.simps wallet_dispatch.simps sample_nominate)
  have 2: "wallet_step sample_platform
      (sample_ledger(W_KEY := holding WALLET_PROGRAM_ID (WalletData (sample_wallet\<lparr> gw_pending_owner := key 45 \<rparr>))))
      [WalletEvent.OwnershipTransferred (key 40) (key 45)] l2"
    by (rule wallet_call [OF users, of "IxAcceptOwnership (sample_role 45)" 45])
      (simp_all only: fits_usize.simps wallet_dispatch.simps accept)
  note run = run_trans [OF run_single [of "wallet_step sample_platform", OF 2]
      run_single [of "wallet_step sample_platform", OF 1]]
  have "wallet_ownership_of sample_platform sample_ledger = Some (key 40, default_pubkey)"
    by (simp add: wallet_ownership_of_def sample_views)
  from wallet_ownership_refines [OF sample_platform_ok sample_wf run this] run l2 show ?thesis by force
qed

section \<open>Who may change the wallet state\<close>

lemma role_change_signed:
  assumes "role_change role w w' e" "role w \<in> S"
  shows "(gw_owner w' \<noteq> gw_owner w \<longrightarrow> gw_pending_owner w \<in> S \<and> gw_owner w' = gw_pending_owner w) \<and>
    (gw_pending_owner w' \<noteq> gw_pending_owner w \<longrightarrow> gw_owner w \<in> S \<and> gw_owner w' = gw_owner w \<or>
       gw_pending_owner w \<in> S \<and> gw_owner w' = gw_pending_owner w \<and> gw_pending_owner w' = default_pubkey) \<and>
    (gw_paused w' \<noteq> gw_paused w \<longrightarrow> gw_pauser w \<in> S) \<and> gw_supported_tokens w' = gw_supported_tokens w \<and>
    gw_custody_token_account_bumps w' = gw_custody_token_account_bumps w \<and>
    (gw_pauser w' \<noteq> gw_pauser w \<or> gw_denylister w' \<noteq> gw_denylister w \<or>
     gw_token_controller w' \<noteq> gw_token_controller w \<or> gw_fee_recipient w' \<noteq> gw_fee_recipient w \<or>
     gw_withdrawal_delay w' \<noteq> gw_withdrawal_delay w \<or> gw_burn_signers w' \<noteq> gw_burn_signers w \<longrightarrow>
       gw_owner w \<in> S)"
  using assms by cases (auto simp: add_burn_signer_def remove_burn_signer_def split: if_splits option.splits)

lemma add_token_fields:
  assumes "add_token w mint b = Inr w'"
  shows "gw_owner w' = gw_owner w" "gw_paused w' = gw_paused w" "gw_pauser w' = gw_pauser w"
    "gw_denylister w' = gw_denylister w" "gw_token_controller w' = gw_token_controller w"
    "gw_fee_recipient w' = gw_fee_recipient w" "gw_withdrawal_delay w' = gw_withdrawal_delay w"
    "gw_burn_signers w' = gw_burn_signers w" "gw_local_domain w' = gw_local_domain w"
    "gw_version w' = gw_version w" "gw_bump w' = gw_bump w" "gw_pending_owner w' = gw_pending_owner w"
    "gw_supported_tokens w' \<noteq> gw_supported_tokens w \<or>
     gw_custody_token_account_bumps w' \<noteq> gw_custody_token_account_bumps w \<longrightarrow>
       gw_supported_tokens w' = gw_supported_tokens w @ [mint] \<and>
       gw_custody_token_account_bumps w' = gw_custody_token_account_bumps w @ [b]"
  using assms by (auto simp: add_token_def split: if_splits)

text \<open>C27: The wallet state changes only by the hand of the role it belongs to.  When an instruction succeeds,
  the state is still there; the owner changed only if the pending owner signed and became it; the pending
  owner only if the owner signed, or by being cleared when it became the owner; the pause switch only if the
  pauser signed; the supported tokens and their custody bumps only if the token controller signed, by one
  token with its bump at the end; the roles, the fee recipient, the withdrawal delay and the burn signers only
  if the owner signed; the domain, the version and the bump never changed.\<close>

theorem wallet_change_authorised:
  assumes "system_program_ok pf" "fits_usize ix" "wallet_dispatch pf tx ix l = Inr (l', es)"
    and w: "wallet_at l k = Some w"
  shows "\<exists>w'. wallet_at l' k = Some w' \<and>
    (gw_owner w' \<noteq> gw_owner w \<longrightarrow> gw_pending_owner w \<in> set (tx_signers tx) \<and> gw_owner w' = gw_pending_owner w) \<and>
    (gw_pending_owner w' \<noteq> gw_pending_owner w \<longrightarrow>
       gw_owner w \<in> set (tx_signers tx) \<and> gw_owner w' = gw_owner w \<or>
       gw_pending_owner w \<in> set (tx_signers tx) \<and> gw_owner w' = gw_pending_owner w \<and>
         gw_pending_owner w' = default_pubkey) \<and>
    (gw_paused w' \<noteq> gw_paused w \<longrightarrow> gw_pauser w \<in> set (tx_signers tx)) \<and>
    (gw_supported_tokens w' \<noteq> gw_supported_tokens w \<or>
     gw_custody_token_account_bumps w' \<noteq> gw_custody_token_account_bumps w \<longrightarrow>
       gw_token_controller w \<in> set (tx_signers tx) \<and>
       (\<exists>mint b. gw_supported_tokens w' = gw_supported_tokens w @ [mint] \<and>
          gw_custody_token_account_bumps w' = gw_custody_token_account_bumps w @ [b])) \<and>
    (gw_pauser w' \<noteq> gw_pauser w \<or> gw_denylister w' \<noteq> gw_denylister w \<or>
     gw_token_controller w' \<noteq> gw_token_controller w \<or> gw_fee_recipient w' \<noteq> gw_fee_recipient w \<or>
     gw_withdrawal_delay w' \<noteq> gw_withdrawal_delay w \<or> gw_burn_signers w' \<noteq> gw_burn_signers w \<longrightarrow>
       gw_owner w \<in> set (tx_signers tx)) \<and>
    gw_local_domain w' = gw_local_domain w \<and> gw_version w' = gw_version w \<and> gw_bump w' = gw_bump w"
  using effect_wallets [OF wallet_dispatch_effect [OF assms(1-3)]]
proof cases
  case wallets_same
  with w show ?thesis by simp
next
  case (wallet_role k' w0 role w' e)
  note r = role_change_signed [OF wallet_role(4,3)] role_change_fields [OF wallet_role(4)]
  show ?thesis using w wallet_role(2,5) r by (cases "k = k'") auto
next
  case (wallet_created k' b delay u domain)
  then show ?thesis using w by (cases "k = k'") (auto simp: fresh_typed)
next
  case (wallet_token k' w0 mint cust b w')
  note t = add_token_fields [OF wallet_token(5)]
  show ?thesis using w wallet_token(2,3,6) t by (cases "k = k'") auto
qed

theorem wallet_change_authorised_witness:
  "\<exists>l' w'. wallet_dispatch sample_platform (signed_by 40) (IxTransferOwnership (sample_role 40) (key 45))
       sample_ledger = Inr (l', [WalletEvent.OwnershipTransferStarted (key 40) (key 45)]) \<and>
     wallet_at l' W_KEY = Some w' \<and> gw_owner w' = key 40 \<and> \<not> gw_paused w' \<and>
     gw_supported_tokens w' = [MINT_KEY] \<and> gw_custody_token_account_bumps w' = [255]"
proof -
  have run: "\<exists>l'. wallet_dispatch sample_platform (signed_by 40) (IxTransferOwnership (sample_role 40) (key 45))
       sample_ledger = Inr (l', [WalletEvent.OwnershipTransferStarted (key 40) (key 45)])"
    by (simp add: sample_nominate)
  then obtain l' where l': "wallet_dispatch sample_platform (signed_by 40) (IxTransferOwnership (sample_role 40)
      (key 45)) sample_ledger = Inr (l', [WalletEvent.OwnershipTransferStarted (key 40) (key 45)])" by blast
  have "wallet_at sample_ledger W_KEY = Some sample_wallet" by (simp add: sample_views)
  from wallet_change_authorised [OF sample_platform_ok _ l' this] obtain w' where
    w': "wallet_at l' W_KEY = Some w'" "gw_owner w' = key 40" "\<not> gw_paused w'" "gw_supported_tokens w' = [MINT_KEY]"
      "gw_custody_token_account_bumps w' = [255]"
    by (auto simp: sample_wallet_def signed_by_def key_list default_pubkey_list)
  with l' show ?thesis by blast
qed

section \<open>Who may change a delegate record\<close>

text \<open>C31: A delegate record changes only by the hand of the depositor whose seeds its address derives from.
  When a successful instruction changed the record at an address, that depositor signed the
  transaction; the record is now Authorized, or it was Authorized and is now Revoked with everything
  else kept.\<close>

theorem delegate_change_authorised:
  assumes "system_program_ok pf" "fits_usize ix" "wallet_dispatch pf tx ix l = Inr (l', es)"
    and change: "delegate_at l' k \<noteq> delegate_at l k"
  shows "\<exists>token depositor delegate b g'. depositor \<in> set (tx_signers tx) \<and>
    try_bumps pf [GATEWAY_DELEGATE_SEED, token, depositor, delegate] WALLET_PROGRAM_ID 255 = Some (k, b) \<and>
    delegate_at l' k = Some g' \<and>
    (g' = \<lparr> del_bump = b, del_status = Authorized, del_closeable_at_block = 0, del_token = token,
        del_depositor = depositor, del_delegate = delegate \<rparr> \<or>
     (\<exists>g. delegate_at l k = Some g \<and> del_status g = Authorized \<and> g' = g\<lparr> del_status := Revoked \<rparr>))"
  using effect_delegates [OF wallet_dispatch_effect [OF assms(1-3)]]
proof cases
  case delegates_same
  with change show ?thesis by simp
next
  case (delegate_authorised depositor token delegate j b)
  with change have "k = j" by (cases "k = j") simp_all
  with delegate_authorised show ?thesis by auto
next
  case (delegate_revoked depositor j g token delegate b)
  with change have "k = j" by (cases "k = j") simp_all
  with delegate_revoked change show ?thesis by (auto split: if_splits)
qed

theorem delegate_change_authorised_witness:
  "\<exists>l'. wallet_dispatch sample_platform sample_delegate_tx (IxAddDelegate sample_delegate_ctx BOB) sample_ledger
       = Inr (l', [DelegateAdded MINT_KEY ALICE BOB]) \<and>
     (\<exists>g. delegate_at l' DELEGATION_KEY = Some g \<and> del_status g = Authorized)"
proof -
  obtain l' where run: "add_delegate sample_platform sample_delegate_tx sample_delegate_ctx BOB sample_ledger
      = Inr (l', [DelegateAdded MINT_KEY ALICE BOB])"
    using sample_add_delegate_runs by blast
  then have d: "wallet_dispatch sample_platform sample_delegate_tx (IxAddDelegate sample_delegate_ctx BOB) sample_ledger
      = Inr (l', [DelegateAdded MINT_KEY ALICE BOB])" by simp
  from add_delegate_effect(1) [OF sample_platform_ok run]
  have "delegate_at l' DELEGATION_KEY \<noteq> delegate_at sample_ledger DELEGATION_KEY"
    using written_views(2) by (fastforce simp: sample_views sample_delegate_ctx_def)
  from delegate_change_authorised [OF sample_platform_ok _ d this] d show ?thesis by (auto simp: sample_views)
qed

section \<open>Custody is solvent\<close>

lemma sample_custody_slots: "custody_slots_safe sample_platform sample_ledger"
  unfolding custody_slots_safe_def
proof (intro allI impI)
  fix mint c b
  assume "try_bumps sample_platform [GATEWAY_WALLET_CUSTODY_SEED, mint] WALLET_PROGRAM_ID 255 = Some (c, b)"
  from canonical_bump [OF this] have "c = sample_hash (GATEWAY_WALLET_CUSTODY_SEED @ mint @ [b] @ WALLET_PROGRAM_ID @ PDA_MARKER)"
    by (auto simp: sample_create_address Let_def split: if_splits)
  then have head: "take 16 c = take 16 GATEWAY_WALLET_CUSTODY_SEED" by (simp add: sample_hash_def Let_def)
  have "take 16 k \<noteq> take 16 GATEWAY_WALLET_CUSTODY_SEED"
    if "k \<in> {W_KEY, FEE_KEY, ALICE_TOKENS, DEPOSIT_KEY, ALICE, MINT_KEY, M_KEY, M_CUSTODY}" for k
    using that by (auto simp: sample_key_defs sample_hash_def key_list seed_defs WALLET_PROGRAM_ID_def MINTER_PROGRAM_ID_def)
  with head have "c \<notin> {W_KEY, FEE_KEY, ALICE_TOKENS, DEPOSIT_KEY, ALICE, MINT_KEY, M_KEY, M_CUSTODY}" by blast
  then have "c = CUSTODY_KEY \<or> sample_ledger c = empty_account" using sample_ledger_at(10) [of c] by blast
  moreover have "wallet_pda sample_platform W_KEY"
    using canonical_bump [OF sample_pdas(1)] unfolding wallet_pda_def by blast
  then have "held_safely sample_platform (sample_token W_KEY 500)"
    by (simp add: held_safely_def sample_token_def)
  ultimately show "safe_slot sample_platform sample_ledger c"
    by (auto simp: safe_slot_def fresh_def empty_account_def typed_def)
qed

lemma sample_solvent: "solvent sample_platform sample_ledger"
proof -
  have "liability sample_ledger mint \<le> custody_balance sample_platform sample_ledger mint" for mint
  proof (cases "mint = MINT_KEY")
    case True
    then show ?thesis
      by (simp add: liability_def sample_views owed_def dep_total_def custody_balance_def typed_def amount_at_def)
  next
    case False
    then show ?thesis by (simp add: liability_def sample_views owed_def)
  qed
  then show ?thesis by (simp add: solvent_def)
qed

text \<open>C1: Custody is solvent.  Over every history of the program, and for every mint, the custody account of
  the mint holds at least the sum of the available and withdrawing balances of all its deposit
  records.  The history starts from a solvent well-formed state whose custody addresses are unused or
  token accounts of the program; the deposit addresses of the finitely many (mint, depositor) pairs it
  books do not collide; and outsiders cannot sign for program addresses.\<close>

theorem custody_solvent:
  assumes "system_program_ok pf" "wallet_wf pf l" "custody_slots_safe pf l" "finite (dom (deposit_at l))"
    and "\<forall>mint. liability l mint \<le> custody_balance pf l mint"
    and "no_deposit_collision pf P" "records_within P l" "books_within P es" and run: "wallet_run pf l es l'"
  shows "liability l' mint \<le> custody_balance pf l' mint"
proof -
  have "solvency_inv pf P l" using assms(1-7) by (simp add: solvency_inv_def wallet_inv_def solvent_def)
  from solvency_run [OF run assms(8) this] have "solvency_inv pf P l'" .
  then show ?thesis by (simp add: solvency_inv_def solvent_def)
qed

theorem custody_solvent_witness:
  "\<exists>l'. wallet_run sample_platform sample_ledger [Deposited MINT_KEY ALICE ALICE 25] l' \<and>
     liability l' MINT_KEY \<le> custody_balance sample_platform l' MINT_KEY"
proof -
  obtain l' es where dep: "deposit sample_platform sample_tx sample_deposit_ctx 25 sample_ledger = Inr (l', es)"
    using sample_deposit_runs by blast
  have "es = [Deposited MINT_KEY ALICE ALICE 25]"
    using deposit_effect(1) [OF sample_platform_ok dep]
    by (auto simp: deposit_made_def custody_of_def sample_deposit_ctx_def typed_def)
  moreover have users: "signed_by_users sample_platform sample_tx"
    by (rule sample_users) (simp add: sample_tx_def ALICE_def)
  have "wallet_step sample_platform sample_ledger es l'"
    by (rule wallet_call [OF users, of "IxDeposit sample_deposit_ctx 25"]) (simp_all add: dep)
  ultimately have run: "wallet_run sample_platform sample_ledger [Deposited MINT_KEY ALICE ALICE 25] l'"
    by (simp add: run_single)
  have "no_deposit_collision sample_platform {(MINT_KEY, ALICE)}" "records_within {(MINT_KEY, ALICE)} sample_ledger"
    "books_within {(MINT_KEY, ALICE)} [Deposited MINT_KEY ALICE ALICE 25]" "finite (dom (deposit_at sample_ledger))"
    by (auto simp: no_deposit_collision_def records_within_def books_within_def sample_views split: if_splits)
  with custody_solvent [OF sample_platform_ok sample_wf sample_custody_slots _ _ _ _ _ run] sample_solvent run
  show ?thesis unfolding solvent_def by blast
qed

end
