(* ===== verification/Books.thy ===== *)
theory Books
  imports Solvency
begin

text \<open>
  The events of the GatewayWallet as a complete account of its balances: an abstract ledger keeps, for
  every (mint, depositor), the available and the withdrawing amount and the unlock slot, and changes
  them by the events alone.  The locale \<open>event_sourced\<close> says that a machine's state follows such a fold of its
  events; it is interpreted here on the wallet's deposit records.
\<close>

section \<open>A state that follows its events\<close>

fun event_fold :: "('a \<Rightarrow> 'e \<Rightarrow> 'a option) \<Rightarrow> 'a \<Rightarrow> 'e list \<Rightarrow> 'a option" where
  "event_fold next_state x [] = Some x"
| "event_fold next_state x (e # es) = Option.bind (next_state x e) (\<lambda>y. event_fold next_state y es)"

lemma event_fold_append:
  "event_fold next_state x (es @ fs) = Option.bind (event_fold next_state x es) (\<lambda>y. event_fold next_state y fs)"
  by (induction es arbitrary: x) (auto split: Option.bind_splits)

lemma event_fold_ignored: "\<forall>e \<in> set es. next_state x e = Some x \<Longrightarrow> event_fold next_state x es = Some x"
  by (induction es) auto

locale event_sourced = machine step inv
  for step :: "'s \<Rightarrow> 'e list \<Rightarrow> 's \<Rightarrow> bool" and inv +
  fixes view :: "'s \<Rightarrow> 'a" and next_state :: "'a \<Rightarrow> 'e \<Rightarrow> 'a option"
  assumes view_step: "inv s \<Longrightarrow> step s es t \<Longrightarrow> event_fold next_state (view s) es = Some (view t)"
begin

lemma view_run: "machine_run step s es t \<Longrightarrow> inv s \<Longrightarrow> event_fold next_state (view s) es = Some (view t)"
proof (induction rule: machine_run.induct)
  case (run_step s es t e u)
  have "inv t" using run_step.hyps(1) run_step.prems by (rule inv_run)
  with run_step view_step [of t e u] show ?case by (simp add: event_fold_append)
qed simp

end

section \<open>The abstract ledger\<close>

type_synonym balance = "nat \<times> nat \<times> nat"
type_synonym balances = "pubkey \<times> pubkey \<Rightarrow> balance"

text \<open>
  What an event does to the balances, and what it must agree with: a withdrawal can start only from the
  available amount, completes for exactly the withdrawing amount, and a burn drains the available
  amount before it touches the withdrawing one.
\<close>

fun balances_next :: "balances \<Rightarrow> WalletEvent \<Rightarrow> balances option" where
  "balances_next b (Deposited mint depositor sender n) =
     (case b (mint, depositor) of (a, w, s) \<Rightarrow> Some (b((mint, depositor) := (a + unat n, w, s))))"
| "balances_next b (WithdrawalInitiated mint depositor n remaining pending slot) =
     (case b (mint, depositor) of (a, w, s) \<Rightarrow>
        if unat remaining + unat n = a \<and> unat pending = w + unat n
        then Some (b((mint, depositor) := (unat remaining, unat pending, unat slot))) else None)"
| "balances_next b (WithdrawalCompleted mint depositor n) =
     (case b (mint, depositor) of (a, w, s) \<Rightarrow>
        if 0 < w \<and> unat n = w then Some (b((mint, depositor) := (a, 0, 0))) else None)"
| "balances_next b (GatewayBurned mint depositor h dd dr signer n fee fa fw) =
     (case b (mint, depositor) of (a, w, s) \<Rightarrow>
        if unat fa \<le> a \<and> unat fw \<le> w \<and> (0 < unat fw \<longrightarrow> unat fa = a) \<and> unat n + unat fee = unat fa + unat fw
        then Some (b((mint, depositor) := (a - unat fa, w - unat fw, s))) else None)"
| "balances_next b _ = Some b"

definition deposit_balance :: "GatewayDeposit option \<Rightarrow> balance" where
  "deposit_balance r = (case r of None \<Rightarrow> (0, 0, 0)
     | Some d \<Rightarrow> (unat (dep_available_amount d), unat (dep_withdrawing_amount d), unat (dep_withdrawal_block d)))"

text \<open>The balances of the accounts \<open>P\<close> in a ledger, each read at its canonical address.\<close>

definition balances_of :: "platform \<Rightarrow> (pubkey \<times> pubkey) set \<Rightarrow> ledger \<Rightarrow> balances" where
  "balances_of pf P l = (\<lambda>(mint, depositor).
     if (mint, depositor) \<in> P then
       (case try_bumps pf [GATEWAY_DEPOSIT_SEED, mint, depositor] WALLET_PROGRAM_ID 255 of
          None \<Rightarrow> (0, 0, 0) | Some (k, b) \<Rightarrow> deposit_balance (deposit_at l k))
     else (0, 0, 0))"

lemma balances_of_same: "deposit_at l' = deposit_at l \<Longrightarrow> balances_of pf P l' = balances_of pf P l"
  by (simp add: balances_of_def cong: option.case_cong if_cong)

lemma balances_of_at:
  "p = (mint, depositor) \<Longrightarrow> p \<in> P \<Longrightarrow>
     try_bumps pf [GATEWAY_DEPOSIT_SEED, mint, depositor] WALLET_PROGRAM_ID 255 = Some (k, b) \<Longrightarrow>
     balances_of pf P l p = deposit_balance (deposit_at l k)"
  by (simp add: balances_of_def)

text \<open>Writing one record changes the balance of its account only.\<close>

lemma balances_of_update:
  assumes P: "no_deposit_collision pf P" "(mint, depositor) \<in> P"
    and k: "try_bumps pf [GATEWAY_DEPOSIT_SEED, mint, depositor] WALLET_PROGRAM_ID 255 = Some (k, b)"
    and upd: "deposit_at l' = (deposit_at l)(k \<mapsto> d')"
  shows "balances_of pf P l' = (balances_of pf P l)((mint, depositor) := deposit_balance (Some d'))"
proof
  fix p :: "pubkey \<times> pubkey"
  obtain m d where p: "p = (m, d)" by (cases p)
  show "balances_of pf P l' p = ((balances_of pf P l)((mint, depositor) := deposit_balance (Some d'))) p"
  proof (cases "p = (mint, depositor)")
    case True
    then show ?thesis using balances_of_at [OF refl P(2) k, of l'] by (simp add: upd)
  next
    case False
    have "j \<noteq> k" if "p \<in> P" "try_bumps pf [GATEWAY_DEPOSIT_SEED, m, d] WALLET_PROGRAM_ID 255 = Some (j, c)" for j c
    proof
      assume "j = k"
      with canonical_bump [OF that(2)] canonical_bump [OF k] P that(1) have "m = mint \<and> d = depositor"
        unfolding no_deposit_collision_def p by fastforce
      with False p show False by simp
    qed
    then show ?thesis
      using False by (cases "p \<in> P") (auto simp: balances_of_def upd p split: option.split)
  qed
qed

section \<open>The balances follow the events\<close>

text \<open>The accounts an event is about.\<close>

fun balance_pair :: "WalletEvent \<Rightarrow> (pubkey \<times> pubkey) option" where
  "balance_pair (Deposited mint depositor sender n) = Some (mint, depositor)"
| "balance_pair (WithdrawalInitiated mint depositor n a w s) = Some (mint, depositor)"
| "balance_pair (WithdrawalCompleted mint depositor n) = Some (mint, depositor)"
| "balance_pair (GatewayBurned mint depositor h dd dr signer n fee fa fw) = Some (mint, depositor)"
| "balance_pair _ = None"

definition balances_within :: "(pubkey \<times> pubkey) set \<Rightarrow> WalletEvent list \<Rightarrow> bool" where
  "balances_within P es \<longleftrightarrow> (\<forall>e \<in> set es. \<forall>p. balance_pair e = Some p \<longrightarrow> p \<in> P)"

lemma balances_within_books: "balances_within P es \<Longrightarrow> books_within P es"
proof -
  have "booked_pair e = Some p \<Longrightarrow> balance_pair e = Some p" for e p by (cases e) simp_all
  then show "balances_within P es \<Longrightarrow> books_within P es" by (auto simp: balances_within_def books_within_def)
qed

definition balances_inv :: "platform \<Rightarrow> (pubkey \<times> pubkey) set \<Rightarrow> ledger \<Rightarrow> bool" where
  "balances_inv pf P l \<longleftrightarrow> wallet_inv pf l \<and> no_deposit_collision pf P \<and> records_within P l"

text \<open>One record changed, with the events that say so.\<close>

lemma balances_step:
  assumes P: "no_deposit_collision pf P" "(mint, depositor) \<in> P"
    and k: "try_bumps pf [GATEWAY_DEPOSIT_SEED, mint, depositor] WALLET_PROGRAM_ID 255 = Some (k, b)"
    and upd: "deposit_at l' = (deposit_at l)(k \<mapsto> d')"
    and ev: "\<And>bs. bs (mint, depositor) = deposit_balance (deposit_at l k) \<Longrightarrow>
      event_fold balances_next bs es = Some (bs((mint, depositor) := deposit_balance (Some d')))"
  shows "event_fold balances_next (balances_of pf P l) es = Some (balances_of pf P l')"
  unfolding balances_of_update [OF P k upd] by (rule ev) (rule balances_of_at [OF refl P(2) k])

text \<open>The record of an account is read at the address it was validated at.\<close>

lemma record_known:
  assumes "no_deposit_collision pf P" "deposits_ok pf l" "records_within P l" "deposit_at l k = Some d"
    "(mint, depositor) \<in> P"
    "create_program_address pf [GATEWAY_DEPOSIT_SEED, mint, depositor, [b]] WALLET_PROGRAM_ID = Inr k"
  shows "try_bumps pf [GATEWAY_DEPOSIT_SEED, mint, depositor] WALLET_PROGRAM_ID 255 = Some (k, dep_bump d)"
  using deposits_okD [OF assms(2,4)] deposit_known [OF assms] by simp

lemma balances_credit:
  assumes ok: "deposits_ok pf l" and P: "no_deposit_collision pf P" "records_within P l" "balances_within P es"
    and made: "deposit_made pf tx l g src cust k sender depositor amount es l'"
  shows "event_fold balances_next (balances_of pf P l) es = Some (balances_of pf P l')"
proof -
  from made obtain w mint bump d where
    k: "try_bumps pf [GATEWAY_DEPOSIT_SEED, mint, depositor] WALLET_PROGRAM_ID 255 = Some (k, bump)"
    and c: "credited l k src cust sender amount (deposit_before l k bump depositor mint) d l'"
    and es: "es = [Deposited mint depositor sender amount]"
    unfolding deposit_made_def by blast
  have pair: "(mint, depositor) \<in> P" using P(3) es by (simp add: balances_within_def)
  from c have upd: "deposit_at l' = (deposit_at l)(k \<mapsto> d)"
    and d: "d = (deposit_before l k bump depositor mint)
        \<lparr> dep_available_amount := dep_available_amount (deposit_before l k bump depositor mint) + amount \<rparr>"
    and bound: "unat (dep_available_amount (deposit_before l k bump depositor mint)) + unat amount < 2 ^ 64"
    unfolding credited_def by blast+
  have before: "deposit_balance (deposit_at l k) = deposit_balance (Some (deposit_before l k bump depositor mint))"
    using deposit_before_known [OF ok] by (cases "deposit_at l k") (simp_all add: deposit_balance_def deposit_before_new)
  show ?thesis
    by (rule balances_step [OF P(1) pair k upd])
      (use before bound in \<open>simp add: es d deposit_balance_def unat_add_u64\<close>)
qed

lemma balances_start:
  assumes ok: "deposits_ok pf l" and P: "no_deposit_collision pf P" "records_within P l"
    and pair: "(dep_token_mint d, depositor) \<in> P"
    and k: "create_program_address pf [GATEWAY_DEPOSIT_SEED, dep_token_mint d, depositor, [dep_bump d]]
      WALLET_PROGRAM_ID = Inr k"
    and run: "deposit_initiate_withdrawal slot d amount delay w (dep_token_mint d) = Inr (d', a, t, b)"
    and rew: "deposit_rewritten l k d d' l'"
  shows "event_fold balances_next (balances_of pf P l)
    [WithdrawalInitiated (dep_token_mint d) depositor amount a t b] = Some (balances_of pf P l')"
proof -
  have d: "deposit_at l k = Some d" and upd: "deposit_at l' = (deposit_at l)(k \<mapsto> d')"
    using rew by (simp_all add: deposit_rewritten_def)
  show ?thesis
    by (rule balances_step [OF P(1) pair record_known [OF P(1) ok P(2) d pair k] upd])
      (use initiate_withdrawal_amounts [OF run] in \<open>simp add: d deposit_balance_def\<close>)
qed

lemma balances_pay_out:
  assumes ok: "deposits_ok pf l" and P: "no_deposit_collision pf P" "records_within P l"
    and pair: "(dep_token_mint d, depositor) \<in> P"
    and k: "create_program_address pf [GATEWAY_DEPOSIT_SEED, dep_token_mint d, depositor, [dep_bump d]]
      WALLET_PROGRAM_ID = Inr k"
    and pos: "0 < dep_withdrawing_amount d" and out: "withdrawn l k cust dst g d l'"
  shows "event_fold balances_next (balances_of pf P l)
    [WithdrawalCompleted (dep_token_mint d) depositor (dep_withdrawing_amount d)] = Some (balances_of pf P l')"
  by (rule balances_step [OF P(1) pair record_known [OF P(1) ok P(2) withdrawn_views(3) [OF out] pair k]
      withdrawn_views(4) [OF out]])
    (use pos in \<open>simp add: withdrawn_views(3) [OF out] deposit_balance_def u64_less_iff\<close>)

lemma balances_burn:
  assumes ok: "deposits_ok pf l" and P: "no_deposit_collision pf P" "records_within P l" "balances_within P es"
    and ex: "burn_executed pf tx c params l w d d' hk n charged es l'"
  shows "event_fold balances_next (balances_of pf P l) es = Some (balances_of pf P l')"
proof -
  from ex obtain total h dd dr signer fa fw pre where red: "reduce_balance d total = Inr (d', fa, fw)"
    and s: "burn_settled l c hk n charged d d' fa fw l'"
    and es: "es = pre @ [GatewayBurned (gb_token_mint c) (dep_depositor d) h dd dr signer n charged fa fw]"
    and pre: "pre = [] \<or> (\<exists>m dep t. pre = [InsufficientBalance m dep t fa fw])"
    and k: "create_program_address pf [GATEWAY_DEPOSIT_SEED, gb_token_mint c, dep_depositor d, [dep_bump d]]
       WALLET_PROGRAM_ID = Inr (gb_deposit c)"
    unfolding burn_executed_def Let_def by (elim conjE exE) (rule that, assumption+, auto)
  note v = burn_settled_views(1,2) [OF s] and r = reduce_balance_amounts [OF red]
  have pair: "(gb_token_mint c, dep_depositor d) \<in> P" using P(3) by (simp add: es balances_within_def)
  have sum: "unat n + unat charged = unat fa + unat fw" using s by (simp add: burn_settled_def)
  have drained: "0 < unat fw \<Longrightarrow> unat fa = unat (dep_available_amount d)" using r(1,2) by linarith
  have left: "unat (dep_available_amount d) - unat fa = unat (dep_available_amount d')"
    "unat (dep_withdrawing_amount d) - unat fw = unat (dep_withdrawing_amount d')"
    "unat fa \<le> unat (dep_available_amount d)" "unat fw \<le> unat (dep_withdrawing_amount d)"
    using r(3,4) by linarith+
  have "balances_next bs (GatewayBurned (gb_token_mint c) (dep_depositor d) h dd dr signer n charged fa fw)
      = Some (bs((gb_token_mint c, dep_depositor d) := deposit_balance (Some d')))"
    if "bs (gb_token_mint c, dep_depositor d) = deposit_balance (deposit_at l (gb_deposit c))" for bs
    using that sum drained left(3,4) by (simp add: v(2) deposit_balance_def left(1,2) r(5))
  then have "event_fold balances_next bs es =
      Some (bs((gb_token_mint c, dep_depositor d) := deposit_balance (Some d')))"
    if "bs (gb_token_mint c, dep_depositor d) = deposit_balance (deposit_at l (gb_deposit c))" for bs
    using that pre by (auto simp: es)
  from balances_step [OF P(1) pair record_known [OF P(1) ok P(2) v(2) pair k] v(1) this] show ?thesis .
qed

lemma ignored_events: "\<forall>e \<in> set es. balance_pair e = None \<Longrightarrow> event_fold balances_next bs es = Some bs"
proof (rule event_fold_ignored)
  assume none: "\<forall>e \<in> set es. balance_pair e = None"
  have "balance_pair e = None \<Longrightarrow> balances_next bs e = Some bs" for e by (cases e) simp_all
  with none show "\<forall>e \<in> set es. balances_next bs e = Some bs" by blast
qed

lemma role_change_event: "role_change role w w' e \<Longrightarrow> balance_pair e = None"
  by (induction rule: role_change.induct) simp_all

text \<open>Every effect is accounted for by its events.\<close>

lemma balances_effect:
  assumes wf: "wallet_wf pf l" and P: "no_deposit_collision pf P" "records_within P l" "balances_within P es"
    and e: "wallet_effect pf tx l es l'"
  shows "event_fold balances_next (balances_of pf P l) es = Some (balances_of pf P l')"
proof -
  have ok: "deposits_ok pf l" using wf by (simp add: wallet_wf_def)
  have same: ?thesis if "deposit_at l' = deposit_at l" "\<forall>e \<in> set es. balance_pair e = None"
    unfolding balances_of_same [OF that(1)] by (rule ignored_events [OF that(2)])
  show ?thesis
    using e
  proof cases
    case credit
    then show ?thesis by (rule balances_credit [OF ok P])
  next
    case (start g w depositor d k amount d' a t b)
    then have "(dep_token_mint d, depositor) \<in> P" using P(3) by (simp add: balances_within_def)
    from balances_start [OF ok P(1,2) this start(4,5,6)] show ?thesis using start(1) by simp
  next
    case (pay_out g w depositor d cust k dst t)
    then have "(dep_token_mint d, depositor) \<in> P" using P(3) by (simp add: balances_within_def)
    from balances_pay_out [OF ok P(1,2) this pay_out(6,9,11)] show ?thesis using pay_out(1) by simp
  next
    case burn
    then show ?thesis by (rule balances_burn [OF ok P])
  next
    case administer
    then show ?thesis by (rule role_done_views) (rule same, assumption, simp add: role_change_event)
  next
    case (support g w mint cust b l1 w')
    show ?thesis by (rule same) (use support(1) support_views(2) [OF support(6,8)] in simp_all)
  next
    case authorise
    then show ?thesis using written_views(2) by (intro same) simp_all
  next
    case revoke
    then show ?thesis using written_views(2) by (intro same) (simp_all split: if_splits)
  next
    case ban
    then show ?thesis using written_views(3) by (intro same) simp_all
  next
    case unban
    then show ?thesis using closed_views(2) by (intro same) simp_all
  next
    case create
    then show ?thesis using written_views(1) by (intro same) simp_all
  qed
qed

abbreviation "wallet_step_booked pf P \<equiv> \<lambda>l es l'. wallet_step pf l es l' \<and> balances_within P es"

lemma balances_step_facts:
  assumes inv: "balances_inv pf P l" and step: "wallet_step pf l es l'" and within: "balances_within P es"
  shows "balances_inv pf P l'" "event_fold balances_next (balances_of pf P l) es = Some (balances_of pf P l')"
proof -
  have w: "wallet_inv pf l" "system_program_ok pf" "wallet_wf pf l" and i: "no_deposit_collision pf P" "records_within P l"
    using inv by (simp_all add: balances_inv_def wallet_inv_def)
  have w': "wallet_inv pf l'" using wallet_machine.inv_step [OF w(1) step] .
  have "records_within P l' \<and> event_fold balances_next (balances_of pf P l) es = Some (balances_of pf P l')"
    using step
  proof cases
    case (wallet_call tx ix)
    note e = wallet_dispatch_effect [OF w(2) wallet_call(2,3)]
    show ?thesis
      using effect_funds [OF wallet_call(1) w(3) i balances_within_books [OF within] e]
        balances_effect [OF w(3) i within e] by simp
  next
    case wallet_rest
    then have "deposit_at l' = deposit_at l" using env_views [of pf l l' as_deposit] by simp
    then show ?thesis using i wallet_rest(1) balances_of_same [of l' l pf P] by (simp add: records_within_def)
  qed
  with i w' show "balances_inv pf P l'" "event_fold balances_next (balances_of pf P l) es = Some (balances_of pf P l')"
    by (simp_all add: balances_inv_def)
qed

interpretation wallet_books: event_sourced "wallet_step_booked pf P" "balances_inv pf P" "balances_of pf P"
  balances_next for pf P
  by unfold_locales (elim conjE, rule balances_step_facts, assumption+)+

end
