(* ===== verification/WalletSpec.thy ===== *)
theory WalletSpec
  imports WalletSafety Books
begin

text \<open>
  What the instructions of the GatewayWallet that move funds do: the balances follow the events, who must
  have authorised a burn and what it takes, what a deposit and a withdrawal move, that a matured
  withdrawal can always be completed, and what the pause switch and the denylist stop.
\<close>

section \<open>The balances follow the events\<close>

lemma sample_deposit_run:
  "\<exists>l'. deposit sample_platform sample_tx sample_deposit_ctx 25 sample_ledger =
      Inr (l', [Deposited MINT_KEY ALICE ALICE 25]) \<and>
    wallet_run sample_platform sample_ledger [Deposited MINT_KEY ALICE ALICE 25] l'"
proof -
  obtain l' es where dep: "deposit sample_platform sample_tx sample_deposit_ctx 25 sample_ledger = Inr (l', es)"
    using sample_deposit_runs by blast
  have es: "es = [Deposited MINT_KEY ALICE ALICE 25]"
    using deposit_effect(1) [OF sample_platform_ok dep]
    by (auto simp: deposit_made_def custody_of_def sample_deposit_ctx_def typed_def)
  have users: "signed_by_users sample_platform sample_tx"
    by (rule sample_users) (simp add: sample_tx_def ALICE_def)
  have "wallet_step sample_platform sample_ledger es l'"
    by (rule wallet_call [OF users, of "IxDeposit sample_deposit_ctx 25"]) (simp_all add: dep)
  with dep es show ?thesis by (auto intro: run_single)
qed

lemma sample_pairs: "no_deposit_collision sample_platform {(MINT_KEY, ALICE)}"
  "records_within {(MINT_KEY, ALICE)} sample_ledger"
  by (auto simp: no_deposit_collision_def records_within_def sample_views split: if_splits)

text \<open>C13: The events account for every balance.  Over every history, the available and withdrawing amounts
  and unlock slots of all deposit records are what the abstract ledger computes from the events Deposited,
  WithdrawalInitiated, WithdrawalCompleted and GatewayBurned alone, and every event agrees with it: a
  withdrawal starts within the available amount, completes for exactly the withdrawing amount, and a
  burn drains the available amount first.\<close>

theorem balances_follow_events:
  assumes "system_program_ok pf" "wallet_wf pf l"
    and "no_deposit_collision pf P" "records_within P l" "balances_within P es" and run: "wallet_run pf l es l'"
  shows "event_fold balances_next (balances_of pf P l) es = Some (balances_of pf P l')"
proof -
  have "machine_run (wallet_step_booked pf P) l es l'"
    by (rule run_restrict [OF run]) (use assms(5) in \<open>auto simp: balances_within_def\<close>)
  from wallet_books.view_run [OF this] assms(1-4) show ?thesis
    by (simp add: balances_inv_def wallet_inv_def)
qed

theorem balances_follow_events_witness:
  "\<exists>l'. wallet_run sample_platform sample_ledger [Deposited MINT_KEY ALICE ALICE 25] l' \<and>
     balances_of sample_platform {(MINT_KEY, ALICE)} l' (MINT_KEY, ALICE) = (95, 50, 90)"
proof -
  obtain l' where run: "wallet_run sample_platform sample_ledger [Deposited MINT_KEY ALICE ALICE 25] l'"
    using sample_deposit_run by blast
  have "balances_within {(MINT_KEY, ALICE)} [Deposited MINT_KEY ALICE ALICE 25]"
    by (simp add: balances_within_def)
  from balances_follow_events [OF sample_platform_ok sample_wf sample_pairs this run]
  have "balances_of sample_platform {(MINT_KEY, ALICE)} l' =
    (balances_of sample_platform {(MINT_KEY, ALICE)} sample_ledger)((MINT_KEY, ALICE) := (95, 50, 90))"
    by (auto simp: balances_of_def deposit_balance_def sample_views split: prod.splits)
  with run show ?thesis by auto
qed

section \<open>Burns\<close>

lemma supply_transferred: "transferred l src dst a n l' \<Longrightarrow> supply_at l' k = supply_at l k"
  unfolding transferred_def supply_at_def by (cases "k = src"; cases "k = dst") auto

lemma supply_made: "account_made l k p (Raw bs) l' \<Longrightarrow> supply_at l' j = supply_at l j"
  by (cases "j = k") (auto simp: account_made_def supply_at_def)

lemma supply_rewritten:
  assumes "deposit_rewritten l k d d' l'"
  shows "supply_at l' j = supply_at l j"
proof (cases "j = k")
  case True
  have "deposit_at l k = Some d" "deposit_at l' k = Some d'" using assms by (simp_all add: deposit_rewritten_def)
  then show ?thesis by (auto simp: True supply_at_def typed_Some as_data_Some)
next
  case False
  with assms show ?thesis by (simp add: deposit_rewritten_def untouched_def supply_at_def)
qed

lemma burn_settled_elsewhere:
  assumes "burn_settled l c k n charged d d' fa fw l'"
  shows "supply_at l' (gb_token_mint c) + unat n = supply_at l (gb_token_mint c)"
    and "j \<noteq> gb_custody_token_account c \<Longrightarrow> j \<noteq> gb_fee_recipient_token_account c \<Longrightarrow> amount_at l' j = amount_at l j"
proof -
  let ?cust = "gb_custody_token_account c" and ?fee = "gb_fee_recipient_token_account c"
  from assms obtain l1 l2 l3 where
    made: "account_made l k WALLET_PROGRAM_ID (Raw WALLET_USED_MARKER) l1"
    and fee: "if charged > 0 then transferred l1 ?cust ?fee (gb_gateway_wallet c) charged l2 else l2 = l1"
    and burn: "burned l2 ?cust (gb_token_mint c) (gb_gateway_wallet c) n l3"
    and rew: "deposit_rewritten l3 (gb_deposit c) d d' l'"
    unfolding burn_settled_def by blast
  have "supply_at l2 i = supply_at l1 i" for i using fee supply_transferred by (metis (full_types))
  with burned_amounts(2) [OF burn] show "supply_at l' (gb_token_mint c) + unat n = supply_at l (gb_token_mint c)"
    by (simp add: supply_rewritten [OF rew] supply_made [OF made])
  assume j: "j \<noteq> ?cust" "j \<noteq> ?fee"
  have "amount_at l2 j = amount_at l1 j"
    using fee transferred_amounts(3) [of l1 ?cust ?fee _ _ l2 j] j by (cases "charged > 0") auto
  moreover have "amount_at l' j = amount_at l3 j" using rew by (simp add: deposit_rewritten_def)
  ultimately show "amount_at l' j = amount_at l j"
    using burned_amounts(3) [OF burn j(1)] amount_at_made [OF made] by simp
qed

text \<open>C20: A burn takes exactly what the intent and the deposit allow.  It burns the smaller of the intent's value
  and the depositor's total balance, and charges the smaller of the intent's fee and what is left of the
  balance; the deposit record and the custody account lose exactly the sum, the fee recipient gains the
  fee, the mint's supply falls by the burned amount, no other token balance changes, and the hash of
  the transfer spec, unused before, is marked used.\<close>

theorem burn_settles:
  assumes "system_program_ok pf" "length (encoded_burn_data params) < 2 ^ 64"
    and "gateway_burn pf tx c params l = Inr (l', es)"
    and "gb_fee_recipient_token_account c \<noteq> gb_custody_token_account c"
  shows "\<exists>d d' n fee. let m = burn_message_at (encoded_burn_data params) in
    deposit_at l (gb_deposit c) = Some d \<and> deposit_at l' = (deposit_at l)(gb_deposit c \<mapsto> d') \<and>
    n = min (unat (bm_value m)) (dep_total d) \<and> fee = min (unat (bm_fee m)) (dep_total d - unat (bm_value m)) \<and>
    dep_total d' + n + fee = dep_total d \<and>
    amount_at l' (gb_custody_token_account c) + n + fee = amount_at l (gb_custody_token_account c) \<and>
    amount_at l' (gb_fee_recipient_token_account c) = amount_at l (gb_fee_recipient_token_account c) + fee \<and>
    supply_at l' (gb_token_mint c) + n = supply_at l (gb_token_mint c) \<and>
    (\<forall>j. j \<noteq> gb_custody_token_account c \<and> j \<noteq> gb_fee_recipient_token_account c \<longrightarrow> amount_at l' j = amount_at l j) \<and>
    \<not> wallet_hash_used pf l (keccak256 pf (drop 160 (encoded_burn_data params))) \<and>
    wallet_hash_used pf l' (keccak256 pf (drop 160 (encoded_burn_data params)))"
proof -
  from gateway_burn_effect [OF assms(1-3)] obtain w d d' hk n charged where
    ex: "burn_executed pf tx c params l w d d' hk n charged es l'" by blast
  from burn_executed_settled [OF ex] obtain fa fw where
    red: "reduce_balance d (bm_value (burn_message_at (encoded_burn_data params)) +
        bm_fee (burn_message_at (encoded_burn_data params))) = Inr (d', fa, fw)"
    and s: "burn_settled l c hk n charged d d' fa fw l'" by blast
  note v = burn_settled_views [OF s] and a = burn_settled_amounts(2) [OF s assms(4)] and e = burn_settled_elsewhere [OF s]
  have split: "unat n = min (unat (bm_value (burn_message_at (encoded_burn_data params)))) (dep_total d)"
    "unat charged = min (unat (bm_fee (burn_message_at (encoded_burn_data params))))
      (dep_total d - unat (bm_value (burn_message_at (encoded_burn_data params))))"
    using ex unfolding burn_executed_def Let_def by blast+
  have sum: "unat n + unat charged = unat fa + unat fw" using s by (simp add: burn_settled_def)
  obtain b where k: "try_bumps pf [USED_TRANSFER_SPEC_HASH_SEED_PREFIX, keccak256 pf (drop 160 (encoded_burn_data params))]
      WALLET_PROGRAM_ID 255 = Some (hk, b)"
    and unused: "\<not> is_transfer_spec_hash_used (acc_data (l hk)) WALLET_USED_MARKER"
    using ex unfolding burn_executed_def Let_def by blast
  show ?thesis
    unfolding Let_def
  proof (intro exI conjI)
    show "dep_total d' + unat n + unat charged = dep_total d"
      using reduce_balance_total(2) [OF red] sum by linarith
    show "amount_at l' (gb_custody_token_account c) + unat n + unat charged = amount_at l (gb_custody_token_account c)"
      using a sum by linarith
    show "\<not> wallet_hash_used pf l (keccak256 pf (drop 160 (encoded_burn_data params)))"
      using k unused by (auto simp: hash_used_def marked_def marker_used WALLET_USED_MARKER_def)
    show "wallet_hash_used pf l' (keccak256 pf (drop 160 (encoded_burn_data params)))"
      using k v by (auto simp: hash_used_def marked_def)
  qed (use v split a e in simp_all)
qed

theorem burn_settles_witness:
  "\<exists>l' es. gateway_burn sample_platform sample_burn_tx sample_burn_ctx sample_burn_params sample_ledger = Inr (l', es) \<and>
     amount_at l' CUSTODY_KEY = 417 \<and> amount_at l' FEE_KEY = 3 \<and> supply_at l' MINT_KEY = 4920"
proof -
  obtain l' es where run:
    "gateway_burn sample_platform sample_burn_tx sample_burn_ctx sample_burn_params sample_ledger = Inr (l', es)"
    using sample_burn_runs by blast
  have fits: "length (encoded_burn_data sample_burn_params) < 2 ^ 64"
    using sample_burn_data_facts(1) by (simp add: sample_burn_params_def)
  have ne: "gb_fee_recipient_token_account sample_burn_ctx \<noteq> gb_custody_token_account sample_burn_ctx"
    by (simp add: sample_burn_ctx_def)
  from burn_settles [OF sample_platform_ok fits run ne] run show ?thesis
    by (auto simp: Let_def sample_burn_ctx_def sample_burn_params_def sample_views
        sample_burn_data_facts sample_intent_def dep_total_def amount_at_def supply_at_def)
qed

section \<open>Deposits\<close>

lemma deposited_kind:
  assumes "wallet_effect pf tx l es l'" "Deposited mint depositor sender n \<in> set es"
  shows "\<exists>g src cust k. deposit_made pf tx l g src cust k sender depositor n es l'"
  using assms
proof cases
  case (credit g src cust k sender' depositor' n')
  then have "sender' = sender" "depositor' = depositor" "n' = n"
    using assms(2) by (auto simp: deposit_made_def)
  with credit show ?thesis by blast
next
  case (burn c params w d d' h burn_amount charged)
  then have False using assms(2) unfolding burn_executed_def Let_def by (elim conjE exE) (simp split: if_splits)
  then show ?thesis ..
next
  case administer
  then obtain role w w' e where "role_change role w w' e" "es = [e]" unfolding role_done_def by blast
  then have False using assms(2) by cases auto
  then show ?thesis ..
qed (use assms(2) in \<open>auto split: if_splits\<close>)

text \<open>C24: A deposit credits exactly what it moves.  Whichever instruction emits Deposited (deposit or
  deposit_for), the sender signed, the amount is positive, and it moved from a token account of the sender to the
  program's custody account of the mint; the available balance recorded at the depositor's address rose
  by the amount without wrapping, every other deposit record and every other token balance is unchanged.\<close>

theorem deposit_credits:
  assumes "system_program_ok pf" "signed_by_users pf tx" "fits_usize ix" "wallet_wf pf l"
    and "wallet_dispatch pf tx ix l = Inr (l', es)" "Deposited mint depositor sender n \<in> set es"
  shows "\<exists>src cust k b b' d. sender \<in> set (tx_signers tx) \<and> 0 < unat n \<and>
    (\<exists>t. tok_at l src = Some t \<and> ta_owner t = sender \<and> ta_mint t = mint) \<and>
    try_bumps pf [GATEWAY_WALLET_CUSTODY_SEED, mint] WALLET_PROGRAM_ID 255 = Some (cust, b) \<and>
    amount_at l' src + unat n = amount_at l src \<and> amount_at l' cust = amount_at l cust + unat n \<and>
    (\<forall>j. j \<noteq> src \<and> j \<noteq> cust \<longrightarrow> amount_at l' j = amount_at l j) \<and>
    try_bumps pf [GATEWAY_DEPOSIT_SEED, mint, depositor] WALLET_PROGRAM_ID 255 = Some (k, b') \<and>
    deposit_at l' = (deposit_at l)(k \<mapsto> d) \<and>
    deposit_balance (Some d) =
      (case deposit_balance (deposit_at l k) of (a, w, s) \<Rightarrow> (a + unat n, w, s))"
proof -
  from deposited_kind [OF wallet_dispatch_effect [OF assms(1,3,5)] assms(6)]
  obtain g src cust k where made: "deposit_made pf tx l g src cust k sender depositor n es l'" by blast
  then have "es = [Deposited mint depositor sender n]" using assms(6) by (auto simp: deposit_made_def)
  with made obtain w bump d s where run: "wallet_running pf l g w" and cust: "custody_of pf l g w mint cust"
    and sender: "sender \<in> set (tx_signers tx)" and s: "tok_at l src = Some s" "ta_owner s = sender" "ta_mint s = mint"
    and k: "try_bumps pf [GATEWAY_DEPOSIT_SEED, mint, depositor] WALLET_PROGRAM_ID 255 = Some (k, bump)"
    and c: "credited l k src cust sender n (deposit_before l k bump depositor mint) d l'"
    unfolding deposit_made_def by auto
  have ok: "wallets_ok pf l" "deposits_ok pf l" using assms(4) by (simp_all add: wallet_wf_def)
  note cc = custody_canonical [OF ok(1) run cust]
  have ne: "src \<noteq> cust" using not_user_key [OF assms(2) sender] s(1,2) cc(2,3) by auto
  from c obtain l1 l2 where l1: "amount_at l1 = amount_at l" and tr: "transferred l1 src cust sender n l2"
    and l2: "amount_at l' = amount_at l2" and upd: "deposit_at l' = (deposit_at l)(k \<mapsto> d)" and pos: "0 < n"
    and d: "d = (deposit_before l k bump depositor mint)
        \<lparr> dep_available_amount := dep_available_amount (deposit_before l k bump depositor mint) + n \<rparr>"
    and bound: "unat (dep_available_amount (deposit_before l k bump depositor mint)) + unat n < 2 ^ 64"
    unfolding credited_def by blast
  have "deposit_balance (deposit_at l k) = deposit_balance (Some (deposit_before l k bump depositor mint))"
    using deposit_before_known [OF ok(2)] by (cases "deposit_at l k") (simp_all add: deposit_balance_def deposit_before_new)
  then have new: "deposit_balance (Some d) = (case deposit_balance (deposit_at l k) of (a, w, s) \<Rightarrow> (a + unat n, w, s))"
    using bound by (simp add: d deposit_balance_def unat_add_u64)
  have moves: "amount_at l' src + unat n = amount_at l src" "amount_at l' cust = amount_at l cust + unat n"
    "\<forall>j. j \<noteq> src \<and> j \<noteq> cust \<longrightarrow> amount_at l' j = amount_at l j"
    using transferred_amounts(1,2) [OF tr ne] transferred_amounts(3) [OF tr] by (simp_all add: l1 l2)
  have "0 < unat n" using pos by (simp add: u64_less_iff)
  with sender s k upd new moves cc(1) show ?thesis by blast
qed

theorem deposit_credits_witness:
  "\<exists>l'. deposit sample_platform sample_tx sample_deposit_ctx 25 sample_ledger =
      Inr (l', [Deposited MINT_KEY ALICE ALICE 25]) \<and> amount_at l' CUSTODY_KEY = 525 \<and>
    deposit_balance (deposit_at l' DEPOSIT_KEY) = (95, 50, 90)"
proof -
  obtain l' where dep: "deposit sample_platform sample_tx sample_deposit_ctx 25 sample_ledger =
      Inr (l', [Deposited MINT_KEY ALICE ALICE 25])" using sample_deposit_run by blast
  then have run: "wallet_dispatch sample_platform sample_tx (IxDeposit sample_deposit_ctx 25) sample_ledger =
      Inr (l', [Deposited MINT_KEY ALICE ALICE 25])" by simp
  have users: "signed_by_users sample_platform sample_tx"
    by (rule sample_users) (simp add: sample_tx_def ALICE_def)
  from deposit_credits [OF sample_platform_ok users _ sample_wf run, of MINT_KEY ALICE ALICE 25] dep show ?thesis
    by (auto simp: sample_views amount_at_def [of sample_ledger] deposit_balance_def)
qed

section \<open>Withdrawals\<close>

text \<open>C23: A withdrawal pays the depositor what was withdrawing, after the delay.  A withdraw that succeeds was
  signed by the depositor whose deposit record it is, at or after the unlock slot, with a positive
  withdrawing amount; exactly this amount moved from the custody account to a token account the depositor
  owns; the withdrawing amount and the unlock slot are reset, the available amount is untouched, and no
  other token balance or deposit record changed.\<close>

theorem withdraw_pays:
  assumes "signed_by_users pf tx" "wallet_wf pf l" and run: "withdraw pf tx c l = Inr (l', es)"
  shows "\<exists>d b. wd_depositor c \<in> set (tx_signers tx) \<and> deposit_at l (wd_deposit c) = Some d \<and>
    create_program_address pf [GATEWAY_DEPOSIT_SEED, dep_token_mint d, wd_depositor c, [dep_bump d]]
      WALLET_PROGRAM_ID = Inr (wd_deposit c) \<and>
    try_bumps pf [GATEWAY_WALLET_CUSTODY_SEED, dep_token_mint d] WALLET_PROGRAM_ID 255
      = Some (wd_custody_token_account c, b) \<and>
    0 < unat (dep_withdrawing_amount d) \<and> dep_withdrawal_block d \<le> tx_slot tx \<and>
    (\<exists>t. tok_at l (wd_depositor_token_account c) = Some t \<and> ta_owner t = wd_depositor c) \<and>
    amount_at l' (wd_custody_token_account c) + unat (dep_withdrawing_amount d)
      = amount_at l (wd_custody_token_account c) \<and>
    amount_at l' (wd_depositor_token_account c)
      = amount_at l (wd_depositor_token_account c) + unat (dep_withdrawing_amount d) \<and>
    (\<forall>j. j \<noteq> wd_custody_token_account c \<and> j \<noteq> wd_depositor_token_account c \<longrightarrow> amount_at l' j = amount_at l j) \<and>
    deposit_at l' = (deposit_at l)(wd_deposit c \<mapsto> d\<lparr> dep_withdrawing_amount := 0, dep_withdrawal_block := 0 \<rparr>) \<and>
    es = [WithdrawalCompleted (dep_token_mint d) (wd_depositor c) (dep_withdrawing_amount d)]"
proof -
  let ?cust = "wd_custody_token_account c" and ?dst = "wd_depositor_token_account c"
  from withdraw_effect [OF run] obtain w d t where w: "wallet_running pf l (wd_gateway_wallet c) w"
    and sig: "wd_depositor c \<in> set (tx_signers tx)"
    and cust: "custody_of pf l (wd_gateway_wallet c) w (dep_token_mint d) ?cust"
    and d: "deposit_at l (wd_deposit c) = Some d"
    and k: "create_program_address pf [GATEWAY_DEPOSIT_SEED, dep_token_mint d, wd_depositor c, [dep_bump d]]
      WALLET_PROGRAM_ID = Inr (wd_deposit c)"
    and dst: "tok_at l ?dst = Some t" "ta_owner t = wd_depositor c"
    and due: "0 < dep_withdrawing_amount d" "dep_withdrawal_block d \<le> tx_slot tx"
    and out: "withdrawn l (wd_deposit c) ?cust ?dst (wd_gateway_wallet c) d l'"
    and es: "es = [WithdrawalCompleted (dep_token_mint d) (wd_depositor c) (dep_withdrawing_amount d)]"
    by (elim exE conjE) (rule that, assumption+)
  have "wallets_ok pf l" using assms(2) by (simp add: wallet_wf_def)
  note cc = custody_canonical [OF this w cust]
  have ne: "?cust \<noteq> ?dst" using not_user_key [OF assms(1) sig] dst cc(2,3) by auto
  from out obtain m where tr: "transferred l ?cust ?dst (wd_gateway_wallet c) (dep_withdrawing_amount d) m"
    and m: "amount_at l' = amount_at m"
    unfolding withdrawn_def deposit_rewritten_def by blast
  note a = transferred_amounts(1,2) [OF tr ne] transferred_amounts(3) [OF tr]
  from cc(1) obtain b where b: "try_bumps pf [GATEWAY_WALLET_CUSTODY_SEED, dep_token_mint d] WALLET_PROGRAM_ID 255
      = Some (?cust, b)" by blast
  show ?thesis
    by (intro exI [of _ d] exI [of _ b] conjI)
      (use sig d k b due dst a es withdrawn_views(4) [OF out] in \<open>simp_all add: m u64_less_iff\<close>)
qed

lemma sample_withdraw_run:
  obtains l' es where "withdraw sample_platform sample_tx sample_withdraw sample_ledger = Inr (l', es)"
  using sample_withdraw_runs by blast

theorem withdraw_pays_witness:
  "\<exists>l'. withdraw sample_platform sample_tx sample_withdraw sample_ledger =
      Inr (l', [WithdrawalCompleted MINT_KEY ALICE 50]) \<and>
    amount_at l' CUSTODY_KEY = 450 \<and> amount_at l' ALICE_TOKENS = 350 \<and>
    deposit_balance (deposit_at l' DEPOSIT_KEY) = (70, 0, 0)"
proof -
  obtain l' es where run: "withdraw sample_platform sample_tx sample_withdraw sample_ledger = Inr (l', es)"
    by (rule sample_withdraw_run)
  have users: "signed_by_users sample_platform sample_tx"
    by (rule sample_users) (simp add: sample_tx_def ALICE_def)
  from withdraw_pays [OF users sample_wf run] run show ?thesis
    by (auto simp: sample_views amount_at_def [of sample_ledger] deposit_balance_def sample_withdraw_def)
qed

text \<open>A matured withdrawal can always be completed.  When the wallet is not paused, the deposit record is the
  depositor's, its withdrawing amount is positive and its unlock slot has come, the custody account holds
  the amount (custody is solvent) and neither token account is frozen, native or about to overflow, then
  withdraw succeeds for the signing depositor: no other instruction or signature is needed.\<close>

theorem withdraw_succeeds:
  assumes w: "wallet_running pf l (wd_gateway_wallet c) w"
    and cust: "custody_of pf l (wd_gateway_wallet c) w (dep_token_mint d) (wd_custody_token_account c)"
    and d: "deposit_at l (wd_deposit c) = Some d" "0 < dep_withdrawing_amount d" "dep_withdrawal_block d \<le> tx_slot tx"
      "create_program_address pf [GATEWAY_DEPOSIT_SEED, dep_token_mint d, wd_depositor c, [dep_bump d]]
        WALLET_PROGRAM_ID = Inr (wd_deposit c)"
    and s: "tok_at l (wd_custody_token_account c) = Some s" "ta_state s \<noteq> Frozen" "ta_is_native s = None"
      "ta_delegate s = None" "dep_withdrawing_amount d \<le> ta_amount s"
    and t: "tok_at l (wd_depositor_token_account c) = Some t" "ta_state t \<noteq> Frozen" "ta_owner t = wd_depositor c"
      "ta_mint t = dep_token_mint d" "unat (ta_amount t) + unat (dep_withdrawing_amount d) < 2 ^ 64"
    and tx: "wd_depositor c \<in> set (tx_signers tx)"
      "{wd_depositor c, wd_custody_token_account c, wd_depositor_token_account c, wd_deposit c} \<subseteq> set (tx_writable tx)"
      "wd_token_program c = TOKEN_PROGRAM_ID"
  shows "\<exists>l'. withdraw pf tx c l =
    Inr (l', [WithdrawalCompleted (dep_token_mint d) (wd_depositor c) (dep_withdrawing_amount d)])"
proof -
  let ?cust = "wd_custody_token_account c" and ?dst = "wd_depositor_token_account c" and ?g = "wd_gateway_wallet c"
  have mint: "ta_mint s = dep_token_mint d" and own: "ta_owner s = ?g"
    using cust s(1) by (auto simp: custody_of_def)
  have g: "create_program_address pf [GATEWAY_WALLET_SEED, [gw_bump w]] WALLET_PROGRAM_ID = Inr ?g"
    and wallet: "wallet_at l ?g = Some w" "\<not> gw_paused w"
    using w by (simp_all add: wallet_running_def)
  have single: "acc_owner (l ?g) \<noteq> TOKEN_PROGRAM_ID" using wallet(1) by (auto simp: typed_Some)
  have "spendable ?g s" using own s by (simp add: spendable_def)
  then obtain l2 where tr: "token_transfer pf WALLET_PROGRAM_ID tx (Some [GATEWAY_WALLET_SEED, [gw_bump w]]) ?cust ?dst ?g
      (dep_withdrawing_amount d) l = (Inr l2 :: ledger wallet_result)"
    and moved: "transferred l ?cust ?dst ?g (dep_withdrawing_amount d) l2"
    using pda_transfer_progress [where tx = tx and n = "dep_withdrawing_amount d", OF s(1) _ t(1) _ t(2) single g] tx(2) t(4,5)
      mint s(5) amount_at_tok [OF s(1)] amount_at_tok [OF t(1)] by (auto simp: u64_le_iff)
  have "deposit_at l2 (wd_deposit c) = Some d"
    using d(1) by (simp add: typed_only_tokens [OF transferred_only_tokens [OF moved]])
  then have data: "acc_data (l2 (wd_deposit c)) = DepositData d" by (auto simp: typed_Some as_data_Some)
  have acc: "withdraw_accounts pf tx c l = Inr (w, s, d)"
  proof -
    obtain b where b: "get_custody_token_account_bump w (dep_token_mint d) = Inr b"
      "create_program_address pf [GATEWAY_WALLET_CUSTODY_SEED, dep_token_mint d, [b]] WALLET_PROGRAM_ID = Inr ?cust"
      using cust by (auto simp: custody_of_def)
    have loads: "load_wallet l ?g = (Inr w :: GatewayWallet wallet_result)"
      "load_token l ?cust = (Inr s :: TokenAccount wallet_result)"
      "load_token l ?dst = (Inr t :: TokenAccount wallet_result)"
      "load_deposit l (wd_deposit c) = (Inr d :: GatewayDeposit wallet_result)"
      using wallet(1) s(1) t(1) d(1) by (simp_all add: load_typed)
    show ?thesis
      unfolding withdraw_accounts_def loads
      using g wallet(2) b tx d(4) mint own t(3,4)
      by (simp add: load_signer_def load_program_def check_mut_def check_wallet_pda_def check_not_paused_def
          check_custody_pda_def check_seeds_bump_def check_token_owner_def check_token_mint_def)
  qed
  show ?thesis
    using d(2,3) by (simp add: withdraw_def acc complete_withdrawal_def tr exit_deposit_def exit_account_def data mint)
qed

theorem withdraw_succeeds_witness:
  "\<exists>l'. withdraw sample_platform sample_tx sample_withdraw sample_ledger =
      Inr (l', [WithdrawalCompleted MINT_KEY ALICE 50])"
proof -
  have "wallet_running sample_platform sample_ledger (wd_gateway_wallet sample_withdraw) sample_wallet"
    by (simp add: wallet_running_def sample_views sample_withdraw_def)
  moreover have "custody_of sample_platform sample_ledger (wd_gateway_wallet sample_withdraw) sample_wallet
      (dep_token_mint sample_alice_deposit) (wd_custody_token_account sample_withdraw)"
    by (simp add: custody_of_def sample_withdraw_def typed_def)
  ultimately show ?thesis
    using withdraw_succeeds [of sample_platform sample_ledger sample_withdraw sample_wallet sample_alice_deposit
        sample_tx "sample_token W_KEY 500" "sample_token ALICE 300"]
    by (simp add: sample_withdraw_def sample_tx_def sample_views typed_def)
qed

end
