(* ===== verification/WalletGuards.thy ===== *)
theory WalletGuards
  imports WalletSafety Books
begin

text \<open>
  What the guards of the GatewayWallet stop, and what its accounts keep: the pause switch freezes the funds,
  a denylisted address neither deposits nor is deposited for nor delegates, initialisation happens once and
  by the upgrade authority, the records keep their type and identity, and they always fit their accounts.
\<close>

section \<open>The pause switch\<close>

text \<open>There is one wallet state: whatever is running is it.\<close>

lemma running_is_the_wallet:
  assumes "wallet_wf pf l" "wallet_at l g = Some w" "wallet_running pf l g' w'"
  shows "g' = g" "w' = w"
proof -
  have "wallets_ok pf l" using assms(1) by (simp add: wallet_wf_def)
  moreover have other: "wallet_at l g' = Some w'" using assms(3) by (simp add: wallet_running_def)
  ultimately have "try_bumps pf [GATEWAY_WALLET_SEED] WALLET_PROGRAM_ID 255 = Some (g, gw_bump w)"
    "try_bumps pf [GATEWAY_WALLET_SEED] WALLET_PROGRAM_ID 255 = Some (g', gw_bump w')"
    using wallets_okD assms(2) by blast+
  then show "g' = g" by simp
  with other assms(2) show "w' = w" by simp
qed

lemma paused_not_running:
  "wallet_wf pf l \<Longrightarrow> wallet_at l g = Some w \<Longrightarrow> gw_paused w \<Longrightarrow> \<not> wallet_running pf l g' w'"
  using running_is_the_wallet by (metis wallet_running_def)

lemma burn_executed_running: "burn_executed pf tx c params l w d d' h n charged es l' \<Longrightarrow>
    wallet_running pf l (gb_gateway_wallet c) w"
  unfolding burn_executed_def Let_def by (elim conjE)

lemma paused_effect:
  assumes e: "wallet_effect pf tx l es l'" and stopped: "\<And>g w. \<not> wallet_running pf l g w"
  shows "deposit_at l' = deposit_at l \<and> (\<forall>e \<in> set es. balance_pair e = None) \<and>
    (\<forall>j t. tok_at l j = Some t \<longrightarrow> tok_at l' j = Some t)"
proof -
  have tok: "tok_at l' j = Some t" if t: "tok_at l j = Some t" for j t
    using e t
  proof (cases rule: effect_still)
    case credit
    then show ?thesis using stopped by (auto simp: deposit_made_def)
  next
    case pay_out
    then show ?thesis using stopped by blast
  next
    case burn
    then show ?thesis using stopped burn_executed_running by blast
  qed
  have "deposit_at l' = deposit_at l \<and> (\<forall>e \<in> set es. balance_pair e = None)"
    using e
  proof cases
    case credit
    then show ?thesis using stopped by (auto simp: deposit_made_def)
  next
    case burn
    then show ?thesis using stopped burn_executed_running by blast
  next
    case administer
    then show ?thesis by (rule role_done_views) (simp add: role_change_event)
  next
    case (support g w mint cust b l1 w')
    then show ?thesis using support_views(2) [OF support(6,8)] by simp
  next
    case authorise
    then show ?thesis using written_views(2) by simp
  next
    case revoke
    then show ?thesis using written_views(2) by (simp split: if_splits)
  next
    case ban
    then show ?thesis using written_views(3) by simp
  next
    case unban
    then show ?thesis using closed_views(2) by simp
  next
    case create
    then show ?thesis using written_views(1) by simp
  qed (use stopped in blast)+
  with tok show ?thesis by blast
qed

text \<open>C29: Pausing freezes the funds.  While the wallet is paused, no instruction that succeeds changes a deposit
  record or a token account or emits a Deposited, WithdrawalInitiated, WithdrawalCompleted or GatewayBurned
  event, and no delegate can be added or removed.\<close>

theorem paused_wallet_frozen:
  assumes "system_program_ok pf" "fits_usize ix" "wallet_wf pf l"
    and "wallet_dispatch pf tx ix l = Inr (l', es)" "wallet_at l g = Some w" "gw_paused w"
  shows "deposit_at l' = deposit_at l \<and> (\<forall>e \<in> set es. balance_pair e = None) \<and>
    (\<forall>j t. tok_at l j = Some t \<longrightarrow> tok_at l' j = Some t) \<and>
    (\<forall>c c' k. ix \<noteq> IxAddDelegate c k \<and> ix \<noteq> IxRemoveDelegate c' k)"
proof -
  note stopped = paused_not_running [OF assms(3,5,6)]
  have "ix \<noteq> IxAddDelegate c k" for c k
    using stopped assms(4) add_delegate_effect(1) [OF assms(1), of tx c k l l' es] by auto
  moreover have "ix \<noteq> IxRemoveDelegate c k" for c k
    using stopped assms(4) remove_delegate_effect [of pf tx c k l l' es] by auto
  ultimately show ?thesis using paused_effect [OF wallet_dispatch_effect [OF assms(1,2,4)] stopped] by blast
qed

definition paused_ledger :: ledger where
  "paused_ledger = sample_ledger(W_KEY := holding WALLET_PROGRAM_ID (WalletData (sample_wallet\<lparr> gw_paused := True \<rparr>)))"

lemma sample_paused_space: "wallet_serialized_len (sample_wallet\<lparr> gw_paused := b \<rparr>) \<le> WALLET_SPACE"
  by (simp add: sample_wallet_def wallet_serialized_len_def WALLET_SPACE_def
      WalletTypes.MAX_SUPPORTED_TOKENS_def MAX_BURN_SIGNERS_def)

lemma sample_pauser [simp]: "gw_pauser sample_wallet = key 41"
  by (simp add: sample_wallet_def)

lemma sample_pause:
  "pause sample_platform (signed_by 41) (sample_role 41) sample_ledger = Inr (paused_ledger, [WalletEvent.Paused (key 41)])"
  by (simp add: pause_def role_accounts_def finish_def exit_wallet_def sample_role_def signed_by_def sample_checks
      exit_account_def sample_paused_space holding_write paused_ledger_def)

lemma sample_unpause:
  "\<exists>l'. unpause sample_platform (signed_by 41) (sample_role 41) paused_ledger = Inr (l', [WalletEvent.Unpaused (key 41)])"
  by (simp add: unpause_def role_accounts_def finish_def exit_wallet_def sample_role_def signed_by_def sample_checks
      exit_account_def sample_wallet_space holding_write paused_ledger_def wallet_serialized_len_def WALLET_SPACE_def
      WalletTypes.MAX_SUPPORTED_TOKENS_def MAX_BURN_SIGNERS_def sample_wallet_def)

lemma paused_ledger_wf: "wallet_wf sample_platform paused_ledger"
proof -
  have users: "signed_by_users sample_platform (signed_by 41)"
    by (rule sample_users) (simp add: signed_by_def)
  have "wallet_step sample_platform sample_ledger [WalletEvent.Paused (key 41)] paused_ledger"
    by (rule wallet_call [OF users, of "IxPause (sample_role 41)"])
      (simp_all only: fits_usize.simps wallet_dispatch.simps sample_pause)
  from wallet_machine.inv_step [OF sample_inv this] show ?thesis by (simp add: wallet_inv_def)
qed

theorem paused_wallet_frozen_witness:
  "\<exists>l'. wallet_dispatch sample_platform (signed_by 41) (IxUnpause (sample_role 41)) paused_ledger =
      Inr (l', [WalletEvent.Unpaused (key 41)]) \<and> deposit_at l' = deposit_at paused_ledger"
proof -
  obtain l' where run: "wallet_dispatch sample_platform (signed_by 41) (IxUnpause (sample_role 41)) paused_ledger =
      Inr (l', [WalletEvent.Unpaused (key 41)])" using sample_unpause by auto
  have "wallet_at paused_ledger W_KEY = Some (sample_wallet\<lparr> gw_paused := True \<rparr>)"
    by (simp add: paused_ledger_def typed_def)
  from paused_wallet_frozen [OF sample_platform_ok _ paused_ledger_wf run this] run show ?thesis by auto
qed

section \<open>The denylist\<close>

text \<open>C30: A denylisted address is shut out.  While the denylist account of an address exists, the address cannot
  deposit, cannot send a deposit for another, cannot be deposited for, cannot delegate and cannot be made a
  delegate: every such instruction fails.\<close>

theorem denylisted_shut_out:
  assumes ok: "system_program_ok pf"
    and k: "try_bumps pf [DENYLIST_SEED, a] WALLET_PROGRAM_ID 255 = Some (k, b)" and listed: "is_account_denylisted l k"
  shows "(dp_owner cd = a \<longrightarrow> deposit pf tx cd n l \<noteq> Inr r) \<and>
    (df_owner cf = a \<or> depositor = a \<longrightarrow> deposit_for pf tx cf n depositor l \<noteq> Inr r) \<and>
    (ad_depositor ca = a \<or> delegate = a \<longrightarrow> add_delegate pf tx ca delegate l \<noteq> Inr r)"
proof (intro conjI impI)
  obtain l' es where r: "r = (l', es)" by (cases r)
  show "deposit pf tx cd n l \<noteq> Inr r" if "dp_owner cd = a"
    using deposit_effect(2,3) [OF ok, of tx cd n l l' es] k listed that by (auto simp: r)
  show "deposit_for pf tx cf n depositor l \<noteq> Inr r" if "df_owner cf = a \<or> depositor = a"
    using deposit_for_effect(2-5) [OF ok, of tx cf n depositor l l' es] k listed that by (auto simp: r)
  show "add_delegate pf tx ca delegate l \<noteq> Inr r" if "ad_depositor ca = a \<or> delegate = a"
  proof
    assume run: "add_delegate pf tx ca delegate l = Inr r"
    then obtain x where "add_delegate_accounts pf tx ca delegate l = Inr x"
      unfolding add_delegate_def by (auto simp: and_then_eq_Inr)
    then have "\<exists>b. try_bumps pf [DENYLIST_SEED, ad_depositor ca] WALLET_PROGRAM_ID 255 = Some (ad_depositor_denylist ca, b)"
      "\<exists>b. try_bumps pf [DENYLIST_SEED, delegate] WALLET_PROGRAM_ID 255 = Some (ad_delegate_denylist ca, b)"
      unfolding add_delegate_accounts_def by (auto simp: and_then_eq_Inr check_seeds_find_Inr)
    then show False
      using add_delegate_effect(2,3) [OF ok run [unfolded r]] k listed that by auto
  qed
qed

definition denylisted_ledger :: ledger where
  "denylisted_ledger = sample_ledger(ALICE_DENY := holding WALLET_PROGRAM_ID DenylistData)"

theorem denylisted_shut_out_witness:
  "(\<exists>r. deposit sample_platform sample_tx sample_deposit_ctx 25 sample_ledger = Inr r) \<and>
   (\<forall>r. deposit sample_platform sample_tx sample_deposit_ctx 25 denylisted_ledger \<noteq> Inr r)"
proof -
  have "is_account_denylisted denylisted_ledger ALICE_DENY"
    by (simp add: is_account_denylisted_def denylisted_ledger_def DENYLIST_SPACE_def)
  note shut = denylisted_shut_out [OF sample_platform_ok ALICE_DENY_new(2) this]
  have "deposit sample_platform sample_tx sample_deposit_ctx 25 denylisted_ledger \<noteq> Inr r" for r
    using shut [of sample_deposit_ctx sample_tx 25 r] by (simp add: sample_deposit_ctx_def)
  with sample_deposit_runs show ?thesis by blast
qed

section \<open>Initialisation\<close>

text \<open>The program data that names the upgrade authority is the one the loader keeps for this program.\<close>

lemma initialize_program_data:
  assumes ok: "system_program_ok pf" and run: "initialize pf tx c params l = Inr (l', es)"
  shows "acc_owner (l WALLET_PROGRAM_ID) = LOADER_PROGRAM_ID"
    "acc_data (l WALLET_PROGRAM_ID) = ProgramInfo (in_program_data c)"
proof -
  from run obtain x where "initialize_accounts pf tx c l = Inr x"
    unfolding initialize_def by (auto simp: and_then_eq_Inr)
  then obtain w b l1 where p: "in_program c = WALLET_PROGRAM_ID"
    and init: "init_account pf WALLET_PROGRAM_ID tx (in_payer c) (in_gateway_wallet c) [GATEWAY_WALLET_SEED] WALLET_SPACE
      zeroed_GatewayWallet l = (Inr (w, b, l1) :: (GatewayWallet \<times> u8 \<times> ledger) wallet_result)"
    and addr: "programdata_address l1 (in_program c) = (Inr (Some (in_program_data c)) :: pubkey option wallet_result)"
    unfolding initialize_accounts_def by (auto simp: and_then_eq_Inr require_eq_Inr load_program_def)
  from init obtain m bs n where "create_init_account pf WALLET_PROGRAM_ID tx (in_payer c) (in_gateway_wallet c) n
      WALLET_PROGRAM_ID bs l = (Inr m :: ledger wallet_result)" "l1 = m"
    by (auto simp: init_account_def and_then_eq_Inr)
  then obtain n where made: "account_made l (in_gateway_wallet c) WALLET_PROGRAM_ID (Raw (replicate n 0)) l1"
    using create_init_account_made [OF ok] by blast
  have own: "acc_owner (l1 WALLET_PROGRAM_ID) = LOADER_PROGRAM_ID"
    "acc_data (l1 WALLET_PROGRAM_ID) = ProgramInfo (in_program_data c)"
    using addr unfolding p programdata_address_def
    by (cases "acc_data (l1 WALLET_PROGRAM_ID)"; simp split: if_splits)+
  then have "in_gateway_wallet c \<noteq> WALLET_PROGRAM_ID" using made by (auto simp: account_made_def)
  with made own show "acc_owner (l WALLET_PROGRAM_ID) = LOADER_PROGRAM_ID"
    "acc_data (l WALLET_PROGRAM_ID) = ProgramInfo (in_program_data c)"
    by (auto simp: account_made_def)
qed

text \<open>C33: The wallet is initialised once, by its upgrade authority.  An initialize that succeeds found the canonical
  wallet address unused and was signed by the upgrade authority in the program data the loader keeps for this program; it creates
  the state with this authority in every role, not paused, version 1, the given domain and a positive
  delay, and nothing else; afterwards no initialize can succeed again.\<close>

theorem initialize_once:
  assumes ok: "system_program_ok pf" and run: "initialize pf tx c params l = Inr (l', es)"
  shows "fresh l (in_gateway_wallet c) \<and> in_upgrade_authority c \<in> set (tx_signers tx) \<and>
    acc_owner (l WALLET_PROGRAM_ID) = LOADER_PROGRAM_ID \<and>
    acc_data (l WALLET_PROGRAM_ID) = ProgramInfo (in_program_data c) \<and>
    acc_data (l (in_program_data c)) = ProgramData (Some (in_upgrade_authority c)) \<and>
    (\<exists>b. try_bumps pf [GATEWAY_WALLET_SEED] WALLET_PROGRAM_ID 255 = Some (in_gateway_wallet c, b) \<and>
      wallet_at l' = (wallet_at l)(in_gateway_wallet c \<mapsto>
        \<lparr> gw_bump = b, gw_owner = in_upgrade_authority c, gw_pending_owner = default_pubkey,
          gw_pauser = in_upgrade_authority c, gw_denylister = in_upgrade_authority c,
          gw_token_controller = in_upgrade_authority c, gw_fee_recipient = in_upgrade_authority c,
          gw_local_domain = ip_local_domain params, gw_version = 1,
          gw_withdrawal_delay = ip_withdrawal_delay params, gw_paused = False, gw_supported_tokens = [],
          gw_custody_token_account_bumps = [], gw_burn_signers = [] \<rparr>)) \<and>
    0 < unat (ip_withdrawal_delay params) \<and> deposit_at l' = deposit_at l \<and> delegate_at l' = delegate_at l \<and>
    (\<forall>tx' c' params' r. initialize pf tx' c' params' l' \<noteq> Inr r)"
proof -
  let ?k = "in_gateway_wallet c"
  from initialize_effect(1) [OF ok run] obtain b where
    k: "try_bumps pf [GATEWAY_WALLET_SEED] WALLET_PROGRAM_ID 255 = Some (?k, b)" and new: "fresh l ?k"
    and auth: "in_upgrade_authority c \<in> set (tx_signers tx)"
      "acc_data (l (in_program_data c)) = ProgramData (Some (in_upgrade_authority c))"
    and w: "account_written l ?k as_wallet (WalletData
        (zeroed_GatewayWallet\<lparr> gw_bump := b, gw_owner := in_upgrade_authority c,
           gw_pauser := in_upgrade_authority c, gw_denylister := in_upgrade_authority c,
           gw_token_controller := in_upgrade_authority c, gw_fee_recipient := in_upgrade_authority c,
           gw_local_domain := ip_local_domain params, gw_version := 1,
           gw_withdrawal_delay := ip_withdrawal_delay params \<rparr>)) l'" by blast
  have "initialize pf tx' c' params' l' \<noteq> Inr r" for tx' c' params' r
  proof
    assume again: "initialize pf tx' c' params' l' = Inr r"
    obtain l2 es2 where "r = (l2, es2)" by (cases r)
    with again initialize_effect(1) [OF ok, of tx' c' params' l' l2 es2] k have "fresh l' ?k" by auto
    moreover have "acc_owner (l' ?k) = WALLET_PROGRAM_ID" using w by (simp add: written_def)
    ultimately show False by (simp add: fresh_def)
  qed
  moreover have "0 < unat (ip_withdrawal_delay params)"
    using initialize_effect(2) [OF ok run] by (simp add: u64_less_iff)
  ultimately show ?thesis
    using k new auth written_views(1) [OF w] initialize_program_data [OF ok run]
    by (auto simp: zeroed_GatewayWallet_def)
qed

definition PROGDATA_KEY :: pubkey where "PROGDATA_KEY = key 7"

definition genesis_ledger :: ledger where
  "genesis_ledger = (\<lambda>_. empty_account)
     (ALICE := holding SYSTEM_PROGRAM_ID (Raw []),
      PROGDATA_KEY := holding LOADER_PROGRAM_ID (ProgramData (Some ALICE)),
      WALLET_PROGRAM_ID := holding LOADER_PROGRAM_ID (ProgramInfo PROGDATA_KEY))"

definition sample_init_ctx :: InitializeContext where
  "sample_init_ctx = \<lparr> in_payer = ALICE, in_upgrade_authority = ALICE, in_gateway_wallet = W_KEY,
     in_program_data = PROGDATA_KEY, in_program = WALLET_PROGRAM_ID, in_system_program = SYSTEM_PROGRAM_ID \<rparr>"

definition sample_init_params :: InitializeParams where
  "sample_init_params = \<lparr> ip_local_domain = 5, ip_withdrawal_delay = 100 \<rparr>"

lemma genesis_keys [simp]: "W_KEY \<noteq> PROGDATA_KEY" "W_KEY \<noteq> WALLET_PROGRAM_ID" "PROGDATA_KEY \<noteq> ALICE"
  "WALLET_PROGRAM_ID \<noteq> ALICE" "WALLET_PROGRAM_ID \<noteq> PROGDATA_KEY"
  by (simp_all add: PROGDATA_KEY_def sample_key_defs sample_hash_def key_list seed_defs WALLET_PROGRAM_ID_def)

lemmas genesis_keys' [simp] = genesis_keys [symmetric]

lemma sample_init_runs:
  "\<exists>l' es. initialize sample_platform sample_tx sample_init_ctx sample_init_params genesis_ledger = Inr (l', es)"
  by (simp add: initialize_def initialize_accounts_def sample_init_ctx_def sample_init_params_def sample_tx_def
      genesis_ledger_def sample_checks load_program_data_def programdata_address_def init_account_def
      create_init_account_def empty_account_def system_create_account_def sample_create_def sample_steps
      exit_wallet_def wallet_serialized_len_def zeroed_GatewayWallet_def WALLET_SPACE_def
      WalletTypes.MAX_SUPPORTED_TOKENS_def MAX_BURN_SIGNERS_def)

theorem initialize_once_witness:
  "\<exists>l' es w. initialize sample_platform sample_tx sample_init_ctx sample_init_params genesis_ledger = Inr (l', es) \<and>
     wallet_at l' W_KEY = Some w \<and> gw_owner w = ALICE \<and> \<not> gw_paused w \<and>
     (\<forall>r. initialize sample_platform sample_tx sample_init_ctx sample_init_params l' \<noteq> Inr r)"
proof -
  obtain l' es where run: "initialize sample_platform sample_tx sample_init_ctx sample_init_params genesis_ledger = Inr (l', es)"
    using sample_init_runs by blast
  from initialize_once [OF sample_platform_ok run] run show ?thesis by (auto simp: sample_init_ctx_def)
qed

section \<open>What the accounts keep\<close>

definition deposit_identity :: "ledger \<Rightarrow> pubkey \<Rightarrow> (u8 \<times> pubkey \<times> pubkey) option" where
  "deposit_identity l k = map_option (\<lambda>d. (dep_bump d, dep_token_mint d, dep_depositor d)) (deposit_at l k)"

definition wallet_identity :: "ledger \<Rightarrow> pubkey \<Rightarrow> (u8 \<times> u32 \<times> u32) option" where
  "wallet_identity l k = map_option (\<lambda>w. (gw_bump w, gw_local_domain w, gw_version w)) (wallet_at l k)"

text \<open>Every identity a ledger holds is held by the other.\<close>

definition accounts_kept :: "ledger \<Rightarrow> ledger \<Rightarrow> bool" where
  "accounts_kept l l' \<longleftrightarrow> wallet_identity l \<subseteq>\<^sub>m wallet_identity l' \<and> deposit_identity l \<subseteq>\<^sub>m deposit_identity l' \<and>
     dom (delegate_at l) \<subseteq> dom (delegate_at l')"

lemma accounts_kept_trans: "accounts_kept l m \<Longrightarrow> accounts_kept m l' \<Longrightarrow> accounts_kept l l'"
  unfolding accounts_kept_def by (blast intro: map_le_trans)

lemma wallets_kept:
  assumes "wallets_change pf tx l es l'"
  shows "wallet_identity l \<subseteq>\<^sub>m wallet_identity l'"
proof -
  have "wallet_at l k = Some w \<Longrightarrow> \<exists>w'. wallet_at l' k = Some w' \<and> gw_bump w' = gw_bump w \<and>
      gw_local_domain w' = gw_local_domain w \<and> gw_version w' = gw_version w" for k w
    using assms
  proof cases
    case (wallet_role j w0 role w' e)
    then show "wallet_at l k = Some w \<Longrightarrow> ?thesis"
      using role_change_fields [OF wallet_role(4)] by (cases "k = j") auto
  next
    case (wallet_created j)
    then show "wallet_at l k = Some w \<Longrightarrow> ?thesis" by (cases "k = j") (auto simp: fresh_typed)
  next
    case (wallet_token j w0 mint cust b w')
    then show "wallet_at l k = Some w \<Longrightarrow> ?thesis"
      using add_token_fields [OF wallet_token(5)] by (cases "k = j") auto
  qed auto
  then show ?thesis by (fastforce simp: map_le_def wallet_identity_def)
qed

lemma deposits_kept:
  assumes "deposits_change pf l l'" "deposits_ok pf l"
  shows "deposit_identity l \<subseteq>\<^sub>m deposit_identity l'"
proof -
  have "deposit_at l k = Some d \<Longrightarrow> \<exists>d'. deposit_at l' k = Some d' \<and> same_deposit_owner d d'" for k d
    using assms(1) deposit_before_known [OF assms(2)] unfolding deposits_change_def
    by (auto simp: same_deposit_owner_def)
  then show ?thesis by (fastforce simp: map_le_def deposit_identity_def same_deposit_owner_def)
qed

lemma delegates_kept: "delegates_change pf tx l l' \<Longrightarrow> dom (delegate_at l) \<subseteq> dom (delegate_at l')"
  by (cases rule: delegates_change.cases, assumption) auto

lemma accounts_kept_step:
  assumes inv: "wallet_inv pf l" and step: "wallet_step pf l es l'"
  shows "accounts_kept l l'"
  using step
proof cases
  case (wallet_call tx ix)
  have ok: "system_program_ok pf" "deposits_ok pf l" using inv by (simp_all add: wallet_inv_def wallet_wf_def)
  note e = wallet_dispatch_effect [OF ok(1) wallet_call(2,3)]
  show ?thesis
    using wallets_kept [OF effect_wallets [OF e]] deposits_kept [OF effect_deposits [OF e] ok(2)]
      delegates_kept [OF effect_delegates [OF e]]
    by (simp add: accounts_kept_def)
next
  case wallet_rest
  then show ?thesis
    by (simp add: accounts_kept_def wallet_identity_def deposit_identity_def env_views [OF wallet_rest(2)] map_le_def)
qed

text \<open>C32: Accounts keep their type and identity.  Over every history, an account that holds a wallet state, a
  deposit record or a delegate record holds one of the same type ever after; the wallet keeps its bump,
  domain and version, a deposit record its bump, mint and depositor: no record is closed, retyped or
  reassigned.\<close>

theorem wallet_accounts_kept:
  assumes "system_program_ok pf" "wallet_wf pf l" "wallet_run pf l es l'"
  shows "wallet_identity l \<subseteq>\<^sub>m wallet_identity l' \<and> deposit_identity l \<subseteq>\<^sub>m deposit_identity l' \<and>
    dom (delegate_at l) \<subseteq> dom (delegate_at l')"
proof -
  have "accounts_kept l s \<Longrightarrow> accounts_kept l t" if "wallet_inv pf s" "wallet_step pf s es t" for s es t
    using accounts_kept_trans accounts_kept_step [OF that] by blast
  moreover have "wallet_inv pf l" "accounts_kept l l"
    using assms(1,2) by (simp_all add: wallet_inv_def accounts_kept_def)
  ultimately have "accounts_kept l l'"
    using wallet_machine.run_stable [of pf "accounts_kept l", OF _ assms(3)] by blast
  then show ?thesis by (simp add: accounts_kept_def)
qed

theorem wallet_accounts_kept_witness:
  "\<exists>es l'. es \<noteq> [] \<and> wallet_run sample_platform sample_ledger es l' \<and>
     deposit_identity l' DEPOSIT_KEY = Some (255, MINT_KEY, ALICE)"
proof -
  obtain es l' where run: "wallet_run sample_platform sample_ledger es l'" "es \<noteq> []"
    using sample_burn_step by blast
  have "deposit_identity sample_ledger DEPOSIT_KEY = Some (255, MINT_KEY, ALICE)"
    by (simp add: deposit_identity_def sample_views)
  moreover have "DEPOSIT_KEY \<in> dom (deposit_identity sample_ledger)" using calculation by blast
  ultimately have "deposit_identity l' DEPOSIT_KEY = Some (255, MINT_KEY, ALICE)"
    using wallet_accounts_kept [OF sample_platform_ok sample_wf run(1)] unfolding map_le_def by metis
  with run show ?thesis by blast
qed

text \<open>C40: The wallet state always fits its account.  Over every history, the Borsh serialisation of the state,
  whose three vectors grow, is at most the space allocated at initialisation, so writing it back never fails
  with AccountDidNotSerialize: the three vectors hold at most ten entries each.\<close>

theorem wallet_fits_account:
  assumes "system_program_ok pf" "wallet_wf pf l" "wallet_run pf l es l'" "wallet_at l' k = Some w"
  shows "wallet_serialized_len w \<le> WALLET_SPACE \<and> (\<exists>l2. exit_wallet k w l' = (Inr l2 :: ledger wallet_result)) \<and>
    length (gw_supported_tokens w) \<le> 10 \<and> length (gw_custody_token_account_bumps w) \<le> 10 \<and>
    length (gw_burn_signers w) \<le> 10"
proof -
  have "wallets_ok pf l'"
    using wallet_machine.inv_run [OF assms(3)] assms(1,2) by (simp add: wallet_inv_def wallet_wf_def)
  then have "wallet_ok pf w" using wallets_okD assms(4) by blast
  then have "length (gw_supported_tokens w) \<le> 10" "length (gw_burn_signers w) \<le> 10"
    "length (gw_custody_token_account_bumps w) = length (gw_supported_tokens w)"
    by (simp_all add: wallet_ok_def tokens_aligned_def well_formed_registry_def
        WalletTypes.MAX_SUPPORTED_TOKENS_def MAX_BURN_SIGNERS_def)
  moreover from this have "wallet_serialized_len w \<le> WALLET_SPACE"
    by (simp add: wallet_serialized_len_def WALLET_SPACE_def WalletTypes.MAX_SUPPORTED_TOKENS_def MAX_BURN_SIGNERS_def)
  moreover have "acc_data (l' k) = WalletData w" using assms(4) by (auto simp: typed_Some as_data_Some)
  ultimately show ?thesis by (simp add: exit_wallet_def exit_account_def)
qed

theorem wallet_fits_account_witness:
  "wallet_run sample_platform sample_ledger [WalletEvent.Paused (key 41)] paused_ledger \<and>
   wallet_serialized_len (sample_wallet\<lparr> gw_paused := True \<rparr>) \<le> WALLET_SPACE"
proof -
  have users: "signed_by_users sample_platform (signed_by 41)"
    by (rule sample_users) (simp add: signed_by_def)
  have "wallet_step sample_platform sample_ledger [WalletEvent.Paused (key 41)] paused_ledger"
    by (rule wallet_call [OF users, of "IxPause (sample_role 41)"])
      (simp_all only: fits_usize.simps wallet_dispatch.simps sample_pause)
  then have run: "wallet_run sample_platform sample_ledger [WalletEvent.Paused (key 41)] paused_ledger"
    by (rule run_single [of "wallet_step sample_platform"])
  have "wallet_at paused_ledger W_KEY = Some (sample_wallet\<lparr> gw_paused := True \<rparr>)"
    by (simp add: paused_ledger_def typed_def)
  from wallet_fits_account [OF sample_platform_ok sample_wf run this] run show ?thesis by simp
qed

end
