(* ===== verification/SharedSpec.thy ===== *)
theory SharedSpec
  imports Samples
begin

text \<open>
  What the two programs rest on: a recovered EVM signature cannot be mirrored, and a used-hash marker can always
  be created whatever lamports were sent to its address before.
\<close>

section \<open>EVM signatures\<close>

text \<open>C38: A recovered signature is canonical.  When recovery succeeds, the hash has 32 bytes, the signature 65
  with a recovery id of 27 or 28, and its two scalars are in range, the second in the lower half; so the
  mirrored signature (same first scalar, second scalar subtracted from the group order), which recovers
  the same key, is rejected with every recovery id.\<close>

theorem evm_signature_canonical:
  assumes "recover_evm_signer pf h sig = Inr signer"
  shows "length h = 32 \<and> length sig = 65 \<and> sig ! 64 \<in> {27, 28} \<and> be_nat (take 32 sig) < SECP256K1_N \<and>
    2 * be_nat (take 32 (drop 32 sig)) < SECP256K1_N \<and>
    (\<forall>sig' signer'. be_nat (take 32 sig') = be_nat (take 32 sig) \<and>
       be_nat (take 32 (drop 32 sig')) = SECP256K1_N - be_nat (take 32 (drop 32 sig)) \<longrightarrow>
       recover_evm_signer pf h sig' \<noteq> Inr signer')"
  using assms by (auto simp: recover_evm_signer_Inr SECP256K1_N_def SECP256K1_N_H_def)

theorem evm_signature_canonical_witness:
  "\<exists>signer. recover_evm_signer sample_platform (key 9) (key 1 @ key 1 @ [27]) = Inr signer \<and>
     2 * be_nat (key 1) < SECP256K1_N"
proof -
  have "be_nat (key 1) < SECP256K1_N" "be_nat (key 1) < SECP256K1_N_H"
    by (simp_all add: be_nat_def key_list SECP256K1_N_def SECP256K1_N_H_def)
  then have run: "recover_evm_signer sample_platform (key 9) (key 1 @ key 1 @ [27]) =
      Inr (evm_address sample_platform (key 1 @ key 1))"
    by (simp add: recover_evm_signer_Inr nth_append) (simp add: sample_platform_def)
  from evm_signature_canonical [OF run] run show ?thesis by auto
qed

section \<open>Marker accounts\<close>

text \<open>A used-hash marker cannot be blocked by sending lamports to its address.  When the address is an unused
  system account, holding any number of lamports, and the payer signed and has the rent, then creating the marker
  succeeds; the account then belongs to the program and reads as used, and no other account's owner or
  data changed.\<close>

theorem marker_creation_not_blocked:
  assumes ok: "system_program_ok pf" and live: "system_program_live pf"
    and unused: "acc_owner (l k) = SYSTEM_PROGRAM_ID" "acc_data (l k) = Raw []"
    and payer: "acc_owner (l payer) = SYSTEM_PROGRAM_ID" "acc_data (l payer) = Raw []" "payer \<noteq> k"
      "minimum_balance pf USED_TRANSFER_SPEC_HASH_ACCOUNT_SPACE \<le> acc_lamports (l payer)"
    and tx: "payer \<in> set (tx_signers tx)" "{payer, k} \<subseteq> set (tx_writable tx)"
    and pda: "create_program_address pf [USED_TRANSFER_SPEC_HASH_SEED_PREFIX, h, [b]] p = Inr k"
    and disc: "length disc = 2"
  shows "\<exists>l'. create_used_transfer_spec_hash_account pf tx k h b payer p disc l = (Inr l' :: ('e, ledger) result) \<and>
    account_made l k p (Raw disc) l' \<and> is_transfer_spec_hash_used (acc_data (l' k)) disc"
proof -
  from marker_progress [OF ok live unused payer tx pda disc] obtain l' where
    "create_used_transfer_spec_hash_account pf tx k h b payer p disc l = (Inr l' :: ('e, ledger) result)" by blast
  with create_marker_made [OF ok this] show ?thesis by (auto simp: account_made_def marker_used)
qed

text \<open>An attacker sent three lamports to the marker's address.\<close>

definition prefunded_ledger :: ledger where
  "prefunded_ledger = sample_ledger(MARK_KEY := \<lparr> acc_lamports = 3, acc_owner = SYSTEM_PROGRAM_ID, acc_data = Raw [] \<rparr>)"

theorem marker_creation_not_blocked_witness:
  "\<exists>l'. create_used_transfer_spec_hash_account sample_platform sample_burn_tx MARK_KEY sample_spec_hash 255 ALICE
      WALLET_PROGRAM_ID WALLET_USED_MARKER prefunded_ledger = (Inr l' :: (GatewayWalletError, ledger) result) \<and>
    is_transfer_spec_hash_used (acc_data (l' MARK_KEY)) WALLET_USED_MARKER"
proof -
  have ledger: "acc_owner (prefunded_ledger MARK_KEY) = SYSTEM_PROGRAM_ID" "acc_data (prefunded_ledger MARK_KEY) = Raw []"
    "acc_owner (prefunded_ledger ALICE) = SYSTEM_PROGRAM_ID" "acc_data (prefunded_ledger ALICE) = Raw []"
    "ALICE \<noteq> MARK_KEY" "minimum_balance sample_platform USED_TRANSFER_SPEC_HASH_ACCOUNT_SPACE
      \<le> acc_lamports (prefunded_ledger ALICE)"
    by (simp_all add: prefunded_ledger_def)
  have tx: "ALICE \<in> set (tx_signers sample_burn_tx)" "{ALICE, MARK_KEY} \<subseteq> set (tx_writable sample_burn_tx)"
    by (simp_all add: sample_burn_tx_def sample_burn_call_def)
  have pda: "create_program_address sample_platform [USED_TRANSFER_SPEC_HASH_SEED_PREFIX, sample_spec_hash, [255]]
      WALLET_PROGRAM_ID = Inr MARK_KEY" by simp
  have "length WALLET_USED_MARKER = 2" by (simp add: WALLET_USED_MARKER_def)
  from marker_creation_not_blocked [OF sample_platform_ok sample_platform_live ledger tx pda this] show ?thesis by blast
qed

end
