(* ===== verification/Isolation.thy ===== *)
theory Isolation
  imports MinterContracts WalletContracts Custody
begin

text \<open>
  What a program never does to another one that lives on the same ledger: \<open>spares pf p l l'\<close> says that a
  step of the ledger leaves the accounts, the unused addresses and the tokens of program \<open>p\<close> alone.  It is
  the guarantee of every instruction of the GatewayWallet towards the GatewayMinter and the other way
  round, and it implies the rely condition (\<open>wallet_env\<close>, \<open>minter_env\<close>) of the program spared.
\<close>

section \<open>Sparing a program\<close>

definition program_pda :: "platform \<Rightarrow> pubkey \<Rightarrow> pubkey \<Rightarrow> bool" where
  "program_pda pf p k \<longleftrightarrow> (\<exists>seeds. create_program_address pf seeds p = Inr k)"

definition held_for :: "platform \<Rightarrow> pubkey \<Rightarrow> TokenAccount \<Rightarrow> bool" where
  "held_for pf p t \<longleftrightarrow> program_pda pf p (ta_owner t) \<and> ta_delegate t = None \<and> ta_close_authority t = None"

definition keeps_held :: "platform \<Rightarrow> pubkey \<Rightarrow> ledger \<Rightarrow> ledger \<Rightarrow> bool" where
  "keeps_held pf p l l' \<longleftrightarrow> (\<forall>k t. tok_at l k = Some t \<and> held_for pf p t \<longrightarrow>
     (\<exists>t'. tok_at l' k = Some t' \<and> ta_mint t' = ta_mint t \<and> held_for pf p t' \<and> ta_owner t' = ta_owner t \<and>
        ta_amount t \<le> ta_amount t'))"

definition spares :: "platform \<Rightarrow> pubkey \<Rightarrow> ledger \<Rightarrow> ledger \<Rightarrow> bool" where
  "spares pf p l l' \<longleftrightarrow>
     (\<forall>k. acc_owner (l k) = p \<longrightarrow> acc_owner (l' k) = p \<and> acc_data (l' k) = acc_data (l k)) \<and>
     (\<forall>k. acc_owner (l k) \<noteq> p \<longrightarrow> acc_owner (l' k) \<noteq> p) \<and>
     (\<forall>k. program_pda pf p k \<and> fresh l k \<longrightarrow> fresh l' k) \<and> keeps_held pf p l l'"

lemma keeps_held_refl [simp]: "keeps_held pf p l l"
  by (auto simp: keeps_held_def)

lemma keeps_heldD: "keeps_held pf p l l' \<Longrightarrow> tok_at l k = Some t \<Longrightarrow> held_for pf p t \<Longrightarrow>
    \<exists>t'. tok_at l' k = Some t' \<and> ta_mint t' = ta_mint t \<and> held_for pf p t' \<and> ta_owner t' = ta_owner t \<and>
      ta_amount t \<le> ta_amount t'"
  by (simp add: keeps_held_def)

lemma keeps_held_trans:
  assumes "keeps_held pf p l m" "keeps_held pf p m l'"
  shows "keeps_held pf p l l'"
  unfolding keeps_held_def
proof (intro allI impI, elim conjE)
  fix k t
  assume "tok_at l k = Some t" "held_for pf p t"
  from keeps_heldD [OF assms(1) this] obtain u where u: "tok_at m k = Some u" "held_for pf p u"
    "ta_mint u = ta_mint t" "ta_owner u = ta_owner t" "ta_amount t \<le> ta_amount u" by blast
  from keeps_heldD [OF assms(2) u(1,2)] u(3-5)
  show "\<exists>t'. tok_at l' k = Some t' \<and> ta_mint t' = ta_mint t \<and> held_for pf p t' \<and> ta_owner t' = ta_owner t \<and>
      ta_amount t \<le> ta_amount t'"
    by (auto intro: order_trans)
qed

lemma keeps_held_tok_at: "tok_at l' = tok_at l \<Longrightarrow> keeps_held pf p l l'"
  by (auto simp: keeps_held_def)

lemma spares_trans: "spares pf p l m \<Longrightarrow> spares pf p m l' \<Longrightarrow> spares pf p l l'"
  by (simp add: spares_def) (metis keeps_held_trans)

lemma spares_wallet_env: "spares pf WALLET_PROGRAM_ID l l' \<Longrightarrow> wallet_env pf l l'"
  unfolding spares_def wallet_env_def keeps_held_def held_for_def held_safely_def wallet_pda_def program_pda_def
  by (intro conjI allI impI keeps_records_untouched) blast+

lemma spares_minter_env: "spares pf MINTER_PROGRAM_ID l l' \<Longrightarrow> minter_env l l'"
  unfolding spares_def by (intro keeps_records_untouched) blast+

section \<open>Token moves\<close>

text \<open>Tokens leave an account only under its owner or delegate, so the accounts held for \<open>p\<close> only gain.\<close>

lemma identity_held: "same_account_identity t t' \<Longrightarrow> held_for pf p t \<Longrightarrow> held_for pf p t'"
  by (simp add: same_account_identity_def held_for_def)

lemma keeps_held_moved:
  assumes ot: "only_tokens_moved l l'"
    and gain: "\<And>k t. tok_at l k = Some t \<Longrightarrow> held_for pf p t \<Longrightarrow> amount_at l k \<le> amount_at l' k"
  shows "keeps_held pf p l l'"
  unfolding keeps_held_def
proof (intro allI impI, elim conjE)
  fix k t
  assume t: "tok_at l k = Some t" "held_for pf p t"
  from tok_at_only_tokens [OF ot t(1)] obtain t' where t': "tok_at l' k = Some t'" "same_account_identity t t'" by blast
  with gain [OF t] identity_held [OF t'(2) t(2)] amount_at_tok [OF t(1)] amount_at_tok [OF t'(1)]
  show "\<exists>t'. tok_at l' k = Some t' \<and> ta_mint t' = ta_mint t \<and> held_for pf p t' \<and> ta_owner t' = ta_owner t \<and>
      ta_amount t \<le> ta_amount t'"
    by (auto simp: same_account_identity_def u64_le_iff)
qed

lemma keeps_held_transferred:
  assumes tr: "transferred l src dst a n l'" and a: "\<not> program_pda pf p a"
  shows "keeps_held pf p l l'"
proof (rule keeps_held_moved [OF transferred_only_tokens [OF tr]])
  fix k t
  assume t: "tok_at l k = Some t" "held_for pf p t"
  from transferred_authority [OF tr] obtain s where "acc_data (l src) = TokenData s"
    "ta_delegate s = Some a \<or> ta_owner s = a" by blast
  with t a have "k \<noteq> src" by (auto simp: typed_Some held_for_def as_data_Some)
  then show "amount_at l k \<le> amount_at l' k"
    using transferred_amounts(2,3,4) [OF tr] by (cases "k = dst"; cases "src = dst") (auto simp: eq_refl)
qed

lemma keeps_held_burned:
  assumes b: "burned l src mint a n l'" and s: "tok_at l src = Some s" "\<not> held_for pf p s"
  shows "keeps_held pf p l l'"
proof (rule keeps_held_moved [OF burned_only_tokens [OF b]])
  fix k t
  assume "tok_at l k = Some t" "held_for pf p t"
  with s have "k \<noteq> src" by auto
  then show "amount_at l k \<le> amount_at l' k" using burned_amounts(3) [OF b] by simp
qed

text \<open>An account with no tokens in it may change.\<close>

lemma keeps_held_untouched: "untouched l {k} l' \<Longrightarrow> tok_at l k = None \<Longrightarrow> keeps_held pf p l l'"
  unfolding keeps_held_def using tok_untouched(1) by (metis order_refl)

lemma fresh_no_tokens: "fresh l k \<Longrightarrow> tok_at l k = None"
  by (rule fresh_typed) simp_all

lemma keeps_held_fresh: "untouched l {k} l' \<Longrightarrow> fresh l k \<Longrightarrow> keeps_held pf p l l'"
  by (rule keeps_held_untouched [OF _ fresh_no_tokens])

section \<open>The steps of a program spare the others\<close>

text \<open>
  Program \<open>q\<close> changes accounts it owns and new accounts at its own PDAs, and moves tokens; then it spares
  every program \<open>p\<close> whose PDAs are different ones.
\<close>

definition disjoint_pdas :: "platform \<Rightarrow> pubkey \<Rightarrow> pubkey \<Rightarrow> bool" where
  "disjoint_pdas pf p q \<longleftrightarrow> (\<forall>k. \<not> (program_pda pf p k \<and> program_pda pf q k))"

definition own_write :: "platform \<Rightarrow> pubkey \<Rightarrow> ledger \<Rightarrow> pubkey \<Rightarrow> ledger \<Rightarrow> bool" where
  "own_write pf q l k l' \<longleftrightarrow> (fresh l k \<and> program_pda pf q k \<or> acc_owner (l k) = q) \<and>
     (acc_owner (l' k) \<in> {q, TOKEN_PROGRAM_ID} \<or> fresh l' k)"

locale other_program =
  fixes p q :: pubkey
  assumes different: "p \<noteq> q" "p \<noteq> TOKEN_PROGRAM_ID" "p \<noteq> SYSTEM_PROGRAM_ID" "q \<noteq> TOKEN_PROGRAM_ID" "q \<noteq> SYSTEM_PROGRAM_ID"
begin

lemma spares_touches:
  assumes disjoint: "disjoint_pdas pf p q"
    and "touches l K l'" "\<And>k. k \<in> K \<Longrightarrow> own_write pf q l k l'" "keeps_held pf p l l'"
  shows "spares pf p l l'"
proof -
  have K: "acc_owner (l k) \<noteq> p" "acc_owner (l' k) \<noteq> p" "\<not> (program_pda pf p k \<and> fresh l k)" if "k \<in> K" for k
    using assms(3) [OF that] different disjoint by (auto simp: own_write_def disjoint_pdas_def fresh_def)
  have out: "acc_owner (l' k) = acc_owner (l k)"
    "acc_owner (l k) \<noteq> TOKEN_PROGRAM_ID \<Longrightarrow> acc_data (l' k) = acc_data (l k)" if "k \<notin> K" for k
    using assms(2) that by (simp_all add: touches_def)
  show ?thesis
    unfolding spares_def
  proof (intro conjI allI impI)
    fix k
    show "acc_owner (l k) = p \<Longrightarrow> acc_owner (l' k) = p" "acc_owner (l k) = p \<Longrightarrow> acc_data (l' k) = acc_data (l k)"
      "acc_owner (l k) \<noteq> p \<Longrightarrow> acc_owner (l' k) \<noteq> p"
      using K out different by (cases "k \<in> K"; auto)+
    show "program_pda pf p k \<and> fresh l k \<Longrightarrow> fresh l' k"
      using K out [of k] by (cases "k \<in> K") (auto simp: fresh_def)
  qed (rule assms(4))
qed

lemma spares_moved: "only_tokens_moved l l' \<Longrightarrow> keeps_held pf p l l' \<Longrightarrow> spares pf p l l'"
  using different unfolding spares_def only_tokens_moved_def fresh_def by (metis program_ids_distinct(3))

lemma spares_transferred: "transferred l src dst a n l' \<Longrightarrow> \<not> program_pda pf p a \<Longrightarrow> spares pf p l l'"
  by (rule spares_moved [OF transferred_only_tokens keeps_held_transferred])

lemma spares_burned:
  "burned l src mint a n l' \<Longrightarrow> tok_at l src = Some s \<Longrightarrow> \<not> program_pda pf p (ta_owner s) \<Longrightarrow> spares pf p l l'"
  by (rule spares_moved [OF burned_only_tokens keeps_held_burned]) (auto simp: held_for_def)

lemma spares_made:
  assumes d: "disjoint_pdas pf p q" and made: "account_made l k q x l'" and k: "program_pda pf q k"
  shows "spares pf p l l'"
proof -
  have "fresh l k" "acc_owner (l' k) = q" using made by (simp_all add: account_made_def fresh_def)
  with untouched_made [OF made] k show ?thesis
    by (intro spares_touches [OF d, of l "{k}"]) (auto simp: own_write_def intro: untouched_touches keeps_held_fresh)
qed

lemma spares_token_initialised:
  assumes d: "disjoint_pdas pf p q" and init: "token_initialised l k mint a l'" and k: "program_pda pf q k"
  shows "spares pf p l l'"
proof (cases "l' = l")
  case True
  then show ?thesis by (intro spares_moved) simp_all
next
  case False
  with init have "fresh l k" "untouched l {k} l'" "acc_owner (l' k) = TOKEN_PROGRAM_ID"
    by (auto simp: token_initialised_def typed_Some)
  then show ?thesis using k
    by (intro spares_touches [OF d, of l "{k}"])
      (auto simp: own_write_def intro: untouched_touches keeps_held_fresh)
qed

lemma spares_replaced:
  assumes d: "disjoint_pdas pf p q" and u: "untouched l {k} l'"
    and old: "fresh l k \<and> program_pda pf q k \<or> acc_owner (l k) = q" and new: "acc_owner (l' k) = q \<or> fresh l' k"
  shows "spares pf p l l'"
proof -
  from old have "tok_at l k = None"
    using different by (elim disjE conjE fresh_no_tokens) (simp add: typed_def)
  from spares_touches [OF d untouched_touches [OF u] _ keeps_held_untouched [OF u this]] old new show ?thesis
    by (auto simp: own_write_def)
qed

lemma spares_written:
  assumes d: "disjoint_pdas pf p q" and w: "written q l k f x l'" and k: "fresh l k \<Longrightarrow> program_pda pf q k"
  shows "spares pf p l l'"
  by (rule spares_replaced [OF d, of l k]) (use w k in \<open>auto simp: written_def typed_def split: if_splits\<close>)

end

interpretation minter_beside_wallet: other_program MINTER_PROGRAM_ID WALLET_PROGRAM_ID
  by unfold_locales simp_all

interpretation wallet_beside_minter: other_program WALLET_PROGRAM_ID MINTER_PROGRAM_ID
  by unfold_locales (simp_all add: program_ids_distinct [symmetric])

section \<open>The guarantee of the GatewayWallet\<close>

text \<open>The signers of a transaction are users of both programs.\<close>

definition signed_by_outsiders :: "platform \<Rightarrow> transaction \<Rightarrow> bool" where
  "signed_by_outsiders pf tx \<longleftrightarrow> signed_by_users pf tx \<and> signed_by_minter_users pf tx"

lemma outsider:
  "signed_by_outsiders pf tx \<Longrightarrow> k \<in> set (tx_signers tx) \<Longrightarrow>
     \<not> program_pda pf WALLET_PROGRAM_ID k \<and> \<not> program_pda pf MINTER_PROGRAM_ID k"
  unfolding signed_by_outsiders_def signed_by_users_def signed_by_minter_users_def wallet_pda_def minter_pda_def
    program_pda_def by blast

lemma pdaI: "try_bumps pf seeds p 255 = Some (k, b) \<Longrightarrow> program_pda pf p k"
  "create_program_address pf seeds p = Inr k \<Longrightarrow> program_pda pf p k"
  using canonical_bump unfolding program_pda_def by blast+

lemma other_pda: "disjoint_pdas pf p q \<Longrightarrow> program_pda pf q k \<Longrightarrow> \<not> program_pda pf p k"
  by (auto simp: disjoint_pdas_def)

lemma spares_rewritten:
  assumes "disjoint_pdas pf MINTER_PROGRAM_ID WALLET_PROGRAM_ID" "deposit_rewritten l k d d' l'"
  shows "spares pf MINTER_PROGRAM_ID l l'"
  by (rule minter_beside_wallet.spares_replaced [OF assms(1), of l k])
    (use assms(2) in \<open>auto simp: deposit_rewritten_def typed_Some\<close>)

lemma spares_burn:
  assumes d: "disjoint_pdas pf MINTER_PROGRAM_ID WALLET_PROGRAM_ID"
    and ex: "burn_executed pf tx c params l w dep d' h n charged es l'"
  shows "spares pf MINTER_PROGRAM_ID l l'"
proof -
  from ex have g: "program_pda pf WALLET_PROGRAM_ID (gb_gateway_wallet c)" and h: "program_pda pf WALLET_PROGRAM_ID h"
    and t: "\<exists>t. tok_at l (gb_custody_token_account c) = Some t \<and> ta_owner t = gb_gateway_wallet c"
    unfolding burn_executed_def Let_def wallet_running_def custody_of_def by (blast intro: pdaI)+
  from burn_executed_settled [OF ex] obtain fa fw where "burn_settled l c h n charged dep d' fa fw l'" .
  then obtain l1 l2 l3 where made: "account_made l h WALLET_PROGRAM_ID (Raw WALLET_USED_MARKER) l1"
    and fee: "if charged > 0 then transferred l1 (gb_custody_token_account c) (gb_fee_recipient_token_account c)
        (gb_gateway_wallet c) charged l2 else l2 = l1"
    and burn: "burned l2 (gb_custody_token_account c) (gb_token_mint c) (gb_gateway_wallet c) n l3"
    and rew: "deposit_rewritten l3 (gb_deposit c) dep d' l'"
    unfolding burn_settled_def by blast
  note g = other_pda [OF d g]
  have 1: "spares pf MINTER_PROGRAM_ID l l1" by (rule minter_beside_wallet.spares_made [OF d made h])
  have 2: "spares pf MINTER_PROGRAM_ID l1 l2"
    using fee g by (auto intro: minter_beside_wallet.spares_transferred minter_beside_wallet.spares_moved split: if_splits)
  have "\<exists>t. tok_at l1 (gb_custody_token_account c) = Some t \<and> ta_owner t = gb_gateway_wallet c"
    using t tok_untouched(1) [OF untouched_made [OF made]] made
    by (metis fresh_no_tokens account_made_def fresh_def)
  then have "\<exists>t. tok_at l2 (gb_custody_token_account c) = Some t \<and> ta_owner t = gb_gateway_wallet c"
    using fee tok_at_only_tokens [OF transferred_only_tokens]
    by (auto simp: same_account_identity_def split: if_splits) metis
  with minter_beside_wallet.spares_burned [OF burn] g have "spares pf MINTER_PROGRAM_ID l2 l3" by metis
  with 1 2 spares_rewritten [OF d rew] show ?thesis by (blast intro: spares_trans)
qed

lemma wallet_effect_spares:
  assumes d: "disjoint_pdas pf MINTER_PROGRAM_ID WALLET_PROGRAM_ID" and out: "signed_by_outsiders pf tx"
    and e: "wallet_effect pf tx l es l'"
  shows "spares pf MINTER_PROGRAM_ID l l'"
proof -
  note written = minter_beside_wallet.spares_written [OF d]
  show ?thesis using e
  proof cases
    case (credit g src cust k sender depositor amount)
    then obtain l1 l2 b mint d0 dep where k: "program_pda pf WALLET_PROGRAM_ID k" and sender: "sender \<in> set (tx_signers tx)"
      and c: "touches l {k} l'" "fresh l k \<or> deposit_at l k \<noteq> None" "acc_owner (l' k) = WALLET_PROGRAM_ID"
      and t: "tok_at l1 = tok_at l" "transferred l1 src cust sender amount l2" "tok_at l' = tok_at l2"
      unfolding deposit_made_def credited_def by (blast intro: pdaI)
    have "keeps_held pf MINTER_PROGRAM_ID l1 l2" using keeps_held_transferred [OF t(2)] outsider [OF out sender] by blast
    then have "keeps_held pf MINTER_PROGRAM_ID l l'" using t(1,3) by (simp add: keeps_held_def)
    moreover have "own_write pf WALLET_PROGRAM_ID l k l'"
      using c(2,3) k by (auto simp: own_write_def typed_Some)
    ultimately show ?thesis using minter_beside_wallet.spares_touches [OF d c(1)] by blast
  next
    case (start g w depositor dep k amount d' a t b)
    show ?thesis by (rule spares_rewritten [OF d start(6)])
  next
    case (pay_out g w depositor dep cust k dst t)
    from pay_out(2) have g: "program_pda pf WALLET_PROGRAM_ID g" unfolding wallet_running_def by (blast intro: pdaI)
    from pay_out(11) obtain m d' where m: "transferred l cust dst g (dep_withdrawing_amount dep) m" "deposit_rewritten m k dep d' l'"
      unfolding withdrawn_def by blast
    from minter_beside_wallet.spares_transferred [OF m(1) other_pda [OF d g]] spares_rewritten [OF d m(2)]
    show ?thesis by (rule spares_trans)
  next
    case (burn c params w dep d' h n charged)
    show ?thesis by (rule spares_burn [OF d burn])
  next
    case (authorise depositor token delegate k b g)
    show ?thesis by (rule written [OF authorise(5) pdaI(1) [OF authorise(3)]])
  next
    case (revoke depositor token delegate k b g g')
    show ?thesis by (rule written [OF revoke(5) pdaI(1) [OF revoke(2)]])
  next
    case (ban a k b g w)
    show ?thesis by (rule written [OF ban(5) pdaI(1) [OF ban(2)]])
  next
    case (unban a k b g w)
    then show ?thesis by (intro minter_beside_wallet.spares_replaced [OF d, of l k]) (auto simp: typed_Some)
  next
    case administer
    then obtain c role w w' e where "wallet_updated tx c role l w w' l'" unfolding role_done_def by blast
    then obtain k where "wallet_at l k \<noteq> None" "account_written l k as_wallet (WalletData w') l'"
      unfolding wallet_updated_def by blast
    then show ?thesis by (intro written) (auto simp: fresh_def typed_Some)
  next
    case (create k b u pd delay w domain)
    show ?thesis by (rule written [OF create(8) pdaI(1) [OF create(2)]])
  next
    case (support g w mint cust b l1 w')
    show ?thesis
      by (rule spares_trans [OF minter_beside_wallet.spares_token_initialised [OF d support(6) pdaI(1) [OF support(5)]]
            written [OF support(8) pdaI(2) [OF support(4)]]])
  qed
qed

section \<open>The guarantee of the GatewayMinter\<close>

lemma released_spares:
  assumes d: "disjoint_pdas pf WALLET_PROGRAM_ID MINTER_PROGRAM_ID" and g: "program_pda pf MINTER_PROGRAM_ID g"
    and r: "released pf g m e cust mark l l'"
  shows "spares pf WALLET_PROGRAM_ID l l'"
proof -
  from r obtain b l1 where "program_pda pf MINTER_PROGRAM_ID mark"
    and "account_made l mark MINTER_PROGRAM_ID (Raw MINTER_USED_MARKER) l1"
    and tr: "transferred l1 cust (el_destination_recipient e) g (el_value e) l'"
    unfolding released_def by (blast intro: pdaI)
  then have "spares pf WALLET_PROGRAM_ID l l1" by (intro wallet_beside_minter.spares_made [OF d])
  then show ?thesis using wallet_beside_minter.spares_transferred [OF tr other_pda [OF d g]] by (rule spares_trans)
qed

lemma released_all_spares:
  "released_all pf g m es l l' \<Longrightarrow> disjoint_pdas pf WALLET_PROGRAM_ID MINTER_PROGRAM_ID \<Longrightarrow>
     program_pda pf MINTER_PROGRAM_ID g \<Longrightarrow> spares pf WALLET_PROGRAM_ID l l'"
proof (induction es arbitrary: l)
  case Nil
  then show ?case by (auto intro: wallet_beside_minter.spares_moved)
next
  case (Cons e es)
  then obtain cust mark l1 where "released pf g m e cust mark l l1" "released_all pf g m es l1 l'" by auto
  with Cons show ?case by (blast intro: released_spares spares_trans)
qed

lemma minter_effect_spares:
  assumes d: "disjoint_pdas pf WALLET_PROGRAM_ID MINTER_PROGRAM_ID" and e: "minter_effect pf tx l es l'"
  shows "spares pf WALLET_PROGRAM_ID l l'"
proof -
  note written = wallet_beside_minter.spares_written [OF d]
  show ?thesis using e
  proof cases
    case (m_release c bs sig m s)
    then show ?thesis unfolding mint_executed_def by (blast intro: released_all_spares d pdaI)
  next
    case m_administer
    then obtain k m' where "minter_at l k \<noteq> None" "minter_written l k m' l'" unfolding minter_role_done_def by blast
    then show ?thesis by (intro written) (auto simp: fresh_def typed_Some)
  next
    case (m_create k b u pd m domain)
    show ?thesis by (rule written [OF m_create(7) pdaI(1) [OF m_create(2)]])
  next
    case (m_support g m mint cust b l1 m')
    show ?thesis
      by (rule spares_trans [OF wallet_beside_minter.spares_token_initialised [OF d m_support(6) pdaI(1) [OF m_support(5)]]
            written [OF m_support(8) pdaI(2) [OF m_support(4)]]])
  next
    case (m_burn g m mint b cust t amount n)
    from other_pda [OF d pdaI(2) [OF m_burn(4)]] m_burn(8)
    show ?thesis by (intro wallet_beside_minter.spares_burned [OF m_burn(12,7)]) simp
  qed
qed

end
