(* ===== verification/Gateway.thy ===== *)
theory Gateway
  imports Isolation Solvency
begin

text \<open>
  Both programs on one ledger: the instructions of the GatewayWallet and of the GatewayMinter interleaved
  with the rest of the chain.  By the guarantees of Isolation, each program's instructions are silent
  steps of the other, so a joint history projects to a history of each program (\<open>gateway_joint\<close>); and
  the tokens held for either program leave only as its events report (\<open>gateway_stock\<close>).
\<close>

section \<open>The joint machine\<close>

definition wallet_act :: "platform \<Rightarrow> ledger \<Rightarrow> WalletEvent list \<Rightarrow> ledger \<Rightarrow> bool" where
  "wallet_act pf l es l' \<longleftrightarrow> (\<exists>tx ix. signed_by_outsiders pf tx \<and> fits_usize ix \<and> wallet_dispatch pf tx ix l = Inr (l', es))"

definition minter_act :: "platform \<Rightarrow> ledger \<Rightarrow> MinterEvent list \<Rightarrow> ledger \<Rightarrow> bool" where
  "minter_act pf l es l' \<longleftrightarrow>
     (\<exists>tx ix. signed_by_outsiders pf tx \<and> attestation_fits ix l \<and> minter_dispatch pf tx ix l = Inr (l', es))"

text \<open>The rest of the chain: what each program relies on, and the tokens held for either are not taken.\<close>

definition gateway_rest :: "platform \<Rightarrow> ledger \<Rightarrow> ledger \<Rightarrow> bool" where
  "gateway_rest pf l l' \<longleftrightarrow> wallet_env pf l l' \<and> minter_env l l' \<and>
     keeps_held pf WALLET_PROGRAM_ID l l' \<and> keeps_held pf MINTER_PROGRAM_ID l l'"

abbreviation "gateway_step pf \<equiv> interleaved (wallet_act pf) (minter_act pf) (gateway_rest pf)"
abbreviation "gateway_run pf \<equiv> machine_run (gateway_step pf)"

definition apart :: "platform \<Rightarrow> bool" where
  "apart pf \<longleftrightarrow> disjoint_pdas pf WALLET_PROGRAM_ID MINTER_PROGRAM_ID"

lemma apart_pdas: "apart pf \<Longrightarrow> disjoint_pdas pf WALLET_PROGRAM_ID MINTER_PROGRAM_ID"
  "apart pf \<Longrightarrow> disjoint_pdas pf MINTER_PROGRAM_ID WALLET_PROGRAM_ID"
  by (auto simp: apart_def disjoint_pdas_def)

definition wallet_side :: "platform \<Rightarrow> ledger \<Rightarrow> bool" where
  "wallet_side pf l \<longleftrightarrow> apart pf \<and> wallet_inv pf l"

definition gateway_inv :: "platform \<Rightarrow> ledger \<Rightarrow> bool" where
  "gateway_inv pf l \<longleftrightarrow> apart pf \<and> system_program_ok pf \<and> wallet_wf pf l \<and> minter_wf pf l"

lemma gateway_inv_sides: "gateway_inv pf l \<longleftrightarrow> wallet_side pf l \<and> minter_inv pf l"
  by (auto simp: gateway_inv_def wallet_side_def wallet_inv_def minter_inv_def)

section \<open>The actions\<close>

lemma wallet_act_step:
  assumes inv: "wallet_side pf l" and act: "wallet_act pf l es l'"
  shows "wallet_step pf l es l'" "spares pf MINTER_PROGRAM_ID l l'"
    "\<exists>tx. signed_by_users pf tx \<and> wallet_effect pf tx l es l'"
proof -
  from act obtain tx ix where tx: "signed_by_outsiders pf tx" "fits_usize ix" "wallet_dispatch pf tx ix l = Inr (l', es)"
    unfolding wallet_act_def by blast
  with inv have e: "wallet_effect pf tx l es l'"
    by (auto simp: wallet_side_def wallet_inv_def intro: wallet_dispatch_effect)
  from tx have users: "signed_by_users pf tx" by (simp add: signed_by_outsiders_def)
  from wallet_call [OF users tx(2,3)] show "wallet_step pf l es l'" .
  from wallet_effect_spares [OF apart_pdas(2) tx(1) e] inv show "spares pf MINTER_PROGRAM_ID l l'"
    by (simp add: wallet_side_def)
  from users e show "\<exists>tx. signed_by_users pf tx \<and> wallet_effect pf tx l es l'" by blast
qed

lemma minter_act_step:
  assumes apart: "apart pf" and inv: "minter_inv pf l" and act: "minter_act pf l es l'"
  shows "minter_step pf l es l'" "spares pf WALLET_PROGRAM_ID l l'" "\<exists>tx. minter_effect pf tx l es l'"
proof -
  from act obtain tx ix where tx: "signed_by_outsiders pf tx" "attestation_fits ix l" "minter_dispatch pf tx ix l = Inr (l', es)"
    unfolding minter_act_def by blast
  with inv have e: "minter_effect pf tx l es l'" by (auto simp: minter_inv_def intro: minter_dispatch_effect)
  from tx(1) have "signed_by_minter_users pf tx" by (simp add: signed_by_outsiders_def)
  from minter_call [OF this tx(2,3)] show "minter_step pf l es l'" .
  from minter_effect_spares [OF apart_pdas(1) [OF apart] e] show "spares pf WALLET_PROGRAM_ID l l'" .
  from e show "\<exists>tx. minter_effect pf tx l es l'" by blast
qed

interpretation wallet_side: machine "wallet_step pf" "wallet_side pf" for pf
  by unfold_locales (auto simp: wallet_side_def intro: wallet_machine.inv_step)

interpretation gateway_joint: rely_guarantee "wallet_step pf" "wallet_side pf" "minter_step pf" "minter_inv pf"
  "wallet_act pf" "minter_act pf" "gateway_rest pf" for pf
proof unfold_locales
  fix l es fs l'
  assume inv: "wallet_side pf l" "minter_inv pf l"
  show "wallet_act pf l es l' \<Longrightarrow> wallet_step pf l es l' \<and> minter_step pf l [] l'"
    using wallet_act_step [OF inv(1)] spares_minter_env minter_rest by blast
  show "minter_act pf l fs l' \<Longrightarrow> wallet_step pf l [] l' \<and> minter_step pf l fs l'"
    using minter_act_step [OF _ inv(2)] inv(1) spares_wallet_env wallet_rest unfolding wallet_side_def by blast
  show "gateway_rest pf l l' \<Longrightarrow> wallet_step pf l [] l' \<and> minter_step pf l [] l'"
    by (simp add: gateway_rest_def wallet_rest minter_rest)
qed

section \<open>What leaves the accounts held for a program\<close>

definition loses :: "platform \<Rightarrow> pubkey \<Rightarrow> (pubkey \<Rightarrow> nat) \<Rightarrow> ledger \<Rightarrow> ledger \<Rightarrow> bool" where
  "loses pf p f l l' \<longleftrightarrow> (\<forall>k t. tok_at l k = Some t \<and> held_for pf p t \<longrightarrow>
     (\<exists>t'. tok_at l' k = Some t' \<and> ta_mint t' = ta_mint t \<and> held_for pf p t' \<and>
        amount_at l k \<le> amount_at l' k + f (ta_mint t)))"

lemma keeps_held_loses: "keeps_held pf p l l' \<Longrightarrow> loses pf p f l l'"
  unfolding loses_def keeps_held_def using amount_at_tok by (metis trans_le_add1 u64_le_iff)

lemma spares_loses: "spares pf p l l' \<Longrightarrow> loses pf p f l l'"
  by (rule keeps_held_loses) (simp add: spares_def)

lemma losesD: "loses pf p f l l' \<Longrightarrow> tok_at l k = Some t \<Longrightarrow> held_for pf p t \<Longrightarrow>
    \<exists>t'. tok_at l' k = Some t' \<and> ta_mint t' = ta_mint t \<and> held_for pf p t' \<and>
      amount_at l k \<le> amount_at l' k + f (ta_mint t)"
  by (simp add: loses_def)

lemma loses_trans:
  assumes "loses pf p f l m" "loses pf p g m l'" "\<And>x. f x + g x \<le> h x"
  shows "loses pf p h l l'"
  unfolding loses_def
proof (intro allI impI, elim conjE)
  fix k t
  assume "tok_at l k = Some t" "held_for pf p t"
  from losesD [OF assms(1) this] obtain u where u: "tok_at m k = Some u" "held_for pf p u" "ta_mint u = ta_mint t"
    and a: "amount_at l k \<le> amount_at m k + f (ta_mint t)" by blast
  from losesD [OF assms(2) u(1,2)] u(3) a assms(3) [of "ta_mint t"]
  show "\<exists>t'. tok_at l' k = Some t' \<and> ta_mint t' = ta_mint t \<and> held_for pf p t' \<and>
      amount_at l k \<le> amount_at l' k + h (ta_mint t)" by auto
qed

lemma tok_not_foreign: "fresh l k \<or> typed p f l k \<noteq> None \<Longrightarrow> p \<noteq> TOKEN_PROGRAM_ID \<Longrightarrow> tok_at l k = None"
  by (auto simp: fresh_no_tokens) (simp add: typed_def split: if_splits)

lemma keeps_held_written: "written q l k f x l' \<Longrightarrow> q \<noteq> TOKEN_PROGRAM_ID \<Longrightarrow> keeps_held pf p l l'"
  unfolding written_def by (elim conjE) (rule keeps_held_untouched [OF _ tok_not_foreign])

lemma loses_moved:
  assumes ot: "only_tokens_moved l l'"
    and a: "\<And>k t. tok_at l k = Some t \<Longrightarrow> amount_at l k \<le> amount_at l' k + f (ta_mint t)"
  shows "loses pf p f l l'"
  unfolding loses_def
proof (intro allI impI, elim conjE)
  fix k t
  assume t: "tok_at l k = Some t" "held_for pf p t"
  from tok_at_only_tokens [OF ot t(1)] obtain t' where "tok_at l' k = Some t'" "same_account_identity t t'" by blast
  with identity_held [OF this(2) t(2)] a [OF t(1)]
  show "\<exists>t'. tok_at l' k = Some t' \<and> ta_mint t' = ta_mint t \<and> held_for pf p t' \<and>
      amount_at l k \<le> amount_at l' k + f (ta_mint t)"
    by (auto simp: same_account_identity_def)
qed

lemma loses_transferred:
  assumes tr: "transferred l src dst a n l'" and s: "tok_at l src = Some s"
  shows "loses pf p (\<lambda>m. if m = ta_mint s then unat n else 0) l l'"
proof (rule loses_moved [OF transferred_only_tokens [OF tr]])
  fix k t
  assume "tok_at l k = Some t"
  then show "amount_at l k \<le> amount_at l' k + (if ta_mint t = ta_mint s then unat n else 0)"
    using transferred_amounts(1,2) [OF tr] transferred_amounts(3,4) [OF tr, of k] s
    by (cases "src = dst"; cases "k = src"; cases "k = dst") auto
qed

lemma loses_burned:
  assumes b: "burned l src mint a n l'" and s: "tok_at l src = Some s"
  shows "loses pf p (\<lambda>m. if m = ta_mint s then unat n else 0) l l'"
proof (rule loses_moved [OF burned_only_tokens [OF b]])
  fix k t
  assume "tok_at l k = Some t"
  then show "amount_at l k \<le> amount_at l' k + (if ta_mint t = ta_mint s then unat n else 0)"
    using burned_amounts(1) [OF b] burned_amounts(3) [OF b, of k] s by (cases "k = src") auto
qed

text \<open>The wallet's events report withdrawals and burns with their fees, the minter's releases and custody burns.\<close>

fun wallet_out :: "pubkey \<Rightarrow> WalletEvent \<Rightarrow> nat" where
  "wallet_out m (WithdrawalCompleted mint depositor n) = (if mint = m then unat n else 0)"
| "wallet_out m (GatewayBurned mint depositor h dd dr signer n fee fa fw) = (if mint = m then unat n + unat fee else 0)"
| "wallet_out m _ = 0"

fun minter_out :: "pubkey \<Rightarrow> MinterEvent \<Rightarrow> nat" where
  "minter_out m (AttestationUsed mint recipient h n) = (if mint = m then unat n else 0)"
| "minter_out m (TokenCustodyBurned mint cust n) = (if mint = m then unat n else 0)"
| "minter_out m _ = 0"

lemma wallet_effect_out:
  assumes users: "signed_by_users pf tx" and e: "wallet_effect pf tx l es l'"
  shows "loses pf WALLET_PROGRAM_ID (\<lambda>m. sum_list (map (wallet_out m) es)) l l'"
  unfolding loses_def
proof (intro allI impI, elim conjE)
  fix k t
  assume t: "tok_at l k = Some t" "held_for pf WALLET_PROGRAM_ID t"
  from effect_tok [OF e t(1)] obtain t' where t': "tok_at l' k = Some t'" "same_account_identity t t'" by blast
  have "amount_at l k \<le> amount_at l' k + sum_list (map (wallet_out (ta_mint t)) es)"
    using e t(1)
  proof (cases rule: effect_still)
    case (credit g src cust dk sender depositor amount)
    then obtain l1 l2 where sender: "sender \<in> set (tx_signers tx)"
      and c: "amount_at l1 = amount_at l" "tok_at l1 = tok_at l" "transferred l1 src cust sender amount l2"
        "amount_at l' = amount_at l2"
      unfolding deposit_made_def credited_def by blast
    have "\<not> program_pda pf WALLET_PROGRAM_ID sender"
      using not_user_key [OF users sender] by (simp add: wallet_pda_def program_pda_def)
    from losesD [OF keeps_held_loses [OF keeps_held_transferred [OF c(3) this], of "\<lambda>_. 0"], of k t] t
    have "amount_at l1 k \<le> amount_at l2 k" by (auto simp: c(2))
    then show ?thesis by (simp add: c(1,4))
  next
    case (pay_out g w depositor d cust dk dst u)
    from pay_out(3) obtain s where s: "tok_at l cust = Some s" "ta_mint s = dep_token_mint d"
      unfolding custody_of_def by blast
    from pay_out(7) obtain m where m: "transferred l cust dst g (dep_withdrawing_amount d) m" "amount_at l' = amount_at m"
      unfolding withdrawn_def deposit_rewritten_def by blast
    from losesD [OF loses_transferred [OF m(1) s(1)] t] show ?thesis by (auto simp: m(2) s(2) pay_out(8))
  next
    case (burn c params w d d' h n charged)
    let ?cust = "gb_custody_token_account c"
    from burn have "custody_of pf l (gb_gateway_wallet c) w (gb_token_mint c) ?cust"
      unfolding burn_executed_def Let_def by blast
    then obtain s where s: "tok_at l ?cust = Some s" "ta_mint s = gb_token_mint c" unfolding custody_of_def by blast
    from burn_executed_settled [OF burn] obtain fa fw where b: "burn_settled l c h n charged d d' fa fw l'" .
    then have sum: "unat n + unat charged = unat fa + unat fw" by (auto simp: burn_settled_def)
    from burn_executed_event [OF burn] obtain ev where "ev \<in> set es"
      "wallet_out (gb_token_mint c) ev = unat n + unat charged" by fastforce
    then have "unat n + unat charged \<in> set (map (wallet_out (gb_token_mint c)) es)" by force
    then have "unat n + unat charged \<le> sum_list (map (wallet_out (gb_token_mint c)) es)"
      by (rule member_le_sum_list) simp
    then show ?thesis
      using burn_settled_amounts(1) [OF b] burn_settled_amounts(3) [OF b, of k] sum s t(1) by (cases "k = ?cust") auto
  qed simp
  with t' identity_held [OF t'(2) t(2)]
  show "\<exists>t'. tok_at l' k = Some t' \<and> ta_mint t' = ta_mint t \<and> held_for pf WALLET_PROGRAM_ID t' \<and>
      amount_at l k \<le> amount_at l' k + sum_list (map (wallet_out (ta_mint t)) es)"
    by (auto simp: same_account_identity_def)
qed

lemma released_all_out:
  "released_all pf g m es l l' \<Longrightarrow>
     loses pf p (\<lambda>x. \<Sum>e\<leftarrow>es. if el_destination_token e = x then unat (el_value e) else 0) l l'"
proof (induction es arbitrary: l)
  case Nil
  then show ?case by (auto intro: keeps_held_loses)
next
  case (Cons e es)
  then obtain cust mark l1 where r: "released pf g m e cust mark l l1" and rest: "released_all pf g m es l1 l'" by auto
  from r obtain l0 t where made: "account_made l mark MINTER_PROGRAM_ID (Raw MINTER_USED_MARKER) l0"
    and tr: "transferred l0 cust (el_destination_recipient e) g (el_value e) l1"
    and t: "tok_at l cust = Some t" "ta_mint t = el_destination_token e"
    unfolding released_def by blast
  have mark: "fresh l mark" using made by (simp add: account_made_def fresh_def)
  have 0: "loses pf p (\<lambda>_. 0) l l0"
    by (rule keeps_held_loses [OF keeps_held_fresh [OF untouched_made [OF made] mark]])
  have "tok_at l0 cust = Some t" by (rule tok_untouched(1) [OF untouched_made [OF made] fresh_no_tokens [OF mark] t(1)])
  note 1 = loses_trans [OF 0 loses_transferred [OF tr this] order.refl]
  show ?case by (rule loses_trans [OF 1 Cons.IH [OF rest]]) (auto simp: t(2))
qed

lemma minter_effect_out:
  assumes d: "apart pf" and e: "minter_effect pf tx l es l'"
  shows "loses pf MINTER_PROGRAM_ID (\<lambda>m. sum_list (map (minter_out m) es)) l l'"
  using e
proof cases
  case (m_release c bs sig m s)
  then have r: "released_all pf (gc_gateway_minter c) m (as_elements s) l l'"
    and es: "es = map attestation_event (as_elements s)" by (simp_all add: mint_executed_def)
  have "minter_out x (attestation_event e) = (if el_destination_token e = x then unat (el_value e) else 0)" for x e
    by (simp add: attestation_event_def)
  with released_all_out [OF r] show ?thesis by (simp add: es comp_def)
next
  case (m_burn g m mint b cust t amount n)
  from loses_burned [OF m_burn(12,7), of pf MINTER_PROGRAM_ID] show ?thesis
    unfolding m_burn(1) by (rule loses_trans [OF _ keeps_held_loses [OF keeps_held_refl], of _ _ _ _ _ "\<lambda>_. 0"]) (simp add: m_burn(9))
next
  case m_administer
  then obtain k m' where "minter_written l k m' l'" unfolding minter_role_done_def by blast
  show ?thesis by (rule keeps_held_loses [OF keeps_held_written [OF \<open>minter_written l k m' l'\<close>]]) simp
next
  case (m_create k b u pd m domain)
  show ?thesis by (rule keeps_held_loses [OF keeps_held_written [OF m_create(7)]]) simp
next
  case (m_support g m mint cust b l1 m')
  have "keeps_held pf MINTER_PROGRAM_ID l l1"
    using m_support(6) keeps_held_fresh by (auto simp: token_initialised_def)
  moreover have "keeps_held pf MINTER_PROGRAM_ID l1 l'"
    by (rule keeps_held_written [OF m_support(8)]) simp
  ultimately show ?thesis by (blast intro: keeps_held_loses keeps_held_trans)
qed

section \<open>The stocks of both programs\<close>

definition held_stock :: "platform \<Rightarrow> pubkey \<Rightarrow> ledger \<Rightarrow> pubkey \<Rightarrow> (pubkey \<times> nat) option" where
  "held_stock pf p l k = (case tok_at l k of
     None \<Rightarrow> None | Some t \<Rightarrow> if held_for pf p t then Some (ta_mint t, unat (ta_amount t)) else None)"

lemma held_stock_loses:
  assumes "loses pf p f l l'" "held_stock pf p l k = Some (m, n)"
  shows "\<exists>n'. held_stock pf p l' k = Some (m, n') \<and> n \<le> n' + f m"
proof -
  from assms(2) obtain t where t: "tok_at l k = Some t" "held_for pf p t" "m = ta_mint t" "n = amount_at l k"
    by (auto simp: held_stock_def amount_at_tok split: option.splits if_splits)
  from losesD [OF assms(1) t(1,2)] t(3,4) show ?thesis by (auto simp: held_stock_def amount_at_tok)
qed

lemma gateway_step_loses:
  assumes inv: "gateway_inv pf l" and step: "gateway_step pf l es l'"
  shows "loses pf WALLET_PROGRAM_ID (\<lambda>m. sum_list (map (wallet_out m) (lefts es))) l l' \<and>
    loses pf MINTER_PROGRAM_ID (\<lambda>m. sum_list (map (minter_out m) (rights es))) l l'"
  using step
proof cases
  case (by_left ws)
  from inv have w: "wallet_side pf l" by (simp add: gateway_inv_sides)
  from wallet_act_step [OF w by_left(2)] wallet_effect_out spares_loses
  have "loses pf WALLET_PROGRAM_ID (\<lambda>m. sum_list (map (wallet_out m) ws)) l l'"
    "loses pf MINTER_PROGRAM_ID (\<lambda>_. 0) l l'" by blast+
  then show ?thesis by (simp add: by_left(1))
next
  case (by_right ms)
  from inv have w: "apart pf" "minter_inv pf l" by (simp_all add: gateway_inv_sides wallet_side_def)
  from minter_act_step [OF w by_right(2)] minter_effect_out [OF w(1)] spares_loses
  have "loses pf MINTER_PROGRAM_ID (\<lambda>m. sum_list (map (minter_out m) ms)) l l'"
    "loses pf WALLET_PROGRAM_ID (\<lambda>_. 0) l l'" by blast+
  then show ?thesis by (simp add: by_right(1))
next
  case by_rest
  then have "keeps_held pf WALLET_PROGRAM_ID l l'" "keeps_held pf MINTER_PROGRAM_ID l l'"
    by (simp_all add: gateway_rest_def)
  then show ?thesis by (intro conjI keeps_held_loses)
qed

interpretation gateway_machine: machine "gateway_step pf" "gateway_inv pf" for pf
proof unfold_locales
  fix l es l'
  show "gateway_inv pf l \<Longrightarrow> gateway_step pf l es l' \<Longrightarrow> gateway_inv pf l'"
    unfolding gateway_inv_sides by (rule gateway_joint.joint.inv_step)
qed

fun joint_out :: "pubkey \<times> pubkey \<Rightarrow> WalletEvent + MinterEvent \<Rightarrow> nat" where
  "joint_out (p, m) (Inl e) = (if p = WALLET_PROGRAM_ID then wallet_out m e else 0)"
| "joint_out (p, m) (Inr e) = (if p = MINTER_PROGRAM_ID then minter_out m e else 0)"

lemma joint_out_sums:
  "sum_list (map (joint_out (WALLET_PROGRAM_ID, m)) es) = sum_list (map (wallet_out m) (lefts es))"
  "sum_list (map (joint_out (MINTER_PROGRAM_ID, m)) es) = sum_list (map (minter_out m) (rights es))"
proof (induction es)
  case (Cons e es)
  {
    case 1
    from Cons(1) show ?case by (cases e) simp_all
  next
    case 2
    from Cons(2) show ?case by (cases e) (simp_all add: program_ids_distinct [symmetric])
  }
qed simp_all

text \<open>The stock of program \<open>p\<close> at \<open>k\<close>, for either program.\<close>

definition joint_stock :: "platform \<Rightarrow> ledger \<Rightarrow> pubkey \<times> pubkey \<Rightarrow> ((pubkey \<times> pubkey) \<times> nat) option" where
  "joint_stock pf l x = (case x of (p, k) \<Rightarrow>
     if p = WALLET_PROGRAM_ID \<or> p = MINTER_PROGRAM_ID
     then map_option (\<lambda>(m, n). ((p, m), n)) (held_stock pf p l k) else None)"

interpretation gateway_stock: accounted "gateway_step pf" "gateway_inv pf" "joint_stock pf" joint_out for pf
proof unfold_locales
  fix l es l' x mint n
  assume inv: "gateway_inv pf l" and step: "gateway_step pf l es l'" and x: "joint_stock pf l x = Some (mint, n)"
  then obtain p k m where s: "x = (p, k)" "mint = (p, m)" "held_stock pf p l k = Some (m, n)"
    and p: "p = WALLET_PROGRAM_ID \<or> p = MINTER_PROGRAM_ID"
    by (cases x) (auto simp: joint_stock_def split: if_splits)
  note lo = gateway_step_loses [OF inv step]
  have "\<exists>n'. held_stock pf p l' k = Some (m, n') \<and> n \<le> n' + sum_list (map (joint_out (p, m)) es)"
    using p held_stock_loses [OF conjunct1 [OF lo], of k m n] held_stock_loses [OF conjunct2 [OF lo], of k m n] s(3)
    by (auto simp: joint_out_sums)
  then show "\<exists>n'. joint_stock pf l' x = Some (mint, n') \<and> n \<le> n' + sum_list (map (joint_out mint) es)"
    using p by (auto simp: joint_stock_def s(1,2))
qed

end
