(* ===== verification/TokenInstructions.thy ===== *)
theory TokenInstructions
  imports TokenProgram
begin

text \<open>
  The rest of the SPL token program's processor: every instruction that changes an account, and the two
  checks without effect (the UI amount conversions only set return data).  Outsiders send these
  instructions directly; \<open>token_process\<close> dispatches them as Processor::process does, with the keys of
  the accounts and the additional accounts passed for a multisig.
\<close>

section \<open>Initialisation\<close>

definition RENT_SYSVAR_ID :: pubkey where
  "RENT_SYSVAR_ID = [6, 167, 213, 23, 25, 44, 92, 81, 33, 140, 201, 76, 61, 74, 241, 127, 88, 218, 238,
     8, 155, 161, 253, 68, 227, 219, 217, 138, 0, 0, 0, 0]"

text \<open>The older variants take the rent sysvar as an account, the newer ones read it.\<close>

definition check_rent_sysvar :: "pubkey option \<Rightarrow> ('e, unit) result" where
  "check_rent_sysvar rent = (case rent of
     None \<Rightarrow> Inr () | Some k \<Rightarrow> require (k = RENT_SYSVAR_ID) (Token InvalidArgument))"

definition process_initialize_mint ::
    "platform \<Rightarrow> pubkey option \<Rightarrow> pubkey \<Rightarrow> u8 \<Rightarrow> pubkey \<Rightarrow> pubkey option \<Rightarrow> ledger \<Rightarrow> ('e, ledger) result" where
  "process_initialize_mint pf rent k decimals mint_authority freeze_authority l =
     and_then (check_rent_sysvar rent) (\<lambda>_.
     and_then (require (data_len (acc_data (l k)) = MINT_LEN) (Token InvalidTokenAccountData)) (\<lambda>_.
     and_then (require (acc_data (l k) = Raw (replicate MINT_LEN 0)) (Token AlreadyInUse)) (\<lambda>_.
     and_then (require (minimum_balance pf MINT_LEN \<le> acc_lamports (l k)) (Token NotRentExempt)) (\<lambda>_.
     write_token_data k (MintData \<lparr> mi_mint_authority = Some mint_authority, mi_supply = 0,
       mi_decimals = decimals, mi_is_initialized = True, mi_freeze_authority = freeze_authority \<rparr>) l))))"

definition process_initialize_account ::
    "platform \<Rightarrow> pubkey option \<Rightarrow> pubkey \<Rightarrow> pubkey \<Rightarrow> pubkey \<Rightarrow> ledger \<Rightarrow> ('e, ledger) result" where
  "process_initialize_account pf rent k mint_key owner l =
     and_then (check_rent_sysvar rent) (\<lambda>_. process_initialize_account3 pf k mint_key owner l)"

definition MAX_SIGNERS :: nat where "MAX_SIGNERS = 11"

definition is_valid_signer_index :: "nat \<Rightarrow> bool" where
  "is_valid_signer_index index \<longleftrightarrow> 1 \<le> index \<and> index \<le> MAX_SIGNERS"

text \<open>The count of the signers is truncated to a byte before it is checked, and indexing the array may panic.\<close>

definition process_initialize_multisig ::
    "platform \<Rightarrow> pubkey option \<Rightarrow> pubkey \<Rightarrow> u8 \<Rightarrow> pubkey list \<Rightarrow> ledger \<Rightarrow> ('e, ledger) result" where
  "process_initialize_multisig pf rent k m signer_keys l =
     and_then (check_rent_sysvar rent) (\<lambda>_.
     and_then (require (data_len (acc_data (l k)) = MULTISIG_LEN) (Token InvalidTokenAccountData)) (\<lambda>_.
     and_then (require (acc_data (l k) = Raw (replicate MULTISIG_LEN 0)) (Token AlreadyInUse)) (\<lambda>_.
     and_then (require (minimum_balance pf MULTISIG_LEN \<le> acc_lamports (l k)) (Token NotRentExempt)) (\<lambda>_.
     let n = (word_of_nat (length signer_keys) :: u8) in
     and_then (require (is_valid_signer_index (unat n)) (Token InvalidNumberOfProvidedSigners)) (\<lambda>_.
     and_then (require (is_valid_signer_index (unat m)) (Token InvalidNumberOfRequiredSigners)) (\<lambda>_.
     and_then (require (length signer_keys \<le> MAX_SIGNERS) (Panic IndexOutOfBounds)) (\<lambda>_.
     write_token_data k (MultisigData m n (signer_keys @ replicate (MAX_SIGNERS - length signer_keys) default_pubkey))
       l)))))))"

definition process_initialize_immutable_owner :: "pubkey \<Rightarrow> ledger \<Rightarrow> ('e, ledger) result" where
  "process_initialize_immutable_owner k l =
     and_then (require (data_len (acc_data (l k)) = TOKEN_ACCOUNT_LEN) (Token InvalidTokenAccountData)) (\<lambda>_.
     and_then (require (is_zeroed_token_account (acc_data (l k))) (Token AlreadyInUse)) (\<lambda>_. Inr l))"

definition process_get_account_data_size :: "pubkey \<Rightarrow> ledger \<Rightarrow> ('e, ledger) result" where
  "process_get_account_data_size mint_key l =
     and_then (require (acc_owner (l mint_key) = TOKEN_PROGRAM_ID) (Token IncorrectProgramId)) (\<lambda>_.
     and_then (ok_or (as_mint (acc_data (l mint_key))) (Token InvalidMint)) (\<lambda>_. Inr l))"

section \<open>Authorities\<close>

definition process_approve ::
    "pubkey list \<Rightarrow> pubkey list \<Rightarrow> (pubkey \<times> u8) option \<Rightarrow> pubkey \<Rightarrow> pubkey \<Rightarrow> pubkey \<Rightarrow> u64 \<Rightarrow> ledger \<Rightarrow>
     ('e, ledger) result" where
  "process_approve signers additional expected source_key delegate owner amount l =
     and_then (unpack_token l source_key) (\<lambda>source.
     and_then (require (ta_state source \<noteq> Frozen) (Token AccountFrozen)) (\<lambda>_.
     and_then (check_expected_mint expected source l) (\<lambda>_.
     and_then (validate_owner signers additional l (ta_owner source) owner) (\<lambda>_.
     write_token_data source_key
       (TokenData (source\<lparr> ta_delegate := Some delegate, ta_delegated_amount := amount \<rparr>)) l))))"

definition process_revoke :: "pubkey list \<Rightarrow> pubkey list \<Rightarrow> pubkey \<Rightarrow> pubkey \<Rightarrow> ledger \<Rightarrow> ('e, ledger) result" where
  "process_revoke signers additional source_key owner l =
     and_then (unpack_token l source_key) (\<lambda>source.
     and_then (require (ta_state source \<noteq> Frozen) (Token AccountFrozen)) (\<lambda>_.
     and_then (validate_owner signers additional l (ta_owner source) owner) (\<lambda>_.
     write_token_data source_key (TokenData (source\<lparr> ta_delegate := None, ta_delegated_amount := 0 \<rparr>)) l)))"

datatype AuthorityType = MintTokens | FreezeAccountAuthority | AccountOwner | CloseAccountAuthority

definition close_authority :: "TokenAccount \<Rightarrow> pubkey" where
  "close_authority t = (case ta_close_authority t of None \<Rightarrow> ta_owner t | Some k \<Rightarrow> k)"

definition set_account_authority ::
    "pubkey list \<Rightarrow> pubkey list \<Rightarrow> pubkey \<Rightarrow> AuthorityType \<Rightarrow> pubkey option \<Rightarrow> ledger \<Rightarrow> TokenAccount \<Rightarrow>
     ('e, TokenAccount) result" where
  "set_account_authority signers additional authority kind new_authority l t = (case kind of
     AccountOwner \<Rightarrow>
       and_then (validate_owner signers additional l (ta_owner t) authority) (\<lambda>_.
       and_then (ok_or new_authority (Token InvalidInstruction)) (\<lambda>owner.
       Inr (t\<lparr> ta_owner := owner, ta_delegate := None, ta_delegated_amount := 0,
         ta_close_authority := (if ta_is_native t \<noteq> None then None else ta_close_authority t) \<rparr>)))
   | CloseAccountAuthority \<Rightarrow>
       and_then (validate_owner signers additional l (close_authority t) authority) (\<lambda>_.
       Inr (t\<lparr> ta_close_authority := new_authority \<rparr>))
   | _ \<Rightarrow> Inl (Token AuthorityTypeNotSupported))"

definition set_mint_authority ::
    "pubkey list \<Rightarrow> pubkey list \<Rightarrow> pubkey \<Rightarrow> AuthorityType \<Rightarrow> pubkey option \<Rightarrow> ledger \<Rightarrow> Mint \<Rightarrow>
     ('e, Mint) result" where
  "set_mint_authority signers additional authority kind new_authority l m = (case kind of
     MintTokens \<Rightarrow>
       and_then (ok_or (mi_mint_authority m) (Token FixedSupply)) (\<lambda>mint_authority.
       and_then (validate_owner signers additional l mint_authority authority) (\<lambda>_.
       Inr (m\<lparr> mi_mint_authority := new_authority \<rparr>)))
   | FreezeAccountAuthority \<Rightarrow>
       and_then (ok_or (mi_freeze_authority m) (Token MintCannotFreeze)) (\<lambda>freeze_authority.
       and_then (validate_owner signers additional l freeze_authority authority) (\<lambda>_.
       Inr (m\<lparr> mi_freeze_authority := new_authority \<rparr>)))
   | _ \<Rightarrow> Inl (Token AuthorityTypeNotSupported))"

definition process_set_authority ::
    "pubkey list \<Rightarrow> pubkey list \<Rightarrow> pubkey \<Rightarrow> pubkey \<Rightarrow> AuthorityType \<Rightarrow> pubkey option \<Rightarrow> ledger \<Rightarrow>
     ('e, ledger) result" where
  "process_set_authority signers additional k authority kind new_authority l =
     (if data_len (acc_data (l k)) = TOKEN_ACCOUNT_LEN
      then and_then (unpack_token l k) (\<lambda>t.
           and_then (require (ta_state t \<noteq> Frozen) (Token AccountFrozen)) (\<lambda>_.
           and_then (set_account_authority signers additional authority kind new_authority l t) (\<lambda>t.
           write_token_data k (TokenData t) l)))
      else if data_len (acc_data (l k)) = MINT_LEN
      then and_then (unpack_mint l k) (\<lambda>m.
           and_then (set_mint_authority signers additional authority kind new_authority l m) (\<lambda>m.
           write_token_data k (MintData m) l))
      else Inl (Token InvalidArgument))"

section \<open>Minting, closing, freezing\<close>

definition process_mint_to ::
    "pubkey list \<Rightarrow> pubkey list \<Rightarrow> u8 option \<Rightarrow> pubkey \<Rightarrow> pubkey \<Rightarrow> pubkey \<Rightarrow> u64 \<Rightarrow> ledger \<Rightarrow> ('e, ledger) result" where
  "process_mint_to signers additional expected_decimals mint_key destination_key owner amount l =
     and_then (unpack_token l destination_key) (\<lambda>destination.
     and_then (require (ta_state destination \<noteq> Frozen) (Token AccountFrozen)) (\<lambda>_.
     and_then (require (ta_is_native destination = None) (Token NativeNotSupported)) (\<lambda>_.
     and_then (require (mint_key = ta_mint destination) (Token MintMismatch)) (\<lambda>_.
     and_then (unpack_mint l mint_key) (\<lambda>mint.
     and_then (check_decimals expected_decimals mint) (\<lambda>_.
     and_then (case mi_mint_authority mint of
                 Some mint_authority \<Rightarrow> validate_owner signers additional l mint_authority owner
               | None \<Rightarrow> Inl (Token FixedSupply)) (\<lambda>_.
     and_then (if amount = 0
               then require (acc_owner (l mint_key) = TOKEN_PROGRAM_ID \<and>
                             acc_owner (l destination_key) = TOKEN_PROGRAM_ID) (Token IncorrectProgramId)
               else Inr ()) (\<lambda>_.
     and_then (require (unat (ta_amount destination) + unat amount < 2 ^ 64) (Token Overflow)) (\<lambda>_.
     and_then (require (unat (mi_supply mint) + unat amount < 2 ^ 64) (Token Overflow)) (\<lambda>_.
     and_then (write_token_data destination_key
                 (TokenData (destination\<lparr> ta_amount := ta_amount destination + amount \<rparr>)) l) (\<lambda>l.
     write_token_data mint_key (MintData (mint\<lparr> mi_supply := mi_supply mint + amount \<rparr>)) l)))))))))))"

text \<open>Closing pays out the lamports, gives the account back to the system program and drops its data.\<close>

definition process_close_account ::
    "pubkey list \<Rightarrow> pubkey list \<Rightarrow> pubkey \<Rightarrow> pubkey \<Rightarrow> pubkey \<Rightarrow> ledger \<Rightarrow> ('e, ledger) result" where
  "process_close_account signers additional source_key destination_key authority l =
     and_then (require (source_key \<noteq> destination_key) (Token InvalidTokenAccountData)) (\<lambda>_.
     and_then (unpack_token l source_key) (\<lambda>source.
     and_then (require (ta_is_native source \<noteq> None \<or> ta_amount source = 0) (Token NonNativeHasBalance)) (\<lambda>_.
     and_then (if ta_owner source \<noteq> SYSTEM_PROGRAM_ID \<and> ta_owner source \<noteq> INCINERATOR_ID
               then validate_owner signers additional l (close_authority source) authority
               else require (destination_key = INCINERATOR_ID) (Token InvalidTokenAccountData)) (\<lambda>_.
     and_then (require (unat (acc_lamports (l destination_key)) + unat (acc_lamports (l source_key)) < 2 ^ 64)
        (Token Overflow)) (\<lambda>_.
     and_then (require (acc_owner (l source_key) = TOKEN_PROGRAM_ID) (Token IncorrectProgramId)) (\<lambda>_.
     Inr (l(destination_key := add_lamports (acc_lamports (l source_key)) (l destination_key),
            source_key := \<lparr> acc_lamports = 0, acc_owner = SYSTEM_PROGRAM_ID, acc_data = Raw [] \<rparr>))))))))"

definition process_toggle_freeze_account ::
    "pubkey list \<Rightarrow> pubkey list \<Rightarrow> pubkey \<Rightarrow> pubkey \<Rightarrow> pubkey \<Rightarrow> bool \<Rightarrow> ledger \<Rightarrow> ('e, ledger) result" where
  "process_toggle_freeze_account signers additional source_key mint_key authority freeze l =
     and_then (unpack_token l source_key) (\<lambda>source.
     and_then (require (freeze \<longleftrightarrow> ta_state source \<noteq> Frozen) (Token InvalidState)) (\<lambda>_.
     and_then (require (ta_is_native source = None) (Token NativeNotSupported)) (\<lambda>_.
     and_then (require (mint_key = ta_mint source) (Token MintMismatch)) (\<lambda>_.
     and_then (unpack_mint l mint_key) (\<lambda>mint.
     and_then (case mi_freeze_authority mint of
                 Some freeze_authority \<Rightarrow> validate_owner signers additional l freeze_authority authority
               | None \<Rightarrow> Inl (Token MintCannotFreeze)) (\<lambda>_.
     write_token_data source_key
       (TokenData (source\<lparr> ta_state := (if freeze then Frozen else Initialized) \<rparr>)) l))))))"

definition process_sync_native :: "pubkey \<Rightarrow> ledger \<Rightarrow> ('e, ledger) result" where
  "process_sync_native k l =
     and_then (require (acc_owner (l k) = TOKEN_PROGRAM_ID) (Token IncorrectProgramId)) (\<lambda>_.
     and_then (unpack_token l k) (\<lambda>native.
     and_then (ok_or (ta_is_native native) (Token NonNativeNotSupported)) (\<lambda>reserve.
     and_then (require (reserve \<le> acc_lamports (l k)) (Token Overflow)) (\<lambda>_.
     let new_amount = acc_lamports (l k) - reserve in
     and_then (require (ta_amount native \<le> new_amount) (Token InvalidState)) (\<lambda>_.
     write_token_data k (TokenData (native\<lparr> ta_amount := new_amount \<rparr>)) l)))))"

section \<open>The dispatch\<close>

datatype TokenInstruction =
    TokInitializeMint "pubkey option" pubkey u8 pubkey "pubkey option"
  | TokInitializeAccount "pubkey option" pubkey pubkey pubkey
  | TokInitializeMultisig "pubkey option" pubkey u8 "pubkey list"
  | TokTransfer "(pubkey \<times> u8) option" pubkey pubkey pubkey u64 "pubkey list"
  | TokApprove "(pubkey \<times> u8) option" pubkey pubkey pubkey u64 "pubkey list"
  | TokRevoke pubkey pubkey "pubkey list"
  | TokSetAuthority pubkey pubkey AuthorityType "pubkey option" "pubkey list"
  | TokMintTo "u8 option" pubkey pubkey pubkey u64 "pubkey list"
  | TokBurn "u8 option" pubkey pubkey pubkey u64 "pubkey list"
  | TokCloseAccount pubkey pubkey pubkey "pubkey list"
  | TokFreezeAccount pubkey pubkey pubkey "pubkey list"
  | TokThawAccount pubkey pubkey pubkey "pubkey list"
  | TokSyncNative pubkey
  | TokGetAccountDataSize pubkey
  | TokInitializeImmutableOwner pubkey

fun token_process :: "platform \<Rightarrow> pubkey list \<Rightarrow> TokenInstruction \<Rightarrow> ledger \<Rightarrow> (unit, ledger) result" where
  "token_process pf sg (TokInitializeMint rent k d a f) l = process_initialize_mint pf rent k d a f l"
| "token_process pf sg (TokInitializeAccount rent k m a) l = process_initialize_account pf rent k m a l"
| "token_process pf sg (TokInitializeMultisig rent k m ks) l = process_initialize_multisig pf rent k m ks l"
| "token_process pf sg (TokTransfer ex s d a n ad) l = process_transfer sg ad ex s d a n l"
| "token_process pf sg (TokApprove ex s d a n ad) l = process_approve sg ad ex s d a n l"
| "token_process pf sg (TokRevoke s a ad) l = process_revoke sg ad s a l"
| "token_process pf sg (TokSetAuthority k a ty new ad) l = process_set_authority sg ad k a ty new l"
| "token_process pf sg (TokMintTo ex m d a n ad) l = process_mint_to sg ad ex m d a n l"
| "token_process pf sg (TokBurn ex s m a n ad) l = process_burn sg ad ex s m a n l"
| "token_process pf sg (TokCloseAccount s d a ad) l = process_close_account sg ad s d a l"
| "token_process pf sg (TokFreezeAccount s m a ad) l = process_toggle_freeze_account sg ad s m a True l"
| "token_process pf sg (TokThawAccount s m a ad) l = process_toggle_freeze_account sg ad s m a False l"
| "token_process pf sg (TokSyncNative k) l = process_sync_native k l"
| "token_process pf sg (TokGetAccountDataSize m) l = process_get_account_data_size m l"
| "token_process pf sg (TokInitializeImmutableOwner k) l = process_initialize_immutable_owner k l"

end
