(* ===== verification/TokenSafety.thy ===== *)
theory TokenSafety
  imports Isolation TokenInstructions
begin

text \<open>
  What the token program lets outsiders do to the tokens a program holds: no instruction that is not
  signed for a PDA of program \<open>p\<close> lowers a balance held for \<open>p\<close>, or changes its owner, delegate or close
  authority.  So the token program's instructions are part of what the gateway programs rely on.
\<close>

section \<open>The frame of the token program\<close>

definition token_frame :: "ledger \<Rightarrow> ledger \<Rightarrow> bool" where
  "token_frame l l' \<longleftrightarrow>
     (\<forall>k. acc_owner (l k) \<noteq> TOKEN_PROGRAM_ID \<longrightarrow> acc_owner (l' k) = acc_owner (l k) \<and> acc_data (l' k) = acc_data (l k)) \<and>
     (\<forall>k. acc_owner (l k) = TOKEN_PROGRAM_ID \<longrightarrow> acc_owner (l' k) \<in> {TOKEN_PROGRAM_ID, SYSTEM_PROGRAM_ID})"

text \<open>At a PDA of \<open>p\<close> there is nothing, an account of \<open>p\<close>, or a token account.\<close>

definition pda_clean :: "platform \<Rightarrow> pubkey \<Rightarrow> ledger \<Rightarrow> bool" where
  "pda_clean pf p l \<longleftrightarrow> (\<forall>k. program_pda pf p k \<longrightarrow> fresh l k \<or> acc_owner (l k) = p \<or> tok_at l k \<noteq> None)"

definition keeps_clean :: "platform \<Rightarrow> pubkey \<Rightarrow> ledger \<Rightarrow> ledger \<Rightarrow> bool" where
  "keeps_clean pf p l l' \<longleftrightarrow> (pda_clean pf p l \<longrightarrow> pda_clean pf p l')"

definition token_step :: "platform \<Rightarrow> pubkey \<Rightarrow> ledger \<Rightarrow> ledger \<Rightarrow> bool" where
  "token_step pf p l l' \<longleftrightarrow> token_frame l l' \<and> keeps_clean pf p l l' \<and> keeps_held pf p l l'"

lemma token_frame_trans: "token_frame l m \<Longrightarrow> token_frame m l' \<Longrightarrow> token_frame l l'"
  unfolding token_frame_def by (metis insertE insertI1 insertI2 program_ids_distinct(3) singletonD)

lemma keeps_clean_trans: "keeps_clean pf p l m \<Longrightarrow> keeps_clean pf p m l' \<Longrightarrow> keeps_clean pf p l l'"
  by (simp add: keeps_clean_def)

lemma token_step_trans: "token_step pf p l m \<Longrightarrow> token_step pf p m l' \<Longrightarrow> token_step pf p l l'"
  unfolding token_step_def by (blast intro: token_frame_trans keeps_clean_trans keeps_held_trans)

lemma token_step_refl [simp]: "token_step pf p l l"
  by (auto simp: token_step_def token_frame_def keeps_clean_def)

lemma clean_moved: "only_tokens_moved l l' \<Longrightarrow> keeps_clean pf p l l'"
  unfolding keeps_clean_def pda_clean_def
  using tok_at_only_tokens by (metis fresh_def not_None_eq only_tokens_moved_def program_ids_distinct(3))

lemma token_step_moved:
  assumes ot: "only_tokens_moved l l'" and kept: "keeps_held pf p l l'"
  shows "token_step pf p l l'"
  using kept clean_moved [OF ot] ot by (auto simp: token_step_def token_frame_def only_tokens_moved_def)

text \<open>One account of the token program is rewritten.\<close>

lemma token_step_write:
  assumes w: "write_token_data k x l = (Inr l' :: ('e, ledger) result)"
    and keep: "\<And>t. tok_at l k = Some t \<Longrightarrow> \<exists>t'. x = TokenData t' \<and> ta_state t' \<noteq> Uninitialized \<and>
      (held_for pf p t \<longrightarrow> ta_mint t' = ta_mint t \<and> held_for pf p t' \<and> ta_owner t' = ta_owner t \<and> ta_amount t \<le> ta_amount t')"
  shows "token_step pf p l l'"
proof -
  from w have own: "acc_owner (l k) = TOKEN_PROGRAM_ID" and l': "l' = l(k := (l k)\<lparr> acc_data := x \<rparr>)"
    by (simp_all add: write_token_data_Inr)
  have "token_frame l l'" using own by (simp add: token_frame_def l')
  moreover have "keeps_clean pf p l l'"
    unfolding keeps_clean_def pda_clean_def
  proof (intro impI allI)
    fix j
    assume clean: "\<forall>k. program_pda pf p k \<longrightarrow> fresh l k \<or> acc_owner (l k) = p \<or> tok_at l k \<noteq> None" and j: "program_pda pf p j"
    show "fresh l' j \<or> acc_owner (l' j) = p \<or> tok_at l' j \<noteq> None"
    proof (cases "j = k \<and> tok_at l k \<noteq> None")
      case True
      with keep show ?thesis by (auto simp: l' typed_def own)
    next
      case False
      moreover have "\<not> fresh l k" using own by (auto simp: fresh_def)
      ultimately show ?thesis using clean [rule_format, OF j] own by (cases "j = k") (auto simp: l' typed_def fresh_def)
    qed
  qed
  moreover have "keeps_held pf p l l'"
    unfolding keeps_held_def
  proof (intro allI impI, elim conjE)
    fix j t
    assume t: "tok_at l j = Some t" "held_for pf p t"
    show "\<exists>t'. tok_at l' j = Some t' \<and> ta_mint t' = ta_mint t \<and> held_for pf p t' \<and> ta_owner t' = ta_owner t \<and>
        ta_amount t \<le> ta_amount t'"
    proof (cases "j = k")
      case True
      from keep [OF t(1) [unfolded True]] t(2) show ?thesis by (auto simp: True l' typed_def own)
    next
      case False
      then have "tok_at l' j = tok_at l j" by (simp add: l' typed_def)
      with t show ?thesis by auto
    qed
  qed
  ultimately show ?thesis by (simp add: token_step_def)
qed

section \<open>Authorities\<close>

text \<open>
  Outsiders cannot act for a PDA: it has not signed, and it is no multisig, because the accounts of the
  token program at the PDAs of \<open>p\<close> are token accounts.  The owners whose accounts anybody may burn or close
  are not PDAs either.
\<close>

definition reserved_apart :: "platform \<Rightarrow> pubkey \<Rightarrow> bool" where
  "reserved_apart pf p \<longleftrightarrow> \<not> program_pda pf p SYSTEM_PROGRAM_ID \<and> \<not> program_pda pf p INCINERATOR_ID"

definition outsiders :: "platform \<Rightarrow> pubkey \<Rightarrow> pubkey list \<Rightarrow> ledger \<Rightarrow> bool" where
  "outsiders pf p sg l \<longleftrightarrow> (\<forall>k \<in> set sg. \<not> program_pda pf p k) \<and> pda_clean pf p l \<and> reserved_apart pf p \<and>
     p \<noteq> TOKEN_PROGRAM_ID \<and> p \<noteq> SYSTEM_PROGRAM_ID"

lemma owner_outside:
  assumes out: "outsiders pf p sg l" and v: "validate_owner sg ad l e a = (Inr u :: ('e, unit) result)"
  shows "e = a" "\<not> program_pda pf p a"
proof -
  from v show "e = a" by (auto simp: validate_owner_def and_then_eq_Inr require_eq_Inr)
  from v consider "a \<in> set sg" | m n ks where "acc_owner (l a) = TOKEN_PROGRAM_ID" "acc_data (l a) = MultisigData m n ks"
    by (auto simp: validate_owner_def and_then_eq_Inr require_eq_Inr split: if_splits account_data.splits)
  then show "\<not> program_pda pf p a"
  proof cases
    case 2
    then have "tok_at l a = None" by (simp add: typed_def)
    with out 2 show ?thesis by (auto simp: outsiders_def pda_clean_def fresh_def)
  qed (use out in \<open>simp add: outsiders_def\<close>)
qed

lemma source_outside:
  "outsiders pf p sg l \<Longrightarrow> authorize_source sg ad l t a n keep = (Inr t' :: ('e, TokenAccount) result) \<Longrightarrow>
     \<not> program_pda pf p a"
  by (auto simp: authorize_source_def and_then_eq_Inr dest: owner_outside(2) split: if_splits)

lemma owner_not_held:
  assumes "outsiders pf p sg l"
  shows "validate_owner sg ad l (ta_owner t) a = (Inr u :: ('e, unit) result) \<Longrightarrow> \<not> held_for pf p t"
    and "validate_owner sg ad l (close_authority t) a = (Inr u :: ('e, unit) result) \<Longrightarrow> \<not> held_for pf p t"
  using owner_outside [OF assms, of ad _ a u]
  by (auto simp: held_for_def close_authority_def split: option.splits)

lemma reserved_not_held: "outsiders pf p sg l \<Longrightarrow> ta_owner t = SYSTEM_PROGRAM_ID \<or> ta_owner t = INCINERATOR_ID \<Longrightarrow>
    \<not> held_for pf p t"
  by (auto simp: outsiders_def reserved_apart_def held_for_def)

section \<open>Each instruction\<close>

lemma unpacked: "unpack_token l k = (Inr t :: ('e, TokenAccount) result) \<Longrightarrow> tok_at l k = Some u \<Longrightarrow> u = t"
  by (auto simp: unpack_Inr typed_Some as_data_Some)

lemma unpacked_state: "unpack_token l k = (Inr t :: ('e, TokenAccount) result) \<Longrightarrow> ta_state t \<noteq> Uninitialized"
  by (simp add: unpack_Inr)

lemma initialise_steps:
  "process_initialize_mint pf rent k d a f l = Inr l' \<Longrightarrow> token_step pf p l l'"
  "process_initialize_account pf rent k m a l = Inr l' \<Longrightarrow> token_step pf p l l'"
  "process_initialize_multisig pf rent k mm ks l = Inr l' \<Longrightarrow> token_step pf p l l'"
  "process_initialize_immutable_owner k l = Inr l' \<Longrightarrow> token_step pf p l l'"
  "process_get_account_data_size k l = Inr l' \<Longrightarrow> token_step pf p l l'"
  unfolding process_initialize_mint_def process_initialize_account_def process_initialize_account3_def
    process_initialize_multisig_def process_initialize_immutable_owner_def process_get_account_data_size_def
    Let_def is_zeroed_token_account_def
  by - (clarsimp simp: and_then_eq_Inr require_eq_Inr; (erule token_step_write)?; simp add: typed_def split: if_splits)+

lemma transfer_step:
  assumes out: "outsiders pf p sg l" and run: "process_transfer sg ad ex src dst a n l = (Inr l' :: ('e, ledger) result)"
  shows "token_step pf p l l'"
proof -
  note tr = process_transfer_transferred [OF run]
  from run obtain s s' keep where "authorize_source sg ad l s a n keep = (Inr s' :: ('e, TokenAccount) result)"
    unfolding process_transfer_def Let_def by (auto simp: and_then_eq_Inr)
  from source_outside [OF out this] keeps_held_transferred [OF tr] show ?thesis
    by (intro token_step_moved transferred_only_tokens [OF tr]) blast
qed

lemma burn_step:
  assumes out: "outsiders pf p sg l" and run: "process_burn sg ad ex src mint a n l = (Inr l' :: ('e, ledger) result)"
  shows "token_step pf p l l'"
proof -
  note b = process_burn_burned [OF run]
  from run obtain s s' where s: "unpack_token l src = (Inr s :: ('e, TokenAccount) result)"
    and auth: "(ta_owner s = SYSTEM_PROGRAM_ID \<or> ta_owner s = INCINERATOR_ID) \<or>
      authorize_source sg ad l s a n False = (Inr s' :: ('e, TokenAccount) result)"
    unfolding process_burn_def by (auto simp: and_then_eq_Inr split: if_splits)
  have tok: "tok_at l src = Some s" using s burned_frame(1) [OF b] by (simp add: unpack_Inr typed_Some as_data_Some)
  have "\<not> held_for pf p s"
    using auth
  proof
    assume a: "authorize_source sg ad l s a n False = (Inr s' :: ('e, TokenAccount) result)"
    from source_outside [OF out a] authorize_source_authority [OF a] show ?thesis by (auto simp: held_for_def)
  qed (rule reserved_not_held [OF out])
  from keeps_held_burned [OF b tok this] show ?thesis by (rule token_step_moved [OF burned_only_tokens [OF b]])
qed

lemma authority_steps:
  assumes out: "outsiders pf p sg l"
  shows "process_approve sg ad ex s d a n l = Inr l' \<Longrightarrow> token_step pf p l l'"
    and "process_revoke sg ad s a l = Inr l' \<Longrightarrow> token_step pf p l l'"
  unfolding process_approve_def process_revoke_def
  by - (clarsimp simp: and_then_eq_Inr require_eq_Inr, erule token_step_write,
      use owner_not_held(1) [OF out] unpacked unpacked_state in fastforce)+

lemma set_account_authority_step:
  assumes out: "outsiders pf p sg l" and t: "unpack_token l k = (Inr t :: ('e, TokenAccount) result)"
    and run: "set_account_authority sg ad a kind new l t = (Inr t' :: ('e, TokenAccount) result)"
  shows "\<not> held_for pf p t \<and> ta_state t' = ta_state t"
  using run owner_not_held [OF out, of ad t a]
  by (auto simp: set_account_authority_def and_then_eq_Inr split: AuthorityType.splits)

lemma set_authority_step:
  assumes out: "outsiders pf p sg l" and run: "process_set_authority sg ad k a kind new l = (Inr l' :: ('e, ledger) result)"
  shows "token_step pf p l l'"
proof (cases "data_len (acc_data (l k)) = TOKEN_ACCOUNT_LEN")
  case True
  with run obtain t t' where t: "unpack_token l k = (Inr t :: ('e, TokenAccount) result)"
    and set: "set_account_authority sg ad a kind new l t = (Inr t' :: ('e, TokenAccount) result)"
    and w: "write_token_data k (TokenData t') l = (Inr l' :: ('e, ledger) result)"
    unfolding process_set_authority_def by (auto simp: and_then_eq_Inr)
  show ?thesis
    by (rule token_step_write [OF w]) (use set_account_authority_step [OF out t set] unpacked [OF t] unpacked_state [OF t] in auto)
next
  case False
  with run obtain m m' where m: "unpack_mint l k = (Inr m :: ('e, Mint) result)"
    and w: "write_token_data k (MintData m') l = (Inr l' :: ('e, ledger) result)"
    unfolding process_set_authority_def by (auto simp: and_then_eq_Inr split: if_splits)
  then have "tok_at l k = None" by (simp add: unpack_Inr typed_def)
  then show ?thesis by (intro token_step_write [OF w]) simp
qed

lemma mint_to_step:
  assumes run: "process_mint_to sg ad ex mint dst a n l = (Inr l' :: ('e, ledger) result)"
  shows "token_step pf p l l'"
proof -
  from run obtain d m l1 where d: "unpack_token l dst = (Inr d :: ('e, TokenAccount) result)"
    and m: "unpack_mint l mint = (Inr m :: ('e, Mint) result)" and bound: "unat (ta_amount d) + unat n < 2 ^ 64"
    and w1: "write_token_data dst (TokenData (d\<lparr> ta_amount := ta_amount d + n \<rparr>)) l = (Inr l1 :: ('e, ledger) result)"
    and w2: "write_token_data mint (MintData (m\<lparr> mi_supply := mi_supply m + n \<rparr>)) l1 = (Inr l' :: ('e, ledger) result)"
    unfolding process_mint_to_def by (auto simp: and_then_eq_Inr require_eq_Inr)
  have "ta_amount d \<le> ta_amount d + n" using bound by (simp add: u64_le_iff unat_add_u64)
  then have 1: "token_step pf p l l1"
    by (intro token_step_write [OF w1]) (use unpacked [OF d] unpacked_state [OF d] in \<open>auto simp: held_for_def\<close>)
  have "mint \<noteq> dst" using d m by (auto simp: unpack_Inr)
  then have "tok_at l1 mint = None" using m w1 by (auto simp: unpack_Inr write_token_data_Inr typed_def)
  then have "token_step pf p l1 l'" by (intro token_step_write [OF w2]) simp
  with 1 show ?thesis by (rule token_step_trans)
qed

lemma freeze_step:
  assumes run: "process_toggle_freeze_account sg ad s m a fr l = (Inr l' :: ('e, ledger) result)"
  shows "token_step pf p l l'"
proof -
  from run obtain t where t: "unpack_token l s = (Inr t :: ('e, TokenAccount) result)"
    and w: "write_token_data s (TokenData (t\<lparr> ta_state := (if fr then Frozen else Initialized) \<rparr>)) l
      = (Inr l' :: ('e, ledger) result)"
    unfolding process_toggle_freeze_account_def by (auto simp: and_then_eq_Inr require_eq_Inr)
  show ?thesis by (rule token_step_write [OF w]) (use unpacked [OF t] in \<open>auto simp: held_for_def\<close>)
qed

lemma sync_step:
  assumes run: "process_sync_native k l = (Inr l' :: ('e, ledger) result)"
  shows "token_step pf p l l'"
proof -
  from run obtain t r where t: "unpack_token l k = (Inr t :: ('e, TokenAccount) result)"
    and le: "ta_amount t \<le> acc_lamports (l k) - r"
    and w: "write_token_data k (TokenData (t\<lparr> ta_amount := acc_lamports (l k) - r \<rparr>)) l = (Inr l' :: ('e, ledger) result)"
    unfolding process_sync_native_def Let_def by (auto simp: and_then_eq_Inr require_eq_Inr)
  show ?thesis
    by (rule token_step_write [OF w]) (use unpacked [OF t] unpacked_state [OF t] le in \<open>auto simp: held_for_def\<close>)
qed

lemma close_step:
  assumes out: "outsiders pf p sg l" and run: "process_close_account sg ad s d a l = (Inr l' :: ('e, ledger) result)"
  shows "token_step pf p l l'"
proof -
  from run obtain t where t: "unpack_token l s = (Inr t :: ('e, TokenAccount) result)"
    and own: "acc_owner (l s) = TOKEN_PROGRAM_ID" and ne: "s \<noteq> d"
    and auth: "ta_owner t = SYSTEM_PROGRAM_ID \<or> ta_owner t = INCINERATOR_ID \<or>
       validate_owner sg ad l (close_authority t) a = (Inr () :: ('e, unit) result)"
    and l': "l' = l(d := add_lamports (acc_lamports (l s)) (l d),
       s := \<lparr> acc_lamports = 0, acc_owner = SYSTEM_PROGRAM_ID, acc_data = Raw [] \<rparr>)"
    unfolding process_close_account_def by (auto simp: and_then_eq_Inr require_eq_Inr split: if_splits)
  have "\<not> held_for pf p t" using auth reserved_not_held [OF out] owner_not_held(2) [OF out] by blast
  moreover have "tok_at l s = Some t" using t own by (simp add: unpack_Inr typed_Some as_data_Some)
  ultimately have kept: "keeps_held pf p l l'" by (auto simp: keeps_held_def l' typed_def add_lamports_def)
  have same: "acc_owner (l' j) = acc_owner (l j)" "acc_data (l' j) = acc_data (l j)" if "j \<noteq> s" for j
    using that by (simp_all add: l')
  have gone: "acc_owner (l' s) = SYSTEM_PROGRAM_ID" "acc_data (l' s) = Raw []" by (simp_all add: l')
  have "token_frame l l'"
    unfolding token_frame_def using same gone own by (metis insertCI)
  moreover have "keeps_clean pf p l l'"
    unfolding keeps_clean_def pda_clean_def fresh_def typed_def using same gone by metis
  ultimately show ?thesis using kept by (simp add: token_step_def)
qed

lemma token_process_step:
  assumes out: "outsiders pf p sg l" and run: "token_process pf sg ix l = Inr l'"
  shows "token_step pf p l l'"
  using run
  by (cases ix) (auto intro: initialise_steps transfer_step [OF out] burn_step [OF out] authority_steps [OF out]
      set_authority_step [OF out] mint_to_step freeze_step sync_step close_step [OF out])

lemma token_step_spares:
  assumes "token_step pf p l l'" "p \<noteq> TOKEN_PROGRAM_ID" "p \<noteq> SYSTEM_PROGRAM_ID"
  shows "spares pf p l l'"
proof -
  have frame: "acc_owner (l k) \<noteq> TOKEN_PROGRAM_ID \<Longrightarrow> acc_owner (l' k) = acc_owner (l k) \<and> acc_data (l' k) = acc_data (l k)"
    "acc_owner (l k) = TOKEN_PROGRAM_ID \<Longrightarrow> acc_owner (l' k) \<in> {TOKEN_PROGRAM_ID, SYSTEM_PROGRAM_ID}" for k
    using assms(1) by (auto simp: token_step_def token_frame_def)
  show ?thesis
    unfolding spares_def
  proof (intro conjI allI impI)
    fix k
    show "acc_owner (l k) = p \<Longrightarrow> acc_owner (l' k) = p" "acc_owner (l k) = p \<Longrightarrow> acc_data (l' k) = acc_data (l k)"
      using frame(1) [of k] assms(2) by auto
    show "acc_owner (l k) \<noteq> p \<Longrightarrow> acc_owner (l' k) \<noteq> p"
      using frame [of k] assms(2,3) by (cases "acc_owner (l k) = TOKEN_PROGRAM_ID") (auto simp: fresh_def)
    show "program_pda pf p k \<and> fresh l k \<Longrightarrow> fresh l' k"
      using frame(1) [of k] by (simp add: fresh_def)
  qed (use assms(1) in \<open>simp add: token_step_def\<close>)
qed

end
