(* ===== verification/Borsh.thy ===== *)
theory Borsh
  imports Prelude
begin

text \<open>
  Borsh, the byte format of instruction arguments and of Anchor's account data, as the vendored borsh-0.10.4
  reads and writes it.  A reader returns a value and the bytes it did not read, or fails (the callers
  replace the io error by one of their own).  The locale \<open>codec\<close> is the contract of a type's reader and
  writer: what is read is what was written, byte for byte, for the values that have an encoding.
\<close>

named_theorems borsh_simps \<open>what a reader returns\<close>

section \<open>Readers\<close>

type_synonym 'a reader = "bytes \<Rightarrow> ('a \<times> bytes) option"

definition then_read :: "'a reader \<Rightarrow> ('a \<Rightarrow> 'b reader) \<Rightarrow> 'b reader" where
  "then_read m k bs = (case m bs of None \<Rightarrow> None | Some (x, r) \<Rightarrow> k x r)"

definition done_read :: "'a \<Rightarrow> 'a reader" where
  "done_read x bs = Some (x, bs)"

lemma then_read_Some [borsh_simps]:
  "then_read m k bs = Some y \<longleftrightarrow> (\<exists>x r. m bs = Some (x, r) \<and> k x r = Some y)"
  by (auto simp: then_read_def split: option.splits)

lemma done_read_Some [borsh_simps]: "done_read x bs = Some (y, r) \<longleftrightarrow> y = x \<and> r = bs"
  by (auto simp: done_read_def)

text \<open>\<open>read_exact\<close>: a byte array of fixed length.\<close>

definition read_exact :: "nat \<Rightarrow> bytes reader" where
  "read_exact n bs = (if n \<le> length bs then Some (take n bs, drop n bs) else None)"

lemma read_exact_Some: "read_exact n bs = Some (x, r) \<longleftrightarrow> length x = n \<and> bs = x @ r"
  by (auto simp: read_exact_def)

section \<open>Integers, booleans, keys\<close>

definition u32_from_le :: "bytes \<Rightarrow> u32" where "u32_from_le bs = word_of_nat (be_nat (rev bs))"
definition u64_from_le :: "bytes \<Rightarrow> u64" where "u64_from_le bs = word_of_nat (be_nat (rev bs))"
definition u64_to_le :: "u64 \<Rightarrow> bytes" where "u64_to_le w = rev (be_bytes 8 (unat w))"

lemma length_u64_to_le [simp]: "length (u64_to_le w) = 8"
  by (simp add: u64_to_le_def)

lemma u32_le_roundtrip [simp]: "u32_from_le (u32_to_le w) = w"
proof -
  have "unat w mod 256 ^ 4 = unat w" using unat_bound [of w] by simp
  then show ?thesis by (simp add: u32_from_le_def u32_to_le_def be_nat_be_bytes)
qed

lemma u64_le_roundtrip [simp]: "u64_from_le (u64_to_le w) = w"
proof -
  have "unat w mod 256 ^ 8 = unat w" using unat_bound [of w] by simp
  then show ?thesis by (simp add: u64_from_le_def u64_to_le_def be_nat_be_bytes)
qed

lemma unat_from_le:
  "length bs = 4 \<Longrightarrow> unat (u32_from_le bs) = be_nat (rev bs)"
  "length bs = 8 \<Longrightarrow> unat (u64_from_le bs) = be_nat (rev bs)"
  using be_nat_bound [of "rev bs"] by (simp_all add: u32_from_le_def u64_from_le_def unat_of_nat)

lemma to_from_le:
  "length bs = 4 \<Longrightarrow> u32_to_le (u32_from_le bs) = bs"
  "length bs = 8 \<Longrightarrow> u64_to_le (u64_from_le bs) = bs"
  using be_bytes_be_nat [of "rev bs"] by (simp_all add: u32_to_le_def u64_to_le_def unat_from_le)

definition borsh_u8 :: "u8 reader" where
  "borsh_u8 = then_read (read_exact 1) (\<lambda>b. done_read (b ! 0))"

definition borsh_u32 :: "u32 reader" where
  "borsh_u32 = then_read (read_exact 4) (\<lambda>b. done_read (u32_from_le b))"

definition borsh_u64 :: "u64 reader" where
  "borsh_u64 = then_read (read_exact 8) (\<lambda>b. done_read (u64_from_le b))"

text \<open>A boolean is the byte 0 or 1; every other byte is an error.\<close>

definition borsh_bool :: "bool reader" where
  "borsh_bool = then_read borsh_u8 (\<lambda>b r. if b = 0 then Some (False, r) else if b = 1 then Some (True, r) else None)"

definition bool_byte :: "bool \<Rightarrow> u8" where
  "bool_byte b = (if b then 1 else 0)"

section \<open>The contract of a codec\<close>

locale codec =
  fixes valid :: "'a \<Rightarrow> bool" and encode :: "'a \<Rightarrow> bytes" and decode :: "bytes \<Rightarrow> ('a \<times> bytes) option"
  assumes read_Some: "decode bs = Some (x, r) \<longleftrightarrow> valid x \<and> bs = encode x @ r"
begin

lemma read_write: "valid x \<Longrightarrow> decode (encode x @ r) = Some (x, r)"
  by (simp add: read_Some)

lemma read_write_end: "valid x \<Longrightarrow> decode (encode x) = Some (x, [])"
  using read_write [of x "[]"] by simp

lemma write_inject: "valid x \<Longrightarrow> valid y \<Longrightarrow> encode x @ r = encode y @ s \<longleftrightarrow> x = y \<and> r = s"
  by (metis read_write option.inject prod.inject)

lemma read_None: "decode bs = None \<longleftrightarrow> (\<forall>x r. valid x \<longrightarrow> bs \<noteq> encode x @ r)"
  using read_Some [of bs] by (cases "decode bs") auto

lemma read_length: "decode bs = Some (x, r) \<Longrightarrow> length bs = length (encode x) + length r"
  by (simp add: read_Some)

end

interpretation array: codec "\<lambda>x. length x = n" "\<lambda>x. x" "read_exact n" for n
  by unfold_locales (rule read_exact_Some)

interpretation u8: codec "\<lambda>_. True" "\<lambda>w. [w]" borsh_u8
proof unfold_locales
  fix bs x r
  show "borsh_u8 bs = Some (x, r) \<longleftrightarrow> True \<and> bs = [x] @ r"
    by (cases bs) (auto simp: borsh_u8_def borsh_simps read_exact_def)
qed

interpretation u32: codec "\<lambda>_. True" u32_to_le borsh_u32
proof unfold_locales
  fix bs x r
  show "borsh_u32 bs = Some (x, r) \<longleftrightarrow> True \<and> bs = u32_to_le x @ r"
    by (auto simp: borsh_u32_def borsh_simps read_exact_Some to_from_le)
qed

interpretation u64: codec "\<lambda>_. True" u64_to_le borsh_u64
proof unfold_locales
  fix bs x r
  show "borsh_u64 bs = Some (x, r) \<longleftrightarrow> True \<and> bs = u64_to_le x @ r"
    by (auto simp: borsh_u64_def borsh_simps read_exact_Some to_from_le)
qed

interpretation boolean: codec "\<lambda>_. True" "\<lambda>b. [bool_byte b]" borsh_bool
proof unfold_locales
  fix bs x r
  show "borsh_bool bs = Some (x, r) \<longleftrightarrow> True \<and> bs = [bool_byte x] @ r"
    by (cases bs; cases x) (auto simp: borsh_bool_def then_read_def borsh_u8_def read_exact_def done_read_def bool_byte_def)
qed

definition borsh_pubkey :: "pubkey reader" where
  "borsh_pubkey = read_exact 32"

interpretation pubkey: codec "\<lambda>k. length k = 32" "\<lambda>k. k" borsh_pubkey
  by unfold_locales (simp add: borsh_pubkey_def read_exact_Some)

section \<open>Vectors\<close>

text \<open>
  \<open>Vec<u8>\<close> reads its length and then all bytes at once; any other vector reads its elements one by one.
\<close>

definition borsh_bytes :: "bytes reader" where
  "borsh_bytes = then_read borsh_u32 (\<lambda>n. read_exact (unat n))"

fun read_elements :: "'a reader \<Rightarrow> nat \<Rightarrow> 'a list reader" where
  "read_elements m 0 = done_read []"
| "read_elements m (Suc n) = then_read m (\<lambda>x. then_read (read_elements m n) (\<lambda>xs. done_read (x # xs)))"

definition borsh_vec :: "'a reader \<Rightarrow> 'a list reader" where
  "borsh_vec m = then_read borsh_u32 (\<lambda>n. read_elements m (unat n))"

definition write_vec :: "('a \<Rightarrow> bytes) \<Rightarrow> 'a list \<Rightarrow> bytes" where
  "write_vec f xs = u32_to_le (word_of_nat (length xs)) @ concat (map f xs)"

definition write_bytes :: "bytes \<Rightarrow> bytes" where
  "write_bytes bs = u32_to_le (word_of_nat (length bs)) @ bs"

lemma unat_u32_length: "length xs < 2 ^ 32 \<Longrightarrow> unat (word_of_nat (length xs) :: u32) = length xs"
  by (simp add: unat_of_nat)

lemma u32_of_unat_length: "length xs = unat (n :: u32) \<Longrightarrow> n = word_of_nat (length xs)"
  by simp

lemma unat_u32_less: "unat (n :: u32) < 2 ^ 32"
  using unat_bound [of n] by simp

interpretation byte_vec: codec "\<lambda>bs. length bs < 2 ^ 32" write_bytes borsh_bytes
proof unfold_locales
  fix bs x r
  show "borsh_bytes bs = Some (x, r) \<longleftrightarrow> length x < 2 ^ 32 \<and> bs = write_bytes x @ r"
    by (auto simp: borsh_bytes_def write_bytes_def borsh_simps u32.read_Some read_exact_Some unat_u32_length)
      (use unat_u32_less in simp)
qed

lemma read_elements_Some:
  assumes "codec valid encode decode"
  shows "read_elements decode n bs = Some (xs, r) \<longleftrightarrow>
    length xs = n \<and> (\<forall>x \<in> set xs. valid x) \<and> bs = concat (map encode xs) @ r"
proof (induction n arbitrary: bs xs)
  case (Suc n)
  show ?case
    by (cases xs) (auto simp: borsh_simps codec.read_Some [OF assms] Suc.IH)
qed (auto simp: borsh_simps)

lemma codec_vec:
  assumes "codec valid encode decode"
  shows "codec (\<lambda>xs. length xs < 2 ^ 32 \<and> (\<forall>x \<in> set xs. valid x)) (write_vec encode) (borsh_vec decode)"
proof
  fix bs xs r
  show "borsh_vec decode bs = Some (xs, r) \<longleftrightarrow>
      (length xs < 2 ^ 32 \<and> (\<forall>x \<in> set xs. valid x)) \<and> bs = write_vec encode xs @ r"
    by (auto simp: borsh_vec_def write_vec_def borsh_simps u32.read_Some read_elements_Some [OF assms] unat_u32_length)
      (use unat_u32_less in simp)
qed

interpretation u8_vec: codec "\<lambda>xs. length xs < 2 ^ 32 \<and> (\<forall>x \<in> set xs. True)" "write_vec (\<lambda>w. [w])" "borsh_vec borsh_u8"
  by (rule codec_vec) unfold_locales

interpretation pubkey_vec: codec "\<lambda>xs. length xs < 2 ^ 32 \<and> (\<forall>k \<in> set xs. length k = 32)" "write_vec (\<lambda>k. k)"
  "borsh_vec borsh_pubkey"
  by (rule codec_vec) unfold_locales

text \<open>The fast path of \<open>Vec<u8>\<close> reads what the loop over its elements would.\<close>

lemma write_bytes_vec: "write_vec (\<lambda>w. [w]) bs = write_bytes bs"
  by (simp add: write_vec_def write_bytes_def)

lemma borsh_bytes_vec: "borsh_bytes = borsh_vec borsh_u8"
proof
  fix bs
  show "borsh_bytes bs = borsh_vec borsh_u8 bs"
    using byte_vec.read_Some [of bs] u8_vec.read_Some [of bs]
    by (cases "borsh_bytes bs"; cases "borsh_vec borsh_u8 bs") (auto simp: write_bytes_vec)
qed

lemmas borsh_read = u8.read_Some u32.read_Some u64.read_Some boolean.read_Some pubkey.read_Some byte_vec.read_Some
  u8_vec.read_Some pubkey_vec.read_Some array.read_Some

end
