(* ===== verification/Layouts.thy ===== *)
theory Layouts
  imports Borsh Ledger
begin

text \<open>
  The bytes of the programs' accounts: a two-byte discriminator and the fields in Borsh, in the order of
  state.rs, then whatever was there before.  The ledger of this development keeps account data typed; the
  lemmas here justify it: what an account is loaded as is what was stored last, every record fits the
  space of its account, and no byte string loads as two kinds of account.
\<close>

section \<open>Discriminators, loading and storing\<close>

definition WALLET_DISCRIMINATOR :: bytes where "WALLET_DISCRIMINATOR = [21, 0]"
definition DEPOSIT_DISCRIMINATOR :: bytes where "DEPOSIT_DISCRIMINATOR = [21, 1]"
definition DELEGATE_DISCRIMINATOR :: bytes where "DELEGATE_DISCRIMINATOR = [21, 2]"
definition DENYLIST_DISCRIMINATOR :: bytes where "DENYLIST_DISCRIMINATOR = [21, 3]"
definition MINTER_DISCRIMINATOR :: bytes where "MINTER_DISCRIMINATOR = [11, 0]"

lemmas discriminator_defs = WALLET_DISCRIMINATOR_def DEPOSIT_DISCRIMINATOR_def DELEGATE_DISCRIMINATOR_def
  DENYLIST_DISCRIMINATOR_def MINTER_DISCRIMINATOR_def

text \<open>\<open>try_deserialize\<close>: the discriminator, then the fields; bytes left over are ignored.\<close>

definition try_deserialize :: "bytes \<Rightarrow> 'a reader \<Rightarrow> bytes \<Rightarrow> ('e, 'a) result" where
  "try_deserialize disc m bs =
     and_then (require (length disc \<le> length bs) (Anchor AccountDiscriminatorNotFound)) (\<lambda>_.
     and_then (require (take (length disc) bs = disc) (Anchor AccountDiscriminatorMismatch)) (\<lambda>_.
     and_then (ok_or (m (drop (length disc) bs)) (Anchor AccountDidNotDeserialize)) (\<lambda>(x, r). Inr x)))"

text \<open>\<open>exit\<close>: the new bytes overwrite the old ones from the start, and the rest stays as it was.\<close>

definition try_serialize :: "bytes \<Rightarrow> ('a \<Rightarrow> bytes) \<Rightarrow> 'a \<Rightarrow> bytes \<Rightarrow> ('e, bytes) result" where
  "try_serialize disc f x old =
     (let new = disc @ f x in
      and_then (require (length new \<le> length old) (Anchor AccountDidNotSerialize)) (\<lambda>_.
      Inr (new @ drop (length new) old)))"

lemma try_deserialize_Inr:
  "try_deserialize disc m bs = Inr x \<longleftrightarrow> (\<exists>cs r. bs = disc @ cs \<and> m cs = Some (x, r))"
proof -
  have "length disc \<le> length bs \<and> take (length disc) bs = disc \<longleftrightarrow> (\<exists>cs. bs = disc @ cs)"
    by (metis append_eq_conv_conj append_take_drop_id length_append le_add1)
  then show ?thesis by (auto simp: try_deserialize_def result_simps split: prod.splits)
qed

lemma load_distinct:
  assumes "try_deserialize disc m bs = Inr x" "try_deserialize disc' m' bs = Inr y" "length disc = length disc'"
  shows "disc = disc'"
  using assms by (auto simp: try_deserialize_Inr)

section \<open>GatewayWallet\<close>

definition read_GatewayWallet :: "GatewayWallet reader" where
  "read_GatewayWallet =
     then_read borsh_u8 (\<lambda>bump. then_read borsh_pubkey (\<lambda>owner. then_read borsh_pubkey (\<lambda>pending_owner.
     then_read borsh_pubkey (\<lambda>pauser. then_read borsh_pubkey (\<lambda>denylister.
     then_read borsh_pubkey (\<lambda>token_controller. then_read borsh_pubkey (\<lambda>fee_recipient.
     then_read borsh_u32 (\<lambda>local_domain. then_read borsh_u32 (\<lambda>version.
     then_read borsh_u64 (\<lambda>withdrawal_delay. then_read borsh_bool (\<lambda>paused.
     then_read (borsh_vec borsh_pubkey) (\<lambda>supported_tokens. then_read borsh_bytes (\<lambda>bumps.
     then_read (borsh_vec borsh_pubkey) (\<lambda>burn_signers.
     done_read \<lparr> gw_bump = bump, gw_owner = owner, gw_pending_owner = pending_owner, gw_pauser = pauser,
       gw_denylister = denylister, gw_token_controller = token_controller, gw_fee_recipient = fee_recipient,
       gw_local_domain = local_domain, gw_version = version, gw_withdrawal_delay = withdrawal_delay,
       gw_paused = paused, gw_supported_tokens = supported_tokens, gw_custody_token_account_bumps = bumps,
       gw_burn_signers = burn_signers \<rparr>))))))))))))))"

definition write_GatewayWallet :: "GatewayWallet \<Rightarrow> bytes" where
  "write_GatewayWallet w = [gw_bump w] @ gw_owner w @ gw_pending_owner w @ gw_pauser w @ gw_denylister w @
     gw_token_controller w @ gw_fee_recipient w @ u32_to_le (gw_local_domain w) @ u32_to_le (gw_version w) @
     u64_to_le (gw_withdrawal_delay w) @ [bool_byte (gw_paused w)] @ write_vec (\<lambda>k. k) (gw_supported_tokens w) @
     write_bytes (gw_custody_token_account_bumps w) @ write_vec (\<lambda>k. k) (gw_burn_signers w)"

text \<open>The values of the Rust types: keys have 32 bytes, and a vector's length is a \<open>u32\<close>.\<close>

definition keys_ok :: "pubkey list \<Rightarrow> bool" where
  "keys_ok ks \<longleftrightarrow> length ks < 2 ^ 32 \<and> (\<forall>k \<in> set ks. length k = 32)"

definition wallet_typed :: "GatewayWallet \<Rightarrow> bool" where
  "wallet_typed w \<longleftrightarrow> (\<forall>k \<in> {gw_owner w, gw_pending_owner w, gw_pauser w, gw_denylister w,
       gw_token_controller w, gw_fee_recipient w}. length k = 32) \<and>
     keys_ok (gw_supported_tokens w) \<and> length (gw_custody_token_account_bumps w) < 2 ^ 32 \<and> keys_ok (gw_burn_signers w)"

interpretation wallet_codec: codec wallet_typed write_GatewayWallet read_GatewayWallet
proof unfold_locales
  fix bs w r
  show "read_GatewayWallet bs = Some (w, r) \<longleftrightarrow> wallet_typed w \<and> bs = write_GatewayWallet w @ r"
    by (cases w) (auto simp: read_GatewayWallet_def write_GatewayWallet_def wallet_typed_def keys_ok_def borsh_simps borsh_read)
qed

section \<open>GatewayDeposit and GatewayDelegate\<close>

definition read_GatewayDeposit :: "GatewayDeposit reader" where
  "read_GatewayDeposit =
     then_read borsh_u8 (\<lambda>bump. then_read borsh_pubkey (\<lambda>depositor. then_read borsh_pubkey (\<lambda>token_mint.
     then_read borsh_u64 (\<lambda>available. then_read borsh_u64 (\<lambda>withdrawing. then_read borsh_u64 (\<lambda>block.
     done_read \<lparr> dep_bump = bump, dep_depositor = depositor, dep_token_mint = token_mint,
       dep_available_amount = available, dep_withdrawing_amount = withdrawing, dep_withdrawal_block = block \<rparr>))))))"

definition write_GatewayDeposit :: "GatewayDeposit \<Rightarrow> bytes" where
  "write_GatewayDeposit d = [dep_bump d] @ dep_depositor d @ dep_token_mint d @ u64_to_le (dep_available_amount d) @
     u64_to_le (dep_withdrawing_amount d) @ u64_to_le (dep_withdrawal_block d)"

definition deposit_typed :: "GatewayDeposit \<Rightarrow> bool" where
  "deposit_typed d \<longleftrightarrow> length (dep_depositor d) = 32 \<and> length (dep_token_mint d) = 32"

interpretation deposit_codec: codec deposit_typed write_GatewayDeposit read_GatewayDeposit
proof unfold_locales
  fix bs d r
  show "read_GatewayDeposit bs = Some (d, r) \<longleftrightarrow> deposit_typed d \<and> bs = write_GatewayDeposit d @ r"
    by (cases d) (auto simp: read_GatewayDeposit_def write_GatewayDeposit_def deposit_typed_def borsh_simps borsh_read)
qed

text \<open>A unit enum is its variant's index.\<close>

fun status_byte :: "DelegateStatus \<Rightarrow> u8" where
  "status_byte Unauthorized = 0" | "status_byte Authorized = 1" | "status_byte Revoked = 2"

definition read_DelegateStatus :: "DelegateStatus reader" where
  "read_DelegateStatus = then_read borsh_u8 (\<lambda>b r.
     if b = 0 then Some (Unauthorized, r) else if b = 1 then Some (Authorized, r)
     else if b = 2 then Some (Revoked, r) else None)"

interpretation status: codec "\<lambda>_. True" "\<lambda>s. [status_byte s]" read_DelegateStatus
proof unfold_locales
  fix bs s r
  show "read_DelegateStatus bs = Some (s, r) \<longleftrightarrow> True \<and> bs = [status_byte s] @ r"
    by (cases bs; cases s) (auto simp: read_DelegateStatus_def then_read_def borsh_u8_def read_exact_def done_read_def)
qed

definition read_GatewayDelegate :: "GatewayDelegate reader" where
  "read_GatewayDelegate =
     then_read borsh_u8 (\<lambda>bump. then_read read_DelegateStatus (\<lambda>status. then_read borsh_u64 (\<lambda>block.
     then_read borsh_pubkey (\<lambda>token. then_read borsh_pubkey (\<lambda>depositor. then_read borsh_pubkey (\<lambda>delegate.
     done_read \<lparr> del_bump = bump, del_status = status, del_closeable_at_block = block, del_token = token,
       del_depositor = depositor, del_delegate = delegate \<rparr>))))))"

definition write_GatewayDelegate :: "GatewayDelegate \<Rightarrow> bytes" where
  "write_GatewayDelegate g = [del_bump g] @ [status_byte (del_status g)] @ u64_to_le (del_closeable_at_block g) @
     del_token g @ del_depositor g @ del_delegate g"

definition delegate_typed :: "GatewayDelegate \<Rightarrow> bool" where
  "delegate_typed g \<longleftrightarrow> length (del_token g) = 32 \<and> length (del_depositor g) = 32 \<and> length (del_delegate g) = 32"

interpretation delegate_codec: codec delegate_typed write_GatewayDelegate read_GatewayDelegate
proof unfold_locales
  fix bs g r
  show "read_GatewayDelegate bs = Some (g, r) \<longleftrightarrow> delegate_typed g \<and> bs = write_GatewayDelegate g @ r"
    by (cases g) (auto simp: read_GatewayDelegate_def write_GatewayDelegate_def delegate_typed_def borsh_simps borsh_read
        status.read_Some)
qed

text \<open>\<open>Denylist\<close> has no fields.\<close>

interpretation denylist_codec: codec "\<lambda>u :: unit. True" "\<lambda>_. []" "done_read ()"
  by unfold_locales (auto simp: borsh_simps)

section \<open>GatewayMinter\<close>

definition read_GatewayMinter :: "GatewayMinter reader" where
  "read_GatewayMinter =
     then_read borsh_u8 (\<lambda>bump. then_read borsh_pubkey (\<lambda>owner. then_read borsh_pubkey (\<lambda>pending_owner.
     then_read borsh_pubkey (\<lambda>pauser. then_read borsh_pubkey (\<lambda>token_controller. then_read borsh_bool (\<lambda>paused.
     then_read (borsh_vec borsh_pubkey) (\<lambda>attesters. then_read borsh_u32 (\<lambda>local_domain.
     then_read borsh_u32 (\<lambda>version. then_read (borsh_vec borsh_pubkey) (\<lambda>supported_tokens.
     then_read borsh_bytes (\<lambda>bumps.
     done_read \<lparr> gm_bump = bump, gm_owner = owner, gm_pending_owner = pending_owner, gm_pauser = pauser,
       gm_token_controller = token_controller, gm_paused = paused, gm_enabled_attesters = attesters,
       gm_local_domain = local_domain, gm_version = version, gm_supported_tokens = supported_tokens,
       gm_custody_token_account_bumps = bumps \<rparr>)))))))))))"

definition write_GatewayMinter :: "GatewayMinter \<Rightarrow> bytes" where
  "write_GatewayMinter m = [gm_bump m] @ gm_owner m @ gm_pending_owner m @ gm_pauser m @ gm_token_controller m @
     [bool_byte (gm_paused m)] @ write_vec (\<lambda>k. k) (gm_enabled_attesters m) @ u32_to_le (gm_local_domain m) @
     u32_to_le (gm_version m) @ write_vec (\<lambda>k. k) (gm_supported_tokens m) @
     write_bytes (gm_custody_token_account_bumps m)"

definition minter_typed :: "GatewayMinter \<Rightarrow> bool" where
  "minter_typed m \<longleftrightarrow> (\<forall>k \<in> {gm_owner m, gm_pending_owner m, gm_pauser m, gm_token_controller m}. length k = 32) \<and>
     keys_ok (gm_enabled_attesters m) \<and> keys_ok (gm_supported_tokens m) \<and>
     length (gm_custody_token_account_bumps m) < 2 ^ 32"

interpretation minter_codec: codec minter_typed write_GatewayMinter read_GatewayMinter
proof unfold_locales
  fix bs m r
  show "read_GatewayMinter bs = Some (m, r) \<longleftrightarrow> minter_typed m \<and> bs = write_GatewayMinter m @ r"
    by (cases m) (auto simp: read_GatewayMinter_def write_GatewayMinter_def minter_typed_def keys_ok_def borsh_simps borsh_read)
qed

section \<open>Space\<close>

lemma length_write_keys: "keys_ok ks \<Longrightarrow> length (write_vec (\<lambda>k. k) ks) = 4 + 32 * length ks"
proof -
  assume "keys_ok ks"
  then have "\<forall>k \<in> set ks. length k = 32" by (simp add: keys_ok_def)
  then have "length (concat ks) = 32 * length ks" by (induction ks) auto
  then show ?thesis by (simp add: write_vec_def)
qed

lemma length_write_bytes: "length (write_bytes bs) = 4 + length bs"
  by (simp add: write_bytes_def)

lemma serialized_lengths:
  "wallet_typed w \<Longrightarrow> length WALLET_DISCRIMINATOR + length (write_GatewayWallet w) = wallet_serialized_len w"
  "minter_typed m \<Longrightarrow> length MINTER_DISCRIMINATOR + length (write_GatewayMinter m) = minter_serialized_len m"
  "deposit_typed d \<Longrightarrow> length DEPOSIT_DISCRIMINATOR + length (write_GatewayDeposit d) = DEPOSIT_SPACE"
  "delegate_typed g \<Longrightarrow> length DELEGATE_DISCRIMINATOR + length (write_GatewayDelegate g) = DELEGATE_SPACE"
  by (simp_all add: discriminator_defs write_GatewayWallet_def write_GatewayMinter_def write_GatewayDeposit_def
      write_GatewayDelegate_def wallet_serialized_len_def minter_serialized_len_def DEPOSIT_SPACE_def DELEGATE_SPACE_def
      wallet_typed_def minter_typed_def deposit_typed_def delegate_typed_def length_write_keys length_write_bytes)

lemma spaces: "WALLET_SPACE \<ge> 8" "DEPOSIT_SPACE \<ge> 8" "DELEGATE_SPACE \<ge> 8" "MINTER_SPACE \<ge> 8" "DENYLIST_SPACE = 2"
  by (simp_all add: WALLET_SPACE_def DEPOSIT_SPACE_def DELEGATE_SPACE_def MINTER_SPACE_def DENYLIST_SPACE_def)

section \<open>The typed ledger and its bytes\<close>

text \<open>The values the Rust types of the five kinds of account can have.\<close>

fun program_typed :: "account_data \<Rightarrow> bool" where
  "program_typed (WalletData w) \<longleftrightarrow> wallet_typed w"
| "program_typed (DepositData d) \<longleftrightarrow> deposit_typed d"
| "program_typed (DelegateData g) \<longleftrightarrow> delegate_typed g"
| "program_typed DenylistData \<longleftrightarrow> True"
| "program_typed (MinterData m) \<longleftrightarrow> minter_typed m"
| "program_typed _ \<longleftrightarrow> False"

text \<open>Discriminator and fields, as they are written.\<close>

fun encoded :: "account_data \<Rightarrow> bytes" where
  "encoded (Raw bs) = bs"
| "encoded (WalletData w) = WALLET_DISCRIMINATOR @ write_GatewayWallet w"
| "encoded (DepositData d) = DEPOSIT_DISCRIMINATOR @ write_GatewayDeposit d"
| "encoded (DelegateData g) = DELEGATE_DISCRIMINATOR @ write_GatewayDelegate g"
| "encoded DenylistData = DENYLIST_DISCRIMINATOR"
| "encoded (MinterData m) = MINTER_DISCRIMINATOR @ write_GatewayMinter m"
| "encoded _ = []"

text \<open>
  The bytes an account of the two programs may have, for its typed data in the ledger: as long as the account,
  and beginning with the encoding.  No reader occurs here.
\<close>

definition stored :: "account_data \<Rightarrow> bytes \<Rightarrow> bool" where
  "stored x cs \<longleftrightarrow> length cs = data_len x \<and> take (length (encoded x)) cs = encoded x \<and>
     (case x of Raw bs \<Rightarrow> True | _ \<Rightarrow> program_typed x)"

lemma stored_bytes:
  "stored x cs \<Longrightarrow> \<exists>rest. cs = encoded x @ rest \<and> (case x of Raw bs \<Rightarrow> True | _ \<Rightarrow> program_typed x)"
  unfolding stored_def by (metis append_take_drop_id)

lemma storedI: "program_typed x \<Longrightarrow> length cs = data_len x \<Longrightarrow> cs = encoded x @ rest \<Longrightarrow> stored x cs"
  unfolding stored_def by (cases x) simp_all

text \<open>The two views the programs take of untyped data, its length and its first two bytes, are those of the bytes.\<close>

lemma stored_head:
  assumes "stored x cs"
  shows "length cs = data_len x" "take 2 cs = data_head x"
proof -
  from assms show "length cs = data_len x" by (simp add: stored_def)
  from stored_bytes [OF assms] obtain rest where cs: "cs = encoded x @ rest" by blast
  show "take 2 cs = data_head x"
    using assms unfolding stored_def by (cases x; simp add: cs discriminator_defs numeral_2_eq_2)
qed

text \<open>What \<open>exit\<close> writes into an account whose data is \<open>old\<close>.\<close>

fun write_back :: "account_data \<Rightarrow> bytes \<Rightarrow> ('e, bytes) result" where
  "write_back (WalletData w) old = try_serialize WALLET_DISCRIMINATOR write_GatewayWallet w old"
| "write_back (DepositData d) old = try_serialize DEPOSIT_DISCRIMINATOR write_GatewayDeposit d old"
| "write_back (DelegateData g) old = try_serialize DELEGATE_DISCRIMINATOR write_GatewayDelegate g old"
| "write_back DenylistData old = try_serialize DENYLIST_DISCRIMINATOR (\<lambda>u :: unit. []) () old"
| "write_back (MinterData m) old = try_serialize MINTER_DISCRIMINATOR write_GatewayMinter m old"
| "write_back _ old = Inr old"

lemma write_back_result:
  assumes "program_typed y"
  shows "write_back y old = (if length (encoded y) \<le> length old then Inr (encoded y @ drop (length (encoded y)) old)
     else Inl (Anchor AccountDidNotSerialize))"
  using assms by (cases y) (simp_all add: try_serialize_def require_def Let_def)

text \<open>So it stores the value, or fails for want of space.\<close>

lemma write_back_stored:
  assumes "program_typed y" "data_len y = length old"
  shows "if length (encoded y) \<le> length old then \<exists>new. write_back y old = Inr new \<and> stored y new
    else write_back y old = Inl (Anchor AccountDidNotSerialize)"
  using assms by (simp add: write_back_result storedI)

text \<open>Only the two states with vectors can outgrow their account.\<close>

lemma encoded_length:
  "program_typed y \<Longrightarrow> length (encoded y) = (case y of
     WalletData w \<Rightarrow> wallet_serialized_len w | MinterData m \<Rightarrow> minter_serialized_len m | _ \<Rightarrow> data_len y)"
  using serialized_lengths by (cases y) (simp_all add: DENYLIST_SPACE_def discriminator_defs)

definition loads_as :: "bytes \<Rightarrow> 'a reader \<Rightarrow> bytes \<Rightarrow> 'a option" where
  "loads_as disc m bs =
     (case (try_deserialize disc m bs :: (unit, 'a) result) of Inl e \<Rightarrow> None | Inr x \<Rightarrow> Some x)"

lemma loads_as_Some: "loads_as disc m bs = Some x \<longleftrightarrow> (\<exists>cs r. bs = disc @ cs \<and> m cs = Some (x, r))"
  using try_deserialize_Inr [of disc m bs x, where 'a = unit]
  by (cases "try_deserialize disc m bs :: (unit, _) result") (auto simp: loads_as_def)

lemma loads_as_head: "loads_as disc m bs = Some x \<Longrightarrow> length disc = 2 \<Longrightarrow> take 2 bs = disc"
  by (auto simp: loads_as_Some)

text \<open>Untyped data whose first bytes are no account discriminator loads as nothing.\<close>

definition unlabelled :: "bytes \<Rightarrow> bool" where
  "unlabelled bs \<longleftrightarrow> take 2 bs \<notin> {WALLET_DISCRIMINATOR, DEPOSIT_DISCRIMINATOR, DELEGATE_DISCRIMINATOR,
     DENYLIST_DISCRIMINATOR, MINTER_DISCRIMINATOR}"

lemma loads_as_None:
  assumes "length disc = 2" "take 2 bs \<noteq> disc"
  shows "loads_as disc m bs = None"
proof (cases "loads_as disc m bs")
  case (Some x)
  with loads_as_head [OF Some assms(1)] assms(2) show ?thesis by simp
qed

context codec
begin

lemma loads_written: "valid x \<Longrightarrow> loads_as disc decode (disc @ encode x @ rest) = Some x"
  using read_write [of x rest] unfolding loads_as_Some by blast

end

lemma stored_hit:
  "stored (WalletData w) cs \<Longrightarrow> loads_as WALLET_DISCRIMINATOR read_GatewayWallet cs = Some w"
  "stored (DepositData d) cs \<Longrightarrow> loads_as DEPOSIT_DISCRIMINATOR read_GatewayDeposit cs = Some d"
  "stored (DelegateData g) cs \<Longrightarrow> loads_as DELEGATE_DISCRIMINATOR read_GatewayDelegate cs = Some g"
  "stored DenylistData cs \<Longrightarrow> loads_as DENYLIST_DISCRIMINATOR (done_read ()) cs = Some ()"
  "stored (MinterData m) cs \<Longrightarrow> loads_as MINTER_DISCRIMINATOR read_GatewayMinter cs = Some m"
  by (auto dest!: stored_bytes simp: wallet_codec.loads_written deposit_codec.loads_written delegate_codec.loads_written
      denylist_codec.loads_written [simplified] minter_codec.loads_written)

lemma stored_miss: "stored x cs \<Longrightarrow> length disc = 2 \<Longrightarrow> data_head x \<noteq> disc \<Longrightarrow> loads_as disc m cs = None"
  using stored_head(2) [of x cs] by (intro loads_as_None) simp_all

text \<open>The bytes load as the typed data, and as nothing else.\<close>

lemma typed_loads:
  assumes "stored x cs" "\<And>bs. x = Raw bs \<Longrightarrow> unlabelled bs"
  shows "loads_as WALLET_DISCRIMINATOR read_GatewayWallet cs = as_wallet x"
    "loads_as DEPOSIT_DISCRIMINATOR read_GatewayDeposit cs = as_deposit x"
    "loads_as DELEGATE_DISCRIMINATOR read_GatewayDelegate cs = as_delegate x"
    "loads_as DENYLIST_DISCRIMINATOR (done_read ()) cs = as_denylist x"
    "loads_as MINTER_DISCRIMINATOR read_GatewayMinter cs = as_minter x"
proof -
  note miss = stored_miss [OF assms(1)] discriminator_defs
  note hit = stored_hit [unfolded discriminator_defs]
  have other: "x \<notin> range TokenData \<union> range MintData \<union> range ProgramData \<union> range ProgramInfo"
    "x \<noteq> MultisigData m n ks" for m n ks
    using assms(1) by (auto simp: stored_def)
  show "loads_as WALLET_DISCRIMINATOR read_GatewayWallet cs = as_wallet x"
    "loads_as DEPOSIT_DISCRIMINATOR read_GatewayDeposit cs = as_deposit x"
    "loads_as DELEGATE_DISCRIMINATOR read_GatewayDelegate cs = as_delegate x"
    "loads_as DENYLIST_DISCRIMINATOR (done_read ()) cs = as_denylist x"
    "loads_as MINTER_DISCRIMINATOR read_GatewayMinter cs = as_minter x"
    using assms other by (cases x; simp add: miss hit unlabelled_def)+
qed

text \<open>Conversely, whatever loads as one of the types is an encoding of what it loads as.\<close>

lemma loaded_stored:
  "loads_as WALLET_DISCRIMINATOR read_GatewayWallet cs = Some w \<Longrightarrow> length cs = WALLET_SPACE \<Longrightarrow> stored (WalletData w) cs"
  "loads_as DEPOSIT_DISCRIMINATOR read_GatewayDeposit cs = Some d \<Longrightarrow> length cs = DEPOSIT_SPACE \<Longrightarrow> stored (DepositData d) cs"
  "loads_as DELEGATE_DISCRIMINATOR read_GatewayDelegate cs = Some g \<Longrightarrow> length cs = DELEGATE_SPACE \<Longrightarrow> stored (DelegateData g) cs"
  "loads_as DENYLIST_DISCRIMINATOR (done_read ()) cs = Some u \<Longrightarrow> length cs = DENYLIST_SPACE \<Longrightarrow> stored DenylistData cs"
  "loads_as MINTER_DISCRIMINATOR read_GatewayMinter cs = Some m \<Longrightarrow> length cs = MINTER_SPACE \<Longrightarrow> stored (MinterData m) cs"
  by (auto simp: loads_as_Some wallet_codec.read_Some deposit_codec.read_Some delegate_codec.read_Some
      denylist_codec.read_Some minter_codec.read_Some intro!: storedI)

end
