(* ===== verification/Idl.thy ===== *)
theory Idl
  imports Layouts Views
begin

text \<open>
  The IDL instructions that Anchor adds to every program (neither program enables the feature \<open>no-idl\<close>):
  an account with the program's interface description is created, filled through buffers, handed over
  and closed.  They are the only instructions beside those of lib.rs by which a program changes accounts it
  owns.  An IDL account is raw data in the ledger: discriminator, authority, length, then free bytes.
\<close>

section \<open>IDL accounts\<close>

text \<open>The first eight bytes of the SHA-256 of \<open>internal:IdlAccount\<close>.\<close>

definition IDL_DISCRIMINATOR :: bytes where
  "IDL_DISCRIMINATOR = [24, 70, 98, 191, 58, 144, 123, 158]"

lemma length_IDL_DISCRIMINATOR [simp]: "length IDL_DISCRIMINATOR = 8"
  by (simp add: IDL_DISCRIMINATOR_def)

definition IDL_SEED :: bytes where "IDL_SEED = map of_char ''anchor:idl''"

definition ERASED_AUTHORITY :: pubkey where "ERASED_AUTHORITY = default_pubkey"

record IdlAccount =
  idl_authority :: pubkey
  idl_data_len :: u32

definition read_IdlAccount :: "IdlAccount reader" where
  "read_IdlAccount = then_read borsh_pubkey (\<lambda>authority. then_read borsh_u32 (\<lambda>n.
     done_read \<lparr> idl_authority = authority, idl_data_len = n \<rparr>))"

definition write_IdlAccount :: "IdlAccount \<Rightarrow> bytes" where
  "write_IdlAccount a = idl_authority a @ u32_to_le (idl_data_len a)"

interpretation idl_codec: codec "\<lambda>a. length (idl_authority a) = 32" write_IdlAccount read_IdlAccount
proof unfold_locales
  fix bs a r
  show "read_IdlAccount bs = Some (a, r) \<longleftrightarrow> length (idl_authority a) = 32 \<and> bs = write_IdlAccount a @ r"
    by (cases a) (auto simp: read_IdlAccount_def write_IdlAccount_def borsh_simps borsh_read)
qed

text \<open>
  \<open>Account<IdlAccount>\<close>.  A typed account of the ledger starts with another discriminator; \<open>Denylist\<close> is too
  short to hold one.
\<close>

definition load_idl :: "pubkey \<Rightarrow> ledger \<Rightarrow> pubkey \<Rightarrow> ('e, IdlAccount) result" where
  "load_idl program_id l k =
     (if acc_owner (l k) = SYSTEM_PROGRAM_ID \<and> acc_lamports (l k) = 0 then Inl (Anchor AccountNotInitialized)
      else if acc_owner (l k) \<noteq> program_id then Inl (Anchor AccountOwnedByWrongProgram)
      else case acc_data (l k) of
        Raw bs \<Rightarrow> try_deserialize IDL_DISCRIMINATOR read_IdlAccount bs
      | x \<Rightarrow> Inl (Anchor (if data_len x < length IDL_DISCRIMINATOR then AccountDiscriminatorNotFound
                          else AccountDiscriminatorMismatch)))"

fun raw_bytes :: "account_data \<Rightarrow> bytes" where
  "raw_bytes (Raw bs) = bs" | "raw_bytes _ = []"

definition exit_idl :: "pubkey \<Rightarrow> IdlAccount \<Rightarrow> ledger \<Rightarrow> ('e, ledger) result" where
  "exit_idl k a l =
     and_then (try_serialize IDL_DISCRIMINATOR write_IdlAccount a (raw_bytes (acc_data (l k)))) (\<lambda>bs.
     Inr (l(k := (l k)\<lparr> acc_data := Raw bs \<rparr>)))"

text \<open>\<open>trailing_data_mut\<close>: the bytes after the header, \<open>&mut data[44..]\<close>, of which a range is overwritten.\<close>

definition IDL_HEADER_LEN :: nat where "IDL_HEADER_LEN = 44"

definition overwrite :: "nat \<Rightarrow> bytes \<Rightarrow> pubkey \<Rightarrow> ledger \<Rightarrow> ('e, ledger) result" where
  "overwrite at new k l =
     (let bs = raw_bytes (acc_data (l k)); i = IDL_HEADER_LEN + at in
      and_then (require (i + length new \<le> length bs) (Panic IndexOutOfBounds)) (\<lambda>_.
      Inr (l(k := (l k)\<lparr> acc_data := Raw (take i bs @ new @ drop (i + length new) bs) \<rparr>))))"

section \<open>Accounts and handlers\<close>

record IdlCreateAccounts =
  ic_from :: pubkey
  ic_to :: pubkey
  ic_base :: pubkey
  ic_system_program :: pubkey
  ic_program :: pubkey

text \<open>
  \<open>Pubkey::create_with_seed\<close>, whose errors the caller unwraps, and the system program's
  \<open>create_account_with_seed\<close>, for which the base signs in place of the new account.
\<close>

definition create_with_seed :: "platform \<Rightarrow> pubkey \<Rightarrow> bytes \<Rightarrow> pubkey \<Rightarrow> ('e, pubkey) result" where
  "create_with_seed pf base seed owner =
     and_then (require (length seed \<le> 32) (Panic UnwrapFailed)) (\<lambda>_.
     and_then (require (drop (length owner - length PDA_MARKER) owner \<noteq> PDA_MARKER) (Panic UnwrapFailed)) (\<lambda>_.
     Inr (sha256 pf (base @ seed @ owner))))"

definition system_create_account_with_seed ::
    "platform \<Rightarrow> pubkey \<Rightarrow> transaction \<Rightarrow> bytes list option \<Rightarrow> pubkey \<Rightarrow> pubkey \<Rightarrow> pubkey \<Rightarrow> u64 \<Rightarrow> nat \<Rightarrow>
     pubkey \<Rightarrow> ledger \<Rightarrow> ('e, ledger) result" where
  "system_create_account_with_seed pf program_id tx seeds from_key to base lamports space owner l =
     and_then (cpi_signers pf program_id tx seeds) (\<lambda>signers.
     and_then (check_privileges tx signers [from_key, base] [from_key, to]) (\<lambda>_.
     ok_or (sys_create_account pf from_key to lamports space owner l) (Runtime SystemProgramError)))"

definition idl_create_account ::
    "platform \<Rightarrow> pubkey \<Rightarrow> transaction \<Rightarrow> IdlCreateAccounts \<Rightarrow> u64 \<Rightarrow> ledger \<Rightarrow> ('e, ledger) result" where
  "idl_create_account pf program_id tx c len l =
     and_then (load_program (ic_system_program c) SYSTEM_PROGRAM_ID) (\<lambda>_.
     and_then (require (ic_from c \<in> set (tx_signers tx)) (Anchor ConstraintSigner)) (\<lambda>_.
     and_then (check_mut tx (ic_to c)) (\<lambda>_.
     and_then (check_seeds_find pf program_id (ic_base c) []) (\<lambda>_.
     and_then (require (program_id = ic_program c) (Anchor IdlInstructionInvalidProgram)) (\<lambda>_.
     and_then (find_program_address pf [] program_id) (\<lambda>(base, nonce).
     and_then (create_with_seed pf base IDL_SEED (ic_program c)) (\<lambda>to.
     and_then (require (IDL_HEADER_LEN + unat len < 2 ^ 64) (Panic ArithmeticOverflow)) (\<lambda>_.
     let space = min (IDL_HEADER_LEN + unat len) 10000 in
     and_then (require (to = ic_to c) (Runtime MissingAccount)) (\<lambda>_.
     and_then (system_create_account_with_seed pf program_id tx (Some [[nonce]]) (ic_from c) to base
                 (minimum_balance pf space) space (ic_program c) l) (\<lambda>l.
     exit_idl to \<lparr> idl_authority = ic_from c, idl_data_len = 0 \<rparr> l))))))))))"

record IdlAccounts =
  id_idl :: pubkey
  id_authority :: pubkey

text \<open>\<open>mut, has_one = authority\<close>, and the authority may not be the erased one.\<close>

definition idl_accounts ::
    "pubkey \<Rightarrow> transaction \<Rightarrow> IdlAccounts \<Rightarrow> ledger \<Rightarrow> ('e, IdlAccount) result" where
  "idl_accounts program_id tx c l =
     and_then (load_idl program_id l (id_idl c)) (\<lambda>idl.
     and_then (load_signer tx (id_authority c)) (\<lambda>_.
     and_then (check_mut tx (id_idl c)) (\<lambda>_.
     and_then (require (idl_authority idl = id_authority c) (Anchor ConstraintHasOne)) (\<lambda>_.
     and_then (require (id_authority c \<noteq> ERASED_AUTHORITY) (Anchor ConstraintRaw)) (\<lambda>_.
     Inr idl)))))"

definition idl_write ::
    "pubkey \<Rightarrow> transaction \<Rightarrow> IdlAccounts \<Rightarrow> bytes \<Rightarrow> ledger \<Rightarrow> ('e, ledger) result" where
  "idl_write program_id tx c idl_data l =
     and_then (idl_accounts program_id tx c l) (\<lambda>idl.
     let prev_len = unat (idl_data_len idl) in
     and_then (require (prev_len + length idl_data < 2 ^ 32) (Panic UnwrapFailed)) (\<lambda>_.
     and_then (overwrite prev_len idl_data (id_idl c) l) (\<lambda>l.
     exit_idl (id_idl c) (idl\<lparr> idl_data_len := word_of_nat (prev_len + length idl_data) \<rparr>) l)))"

definition idl_set_authority ::
    "pubkey \<Rightarrow> transaction \<Rightarrow> IdlAccounts \<Rightarrow> pubkey \<Rightarrow> ledger \<Rightarrow> ('e, ledger) result" where
  "idl_set_authority program_id tx c new_authority l =
     and_then (idl_accounts program_id tx c l) (\<lambda>idl.
     exit_idl (id_idl c) (idl\<lparr> idl_authority := new_authority \<rparr>) l)"

record IdlResizeAccount =
  ir_idl :: pubkey
  ir_authority :: pubkey
  ir_system_program :: pubkey

text \<open>The account grows by at most 10000 bytes at a time, and the authority pays for the rent.\<close>

definition idl_resize_account ::
    "platform \<Rightarrow> pubkey \<Rightarrow> transaction \<Rightarrow> IdlResizeAccount \<Rightarrow> u64 \<Rightarrow> ledger \<Rightarrow> ('e, ledger) result" where
  "idl_resize_account pf program_id tx c len l =
     and_then (load_idl program_id l (ir_idl c)) (\<lambda>idl.
     and_then (load_signer tx (ir_authority c)) (\<lambda>_.
     and_then (load_program (ir_system_program c) SYSTEM_PROGRAM_ID) (\<lambda>_.
     and_then (check_mut tx (ir_idl c)) (\<lambda>_.
     and_then (require (idl_authority idl = ir_authority c) (Anchor ConstraintHasOne)) (\<lambda>_.
     and_then (check_mut tx (ir_authority c)) (\<lambda>_.
     and_then (require (ir_authority c \<noteq> ERASED_AUTHORITY) (Anchor ConstraintRaw)) (\<lambda>_.
     and_then (require (idl_data_len idl = 0) (Anchor IdlAccountNotEmpty)) (\<lambda>_.
     let bs = raw_bytes (acc_data (l (ir_idl c))) in
     and_then (require (length bs \<le> unat len) (Panic UnwrapFailed)) (\<lambda>_.
     let new_space = length bs + min (unat len - length bs) 10000 in
     and_then
       (if new_space > length bs
        then and_then (require (acc_lamports (l (ir_idl c)) \<le> minimum_balance pf new_space) (Panic UnwrapFailed)) (\<lambda>_.
             and_then (system_transfer pf tx (ir_authority c) (ir_idl c)
                         (minimum_balance pf new_space - acc_lamports (l (ir_idl c))) l) (\<lambda>l.
             Inr (l(ir_idl c := (l (ir_idl c))\<lparr> acc_data := Raw (bs @ replicate (new_space - length bs) 0) \<rparr>))))
        else Inr l) (\<lambda>l.
     exit_idl (ir_idl c) idl l))))))))))"

record IdlCreateBuffer =
  ib_buffer :: pubkey
  ib_authority :: pubkey

text \<open>\<open>#[account(zero)]\<close>: an account of the program whose first bytes are zero, deserialised unchecked.\<close>

definition idl_create_buffer ::
    "platform \<Rightarrow> pubkey \<Rightarrow> transaction \<Rightarrow> IdlCreateBuffer \<Rightarrow> ledger \<Rightarrow> ('e, ledger) result" where
  "idl_create_buffer pf program_id tx c l =
     and_then (load_signer tx (ib_authority c)) (\<lambda>_.
     case acc_data (l (ib_buffer c)) of
       Raw bs \<Rightarrow>
         and_then (slice bs 0 (length IDL_DISCRIMINATOR)) (\<lambda>disc.
         and_then (require (list_all (\<lambda>b. b = 0) disc) (Anchor ConstraintZero)) (\<lambda>_.
         and_then (require (\<not> (acc_owner (l (ib_buffer c)) = SYSTEM_PROGRAM_ID \<and> acc_lamports (l (ib_buffer c)) = 0))
                    (Anchor AccountNotInitialized)) (\<lambda>_.
         and_then (require (acc_owner (l (ib_buffer c)) = program_id) (Anchor AccountOwnedByWrongProgram)) (\<lambda>_.
         and_then (ok_or (read_IdlAccount (drop (length IDL_DISCRIMINATOR) bs)) (Anchor AccountDidNotDeserialize))
           (\<lambda>(buffer, _).
         and_then (check_mut tx (ib_buffer c)) (\<lambda>_.
         and_then (require (minimum_balance pf (length bs) \<le> acc_lamports (l (ib_buffer c)))
                    (Anchor ConstraintRentExempt)) (\<lambda>_.
         and_then (require (ib_authority c \<noteq> ERASED_AUTHORITY) (Anchor ConstraintRaw)) (\<lambda>_.
         exit_idl (ib_buffer c) (buffer\<lparr> idl_authority := ib_authority c \<rparr>) l))))))))
     | _ \<Rightarrow> Inl (Anchor ConstraintZero))"

record IdlSetBuffer =
  is_buffer :: pubkey
  is_idl :: pubkey
  is_authority :: pubkey

text \<open>With the same account twice, the second borrow of its data fails.\<close>

definition idl_set_buffer ::
    "pubkey \<Rightarrow> transaction \<Rightarrow> IdlSetBuffer \<Rightarrow> ledger \<Rightarrow> ('e, ledger) result" where
  "idl_set_buffer program_id tx c l =
     and_then (load_idl program_id l (is_buffer c)) (\<lambda>buffer.
     and_then (load_idl program_id l (is_idl c)) (\<lambda>idl.
     and_then (load_signer tx (is_authority c)) (\<lambda>_.
     and_then (check_mut tx (is_buffer c)) (\<lambda>_.
     and_then (require (idl_authority buffer = idl_authority idl) (Anchor ConstraintRaw)) (\<lambda>_.
     and_then (check_mut tx (is_idl c)) (\<lambda>_.
     and_then (require (idl_authority idl = is_authority c) (Anchor ConstraintHasOne)) (\<lambda>_.
     and_then (require (is_authority c \<noteq> ERASED_AUTHORITY) (Anchor ConstraintRaw)) (\<lambda>_.
     and_then (require (is_buffer c \<noteq> is_idl c) (Panic UnwrapFailed)) (\<lambda>_.
     let buffer_len = unat (idl_data_len buffer); target = raw_bytes (acc_data (l (is_idl c))) in
     and_then (slice (raw_bytes (acc_data (l (is_buffer c)))) IDL_HEADER_LEN (IDL_HEADER_LEN + buffer_len)) (\<lambda>source.
     and_then (require (IDL_HEADER_LEN + buffer_len \<le> length target) (Anchor RequireGteViolated)) (\<lambda>_.
     and_then (overwrite 0 source (is_idl c) l) (\<lambda>l.
     and_then (exit_idl (is_buffer c) buffer l) (\<lambda>l.
     exit_idl (is_idl c) (idl\<lparr> idl_data_len := idl_data_len buffer \<rparr>) l)))))))))))))"

record IdlCloseAccount =
  ix_account :: pubkey
  ix_authority :: pubkey
  ix_sol_destination :: pubkey

definition idl_close_account ::
    "pubkey \<Rightarrow> transaction \<Rightarrow> IdlCloseAccount \<Rightarrow> ledger \<Rightarrow> ('e, ledger) result" where
  "idl_close_account program_id tx c l =
     and_then (load_idl program_id l (ix_account c)) (\<lambda>idl.
     and_then (load_signer tx (ix_authority c)) (\<lambda>_.
     and_then (check_mut tx (ix_account c)) (\<lambda>_.
     and_then (require (idl_authority idl = ix_authority c) (Anchor ConstraintHasOne)) (\<lambda>_.
     and_then (require (ix_account c \<noteq> ix_sol_destination c) (Anchor ConstraintClose)) (\<lambda>_.
     and_then (require (ix_authority c \<noteq> ERASED_AUTHORITY) (Anchor ConstraintRaw)) (\<lambda>_.
     and_then (check_mut tx (ix_sol_destination c)) (\<lambda>_.
     close_account (ix_account c) (ix_sol_destination c) l)))))))"

section \<open>Dispatch\<close>

datatype IdlInstruction =
    IdlCreate u64 | IdlCreateBuffer | IdlWrite bytes | IdlSetBuffer | IdlSetAuthority pubkey | IdlClose | IdlResize u64

definition read_IdlInstruction :: "IdlInstruction reader" where
  "read_IdlInstruction = then_read borsh_u8 (\<lambda>tag.
     if tag = 0 then then_read borsh_u64 (\<lambda>n. done_read (IdlCreate n))
     else if tag = 1 then done_read IdlCreateBuffer
     else if tag = 2 then then_read borsh_bytes (\<lambda>bs. done_read (IdlWrite bs))
     else if tag = 3 then done_read IdlSetBuffer
     else if tag = 4 then then_read borsh_pubkey (\<lambda>k. done_read (IdlSetAuthority k))
     else if tag = 5 then done_read IdlClose
     else if tag = 6 then then_read borsh_u64 (\<lambda>n. done_read (IdlResize n))
     else (\<lambda>r. None))"

text \<open>The accounts of a struct are taken in the order of its fields.\<close>

definition with_accounts :: "nat \<Rightarrow> pubkey list \<Rightarrow> (pubkey list \<Rightarrow> ('e, 'a) result) \<Rightarrow> ('e, 'a) result" where
  "with_accounts n accounts k =
     and_then (require (n \<le> length accounts) (Anchor AccountNotEnoughKeys)) (\<lambda>_. k accounts)"

fun idl_process ::
    "platform \<Rightarrow> pubkey \<Rightarrow> transaction \<Rightarrow> pubkey list \<Rightarrow> IdlInstruction \<Rightarrow> ledger \<Rightarrow> ('e, ledger) result" where
  "idl_process pf p tx accounts (IdlCreate n) l = with_accounts 5 accounts (\<lambda>a.
     idl_create_account pf p tx \<lparr> ic_from = a ! 0, ic_to = a ! 1, ic_base = a ! 2, ic_system_program = a ! 3,
       ic_program = a ! 4 \<rparr> n l)"
| "idl_process pf p tx accounts IdlCreateBuffer l = with_accounts 2 accounts (\<lambda>a.
     idl_create_buffer pf p tx \<lparr> ib_buffer = a ! 0, ib_authority = a ! 1 \<rparr> l)"
| "idl_process pf p tx accounts (IdlWrite bs) l = with_accounts 2 accounts (\<lambda>a.
     idl_write p tx \<lparr> id_idl = a ! 0, id_authority = a ! 1 \<rparr> bs l)"
| "idl_process pf p tx accounts IdlSetBuffer l = with_accounts 3 accounts (\<lambda>a.
     idl_set_buffer p tx \<lparr> is_buffer = a ! 0, is_idl = a ! 1, is_authority = a ! 2 \<rparr> l)"
| "idl_process pf p tx accounts (IdlSetAuthority k) l = with_accounts 2 accounts (\<lambda>a.
     idl_set_authority p tx \<lparr> id_idl = a ! 0, id_authority = a ! 1 \<rparr> k l)"
| "idl_process pf p tx accounts IdlClose l = with_accounts 3 accounts (\<lambda>a.
     idl_close_account p tx \<lparr> ix_account = a ! 0, ix_authority = a ! 1, ix_sol_destination = a ! 2 \<rparr> l)"
| "idl_process pf p tx accounts (IdlResize n) l = with_accounts 3 accounts (\<lambda>a.
     idl_resize_account pf p tx \<lparr> ir_idl = a ! 0, ir_authority = a ! 1, ir_system_program = a ! 2 \<rparr> n l)"

definition idl_dispatch ::
    "platform \<Rightarrow> pubkey \<Rightarrow> transaction \<Rightarrow> pubkey list \<Rightarrow> bytes \<Rightarrow> ledger \<Rightarrow> ('e, ledger) result" where
  "idl_dispatch pf p tx accounts data l =
     and_then (ok_or (read_IdlInstruction data) (Anchor InstructionDidNotDeserialize)) (\<lambda>(ix, _).
     idl_process pf p tx accounts ix l)"

section \<open>What they change\<close>

definition idl_address :: "platform \<Rightarrow> pubkey \<Rightarrow> pubkey option" where
  "idl_address pf p = map_option (\<lambda>(base, _). sha256 pf (base @ IDL_SEED @ p)) (try_bumps pf [] p 255)"

text \<open>
  An account is left alone, or it was idle data of the program and is so still (or closed), or it was
  unused, sits at the program's IDL address, and is idle data of the program now.
\<close>

definition idl_changes :: "platform \<Rightarrow> pubkey \<Rightarrow> ledger \<Rightarrow> ledger \<Rightarrow> bool" where
  "idl_changes pf p l l' \<longleftrightarrow> (\<forall>k.
     acc_owner (l' k) = acc_owner (l k) \<and> acc_data (l' k) = acc_data (l k) \<or>
     acc_owner (l k) = p \<and> idle (acc_data (l k)) \<and> (acc_owner (l' k) = p \<and> idle (acc_data (l' k)) \<or> fresh l' k) \<or>
     fresh l k \<and> idl_address pf p = Some k \<and> acc_owner (l' k) = p \<and> idle (acc_data (l' k)))"

lemma load_idl_Inr:
  assumes "load_idl p l k = (Inr a :: ('e, IdlAccount) result)"
  shows "acc_owner (l k) = p" "idle (acc_data (l k))"
proof -
  from assms obtain bs where bs: "acc_data (l k) = Raw bs" "acc_owner (l k) = p"
    "try_deserialize IDL_DISCRIMINATOR read_IdlAccount bs = (Inr a :: ('e, IdlAccount) result)"
    unfolding load_idl_def by (cases "acc_data (l k)") (auto split: if_splits)
  then show "acc_owner (l k) = p" "idle (acc_data (l k))"
    by (auto simp: try_deserialize_Inr IDL_DISCRIMINATOR_def idle_def)
qed

lemma exit_idl_Inr:
  assumes "exit_idl k a l = Inr l'"
  obtains bs where "l' = l(k := (l k)\<lparr> acc_data := Raw bs \<rparr>)" "idle (Raw bs)"
  using assms by (auto simp: exit_idl_def try_serialize_def result_simps Let_def idle_def IDL_DISCRIMINATOR_def)

lemma overwrite_Inr:
  assumes "overwrite i new k l = Inr l'"
  obtains bs where "l' = l(k := (l k)\<lparr> acc_data := Raw bs \<rparr>)"
  using assms by (auto simp: overwrite_def result_simps Let_def)

lemma idl_changes_write:
  assumes "acc_owner (l k) = p" "idle (acc_data (l k))" "idle x"
    and "\<And>j. j \<noteq> k \<Longrightarrow> acc_owner (l1 j) = acc_owner (l j) \<and> acc_data (l1 j) = acc_data (l j)" "acc_owner (l1 k) = p"
    and "l' = l1(k := (l1 k)\<lparr> acc_data := x \<rparr>)"
  shows "idl_changes pf p l l'"
  using assms by (simp add: idl_changes_def)

lemma idl_create_changes:
  assumes ok: "system_program_ok pf" and run: "idl_create_account pf p tx c n l = (Inr l' :: ('e, ledger) result)"
  shows "idl_changes pf p l l'"
proof -
  from run obtain base b to l1 where base: "try_bumps pf [] p 255 = Some (base, b)" "p = ic_program c"
    and to: "create_with_seed pf base IDL_SEED p = (Inr to :: ('e, pubkey) result)"
    and cr: "system_create_account_with_seed pf p tx (Some [[b]]) (ic_from c) to base
        (minimum_balance pf (min (IDL_HEADER_LEN + unat n) 10000)) (min (IDL_HEADER_LEN + unat n) 10000) p l = (Inr l1 :: ('e, ledger) result)"
    and ex: "exit_idl to \<lparr> idl_authority = ic_from c, idl_data_len = 0 \<rparr> l1 = (Inr l' :: ('e, ledger) result)"
    by (auto simp: idl_create_account_def result_simps Let_def)
  from to have addr: "idl_address pf p = Some to"
    by (auto simp: create_with_seed_def result_simps idl_address_def base(1))
  from cr obtain lam sp where "sys_create_account pf (ic_from c) to lam sp p l = Some l1"
    by (auto simp: system_create_account_with_seed_def result_simps)
  with ok have s: "fresh l to" "l1 = l(ic_from c := take_lamports lam (l (ic_from c)),
      to := \<lparr> acc_lamports = lam, acc_owner = p, acc_data = Raw (replicate sp 0) \<rparr>)"
    unfolding system_program_ok_def system_create_ok_def fresh_def by blast+
  from ex obtain bs where "l' = l1(to := (l1 to)\<lparr> acc_data := Raw bs \<rparr>)" "idle (Raw bs)" by (rule exit_idl_Inr)
  with s addr show ?thesis by (auto simp: idl_changes_def)
qed

lemma idl_buffer_changes:
  assumes run: "idl_create_buffer pf p tx c l = (Inr l' :: ('e, ledger) result)"
  shows "idl_changes pf p l l'"
proof -
  let ?k = "ib_buffer c"
  from run obtain bs a where bs: "acc_data (l ?k) = Raw bs" "acc_owner (l ?k) = p" "list_all (\<lambda>b. b = 0) (take 8 bs)"
    and ex: "exit_idl ?k a l = (Inr l' :: ('e, ledger) result)"
    unfolding idl_create_buffer_def by (cases "acc_data (l ?k)") (auto simp: result_simps)
  from bs(3) have "idle (Raw bs)" by (cases bs) (auto simp: idle_def)
  moreover from ex obtain cs where "l' = l(?k := (l ?k)\<lparr> acc_data := Raw cs \<rparr>)" "idle (Raw cs)" by (rule exit_idl_Inr)
  ultimately show ?thesis using bs by (intro idl_changes_write [of l ?k p _ l]) simp_all
qed

lemma idl_accounts_Inr: "idl_accounts p tx c l = (Inr a :: ('e, IdlAccount) result) \<Longrightarrow> load_idl p l (id_idl c) = (Inr a :: ('e, IdlAccount) result)"
  by (auto simp: idl_accounts_def result_simps)

lemma idl_write_changes:
  assumes run: "idl_write p tx c bs l = (Inr l' :: ('e, ledger) result)"
  shows "idl_changes pf p l l'"
proof -
  let ?k = "id_idl c"
  from run obtain a a' l1 where ld: "load_idl p l ?k = (Inr a :: ('e, IdlAccount) result)"
    and ow: "overwrite (unat (idl_data_len a)) bs ?k l = (Inr l1 :: ('e, ledger) result)"
    and ex: "exit_idl ?k a' l1 = (Inr l' :: ('e, ledger) result)"
    by (auto simp: idl_write_def result_simps Let_def dest!: idl_accounts_Inr)
  from ow obtain cs where 1: "l1 = l(?k := (l ?k)\<lparr> acc_data := Raw cs \<rparr>)" by (rule overwrite_Inr)
  from ex obtain ds where "l' = l1(?k := (l1 ?k)\<lparr> acc_data := Raw ds \<rparr>)" "idle (Raw ds)" by (rule exit_idl_Inr)
  with 1 load_idl_Inr [OF ld] show ?thesis by (intro idl_changes_write [of l ?k p _ l1]) auto
qed

lemma idl_authority_changes:
  assumes run: "idl_set_authority p tx c k l = (Inr l' :: ('e, ledger) result)"
  shows "idl_changes pf p l l'"
proof -
  from run obtain a a' where ld: "load_idl p l (id_idl c) = (Inr a :: ('e, IdlAccount) result)"
    and ex: "exit_idl (id_idl c) a' l = (Inr l' :: ('e, ledger) result)"
    by (auto simp: idl_set_authority_def result_simps dest!: idl_accounts_Inr)
  from ex obtain ds where "l' = l(id_idl c := (l (id_idl c))\<lparr> acc_data := Raw ds \<rparr>)" "idle (Raw ds)" by (rule exit_idl_Inr)
  with load_idl_Inr [OF ld] show ?thesis by (intro idl_changes_write [of l "id_idl c" p _ l]) auto
qed

lemma idl_resize_changes:
  assumes ok: "system_program_ok pf" and run: "idl_resize_account pf p tx c n l = (Inr l' :: ('e, ledger) result)"
  shows "idl_changes pf p l l'"
proof -
  let ?k = "ir_idl c"
  from run obtain a where ld: "load_idl p l ?k = (Inr a :: ('e, IdlAccount) result)" by (auto simp: idl_resize_account_def result_simps)
  from run obtain l1 where ex: "exit_idl ?k a l1 = (Inr l' :: ('e, ledger) result)"
    and l1: "l1 = l \<or> (\<exists>m l0 bs. sys_transfer pf (ir_authority c) ?k m l = Some l0 \<and> l1 = l0(?k := (l0 ?k)\<lparr> acc_data := Raw bs \<rparr>))"
    using ld by (auto simp: idl_resize_account_def system_transfer_def result_simps Let_def split: if_splits)
  have "acc_owner (l1 j) = acc_owner (l j) \<and> (j \<noteq> ?k \<longrightarrow> acc_data (l1 j) = acc_data (l j))" for j
    using l1
  proof (elim disjE exE conjE)
    fix m l0 bs
    assume "sys_transfer pf (ir_authority c) ?k m l = Some l0" and s: "l1 = l0(?k := (l0 ?k)\<lparr> acc_data := Raw bs \<rparr>)"
    with ok have "l0 = (let l1 = l(ir_authority c := take_lamports m (l (ir_authority c))) in l1(?k := add_lamports m (l1 ?k)))"
      unfolding system_program_ok_def system_transfer_ok_def by blast
    then show ?thesis by (auto simp: s Let_def)
  qed simp
  moreover from ex obtain ds where "l' = l1(?k := (l1 ?k)\<lparr> acc_data := Raw ds \<rparr>)" "idle (Raw ds)" by (rule exit_idl_Inr)
  ultimately show ?thesis using load_idl_Inr [OF ld] by (intro idl_changes_write [of l ?k p _ l1]) auto
qed

lemma idl_set_buffer_changes:
  assumes run: "idl_set_buffer p tx c l = (Inr l' :: ('e, ledger) result)"
  shows "idl_changes pf p l l'"
proof -
  from run obtain b a where ld: "load_idl p l (is_buffer c) = (Inr b :: ('e, IdlAccount) result)"
      "load_idl p l (is_idl c) = (Inr a :: ('e, IdlAccount) result)" "is_buffer c \<noteq> is_idl c"
    by (auto simp: idl_set_buffer_def result_simps Let_def)
  from run obtain src l1 l2 a' b' where ow: "overwrite 0 src (is_idl c) l = (Inr l1 :: ('e, ledger) result)"
    and ex: "exit_idl (is_buffer c) b' l1 = (Inr l2 :: ('e, ledger) result)" "exit_idl (is_idl c) a' l2 = (Inr l' :: ('e, ledger) result)"
    by (auto simp: idl_set_buffer_def result_simps Let_def)
  from ow obtain cs where "l1 = l(is_idl c := (l (is_idl c))\<lparr> acc_data := Raw cs \<rparr>)" by (rule overwrite_Inr)
  moreover from ex(1) obtain ds where "l2 = l1(is_buffer c := (l1 (is_buffer c))\<lparr> acc_data := Raw ds \<rparr>)" "idle (Raw ds)"
    by (rule exit_idl_Inr)
  moreover from ex(2) obtain es where "l' = l2(is_idl c := (l2 (is_idl c))\<lparr> acc_data := Raw es \<rparr>)" "idle (Raw es)"
    by (rule exit_idl_Inr)
  ultimately show ?thesis using load_idl_Inr [OF ld(1)] load_idl_Inr [OF ld(2)] ld(3) by (auto simp: idl_changes_def)
qed

lemma idl_close_changes:
  assumes run: "idl_close_account p tx c l = (Inr l' :: ('e, ledger) result)"
  shows "idl_changes pf p l l'"
proof -
  from run obtain a where ld: "load_idl p l (ix_account c) = (Inr a :: ('e, IdlAccount) result)"
    and cl: "close_account (ix_account c) (ix_sol_destination c) l = (Inr l' :: ('e, ledger) result)"
    by (auto simp: idl_close_account_def result_simps)
  from cl have "fresh l' (ix_account c)" "j \<noteq> ix_account c \<Longrightarrow> acc_owner (l' j) = acc_owner (l j) \<and> acc_data (l' j) = acc_data (l j)" for j
    by (auto simp: close_account_def result_simps Let_def fresh_def)
  with load_idl_Inr [OF ld] show ?thesis unfolding idl_changes_def by metis
qed

lemma idl_dispatch_changes:
  assumes "system_program_ok pf" "idl_dispatch pf p tx accounts data l = (Inr l' :: ('e, ledger) result)"
  shows "idl_changes pf p l l'"
proof -
  from assms(2) obtain ix where "idl_process pf p tx accounts ix l = (Inr l' :: ('e, ledger) result)"
    by (auto simp: idl_dispatch_def result_simps)
  then show ?thesis
    by (cases ix) (auto simp: with_accounts_def result_simps dest: idl_create_changes [OF assms(1)] idl_buffer_changes
        idl_write_changes idl_set_buffer_changes idl_authority_changes idl_close_changes idl_resize_changes [OF assms(1)])
qed

end
