(* ===== verification/ClosedWorld.thy ===== *)
theory ClosedWorld
  imports Gateway TokenSafety Idl
begin

text \<open>
  The whole chain as the gateway sees it: instructions of the two programs, those for their IDL accounts
  included, of the token program and of the system program, signed by outsiders, and steps of other
  programs, which the runtime lets change nothing but their own accounts.  Every such step is one the programs rely on (\<open>gateway_rest\<close>), so a
  history of the closed world is a joint history of Gateway, without any assumption on the environment
  but the runtime's rules.
\<close>

section \<open>Steps of the chain\<close>

definition token_act :: "platform \<Rightarrow> ledger \<Rightarrow> ledger \<Rightarrow> bool" where
  "token_act pf l l' \<longleftrightarrow> (\<exists>tx ix. signed_by_outsiders pf tx \<and> token_process pf (tx_signers tx) ix l = Inr l')"

text \<open>The system program's instructions; the runtime lets an account change owner only when its data is zeroed.\<close>

inductive system_act :: "platform \<Rightarrow> ledger \<Rightarrow> ledger \<Rightarrow> bool" for pf where
  sys_creates: "signed_by_outsiders pf tx \<Longrightarrow> dst \<in> set (tx_signers tx) \<Longrightarrow>
    sys_create_account pf src dst n space owner l = Some l' \<Longrightarrow> system_act pf l l'"
| sys_transfers: "sys_transfer pf src dst n l = Some l' \<Longrightarrow> system_act pf l l'"
| sys_allocates: "signed_by_outsiders pf tx \<Longrightarrow> k \<in> set (tx_signers tx) \<Longrightarrow>
    sys_allocate pf k space l = Some l' \<Longrightarrow> system_act pf l l'"
| sys_assigns: "signed_by_outsiders pf tx \<Longrightarrow> k \<in> set (tx_signers tx) \<Longrightarrow> acc_owner (l k) = SYSTEM_PROGRAM_ID \<Longrightarrow>
    acc_data (l k) = Raw (replicate n 0) \<Longrightarrow> sys_assign pf k owner l = Some l' \<Longrightarrow> system_act pf l l'"

text \<open>Other programs: they change the data of their own accounts, and give them away zeroed.\<close>

definition gateway_programs :: "pubkey set" where
  "gateway_programs = {WALLET_PROGRAM_ID, MINTER_PROGRAM_ID, TOKEN_PROGRAM_ID, SYSTEM_PROGRAM_ID}"

definition foreign_act :: "ledger \<Rightarrow> ledger \<Rightarrow> bool" where
  "foreign_act l l' \<longleftrightarrow> (\<forall>k.
     if acc_owner (l k) \<in> gateway_programs then acc_owner (l' k) = acc_owner (l k) \<and> acc_data (l' k) = acc_data (l k)
     else acc_owner (l' k) = acc_owner (l k) \<or> (\<exists>n. acc_data (l' k) = Raw (replicate n 0)))"

text \<open>The instructions Anchor adds to both programs.\<close>

definition idl_act :: "platform \<Rightarrow> ledger \<Rightarrow> ledger \<Rightarrow> bool" where
  "idl_act pf l l' \<longleftrightarrow> (\<exists>tx accounts data.
     idl_dispatch pf WALLET_PROGRAM_ID tx accounts data l = (Inr l' :: (GatewayWalletError, ledger) result) \<or>
     idl_dispatch pf MINTER_PROGRAM_ID tx accounts data l = (Inr l' :: (GatewayMinterError, ledger) result))"

definition outside_act :: "platform \<Rightarrow> ledger \<Rightarrow> ledger \<Rightarrow> bool" where
  "outside_act pf l l' \<longleftrightarrow> token_act pf l l' \<or> system_act pf l l' \<or> foreign_act l l' \<or> idl_act pf l l'"

abbreviation "closed_step pf \<equiv> interleaved (wallet_act pf) (minter_act pf) (outside_act pf)"
abbreviation "closed_run pf \<equiv> machine_run (closed_step pf)"

text \<open>The address of a program's IDL is derived with a seed; it is not a program-derived address of either.\<close>

definition idl_apart :: "platform \<Rightarrow> bool" where
  "idl_apart pf \<longleftrightarrow> (\<forall>p \<in> {WALLET_PROGRAM_ID, MINTER_PROGRAM_ID}. \<forall>k. idl_address pf p = Some k \<longrightarrow>
     \<not> program_pda pf WALLET_PROGRAM_ID k \<and> \<not> program_pda pf MINTER_PROGRAM_ID k)"

definition clean :: "platform \<Rightarrow> ledger \<Rightarrow> bool" where
  "clean pf l \<longleftrightarrow> pda_clean pf WALLET_PROGRAM_ID l \<and> pda_clean pf MINTER_PROGRAM_ID l \<and>
     reserved_apart pf WALLET_PROGRAM_ID \<and> reserved_apart pf MINTER_PROGRAM_ID \<and> idl_apart pf"

definition closed_inv :: "platform \<Rightarrow> ledger \<Rightarrow> bool" where
  "closed_inv pf l \<longleftrightarrow> gateway_inv pf l \<and> clean pf l"

section \<open>The outside steps are in the environment\<close>

lemma wallet_pda_program: "wallet_pda pf k \<longleftrightarrow> program_pda pf WALLET_PROGRAM_ID k"
  by (simp add: wallet_pda_def program_pda_def)

text \<open>A step at which the accounts of interest keep owner and data.\<close>

lemma steady_rest:
  assumes "\<And>k. acc_owner (l k) \<in> {WALLET_PROGRAM_ID, MINTER_PROGRAM_ID, TOKEN_PROGRAM_ID} \<Longrightarrow>
      acc_owner (l' k) = acc_owner (l k) \<and> acc_data (l' k) = acc_data (l k)"
    and "\<And>k. acc_owner (l k) \<noteq> acc_owner (l' k) \<Longrightarrow> \<exists>n. acc_data (l' k) = Raw (replicate n 0)"
    and "\<And>k. program_pda pf WALLET_PROGRAM_ID k \<or> program_pda pf MINTER_PROGRAM_ID k \<Longrightarrow>
      acc_owner (l' k) = acc_owner (l k) \<and> acc_data (l' k) = acc_data (l k)"
  shows "gateway_rest pf l l'" "keeps_clean pf WALLET_PROGRAM_ID l l'" "keeps_clean pf MINTER_PROGRAM_ID l l'"
proof -
  have tok: "tok_at l k = Some t \<Longrightarrow> tok_at l' k = Some t" for k t
    using assms(1) [of k] by (auto simp: typed_Some)
  then have held: "keeps_held pf p l l'" for p by (auto simp: keeps_held_def)
  have "wallet_env pf l l'"
    unfolding wallet_env_def
  proof (intro conjI allI impI)
    fix k
    show "acc_owner (l k) \<noteq> WALLET_PROGRAM_ID \<and> acc_owner (l' k) = WALLET_PROGRAM_ID \<Longrightarrow> \<not> wallet_pda pf k"
      unfolding wallet_pda_program using assms(3) [of k] by auto
    show "keeps_records WALLET_PROGRAM_ID l l'"
      by (rule keeps_records_untouched) (use assms(1,2) in auto)
    show "wallet_pda pf k \<and> fresh l k \<Longrightarrow> fresh l' k"
      unfolding wallet_pda_program fresh_def using assms(3) [of k] by auto
  qed (use assms(1) tok in \<open>auto simp: held_safely_def\<close>)
  moreover have "minter_env l l'"
    by (rule keeps_records_untouched) (use assms(1,2) in auto)
  ultimately show "gateway_rest pf l l'" using held by (simp add: gateway_rest_def)
  show "keeps_clean pf WALLET_PROGRAM_ID l l'" "keeps_clean pf MINTER_PROGRAM_ID l l'"
    unfolding keeps_clean_def pda_clean_def fresh_def typed_def using assms(3) by metis+
qed

lemma system_steady:
  assumes ok: "system_program_ok pf" and act: "system_act pf l l'"
  shows "gateway_rest pf l l'" "keeps_clean pf WALLET_PROGRAM_ID l l'" "keeps_clean pf MINTER_PROGRAM_ID l l'"
proof -
  have own: "(acc_owner (l' k) = acc_owner (l k) \<and> acc_data (l' k) = acc_data (l k)) \<or>
      (acc_owner (l k) = SYSTEM_PROGRAM_ID \<and> (\<exists>n. acc_data (l' k) = Raw (replicate n 0)) \<and>
       \<not> program_pda pf WALLET_PROGRAM_ID k \<and> \<not> program_pda pf MINTER_PROGRAM_ID k)" for k
    using act
  proof cases
    case (sys_creates tx dst src n space owner)
    from ok sys_creates(3) have s: "acc_owner (l dst) = SYSTEM_PROGRAM_ID"
      "l' = l(src := take_lamports n (l src), dst := \<lparr> acc_lamports = n, acc_owner = owner, acc_data = Raw (replicate space 0) \<rparr>)"
      unfolding system_program_ok_def system_create_ok_def by blast+
    with outsider [OF sys_creates(1,2)] show ?thesis by (cases "k = dst") auto
  next
    case (sys_transfers src dst n)
    from ok sys_transfers have "l' = (let l1 = l(src := take_lamports n (l src)) in l1(dst := add_lamports n (l1 dst)))"
      unfolding system_program_ok_def system_transfer_ok_def by blast
    then show ?thesis by (auto simp: Let_def)
  next
    case (sys_allocates tx j space)
    from ok sys_allocates(3) have s: "acc_owner (l j) = SYSTEM_PROGRAM_ID"
      "l' = l(j := (l j)\<lparr> acc_data := Raw (replicate space 0) \<rparr>)"
      unfolding system_program_ok_def system_allocate_ok_def by blast+
    with outsider [OF sys_allocates(1,2)] show ?thesis by (cases "k = j") auto
  next
    case (sys_assigns tx j n owner)
    from ok sys_assigns(5) have "l' = l(j := (l j)\<lparr> acc_owner := owner \<rparr>)"
      unfolding system_program_ok_def system_assign_ok_def by blast
    with outsider [OF sys_assigns(1,2)] sys_assigns(3,4) show ?thesis by (cases "k = j") auto
  qed
  show "gateway_rest pf l l'" "keeps_clean pf WALLET_PROGRAM_ID l l'" "keeps_clean pf MINTER_PROGRAM_ID l l'"
    by (rule steady_rest; use own in \<open>metis insertE program_ids_distinct(1-3) singletonD\<close>)+
qed

lemma foreign_steady:
  assumes act: "foreign_act l l'" and clean: "clean pf l"
  shows "gateway_rest pf l l'" "keeps_clean pf WALLET_PROGRAM_ID l l'" "keeps_clean pf MINTER_PROGRAM_ID l l'"
proof -
  have same: "acc_owner (l' k) = acc_owner (l k) \<and> acc_data (l' k) = acc_data (l k)" if "acc_owner (l k) \<in> gateway_programs" for k
    using act that by (auto simp: foreign_act_def split: if_splits)
  have zero: "\<exists>n. acc_data (l' k) = Raw (replicate n 0)" if "acc_owner (l k) \<noteq> acc_owner (l' k)" for k
    using act that unfolding foreign_act_def by (metis (full_types))
  have pda: "acc_owner (l k) \<in> gateway_programs"
    if "program_pda pf WALLET_PROGRAM_ID k \<or> program_pda pf MINTER_PROGRAM_ID k" for k
    using clean that by (auto simp: clean_def pda_clean_def gateway_programs_def fresh_def typed_def split: if_splits)
  show "gateway_rest pf l l'" "keeps_clean pf WALLET_PROGRAM_ID l l'" "keeps_clean pf MINTER_PROGRAM_ID l l'"
    by (rule steady_rest; use same zero pda in \<open>auto simp: gateway_programs_def\<close>)+
qed

lemma token_rest:
  assumes clean: "clean pf l" and sg: "\<forall>k \<in> set sg. \<not> program_pda pf WALLET_PROGRAM_ID k \<and> \<not> program_pda pf MINTER_PROGRAM_ID k"
    and run: "token_process pf sg ix l = Inr l'"
  shows "gateway_rest pf l l'" "keeps_clean pf WALLET_PROGRAM_ID l l'" "keeps_clean pf MINTER_PROGRAM_ID l l'"
proof -
  have "outsiders pf WALLET_PROGRAM_ID sg l" "outsiders pf MINTER_PROGRAM_ID sg l"
    using clean sg by (simp_all add: outsiders_def clean_def)
  note t = token_process_step [OF this(1) run] token_process_step [OF this(2) run]
  have "spares pf WALLET_PROGRAM_ID l l'" "spares pf MINTER_PROGRAM_ID l l'"
    by (rule token_step_spares [OF t(1)], simp, simp) (rule token_step_spares [OF t(2)], simp, simp)
  then show "gateway_rest pf l l'"
    by (simp add: gateway_rest_def spares_wallet_env spares_minter_env) (simp add: spares_def)
  show "keeps_clean pf WALLET_PROGRAM_ID l l'" "keeps_clean pf MINTER_PROGRAM_ID l l'"
    using t by (simp_all add: token_step_def)
qed

text \<open>An account of another program, a typed record, or an unused address apart from the IDL's, keeps owner and data.\<close>

lemma idl_rest:
  assumes ch: "idl_changes pf q l l'" and q: "q = WALLET_PROGRAM_ID \<or> q = MINTER_PROGRAM_ID" and apart: "idl_apart pf"
  shows "gateway_rest pf l l'" "keeps_clean pf WALLET_PROGRAM_ID l l'" "keeps_clean pf MINTER_PROGRAM_ID l l'"
proof -
  have q_other: "q \<noteq> TOKEN_PROGRAM_ID" "q \<noteq> SYSTEM_PROGRAM_ID" using q by auto
  note ch' = ch [unfolded idl_changes_def, rule_format]
  have tok: "tok_at l k = Some t \<Longrightarrow> tok_at l' k = Some t" for k t
    using ch' [of k] q_other by (auto simp: typed_Some fresh_def)
  then have held: "keeps_held pf p l l'" for p by (auto simp: keeps_held_def)
  have keeps: "keeps_records p l l'" if "p = WALLET_PROGRAM_ID \<or> p = MINTER_PROGRAM_ID" for p
    unfolding keeps_records_def
  proof (intro conjI allI impI)
    fix k
    show "acc_owner (l k) = p \<and> \<not> idle (acc_data (l k)) \<Longrightarrow> acc_owner (l' k) = p"
      "acc_owner (l k) = p \<and> \<not> idle (acc_data (l k)) \<Longrightarrow> acc_data (l' k) = acc_data (l k)"
      "acc_owner (l k) = p \<Longrightarrow> acc_owner (l' k) = p \<or> fresh l' k"
      "acc_owner (l' k) = p \<Longrightarrow> idle (acc_data (l' k)) \<or> acc_owner (l k) = p \<and> acc_data (l' k) = acc_data (l k)"
      using ch' [of k] that by (auto simp: fresh_def)
  qed
  have pda: "acc_owner (l' k) = acc_owner (l k) \<and> acc_data (l' k) = acc_data (l k) \<or>
      acc_owner (l k) = q \<and> (acc_owner (l' k) = q \<or> fresh l' k)"
    if "program_pda pf WALLET_PROGRAM_ID k \<or> program_pda pf MINTER_PROGRAM_ID k" for k
    using ch' [of k] apart q that by (auto simp: idl_apart_def)
  have "wallet_env pf l l'"
    unfolding wallet_env_def
  proof (intro conjI allI impI)
    fix k
    show "keeps_records WALLET_PROGRAM_ID l l'" by (rule keeps) simp
    show "acc_owner (l k) \<noteq> WALLET_PROGRAM_ID \<and> acc_owner (l' k) = WALLET_PROGRAM_ID \<Longrightarrow> \<not> wallet_pda pf k"
      unfolding wallet_pda_program using pda [of k] by (auto simp: fresh_def)
    show "wallet_pda pf k \<and> fresh l k \<Longrightarrow> fresh l' k"
      unfolding wallet_pda_program using pda [of k] q_other by (auto simp: fresh_def)
  qed (use tok in \<open>auto simp: held_safely_def\<close>)
  with keeps held show "gateway_rest pf l l'" by (simp add: gateway_rest_def)
  have stay: "fresh l k \<or> acc_owner (l k) = p \<or> tok_at l k \<noteq> None \<Longrightarrow>
      fresh l' k \<or> acc_owner (l' k) = p \<or> tok_at l' k \<noteq> None"
    if "program_pda pf WALLET_PROGRAM_ID k \<or> program_pda pf MINTER_PROGRAM_ID k" for k p
    using pda [OF that] tok q_other by (cases "tok_at l k") (auto simp: fresh_def typed_def)
  then show "keeps_clean pf WALLET_PROGRAM_ID l l'" "keeps_clean pf MINTER_PROGRAM_ID l l'"
    unfolding keeps_clean_def pda_clean_def by blast+
qed

lemma outside_rest:
  assumes inv: "closed_inv pf l" and act: "outside_act pf l l'"
  shows "gateway_rest pf l l' \<and> keeps_clean pf WALLET_PROGRAM_ID l l' \<and> keeps_clean pf MINTER_PROGRAM_ID l l'"
proof -
  from inv have ok: "system_program_ok pf" "clean pf l" by (simp_all add: closed_inv_def gateway_inv_def)
  from act consider (tok) tx ix where "signed_by_outsiders pf tx" "token_process pf (tx_signers tx) ix l = Inr l'"
    | (sys) "system_act pf l l'" | (foreign) "foreign_act l l'" | (idl) "idl_act pf l l'"
    unfolding outside_act_def token_act_def by blast
  then show ?thesis
  proof cases
    case tok
    with outsider have "\<forall>k \<in> set (tx_signers tx). \<not> program_pda pf WALLET_PROGRAM_ID k \<and> \<not> program_pda pf MINTER_PROGRAM_ID k"
      by blast
    from token_rest [OF ok(2) this tok(2)] show ?thesis by simp
  next
    case idl
    then have "idl_changes pf WALLET_PROGRAM_ID l l' \<or> idl_changes pf MINTER_PROGRAM_ID l l'"
      unfolding idl_act_def by (blast intro: idl_dispatch_changes [OF ok(1)])
    moreover from ok(2) have "idl_apart pf" by (simp add: clean_def)
    ultimately show ?thesis using idl_rest by blast
  qed (use system_steady [OF ok(1)] foreign_steady [OF _ ok(2)] in simp_all)
qed

section \<open>The programs' own steps keep the addresses clean\<close>

definition tokens_stay :: "ledger \<Rightarrow> ledger \<Rightarrow> bool" where
  "tokens_stay l l' \<longleftrightarrow> (\<forall>k t. tok_at l k = Some t \<longrightarrow> tok_at l' k \<noteq> None)"

lemma clean_spared: "spares pf p l l' \<Longrightarrow> tokens_stay l l' \<Longrightarrow> keeps_clean pf p l l'"
  unfolding keeps_clean_def pda_clean_def spares_def tokens_stay_def by (metis not_None_eq)

lemma clean_replaced:
  assumes u: "untouched l {k} l'" and new: "fresh l' k \<or> acc_owner (l' k) = p \<or> tok_at l' k \<noteq> None"
  shows "keeps_clean pf p l l'"
  unfolding keeps_clean_def pda_clean_def
proof (intro impI allI)
  fix j
  assume clean: "\<forall>k. program_pda pf p k \<longrightarrow> fresh l k \<or> acc_owner (l k) = p \<or> tok_at l k \<noteq> None" and j: "program_pda pf p j"
  show "fresh l' j \<or> acc_owner (l' j) = p \<or> tok_at l' j \<noteq> None"
  proof (cases "j = k")
    case False
    with u have "acc_owner (l' j) = acc_owner (l j)" "acc_data (l' j) = acc_data (l j)" by (simp_all add: untouched_def)
    then have "fresh l' j = fresh l j" "tok_at l' j = tok_at l j" by (simp_all add: fresh_def typed_def)
    with clean [rule_format, OF j] \<open>acc_owner (l' j) = acc_owner (l j)\<close> show ?thesis by simp
  qed (use new in simp)
qed

lemma clean_written: "written p l k f x l' \<Longrightarrow> keeps_clean pf p l l'"
  by (rule clean_replaced [of l k]) (simp_all add: written_def)

lemma clean_token_initialised: "token_initialised l k mint a l' \<Longrightarrow> keeps_clean pf p l l'"
  by (rule clean_replaced [of l k]) (auto simp: token_initialised_def)

lemma wallet_effect_clean:
  assumes e: "wallet_effect pf tx l es l'"
  shows "keeps_clean pf WALLET_PROGRAM_ID l l'" "tokens_stay l l'"
proof -
  show stay: "tokens_stay l l'" using effect_tok [OF e] by (fastforce simp: tokens_stay_def)
  show "keeps_clean pf WALLET_PROGRAM_ID l l'"
    using e
  proof (cases rule: effect_footprint)
    case (program K)
    show ?thesis
      unfolding keeps_clean_def pda_clean_def
    proof (intro impI allI)
      fix j
      assume clean: "\<forall>k. program_pda pf WALLET_PROGRAM_ID k \<longrightarrow>
          fresh l k \<or> acc_owner (l k) = WALLET_PROGRAM_ID \<or> tok_at l k \<noteq> None"
        and j: "program_pda pf WALLET_PROGRAM_ID j"
      show "fresh l' j \<or> acc_owner (l' j) = WALLET_PROGRAM_ID \<or> tok_at l' j \<noteq> None"
      proof (cases "j \<in> K")
        case False
        with program(1) have "acc_owner (l' j) = acc_owner (l j)"
          "acc_owner (l j) \<noteq> TOKEN_PROGRAM_ID \<Longrightarrow> acc_data (l' j) = acc_data (l j)" by (simp_all add: touches_def)
        with clean [rule_format, OF j] stay show ?thesis by (auto simp: fresh_def tokens_stay_def)
      qed (use program(2) in blast)
    qed
  next
    case (custody g cust mint l1 w')
    from clean_token_initialised [OF custody(2)] clean_written [OF custody(3)] show ?thesis
      by (rule keeps_clean_trans)
  qed
qed

lemma tokens_stay_trans: "tokens_stay l m \<Longrightarrow> tokens_stay m l' \<Longrightarrow> tokens_stay l l'"
  unfolding tokens_stay_def by (metis not_None_eq)

lemma tokens_stay_untouched: "untouched l {k} l' \<Longrightarrow> tok_at l k = None \<Longrightarrow> tokens_stay l l'"
  unfolding tokens_stay_def using tok_untouched(1) by (metis not_None_eq)

lemma tokens_stay_moved: "only_tokens_moved l l' \<Longrightarrow> tokens_stay l l'"
  unfolding tokens_stay_def using tok_at_only_tokens by (metis not_None_eq)

lemma tokens_stay_written: "written q l k f x l' \<Longrightarrow> q \<noteq> TOKEN_PROGRAM_ID \<Longrightarrow> tokens_stay l l'"
  unfolding written_def by (elim conjE) (rule tokens_stay_untouched [OF _ tok_not_foreign])

lemma tokens_stay_initialised: "token_initialised l k mint a l' \<Longrightarrow> tokens_stay l l'"
  unfolding tokens_stay_def using tok_initialised(1) by (metis not_None_eq)

lemma released_all_clean:
  "released_all pf g m es l l' \<Longrightarrow> keeps_clean pf MINTER_PROGRAM_ID l l' \<and> tokens_stay l l'"
proof (induction es arbitrary: l)
  case Nil
  then show ?case by (auto simp: keeps_clean_def tokens_stay_def)
next
  case (Cons e es)
  then obtain cust mark l1 where r: "released pf g m e cust mark l l1" and rest: "released_all pf g m es l1 l'" by auto
  from r obtain l0 where made: "account_made l mark MINTER_PROGRAM_ID (Raw MINTER_USED_MARKER) l0"
    and tr: "transferred l0 cust (el_destination_recipient e) g (el_value e) l1"
    unfolding released_def by blast
  have mark: "fresh l mark" "acc_owner (l0 mark) = MINTER_PROGRAM_ID" using made by (simp_all add: account_made_def fresh_def)
  have "keeps_clean pf MINTER_PROGRAM_ID l l0" by (rule clean_replaced [OF untouched_made [OF made]]) (simp add: mark)
  moreover have "tokens_stay l l0" by (rule tokens_stay_untouched [OF untouched_made [OF made] fresh_no_tokens [OF mark(1)]])
  moreover have "keeps_clean pf MINTER_PROGRAM_ID l0 l1" "tokens_stay l0 l1"
    using clean_moved tokens_stay_moved transferred_only_tokens [OF tr] by blast+
  ultimately show ?case using Cons.IH [OF rest] by (blast intro: keeps_clean_trans tokens_stay_trans)
qed

lemma minter_effect_clean:
  assumes e: "minter_effect pf tx l es l'"
  shows "keeps_clean pf MINTER_PROGRAM_ID l l' \<and> tokens_stay l l'"
  using e
proof cases
  case (m_release c bs sig m s)
  then have "released_all pf (gc_gateway_minter c) m (as_elements s) l l'" by (simp add: mint_executed_def)
  then show ?thesis by (rule released_all_clean)
next
  case m_administer
  then obtain k m' where w: "minter_written l k m' l'" unfolding minter_role_done_def by blast
  show ?thesis using clean_written [OF w] tokens_stay_written [OF w] by simp
next
  case (m_create k b u pd m domain)
  show ?thesis using clean_written [OF m_create(7)] tokens_stay_written [OF m_create(7)] by simp
next
  case (m_support g m mint cust b l1 m')
  have "keeps_clean pf MINTER_PROGRAM_ID l l1" "tokens_stay l l1"
    by (rule clean_token_initialised [OF m_support(6)]) (rule tokens_stay_initialised [OF m_support(6)])
  moreover have "keeps_clean pf MINTER_PROGRAM_ID l1 l'" "tokens_stay l1 l'"
    by (rule clean_written [OF m_support(8)]) (rule tokens_stay_written [OF m_support(8)], simp)
  ultimately show ?thesis by (blast intro: keeps_clean_trans tokens_stay_trans)
next
  case (m_burn g m mint b cust t amount n)
  from burned_only_tokens [OF m_burn(12)] show ?thesis by (blast intro: clean_moved tokens_stay_moved)
qed

section \<open>The closed world refines the joint machine\<close>

lemma closed_step_gateway:
  assumes inv: "closed_inv pf l" and step: "closed_step pf l es l'"
  shows "gateway_step pf l es l'" "closed_inv pf l'"
proof -
  from inv have g: "gateway_inv pf l" and sides: "wallet_side pf l" "apart pf" "minter_inv pf l"
    by (simp_all add: closed_inv_def gateway_inv_sides wallet_side_def)
  have "gateway_step pf l es l' \<and> keeps_clean pf WALLET_PROGRAM_ID l l' \<and> keeps_clean pf MINTER_PROGRAM_ID l l'"
    using step
  proof cases
    case (by_left ws)
    from wallet_act_step(2,3) [OF sides(1) by_left(2)] obtain tx where
      sp: "spares pf MINTER_PROGRAM_ID l l'" and e: "wallet_effect pf tx l ws l'" by blast
    from wallet_effect_clean [OF e] clean_spared [OF sp] show ?thesis
      unfolding by_left(1) using interleaved.by_left [of "wallet_act pf", OF by_left(2)] by blast
  next
    case (by_right ms)
    from minter_act_step(2,3) [OF sides(2,3) by_right(2)] obtain tx where
      sp: "spares pf WALLET_PROGRAM_ID l l'" and e: "minter_effect pf tx l ms l'" by blast
    from minter_effect_clean [OF e] clean_spared [OF sp] show ?thesis
      unfolding by_right(1) using interleaved.by_right [of "minter_act pf", OF by_right(2)] by blast
  next
    case by_rest
    from outside_rest [OF inv by_rest(2)] show ?thesis
      unfolding by_rest(1) using interleaved.by_rest [of "gateway_rest pf"] by blast
  qed
  with gateway_machine.inv_step [OF g] inv show "gateway_step pf l es l'" "closed_inv pf l'"
    by (auto simp: closed_inv_def clean_def keeps_clean_def)
qed

interpretation closed_machine: machine "closed_step pf" "closed_inv pf" for pf
  by unfold_locales (rule closed_step_gateway(2))

lemma closed_run_gateway: "closed_run pf l es l' \<Longrightarrow> closed_inv pf l \<Longrightarrow> gateway_run pf l es l'"
  by (rule closed_machine.run_refines) (rule closed_step_gateway(1))

end
