(* ===== verification/GatewaySpec.thy ===== *)
theory GatewaySpec
  imports ClosedWorld MintSpec WalletSpec
begin

text \<open>
  What the two programs guarantee together on one ledger: neither touches the other's accounts or tokens,
  every joint history is a history of each program, the joint safety properties, and the custody of
  either program shrinks only as its events report.
\<close>

section \<open>A joint sample history\<close>

lemma sample_hash_31: "sample_hash xs ! 31 = (rev xs @ replicate 22 0) ! 21"
proof -
  let ?ys = "xs @ replicate 48 0"
  let ?front = "take 16 ?ys @ take 15 (drop 32 ?ys)"
  have "length ?front = 31" by simp
  then have "(?front @ [z]) ! 31 = z" for z by (metis nth_append_length)
  then show ?thesis unfolding sample_hash_def Let_def by (simp del: take_append drop_append)
qed

lemma sample_hash_program:
  assumes p: "length p = 32"
  shows "sample_hash (bs @ p @ PDA_MARKER) ! 31 = last p"
proof -
  have m: "length (rev PDA_MARKER) = 21" by (simp add: PDA_MARKER_def)
  from p obtain q x where "p = q @ [x]" by (cases p rule: rev_cases) auto
  then show ?thesis unfolding sample_hash_31 by (simp add: nth_append m [simplified])
qed

lemma sample_pda_last: "program_pda sample_platform p k \<Longrightarrow> length p = 32 \<Longrightarrow> k ! 31 = last p"
proof -
  assume pda: "program_pda sample_platform p k" and p: "length p = 32"
  from pda obtain seeds where "k = sample_hash (concat seeds @ p @ PDA_MARKER)"
    unfolding program_pda_def sample_create_address Let_def by (auto split: if_splits)
  then show ?thesis using sample_hash_program [OF p] by simp
qed

text \<open>The IDL address ends with another byte of the program than its program-derived addresses.\<close>

lemma sample_idl_apart: "idl_apart sample_platform"
proof -
  have "k ! 31 = p ! 10" if "idl_address sample_platform p = Some k" "length p = 32" for p k
  proof -
    from that obtain base where "k = sample_hash (base @ IDL_SEED @ p)"
      by (auto simp: idl_address_def sample_platform_def split: option.splits)
    then have "k ! 31 = (rev (base @ IDL_SEED @ p) @ replicate 22 0) ! 21" by (simp only: sample_hash_31)
    with that(2) show ?thesis by (simp add: nth_append rev_nth)
  qed
  moreover have "WALLET_PROGRAM_ID ! 10 = 71" "MINTER_PROGRAM_ID ! 10 = 63"
    "last WALLET_PROGRAM_ID = 234" "last MINTER_PROGRAM_ID = 181"
    by (simp_all add: WALLET_PROGRAM_ID_def MINTER_PROGRAM_ID_def)
  moreover have "length WALLET_PROGRAM_ID = 32" "length MINTER_PROGRAM_ID = 32" by simp_all
  ultimately show ?thesis unfolding idl_apart_def using sample_pda_last by fastforce
qed

lemma sample_apart: "apart sample_platform"
proof -
  have "last WALLET_PROGRAM_ID \<noteq> last MINTER_PROGRAM_ID" by (simp add: WALLET_PROGRAM_ID_def MINTER_PROGRAM_ID_def)
  moreover have "length WALLET_PROGRAM_ID = 32" "length MINTER_PROGRAM_ID = 32" by simp_all
  ultimately show ?thesis
    unfolding apart_def disjoint_pdas_def by (metis sample_pda_last)
qed

lemma sample_outsiders: "set (tx_signers tx) \<subseteq> range key \<Longrightarrow> signed_by_outsiders sample_platform tx"
  by (simp add: signed_by_outsiders_def sample_users sample_minter_users)

lemma sample_gateway_inv: "gateway_inv sample_platform sample_ledger"
  by (simp add: gateway_inv_def sample_apart sample_platform_ok sample_wf minter_ledger_wf)

lemma sample_clean: "clean sample_platform sample_ledger"
proof -
  have off: "\<not> program_pda sample_platform p k" if "sample_curve k" for p k
    using that unfolding program_pda_def sample_create_address by (auto simp: Let_def split: if_splits)
  have curve: "sample_curve MINT_KEY" "sample_curve ALICE" "sample_curve SYSTEM_PROGRAM_ID"
    by (simp_all add: sample_curve_def MINT_KEY_def ALICE_def key_list SYSTEM_PROGRAM_ID_def default_pubkey_list)
  have inc: "\<not> program_pda sample_platform p INCINERATOR_ID" if "length p = 32" "last p \<noteq> 0" for p
    using sample_pda_last [of p INCINERATOR_ID] that by (auto simp: INCINERATOR_ID_def)
  have reserved: "reserved_apart sample_platform WALLET_PROGRAM_ID" "reserved_apart sample_platform MINTER_PROGRAM_ID"
    using off [OF curve(3)] inc [of WALLET_PROGRAM_ID] inc [of MINTER_PROGRAM_ID]
    by (auto simp: reserved_apart_def) (simp_all add: WALLET_PROGRAM_ID_def MINTER_PROGRAM_ID_def)
  have at: "program_pda sample_platform WALLET_PROGRAM_ID W_KEY" "program_pda sample_platform MINTER_PROGRAM_ID M_KEY"
    "program_pda sample_platform WALLET_PROGRAM_ID DEPOSIT_KEY"
    using pdaI(1) [OF sample_pdas(1)] pdaI(1) [OF minter_pdas(1)] pdaI(1) [OF sample_pdas(5)] by simp_all
  have "fresh sample_ledger k \<or> acc_owner (sample_ledger k) = p \<or> tok_at sample_ledger k \<noteq> None"
    if k: "program_pda sample_platform p k" and p: "p = WALLET_PROGRAM_ID \<or> p = MINTER_PROGRAM_ID" for p k
  proof (cases "k \<in> {W_KEY, CUSTODY_KEY, FEE_KEY, ALICE_TOKENS, DEPOSIT_KEY, ALICE, MINT_KEY, M_KEY, M_CUSTODY}")
    case False
    then have "sample_ledger k = empty_account" by (rule sample_ledger_at(10))
    then show ?thesis by (simp add: fresh_def empty_account_def)
  next
    case True
    have "k \<noteq> ALICE" "k \<noteq> MINT_KEY" using off curve k by auto
    moreover have "p = WALLET_PROGRAM_ID \<Longrightarrow> k \<noteq> M_KEY" "p = MINTER_PROGRAM_ID \<Longrightarrow> k \<noteq> W_KEY"
      "p = MINTER_PROGRAM_ID \<Longrightarrow> k \<noteq> DEPOSIT_KEY"
      using sample_apart at k by (auto simp: apart_def disjoint_pdas_def)
    ultimately show ?thesis using True p by (auto simp: typed_def)
  qed
  then show ?thesis using reserved by (simp add: clean_def pda_clean_def sample_idl_apart)
qed

lemma sample_nominates: "wallet_at l W_KEY = Some sample_wallet \<Longrightarrow>
    \<exists>l'. transfer_ownership sample_platform (signed_by 40) (sample_role 40) (key 45) l =
      Inr (l', [WalletEvent.OwnershipTransferStarted (key 40) (key 45)])"
  by (simp add: transfer_ownership_def role_accounts_def finish_def exit_wallet_def sample_role_def typed_Some
      signed_by_def sample_checks exit_account_def sample_wallet_space result_simps)

definition sample_joint_events :: "(WalletEvent + MinterEvent) list" where
  "sample_joint_events = [Inr (AttestationUsed MINT_KEY ALICE_TOKENS M_HASH 30),
     Inl (WalletEvent.OwnershipTransferStarted (key 40) (key 45))]"

lemma sample_closed_run: "\<exists>l'. closed_run sample_platform sample_ledger sample_joint_events l'"
proof -
  obtain l1 where mint: "gateway_mint sample_platform sample_mint_tx sample_mint_ctx sample_mint_params sample_ledger =
    Inr (l1, [AttestationUsed MINT_KEY ALICE_TOKENS M_HASH 30])" using sample_mint_runs by blast
  have out: "signed_by_outsiders sample_platform sample_mint_tx" "signed_by_outsiders sample_platform (signed_by 40)"
    by (simp_all add: sample_outsiders sample_mint_tx_def ALICE_def signed_by_def)
  have "minter_act sample_platform sample_ledger [AttestationUsed MINT_KEY ALICE_TOKENS M_HASH 30] l1"
    unfolding minter_act_def
    using out(1) mint sample_set_valid(2)
    by (intro exI [of _ sample_mint_tx] exI [of _ "IxGatewayMint sample_mint_ctx sample_mint_params"])
      (simp add: sample_mint_params_def)
  note act = this
  have "spares sample_platform WALLET_PROGRAM_ID sample_ledger l1"
    using minter_act_step(2) [OF sample_apart _ act] sample_gateway_inv by (simp add: gateway_inv_sides)
  then have "wallet_at l1 W_KEY = Some sample_wallet" unfolding spares_def typed_Some by simp
  from sample_nominates [OF this] obtain l2 where
    nom: "transfer_ownership sample_platform (signed_by 40) (sample_role 40) (key 45) l1 =
      Inr (l2, [WalletEvent.OwnershipTransferStarted (key 40) (key 45)])" by blast
  have "wallet_act sample_platform l1 [WalletEvent.OwnershipTransferStarted (key 40) (key 45)] l2"
    unfolding wallet_act_def
    using out(2) nom by (intro exI [of _ "signed_by 40"] exI [of _ "IxTransferOwnership (sample_role 40) (key 45)"]) simp
  then have 2: "closed_step sample_platform l1 [Inl (WalletEvent.OwnershipTransferStarted (key 40) (key 45))] l2"
    using by_left [of "wallet_act sample_platform"] by fastforce
  have 1: "closed_step sample_platform sample_ledger [Inr (AttestationUsed MINT_KEY ALICE_TOKENS M_HASH 30)] l1"
    using by_right [of "minter_act sample_platform", OF act] by simp
  from run_trans [OF run_single [of "closed_step sample_platform", OF 2] run_single [of "closed_step sample_platform", OF 1]]
  show ?thesis by (auto simp: sample_joint_events_def)
qed

lemma sample_joint_run: "\<exists>l'. gateway_run sample_platform sample_ledger sample_joint_events l'"
  using sample_closed_run closed_run_gateway sample_gateway_inv sample_clean unfolding closed_inv_def by blast

section \<open>Isolation\<close>

text \<open>C4: The programs leave each other alone.  When an instruction of one program succeeds, signed by nobody
  but outsiders, every account of the other program keeps its owner and data, no account becomes the
  other program's, its unused addresses stay unused, and every token account it holds safely keeps
  mint and owner and loses nothing.\<close>

theorem gateway_isolation:
  assumes "system_program_ok pf" "apart pf" "signed_by_outsiders pf tx"
  shows "(fits_usize ix \<and> wallet_dispatch pf tx ix l = Inr (l', es) \<longrightarrow> spares pf MINTER_PROGRAM_ID l l') \<and>
    (attestation_fits mx l \<and> minter_dispatch pf tx mx l = Inr (l', fs) \<longrightarrow> spares pf WALLET_PROGRAM_ID l l')"
  using assms wallet_effect_spares [OF apart_pdas(2) assms(3) wallet_dispatch_effect]
    minter_effect_spares [OF apart_pdas(1) minter_dispatch_effect] by blast

section \<open>Histories\<close>

text \<open>A joint history is a history of each program.  Interleave instructions of both programs, signed by
  outsiders, with the rest of the chain: the wallet events are those of a history of the wallet alone,
  and the minter events those of a history of the minter alone, on the same ledgers.  So whatever holds
  of every history of one program holds next to the other.\<close>

theorem gateway_histories_project:
  assumes "system_program_ok pf" "apart pf" "wallet_wf pf l" "minter_wf pf l" "gateway_run pf l es l'"
  shows "wallet_run pf l (lefts es) l' \<and> minter_run pf l (rights es) l'"
  using gateway_joint.run_projects [OF assms(5)] assms(1-4)
  by (simp add: wallet_side_def wallet_inv_def minter_inv_def)

theorem gateway_isolation_witness:
  "\<exists>l'. minter_dispatch sample_platform sample_mint_tx (IxGatewayMint sample_mint_ctx sample_mint_params) sample_ledger
       = Inr (l', [AttestationUsed MINT_KEY ALICE_TOKENS M_HASH 30]) \<and>
     spares sample_platform WALLET_PROGRAM_ID sample_ledger l'"
proof -
  obtain l' where mint: "minter_dispatch sample_platform sample_mint_tx (IxGatewayMint sample_mint_ctx sample_mint_params)
      sample_ledger = Inr (l', [AttestationUsed MINT_KEY ALICE_TOKENS M_HASH 30])"
    using sample_mint_runs by auto
  have out: "signed_by_outsiders sample_platform sample_mint_tx"
    by (simp add: sample_outsiders sample_mint_tx_def ALICE_def)
  have fits: "attestation_fits (IxGatewayMint sample_mint_ctx sample_mint_params) sample_ledger"
    using sample_set_valid(2) by (simp add: sample_mint_params_def)
  from mp [OF conjunct2 [OF gateway_isolation [OF sample_platform_ok sample_apart out]] conjI [OF fits mint]] mint
  show ?thesis by (intro exI [of _ l'] conjI)
qed

theorem gateway_histories_project_witness:
  "\<exists>l'. wallet_run sample_platform sample_ledger [WalletEvent.OwnershipTransferStarted (key 40) (key 45)] l' \<and>
     minter_run sample_platform sample_ledger [AttestationUsed MINT_KEY ALICE_TOKENS M_HASH 30] l'"
proof -
  obtain l' where "gateway_run sample_platform sample_ledger sample_joint_events l'" using sample_joint_run by blast
  from gateway_histories_project [OF sample_platform_ok sample_apart sample_wf minter_ledger_wf this]
  show ?thesis by (auto simp: sample_joint_events_def)
qed

section \<open>The closed world\<close>

text \<open>C5: The token program lets no outsider at the gateway's tokens.  When an instruction of the token program
  succeeds and nobody signed for a program-derived address of the two programs, the step is one the
  programs rely on: their accounts and unused addresses are unchanged, and every token account held for
  either keeps mint, owner, and no delegate and close authority, and loses nothing, whether the
  instruction transfers, approves, sets authorities, mints, burns, closes, freezes or initialises.  The
  program-derived addresses stay clean, so the next instruction meets the same condition.\<close>

theorem token_program_respects_gateway:
  assumes "clean pf l" "token_process pf sg ix l = Inr l'"
    and "\<forall>k \<in> set sg. \<not> program_pda pf WALLET_PROGRAM_ID k \<and> \<not> program_pda pf MINTER_PROGRAM_ID k"
  shows "gateway_rest pf l l' \<and> clean pf l'"
  using token_rest [OF assms(1,3,2)] assms(1) by (simp add: clean_def keeps_clean_def)

theorem token_program_respects_gateway_witness:
  "\<exists>l'. token_process sample_platform [ALICE] (TokTransfer (Some (MINT_KEY, 6)) ALICE_TOKENS FEE_KEY ALICE 25 []) sample_ledger
       = Inr l' \<and> amount_at l' FEE_KEY = 25 \<and> gateway_rest sample_platform sample_ledger l'"
proof -
  have "\<exists>l'. token_process sample_platform [ALICE] (TokTransfer (Some (MINT_KEY, 6)) ALICE_TOKENS FEE_KEY ALICE 25 []) sample_ledger
       = Inr l' \<and> amount_at l' FEE_KEY = 25"
    by (simp add: sample_steps amount_at_def)
  then obtain l' where run: "token_process sample_platform [ALICE]
      (TokTransfer (Some (MINT_KEY, 6)) ALICE_TOKENS FEE_KEY ALICE 25 []) sample_ledger = Inr l'"
    and a: "amount_at l' FEE_KEY = 25" by blast
  have "\<forall>k \<in> set [ALICE]. \<not> program_pda sample_platform WALLET_PROGRAM_ID k \<and> \<not> program_pda sample_platform MINTER_PROGRAM_ID k"
    using outsider [OF sample_outsiders [of sample_tx], of ALICE] by (simp add: sample_tx_def ALICE_def)
  from token_program_respects_gateway [OF sample_clean run this] run a show ?thesis by blast
qed

text \<open>C6: The closed world needs no assumption on the environment.  Let instructions of both programs, of the
  token program and of the system program, signed by outsiders, those of Anchor for the programs' IDL
  accounts, and steps of other programs, which change their own accounts only, follow in any order: every such history is a joint history of the
  gateway, in which the programs' environment conditions hold, and it leaves the program-derived
  addresses clean.\<close>

theorem closed_world_refines:
  assumes "system_program_ok pf" "apart pf" "clean pf l" "wallet_wf pf l" "minter_wf pf l" "closed_run pf l es l'"
  shows "gateway_run pf l es l' \<and> clean pf l'"
  using closed_run_gateway [OF assms(6)] closed_machine.inv_run [OF assms(6)] assms(1-5)
  by (simp add: closed_inv_def gateway_inv_def)

theorem closed_world_refines_witness:
  "\<exists>l'. gateway_run sample_platform sample_ledger sample_joint_events l' \<and> clean sample_platform l'"
  using sample_closed_run closed_world_refines [OF sample_platform_ok sample_apart sample_clean sample_wf minter_ledger_wf]
  by blast

text \<open>C2: The gateway is safe as a whole.  Over every history of the closed world: custody of the wallet
  covers all deposit balances of every mint; no transfer spec hash is burned twice and none is minted
  twice; and both programs' accounts stay well formed.\<close>

theorem gateway_safe:
  assumes "system_program_ok pf" "apart pf" "clean pf l" "wallet_wf pf l" "minter_wf pf l" "closed_run pf l es l'"
    and "custody_slots_safe pf l" "finite (dom (deposit_at l))"
    and "\<forall>mint. liability l mint \<le> custody_balance pf l mint"
    and "no_deposit_collision pf P" "records_within P l" "books_within P (lefts es)"
  shows "(\<forall>mint. liability l' mint \<le> custody_balance pf l' mint) \<and>
    distinct (List.map_filter burned_hash (lefts es)) \<and> distinct (List.map_filter used_hash (rights es)) \<and>
    wallet_wf pf l' \<and> minter_wf pf l'"
proof -
  have inv: "gateway_inv pf l" using assms(1-5) by (simp add: gateway_inv_def)
  have run: "gateway_run pf l es l'" by (rule closed_run_gateway [OF assms(6)]) (use inv assms(3) in \<open>simp add: closed_inv_def\<close>)
  have runs: "wallet_run pf l (lefts es) l'" "minter_run pf l (rights es) l'"
    using gateway_joint.run_projects [OF run] inv by (simp_all add: gateway_inv_sides)
  have "solvency_inv pf P l"
    using assms by (simp add: solvency_inv_def wallet_inv_def solvent_def)
  with solvency_run [OF runs(1) assms(12)] have "solvent pf l'" by (simp add: solvency_inv_def)
  moreover have "gateway_inv pf l'" using gateway_machine.inv_run [OF run inv] .
  moreover have "distinct (List.map_filter burned_hash (lefts es))" "distinct (List.map_filter used_hash (rights es))"
    using wallet_replay.run_spent [OF runs(1)] minter_replay.run_spent [OF runs(2)] inv
    by (simp_all add: gateway_inv_sides wallet_side_def)
  ultimately show ?thesis by (simp add: solvent_def gateway_inv_def)
qed

theorem gateway_safe_witness:
  "\<exists>l'. closed_run sample_platform sample_ledger sample_joint_events l' \<and>
     liability l' MINT_KEY \<le> custody_balance sample_platform l' MINT_KEY"
proof -
  obtain l' where run: "closed_run sample_platform sample_ledger sample_joint_events l'" using sample_closed_run by blast
  have "no_deposit_collision sample_platform {(MINT_KEY, ALICE)}" "records_within {(MINT_KEY, ALICE)} sample_ledger"
    "books_within {(MINT_KEY, ALICE)} (lefts sample_joint_events)" "finite (dom (deposit_at sample_ledger))"
    by (auto simp: no_deposit_collision_def records_within_def books_within_def sample_views sample_joint_events_def
        split: if_splits)
  with gateway_safe [OF sample_platform_ok sample_apart sample_clean sample_wf minter_ledger_wf run sample_custody_slots]
    sample_solvent run
  show ?thesis unfolding solvent_def by blast
qed

section \<open>Outflow\<close>

text \<open>C3: Tokens leave the programs only as their events say.  Over every joint history, a token account held
  for the wallet keeps its mint and owner class and loses at most what the WithdrawalCompleted and
  GatewayBurned events of its mint report, fees included; one held for the minter at most what the
  AttestationUsed and TokenCustodyBurned events of its mint report.\<close>

theorem gateway_outflow:
  assumes "system_program_ok pf" "apart pf" "wallet_wf pf l" "minter_wf pf l" "gateway_run pf l es l'"
    and "p = WALLET_PROGRAM_ID \<or> p = MINTER_PROGRAM_ID" "held_stock pf p l k = Some (mint, n)"
  shows "\<exists>n'. held_stock pf p l' k = Some (mint, n') \<and>
    n \<le> n' + (if p = WALLET_PROGRAM_ID then \<Sum>e\<leftarrow>lefts es. wallet_out mint e else \<Sum>e\<leftarrow>rights es. minter_out mint e)"
proof -
  have inv: "gateway_inv pf l" using assms(1-4) by (simp add: gateway_inv_def)
  have "joint_stock pf l (p, k) = Some ((p, mint), n)" using assms(6,7) by (auto simp: joint_stock_def)
  from gateway_stock.run_stock [OF assms(5) inv this] assms(6) show ?thesis
    by (auto simp: joint_stock_def joint_out_sums split: if_splits)
qed

theorem gateway_outflow_witness:
  "\<exists>l' n. gateway_run sample_platform sample_ledger sample_joint_events l' \<and>
     held_stock sample_platform MINTER_PROGRAM_ID l' M_CUSTODY = Some (MINT_KEY, n) \<and> 470 \<le> n"
proof -
  obtain l' where run: "gateway_run sample_platform sample_ledger sample_joint_events l'" using sample_joint_run by blast
  have "program_pda sample_platform MINTER_PROGRAM_ID M_KEY" using pdaI(1) minter_pdas(1) by blast
  then have "held_stock sample_platform MINTER_PROGRAM_ID sample_ledger M_CUSTODY = Some (MINT_KEY, 500)"
    by (simp add: held_stock_def held_for_def typed_def sample_token_def)
  from gateway_outflow [OF sample_platform_ok sample_apart sample_wf minter_ledger_wf run disjI2 [OF refl] this] run
  show ?thesis by (auto simp: sample_joint_events_def program_ids_distinct [symmetric])
qed

end
