(* ===== verification/Entry.thy ===== *)
theory Entry
  imports Idl
begin

text \<open>
  The entrypoint that Anchor generates for a program: an instruction arrives as bytes with a list of
  accounts.  The discriminator selects a handler, the rest of the bytes are its arguments in Borsh
  (bytes left over are ignored), the accounts fill its struct in the order of the fields, followed by the two
  accounts that \<open>#[event_cpi]\<close> adds; what remains is passed on.  Instructions for the IDL and the
  events a program sends to itself share the entrypoint.
\<close>

section \<open>Events\<close>

text \<open>The first eight bytes of the SHA-256 of \<open>anchor:event\<close> and \<open>anchor:idl\<close>, reversed.\<close>

definition EVENT_IX_TAG_LE :: bytes where "EVENT_IX_TAG_LE = [228, 69, 165, 46, 81, 203, 154, 29]"
definition IDL_IX_TAG_LE :: bytes where "IDL_IX_TAG_LE = [64, 244, 188, 120, 167, 233, 105, 10]"

definition EVENT_AUTHORITY_SEED :: bytes where "EVENT_AUTHORITY_SEED = map of_char ''__event_authority''"

text \<open>The program's own event handler: only its event authority may call it.\<close>

definition event_dispatch ::
    "platform \<Rightarrow> pubkey \<Rightarrow> pubkey list \<Rightarrow> pubkey list \<Rightarrow> ('e, unit) result" where
  "event_dispatch pf program_id signers accounts =
     with_accounts 1 accounts (\<lambda>a.
     and_then (require (a ! 0 \<in> set signers) (Anchor ConstraintSigner)) (\<lambda>_.
     and_then (find_program_address pf [EVENT_AUTHORITY_SEED] program_id) (\<lambda>(expected, _).
     require (a ! 0 = expected) (Anchor ConstraintSeeds))))"

text \<open>
  \<open>emit_cpi!\<close>: an invocation of the program by itself, signed by the event authority.  The runtime wants the
  invoked program among the accounts of the instruction.
\<close>

definition emit_cpi ::
    "platform \<Rightarrow> pubkey \<Rightarrow> transaction \<Rightarrow> pubkey list \<Rightarrow> pubkey \<Rightarrow> ('e, unit) result" where
  "emit_cpi pf program_id tx accounts authority =
     and_then (find_program_address pf [EVENT_AUTHORITY_SEED] program_id) (\<lambda>(_, bump).
     and_then (cpi_signers pf program_id tx (Some [EVENT_AUTHORITY_SEED, [bump]])) (\<lambda>signers.
     and_then (check_privileges tx signers [authority] []) (\<lambda>_.
     and_then (require (program_id \<in> set accounts) (Runtime MissingAccount)) (\<lambda>_.
     event_dispatch pf program_id signers [authority]))))"

text \<open>Once the event authority is checked, an event is sent exactly if the program is among the accounts.\<close>

lemma emit_cpi_Inr:
  assumes "find_program_address pf [EVENT_AUTHORITY_SEED] p = (Inr (authority, bump) :: ('e, pubkey \<times> u8) result)"
  shows "(emit_cpi pf p tx accounts authority :: ('e, unit) result) =
    require (p \<in> set accounts) (Runtime MissingAccount)"
proof -
  from assms have "create_program_address pf [EVENT_AUTHORITY_SEED, [bump]] p = Inr authority"
    using canonical_bump [of pf "[EVENT_AUTHORITY_SEED]" p authority bump] by (simp add: result_simps)
  then show ?thesis
    by (simp add: emit_cpi_def assms cpi_signers_def check_privileges_def event_dispatch_def with_accounts_def require_def)
qed

section \<open>Dispatch\<close>

definition starts_with :: "bytes \<Rightarrow> bytes \<Rightarrow> bool" where
  "starts_with data disc \<longleftrightarrow> take (length disc) data = disc"

text \<open>The handlers are tried in the order of lib.rs.\<close>

fun find_handler :: "(bytes \<times> 'h) list \<Rightarrow> bytes \<Rightarrow> ('h \<times> bytes) option" where
  "find_handler [] data = None"
| "find_handler ((disc, h) # hs) data =
     (if starts_with data disc then Some (h, drop (length disc) data) else find_handler hs data)"

definition with_args :: "'a reader \<Rightarrow> bytes \<Rightarrow> ('a \<Rightarrow> ('e, 'b) result) \<Rightarrow> ('e, 'b) result" where
  "with_args m data k =
     and_then (ok_or (m data) (Anchor InstructionDidNotDeserialize)) (\<lambda>(x, _). k x)"

text \<open>A struct of \<open>n\<close> fields, then \<open>event_authority\<close> and \<open>program\<close>.\<close>

definition with_struct :: "nat \<Rightarrow> pubkey list \<Rightarrow> (pubkey list \<Rightarrow> 'i) \<Rightarrow> ('e, 'i \<times> pubkey) result" where
  "with_struct n accounts f = with_accounts (n + 2) accounts (\<lambda>a. Inr (f a, a ! n))"

text \<open>The accounts of a request: the fields, the two of the event CPI, and the remaining ones.\<close>

lemma with_struct_Inr:
  assumes "with_struct n accounts f = Inr (ix, ea)"
  shows "\<exists>program. ix = f accounts \<and> accounts = map ((!) accounts) [0..<n] @ [ea, program] @ drop (n + 2) accounts"
proof -
  from assms have n: "n + 2 \<le> length accounts" "ix = f accounts" "ea = accounts ! n"
    by (auto simp: with_struct_def with_accounts_def result_simps)
  have "map ((!) accounts) [0..<n] = take n accounts" using n(1) by (intro nth_equalityI) auto
  moreover have "drop n accounts = accounts ! n # accounts ! Suc n # drop (n + 2) accounts"
    using n(1) by (simp add: Cons_nth_drop_Suc)
  moreover have "accounts = take n accounts @ drop n accounts" by simp
  ultimately have "accounts = map ((!) accounts) [0..<n] @ [ea, accounts ! Suc n] @ drop (n + 2) accounts"
    using n(3) by (metis append_Cons append_Nil)
  with n(2) show ?thesis by blast
qed

lemma with_args_Inr:
  "with_args m data k = Inr y \<longleftrightarrow> (\<exists>x r. m data = Some (x, r) \<and> k x = Inr y)"
  by (auto simp: with_args_def result_simps)

type_synonym ('e, 'i) handlers = "(bytes \<times> (bytes \<Rightarrow> pubkey list \<Rightarrow> ('e, 'i \<times> pubkey) result)) list"

text \<open>The instruction the bytes and the accounts stand for, with the event authority.\<close>

definition request :: "('e, 'i) handlers \<Rightarrow> pubkey list \<Rightarrow> bytes \<Rightarrow> ('e, 'i \<times> pubkey) result" where
  "request handlers accounts data = (case find_handler handlers data of
     None \<Rightarrow> Inl (Anchor InstructionFallbackNotFound) | Some (h, args) \<Rightarrow> h args accounts)"

text \<open>
  The wrapper of a handler validates the accounts, the event authority last, and runs the body, which
  sends its events.  (When several checks fail, the code reports the first in its own order: the
  count of accounts as it reaches the missing one, the event authority before the body.)
\<close>

definition program_entry ::
    "platform \<Rightarrow> pubkey \<Rightarrow> ('e, 'i) handlers \<Rightarrow> (transaction \<Rightarrow> 'i \<Rightarrow> ledger \<Rightarrow> ('e, ledger \<times> 'ev list) result) \<Rightarrow>
     transaction \<Rightarrow> pubkey list \<Rightarrow> bytes \<Rightarrow> ledger \<Rightarrow> ('e, ledger \<times> 'ev list) result" where
  "program_entry pf program_id handlers run tx accounts data l =
     (case find_handler handlers data of
        Some (h, args) \<Rightarrow>
          and_then (h args accounts) (\<lambda>(ix, event_authority).
          and_then (check_seeds_find pf program_id event_authority [EVENT_AUTHORITY_SEED]) (\<lambda>_.
          and_then (run tx ix l) (\<lambda>(l, events).
          and_then (fold_result (\<lambda>_ _. emit_cpi pf program_id tx accounts event_authority) events ()) (\<lambda>_.
          Inr (l, events)))))
      | None \<Rightarrow>
          if starts_with data IDL_IX_TAG_LE
          then and_then (idl_dispatch pf program_id tx accounts (drop (length IDL_IX_TAG_LE) data) l) (\<lambda>l. Inr (l, []))
          else if starts_with data EVENT_IX_TAG_LE
          then and_then (event_dispatch pf program_id (tx_signers tx) accounts) (\<lambda>_. Inr (l, []))
          else Inl (Anchor InstructionFallbackNotFound))"

lemma find_handler_Some:
  "find_handler hs data = Some (h, args) \<Longrightarrow> \<exists>disc. (disc, h) \<in> set hs \<and> data = disc @ args"
proof (induction hs)
  case (Cons x hs)
  then show ?case
    by (cases x) (auto simp: starts_with_def split: if_splits, metis append_take_drop_id)
qed simp

text \<open>The outcome of the entrypoint in terms of the instruction decoded.\<close>

lemma program_entry_Inr:
  assumes "program_entry pf p hs run tx accounts data l = (Inr (l', es) :: ('e, ledger \<times> 'ev list) result)"
  obtains (call) ix ea where "request hs accounts data = Inr (ix, ea)"
      "run tx ix l = Inr (l', es)" "\<exists>b. try_bumps pf [EVENT_AUTHORITY_SEED] p 255 = Some (ea, b)"
      "es = [] \<or> p \<in> set accounts"
    | (idl) "idl_dispatch pf p tx accounts (drop (length IDL_IX_TAG_LE) data) l = (Inr l' :: ('e, ledger) result)" "es = []"
    | (event) "l' = l" "es = []"
proof (cases "find_handler hs data")
  case None
  with assms show thesis by (auto simp: program_entry_def result_simps split: if_splits intro: idl event)
next
  case (Some x)
  obtain h args where x: "x = (h, args)" by (cases x)
  from assms Some x obtain ix ea u v where r: "h args accounts = Inr (ix, ea)" "run tx ix l = Inr (l', es)"
    and ea: "check_seeds_find pf p ea [EVENT_AUTHORITY_SEED] = (Inr u :: ('e, u8) result)"
    and em: "fold_result (\<lambda>_ _. emit_cpi pf p tx accounts ea) es () = (Inr v :: ('e, unit) result)"
    by (auto simp: program_entry_def result_simps)
  from ea obtain b where b: "try_bumps pf [EVENT_AUTHORITY_SEED] p 255 = Some (ea, b)"
    by (auto simp: result_simps)
  have "es = [] \<or> p \<in> set accounts"
    using em emit_cpi_Inr [of pf p ea b tx accounts, where 'e = 'e] b
    by (cases es) (auto simp: result_simps find_program_address_Inr)
  moreover have "request hs accounts data = Inr (ix, ea)" using r(1) Some x by (simp add: request_def)
  ultimately show thesis using r b by (intro call [of ix ea]) auto
qed

lemma program_entry_runs:
  assumes "request hs accounts data = Inr (ix, ea)" "try_bumps pf [EVENT_AUTHORITY_SEED] p 255 = Some (ea, b)"
    and "p \<in> set accounts" "run tx ix l = (Inr (l', es) :: ('e, ledger \<times> 'ev list) result)"
  shows "program_entry pf p hs run tx accounts data l = Inr (l', es)"
proof -
  from assms(1) obtain h args where h: "find_handler hs data = Some (h, args)" "h args accounts = Inr (ix, ea)"
    by (auto simp: request_def split: option.splits)
  from assms(2) have seeds: "check_seeds_find pf p ea [EVENT_AUTHORITY_SEED] = (Inr b :: ('e, u8) result)"
    by (simp add: result_simps)
  have "emit_cpi pf p tx accounts ea = (Inr () :: ('e, unit) result)"
    using emit_cpi_Inr [of pf p ea b tx accounts, where 'e = 'e] assms(2,3)
    by (simp add: find_program_address_Inr require_def)
  then have "fold_result (\<lambda>_ _. emit_cpi pf p tx accounts ea) es () = (Inr () :: ('e, unit) result)"
    by (induction es) simp_all
  with h seeds assms(4) show ?thesis by (simp add: program_entry_def)
qed

end
