(* ===== verification/WalletEntry.thy ===== *)
theory WalletEntry
  imports Entry WalletMachine
begin

text \<open>
  The entrypoint of GatewayWallet: the structs in the order of their fields, the discriminators of lib.rs with the
  arguments of each instruction, and the encoding a client uses.  A request the entrypoint decodes is
  exactly the encoding of the instruction it is read as, up to what is left over.
\<close>

section \<open>Arguments\<close>

definition read_pair :: "'a reader \<Rightarrow> 'b reader \<Rightarrow> ('a \<times> 'b) reader" where
  "read_pair m1 m2 = then_read m1 (\<lambda>x. then_read m2 (\<lambda>y. done_read (x, y)))"

definition read_GatewayBurnParams :: "GatewayBurnParams reader" where
  "read_GatewayBurnParams = then_read borsh_bytes (\<lambda>burn_data. then_read borsh_bytes (\<lambda>signature.
     done_read \<lparr> encoded_burn_data = burn_data, burn_signature = signature \<rparr>))"

definition write_GatewayBurnParams :: "GatewayBurnParams \<Rightarrow> bytes" where
  "write_GatewayBurnParams p = write_bytes (encoded_burn_data p) @ write_bytes (burn_signature p)"

definition read_InitializeParams :: "InitializeParams reader" where
  "read_InitializeParams = then_read borsh_u32 (\<lambda>local_domain. then_read borsh_u64 (\<lambda>withdrawal_delay.
     done_read \<lparr> ip_local_domain = local_domain, ip_withdrawal_delay = withdrawal_delay \<rparr>))"

definition write_InitializeParams :: "InitializeParams \<Rightarrow> bytes" where
  "write_InitializeParams p = u32_to_le (ip_local_domain p) @ u64_to_le (ip_withdrawal_delay p)"

definition burn_params_typed :: "GatewayBurnParams \<Rightarrow> bool" where
  "burn_params_typed p \<longleftrightarrow> length (encoded_burn_data p) < 2 ^ 32 \<and> length (burn_signature p) < 2 ^ 32"

interpretation burn_params: codec burn_params_typed write_GatewayBurnParams read_GatewayBurnParams
proof unfold_locales
  fix bs p r
  show "read_GatewayBurnParams bs = Some (p, r) \<longleftrightarrow> burn_params_typed p \<and> bs = write_GatewayBurnParams p @ r"
    by (cases p) (auto simp: read_GatewayBurnParams_def write_GatewayBurnParams_def burn_params_typed_def borsh_simps borsh_read)
qed

interpretation initialize_params: codec "\<lambda>_. True" write_InitializeParams read_InitializeParams
proof unfold_locales
  fix bs p r
  show "read_InitializeParams bs = Some (p, r) \<longleftrightarrow> True \<and> bs = write_InitializeParams p @ r"
    by (cases p) (auto simp: read_InitializeParams_def write_InitializeParams_def borsh_simps borsh_read)
qed

interpretation amount_and_key: codec "\<lambda>x. True \<and> length (snd x) = 32" "\<lambda>x. u64_to_le (fst x) @ snd x"
  "read_pair borsh_u64 borsh_pubkey"
  by unfold_locales (auto simp: read_pair_def borsh_simps borsh_read)

lemmas wallet_args_read = u64.read_Some u32.read_Some pubkey.read_Some burn_params.read_Some initialize_params.read_Some
  amount_and_key.read_Some

section \<open>Account structs\<close>

definition deposit_struct :: "pubkey list \<Rightarrow> DepositContext" where
  "deposit_struct a = \<lparr> dp_payer = a ! 0, dp_owner = a ! 1, dp_gateway_wallet = a ! 2,
     dp_owner_token_account = a ! 3, dp_custody_token_account = a ! 4, dp_deposit = a ! 5,
     dp_depositor_denylist = a ! 6, dp_token_program = a ! 7, dp_system_program = a ! 8 \<rparr>"

definition deposit_keys :: "DepositContext \<Rightarrow> pubkey list" where
  "deposit_keys c = [dp_payer c, dp_owner c, dp_gateway_wallet c, dp_owner_token_account c, dp_custody_token_account c,
     dp_deposit c, dp_depositor_denylist c, dp_token_program c, dp_system_program c]"

definition deposit_for_struct :: "pubkey list \<Rightarrow> DepositForContext" where
  "deposit_for_struct a = \<lparr> df_payer = a ! 0, df_owner = a ! 1, df_gateway_wallet = a ! 2,
     df_owner_token_account = a ! 3, df_custody_token_account = a ! 4, df_deposit = a ! 5,
     df_sender_denylist = a ! 6, df_depositor_denylist = a ! 7, df_token_program = a ! 8,
     df_system_program = a ! 9 \<rparr>"

definition deposit_for_keys :: "DepositForContext \<Rightarrow> pubkey list" where
  "deposit_for_keys c = [df_payer c, df_owner c, df_gateway_wallet c, df_owner_token_account c, df_custody_token_account c,
     df_deposit c, df_sender_denylist c, df_depositor_denylist c, df_token_program c,
     df_system_program c]"

definition gateway_burn_struct :: "pubkey list \<Rightarrow> GatewayBurnContext" where
  "gateway_burn_struct a = \<lparr> gb_payer = a ! 0, gb_gateway_wallet = a ! 1, gb_token_mint = a ! 2,
     gb_custody_token_account = a ! 3, gb_fee_recipient_token_account = a ! 4, gb_deposit = a ! 5,
     gb_delegate_account = a ! 6, gb_instructions_sysvar = a ! 7, gb_system_program = a ! 8,
     gb_token_program = a ! 9, gb_associated_token_program = a ! 10,
     gb_remaining_accounts = drop 13 a \<rparr>"

definition gateway_burn_keys :: "GatewayBurnContext \<Rightarrow> pubkey list" where
  "gateway_burn_keys c = [gb_payer c, gb_gateway_wallet c, gb_token_mint c, gb_custody_token_account c,
     gb_fee_recipient_token_account c, gb_deposit c, gb_delegate_account c,
     gb_instructions_sysvar c, gb_system_program c, gb_token_program c,
     gb_associated_token_program c]"

definition withdraw_struct :: "pubkey list \<Rightarrow> WithdrawContext" where
  "withdraw_struct a = \<lparr> wd_depositor = a ! 0, wd_gateway_wallet = a ! 1, wd_custody_token_account = a ! 2,
     wd_depositor_token_account = a ! 3, wd_deposit = a ! 4, wd_token_program = a ! 5 \<rparr>"

definition withdraw_keys :: "WithdrawContext \<Rightarrow> pubkey list" where
  "withdraw_keys c = [wd_depositor c, wd_gateway_wallet c, wd_custody_token_account c, wd_depositor_token_account c,
     wd_deposit c, wd_token_program c]"

definition initiate_withdrawal_struct :: "pubkey list \<Rightarrow> InitiateWithdrawalContext" where
  "initiate_withdrawal_struct a = \<lparr> iw_depositor = a ! 0, iw_gateway_wallet = a ! 1, iw_deposit = a ! 2 \<rparr>"

definition initiate_withdrawal_keys :: "InitiateWithdrawalContext \<Rightarrow> pubkey list" where
  "initiate_withdrawal_keys c = [iw_depositor c, iw_gateway_wallet c, iw_deposit c]"

definition initialize_struct :: "pubkey list \<Rightarrow> InitializeContext" where
  "initialize_struct a = \<lparr> in_payer = a ! 0, in_upgrade_authority = a ! 1, in_gateway_wallet = a ! 2,
     in_program_data = a ! 3, in_program = a ! 4, in_system_program = a ! 5 \<rparr>"

definition initialize_keys :: "InitializeContext \<Rightarrow> pubkey list" where
  "initialize_keys c = [in_payer c, in_upgrade_authority c, in_gateway_wallet c, in_program_data c, in_program c,
     in_system_program c]"

definition role_struct :: "pubkey list \<Rightarrow> RoleContext" where
  "role_struct a = \<lparr> rc_signer = a ! 0, rc_gateway_wallet = a ! 1 \<rparr>"

definition role_keys :: "RoleContext \<Rightarrow> pubkey list" where
  "role_keys c = [rc_signer c, rc_gateway_wallet c]"

definition add_token_struct :: "pubkey list \<Rightarrow> AddTokenContext" where
  "add_token_struct a = \<lparr> at_payer = a ! 0, at_token_controller = a ! 1, at_gateway_wallet = a ! 2,
     at_token_mint = a ! 3, at_custody_token_account = a ! 4, at_token_program = a ! 5,
     at_system_program = a ! 6 \<rparr>"

definition add_token_keys :: "AddTokenContext \<Rightarrow> pubkey list" where
  "add_token_keys c = [at_payer c, at_token_controller c, at_gateway_wallet c, at_token_mint c,
     at_custody_token_account c, at_token_program c, at_system_program c]"

definition add_delegate_struct :: "pubkey list \<Rightarrow> AddDelegateContext" where
  "add_delegate_struct a = \<lparr> ad_payer = a ! 0, ad_depositor = a ! 1, ad_gateway_wallet = a ! 2, ad_token_mint = a ! 3,
     ad_delegate_account = a ! 4, ad_depositor_denylist = a ! 5, ad_delegate_denylist = a ! 6,
     ad_system_program = a ! 7 \<rparr>"

definition add_delegate_keys :: "AddDelegateContext \<Rightarrow> pubkey list" where
  "add_delegate_keys c = [ad_payer c, ad_depositor c, ad_gateway_wallet c, ad_token_mint c, ad_delegate_account c,
     ad_depositor_denylist c, ad_delegate_denylist c, ad_system_program c]"

definition remove_delegate_struct :: "pubkey list \<Rightarrow> RemoveDelegateContext" where
  "remove_delegate_struct a = \<lparr> rd_depositor = a ! 0, rd_gateway_wallet = a ! 1, rd_token_mint = a ! 2,
     rd_delegate_account = a ! 3, rd_depositor_denylist = a ! 4 \<rparr>"

definition remove_delegate_keys :: "RemoveDelegateContext \<Rightarrow> pubkey list" where
  "remove_delegate_keys c = [rd_depositor c, rd_gateway_wallet c, rd_token_mint c, rd_delegate_account c,
     rd_depositor_denylist c]"

definition denylist_struct :: "pubkey list \<Rightarrow> DenylistContext" where
  "denylist_struct a = \<lparr> dl_payer = a ! 0, dl_denylister = a ! 1, dl_gateway_wallet = a ! 2, dl_denylist = a ! 3,
     dl_system_program = a ! 4 \<rparr>"

definition denylist_keys :: "DenylistContext \<Rightarrow> pubkey list" where
  "denylist_keys c = [dl_payer c, dl_denylister c, dl_gateway_wallet c, dl_denylist c, dl_system_program c]"

definition undenylist_struct :: "pubkey list \<Rightarrow> UndenylistContext" where
  "undenylist_struct a = \<lparr> ud_payer = a ! 0, ud_denylister = a ! 1, ud_gateway_wallet = a ! 2,
     ud_denylist = a ! 3 \<rparr>"

definition undenylist_keys :: "UndenylistContext \<Rightarrow> pubkey list" where
  "undenylist_keys c = [ud_payer c, ud_denylister c, ud_gateway_wallet c, ud_denylist c]"

lemmas wallet_struct_defs =
  deposit_struct_def deposit_keys_def deposit_for_struct_def deposit_for_keys_def gateway_burn_struct_def
  gateway_burn_keys_def withdraw_struct_def withdraw_keys_def initiate_withdrawal_struct_def
  initiate_withdrawal_keys_def initialize_struct_def initialize_keys_def role_struct_def role_keys_def
  add_token_struct_def add_token_keys_def add_delegate_struct_def add_delegate_keys_def
  remove_delegate_struct_def remove_delegate_keys_def denylist_struct_def denylist_keys_def
  undenylist_struct_def undenylist_keys_def

section \<open>The handlers of lib.rs\<close>

definition wallet_handlers :: "(GatewayWalletError, WalletInstruction) handlers" where
  "wallet_handlers = [
   ([22, 0], \<lambda>data accounts. with_args borsh_u64 data (\<lambda>amount.
     with_struct 9 accounts (\<lambda>a. IxDeposit (deposit_struct a) amount))),
   ([22, 1], \<lambda>data accounts. with_args (read_pair borsh_u64 borsh_pubkey) data (\<lambda>(amount, depositor).
     with_struct 10 accounts (\<lambda>a. IxDepositFor (deposit_for_struct a) amount depositor))),
   ([22, 2], \<lambda>data accounts. with_args read_GatewayBurnParams data (\<lambda>params.
     with_struct 11 accounts (\<lambda>a. IxGatewayBurn (gateway_burn_struct a) params))),
   ([22, 3], \<lambda>data accounts.
     with_struct 6 accounts (\<lambda>a. IxWithdraw (withdraw_struct a))),
   ([22, 4], \<lambda>data accounts. with_args borsh_u64 data (\<lambda>amount.
     with_struct 3 accounts (\<lambda>a. IxInitiateWithdrawal (initiate_withdrawal_struct a) amount))),
   ([22, 5], \<lambda>data accounts. with_args read_InitializeParams data (\<lambda>params.
     with_struct 6 accounts (\<lambda>a. IxInitialize (initialize_struct a) params))),
   ([22, 6], \<lambda>data accounts. with_args borsh_pubkey data (\<lambda>new_owner.
     with_struct 2 accounts (\<lambda>a. IxTransferOwnership (role_struct a) new_owner))),
   ([22, 7], \<lambda>data accounts.
     with_struct 2 accounts (\<lambda>a. IxAcceptOwnership (role_struct a))),
   ([22, 8], \<lambda>data accounts. with_args borsh_pubkey data (\<lambda>new_pauser.
     with_struct 2 accounts (\<lambda>a. IxUpdatePauser (role_struct a) new_pauser))),
   ([22, 9], \<lambda>data accounts. with_args borsh_pubkey data (\<lambda>new_denylister.
     with_struct 2 accounts (\<lambda>a. IxUpdateDenylister (role_struct a) new_denylister))),
   ([22, 10], \<lambda>data accounts. with_args borsh_pubkey data (\<lambda>new_controller.
     with_struct 2 accounts (\<lambda>a. IxUpdateTokenController (role_struct a) new_controller))),
   ([22, 11], \<lambda>data accounts. with_args borsh_u64 data (\<lambda>new_delay.
     with_struct 2 accounts (\<lambda>a. IxUpdateWithdrawalDelay (role_struct a) new_delay))),
   ([22, 12], \<lambda>data accounts.
     with_struct 7 accounts (\<lambda>a. IxAddToken (add_token_struct a))),
   ([22, 13], \<lambda>data accounts. with_args borsh_pubkey data (\<lambda>signer.
     with_struct 2 accounts (\<lambda>a. IxAddBurnSigner (role_struct a) signer))),
   ([22, 14], \<lambda>data accounts. with_args borsh_pubkey data (\<lambda>signer.
     with_struct 2 accounts (\<lambda>a. IxRemoveBurnSigner (role_struct a) signer))),
   ([22, 15], \<lambda>data accounts. with_args borsh_pubkey data (\<lambda>delegate.
     with_struct 8 accounts (\<lambda>a. IxAddDelegate (add_delegate_struct a) delegate))),
   ([22, 16], \<lambda>data accounts. with_args borsh_pubkey data (\<lambda>delegate.
     with_struct 5 accounts (\<lambda>a. IxRemoveDelegate (remove_delegate_struct a) delegate))),
   ([22, 17], \<lambda>data accounts. with_args borsh_pubkey data (\<lambda>account.
     with_struct 5 accounts (\<lambda>a. IxDenylist (denylist_struct a) account))),
   ([22, 18], \<lambda>data accounts. with_args borsh_pubkey data (\<lambda>account.
     with_struct 4 accounts (\<lambda>a. IxUndenylist (undenylist_struct a) account))),
   ([22, 19], \<lambda>data accounts.
     with_struct 2 accounts (\<lambda>a. IxPause (role_struct a))),
   ([22, 20], \<lambda>data accounts.
     with_struct 2 accounts (\<lambda>a. IxUnpause (role_struct a))),
   ([22, 21], \<lambda>data accounts. with_args borsh_pubkey data (\<lambda>new_recipient.
     with_struct 2 accounts (\<lambda>a. IxUpdateFeeRecipient (role_struct a) new_recipient)))]"

definition wallet_entry ::
    "platform \<Rightarrow> transaction \<Rightarrow> pubkey list \<Rightarrow> bytes \<Rightarrow> ledger \<Rightarrow> wallet_outcome" where
  "wallet_entry pf = program_entry pf WALLET_PROGRAM_ID wallet_handlers (wallet_dispatch pf)"

section \<open>Requests\<close>

text \<open>The instruction data and the accounts of an instruction, as a client sends them.\<close>

fun wallet_data :: "WalletInstruction \<Rightarrow> bytes" where
  "wallet_data (IxDeposit c amount) = [22, 0] @ u64_to_le amount"
| "wallet_data (IxDepositFor c amount depositor) = [22, 1] @ u64_to_le amount @ depositor"
| "wallet_data (IxGatewayBurn c params) = [22, 2] @ write_GatewayBurnParams params"
| "wallet_data (IxWithdraw c) = [22, 3]"
| "wallet_data (IxInitiateWithdrawal c amount) = [22, 4] @ u64_to_le amount"
| "wallet_data (IxInitialize c params) = [22, 5] @ write_InitializeParams params"
| "wallet_data (IxTransferOwnership c new_owner) = [22, 6] @ new_owner"
| "wallet_data (IxAcceptOwnership c) = [22, 7]"
| "wallet_data (IxUpdatePauser c new_pauser) = [22, 8] @ new_pauser"
| "wallet_data (IxUpdateDenylister c new_denylister) = [22, 9] @ new_denylister"
| "wallet_data (IxUpdateTokenController c new_controller) = [22, 10] @ new_controller"
| "wallet_data (IxUpdateWithdrawalDelay c new_delay) = [22, 11] @ u64_to_le new_delay"
| "wallet_data (IxAddToken c) = [22, 12]"
| "wallet_data (IxAddBurnSigner c signer) = [22, 13] @ signer"
| "wallet_data (IxRemoveBurnSigner c signer) = [22, 14] @ signer"
| "wallet_data (IxAddDelegate c delegate) = [22, 15] @ delegate"
| "wallet_data (IxRemoveDelegate c delegate) = [22, 16] @ delegate"
| "wallet_data (IxDenylist c account) = [22, 17] @ account"
| "wallet_data (IxUndenylist c account) = [22, 18] @ account"
| "wallet_data (IxPause c) = [22, 19]"
| "wallet_data (IxUnpause c) = [22, 20]"
| "wallet_data (IxUpdateFeeRecipient c new_recipient) = [22, 21] @ new_recipient"

fun wallet_keys :: "pubkey list \<Rightarrow> WalletInstruction \<Rightarrow> pubkey list" where
  "wallet_keys cpi (IxDeposit c amount) = deposit_keys c @ cpi"
| "wallet_keys cpi (IxDepositFor c amount depositor) = deposit_for_keys c @ cpi"
| "wallet_keys cpi (IxGatewayBurn c params) = gateway_burn_keys c @ cpi @ gb_remaining_accounts c"
| "wallet_keys cpi (IxWithdraw c) = withdraw_keys c @ cpi"
| "wallet_keys cpi (IxInitiateWithdrawal c amount) = initiate_withdrawal_keys c @ cpi"
| "wallet_keys cpi (IxInitialize c params) = initialize_keys c @ cpi"
| "wallet_keys cpi (IxTransferOwnership c new_owner) = role_keys c @ cpi"
| "wallet_keys cpi (IxAcceptOwnership c) = role_keys c @ cpi"
| "wallet_keys cpi (IxUpdatePauser c new_pauser) = role_keys c @ cpi"
| "wallet_keys cpi (IxUpdateDenylister c new_denylister) = role_keys c @ cpi"
| "wallet_keys cpi (IxUpdateTokenController c new_controller) = role_keys c @ cpi"
| "wallet_keys cpi (IxUpdateWithdrawalDelay c new_delay) = role_keys c @ cpi"
| "wallet_keys cpi (IxAddToken c) = add_token_keys c @ cpi"
| "wallet_keys cpi (IxAddBurnSigner c signer) = role_keys c @ cpi"
| "wallet_keys cpi (IxRemoveBurnSigner c signer) = role_keys c @ cpi"
| "wallet_keys cpi (IxAddDelegate c delegate) = add_delegate_keys c @ cpi"
| "wallet_keys cpi (IxRemoveDelegate c delegate) = remove_delegate_keys c @ cpi"
| "wallet_keys cpi (IxDenylist c account) = denylist_keys c @ cpi"
| "wallet_keys cpi (IxUndenylist c account) = undenylist_keys c @ cpi"
| "wallet_keys cpi (IxPause c) = role_keys c @ cpi"
| "wallet_keys cpi (IxUnpause c) = role_keys c @ cpi"
| "wallet_keys cpi (IxUpdateFeeRecipient c new_recipient) = role_keys c @ cpi"

text \<open>Keys have 32 bytes, and the length of a vector is a \<open>u32\<close>.\<close>

fun wallet_args_ok :: "WalletInstruction \<Rightarrow> bool" where
  "wallet_args_ok (IxDepositFor c amount depositor) \<longleftrightarrow> length depositor = 32"
| "wallet_args_ok (IxGatewayBurn c params) \<longleftrightarrow> burn_params_typed params"
| "wallet_args_ok (IxTransferOwnership c new_owner) \<longleftrightarrow> length new_owner = 32"
| "wallet_args_ok (IxUpdatePauser c new_pauser) \<longleftrightarrow> length new_pauser = 32"
| "wallet_args_ok (IxUpdateDenylister c new_denylister) \<longleftrightarrow> length new_denylister = 32"
| "wallet_args_ok (IxUpdateTokenController c new_controller) \<longleftrightarrow> length new_controller = 32"
| "wallet_args_ok (IxAddBurnSigner c signer) \<longleftrightarrow> length signer = 32"
| "wallet_args_ok (IxRemoveBurnSigner c signer) \<longleftrightarrow> length signer = 32"
| "wallet_args_ok (IxAddDelegate c delegate) \<longleftrightarrow> length delegate = 32"
| "wallet_args_ok (IxRemoveDelegate c delegate) \<longleftrightarrow> length delegate = 32"
| "wallet_args_ok (IxDenylist c account) \<longleftrightarrow> length account = 32"
| "wallet_args_ok (IxUndenylist c account) \<longleftrightarrow> length account = 32"
| "wallet_args_ok (IxUpdateFeeRecipient c new_recipient) \<longleftrightarrow> length new_recipient = 32"
| "wallet_args_ok _ \<longleftrightarrow> True"

definition wallet_request :: "pubkey list \<Rightarrow> bytes \<Rightarrow> (WalletInstruction \<times> pubkey) wallet_result" where
  "wallet_request = request wallet_handlers"

text \<open>A struct holds the accounts it was filled from.\<close>

lemma wallet_struct_keys:
  "deposit_keys (deposit_struct a) = map ((!) a) [0..<9]"
  "deposit_for_keys (deposit_for_struct a) = map ((!) a) [0..<10]"
  "gateway_burn_keys (gateway_burn_struct a) = map ((!) a) [0..<11]"
  "withdraw_keys (withdraw_struct a) = map ((!) a) [0..<6]"
  "initiate_withdrawal_keys (initiate_withdrawal_struct a) = map ((!) a) [0..<3]"
  "initialize_keys (initialize_struct a) = map ((!) a) [0..<6]"
  "role_keys (role_struct a) = map ((!) a) [0..<2]"
  "add_token_keys (add_token_struct a) = map ((!) a) [0..<7]"
  "add_delegate_keys (add_delegate_struct a) = map ((!) a) [0..<8]"
  "remove_delegate_keys (remove_delegate_struct a) = map ((!) a) [0..<5]"
  "denylist_keys (denylist_struct a) = map ((!) a) [0..<5]"
  "undenylist_keys (undenylist_struct a) = map ((!) a) [0..<4]"
  by (simp_all add: wallet_struct_defs upt_rec eval_nat_numeral)

lemma burn_struct_remaining: "gb_remaining_accounts (gateway_burn_struct a) = drop 13 a"
  by (simp add: gateway_burn_struct_def)

lemma wallet_request_canonical:
  assumes "wallet_request accounts data = Inr (ix, ea)"
  shows "wallet_args_ok ix \<and> (\<exists>rest. data = wallet_data ix @ rest) \<and>
    (\<exists>program more. accounts = wallet_keys [ea, program] ix @ more)"
proof -
  from assms obtain h args where h: "find_handler wallet_handlers data = Some (h, args)" "h args accounts = Inr (ix, ea)"
    by (auto simp: wallet_request_def request_def split: option.splits)
  from find_handler_Some [OF h(1)] obtain disc where d: "(disc, h) \<in> set wallet_handlers" "data = disc @ args" by blast
  from d(1) h(2) show ?thesis
    unfolding d(2) wallet_handlers_def
    by (auto simp: with_args_Inr wallet_args_read wallet_struct_keys burn_struct_remaining write_GatewayBurnParams_def dest!: with_struct_Inr; (blast | metis append_Nil2))
qed

lemma wallet_struct_of_keys:
  "deposit_struct (deposit_keys c1 @ xs) = c1" "deposit_for_struct (deposit_for_keys c2 @ xs) = c2"
  "gb_remaining_accounts c3 = drop 2 xs \<Longrightarrow> gateway_burn_struct (gateway_burn_keys c3 @ xs) = c3"
  "withdraw_struct (withdraw_keys c4 @ xs) = c4" "initiate_withdrawal_struct (initiate_withdrawal_keys c5 @ xs) = c5"
  "initialize_struct (initialize_keys c6 @ xs) = c6" "role_struct (role_keys c7 @ xs) = c7"
  "add_token_struct (add_token_keys c8 @ xs) = c8" "add_delegate_struct (add_delegate_keys c9 @ xs) = c9"
  "remove_delegate_struct (remove_delegate_keys c10 @ xs) = c10" "denylist_struct (denylist_keys c11 @ xs) = c11"
  "undenylist_struct (undenylist_keys c12 @ xs) = c12"
  by (simp_all add: wallet_struct_defs)

lemma wallet_keys_length:
  "length (deposit_keys c1) = 9" "length (deposit_for_keys c2) = 10" "length (gateway_burn_keys c3) = 11"
  "length (withdraw_keys c4) = 6" "length (initiate_withdrawal_keys c5) = 3" "length (initialize_keys c6) = 6"
  "length (role_keys c7) = 2" "length (add_token_keys c8) = 7" "length (add_delegate_keys c9) = 8"
  "length (remove_delegate_keys c10) = 5" "length (denylist_keys c11) = 5" "length (undenylist_keys c12) = 4"
  by (simp_all add: wallet_struct_defs)

lemma wallet_request_encoded:
  assumes "wallet_args_ok ix"
  shows "wallet_request (wallet_keys [ea, program] ix) (wallet_data ix @ rest) = Inr (ix, ea)"
  using assms
  by (cases ix)
    (simp_all add: wallet_request_def request_def wallet_handlers_def starts_with_def with_args_def with_struct_def with_accounts_def
      wallet_struct_of_keys wallet_keys_length nth_append u64.read_write pubkey.read_write burn_params.read_write
      initialize_params.read_write amount_and_key.read_write [where x = "(a, b)" for a b, simplified])

end
