(* ===== verification/MinterEntry.thy ===== *)
theory MinterEntry
  imports Entry MinterMachine
begin

text \<open>
  The entrypoint of GatewayMinter, as WalletEntry for GatewayWallet: structs, discriminators, arguments, and
  the encoding of a request.
\<close>

section \<open>Arguments\<close>

definition read_GatewayMintParams :: "GatewayMintParams reader" where
  "read_GatewayMintParams = then_read borsh_bytes (\<lambda>attestation. then_read borsh_bytes (\<lambda>signature.
     done_read \<lparr> gp_attestation = attestation, gp_signature = signature \<rparr>))"

definition write_GatewayMintParams :: "GatewayMintParams \<Rightarrow> bytes" where
  "write_GatewayMintParams p = write_bytes (gp_attestation p) @ write_bytes (gp_signature p)"

definition mint_params_typed :: "GatewayMintParams \<Rightarrow> bool" where
  "mint_params_typed p \<longleftrightarrow> length (gp_attestation p) < 2 ^ 32 \<and> length (gp_signature p) < 2 ^ 32"

interpretation mint_params: codec mint_params_typed write_GatewayMintParams read_GatewayMintParams
proof unfold_locales
  fix bs p r
  show "read_GatewayMintParams bs = Some (p, r) \<longleftrightarrow> mint_params_typed p \<and> bs = write_GatewayMintParams p @ r"
    by (cases p) (auto simp: read_GatewayMintParams_def write_GatewayMintParams_def mint_params_typed_def borsh_simps borsh_read)
qed

definition read_MintAttestationParams :: "MintAttestationParams reader" where
  "read_MintAttestationParams = then_read borsh_u64 (\<lambda>amount. then_read (read_exact 32) (\<lambda>spec_hash.
     then_read borsh_bytes (\<lambda>hook.
     done_read \<lparr> mp_value = amount, mp_transfer_spec_hash = spec_hash, mp_hook_data = hook \<rparr>)))"

definition write_MintAttestationParams :: "MintAttestationParams \<Rightarrow> bytes" where
  "write_MintAttestationParams p = u64_to_le (mp_value p) @ mp_transfer_spec_hash p @ write_bytes (mp_hook_data p)"

definition element_params_typed :: "MintAttestationParams \<Rightarrow> bool" where
  "element_params_typed p \<longleftrightarrow> length (mp_transfer_spec_hash p) = 32 \<and> length (mp_hook_data p) < 2 ^ 32"

interpretation element_params: codec element_params_typed write_MintAttestationParams read_MintAttestationParams
proof unfold_locales
  fix bs p r
  show "read_MintAttestationParams bs = Some (p, r) \<longleftrightarrow> element_params_typed p \<and> bs = write_MintAttestationParams p @ r"
    by (cases p) (auto simp: read_MintAttestationParams_def write_MintAttestationParams_def element_params_typed_def
        borsh_simps borsh_read)
qed

interpretation element_params_vec: codec "\<lambda>xs. length xs < 2 ^ 32 \<and> (\<forall>p \<in> set xs. element_params_typed p)"
  "write_vec write_MintAttestationParams" "borsh_vec read_MintAttestationParams"
  by (rule codec_vec) unfold_locales

definition read_GatewayMintReconstructParams :: "GatewayMintReconstructParams reader" where
  "read_GatewayMintReconstructParams = then_read borsh_bool (\<lambda>is_default. then_read borsh_u64 (\<lambda>height.
     then_read (borsh_vec read_MintAttestationParams) (\<lambda>elements. then_read borsh_bytes (\<lambda>signature.
     done_read \<lparr> rp_is_default_destination_caller = is_default, rp_max_block_height = height, rp_elements = elements,
       rp_signature = signature \<rparr>))))"

definition write_GatewayMintReconstructParams :: "GatewayMintReconstructParams \<Rightarrow> bytes" where
  "write_GatewayMintReconstructParams p = [bool_byte (rp_is_default_destination_caller p)] @
     u64_to_le (rp_max_block_height p) @ write_vec write_MintAttestationParams (rp_elements p) @
     write_bytes (rp_signature p)"

definition reconstruct_params_typed :: "GatewayMintReconstructParams \<Rightarrow> bool" where
  "reconstruct_params_typed p \<longleftrightarrow> length (rp_elements p) < 2 ^ 32 \<and> (\<forall>e \<in> set (rp_elements p). element_params_typed e) \<and>
     length (rp_signature p) < 2 ^ 32"

interpretation reconstruct_params: codec reconstruct_params_typed write_GatewayMintReconstructParams
  read_GatewayMintReconstructParams
proof unfold_locales
  fix bs p r
  show "read_GatewayMintReconstructParams bs = Some (p, r) \<longleftrightarrow>
      reconstruct_params_typed p \<and> bs = write_GatewayMintReconstructParams p @ r"
    by (cases p) (auto simp: read_GatewayMintReconstructParams_def write_GatewayMintReconstructParams_def
        reconstruct_params_typed_def borsh_simps borsh_read element_params_vec.read_Some)
qed

lemmas minter_args_read = u64.read_Some u32.read_Some pubkey.read_Some mint_params.read_Some reconstruct_params.read_Some

section \<open>Account structs\<close>

definition gateway_mint_struct :: "pubkey list \<Rightarrow> GatewayMintContext" where
  "gateway_mint_struct a = \<lparr> gc_payer = a ! 0, gc_destination_caller = a ! 1, gc_gateway_minter = a ! 2,
     gc_system_program = a ! 3, gc_token_program = a ! 4, gc_remaining_accounts = drop 7 a \<rparr>"

definition gateway_mint_keys :: "GatewayMintContext \<Rightarrow> pubkey list" where
  "gateway_mint_keys c = [gc_payer c, gc_destination_caller c, gc_gateway_minter c, gc_system_program c, gc_token_program c]"

definition minter_initialize_struct :: "pubkey list \<Rightarrow> MinterInitializeContext" where
  "minter_initialize_struct a = \<lparr> mn_payer = a ! 0, mn_upgrade_authority = a ! 1, mn_gateway_minter = a ! 2,
     mn_program_data = a ! 3, mn_program = a ! 4, mn_system_program = a ! 5 \<rparr>"

definition minter_initialize_keys :: "MinterInitializeContext \<Rightarrow> pubkey list" where
  "minter_initialize_keys c = [mn_payer c, mn_upgrade_authority c, mn_gateway_minter c, mn_program_data c, mn_program c,
     mn_system_program c]"

definition minter_role_struct :: "pubkey list \<Rightarrow> MinterRoleContext" where
  "minter_role_struct a = \<lparr> mr_signer = a ! 0, mr_gateway_minter = a ! 1 \<rparr>"

definition minter_role_keys :: "MinterRoleContext \<Rightarrow> pubkey list" where
  "minter_role_keys c = [mr_signer c, mr_gateway_minter c]"

definition minter_add_token_struct :: "pubkey list \<Rightarrow> MinterAddTokenContext" where
  "minter_add_token_struct a = \<lparr> ma_payer = a ! 0, ma_token_controller = a ! 1, ma_gateway_minter = a ! 2,
     ma_token_mint = a ! 3, ma_custody_token_account = a ! 4, ma_token_program = a ! 5,
     ma_system_program = a ! 6 \<rparr>"

definition minter_add_token_keys :: "MinterAddTokenContext \<Rightarrow> pubkey list" where
  "minter_add_token_keys c = [ma_payer c, ma_token_controller c, ma_gateway_minter c, ma_token_mint c,
     ma_custody_token_account c, ma_token_program c, ma_system_program c]"

definition burn_custody_struct :: "pubkey list \<Rightarrow> BurnTokenCustodyContext" where
  "burn_custody_struct a = \<lparr> bc_token_controller = a ! 0, bc_gateway_minter = a ! 1, bc_token_mint = a ! 2,
     bc_custody_token_account = a ! 3, bc_token_program = a ! 4 \<rparr>"

definition burn_custody_keys :: "BurnTokenCustodyContext \<Rightarrow> pubkey list" where
  "burn_custody_keys c = [bc_token_controller c, bc_gateway_minter c, bc_token_mint c, bc_custody_token_account c,
     bc_token_program c]"

lemmas minter_struct_defs =
  gateway_mint_struct_def gateway_mint_keys_def minter_initialize_struct_def minter_initialize_keys_def
  minter_role_struct_def minter_role_keys_def minter_add_token_struct_def minter_add_token_keys_def
  burn_custody_struct_def burn_custody_keys_def

section \<open>The handlers of lib.rs\<close>

definition minter_handlers :: "(GatewayMinterError, MinterInstruction) handlers" where
  "minter_handlers = [
   ([12, 0], \<lambda>data accounts. with_args read_GatewayMintParams data (\<lambda>params.
     with_struct 5 accounts (\<lambda>a. IxGatewayMint (gateway_mint_struct a) params))),
   ([12, 1], \<lambda>data accounts. with_args read_GatewayMintReconstructParams data (\<lambda>params.
     with_struct 5 accounts (\<lambda>a. IxGatewayMintWithParams (gateway_mint_struct a) params))),
   ([12, 2], \<lambda>data accounts. with_args borsh_u32 data (\<lambda>local_domain.
     with_struct 6 accounts (\<lambda>a. IxMinterInitialize (minter_initialize_struct a) local_domain))),
   ([12, 3], \<lambda>data accounts. with_args borsh_pubkey data (\<lambda>new_owner.
     with_struct 2 accounts (\<lambda>a. IxMinterTransferOwnership (minter_role_struct a) new_owner))),
   ([12, 4], \<lambda>data accounts.
     with_struct 2 accounts (\<lambda>a. IxMinterAcceptOwnership (minter_role_struct a))),
   ([12, 5], \<lambda>data accounts. with_args borsh_pubkey data (\<lambda>new_pauser.
     with_struct 2 accounts (\<lambda>a. IxMinterUpdatePauser (minter_role_struct a) new_pauser))),
   ([12, 6], \<lambda>data accounts. with_args borsh_pubkey data (\<lambda>new_controller.
     with_struct 2 accounts (\<lambda>a. IxMinterUpdateTokenController (minter_role_struct a) new_controller))),
   ([12, 7], \<lambda>data accounts. with_args borsh_pubkey data (\<lambda>attester.
     with_struct 2 accounts (\<lambda>a. IxAddAttester (minter_role_struct a) attester))),
   ([12, 8], \<lambda>data accounts. with_args borsh_pubkey data (\<lambda>attester.
     with_struct 2 accounts (\<lambda>a. IxRemoveAttester (minter_role_struct a) attester))),
   ([12, 9], \<lambda>data accounts.
     with_struct 7 accounts (\<lambda>a. IxMinterAddToken (minter_add_token_struct a))),
   ([12, 10], \<lambda>data accounts. with_args borsh_u64 data (\<lambda>amount.
     with_struct 5 accounts (\<lambda>a. IxBurnTokenCustody (burn_custody_struct a) amount))),
   ([12, 11], \<lambda>data accounts.
     with_struct 2 accounts (\<lambda>a. IxMinterPause (minter_role_struct a))),
   ([12, 12], \<lambda>data accounts.
     with_struct 2 accounts (\<lambda>a. IxMinterUnpause (minter_role_struct a)))]"

definition minter_entry ::
    "platform \<Rightarrow> transaction \<Rightarrow> pubkey list \<Rightarrow> bytes \<Rightarrow> ledger \<Rightarrow> minter_outcome" where
  "minter_entry pf = program_entry pf MINTER_PROGRAM_ID minter_handlers (minter_dispatch pf)"

section \<open>Requests\<close>

fun minter_data :: "MinterInstruction \<Rightarrow> bytes" where
  "minter_data (IxGatewayMint c params) = [12, 0] @ write_GatewayMintParams params"
| "minter_data (IxGatewayMintWithParams c params) = [12, 1] @ write_GatewayMintReconstructParams params"
| "minter_data (IxMinterInitialize c local_domain) = [12, 2] @ u32_to_le local_domain"
| "minter_data (IxMinterTransferOwnership c new_owner) = [12, 3] @ new_owner"
| "minter_data (IxMinterAcceptOwnership c) = [12, 4]"
| "minter_data (IxMinterUpdatePauser c new_pauser) = [12, 5] @ new_pauser"
| "minter_data (IxMinterUpdateTokenController c new_controller) = [12, 6] @ new_controller"
| "minter_data (IxAddAttester c attester) = [12, 7] @ attester"
| "minter_data (IxRemoveAttester c attester) = [12, 8] @ attester"
| "minter_data (IxMinterAddToken c) = [12, 9]"
| "minter_data (IxBurnTokenCustody c amount) = [12, 10] @ u64_to_le amount"
| "minter_data (IxMinterPause c) = [12, 11]"
| "minter_data (IxMinterUnpause c) = [12, 12]"

fun minter_keys :: "pubkey list \<Rightarrow> MinterInstruction \<Rightarrow> pubkey list" where
  "minter_keys cpi (IxGatewayMint c params) = gateway_mint_keys c @ cpi @ gc_remaining_accounts c"
| "minter_keys cpi (IxGatewayMintWithParams c params) = gateway_mint_keys c @ cpi @ gc_remaining_accounts c"
| "minter_keys cpi (IxMinterInitialize c local_domain) = minter_initialize_keys c @ cpi"
| "minter_keys cpi (IxMinterTransferOwnership c new_owner) = minter_role_keys c @ cpi"
| "minter_keys cpi (IxMinterAcceptOwnership c) = minter_role_keys c @ cpi"
| "minter_keys cpi (IxMinterUpdatePauser c new_pauser) = minter_role_keys c @ cpi"
| "minter_keys cpi (IxMinterUpdateTokenController c new_controller) = minter_role_keys c @ cpi"
| "minter_keys cpi (IxAddAttester c attester) = minter_role_keys c @ cpi"
| "minter_keys cpi (IxRemoveAttester c attester) = minter_role_keys c @ cpi"
| "minter_keys cpi (IxMinterAddToken c) = minter_add_token_keys c @ cpi"
| "minter_keys cpi (IxBurnTokenCustody c amount) = burn_custody_keys c @ cpi"
| "minter_keys cpi (IxMinterPause c) = minter_role_keys c @ cpi"
| "minter_keys cpi (IxMinterUnpause c) = minter_role_keys c @ cpi"

fun minter_args_ok :: "MinterInstruction \<Rightarrow> bool" where
  "minter_args_ok (IxGatewayMint c params) \<longleftrightarrow> mint_params_typed params"
| "minter_args_ok (IxGatewayMintWithParams c params) \<longleftrightarrow> reconstruct_params_typed params"
| "minter_args_ok (IxMinterTransferOwnership c new_owner) \<longleftrightarrow> length new_owner = 32"
| "minter_args_ok (IxMinterUpdatePauser c new_pauser) \<longleftrightarrow> length new_pauser = 32"
| "minter_args_ok (IxMinterUpdateTokenController c new_controller) \<longleftrightarrow> length new_controller = 32"
| "minter_args_ok (IxAddAttester c attester) \<longleftrightarrow> length attester = 32"
| "minter_args_ok (IxRemoveAttester c attester) \<longleftrightarrow> length attester = 32"
| "minter_args_ok _ \<longleftrightarrow> True"

definition minter_request :: "pubkey list \<Rightarrow> bytes \<Rightarrow> (MinterInstruction \<times> pubkey) minter_result" where
  "minter_request = request minter_handlers"

lemma minter_struct_keys:
  "gateway_mint_keys (gateway_mint_struct a) = map ((!) a) [0..<5]"
  "minter_initialize_keys (minter_initialize_struct a) = map ((!) a) [0..<6]"
  "minter_role_keys (minter_role_struct a) = map ((!) a) [0..<2]"
  "minter_add_token_keys (minter_add_token_struct a) = map ((!) a) [0..<7]"
  "burn_custody_keys (burn_custody_struct a) = map ((!) a) [0..<5]"
  by (simp_all add: minter_struct_defs upt_rec eval_nat_numeral)

lemma mint_struct_remaining: "gc_remaining_accounts (gateway_mint_struct a) = drop 7 a"
  by (simp add: gateway_mint_struct_def)

lemma minter_request_canonical:
  assumes "minter_request accounts data = Inr (ix, ea)"
  shows "minter_args_ok ix \<and> (\<exists>rest. data = minter_data ix @ rest) \<and>
    (\<exists>program more. accounts = minter_keys [ea, program] ix @ more)"
proof -
  from assms obtain h args where h: "find_handler minter_handlers data = Some (h, args)" "h args accounts = Inr (ix, ea)"
    by (auto simp: minter_request_def request_def split: option.splits)
  from find_handler_Some [OF h(1)] obtain disc where d: "(disc, h) \<in> set minter_handlers" "data = disc @ args" by blast
  from d(1) h(2) show ?thesis
    unfolding d(2) minter_handlers_def
    by (auto simp: with_args_Inr minter_args_read minter_struct_keys mint_struct_remaining dest!: with_struct_Inr;
      (blast | metis append_Nil2))
qed

lemma minter_struct_of_keys:
  "gc_remaining_accounts c1 = drop 2 xs \<Longrightarrow> gateway_mint_struct (gateway_mint_keys c1 @ xs) = c1"
  "minter_initialize_struct (minter_initialize_keys c2 @ xs) = c2" "minter_role_struct (minter_role_keys c3 @ xs) = c3"
  "minter_add_token_struct (minter_add_token_keys c4 @ xs) = c4" "burn_custody_struct (burn_custody_keys c5 @ xs) = c5"
  by (simp_all add: minter_struct_defs)

lemma minter_keys_length:
  "length (gateway_mint_keys c1) = 5" "length (minter_initialize_keys c2) = 6" "length (minter_role_keys c3) = 2"
  "length (minter_add_token_keys c4) = 7" "length (burn_custody_keys c5) = 5"
  by (simp_all add: minter_struct_defs)

lemma minter_request_encoded:
  assumes "minter_args_ok ix"
  shows "minter_request (minter_keys [ea, program] ix) (minter_data ix @ rest) = Inr (ix, ea)"
  using assms
  by (cases ix)
    (simp_all add: minter_request_def request_def minter_handlers_def starts_with_def with_args_def with_struct_def with_accounts_def
      minter_struct_of_keys minter_keys_length nth_append u64.read_write u32.read_write pubkey.read_write
      mint_params.read_write reconstruct_params.read_write)

end
