(* ===== verification/Entrypoints.thy ===== *)
theory Entrypoints
  imports ClosedWorld WalletEntry MinterEntry
begin

text \<open>
  The chain at the level of bytes: both programs are called through their entrypoints, with any instruction
  data and any accounts.  What an accepted call does is an instruction of lib.rs, an instruction for the IDL
  accounts, or nothing (an event), so a history of such calls is a history of ClosedWorld.
\<close>

section \<open>Accepted calls\<close>

lemma wallet_entry_Inr:
  assumes "wallet_entry pf tx accounts data l = Inr (l', es)"
  obtains (call) ix ea b where "wallet_request accounts data = Inr (ix, ea)" "wallet_dispatch pf tx ix l = Inr (l', es)"
      "try_bumps pf [EVENT_AUTHORITY_SEED] WALLET_PROGRAM_ID 255 = Some (ea, b)"
    | (idl) idl_data where "idl_dispatch pf WALLET_PROGRAM_ID tx accounts idl_data l = (Inr l' :: (GatewayWalletError, ledger) result)"
      "es = []"
    | (event) "l' = l" "es = []"
  using assms unfolding wallet_entry_def wallet_request_def by (cases rule: program_entry_Inr) auto

lemma minter_entry_Inr:
  assumes "minter_entry pf tx accounts data l = Inr (l', es)"
  obtains (call) ix ea b where "minter_request accounts data = Inr (ix, ea)" "minter_dispatch pf tx ix l = Inr (l', es)"
      "try_bumps pf [EVENT_AUTHORITY_SEED] MINTER_PROGRAM_ID 255 = Some (ea, b)"
    | (idl) idl_data where "idl_dispatch pf MINTER_PROGRAM_ID tx accounts idl_data l = (Inr l' :: (GatewayMinterError, ledger) result)"
      "es = []"
    | (event) "l' = l" "es = []"
  using assms unfolding minter_entry_def minter_request_def by (cases rule: program_entry_Inr) auto

lemma wallet_entry_runs:
  assumes "wallet_args_ok ix" "try_bumps pf [EVENT_AUTHORITY_SEED] WALLET_PROGRAM_ID 255 = Some (ea, b)"
    and "wallet_dispatch pf tx ix l = Inr (l', es)"
  shows "wallet_entry pf tx (wallet_keys [ea, WALLET_PROGRAM_ID] ix) (wallet_data ix @ rest) l = Inr (l', es)"
  unfolding wallet_entry_def
proof (rule program_entry_runs [where run = "wallet_dispatch pf", OF _ assms(2) _ assms(3)])
  show "request wallet_handlers (wallet_keys [ea, WALLET_PROGRAM_ID] ix) (wallet_data ix @ rest) = Inr (ix, ea)"
    using wallet_request_encoded [OF assms(1)] by (simp add: wallet_request_def)
  show "WALLET_PROGRAM_ID \<in> set (wallet_keys [ea, WALLET_PROGRAM_ID] ix)" by (cases ix) simp_all
qed

lemma minter_entry_runs:
  assumes "minter_args_ok ix" "try_bumps pf [EVENT_AUTHORITY_SEED] MINTER_PROGRAM_ID 255 = Some (ea, b)"
    and "minter_dispatch pf tx ix l = Inr (l', es)"
  shows "minter_entry pf tx (minter_keys [ea, MINTER_PROGRAM_ID] ix) (minter_data ix @ rest) l = Inr (l', es)"
  unfolding minter_entry_def
proof (rule program_entry_runs [where run = "minter_dispatch pf", OF _ assms(2) _ assms(3)])
  show "request minter_handlers (minter_keys [ea, MINTER_PROGRAM_ID] ix) (minter_data ix @ rest) = Inr (ix, ea)"
    using minter_request_encoded [OF assms(1)] by (simp add: minter_request_def)
  show "MINTER_PROGRAM_ID \<in> set (minter_keys [ea, MINTER_PROGRAM_ID] ix)" by (cases ix) simp_all
qed

text \<open>What is decoded fits the machine: the length of a byte vector is a \<open>u32\<close>.\<close>

lemma wallet_args_fit: "wallet_args_ok ix \<Longrightarrow> fits_usize ix"
  by (cases ix) (auto simp: burn_params_typed_def)

lemma minter_args_fit: "minter_args_ok (IxGatewayMint c params) \<Longrightarrow> attestation_fits (IxGatewayMint c params) l"
  by (simp add: mint_params_typed_def)

section \<open>Histories of calls\<close>

definition wallet_called :: "platform \<Rightarrow> ledger \<Rightarrow> WalletEvent list \<Rightarrow> ledger \<Rightarrow> bool" where
  "wallet_called pf l es l' \<longleftrightarrow>
     (\<exists>tx accounts data. signed_by_outsiders pf tx \<and> wallet_entry pf tx accounts data l = Inr (l', es))"

text \<open>The attestation that \<open>gateway_mint_with_params\<close> rebuilds is a byte vector in memory.\<close>

definition minter_called :: "platform \<Rightarrow> ledger \<Rightarrow> MinterEvent list \<Rightarrow> ledger \<Rightarrow> bool" where
  "minter_called pf l es l' \<longleftrightarrow>
     (\<exists>tx accounts data. signed_by_outsiders pf tx \<and> minter_entry pf tx accounts data l = Inr (l', es) \<and>
        (\<forall>ix ea. minter_request accounts data = Inr (ix, ea) \<longrightarrow> attestation_fits ix l))"

definition outside_called :: "platform \<Rightarrow> ledger \<Rightarrow> ledger \<Rightarrow> bool" where
  "outside_called pf l l' \<longleftrightarrow> token_act pf l l' \<or> system_act pf l l' \<or> foreign_act l l'"

abbreviation "chain_step pf \<equiv> interleaved (wallet_called pf) (minter_called pf) (outside_called pf)"
abbreviation "chain_run pf \<equiv> machine_run (chain_step pf)"

lemma foreign_idle: "foreign_act l l"
  by (simp add: foreign_act_def)

lemma closed_rest: "outside_act pf l l' \<Longrightarrow> closed_step pf l [] l'"
  by (rule interleaved.by_rest) simp

lemma wallet_called_closed:
  assumes "wallet_called pf l es l'"
  shows "closed_step pf l (map Inl es) l'"
proof -
  from assms obtain tx accounts data where tx: "signed_by_outsiders pf tx"
    and run: "wallet_entry pf tx accounts data l = Inr (l', es)"
    unfolding wallet_called_def by blast
  from run show ?thesis
  proof (cases rule: wallet_entry_Inr)
    case (call ix ea b)
    from wallet_request_canonical [OF call(1)] have "fits_usize ix" by (blast intro: wallet_args_fit)
    with tx call(2) have "wallet_act pf l es l'" unfolding wallet_act_def by blast
    then show ?thesis by (rule interleaved.by_left [of "wallet_act pf"])
  next
    case (idl d)
    then have "outside_act pf l l'" unfolding outside_act_def idl_act_def by blast
    with idl(2) show ?thesis by (simp add: closed_rest)
  next
    case event
    then show ?thesis using closed_rest [of pf l l] foreign_idle by (simp add: outside_act_def)
  qed
qed

lemma minter_called_closed:
  assumes "minter_called pf l es l'"
  shows "closed_step pf l (map Inr es) l'"
proof -
  from assms obtain tx accounts data where tx: "signed_by_outsiders pf tx"
    and run: "minter_entry pf tx accounts data l = Inr (l', es)"
    and fits: "\<forall>ix ea. minter_request accounts data = Inr (ix, ea) \<longrightarrow> attestation_fits ix l"
    unfolding minter_called_def by blast
  from run show ?thesis
  proof (cases rule: minter_entry_Inr)
    case (call ix ea b)
    with tx fits have "minter_act pf l es l'" unfolding minter_act_def by blast
    then show ?thesis by (rule interleaved.by_right [of "minter_act pf"])
  next
    case (idl d)
    then have "outside_act pf l l'" unfolding outside_act_def idl_act_def by blast
    with idl(2) show ?thesis by (simp add: closed_rest)
  next
    case event
    then show ?thesis using closed_rest [of pf l l] foreign_idle by (simp add: outside_act_def)
  qed
qed

lemma chain_step_closed: "chain_step pf l es l' \<Longrightarrow> closed_step pf l es l'"
  by (erule interleaved.cases)
    (auto simp: outside_called_def outside_act_def intro: wallet_called_closed minter_called_closed closed_rest)

interpretation chain_machine: machine "chain_step pf" "closed_inv pf" for pf
  by unfold_locales (rule closed_step_gateway(2) [OF _ chain_step_closed])

lemma chain_run_closed: "chain_run pf l es l' \<Longrightarrow> closed_inv pf l \<Longrightarrow> closed_run pf l es l'"
  by (rule chain_machine.run_refines) (rule chain_step_closed)

end
