(* ===== verification/UserSignature.thy ===== *)
theory UserSignature
  imports WalletEntry
begin

text \<open>
  The user's signature of a burn.  gateway_burn does not check it; it requires the Ed25519 precompile to
  have been called just before, with a header whose offsets point into the current instruction of the
  transaction.  What that amounts to depends on what the current instruction is.
\<close>

section \<open>The precompile\<close>

text \<open>
  The documented contract of the Ed25519 program: a transaction runs only if each of its instructions with a
  header for one signature names, at the offsets and in the instruction of the header, a key, a message
  and a signature that verify.  The signature scheme is a parameter.
\<close>

definition ed25519_checked :: "(pubkey \<Rightarrow> bytes \<Rightarrow> bytes \<Rightarrow> bool) \<Rightarrow> transaction \<Rightarrow> bool" where
  "ed25519_checked verify tx \<longleftrightarrow> (\<forall>j < length (tx_instructions tx). \<forall>so ko mo ms i.
     tx_instructions tx ! j = (ED25519_PROGRAM_ID, ed_header so ko mo ms i) \<longrightarrow>
     unat i < length (tx_instructions tx) \<and>
     (let data = snd (tx_instructions tx ! unat i) in
      unat so + 64 \<le> length data \<and> unat ko + 32 \<le> length data \<and> unat mo + unat ms \<le> length data \<and>
      verify (take 32 (drop (unat ko) data)) (take (unat ms) (drop (unat mo) data)) (take 64 (drop (unat so) data))))"

section \<open>Where the header points\<close>

lemma drop_within: "length pre = n \<Longrightarrow> i + k \<le> length bs \<Longrightarrow>
    take k (drop (n + i) (pre @ bs @ post)) = take k (drop i bs)"
  by simp

text \<open>
  What the header that gateway_burn demands makes the precompile check, in the data of the current instruction: the
  32 bytes at offset 374 signed the \<open>n\<close> bytes from 78 on, with the 64 bytes at 14 as signature.
\<close>

definition burn_offsets_signed :: "(pubkey \<Rightarrow> bytes \<Rightarrow> bytes \<Rightarrow> bool) \<Rightarrow> nat \<Rightarrow> bytes \<Rightarrow> bool" where
  "burn_offsets_signed verify n data \<longleftrightarrow> 78 + n \<le> length data \<and>
     verify (take 32 (drop 374 data)) (take n (drop 78 data)) (take 64 (drop 14 data))"

lemma header_checked:
  assumes "verify_user_signature tx n = Inr ()" "ed25519_checked verify tx"
  shows "unat (tx_index tx) < length (tx_instructions tx)"
    and "burn_offsets_signed verify n (snd (tx_instructions tx ! unat (tx_index tx)))"
proof -
  from assms(1) have v: "n \<le> 65535" "unat (tx_index tx) - 1 < length (tx_instructions tx)"
    "tx_instructions tx ! (unat (tx_index tx) - 1) = (ED25519_PROGRAM_ID, expected_ed_header tx n)"
    by (simp_all add: verify_user_signature_Inr)
  have hdr: "expected_ed_header tx n = ed_header 14 374 78 (word_of_nat n) (tx_index tx)"
    by (simp add: expected_ed_header_def BURN_DATA_OFFSET_def burn_offset_defs DISCRIMINATOR_SIZE_def u16_of_def)
  have n: "unat (word_of_nat n :: u16) = n" using v(1) by (simp add: unsigned_of_nat take_bit_nat_eq_self)
  from assms(2) [unfolded ed25519_checked_def, rule_format, OF v(2) v(3) [unfolded hdr]]
  show "unat (tx_index tx) < length (tx_instructions tx)"
    "burn_offsets_signed verify n (snd (tx_instructions tx ! unat (tx_index tx)))"
    by (simp_all add: burn_offsets_signed_def Let_def n)
qed

text \<open>After the discriminator and the length of the burn data, six bytes, these are the intent and its signature.\<close>

lemma burn_offsets_intent:
  assumes "length pre = 6" "500 \<le> length bs"
  shows "burn_offsets_signed verify (length bs - 72) (pre @ bs @ post) \<longleftrightarrow>
    verify (bm_source_signer (burn_message_at bs)) (drop 72 bs) (bm_user_signature (burn_message_at bs))"
proof -
  note at = drop_within [OF assms(1), where bs = bs and post = post]
  have "take 64 (drop 14 (pre @ bs @ post)) = bm_user_signature (burn_message_at bs)"
    using at [of 8 64] assms(2) by (simp add: burn_message_at_def del: take_append drop_append)
  moreover have "take 32 (drop 374 (pre @ bs @ post)) = bm_source_signer (burn_message_at bs)"
    using at [of 368 32] assms(2) by (simp add: burn_message_at_def del: take_append drop_append)
  moreover have "take (length bs - 72) (drop 78 (pre @ bs @ post)) = drop 72 bs"
    using at [of 72 "length bs - 72"] assms(2) by (simp del: take_append drop_append)
  ultimately show ?thesis using assms by (simp add: burn_offsets_signed_def)
qed

lemma burn_data_framed: "[22, 2] @ write_GatewayBurnParams params @ rest =
    ([22, 2] @ u32_to_le (word_of_nat (length (encoded_burn_data params)))) @ encoded_burn_data params @
    write_bytes (burn_signature params) @ rest"
  by (simp add: write_GatewayBurnParams_def write_bytes_def)

text \<open>So the user signed the intent, if the current instruction of the transaction is the burn.\<close>

lemma user_signed:
  assumes fits: "length (encoded_burn_data params) < 2 ^ 64"
    and new: "burn_data_new (encoded_burn_data params) = Inr (encoded_burn_data params)"
    and user: "verify_user_signature tx (length (encoded_burn_data params) - 72) = Inr ()"
    and top: "tx_instructions tx ! unat (tx_index tx) = (p, [22, 2] @ write_GatewayBurnParams params @ rest)"
    and checked: "ed25519_checked verify tx"
  shows "let bs = encoded_burn_data params; m = burn_message_at bs in
    verify (bm_source_signer m) (drop 72 bs) (bm_user_signature m)"
proof -
  let ?pre = "[22, 2] @ u32_to_le (word_of_nat (length (encoded_burn_data params)))"
  have "length ?pre = 6" by simp
  from header_checked(2) [OF user checked] show ?thesis
    unfolding top snd_conv burn_data_framed burn_offsets_intent [OF \<open>length ?pre = 6\<close> burn_data_newD(2) [OF fits new]]
    by (simp add: Let_def)
qed

end
