(* ===== verification/EntrySpec.thy ===== *)
theory EntrySpec
  imports GatewaySpec Entrypoints UserSignature
begin

text \<open>
  What holds of the programs as they are called on chain, with raw instruction data and account lists: decoding,
  the refinement of the entrypoints by the instructions of lib.rs, the bytes of the accounts, and what the
  user's signature of a burn is worth.
\<close>

section \<open>Sample calls\<close>

definition W_EVENTS :: pubkey where "W_EVENTS = pda [EVENT_AUTHORITY_SEED] WALLET_PROGRAM_ID"
definition M_EVENTS :: pubkey where "M_EVENTS = pda [EVENT_AUTHORITY_SEED] MINTER_PROGRAM_ID"

lemma event_seed: "EVENT_AUTHORITY_SEED = [95, 95, 101, 118, 101, 110, 116, 95, 97, 117, 116, 104, 111, 114, 105, 116, 121]"
  by (simp add: EVENT_AUTHORITY_SEED_def of_char_of)

lemma sample_event_authorities:
  "try_bumps sample_platform [EVENT_AUTHORITY_SEED] WALLET_PROGRAM_ID 255 = Some (W_EVENTS, 255)"
  "try_bumps sample_platform [EVENT_AUTHORITY_SEED] MINTER_PROGRAM_ID 255 = Some (M_EVENTS, 255)"
proof -
  have "\<not> sample_curve W_EVENTS" "\<not> sample_curve M_EVENTS"
    by (simp_all add: W_EVENTS_def M_EVENTS_def pda_def sample_curve_def sample_hash_def event_seed WALLET_PROGRAM_ID_def
        MINTER_PROGRAM_ID_def)
  then show "try_bumps sample_platform [EVENT_AUTHORITY_SEED] WALLET_PROGRAM_ID 255 = Some (W_EVENTS, 255)"
    "try_bumps sample_platform [EVENT_AUTHORITY_SEED] MINTER_PROGRAM_ID 255 = Some (M_EVENTS, 255)"
    unfolding W_EVENTS_def M_EVENTS_def by (simp_all add: sample_pda event_seed)
qed

lemmas sample_wallet_call = wallet_entry_runs [OF _ sample_event_authorities(1)]
lemmas sample_minter_call = minter_entry_runs [OF _ sample_event_authorities(2)]

abbreviation "sample_burn_ix \<equiv> IxGatewayBurn sample_burn_ctx sample_burn_params"
abbreviation "sample_mint_ix \<equiv> IxGatewayMint sample_mint_ctx sample_mint_params"

lemma sample_args_ok: "wallet_args_ok sample_burn_ix" "minter_args_ok sample_mint_ix"
  using sample_set_valid(2)
  by (simp_all add: burn_params_typed_def mint_params_typed_def sample_burn_params_def sample_burn_data_facts
      sample_mint_params_def key_list)

section \<open>Decoding\<close>

text \<open>C35: What a client encodes is what the programs decode.  For every instruction of lib.rs whose arguments have
  an encoding, the discriminator followed by the Borsh form of the arguments, with the accounts in the order of
  the struct followed by the event authority, the program and the remaining accounts, is read as that
  instruction, whatever bytes follow the arguments; no two instructions share an encoding.\<close>

theorem requests_roundtrip:
  assumes "wallet_args_ok ix" "minter_args_ok mx"
  shows "wallet_request (wallet_keys [ea, program] ix) (wallet_data ix @ rest) = Inr (ix, ea) \<and>
    minter_request (minter_keys [ea, program] mx) (minter_data mx @ rest) = Inr (mx, ea)"
  using wallet_request_encoded [OF assms(1)] minter_request_encoded [OF assms(2)] by blast

theorem requests_roundtrip_witness:
  "wallet_request (wallet_keys [W_EVENTS, WALLET_PROGRAM_ID] sample_burn_ix) (wallet_data sample_burn_ix @ [1, 2]) =
     Inr (sample_burn_ix, W_EVENTS) \<and> take 6 (wallet_data sample_burn_ix) = [22, 2, 244, 1, 0, 0]"
proof -
  have "u32_to_le 500 = [244, 1, 0, 0]" by code_simp
  then show ?thesis
    using requests_roundtrip [OF sample_args_ok, of W_EVENTS WALLET_PROGRAM_ID "[1, 2]"]
    by (simp add: write_GatewayBurnParams_def write_bytes_def sample_burn_params_def sample_burn_data_facts(1))
qed

text \<open>C8: The entrypoint of GatewayWallet does nothing but what lib.rs lists.  If it accepts a call, the data is the
  encoding of one instruction, up to bytes left over, the accounts are those of its struct with the
  program's event authority after them, and ledger and events are the ones of that instruction; or it was an
  instruction for IDL accounts or an event, which emits nothing and changes nothing but idle data of the
  program and the account at the IDL address.\<close>

theorem wallet_entry_refines:
  assumes "system_program_ok pf" "wallet_entry pf tx accounts data l = Inr (l', es)"
  shows "(\<exists>ix ea b program rest more. wallet_args_ok ix \<and> data = wallet_data ix @ rest \<and>
      accounts = wallet_keys [ea, program] ix @ more \<and>
      try_bumps pf [EVENT_AUTHORITY_SEED] WALLET_PROGRAM_ID 255 = Some (ea, b) \<and>
      wallet_dispatch pf tx ix l = Inr (l', es)) \<or>
    (es = [] \<and> idl_changes pf WALLET_PROGRAM_ID l l')"
  using assms(2)
proof (cases rule: wallet_entry_Inr)
  case (call ix ea b)
  with wallet_request_canonical [OF call(1)] show ?thesis by blast
next
  case (idl d)
  from idl_dispatch_changes [OF assms(1) idl(1)] idl(2) show ?thesis by blast
qed (simp add: idl_changes_def)

theorem wallet_entry_refines_witness:
  "\<exists>l' es. wallet_entry sample_platform sample_burn_tx (wallet_keys [W_EVENTS, WALLET_PROGRAM_ID] sample_burn_ix)
     (wallet_data sample_burn_ix) sample_ledger = Inr (l', es) \<and>
     ((\<exists>ix rest. wallet_data sample_burn_ix = wallet_data ix @ rest \<and>
         wallet_dispatch sample_platform sample_burn_tx ix sample_ledger = Inr (l', es)) \<or> es = [])"
proof -
  obtain l' es where
    "gateway_burn sample_platform sample_burn_tx sample_burn_ctx sample_burn_params sample_ledger = Inr (l', es)"
    using sample_burn_runs by blast
  with sample_wallet_call [OF sample_args_ok(1), of sample_burn_tx sample_ledger l' es "[]"]
  have run: "wallet_entry sample_platform sample_burn_tx (wallet_keys [W_EVENTS, WALLET_PROGRAM_ID] sample_burn_ix)
     (wallet_data sample_burn_ix) sample_ledger = Inr (l', es)" by simp
  from wallet_entry_refines [OF sample_platform_ok run] run show ?thesis by blast
qed

text \<open>C9: The same of GatewayMinter.\<close>

theorem minter_entry_refines:
  assumes "system_program_ok pf" "minter_entry pf tx accounts data l = Inr (l', es)"
  shows "(\<exists>ix ea b program rest more. minter_args_ok ix \<and> data = minter_data ix @ rest \<and>
      accounts = minter_keys [ea, program] ix @ more \<and>
      try_bumps pf [EVENT_AUTHORITY_SEED] MINTER_PROGRAM_ID 255 = Some (ea, b) \<and>
      minter_dispatch pf tx ix l = Inr (l', es)) \<or>
    (es = [] \<and> idl_changes pf MINTER_PROGRAM_ID l l')"
  using assms(2)
proof (cases rule: minter_entry_Inr)
  case (call ix ea b)
  with minter_request_canonical [OF call(1)] show ?thesis by blast
next
  case (idl d)
  from idl_dispatch_changes [OF assms(1) idl(1)] idl(2) show ?thesis by blast
qed (simp add: idl_changes_def)

theorem minter_entry_refines_witness:
  "\<exists>l' es. minter_entry sample_platform sample_mint_tx (minter_keys [M_EVENTS, MINTER_PROGRAM_ID] sample_mint_ix)
     (minter_data sample_mint_ix) sample_ledger = Inr (l', es) \<and>
     ((\<exists>ix rest. minter_data sample_mint_ix = minter_data ix @ rest \<and>
         minter_dispatch sample_platform sample_mint_tx ix sample_ledger = Inr (l', es)) \<or> es = [])"
proof -
  obtain l' es where
    "gateway_mint sample_platform sample_mint_tx sample_mint_ctx sample_mint_params sample_ledger = Inr (l', es)"
    using sample_mint_runs by blast
  with sample_minter_call [OF sample_args_ok(2), of sample_mint_tx sample_ledger l' es "[]"]
  have run: "minter_entry sample_platform sample_mint_tx (minter_keys [M_EVENTS, MINTER_PROGRAM_ID] sample_mint_ix)
     (minter_data sample_mint_ix) sample_ledger = Inr (l', es)" by simp
  from minter_entry_refines [OF sample_platform_ok run] run show ?thesis by blast
qed

section \<open>Histories\<close>

lemma sample_chain_run:
  "\<exists>l' es. chain_run sample_platform sample_ledger (map Inr es) l' \<and> es = [AttestationUsed MINT_KEY ALICE_TOKENS M_HASH 30]"
proof -
  obtain l1 where mint: "gateway_mint sample_platform sample_mint_tx sample_mint_ctx sample_mint_params sample_ledger =
    Inr (l1, [AttestationUsed MINT_KEY ALICE_TOKENS M_HASH 30])" using sample_mint_runs by blast
  let ?accounts = "minter_keys [M_EVENTS, MINTER_PROGRAM_ID] sample_mint_ix"
  from sample_minter_call [OF sample_args_ok(2), of sample_mint_tx sample_ledger _ _ "[]"] mint
  have run: "minter_entry sample_platform sample_mint_tx ?accounts (minter_data sample_mint_ix) sample_ledger =
    Inr (l1, [AttestationUsed MINT_KEY ALICE_TOKENS M_HASH 30])" by simp
  have "minter_request ?accounts (minter_data sample_mint_ix) = Inr (sample_mint_ix, M_EVENTS)"
    using minter_request_encoded [OF sample_args_ok(2), of M_EVENTS MINTER_PROGRAM_ID "[]"] by simp
  then have fits: "minter_request ?accounts (minter_data sample_mint_ix) = Inr (ix, ea) \<longrightarrow> attestation_fits ix sample_ledger"
    for ix ea using minter_args_fit [OF sample_args_ok(2)] by auto
  have "signed_by_outsiders sample_platform sample_mint_tx"
    by (simp add: sample_outsiders sample_mint_tx_def ALICE_def)
  with run fits have "minter_called sample_platform sample_ledger [AttestationUsed MINT_KEY ALICE_TOKENS M_HASH 30] l1"
    unfolding minter_called_def by blast
  from run_single [of "chain_step sample_platform", OF interleaved.by_right [of "minter_called sample_platform", OF this]]
  show ?thesis by blast
qed

text \<open>C7: Every history on chain is one of the closed world.  Let both programs be called with arbitrary instruction
  data and accounts by outsiders, directly or from other programs, and let the token program, the system program
  and other programs act in between: the accepted calls and the events they emit form a history of the
  instructions of lib.rs, so what is proved of those histories (custody, replay, balances, isolation, outflow)
  holds of the chain, and the program-derived addresses stay clean.\<close>

theorem chain_refines_closed_world:
  assumes "system_program_ok pf" "apart pf" "clean pf l" "wallet_wf pf l" "minter_wf pf l" "chain_run pf l es l'"
  shows "closed_run pf l es l' \<and> clean pf l' \<and> wallet_wf pf l' \<and> minter_wf pf l'"
proof -
  have inv: "closed_inv pf l" using assms by (simp add: closed_inv_def gateway_inv_def)
  from chain_run_closed [OF assms(6) inv] chain_machine.inv_run [OF assms(6) inv] show ?thesis
    by (simp add: closed_inv_def gateway_inv_def)
qed

theorem chain_refines_closed_world_witness:
  "\<exists>l'. closed_run sample_platform sample_ledger [Inr (AttestationUsed MINT_KEY ALICE_TOKENS M_HASH 30)] l' \<and>
     clean sample_platform l'"
  using sample_chain_run chain_refines_closed_world [OF sample_platform_ok sample_apart sample_clean sample_wf minter_ledger_wf]
  by fastforce

section \<open>Account bytes\<close>

text \<open>C36: The typed accounts of the ledger stand for their bytes.  Bytes that begin with an account's discriminator
  and the Borsh encoding of its fields, whatever follows, load through Anchor's deserialisers of the five account
  types as exactly the typed view of the account, and as no other type; unlabelled bytes, such as a new
  account's zeroes, load as none.  When an instruction returns, writing back any value of the five types over
  such bytes of that type's size stores that value if its encoding fits, stale bytes behind it included, and fails
  with AccountDidNotSerialize if not.\<close>

theorem account_bytes_faithful:
  assumes "stored x cs" "\<And>bs. x = Raw bs \<Longrightarrow> unlabelled bs"
  shows "loads_as WALLET_DISCRIMINATOR read_GatewayWallet cs = as_wallet x \<and>
    loads_as DEPOSIT_DISCRIMINATOR read_GatewayDeposit cs = as_deposit x \<and>
    loads_as DELEGATE_DISCRIMINATOR read_GatewayDelegate cs = as_delegate x \<and>
    loads_as DENYLIST_DISCRIMINATOR (done_read ()) cs = as_denylist x \<and>
    loads_as MINTER_DISCRIMINATOR read_GatewayMinter cs = as_minter x \<and>
    (\<forall>y. program_typed y \<and> data_len y = length cs \<longrightarrow>
       (if length (encoded y) \<le> length cs
        then \<exists>cs'. write_back y cs = (Inr cs' :: bytes wallet_result) \<and> stored y cs'
        else write_back y cs = (Inl (Anchor AccountDidNotSerialize) :: bytes wallet_result)))"
  using typed_loads [OF assms] by (intro conjI allI impI write_back_stored) simp_all

lemma sample_wallet_typed: "wallet_typed sample_wallet" "wallet_serialized_len sample_wallet \<le> WALLET_SPACE"
  by (simp_all add: wallet_typed_def sample_wallet_def keys_ok_def sample_burn_signer_def key_list default_pubkey_def
      wallet_serialized_len_def WALLET_SPACE_def MAX_SUPPORTED_TOKENS_def MAX_BURN_SIGNERS_def)

definition sample_wallet_bytes :: bytes where
  "sample_wallet_bytes = WALLET_DISCRIMINATOR @ write_GatewayWallet sample_wallet @
     replicate (WALLET_SPACE - wallet_serialized_len sample_wallet) 0"

theorem account_bytes_faithful_witness:
  "loads_as WALLET_DISCRIMINATOR read_GatewayWallet sample_wallet_bytes = Some sample_wallet \<and>
   loads_as MINTER_DISCRIMINATOR read_GatewayMinter sample_wallet_bytes = None \<and>
   (\<exists>cs. write_back (WalletData (sample_wallet\<lparr> gw_paused := True \<rparr>)) sample_wallet_bytes = (Inr cs :: bytes wallet_result) \<and>
      stored (WalletData (sample_wallet\<lparr> gw_paused := True \<rparr>)) cs) \<and>
   loads_as DEPOSIT_DISCRIMINATOR read_GatewayDeposit (replicate DEPOSIT_SPACE 0) = None"
proof -
  have len: "length sample_wallet_bytes = WALLET_SPACE"
    using serialized_lengths(1) [OF sample_wallet_typed(1)] sample_wallet_typed(2)
    by (simp add: sample_wallet_bytes_def)
  have "stored (WalletData sample_wallet) sample_wallet_bytes"
    using sample_wallet_typed(1) len by (intro storedI [where rest = "replicate (WALLET_SPACE - wallet_serialized_len sample_wallet) 0"])
      (simp_all add: sample_wallet_bytes_def)
  note s = account_bytes_faithful [OF this]
  let ?w = "sample_wallet\<lparr> gw_paused := True \<rparr>"
  have w: "wallet_typed ?w" "length (encoded (WalletData ?w)) \<le> WALLET_SPACE"
    using sample_wallet_typed encoded_length [of "WalletData ?w"] by (simp_all add: wallet_typed_def wallet_serialized_len_def)
  have "stored (Raw (replicate DEPOSIT_SPACE 0)) (replicate DEPOSIT_SPACE 0)" by (simp add: stored_def)
  note fresh = account_bytes_faithful [OF this]
  have "unlabelled (replicate DEPOSIT_SPACE 0)"
    by (simp add: unlabelled_def discriminator_defs DEPOSIT_SPACE_def two_zeros)
  with fresh have "loads_as DEPOSIT_DISCRIMINATOR read_GatewayDeposit (replicate DEPOSIT_SPACE 0) = None" by simp
  moreover from s have "loads_as WALLET_DISCRIMINATOR read_GatewayWallet sample_wallet_bytes = Some sample_wallet"
    "loads_as MINTER_DISCRIMINATOR read_GatewayMinter sample_wallet_bytes = None" by simp_all
  moreover from s have "program_typed y \<and> data_len y = length sample_wallet_bytes \<longrightarrow>
      (if length (encoded y) \<le> length sample_wallet_bytes
       then \<exists>cs. write_back y sample_wallet_bytes = (Inr cs :: bytes wallet_result) \<and> stored y cs
       else write_back y sample_wallet_bytes = (Inl (Anchor AccountDidNotSerialize) :: bytes wallet_result))" for y
    by simp
  from this [of "WalletData ?w"] w len have "\<exists>cs. write_back (WalletData ?w) sample_wallet_bytes =
      (Inr cs :: bytes wallet_result) \<and> stored (WalletData ?w) cs" by simp
  ultimately show ?thesis by blast
qed

section \<open>The user's signature of a burn\<close>

lemma burn_request:
  assumes "wallet_request accounts ([22, 2] @ args) = Inr (ix, ea)"
  obtains c params rest where "ix = IxGatewayBurn c params" "burn_params_typed params"
    "args = write_GatewayBurnParams params @ rest"
  using assms
  by (auto simp: wallet_request_def request_def wallet_handlers_def starts_with_def with_args_Inr burn_params.read_Some
      dest!: with_struct_Inr)

text \<open>C16: A burn that a transaction calls itself is signed by the user.  Let the current instruction of the
  transaction be a gateway_burn of this program and let the Ed25519 program have accepted the transaction.  If
  the call succeeds and emits anything, the intent's source signer signed the whole intent, from its prefix to
  the end, and the signer and the spec hash of the event GatewayBurned are those of the intent.\<close>

theorem burn_user_signed:
  assumes "system_program_ok pf" "wallet_entry pf tx accounts ([22, 2] @ args) l = Inr (l', es)" "es \<noteq> []"
    and "tx_instructions tx ! unat (tx_index tx) = (WALLET_PROGRAM_ID, [22, 2] @ args)" "ed25519_checked verify tx"
  shows "\<exists>params rest. args = write_GatewayBurnParams params @ rest \<and>
    (let bs = encoded_burn_data params; m = burn_message_at bs in
     verify (bm_source_signer m) (drop 72 bs) (bm_user_signature m) \<and>
     (\<forall>mint depositor h domain recipient signer n fee fa fw.
        GatewayBurned mint depositor h domain recipient signer n fee fa fw \<in> set es \<longrightarrow>
        signer = bm_source_signer m \<and> depositor = bm_source_depositor m \<and> h = keccak256 pf (drop 160 bs)))"
  using assms(2)
proof (cases rule: wallet_entry_Inr)
  case (call ix ea b)
  from call(1) obtain c params rest where ix: "ix = IxGatewayBurn c params" "burn_params_typed params"
    and args: "args = write_GatewayBurnParams params @ rest" by (rule burn_request)
  let ?bs = "encoded_burn_data params"
  have "length ?bs < 2 ^ 64" using ix(2) by (simp add: burn_params_typed_def)
  from gateway_burn_effect [OF assms(1) this] call(2) ix(1) obtain w d d' h n charged where
    e: "burn_executed pf tx c params l w d d' h n charged es l'" by fastforce
  then have new: "burn_data_new ?bs = Inr ?bs" "verify_user_signature tx (length ?bs - 72) = Inr ()"
    by (simp_all add: burn_executed_def Let_def)
  have "GatewayBurned mint depositor hash domain recipient signer m fee fa fw \<in> set es \<Longrightarrow>
      signer = bm_source_signer (burn_message_at ?bs) \<and> depositor = bm_source_depositor (burn_message_at ?bs) \<and>
      hash = keccak256 pf (drop 160 ?bs)" for mint depositor hash domain recipient signer m fee fa fw
    using e unfolding burn_executed_def Let_def by (elim conjE exE) (simp split: if_splits)
  moreover have "verify (bm_source_signer (burn_message_at ?bs)) (drop 72 ?bs) (bm_user_signature (burn_message_at ?bs))"
    using user_signed [OF _ new, of WALLET_PROGRAM_ID rest verify] \<open>length ?bs < 2 ^ 64\<close> assms(4,5) args by (simp add: Let_def)
  ultimately show ?thesis unfolding Let_def using args by blast
qed (use assms(3) in simp_all)

definition sample_burn_call_data :: bytes where "sample_burn_call_data = wallet_data sample_burn_ix"

text \<open>Alice's signature, and the one of someone else.\<close>

definition alice_signs :: "pubkey \<Rightarrow> bytes \<Rightarrow> bytes \<Rightarrow> bool" where
  "alice_signs k m s \<longleftrightarrow> k = ALICE \<and> m = drop 72 sample_burn_data \<and> s = replicate 64 9"

definition MALLORY :: pubkey where "MALLORY = key 13"

definition mallory_signs :: "pubkey \<Rightarrow> bytes \<Rightarrow> bytes \<Rightarrow> bool" where
  "mallory_signs k m s \<longleftrightarrow> k = MALLORY"

lemma sample_checked:
  assumes "let d = snd outer in 506 \<le> length d \<and>
      verify (take 32 (drop 374 d)) (take 428 (drop 78 d)) (take 64 (drop 14 d))" "fst outer \<noteq> ED25519_PROGRAM_ID"
  shows "ed25519_checked verify (sample_burn_call outer)"
  unfolding ed25519_checked_def
proof (intro allI impI)
  fix j so ko mo ms i
  assume j: "j < length (tx_instructions (sample_burn_call outer))"
    and h: "tx_instructions (sample_burn_call outer) ! j = (ED25519_PROGRAM_ID, ed_header so ko mo ms i)"
  from j h assms(2) have "ed_header 14 374 78 428 1 = ed_header so ko mo ms i"
    by (auto simp: sample_burn_call_def less_Suc_eq nth_Cons split: nat.splits)
  then have "so = 14" "ko = 374" "mo = 78" "ms = 428" "i = 1"
    using ed_header_unique [of "ed_header 14 374 78 428 1" so ko mo ms i] ed_header_unique [of "ed_header 14 374 78 428 1" 14 374 78 428 1]
    by simp_all
  with assms(1) show "unat i < length (tx_instructions (sample_burn_call outer)) \<and>
      (let data = snd (tx_instructions (sample_burn_call outer) ! unat i) in
       unat so + 64 \<le> length data \<and> unat ko + 32 \<le> length data \<and> unat mo + unat ms \<le> length data \<and>
       verify (take 32 (drop (unat ko) data)) (take (unat ms) (drop (unat mo) data)) (take 64 (drop (unat so) data)))"
    by (simp add: sample_burn_call_def Let_def)
qed

lemma sample_burn_entry:
  "\<exists>l' es. wallet_entry sample_platform (sample_burn_call outer) (wallet_keys [W_EVENTS, WALLET_PROGRAM_ID] sample_burn_ix)
     sample_burn_call_data sample_ledger = Inr (l', es) \<and> es \<noteq> []"
proof -
  obtain l' es where run:
    "gateway_burn sample_platform (sample_burn_call outer) sample_burn_ctx sample_burn_params sample_ledger = Inr (l', es)"
    using sample_burn_call_runs by blast
  have "es \<noteq> []" using run by (rule gateway_burn_run) simp
  with run sample_wallet_call [OF sample_args_ok(1), of "sample_burn_call outer" sample_ledger l' es "[]"]
  show ?thesis by (auto simp: sample_burn_call_data_def)
qed

lemma sample_burn_call_data_framed: "sample_burn_call_data = [22, 2] @ write_GatewayBurnParams sample_burn_params"
  by (simp add: sample_burn_call_data_def)

abbreviation "sample_burn_direct \<equiv> sample_burn_call (WALLET_PROGRAM_ID, sample_burn_call_data)"

lemma sample_burn_current: "tx_instructions sample_burn_direct ! unat (tx_index sample_burn_direct) =
    (WALLET_PROGRAM_ID, [22, 2] @ write_GatewayBurnParams sample_burn_params)"
  by (simp add: sample_burn_call_def sample_burn_call_data_framed)

lemma alice_checked: "ed25519_checked alice_signs sample_burn_direct"
proof (rule sample_checked)
  note len = sample_burn_data_facts(1)
  let ?pre = "[22, 2] @ u32_to_le 500" and ?post = "write_bytes (key 1 @ key 1 @ [27])"
  have data: "sample_burn_call_data = ?pre @ sample_burn_data @ ?post"
    by (simp add: sample_burn_call_data_framed write_GatewayBurnParams_def write_bytes_def sample_burn_params_def len)
  have "length ?pre = 6" by simp
  note at = burn_offsets_intent [OF this sample_bound(2), of alice_signs ?post]
  have "alice_signs (bm_source_signer (burn_message_at sample_burn_data)) (drop 72 sample_burn_data)
      (bm_user_signature (burn_message_at sample_burn_data))"
    using sample_burn_data_facts(2) by (simp add: alice_signs_def sample_intent_def)
  with at len show "let d = snd (WALLET_PROGRAM_ID, sample_burn_call_data) in 506 \<le> length d \<and>
      alice_signs (take 32 (drop 374 d)) (take 428 (drop 78 d)) (take 64 (drop 14 d))"
    by (simp add: data burn_offsets_signed_def)
qed (simp add: WALLET_PROGRAM_ID_def ED25519_PROGRAM_ID_def)

theorem burn_user_signed_witness:
  "\<exists>params rest. sample_burn_call_data = [22, 2] @ write_GatewayBurnParams params @ rest \<and>
    alice_signs (bm_source_signer (burn_message_at (encoded_burn_data params))) (drop 72 (encoded_burn_data params))
      (bm_user_signature (burn_message_at (encoded_burn_data params)))"
proof -
  obtain l' es where run: "wallet_entry sample_platform sample_burn_direct (wallet_keys [W_EVENTS, WALLET_PROGRAM_ID] sample_burn_ix)
      ([22, 2] @ write_GatewayBurnParams sample_burn_params) sample_ledger = Inr (l', es)" "es \<noteq> []"
    using sample_burn_entry [of "(WALLET_PROGRAM_ID, sample_burn_call_data)"] unfolding sample_burn_call_data_framed by blast
  from burn_user_signed [OF sample_platform_ok run sample_burn_current alice_checked] show ?thesis
    unfolding sample_burn_call_data_framed Let_def by fastforce
qed

text \<open>C15: What a burn that succeeds has been authorised by.  It was given a burn intent whose EIP-191 hash an
  enabled burn signer signed.  The intent's source signer is the depositor, or has been that depositor's delegate;
  the wallet is not paused, the intent is for this version, domain, program and mint, has not expired, and
  charges at most its maximal fee.  The instruction before the transaction's current one is an Ed25519 call with one
  signature, and what its acceptance proves is said exactly: with respect to any signature scheme it checked, the
  data of the current instruction holds a key, a message of the intent's length and a signature that verify, at
  the offsets this intent has in a gateway_burn; so if the current instruction is this burn, the source
  signer signed the whole intent.  If it is another one, nothing follows for the intent.\<close>

theorem burn_authorised:
  assumes "system_program_ok pf" "length (encoded_burn_data params) < 2 ^ 64"
    and "gateway_burn pf tx c params l = Inr (l', es)"
  shows "\<exists>w d signer. let bs = encoded_burn_data params; m = burn_message_at bs;
      current = tx_instructions tx ! unat (tx_index tx) in
    wallet_at l (gb_gateway_wallet c) = Some w \<and> \<not> gw_paused w \<and> deposit_at l (gb_deposit c) = Some d \<and>
    recover_evm_signer pf (ethereum_signed_message_hash pf (keccak256 pf bs)) (burn_signature params) = Inr signer \<and>
    signer \<in> set (gw_burn_signers w) \<and> burn_data_new bs = Inr bs \<and> 0 < tx_index tx \<and>
    tx_instructions tx ! (unat (tx_index tx) - 1) = (ED25519_PROGRAM_ID, expected_ed_header tx (length bs - 72)) \<and>
    (bm_source_signer m = dep_depositor d \<or>
      (\<exists>g. delegate_at l (gb_delegate_account c) = Some g \<and> del_depositor g = dep_depositor d \<and>
           del_delegate g = bm_source_signer m \<and> del_status g \<noteq> Unauthorized)) \<and>
    bm_source_depositor m = dep_depositor d \<and> bm_version m = gw_version w \<and>
    bm_source_domain m = gw_local_domain w \<and> bm_source_contract m = WALLET_PROGRAM_ID \<and>
    bm_source_token m = gb_token_mint c \<and> tx_slot tx \<le> bm_max_block_height m \<and> bm_fee m \<le> bm_max_fee m \<and>
    (\<forall>verify. ed25519_checked verify tx \<longrightarrow>
       burn_offsets_signed verify (length bs - 72) (snd current) \<and>
       (\<forall>program rest. current = (program, [22, 2] @ write_GatewayBurnParams params @ rest) \<longrightarrow>
          verify (bm_source_signer m) (drop 72 bs) (bm_user_signature m)))"
proof -
  let ?bs = "encoded_burn_data params"
  from gateway_burn_effect [OF assms] obtain w d d' h n charged where
    e: "burn_executed pf tx c params l w d d' h n charged es l'" by blast
  then have new: "burn_data_new ?bs = Inr ?bs" and user: "verify_user_signature tx (length ?bs - 72) = Inr ()"
    by (simp_all add: burn_executed_def Let_def)
  note signed = header_checked(2) [OF user] user_signed [OF assms(2) new user, unfolded Let_def]
  show ?thesis
    using e signed unfolding burn_executed_def Let_def wallet_running_def verify_user_signature_Inr
    by (elim exE conjE) (intro exI conjI, assumption+, auto)
qed

theorem burn_authorised_witness:
  "sample_burn_signer \<in> set (gw_burn_signers sample_wallet) \<and>
   tx_instructions sample_burn_direct ! 0 = (ED25519_PROGRAM_ID, expected_ed_header sample_burn_direct 428) \<and>
   alice_signs ALICE (drop 72 sample_burn_data) (bm_user_signature (burn_message_at sample_burn_data))"
proof -
  obtain l' es where run:
    "gateway_burn sample_platform sample_burn_direct sample_burn_ctx sample_burn_params sample_ledger = Inr (l', es)"
    using sample_burn_call_runs by blast
  have fits: "length (encoded_burn_data sample_burn_params) < 2 ^ 64"
    using sample_burn_data_facts(1) by (simp add: sample_burn_params_def)
  from burn_authorised [OF sample_platform_ok fits run, unfolded Let_def] obtain w signer where
    w: "wallet_at sample_ledger (gb_gateway_wallet sample_burn_ctx) = Some w" "signer \<in> set (gw_burn_signers w)"
      "recover_evm_signer sample_platform (ethereum_signed_message_hash sample_platform (keccak256 sample_platform
         (encoded_burn_data sample_burn_params))) (burn_signature sample_burn_params) = Inr signer"
    and hdr: "tx_instructions sample_burn_direct ! (unat (tx_index sample_burn_direct) - 1) =
      (ED25519_PROGRAM_ID, expected_ed_header sample_burn_direct (length (encoded_burn_data sample_burn_params) - 72))"
    and user: "\<And>verify program rest. ed25519_checked verify sample_burn_direct \<Longrightarrow>
      tx_instructions sample_burn_direct ! unat (tx_index sample_burn_direct) =
        (program, [22, 2] @ write_GatewayBurnParams sample_burn_params @ rest) \<Longrightarrow>
      verify (bm_source_signer (burn_message_at (encoded_burn_data sample_burn_params)))
        (drop 72 (encoded_burn_data sample_burn_params))
        (bm_user_signature (burn_message_at (encoded_burn_data sample_burn_params)))"
    by blast
  from user [OF alice_checked, of WALLET_PROGRAM_ID "[]"] sample_burn_current
  have "alice_signs ALICE (drop 72 sample_burn_data) (bm_user_signature (burn_message_at sample_burn_data))"
    by (simp add: sample_burn_params_def sample_burn_data_facts sample_intent_def)
  moreover from w have "sample_burn_signer \<in> set (gw_burn_signers sample_wallet)"
    by (simp add: sample_burn_ctx_def sample_burn_params_def sample_views sample_burn_data_facts)
  moreover from hdr have "tx_instructions sample_burn_direct ! 0 = (ED25519_PROGRAM_ID, expected_ed_header sample_burn_direct 428)"
    by (simp add: sample_burn_call_def sample_burn_params_def sample_burn_data_facts)
  ultimately show ?thesis by blast
qed

text \<open>C17: A burn called by another program need not be signed by the user.  The instruction the Ed25519 header
  points into is the transaction's current one, which gateway_burn does not compare with itself: when another program
  calls it, the offsets are read in that program's data.  Here such a call with a burn signer's signature burns Alice's
  deposit, although the precompile accepted the transaction with a scheme in which no signature of Alice's
  verifies: it checked Mallory's.\<close>

theorem burn_cpi_unbound:
  "\<exists>tx l' es. wallet_entry sample_platform tx (wallet_keys [W_EVENTS, WALLET_PROGRAM_ID] sample_burn_ix)
      sample_burn_call_data sample_ledger = Inr (l', es) \<and>
    (\<exists>mint h domain recipient n fee fa fw.
       GatewayBurned mint ALICE h domain recipient ALICE n fee fa fw \<in> set es) \<and>
    fst (tx_instructions tx ! unat (tx_index tx)) \<noteq> WALLET_PROGRAM_ID \<and>
    ed25519_checked mallory_signs tx \<and> (\<nexists>m s. mallory_signs ALICE m s)"
proof -
  let ?tx = "sample_burn_call (key 14, replicate 600 13)"
  obtain l' es where run: "gateway_burn sample_platform ?tx sample_burn_ctx sample_burn_params sample_ledger = Inr (l', es)"
    using sample_burn_call_runs by blast
  have "\<exists>mint h domain recipient n fee fa fw. GatewayBurned mint ALICE h domain recipient ALICE n fee fa fw \<in> set es"
    using gateway_burn_effect [OF sample_platform_ok _ run] sample_burn_data_facts
    by (auto simp: burn_executed_def Let_def sample_burn_params_def sample_intent_def)
  moreover from run have "wallet_entry sample_platform ?tx (wallet_keys [W_EVENTS, WALLET_PROGRAM_ID] sample_burn_ix)
      sample_burn_call_data sample_ledger = Inr (l', es)"
    using sample_wallet_call [OF sample_args_ok(1), of ?tx sample_ledger l' es "[]"] by (simp add: sample_burn_call_data_def)
  moreover have "ed25519_checked mallory_signs ?tx"
  proof (rule sample_checked)
    show "fst (key 14, replicate 600 13) \<noteq> ED25519_PROGRAM_ID" by (simp add: key_list ED25519_PROGRAM_ID_def)
  qed (simp add: mallory_signs_def MALLORY_def key_def)
  moreover have "\<nexists>m s. mallory_signs ALICE m s" by (simp add: mallory_signs_def MALLORY_def ALICE_def key_list)
  moreover have "fst (tx_instructions ?tx ! unat (tx_index ?tx)) \<noteq> WALLET_PROGRAM_ID"
    by (simp add: sample_burn_call_def key_list WALLET_PROGRAM_ID_def)
  ultimately show ?thesis by blast
qed

end
