(* ===== verification/MintProgress.thy ===== *)
theory MintProgress
  imports MintSpec
begin

text \<open>
  gateway_mint succeeds whenever it should.  \<open>mint_ready\<close> says what the ledger has to offer: for every element a
  custody account and a recipient of its token that can take part in a transfer, an unused marker address, enough
  tokens in each custody account for all the elements that draw on it, and rent for the markers.  The element's
  steps cannot fail then, they keep the rest of the list ready, and so the loop runs to the end.
\<close>

section \<open>Readiness\<close>

text \<open>What one element needs; \<open>cust\<close> and \<open>mark\<close> are the first and the third of its accounts.\<close>

definition release_ready ::
    "platform \<Rightarrow> transaction \<Rightarrow> GatewayMintContext \<Rightarrow> GatewayMinter \<Rightarrow> ledger \<Rightarrow> MintAttestationElementStruct \<Rightarrow>
     pubkey \<Rightarrow> pubkey \<Rightarrow> bool" where
  "release_ready pf tx c m l e cust mark \<longleftrightarrow>
     custody_address pf m (el_destination_token e) = Some cust \<and> 0 < el_value e \<and>
     (\<exists>t. tok_at l cust = Some t \<and> ta_mint t = el_destination_token e \<and> spendable (gc_gateway_minter c) t) \<and>
     (\<exists>t. tok_at l (el_destination_recipient e) = Some t \<and> ta_mint t = el_destination_token e \<and> ta_state t \<noteq> Frozen) \<and>
     (\<exists>b. try_bumps pf [USED_TRANSFER_SPEC_HASH_SEED_PREFIX, el_transfer_spec_hash e] MINTER_PROGRAM_ID 255 = Some (mark, b)) \<and>
     acc_owner (l mark) = SYSTEM_PROGRAM_ID \<and> acc_data (l mark) = Raw [] \<and> mark \<noteq> gc_payer c \<and>
     {cust, el_destination_recipient e, mark} \<subseteq> set (tx_writable tx)"

type_synonym release = "MintAttestationElementStruct \<times> pubkey \<times> pubkey"

definition release_accounts :: "release \<Rightarrow> pubkey list" where
  "release_accounts = (\<lambda>(e, cust, mark). [cust, el_destination_recipient e, mark])"

definition mint_ready ::
    "platform \<Rightarrow> transaction \<Rightarrow> GatewayMintContext \<Rightarrow> GatewayMinter \<Rightarrow> ledger \<Rightarrow> release list \<Rightarrow> bool" where
  "mint_ready pf tx c m l rs \<longleftrightarrow>
     (\<forall>(e, cust, mark) \<in> set rs. release_ready pf tx c m l e cust mark) \<and> distinct (map (snd \<circ> snd) rs) \<and>
     payer_ready pf l (gc_payer c) (length rs) \<and>
     (\<forall>k. outflow pf m (map fst rs) k \<le> amount_at l k \<and> amount_at l k + inflow (map fst rs) k < 2 ^ 64)"

section \<open>One element\<close>

lemma payer_ready_step:
  assumes ready: "payer_ready pf l payer (Suc n)"
    and cost: "unat (acc_lamports (l payer)) \<le> unat (acc_lamports (l1 payer)) + unat (marker_rent pf)"
    and same: "acc_owner (l1 payer) = acc_owner (l payer)" "acc_data (l1 payer) = acc_data (l payer)"
    and moved: "transferred l1 src dst a v l'"
  shows "payer_ready pf l' payer n"
proof -
  have "acc_owner (l1 payer) \<noteq> TOKEN_PROGRAM_ID" using ready same by (simp add: payer_ready_def)
  then have "payer \<noteq> src" "payer \<noteq> dst" using transferred_frame(1,2) [OF moved] by auto
  then have "l' payer = l1 payer" by (rule transferred_frame(4) [OF moved])
  with ready cost same show ?thesis by (simp add: payer_ready_def)
qed

lemma release_readyE:
  assumes "release_ready pf tx c m l e cust mark"
  obtains t u b cb where "tok_at l cust = Some t" "ta_mint t = el_destination_token e" "spendable (gc_gateway_minter c) t"
    "tok_at l (el_destination_recipient e) = Some u" "ta_mint u = el_destination_token e" "ta_state u \<noteq> Frozen"
    "try_bumps pf [USED_TRANSFER_SPEC_HASH_SEED_PREFIX, el_transfer_spec_hash e] MINTER_PROGRAM_ID 255 = Some (mark, b)"
    "minter_get_custody_token_account_bump m (el_destination_token e) = Inr cb"
    "create_program_address pf [GATEWAY_MINTER_CUSTODY_SEED, el_destination_token e, [cb]] MINTER_PROGRAM_ID = Inr cust"
  using assms unfolding release_ready_def custody_address_def by (auto split: sum.splits)

lemma mint_element_progress:
  assumes ok: "system_program_ok pf" and live: "system_program_live pf"
    and e: "current_element a = Inr e" and ready: "release_ready pf tx c m l e cust mark"
    and g: "minter_at l (gc_gateway_minter c) = Some m"
      "create_program_address pf [GATEWAY_MINTER_SEED, [gm_bump m]] MINTER_PROGRAM_ID = Inr (gc_gateway_minter c)"
    and accts: "i + 2 < length (gc_remaining_accounts c)" "gc_remaining_accounts c ! i = cust"
      "gc_remaining_accounts c ! (i + 1) = el_destination_recipient e" "gc_remaining_accounts c ! (i + 2) = mark"
    and payer: "gc_payer c \<in> set (tx_signers tx)" "gc_payer c \<in> set (tx_writable tx)"
      "payer_ready pf l (gc_payer c) (Suc n)"
    and funds: "unat (el_value e) \<le> amount_at l cust"
      "amount_at l (el_destination_recipient e) + unat (el_value e) < 2 ^ 64"
  shows "\<exists>l'. mint_element pf tx c m a (i, l, es) = Inr (i + 3, l', es @ [attestation_event e]) \<and>
    released pf (gc_gateway_minter c) m e cust mark l l' \<and> payer_ready pf l' (gc_payer c) n"
proof -
  let ?g = "gc_gateway_minter c" and ?rec = "el_destination_recipient e" and ?h = "el_transfer_spec_hash e"
  from ready obtain t u b cb where t: "tok_at l cust = Some t" "ta_mint t = el_destination_token e" "spendable ?g t"
    and u: "tok_at l ?rec = Some u" "ta_mint u = el_destination_token e" "ta_state u \<noteq> Frozen"
    and b: "try_bumps pf [USED_TRANSFER_SPEC_HASH_SEED_PREFIX, ?h] MINTER_PROGRAM_ID 255 = Some (mark, b)"
    and cb: "minter_get_custody_token_account_bump m (el_destination_token e) = Inr cb"
      "create_program_address pf [GATEWAY_MINTER_CUSTODY_SEED, el_destination_token e, [cb]] MINTER_PROGRAM_ID = Inr cust"
    by (rule release_readyE)
  have mark: "acc_owner (l mark) = SYSTEM_PROGRAM_ID" "acc_data (l mark) = Raw []" "gc_payer c \<noteq> mark"
    and writable: "{gc_payer c, mark} \<subseteq> set (tx_writable tx)" "{cust, ?rec} \<subseteq> set (tx_writable tx)" and pos: "0 < el_value e"
    using ready payer(2) by (auto simp: release_ready_def)
  have disc: "length MINTER_USED_MARKER = 2" by (simp add: MINTER_USED_MARKER_def)
  obtain l1 where unused: "\<not> is_transfer_spec_hash_used (acc_data (l mark)) MINTER_USED_MARKER"
    and l1: "create_used_transfer_spec_hash_account pf tx mark ?h b (gc_payer c) MINTER_PROGRAM_ID MINTER_USED_MARKER l
      = (Inr l1 :: ledger minter_result)"
    and made: "account_made l mark MINTER_PROGRAM_ID (Raw MINTER_USED_MARKER) l1"
    and cost: "unat (acc_lamports (l (gc_payer c))) \<le> unat (acc_lamports (l1 (gc_payer c))) + unat (marker_rent pf)"
    using unused_marker_progress [OF ok live b mark payer(1) writable(1) payer(3) disc] by blast
  have marking: "process_used_transfer_spec_hash pf tx ?h mark (gc_payer c) l = Inr (?h, l1)"
    by (simp add: process_used_transfer_spec_hash_def find_program_address_def b unused l1)
  have single: "acc_owner (l1 ?g) \<noteq> TOKEN_PROGRAM_ID"
    using g(1) account_madeD(5) [OF made, of ?g] mark(1) by (cases "?g = mark") (auto simp: typed_Some)
  obtain l' where mint: "mint_token pf tx cust ?rec ?g (gm_bump m) (el_value e) l1 = Inr l'"
    and moved: "transferred l1 cust ?rec ?g (el_value e) l'"
    unfolding mint_token_def
    using pda_transfer_progress [where l = l1 and tx = tx and n = "el_value e", OF tok_at_made [OF made t(1)] t(3)
        tok_at_made [OF made u(1)] _ u(3) single g(2) _ _ writable(2)] t(2) u(2) funds amount_at_made [OF made] by auto
  have checks: "validate_custody_token_account pf l cust m ?g = Inr t" "validate_destination_token_account l ?rec = Inr u"
    using t u cb
    by (simp_all add: spendable_def validate_custody_token_account_def validate_destination_token_account_def and_then_eq_Inr
        require_eq_Inr map_err_eq_Inr load_typed)
  have idx: "index_checked (gc_remaining_accounts c) i = (Inr cust :: pubkey minter_result)"
    "index_checked (gc_remaining_accounts c) (i + 1) = (Inr ?rec :: pubkey minter_result)"
    "index_checked (gc_remaining_accounts c) (i + 2) = (Inr mark :: pubkey minter_result)"
    using accts by (simp_all add: index_checked_def)
  have run: "mint_element pf tx c m a (i, l, es) = Inr (i + 3, l', es @ [attestation_event e])"
    using e [unfolded current_element_Inr] pos
    by (simp add: mint_element_def idx [simplified] checks marking mint t u attestation_event_def)
  have "released pf ?g m e cust mark l l'"
    unfolding released_def using t u b cb pos unused made moved by (auto simp: spendable_def)
  with run payer_ready_step [OF payer(3) cost account_madeD(5,6) [OF made mark(3)] moved] show ?thesis by blast
qed

section \<open>The loop\<close>

text \<open>A release leaves every other non-token account alone, and token accounts keep their identity.\<close>

lemma released_elsewhere:
  assumes "released pf g m e cust mark l l'" "j \<noteq> mark" "acc_owner (l j) \<noteq> TOKEN_PROGRAM_ID"
  shows "acc_owner (l' j) = acc_owner (l j) \<and> acc_data (l' j) = acc_data (l j)"
proof -
  from assms(1) obtain l1 where made: "account_made l mark MINTER_PROGRAM_ID (Raw MINTER_USED_MARKER) l1"
    and tr: "transferred l1 cust (el_destination_recipient e) g (el_value e) l'"
    unfolding released_def by blast
  note same = account_madeD(5,6) [OF made assms(2)]
  then have "j \<noteq> cust" "j \<noteq> el_destination_recipient e" using transferred_frame(1,2) [OF tr] assms(3) by auto
  from transferred_frame(4) [OF tr this] same show ?thesis by simp
qed

lemma released_tok:
  assumes "released pf g m e cust mark l l'" "tok_at l k = Some t"
  shows "\<exists>t'. tok_at l' k = Some t' \<and> same_account_identity t t'"
proof -
  from assms(1) obtain l1 where made: "account_made l mark MINTER_PROGRAM_ID (Raw MINTER_USED_MARKER) l1"
    and moved: "only_tokens_moved l1 l'"
    unfolding released_def by (blast intro: transferred_only_tokens)
  from tok_at_only_tokens [OF moved tok_at_made [OF made assms(2)]] show ?thesis .
qed

lemma release_ready_kept:
  assumes rel: "released pf g m e cust mark l l'" and ready: "release_ready pf tx c m l e' cust' mark'" and ne: "mark' \<noteq> mark"
  shows "release_ready pf tx c m l' e' cust' mark'"
proof -
  have "acc_owner (l mark') = SYSTEM_PROGRAM_ID" "acc_data (l mark') = Raw []"
    using ready by (simp_all add: release_ready_def)
  then have "acc_owner (l' mark') = SYSTEM_PROGRAM_ID" "acc_data (l' mark') = Raw []"
    using released_elsewhere [OF rel ne] by simp_all
  with ready show ?thesis
    unfolding release_ready_def by (auto dest!: released_tok [OF rel] simp: spendable_def same_account_identity_def)
qed

lemma mint_ready_kept:
  assumes ready: "mint_ready pf tx c m l ((e, cust, mark) # rs)" and rel: "released pf g m e cust mark l l'"
    and payer: "payer_ready pf l' (gc_payer c) (length rs)"
  shows "mint_ready pf tx c m l' rs"
proof -
  have "release_ready pf tx c m l' e' cust' mark'" if "(e', cust', mark') \<in> set rs" for e' cust' mark'
    using release_ready_kept [OF rel, of tx c e' cust' mark'] ready that by (force simp: mint_ready_def)
  moreover have "outflow pf m (map fst rs) k \<le> amount_at l' k \<and> amount_at l' k + inflow (map fst rs) k < 2 ^ 64" for k
  proof -
    have "outflow pf m (map fst ((e, cust, mark) # rs)) k \<le> amount_at l k"
      "amount_at l k + inflow (map fst ((e, cust, mark) # rs)) k < 2 ^ 64"
      using ready unfolding mint_ready_def by blast+
    with released_amounts [OF rel, of k] show ?thesis
      by (auto simp: outflow_def inflow_def split: if_splits)
  qed
  ultimately show ?thesis using ready payer by (auto simp: mint_ready_def)
qed

lemma mint_ready_funds:
  assumes "mint_ready pf tx c m l ((e, cust, mark) # rs)"
  shows "unat (el_value e) \<le> amount_at l cust" "amount_at l (el_destination_recipient e) + unat (el_value e) < 2 ^ 64"
proof -
  have "custody_address pf m (el_destination_token e) = Some cust"
    and all: "outflow pf m (map fst ((e, cust, mark) # rs)) k \<le> amount_at l k"
      "amount_at l k + inflow (map fst ((e, cust, mark) # rs)) k < 2 ^ 64" for k
    using assms unfolding mint_ready_def release_ready_def by auto
  with all(1) [of cust] all(2) [of "el_destination_recipient e"]
  show "unat (el_value e) \<le> amount_at l cust" "amount_at l (el_destination_recipient e) + unat (el_value e) < 2 ^ 64"
    by (auto simp: outflow_def inflow_def)
qed

lemma mint_loop_progress:
  assumes ok: "system_program_ok pf" and live: "system_program_live pf"
    and pda: "create_program_address pf [GATEWAY_MINTER_SEED, [gm_bump m]] MINTER_PROGRAM_ID = Inr (gc_gateway_minter c)"
    and payer: "gc_payer c \<in> set (tx_signers tx)" "gc_payer c \<in> set (tx_writable tx)"
  shows "minter_at l (gc_gateway_minter c) = Some m \<Longrightarrow> mint_ready pf tx c m l rs \<Longrightarrow>
    \<forall>a \<in> set as. current_element a = Inr (view_element a) \<Longrightarrow> map view_element as = map fst rs \<Longrightarrow>
    drop i (gc_remaining_accounts c) = concat (map release_accounts rs) \<Longrightarrow>
    \<exists>l'. fold_result (mint_element pf tx c m) as (i, l, es) =
      Inr (i + 3 * length rs, l', es @ map (attestation_event \<circ> fst) rs)"
proof (induction rs arbitrary: as i l es)
  case (Cons r rs)
  obtain e cust mark where r: "r = (e, cust, mark)" by (cases r)
  from Cons.prems(4) obtain a as' where as: "as = a # as'" "view_element a = e" "map view_element as' = map fst rs"
    by (auto simp: r map_eq_Cons_conv)
  have e: "current_element a = Inr e" using Cons.prems(3) as by simp
  have d: "drop i (gc_remaining_accounts c) = [cust, el_destination_recipient e, mark] @ concat (map release_accounts rs)"
    using Cons.prems(5) by (simp add: r release_accounts_def)
  then have nth: "gc_remaining_accounts c ! (i + j) = ([cust, el_destination_recipient e, mark] @ concat (map release_accounts rs)) ! j"
    and len: "i + 2 < length (gc_remaining_accounts c)"
    and rest: "drop (i + 3) (gc_remaining_accounts c) = concat (map release_accounts rs)" for j
  proof -
    from d have "length (drop i (gc_remaining_accounts c)) \<ge> 3" by simp
    then show "i + 2 < length (gc_remaining_accounts c)" by simp
    then show "gc_remaining_accounts c ! (i + j) = ([cust, el_destination_recipient e, mark] @ concat (map release_accounts rs)) ! j"
      unfolding d [symmetric] by simp
    have "drop 3 (drop i (gc_remaining_accounts c)) = concat (map release_accounts rs)" unfolding d by simp
    then show "drop (i + 3) (gc_remaining_accounts c) = concat (map release_accounts rs)" by (simp add: add.commute)
  qed
  have ready: "release_ready pf tx c m l e cust mark" and pr: "payer_ready pf l (gc_payer c) (Suc (length rs))"
    using Cons.prems(2) by (simp_all add: mint_ready_def r)
  obtain l1 where step: "mint_element pf tx c m a (i, l, es) = Inr (i + 3, l1, es @ [attestation_event e])"
    and rel: "released pf (gc_gateway_minter c) m e cust mark l l1" and pr': "payer_ready pf l1 (gc_payer c) (length rs)"
    using mint_element_progress [OF ok live e ready Cons.prems(1) pda len _ _ _ payer pr
        mint_ready_funds [OF Cons.prems(2) [unfolded r]], of es] nth [of 0] nth [of 1] nth [of 2] by auto
  have "mark \<noteq> gc_gateway_minter c" using ready Cons.prems(1) by (auto simp: release_ready_def typed_Some)
  then have minter: "minter_at l1 (gc_gateway_minter c) = Some m"
    using released_elsewhere [OF rel, of "gc_gateway_minter c"] Cons.prems(1) by (auto simp: typed_Some)
  have "\<forall>a \<in> set as'. current_element a = Inr (view_element a)" using Cons.prems(3) as by simp
  from Cons.IH [OF minter mint_ready_kept [OF Cons.prems(2) [unfolded r] rel pr'] this as(3) rest,
      of "es @ [attestation_event e]"] obtain l' where
    "fold_result (mint_element pf tx c m) as' (i + 3, l1, es @ [attestation_event e]) =
      Inr (i + 3 + 3 * length rs, l', (es @ [attestation_event e]) @ map (attestation_event \<circ> fst) rs)" by blast
  then show ?case by (auto simp: as step r algebra_simps)
qed simp

section \<open>The instruction\<close>

lemma header_progress:
  assumes s: "valid_attestation s" "length (encode_attestation s) < 2 ^ 64" "attestation_new (encode_attestation s) = Inr a"
    and fields: "as_version s = gm_version m" "as_destination_domain s = gm_local_domain m"
      "as_destination_contract s = MINTER_PROGRAM_ID" "tx_slot tx \<le> as_max_block_height s"
      "as_destination_caller s \<in> {default_pubkey, gc_destination_caller c}"
    and n: "length (gc_remaining_accounts c) = 3 * n" "3 * n < 2 ^ 32" "unat (ma_num_elements a) = n"
  shows "check_attestation_header tx c m a = Inr ()"
proof -
  note st = encode_attestation_structure [OF s(1,2)] and r = attestation_new_ready [OF s(2,3)]
  have "88 \<le> length (ma_data a)" "length (ma_data a) < 2 ^ 64" using r s(2) by auto
  note h = header_accessors [OF this]
  have "version a = Inr (as_version s)" "max_block_height a = Inr (as_max_block_height s)"
    "destination_caller a = Inr (as_destination_caller s)" "destination_domain a = Inr (as_destination_domain s)"
    "destination_contract a = Inr (as_destination_contract s)" "num_attestations a = Inr (ma_num_elements a)"
    using h [OF header_at_def [THEN trans], OF refl] arg_cong [OF st(3), of as_version]
      arg_cong [OF st(3), of as_max_block_height] arg_cong [OF st(3), of as_destination_caller]
      arg_cong [OF st(3), of as_destination_domain] arg_cong [OF st(3), of as_destination_contract] r(3,5)
    by (simp_all add: struct_at_def)
  moreover have "mul_u32 (ma_num_elements a) 3 = (Inr (ma_num_elements a * 3) :: u32 minter_result)"
    "unat (ma_num_elements a * 3) = 3 * n"
    using n by (simp_all add: mul_u32_def unat_word_ariths)
  ultimately show ?thesis
    using fields n(1) by (auto simp: check_attestation_header_def require_def)
qed

text \<open>C19: A proper attestation can always be redeemed.  When an enabled attester signed the encoding of a valid
  attestation set for this version, domain and program that has not expired and names nobody or the signing
  caller, the minter runs, the accounts passed are the custody account, the recipient and the unused marker of each
  element in turn, custody covers the values and the signing payer the rents, then gateway_mint succeeds with one event per
  element: no check, transfer or arithmetic step of any round fails.\<close>

theorem mint_succeeds:
  assumes ok: "system_program_ok pf" and live: "system_program_live pf"
    and m: "minter_at l (gc_gateway_minter c) = Some m" "\<not> gm_paused m"
      "create_program_address pf [GATEWAY_MINTER_SEED, [gm_bump m]] MINTER_PROGRAM_ID = Inr (gc_gateway_minter c)"
    and sig: "recover_evm_signer pf (ethereum_signed_message_hash pf (keccak256 pf (gp_attestation params)))
        (gp_signature params) = Inr attester" "attester \<in> set (gm_enabled_attesters m)"
    and s: "gp_attestation params = encode_attestation s" "valid_attestation s" "length (encode_attestation s) < 2 ^ 64"
      "as_version s = gm_version m" "as_destination_domain s = gm_local_domain m"
      "as_destination_contract s = MINTER_PROGRAM_ID" "tx_slot tx \<le> as_max_block_height s"
      "as_destination_caller s \<in> {default_pubkey, gc_destination_caller c}"
    and tx: "{gc_payer c, gc_destination_caller c} \<subseteq> set (tx_signers tx)" "gc_payer c \<in> set (tx_writable tx)"
      "gc_system_program c = SYSTEM_PROGRAM_ID" "gc_token_program c = TOKEN_PROGRAM_ID"
    and rs: "map fst rs = as_elements s" "gc_remaining_accounts c = concat (map release_accounts rs)"
      "3 * length rs < 2 ^ 32" "mint_ready pf tx c m l rs"
  shows "\<exists>l'. gateway_mint pf tx c params l = Inr (l', map attestation_event (as_elements s))"
proof -
  let ?bs = "encode_attestation s"
  note st = encode_attestation_structure [OF s(2,3)]
  from st(1) obtain a where new: "attestation_new ?bs = Inr a" by blast
  note r = attestation_new_ready [OF s(3) new]
  have els: "set_elements ?bs = map fst rs" using arg_cong [OF st(3), of as_elements] rs(1) by (simp add: struct_at_def)
  have num: "unat (ma_num_elements a) = length rs"
    using arg_cong [OF els, of length] by (simp add: set_elements_def set_views_def Let_def r(5))
  have three: "length (gc_remaining_accounts c) = 3 * length rs"
    unfolding rs(2) by (induction rs) (auto simp: release_accounts_def)
  have acc: "gateway_mint_accounts pf tx c l = Inr m"
    using m tx by (simp add: gateway_mint_accounts_Inr)
  have ver: "verify_attestation_signature pf m (ethereum_signed_message_hash pf (keccak256 pf ?bs)) (gp_signature params) = Inr ()"
    using sig s(1) by (auto simp: verify_attestation_signature_Inr)
  have hdr: "check_attestation_header tx c m a = Inr ()"
    by (rule header_progress [OF s(2,3) new s(4-8) three rs(3) num])
  have views: "\<forall>v \<in> set (set_views ?bs). current_element v = Inr (view_element v)"
    using set_views_valid [OF st(2)] s(3) by (auto simp: current_element_at view_element_def)
  obtain l' where "fold_result (mint_element pf tx c m) (set_views ?bs) (0, l, []) =
      Inr (0 + 3 * length rs, l', [] @ map (attestation_event \<circ> fst) rs)"
    using mint_loop_progress [OF ok live m(3) _ tx(2) m(1) rs(4) views, of 0 "[]"] tx(1) els rs(2)
    by (auto simp: set_elements_def)
  then have "while_next (mint_element pf tx c m) a (0, l, []) =
      Inr (3 * length rs, l', map (attestation_event \<circ> fst) rs)"
    by (simp add: while_next_fold [OF s(3) new] st(2))
  then show ?thesis
    unfolding gateway_mint_def acc s(1) Let_def and_then_Inr ver new hdr
    by (simp add: three comp_def flip: rs(1))
qed

lemma amount_at_bound: "amount_at l k < 2 ^ 64"
  using unat_u64_less by (simp add: amount_at_def split: account_data.splits)

theorem mint_succeeds_witness:
  "\<exists>l'. gateway_mint sample_platform sample_mint_tx sample_mint_ctx sample_mint_params minter_ledger =
     Inr (l', [attestation_event sample_set_element])"
proof -
  let ?rs = "[(sample_set_element, M_CUSTODY, M_MARK)]"
  obtain signer where sig: "recover_evm_signer sample_platform (ethereum_signed_message_hash sample_platform
      (keccak256 sample_platform (gp_attestation sample_mint_params))) (gp_signature sample_mint_params) = Inr signer"
      "signer \<in> set (gm_enabled_attesters sample_minter)"
    using sample_attester by (auto simp: verify_attestation_signature_Inr sample_mint_params_def)
  have address: "custody_address sample_platform sample_minter MINT_KEY = Some M_CUSTODY"
    by (simp add: custody_address_def)
  have flows: "outflow sample_platform sample_minter [sample_set_element] k = (if k = M_CUSTODY then 30 else 0)"
    "inflow [sample_set_element] k = (if k = ALICE_TOKENS then 30 else 0)" for k
    using address by (auto simp: outflow_def inflow_def sample_set_element_def)
  have funds: "outflow sample_platform sample_minter [sample_set_element] k \<le> amount_at minter_ledger k \<and>
      amount_at minter_ledger k + inflow [sample_set_element] k < 2 ^ 64" for k
    unfolding flows using amount_at_bound [of minter_ledger k] by (auto simp: amount_at_def)
  have ready: "mint_ready sample_platform sample_mint_tx sample_mint_ctx sample_minter minter_ledger ?rs"
    using funds address
    by (auto simp: mint_ready_def release_ready_def payer_ready_def spendable_def sample_mint_ctx_def sample_mint_tx_def
        sample_set_element_def typed_def empty_account_def)
  show ?thesis
    using mint_succeeds [OF sample_platform_ok sample_platform_live, of minter_ledger sample_mint_ctx sample_minter
        sample_mint_params signer sample_set sample_mint_tx ?rs] sig ready sample_set_valid
    by (simp add: minter_ledger_views sample_mint_ctx_def sample_mint_params_def sample_set_bytes_def sample_set_def
        sample_mint_tx_def release_accounts_def) (simp add: sample_set_element_def)
qed

end
