(* ===== verification/BurnProgress.thy ===== *)
theory BurnProgress
  imports WalletSpec
begin

text \<open>
  gateway_burn succeeds whenever it should.  \<open>burn_ready\<close> says what the ledger has to offer, \<open>intent_ready\<close> what the
  message has to say.  The checks then pass, and the ledger steps behind them (the marker, the fee, the burn, the
  record) cannot fail, whatever the deposit holds: a short deposit is paid as far as it goes.
\<close>

section \<open>Readiness\<close>

text \<open>The optional delegate account: the depositor signs alone, or the account of a delegate is passed.\<close>

definition delegate_ready ::
    "platform \<Rightarrow> GatewayBurnContext \<Rightarrow> ledger \<Rightarrow> pubkey \<Rightarrow> pubkey \<Rightarrow> GatewayDelegate option \<Rightarrow> bool" where
  "delegate_ready pf c l depositor signer dlg \<longleftrightarrow> (case dlg of
     None \<Rightarrow> gb_delegate_account c = WALLET_PROGRAM_ID \<and> signer = depositor
   | Some g \<Rightarrow> gb_delegate_account c \<noteq> WALLET_PROGRAM_ID \<and> delegate_at l (gb_delegate_account c) = Some g \<and>
       create_program_address pf [GATEWAY_DELEGATE_SEED, gb_token_mint c, del_depositor g, del_delegate g, [del_bump g]]
         WALLET_PROGRAM_ID = Inr (gb_delegate_account c) \<and>
       (signer = depositor \<or> del_depositor g = depositor \<and> del_delegate g = signer \<and> del_status g \<noteq> Unauthorized))"

definition intent_ready :: "transaction \<Rightarrow> GatewayBurnContext \<Rightarrow> GatewayWallet \<Rightarrow> GatewayDeposit \<Rightarrow> BurnMessage \<Rightarrow> bool" where
  "intent_ready tx c w d m \<longleftrightarrow> valid_burn_message m \<and>
     bm_version m = gw_version w \<and> tx_slot tx \<le> bm_max_block_height m \<and> bm_source_domain m = gw_local_domain w \<and>
     bm_source_contract m = WALLET_PROGRAM_ID \<and> bm_source_token m = gb_token_mint c \<and>
     bm_source_depositor m = dep_depositor d \<and> bm_fee m \<le> bm_max_fee m \<and> unat (bm_value m) + unat (bm_fee m) < 2 ^ 64"

text \<open>The wallet and its custody, the mint, the fee recipient's account and the deposit record.\<close>

definition burn_ready ::
    "platform \<Rightarrow> transaction \<Rightarrow> GatewayBurnContext \<Rightarrow> ledger \<Rightarrow> GatewayWallet \<Rightarrow> GatewayDeposit \<Rightarrow> BurnMessage \<Rightarrow> bool" where
  "burn_ready pf tx c l w d m \<longleftrightarrow>
     wallet_running pf l (gb_gateway_wallet c) w \<and>
     custody_of pf l (gb_gateway_wallet c) w (gb_token_mint c) (gb_custody_token_account c) \<and>
     (\<exists>t. tok_at l (gb_custody_token_account c) = Some t \<and> spendable (gb_gateway_wallet c) t) \<and>
     unat (bm_value m) + unat (bm_fee m) \<le> amount_at l (gb_custody_token_account c) \<and>
     (\<exists>mi. typed TOKEN_PROGRAM_ID as_mint l (gb_token_mint c) = Some mi \<and> bm_value m \<le> mi_supply mi) \<and>
     (\<exists>u. tok_at l (gb_fee_recipient_token_account c) = Some u \<and> ta_owner u = gw_fee_recipient w \<and>
          ta_mint u = gb_token_mint c \<and> ta_state u \<noteq> Frozen) \<and>
     amount_at l (gb_fee_recipient_token_account c) + unat (bm_fee m) < 2 ^ 64 \<and>
     (\<exists>b. try_bumps pf [gw_fee_recipient w, TOKEN_PROGRAM_ID, gb_token_mint c] ASSOCIATED_TOKEN_PROGRAM_ID 255
        = Some (gb_fee_recipient_token_account c, b)) \<and>
     deposit_at l (gb_deposit c) = Some d \<and>
     create_program_address pf [GATEWAY_DEPOSIT_SEED, gb_token_mint c, dep_depositor d, [dep_bump d]]
       WALLET_PROGRAM_ID = Inr (gb_deposit c)"

text \<open>The transaction: the payer signed, what is written is writable, and the programs are the named ones.\<close>

definition burn_call_ready :: "transaction \<Rightarrow> GatewayBurnContext \<Rightarrow> bool" where
  "burn_call_ready tx c \<longleftrightarrow> gb_payer c \<in> set (tx_signers tx) \<and>
     {gb_payer c, gb_token_mint c, gb_custody_token_account c, gb_fee_recipient_token_account c, gb_deposit c}
       \<subseteq> set (tx_writable tx) \<and>
     gb_system_program c = SYSTEM_PROGRAM_ID \<and> gb_token_program c = TOKEN_PROGRAM_ID \<and>
     gb_associated_token_program c = ASSOCIATED_TOKEN_PROGRAM_ID \<and> gb_instructions_sysvar c = INSTRUCTIONS_SYSVAR_ID"

section \<open>The checks pass\<close>

lemma burn_accounts_progress:
  assumes ready: "burn_ready pf tx c l w d m" and call: "burn_call_ready tx c"
    and dlg: "delegate_ready pf c l (dep_depositor d) signer dlg" and t: "tok_at l (gb_custody_token_account c) = Some t"
  shows "gateway_burn_accounts pf tx c l = Inr (w, t, d, dlg)"
proof -
  from ready obtain u mi b where u: "tok_at l (gb_fee_recipient_token_account c) = Some u" "ta_owner u = gw_fee_recipient w"
    and mi: "typed TOKEN_PROGRAM_ID as_mint l (gb_token_mint c) = Some mi"
    and b: "try_bumps pf [gw_fee_recipient w, TOKEN_PROGRAM_ID, gb_token_mint c] ASSOCIATED_TOKEN_PROGRAM_ID 255
        = Some (gb_fee_recipient_token_account c, b)"
    unfolding burn_ready_def by blast
  have optional: "load_optional_delegate l (gb_delegate_account c) = Inr dlg"
    "check_delegate_pda pf (gb_delegate_account c) (gb_token_mint c) dlg = Inr ()"
    using dlg
    by (auto simp: delegate_ready_def load_optional_delegate_def check_delegate_pda_def and_then_eq_Inr load_typed
        check_seeds_bump_Inr split: option.splits)
  have mint: "load_mint l (gb_token_mint c) = (Inr mi :: Mint wallet_result)"
    using mi by (simp add: typed_Some load_typed_Inr as_data_Some)
  have fee: "check_associated_token pf l (gb_fee_recipient_token_account c) u (gw_fee_recipient w) (gb_token_mint c) = Inr ()"
    using u b
    by (auto simp: check_associated_token_def get_associated_token_address_def and_then_eq_Inr require_eq_Inr
        check_token_Inr find_program_address_Inr typed_Some)
  have known: "wallet_running pf l (gb_gateway_wallet c) w" "deposit_at l (gb_deposit c) = Some d"
    "create_program_address pf [GATEWAY_DEPOSIT_SEED, gb_token_mint c, dep_depositor d, [dep_bump d]]
       WALLET_PROGRAM_ID = Inr (gb_deposit c)"
    "custody_of pf l (gb_gateway_wallet c) w (gb_token_mint c) (gb_custody_token_account c)"
    using ready by (simp_all add: burn_ready_def)
  then have loads: "load_wallet l (gb_gateway_wallet c) = (Inr w :: GatewayWallet wallet_result)"
    "load_token l (gb_custody_token_account c) = (Inr t :: TokenAccount wallet_result)"
    "load_token l (gb_fee_recipient_token_account c) = (Inr u :: TokenAccount wallet_result)"
    "load_deposit l (gb_deposit c) = (Inr d :: GatewayDeposit wallet_result)"
    using t u by (simp_all add: load_typed wallet_running_def)
  have checks: "check_wallet_pda pf (gb_gateway_wallet c) w = Inr ()" "check_not_paused w = Inr ()"
    "check_custody_pda pf w (gb_token_mint c) (gb_custody_token_account c) = Inr ()"
    "check_token_owner t (gb_gateway_wallet c) = (Inr () :: unit wallet_result)"
    "check_token_mint t (gb_token_mint c) = (Inr () :: unit wallet_result)"
    "check_seeds_bump pf WALLET_PROGRAM_ID (gb_deposit c) [GATEWAY_DEPOSIT_SEED, gb_token_mint c, dep_depositor d]
       (dep_bump d) = (Inr () :: unit wallet_result)"
    using known t by (auto simp: check_wallet_Inr check_token_Inr check_seeds_bump_Inr wallet_running_def custody_of_def)
  show ?thesis
    using call unfolding gateway_burn_accounts_def loads mint optional fee checks and_then_Inr burn_call_ready_def
    by (simp add: load_signer_def load_program_def check_mut_def loads optional mint checks fee)
qed

lemma intent_progress:
  assumes intent: "intent_ready tx c w d m" and dlg: "delegate_ready pf c l (dep_depositor d) (bm_source_signer m) dlg"
    and custody: "unat (bm_value m) + unat (bm_fee m) \<le> unat (ta_amount t)"
  defines "bs \<equiv> encode_burn_message m"
  shows "check_burn_intent tx c w t d dlg bs = Inr (bm_value m, bm_fee m)"
    "burn_intent_message_length bs = Inr (length bs - 72)"
    "bd_transfer_spec_hash pf bs = Inr (keccak256 pf (drop 160 bs))"
    "bd_destination_domain bs = Inr (bm_destination_domain m)"
    "bd_destination_recipient bs = Inr (bm_destination_recipient m)" "source_signer bs = Inr (bm_source_signer m)"
proof -
  have valid: "valid_burn_message m" using intent by (simp add: intent_ready_def)
  note f = encode_burn_message_fields [OF valid, folded bs_def]
  note new = encode_burn_message_accepted(1,2) [OF valid, folded bs_def]
  have long: "500 \<le> length bs" using f(3) by simp
  note a = burn_accessors [OF new(1) long, unfolded f(1)] burn_wide_accessors [OF new(1) long, unfolded f(1)]
  have wide: "bd_value bs = Inr (bm_value m)" "bd_max_fee bs = Inr (bm_max_fee m)"
    "bd_max_block_height bs = Inr (bm_max_block_height m)"
    using f(2) by (simp_all add: a narrow_fields_def)
  have signer: "validate_signer_authorization (bm_source_signer m) (dep_depositor d) dlg = Inr ()"
    using dlg by (auto simp: delegate_ready_def validate_signer_authorization_Inr split: option.splits)
  show "check_burn_intent tx c w t d dlg bs = Inr (bm_value m, bm_fee m)"
    using intent signer custody
    by (simp add: check_burn_intent_def a(1-14) wide intent_ready_def add_u64_def u64_le_iff unat_add_u64)
  show "burn_intent_message_length bs = Inr (length bs - 72)"
    using new(1) long by (simp add: burn_intent_message_length_def usize_Inr burn_offset_defs sub_usize_def)
  show "bd_transfer_spec_hash pf bs = Inr (keccak256 pf (drop 160 bs))"
    by (rule burn_data_spec_hash(2) [OF new])
  show "bd_destination_domain bs = Inr (bm_destination_domain m)"
    "bd_destination_recipient bs = Inr (bm_destination_recipient m)" "source_signer bs = Inr (bm_source_signer m)"
    by (rule a(5) a(11) a(12))+
qed

section \<open>The effects go through\<close>

lemma spendable_same: "same_account_identity t t' \<Longrightarrow> spendable g t \<Longrightarrow> spendable g t'"
  by (auto simp: spendable_def same_account_identity_def)

text \<open>The fee, if any, leaves custody, which can still spend the rest.\<close>

lemma pay_fee_progress:
  assumes t: "tok_at l (gb_custody_token_account c) = Some t" "spendable (gb_gateway_wallet c) t"
    and u: "tok_at l (gb_fee_recipient_token_account c) = Some u" "ta_mint u = ta_mint t" "ta_state u \<noteq> Frozen"
    and g: "wallet_at l (gb_gateway_wallet c) = Some w"
      "create_program_address pf [GATEWAY_WALLET_SEED, [gw_bump w]] WALLET_PROGRAM_ID = Inr (gb_gateway_wallet c)"
    and funds: "unat n + unat fee \<le> amount_at l (gb_custody_token_account c)"
      "amount_at l (gb_fee_recipient_token_account c) + unat fee < 2 ^ 64"
    and tx: "{gb_custody_token_account c, gb_fee_recipient_token_account c} \<subseteq> set (tx_writable tx)"
  shows "\<exists>l2 t'. pay_fee pf tx c w fee l = Inr l2 \<and> only_tokens_moved l l2 \<and>
    tok_at l2 (gb_custody_token_account c) = Some t' \<and> same_account_identity t t' \<and>
    unat n \<le> amount_at l2 (gb_custody_token_account c) \<and>
    typed TOKEN_PROGRAM_ID as_mint l2 = typed TOKEN_PROGRAM_ID as_mint l"
proof (cases "fee > 0")
  case True
  let ?src = "gb_custody_token_account c" and ?dst = "gb_fee_recipient_token_account c"
  have single: "acc_owner (l (gb_gateway_wallet c)) \<noteq> TOKEN_PROGRAM_ID" using g(1) by (auto simp: typed_Some)
  obtain l2 where run: "token_transfer pf WALLET_PROGRAM_ID tx (Some [GATEWAY_WALLET_SEED, [gw_bump w]]) ?src ?dst
      (gb_gateway_wallet c) fee l = (Inr l2 :: ledger wallet_result)"
    and moved: "transferred l ?src ?dst (gb_gateway_wallet c) fee l2"
    using pda_transfer_progress [where n = fee and tx = tx, OF t u single g(2) _ funds(2) tx] funds(1) by auto
  obtain t' where t': "tok_at l2 ?src = Some t'" "same_account_identity t t'"
    using tok_at_only_tokens [OF transferred_only_tokens [OF moved] t(1)] by blast
  have left: "unat n \<le> amount_at l2 ?src"
    using transferred_amounts(1,4) [OF moved] funds(1) by (cases "?src = ?dst") auto
  have mints: "typed TOKEN_PROGRAM_ID as_mint l2 = typed TOKEN_PROGRAM_ID as_mint l"
  proof
    fix k
    show "typed TOKEN_PROGRAM_ID as_mint l2 k = typed TOKEN_PROGRAM_ID as_mint l k"
      using moved by (cases "k = ?src"; cases "k = ?dst") (auto simp: transferred_def typed_def)
  qed
  show ?thesis
    using True run t' left mints transferred_only_tokens [OF moved] by (auto simp: pay_fee_def)
next
  case False
  with t funds show ?thesis by (auto simp: pay_fee_def same_account_identity_def)
qed

lemma settlement_progress:
  assumes t: "tok_at l (gb_custody_token_account c) = Some t" "spendable (gb_gateway_wallet c) t" "ta_mint t = gb_token_mint c"
    and u: "tok_at l (gb_fee_recipient_token_account c) = Some u" "ta_mint u = gb_token_mint c" "ta_state u \<noteq> Frozen"
    and g: "wallet_at l (gb_gateway_wallet c) = Some w"
      "create_program_address pf [GATEWAY_WALLET_SEED, [gw_bump w]] WALLET_PROGRAM_ID = Inr (gb_gateway_wallet c)"
    and mi: "typed TOKEN_PROGRAM_ID as_mint l (gb_token_mint c) = Some mi" "unat n \<le> unat (mi_supply mi)"
    and d: "deposit_at l (gb_deposit c) = Some d"
    and funds: "unat n + unat fee \<le> amount_at l (gb_custody_token_account c)"
      "amount_at l (gb_fee_recipient_token_account c) + unat fee < 2 ^ 64"
    and tx: "burn_call_ready tx c"
  shows "\<exists>l2 l3 l'. pay_fee pf tx c w fee l = Inr l2 \<and>
    burn_token pf tx (gb_token_mint c) (gb_custody_token_account c) (gb_gateway_wallet c) (gw_bump w) n l2 = Inr l3 \<and>
    exit_deposit (gb_deposit c) d' l3 = (Inr l' :: ledger wallet_result)"
proof -
  have writable: "{gb_custody_token_account c, gb_fee_recipient_token_account c} \<subseteq> set (tx_writable tx)"
    "{gb_custody_token_account c, gb_token_mint c} \<subseteq> set (tx_writable tx)"
    using tx by (auto simp: burn_call_ready_def)
  have "ta_mint u = ta_mint t" using t u by simp
  then obtain l2 t' where l2: "pay_fee pf tx c w fee l = Inr l2" "only_tokens_moved l l2"
    and t': "tok_at l2 (gb_custody_token_account c) = Some t'" "same_account_identity t t'"
    and left: "unat n \<le> amount_at l2 (gb_custody_token_account c)"
    and mints: "typed TOKEN_PROGRAM_ID as_mint l2 = typed TOKEN_PROGRAM_ID as_mint l"
    using pay_fee_progress [OF t(1,2) u(1) _ u(3) g funds writable(1)] by blast
  have "spendable (gb_gateway_wallet c) t'" "ta_mint t' = gb_token_mint c"
    using spendable_same [OF t'(2) t(2)] t'(2) t(3) by (simp_all add: same_account_identity_def)
  moreover have "acc_owner (l2 (gb_gateway_wallet c)) \<noteq> TOKEN_PROGRAM_ID"
    using l2(2) g(1) by (auto simp: only_tokens_moved_def typed_Some)
  ultimately obtain l3 where l3: "token_burn pf WALLET_PROGRAM_ID tx (Some [GATEWAY_WALLET_SEED, [gw_bump w]])
      (gb_token_mint c) (gb_custody_token_account c) (gb_gateway_wallet c) n l2 = (Inr l3 :: ledger wallet_result)"
    and burned: "burned l2 (gb_custody_token_account c) (gb_token_mint c) (gb_gateway_wallet c) n l3"
    using pda_burn_progress [where tx = tx and l = l2 and n = n, OF t'(1) _ _ mi(1) [folded mints] mi(2) _ g(2) left writable(2)]
    by blast
  have "deposit_at l3 = deposit_at l"
    by (simp add: typed_only_tokens [OF burned_only_tokens [OF burned]] typed_only_tokens [OF l2(2)])
  then have "deposit_at l3 (gb_deposit c) = Some d" using d by simp
  then have "acc_data (l3 (gb_deposit c)) = DepositData d" by (auto simp: typed_Some as_data_Some)
  then have "\<exists>l'. exit_deposit (gb_deposit c) d' l3 = (Inr l' :: ledger wallet_result)"
    by (simp add: exit_deposit_def exit_account_def)
  with l2(1) l3 show ?thesis by (auto simp: burn_token_def)
qed

lemma mark_burn_progress:
  assumes ok: "system_program_ok pf" and live: "system_program_live pf"
    and mark: "gb_remaining_accounts c = [mark]"
      "try_bumps pf [USED_TRANSFER_SPEC_HASH_SEED_PREFIX, h] WALLET_PROGRAM_ID 255 = Some (mark, b)"
      "acc_owner (l mark) = SYSTEM_PROGRAM_ID" "acc_data (l mark) = Raw []" "gb_payer c \<noteq> mark"
    and tx: "gb_payer c \<in> set (tx_signers tx)" "{gb_payer c, mark} \<subseteq> set (tx_writable tx)" "payer_ready pf l (gb_payer c) (Suc 0)"
  shows "\<exists>l1. mark_burn_hash pf tx c h l = Inr l1 \<and> account_made l mark WALLET_PROGRAM_ID (Raw WALLET_USED_MARKER) l1"
proof -
  have disc: "length WALLET_USED_MARKER = 2" by (simp add: WALLET_USED_MARKER_def)
  from unused_marker_progress [OF ok live mark(2-5) tx disc] obtain l1 where
    "\<not> is_transfer_spec_hash_used (acc_data (l mark)) WALLET_USED_MARKER"
    "create_used_transfer_spec_hash_account pf tx mark h b (gb_payer c) WALLET_PROGRAM_ID WALLET_USED_MARKER l
      = (Inr l1 :: ledger wallet_result)"
    "account_made l mark WALLET_PROGRAM_ID (Raw WALLET_USED_MARKER) l1" by blast
  then show ?thesis
    by (simp add: mark_burn_hash_def mark(1,2) index_checked_def find_program_address_def)
qed

text \<open>A mint is not changed by the making of an account.\<close>

lemma typed_made:
  assumes "account_made l k q (Raw bs) l'" "typed p f l j = Some x" "p \<noteq> SYSTEM_PROGRAM_ID"
  shows "typed p f l' j = Some x"
  using assms by (cases "j = k") (auto simp: account_made_def typed_Some)

text \<open>What the deduction leaves for the fee and the burn.\<close>

lemma deduction_progress:
  assumes pos: "0 < bm_value m" and sum: "unat (bm_value m) + unat (bm_fee m) < 2 ^ 64"
  shows "\<exists>d' fa fw. reduce_balance d (bm_value m + bm_fee m) = Inr (d', fa, fw) \<and> unat fa + unat fw < 2 ^ 64 \<and>
    saturating_sub_u64 (fa + fw) (bm_value m) \<le> fa + fw \<and>
    unat (fa + fw - saturating_sub_u64 (fa + fw) (bm_value m)) \<le> unat (bm_value m) \<and>
    unat (saturating_sub_u64 (fa + fw) (bm_value m)) \<le> unat (bm_fee m)"
proof -
  have "0 < bm_value m + bm_fee m"
    using pos sum unat_add_u64 [OF sum] by (simp add: u64_less_iff)
  then obtain d' fa fw where red: "reduce_balance d (bm_value m + bm_fee m) = Inr (d', fa, fw)"
    using reduce_balance_succeeds by (metis prod_cases3)
  have bound: "unat fa + unat fw < 2 ^ 64"
    using reduce_balance_total(1) [OF red] unat_u64_less [of "bm_value m + bm_fee m"] by linarith
  note split = burn_split [OF red sum bound]
  have "saturating_sub_u64 (fa + fw) (bm_value m) \<le> fa + fw"
    by (simp add: u64_le_iff unat_saturating_sub_u64)
  with red bound split show ?thesis by auto
qed

section \<open>The instruction\<close>

text \<open>C21: A proper burn intent can always be executed.  When the wallet runs, a burn signer countersigned the
  intent, the Ed25519 call before it names its signature, key and message, its fields match and it has not
  expired, the signer is the depositor or his delegate, its hash is unused, custody covers value and fee, the mint's supply the value, and the
  payer the rent, then gateway_burn succeeds, whatever the deposit record still holds: no later check, transfer, burn or
  arithmetic step fails.\<close>

theorem burn_succeeds:
  assumes ok: "system_program_ok pf" and live: "system_program_live pf"
    and ready: "burn_ready pf tx c l w d m" and call: "burn_call_ready tx c"
    and dlg: "delegate_ready pf c l (dep_depositor d) (bm_source_signer m) dlg"
    and intent: "encoded_burn_data params = encode_burn_message m" "intent_ready tx c w d m"
    and sig: "recover_evm_signer pf (ethereum_signed_message_hash pf (keccak256 pf (encoded_burn_data params)))
        (burn_signature params) = Inr signer" "signer \<in> set (gw_burn_signers w)"
    and user: "length (encode_burn_message m) \<le> 65607" "0 < tx_index tx"
      "unat (tx_index tx) - 1 < length (tx_instructions tx)"
      "tx_instructions tx ! (unat (tx_index tx) - 1)
         = (ED25519_PROGRAM_ID, expected_ed_header tx (length (encode_burn_message m) - 72))"
    and mark: "gb_remaining_accounts c = [mark]"
      "try_bumps pf [USED_TRANSFER_SPEC_HASH_SEED_PREFIX, keccak256 pf (drop 160 (encode_burn_message m))]
         WALLET_PROGRAM_ID 255 = Some (mark, b)"
      "acc_owner (l mark) = SYSTEM_PROGRAM_ID" "acc_data (l mark) = Raw []" "gb_payer c \<noteq> mark" "mark \<in> set (tx_writable tx)"
    and payer: "payer_ready pf l (gb_payer c) 1"
  shows "\<exists>l' es. gateway_burn pf tx c params l = Inr (l', es)"
proof -
  let ?bs = "encode_burn_message m" and ?cust = "gb_custody_token_account c" and ?fee = "gb_fee_recipient_token_account c"
  have m: "valid_burn_message m" "0 < bm_value m" "unat (bm_value m) + unat (bm_fee m) < 2 ^ 64"
    using intent(2) unfolding intent_ready_def by (blast, simp add: valid_burn_message_def, blast)
  from ready obtain t u mi where t: "tok_at l ?cust = Some t" "spendable (gb_gateway_wallet c) t" "ta_mint t = gb_token_mint c"
    and u: "tok_at l ?fee = Some u" "ta_mint u = gb_token_mint c" "ta_state u \<noteq> Frozen"
    and mi: "typed TOKEN_PROGRAM_ID as_mint l (gb_token_mint c) = Some mi" "bm_value m \<le> mi_supply mi"
    unfolding burn_ready_def custody_of_def by auto
  have g: "wallet_at l (gb_gateway_wallet c) = Some w"
      "create_program_address pf [GATEWAY_WALLET_SEED, [gw_bump w]] WALLET_PROGRAM_ID = Inr (gb_gateway_wallet c)"
    and d: "deposit_at l (gb_deposit c) = Some d"
    and funds: "unat (bm_value m) + unat (bm_fee m) \<le> amount_at l ?cust" "amount_at l ?fee + unat (bm_fee m) < 2 ^ 64"
    using ready by (simp_all add: burn_ready_def wallet_running_def)
  have paid: "payer_ready pf l (gb_payer c) (Suc 0)" "gb_payer c \<in> set (tx_signers tx)" "{gb_payer c, mark} \<subseteq> set (tx_writable tx)"
    using payer call mark(6) by (simp_all add: burn_call_ready_def)
  have acc: "gateway_burn_accounts pf tx c l = Inr (w, t, d, dlg)"
    by (rule burn_accounts_progress [OF ready call dlg t(1)])
  have ver: "verify_burn_signature pf w (ethereum_signed_message_hash pf (keccak256 pf ?bs)) (burn_signature params) = Inr ()"
    using sig intent(1) by (auto simp: verify_burn_signature_Inr)
  have usr: "verify_user_signature tx (length ?bs - 72) = Inr ()"
    using user by (simp add: verify_user_signature_Inr)
  have "unat (bm_value m) + unat (bm_fee m) \<le> unat (ta_amount t)" using funds(1) amount_at_tok [OF t(1)] by simp
  note msg = intent_progress [OF intent(2) dlg this]
  obtain l1 where l1: "mark_burn_hash pf tx c (keccak256 pf (drop 160 ?bs)) l = Inr l1"
    and made: "account_made l mark WALLET_PROGRAM_ID (Raw WALLET_USED_MARKER) l1"
    using mark_burn_progress [OF ok live mark(1-5) paid(2,3,1)] by blast
  obtain d' fa fw where red: "reduce_balance d (bm_value m + bm_fee m) = Inr (d', fa, fw)" "unat fa + unat fw < 2 ^ 64"
    and split: "saturating_sub_u64 (fa + fw) (bm_value m) \<le> fa + fw"
      "unat (fa + fw - saturating_sub_u64 (fa + fw) (bm_value m)) \<le> unat (bm_value m)"
      "unat (saturating_sub_u64 (fa + fw) (bm_value m)) \<le> unat (bm_fee m)"
    using deduction_progress [OF m(2,3), of d] by blast
  let ?charged = "saturating_sub_u64 (fa + fw) (bm_value m)"
  have covered: "unat (fa + fw - ?charged) + unat ?charged \<le> amount_at l1 ?cust" "amount_at l1 ?fee + unat ?charged < 2 ^ 64"
    "unat (fa + fw - ?charged) \<le> unat (mi_supply mi)"
    using funds split(2,3) mi(2) amount_at_made [OF made] by (auto simp: u64_le_iff)
  have kept: "wallet_at l1 (gb_gateway_wallet c) = Some w" "deposit_at l1 (gb_deposit c) = Some d"
    "typed TOKEN_PROGRAM_ID as_mint l1 (gb_token_mint c) = Some mi"
    by (rule typed_made [OF made]; simp add: g(1) d mi(1))+
  obtain l2 l3 l' where "pay_fee pf tx c w ?charged l1 = Inr l2"
    "burn_token pf tx (gb_token_mint c) ?cust (gb_gateway_wallet c) (gw_bump w) (fa + fw - ?charged) l2 = Inr l3"
    "exit_deposit (gb_deposit c) d' l3 = (Inr l' :: ledger wallet_result)"
    using settlement_progress [where d' = d', OF tok_at_made [OF made t(1)] t(2,3) tok_at_made [OF made u(1)] u(2,3)
        kept(1) g(2) kept(3) covered(3) kept(2) covered(1,2) call] by blast
  with red split(1) m(3) show ?thesis
    unfolding gateway_burn_def acc intent(1) Let_def and_then_Inr case_prod_conv ver msg usr l1
      encode_burn_message_accepted(2) [OF m(1)]
    by (simp add: msg mark(1) l1 add_u64_def sub_u64_def usr)
qed

theorem burn_succeeds_witness:
  "\<exists>l' es. gateway_burn sample_platform sample_burn_tx sample_burn_ctx sample_burn_params sample_ledger = Inr (l', es)"
proof -
  have bs: "sample_burn_data = encode_burn_message sample_intent" by (simp add: sample_burn_data_def)
  obtain signer where sig: "recover_evm_signer sample_platform (ethereum_signed_message_hash sample_platform
      (keccak256 sample_platform (encoded_burn_data sample_burn_params))) (burn_signature sample_burn_params) = Inr signer"
      "signer \<in> set (gw_burn_signers sample_wallet)"
    using sample_signature by (auto simp: verify_burn_signature_Inr sample_burn_params_def)
  have ready: "burn_ready sample_platform sample_burn_tx sample_burn_ctx sample_ledger sample_wallet sample_alice_deposit sample_intent"
    by (simp add: burn_ready_def wallet_running_def custody_of_def spendable_def sample_views sample_burn_ctx_def
        sample_intent_def typed_def amount_at_def)
  have intent: "intent_ready sample_burn_tx sample_burn_ctx sample_wallet sample_alice_deposit sample_intent"
    using sample_intent_valid
    by (simp add: intent_ready_def sample_burn_tx_def sample_burn_call_def sample_burn_ctx_def) (simp add: sample_intent_def)
  have call: "burn_call_ready sample_burn_tx sample_burn_ctx"
    by (simp add: burn_call_ready_def sample_burn_tx_def sample_burn_call_def sample_burn_ctx_def)
  have dlg: "delegate_ready sample_platform sample_burn_ctx sample_ledger (dep_depositor sample_alice_deposit)
      (bm_source_signer sample_intent) None"
    by (simp add: delegate_ready_def sample_burn_ctx_def sample_intent_def)
  have spec: "keccak256 sample_platform (drop 160 sample_burn_data) = sample_spec_hash"
    by (simp add: sample_spec_hash_def sample_platform_def)
  have len: "length (encode_burn_message sample_intent) = 500" using sample_burn_data_facts(1) by (simp add: bs)
  have user: "0 < tx_index sample_burn_tx" "unat (tx_index sample_burn_tx) - 1 < length (tx_instructions sample_burn_tx)"
    "tx_instructions sample_burn_tx ! (unat (tx_index sample_burn_tx) - 1)
       = (ED25519_PROGRAM_ID, expected_ed_header sample_burn_tx (length (encode_burn_message sample_intent) - 72))"
    using sample_user unfolding verify_user_signature_Inr len sample_burn_tx_def by simp_all
  have mark: "gb_remaining_accounts sample_burn_ctx = [MARK_KEY]" "gb_payer sample_burn_ctx \<noteq> MARK_KEY"
    "MARK_KEY \<in> set (tx_writable sample_burn_tx)"
    by (simp_all add: sample_burn_ctx_def sample_burn_tx_def sample_burn_call_def)
  have payer: "payer_ready sample_platform sample_ledger (gb_payer sample_burn_ctx) 1"
    by (simp add: payer_ready_def sample_burn_ctx_def)
  have params: "encoded_burn_data sample_burn_params = encode_burn_message sample_intent"
    by (simp add: sample_burn_params_def bs)
  show ?thesis
    by (rule burn_succeeds [OF sample_platform_ok sample_platform_live ready call dlg params intent sig _ user
          mark(1) _ _ _ mark(2,3) payer, where b = 255])
      (simp_all add: sample_burn_data_facts(1) spec bs [symmetric] empty_account_def)
qed

end
