(* ===== verification/DepositorExit.thy ===== *)
theory DepositorExit
  imports WalletSpec
begin

text \<open>
  A depositor can leave.  Solvency, which holds in every reachable state, supplies what withdraw needs from the
  custody account; so initiating a withdrawal of the whole available balance and completing it after the delay both
  succeed, on the depositor's signature alone, and pay the whole balance.
\<close>

section \<open>Custody covers every record\<close>

lemma custody_covers_record:
  assumes inv: "solvency_inv pf P l" and w: "wallet_running pf l g w" "custody_of pf l g w (dep_token_mint d) cust"
    and d: "deposit_at l k = Some d"
  shows "dep_total d \<le> amount_at l cust"
proof -
  have wf: "wallets_ok pf l" and fin: "finite (dom (deposit_at l))"
    and solvent: "liability l (dep_token_mint d) \<le> custody_balance pf l (dep_token_mint d)"
    using inv by (simp_all add: solvency_inv_def wallet_inv_def wallet_wf_def solvent_def)
  note cc = custody_canonical [OF wf w]
  from cc(1) obtain b where b: "try_bumps pf [GATEWAY_WALLET_CUSTODY_SEED, dep_token_mint d] WALLET_PROGRAM_ID 255
      = Some (cust, b)" by blast
  from cc(2) obtain t where t: "tok_at l cust = Some t" "ta_mint t = dep_token_mint d" by blast
  have "owed (dep_token_mint d) (the (deposit_at l k)) \<le> liability l (dep_token_mint d)"
    unfolding liability_def using d by (intro member_le_sum fin) auto
  with d have "dep_total d \<le> liability l (dep_token_mint d)" by (simp add: owed_def)
  with solvent custody_balance_at [OF b t(1)] t(2) show ?thesis by simp
qed

text \<open>The custody account of a reachable state can be spent by the wallet unless the token program froze it.\<close>

lemma custody_spendable:
  assumes inv: "solvency_inv pf P l" and w: "wallet_running pf l g w" "custody_of pf l g w mint cust"
    and s: "tok_at l cust = Some s"
  shows "ta_delegate s = None" "wallet_pda pf (ta_owner s)"
proof -
  have "wallets_ok pf l" "custody_slots_safe pf l"
    using inv by (simp_all add: solvency_inv_def wallet_inv_def wallet_wf_def)
  with custody_canonical(1) [OF _ w] have "safe_slot pf l cust" by (auto simp: custody_slots_safe_def)
  from safe_slot_tok [OF this s] show "ta_delegate s = None" "wallet_pda pf (ta_owner s)"
    by (simp_all add: held_safely_def)
qed

lemma deposit_address:
  assumes "solvency_inv pf P l" "deposit_at l k = Some d"
  shows "create_program_address pf [GATEWAY_DEPOSIT_SEED, dep_token_mint d, dep_depositor d, [dep_bump d]]
    WALLET_PROGRAM_ID = Inr k"
proof -
  have "try_bumps pf [GATEWAY_DEPOSIT_SEED, dep_token_mint d, dep_depositor d] WALLET_PROGRAM_ID 255 = Some (k, dep_bump d)"
    using assms by (simp add: solvency_inv_def wallet_inv_def wallet_wf_def deposits_ok_def)
  from canonical_bump [OF this] show ?thesis by simp
qed

section \<open>The two instructions\<close>

text \<open>The record after the whole available balance was put up for withdrawal.\<close>

definition leaving :: "GatewayDeposit \<Rightarrow> u64 \<Rightarrow> GatewayDeposit" where
  "leaving d block = d\<lparr> dep_available_amount := 0,
     dep_withdrawing_amount := dep_withdrawing_amount d + dep_available_amount d, dep_withdrawal_block := block \<rparr>"

lemma initiate_all_progress:
  assumes w: "wallet_running pf l (iw_gateway_wallet c) w" "is_token_supported w (dep_token_mint d)"
    and d: "deposit_at l (iw_deposit c) = Some d" "0 < dep_available_amount d" "dep_total d < 2 ^ 64"
      "create_program_address pf [GATEWAY_DEPOSIT_SEED, dep_token_mint d, iw_depositor c, [dep_bump d]] WALLET_PROGRAM_ID
        = Inr (iw_deposit c)"
    and delay: "unat (tx_slot tx) + unat (gw_withdrawal_delay w) < 2 ^ 64"
    and tx: "iw_depositor c \<in> set (tx_signers tx)" "{iw_depositor c, iw_deposit c} \<subseteq> set (tx_writable tx)"
  defines "block \<equiv> tx_slot tx + gw_withdrawal_delay w"
  shows "initiate_withdrawal pf tx c (dep_available_amount d) l =
    Inr (l(iw_deposit c := (l (iw_deposit c))\<lparr> acc_data := DepositData (leaving d block) \<rparr>),
      [WithdrawalInitiated (dep_token_mint d) (iw_depositor c) (dep_available_amount d) 0
         (dep_withdrawing_amount d + dep_available_amount d) block])"
proof -
  have loads: "load_wallet l (iw_gateway_wallet c) = (Inr w :: GatewayWallet wallet_result)"
    "load_deposit l (iw_deposit c) = (Inr d :: GatewayDeposit wallet_result)"
    using w(1) d(1) by (simp_all add: load_typed wallet_running_def)
  have data: "acc_data (l (iw_deposit c)) = DepositData d" using d(1) by (auto simp: typed_Some as_data_Some)
  have acc: "initiate_withdrawal_accounts pf tx c l = Inr (w, d)"
    unfolding initiate_withdrawal_accounts_def loads
    using w(1) d(4) tx
    by (simp add: load_signer_def check_mut_def check_wallet_pda_def check_not_paused_def check_seeds_bump_def
        wallet_running_def)
  have "unat (dep_withdrawing_amount d) + unat (dep_available_amount d) < 2 ^ 64" using d(3) by (simp add: dep_total_def)
  then have "deposit_initiate_withdrawal (tx_slot tx) d (dep_available_amount d) (gw_withdrawal_delay w) w (dep_token_mint d) =
      Inr (leaving d block, (0, dep_withdrawing_amount d + dep_available_amount d, block))"
    using w(2) d(2) delay by (simp add: deposit_initiate_withdrawal_def leaving_def block_def sub_u64_def add_u64_def)
  then show ?thesis
    by (simp add: initiate_withdrawal_def acc exit_deposit_def exit_account_def data)
qed

text \<open>Rewriting a deposit record leaves every other view alone.\<close>

lemma record_rewritten_views:
  fixes d'
  assumes "deposit_at l k = Some d"
  defines "l' \<equiv> l(k := (l k)\<lparr> acc_data := DepositData d' \<rparr>)"
  shows "wallet_at l' = wallet_at l" "tok_at l' = tok_at l" "deposit_at l' = (deposit_at l)(k \<mapsto> d')"
    "amount_at l' = amount_at l"
proof -
  have k: "acc_owner (l k) = WALLET_PROGRAM_ID" "acc_data (l k) = DepositData d"
    using assms(1) by (auto simp: typed_Some as_data_Some)
  then show "wallet_at l' = wallet_at l" "tok_at l' = tok_at l" "deposit_at l' = (deposit_at l)(k \<mapsto> d')"
    "amount_at l' = amount_at l"
    by (auto simp: l'_def typed_def amount_at_def fun_eq_iff)
qed

lemma running_rewritten:
  assumes "wallet_at l' = wallet_at l" "tok_at l' = tok_at l"
  shows "wallet_running pf l' g w = wallet_running pf l g w" "custody_of pf l' g w mint cust = custody_of pf l g w mint cust"
  using assms by (simp_all add: wallet_running_def custody_of_def)

text \<open>Solvent custody pays a matured withdrawal.\<close>

lemma matured_withdrawal_progress:
  assumes inv: "solvency_inv pf P l" and w: "wallet_running pf l (wd_gateway_wallet c) w"
      "custody_of pf l (wd_gateway_wallet c) w (dep_token_mint d) (wd_custody_token_account c)"
    and d: "deposit_at l (wd_deposit c) = Some d" "dep_depositor d = wd_depositor c" "0 < dep_withdrawing_amount d"
      "dep_withdrawal_block d \<le> tx_slot tx"
    and s: "tok_at l (wd_custody_token_account c) = Some s" "ta_state s \<noteq> Frozen" "ta_is_native s = None"
    and t: "tok_at l (wd_depositor_token_account c) = Some t" "ta_state t \<noteq> Frozen" "ta_owner t = wd_depositor c"
      "ta_mint t = dep_token_mint d" "amount_at l (wd_depositor_token_account c) + unat (dep_withdrawing_amount d) < 2 ^ 64"
    and tx: "wd_depositor c \<in> set (tx_signers tx)"
      "{wd_depositor c, wd_custody_token_account c, wd_depositor_token_account c, wd_deposit c} \<subseteq> set (tx_writable tx)"
      "wd_token_program c = TOKEN_PROGRAM_ID"
  shows "\<exists>l'. withdraw pf tx c l =
    Inr (l', [WithdrawalCompleted (dep_token_mint d) (wd_depositor c) (dep_withdrawing_amount d)])"
proof (rule withdraw_succeeds [OF w d(1,3,4) _ s(1-3) _ _ t(1-4) _ tx])
  show "create_program_address pf [GATEWAY_DEPOSIT_SEED, dep_token_mint d, wd_depositor c, [dep_bump d]] WALLET_PROGRAM_ID
      = Inr (wd_deposit c)"
    using deposit_address [OF inv d(1)] by (simp add: d(2))
  show "ta_delegate s = None" by (rule custody_spendable(1) [OF inv w s(1)])
  show "dep_withdrawing_amount d \<le> ta_amount s"
    using custody_covers_record [OF inv w d(1)] amount_at_tok [OF s(1)] by (simp add: dep_total_def u64_le_iff)
  show "unat (ta_amount t) + unat (dep_withdrawing_amount d) < 2 ^ 64"
    using t(5) amount_at_tok [OF t(1)] by simp
qed

text \<open>What it pays.\<close>

lemma withdrawal_paid:
  assumes wf: "wallet_wf pf l" and user: "signed_by_users pf tx" and d: "deposit_at l (wd_deposit c) = Some d"
    and run: "withdraw pf tx c l = Inr (l', es)"
  shows "amount_at l' (wd_depositor_token_account c) = amount_at l (wd_depositor_token_account c) + unat (dep_withdrawing_amount d)"
    "deposit_at l' = (deposit_at l)(wd_deposit c \<mapsto> d\<lparr> dep_withdrawing_amount := 0, dep_withdrawal_block := 0 \<rparr>)"
proof -
  let ?cust = "wd_custody_token_account c" and ?dst = "wd_depositor_token_account c"
  from withdraw_effect [OF run] d obtain w t where w: "wallet_running pf l (wd_gateway_wallet c) w"
    and sig: "wd_depositor c \<in> set (tx_signers tx)"
    and cust: "custody_of pf l (wd_gateway_wallet c) w (dep_token_mint d) ?cust"
    and dst: "tok_at l ?dst = Some t" "ta_owner t = wd_depositor c"
    and out: "withdrawn l (wd_deposit c) ?cust ?dst (wd_gateway_wallet c) d l'" by auto
  have "wallets_ok pf l" using wf by (simp add: wallet_wf_def)
  note cc = custody_canonical [OF this w cust]
  have ne: "?cust \<noteq> ?dst" using not_user_key [OF user sig] dst cc(2,3) by auto
  from out obtain m where "transferred l ?cust ?dst (wd_gateway_wallet c) (dep_withdrawing_amount d) m"
    and m: "amount_at l' = amount_at m"
    unfolding withdrawn_def deposit_rewritten_def by blast
  from transferred_amounts(2) [OF this(1) ne]
  show "amount_at l' ?dst = amount_at l ?dst + unat (dep_withdrawing_amount d)" by (simp add: m)
  show "deposit_at l' = (deposit_at l)(wd_deposit c \<mapsto> d\<lparr> dep_withdrawing_amount := 0, dep_withdrawal_block := 0 \<rparr>)"
    by (rule withdrawn_views(4) [OF out])
qed

section \<open>Leaving\<close>

text \<open>C25: A depositor can leave with the whole balance.  In every state the program can reach from a solvent one, when the
  wallet runs and the token program has frozen neither account, the depositor's own signature is enough: initiating a
  withdrawal of the available balance succeeds, completing it at any slot after the delay succeeds, and the token account
  of the depositor gains the total of the record, which is empty afterwards.  That custody can pay follows from solvency.\<close>

theorem depositor_can_exit:
  assumes reach: "solvency_inv pf P l0" "books_within P es" "wallet_run pf l0 es l"
    and w: "wallet_running pf l g w" "custody_of pf l g w (dep_token_mint d) cust"
    and d: "deposit_at l k = Some d" "0 < dep_available_amount d"
    and s: "tok_at l cust = Some s" "ta_state s \<noteq> Frozen" "ta_is_native s = None"
    and t: "tok_at l dst = Some t" "ta_state t \<noteq> Frozen" "ta_owner t = dep_depositor d" "ta_mint t = dep_token_mint d"
      "amount_at l dst + dep_total d < 2 ^ 64"
    and tx1: "signed_by_users pf tx1" "dep_depositor d \<in> set (tx_signers tx1)" "{dep_depositor d, k} \<subseteq> set (tx_writable tx1)"
    and tx2: "signed_by_users pf tx2" "dep_depositor d \<in> set (tx_signers tx2)"
      "{dep_depositor d, cust, dst, k} \<subseteq> set (tx_writable tx2)"
    and delay: "unat (tx_slot tx1) + unat (gw_withdrawal_delay w) \<le> unat (tx_slot tx2)"
  shows "\<exists>l1 l2 e n. initiate_withdrawal pf tx1 \<lparr> iw_depositor = dep_depositor d, iw_gateway_wallet = g, iw_deposit = k \<rparr>
      (dep_available_amount d) l = Inr (l1, [e]) \<and>
    withdraw pf tx2 \<lparr> wd_depositor = dep_depositor d, wd_gateway_wallet = g, wd_custody_token_account = cust,
        wd_depositor_token_account = dst, wd_deposit = k, wd_token_program = TOKEN_PROGRAM_ID \<rparr> l1
      = Inr (l2, [WithdrawalCompleted (dep_token_mint d) (dep_depositor d) n]) \<and>
    unat n = dep_total d \<and> amount_at l2 dst = amount_at l dst + dep_total d \<and> dep_total (the (deposit_at l2 k)) = 0"
proof -
  let ?c1 = "\<lparr> iw_depositor = dep_depositor d, iw_gateway_wallet = g, iw_deposit = k \<rparr>"
  let ?c2 = "\<lparr> wd_depositor = dep_depositor d, wd_gateway_wallet = g, wd_custody_token_account = cust,
        wd_depositor_token_account = dst, wd_deposit = k, wd_token_program = TOKEN_PROGRAM_ID \<rparr>"
  let ?n = "dep_withdrawing_amount d + dep_available_amount d" and ?block = "tx_slot tx1 + gw_withdrawal_delay w"
  let ?d1 = "leaving d ?block"
  let ?l1 = "l(k := (l k)\<lparr> acc_data := DepositData ?d1 \<rparr>)"
  have inv: "solvency_inv pf P l" by (rule solvency_run [OF reach(3,2,1)])
  have total: "dep_total d < 2 ^ 64"
    using custody_covers_record [OF inv w d(1)] amount_at_tok [OF s(1)] unat_u64_less [of "ta_amount s"] by linarith
  then have n: "unat ?n = dep_total d" by (simp add: dep_total_def unat_add_u64 add.commute)
  have slots: "unat (tx_slot tx1) + unat (gw_withdrawal_delay w) < 2 ^ 64"
    using delay unat_u64_less [of "tx_slot tx2"] by linarith
  have "is_token_supported w (dep_token_mint d)" using w(2) by (auto simp: custody_of_def dest: get_bump_supported)
  with w(1) d total deposit_address [OF inv d(1)] slots tx1(2,3) have
    run1: "initiate_withdrawal pf tx1 ?c1 (dep_available_amount d) l = Inr (?l1,
      [WithdrawalInitiated (dep_token_mint d) (dep_depositor d) (dep_available_amount d) 0 ?n ?block])"
    using initiate_all_progress [where c = ?c1 and l = l and tx = tx1 and d = d and w = w and pf = pf] by simp
  have step: "wallet_step pf l [WithdrawalInitiated (dep_token_mint d) (dep_depositor d) (dep_available_amount d) 0 ?n ?block] ?l1"
    by (rule wallet_call [OF tx1(1), of "IxInitiateWithdrawal ?c1 (dep_available_amount d)"]) (simp_all add: run1)
  have inv1: "solvency_inv pf P ?l1"
    by (rule solvency_run [OF run_single [where step = "wallet_step pf", OF step] _ inv]) (simp add: books_within_def)
  note v = record_rewritten_views [OF d(1), of ?d1]
  have d1: "deposit_at ?l1 k = Some ?d1" by (simp add: v)
  have same: "dep_token_mint ?d1 = dep_token_mint d" "dep_depositor ?d1 = dep_depositor d" "dep_withdrawing_amount ?d1 = ?n"
    "dep_withdrawal_block ?d1 = ?block" "dep_available_amount ?d1 = 0"
    by (simp_all add: leaving_def)
  have "0 < ?n" using n d(2) by (simp add: dep_total_def u64_less_iff)
  moreover have "?block \<le> tx_slot tx2" using delay slots by (simp add: u64_le_iff unat_add_u64)
  ultimately obtain l2 where run2: "withdraw pf tx2 ?c2 ?l1 = Inr (l2, [WithdrawalCompleted (dep_token_mint d) (dep_depositor d) ?n])"
    using matured_withdrawal_progress [where c = ?c2 and d = ?d1 and tx = tx2 and w = w and s = s and t = t, OF inv1] w s t tx2 n
    by (auto simp: running_rewritten [OF v(1,2)] v same d1)
  have "wallet_wf pf ?l1" using inv1 by (simp add: solvency_inv_def wallet_inv_def)
  from withdrawal_paid [OF this tx2(1) _ run2, of ?d1] run1 run2 n show ?thesis
    by (simp add: d1 same v dep_total_def)
qed

text \<open>Alice leaves with 70 available and 50 withdrawing tokens, 150 slots later.\<close>

definition sample_late_tx :: transaction where "sample_late_tx = sample_tx\<lparr> tx_slot := 250 \<rparr>"

theorem depositor_can_exit_witness:
  "\<exists>l1 l2 e. initiate_withdrawal sample_platform sample_tx sample_initiate 70 sample_ledger = Inr (l1, [e]) \<and>
     withdraw sample_platform sample_late_tx sample_withdraw l1 = Inr (l2, [WithdrawalCompleted MINT_KEY ALICE 120]) \<and>
     amount_at l2 ALICE_TOKENS = 420"
proof -
  have users: "signed_by_users sample_platform sample_tx" "signed_by_users sample_platform sample_late_tx"
    by (rule sample_users; simp add: sample_late_tx_def sample_tx_def ALICE_def)+
  have inv: "solvency_inv sample_platform {(MINT_KEY, ALICE)} sample_ledger"
    using sample_inv sample_custody_slots sample_solvent
    by (auto simp: solvency_inv_def no_deposit_collision_def records_within_def sample_views split: if_splits)
  have books: "books_within {(MINT_KEY, ALICE)} []" by (simp add: books_within_def)
  have running: "wallet_running sample_platform sample_ledger W_KEY sample_wallet"
    "custody_of sample_platform sample_ledger W_KEY sample_wallet (dep_token_mint sample_alice_deposit) CUSTODY_KEY"
    by (simp_all add: wallet_running_def custody_of_def sample_views typed_def)
  have d: "deposit_at sample_ledger DEPOSIT_KEY = Some sample_alice_deposit" "0 < dep_available_amount sample_alice_deposit"
    by (simp_all add: sample_views)
  have s: "tok_at sample_ledger CUSTODY_KEY = Some (sample_token W_KEY 500)" "ta_state (sample_token W_KEY 500) \<noteq> Frozen"
    "ta_is_native (sample_token W_KEY 500) = None"
    by (simp_all add: typed_def)
  have t: "tok_at sample_ledger ALICE_TOKENS = Some (sample_token ALICE 300)" "ta_state (sample_token ALICE 300) \<noteq> Frozen"
    "ta_owner (sample_token ALICE 300) = dep_depositor sample_alice_deposit"
    "ta_mint (sample_token ALICE 300) = dep_token_mint sample_alice_deposit"
    "amount_at sample_ledger ALICE_TOKENS + dep_total sample_alice_deposit < 2 ^ 64"
    by (simp_all add: typed_def amount_at_def dep_total_def)
  have tx: "dep_depositor sample_alice_deposit \<in> set (tx_signers sample_tx)"
    "{dep_depositor sample_alice_deposit, DEPOSIT_KEY} \<subseteq> set (tx_writable sample_tx)"
    "dep_depositor sample_alice_deposit \<in> set (tx_signers sample_late_tx)"
    "{dep_depositor sample_alice_deposit, CUSTODY_KEY, ALICE_TOKENS, DEPOSIT_KEY} \<subseteq> set (tx_writable sample_late_tx)"
    "unat (tx_slot sample_tx) + unat (gw_withdrawal_delay sample_wallet) \<le> unat (tx_slot sample_late_tx)"
    by (simp_all add: sample_late_tx_def sample_tx_def)
  have total: "unat (n :: u64) = dep_total sample_alice_deposit \<Longrightarrow> n = 120" for n
    by (simp add: dep_total_def word_unat_eq_iff)
  show ?thesis
    using depositor_can_exit [OF inv books machine_run.intros(1) running d s t users(1) tx(1,2)
        users(2) tx(3-5)] total
    by (fastforce simp: sample_initiate_def sample_withdraw_def dep_total_def amount_at_def)
qed

end
