(* ===== verification/Events.thy ===== *)
theory Events
  imports Entrypoints
begin

text \<open>
  The events as bytes: \<open>emit_cpi!\<close> sends the tag of events, the two-byte discriminator of events.rs and the
  fields in Borsh as instruction data of a call of the program by itself.  An observer sees the data of
  all calls of the two programs; what it reads there are the events, in their order, since no outsider can make
  a program accept a call that carries the tag.
\<close>

section \<open>Discriminators and fields\<close>

fun wallet_event_discriminator :: "WalletEvent \<Rightarrow> bytes" where
  "wallet_event_discriminator GatewayWalletInitialized = [20, 0]"
| "wallet_event_discriminator (WalletEvent.OwnershipTransferStarted _ _) = [20, 1]"
| "wallet_event_discriminator (WalletEvent.OwnershipTransferred _ _) = [20, 2]"
| "wallet_event_discriminator (WalletEvent.PauserChanged _ _) = [20, 3]"
| "wallet_event_discriminator (DenylisterChanged _ _) = [20, 4]"
| "wallet_event_discriminator (WalletEvent.TokenControllerUpdated _ _) = [20, 5]"
| "wallet_event_discriminator (WalletEvent.TokenSupported _ _) = [20, 6]"
| "wallet_event_discriminator (Deposited _ _ _ _) = [20, 7]"
| "wallet_event_discriminator (DelegateAdded _ _ _) = [20, 8]"
| "wallet_event_discriminator (DelegateRemoved _ _ _) = [20, 9]"
| "wallet_event_discriminator (Denylisted _) = [20, 10]"
| "wallet_event_discriminator (UnDenylisted _) = [20, 11]"
| "wallet_event_discriminator (WithdrawalInitiated _ _ _ _ _ _) = [20, 12]"
| "wallet_event_discriminator (BurnSignerAdded _) = [20, 13]"
| "wallet_event_discriminator (BurnSignerRemoved _) = [20, 14]"
| "wallet_event_discriminator (WithdrawalCompleted _ _ _) = [20, 15]"
| "wallet_event_discriminator (WithdrawalDelayChanged _ _) = [20, 16]"
| "wallet_event_discriminator (FeeRecipientChanged _ _) = [20, 17]"
| "wallet_event_discriminator (WalletEvent.Paused _) = [20, 18]"
| "wallet_event_discriminator (WalletEvent.Unpaused _) = [20, 19]"
| "wallet_event_discriminator (GatewayBurned _ _ _ _ _ _ _ _ _ _) = [20, 20]"
| "wallet_event_discriminator (InsufficientBalance _ _ _ _ _) = [20, 21]"

fun minter_event_discriminator :: "MinterEvent \<Rightarrow> bytes" where
  "minter_event_discriminator (OwnershipTransferStarted _ _) = [10, 0]"
| "minter_event_discriminator (OwnershipTransferred _ _) = [10, 1]"
| "minter_event_discriminator GatewayMinterInitialized = [10, 2]"
| "minter_event_discriminator (PauserChanged _ _) = [10, 3]"
| "minter_event_discriminator (AttestationSignerAdded _) = [10, 4]"
| "minter_event_discriminator (AttestationSignerRemoved _) = [10, 5]"
| "minter_event_discriminator (TokenControllerUpdated _ _) = [10, 6]"
| "minter_event_discriminator (TokenSupported _ _) = [10, 7]"
| "minter_event_discriminator (TokenCustodyBurned _ _ _) = [10, 8]"
| "minter_event_discriminator (Paused _) = [10, 9]"
| "minter_event_discriminator (Unpaused _) = [10, 10]"
| "minter_event_discriminator (AttestationUsed _ _ _ _) = [10, 11]"

text \<open>The fields: keys and hashes as they are, integers in little endian.\<close>

fun wallet_event_fields :: "WalletEvent \<Rightarrow> bytes" where
  "wallet_event_fields GatewayWalletInitialized = []"
| "wallet_event_fields (WalletEvent.OwnershipTransferStarted old new) = old @ new"
| "wallet_event_fields (WalletEvent.OwnershipTransferred old new) = old @ new"
| "wallet_event_fields (WalletEvent.PauserChanged old new) = old @ new"
| "wallet_event_fields (DenylisterChanged old new) = old @ new"
| "wallet_event_fields (WalletEvent.TokenControllerUpdated old new) = old @ new"
| "wallet_event_fields (WalletEvent.TokenSupported token custody) = token @ custody"
| "wallet_event_fields (Deposited token depositor sender amount) = token @ depositor @ sender @ u64_to_le amount"
| "wallet_event_fields (DelegateAdded token depositor delegate) = token @ depositor @ delegate"
| "wallet_event_fields (DelegateRemoved token depositor delegate) = token @ depositor @ delegate"
| "wallet_event_fields (Denylisted addr) = addr"
| "wallet_event_fields (UnDenylisted addr) = addr"
| "wallet_event_fields (WithdrawalInitiated token depositor amount available withdrawing block) =
     token @ depositor @ u64_to_le amount @ u64_to_le available @ u64_to_le withdrawing @ u64_to_le block"
| "wallet_event_fields (BurnSignerAdded signer) = signer"
| "wallet_event_fields (BurnSignerRemoved signer) = signer"
| "wallet_event_fields (WithdrawalCompleted token depositor amount) = token @ depositor @ u64_to_le amount"
| "wallet_event_fields (WithdrawalDelayChanged old new) = u64_to_le old @ u64_to_le new"
| "wallet_event_fields (FeeRecipientChanged old new) = old @ new"
| "wallet_event_fields (WalletEvent.Paused account) = account"
| "wallet_event_fields (WalletEvent.Unpaused account) = account"
| "wallet_event_fields (GatewayBurned token depositor spec_hash domain recipient signer amount fee available withdrawing) =
     token @ depositor @ spec_hash @ u32_to_le domain @ recipient @ signer @ u64_to_le amount @ u64_to_le fee @
     u64_to_le available @ u64_to_le withdrawing"
| "wallet_event_fields (InsufficientBalance token depositor amount available withdrawing) =
     token @ depositor @ u64_to_le amount @ u64_to_le available @ u64_to_le withdrawing"

fun minter_event_fields :: "MinterEvent \<Rightarrow> bytes" where
  "minter_event_fields (OwnershipTransferStarted old new) = old @ new"
| "minter_event_fields (OwnershipTransferred old new) = old @ new"
| "minter_event_fields GatewayMinterInitialized = []"
| "minter_event_fields (PauserChanged old new) = old @ new"
| "minter_event_fields (AttestationSignerAdded signer) = signer"
| "minter_event_fields (AttestationSignerRemoved signer) = signer"
| "minter_event_fields (TokenControllerUpdated old new) = old @ new"
| "minter_event_fields (TokenSupported token custody) = token @ custody"
| "minter_event_fields (TokenCustodyBurned token custody amount) = token @ custody @ u64_to_le amount"
| "minter_event_fields (Paused account) = account"
| "minter_event_fields (Unpaused account) = account"
| "minter_event_fields (AttestationUsed token recipient spec_hash amount) =
     token @ recipient @ spec_hash @ u64_to_le amount"

text \<open>\<open>Event::data\<close>, and the instruction data of \<open>emit_cpi!\<close>.\<close>

definition wallet_event_data :: "WalletEvent \<Rightarrow> bytes" where
  "wallet_event_data e = wallet_event_discriminator e @ wallet_event_fields e"

definition minter_event_data :: "MinterEvent \<Rightarrow> bytes" where
  "minter_event_data e = minter_event_discriminator e @ minter_event_fields e"

definition event_ix_data :: "bytes \<Rightarrow> bytes" where
  "event_ix_data d = EVENT_IX_TAG_LE @ d"

text \<open>The byte arrays of an event have 32 bytes, by their types in events.rs.\<close>

fun wallet_event_arrays :: "WalletEvent \<Rightarrow> bytes list" where
  "wallet_event_arrays GatewayWalletInitialized = []"
| "wallet_event_arrays (WalletEvent.OwnershipTransferStarted old new) = [old, new]"
| "wallet_event_arrays (WalletEvent.OwnershipTransferred old new) = [old, new]"
| "wallet_event_arrays (WalletEvent.PauserChanged old new) = [old, new]"
| "wallet_event_arrays (DenylisterChanged old new) = [old, new]"
| "wallet_event_arrays (WalletEvent.TokenControllerUpdated old new) = [old, new]"
| "wallet_event_arrays (WalletEvent.TokenSupported token custody) = [token, custody]"
| "wallet_event_arrays (Deposited token depositor sender _) = [token, depositor, sender]"
| "wallet_event_arrays (DelegateAdded token depositor delegate) = [token, depositor, delegate]"
| "wallet_event_arrays (DelegateRemoved token depositor delegate) = [token, depositor, delegate]"
| "wallet_event_arrays (Denylisted addr) = [addr]"
| "wallet_event_arrays (UnDenylisted addr) = [addr]"
| "wallet_event_arrays (WithdrawalInitiated token depositor _ _ _ _) = [token, depositor]"
| "wallet_event_arrays (BurnSignerAdded signer) = [signer]"
| "wallet_event_arrays (BurnSignerRemoved signer) = [signer]"
| "wallet_event_arrays (WithdrawalCompleted token depositor _) = [token, depositor]"
| "wallet_event_arrays (WithdrawalDelayChanged _ _) = []"
| "wallet_event_arrays (FeeRecipientChanged old new) = [old, new]"
| "wallet_event_arrays (WalletEvent.Paused account) = [account]"
| "wallet_event_arrays (WalletEvent.Unpaused account) = [account]"
| "wallet_event_arrays (GatewayBurned token depositor spec_hash _ recipient signer _ _ _ _) =
     [token, depositor, spec_hash, recipient, signer]"
| "wallet_event_arrays (InsufficientBalance token depositor _ _ _) = [token, depositor]"

fun minter_event_arrays :: "MinterEvent \<Rightarrow> bytes list" where
  "minter_event_arrays (OwnershipTransferStarted old new) = [old, new]"
| "minter_event_arrays (OwnershipTransferred old new) = [old, new]"
| "minter_event_arrays GatewayMinterInitialized = []"
| "minter_event_arrays (PauserChanged old new) = [old, new]"
| "minter_event_arrays (AttestationSignerAdded signer) = [signer]"
| "minter_event_arrays (AttestationSignerRemoved signer) = [signer]"
| "minter_event_arrays (TokenControllerUpdated old new) = [old, new]"
| "minter_event_arrays (TokenSupported token custody) = [token, custody]"
| "minter_event_arrays (TokenCustodyBurned token custody _) = [token, custody]"
| "minter_event_arrays (Paused account) = [account]"
| "minter_event_arrays (Unpaused account) = [account]"
| "minter_event_arrays (AttestationUsed token recipient spec_hash _) = [token, recipient, spec_hash]"

definition wallet_event_typed :: "WalletEvent \<Rightarrow> bool" where
  "wallet_event_typed e \<longleftrightarrow> (\<forall>a \<in> set (wallet_event_arrays e). length a = 32)"

definition minter_event_typed :: "MinterEvent \<Rightarrow> bool" where
  "minter_event_typed e \<longleftrightarrow> (\<forall>a \<in> set (minter_event_arrays e). length a = 32)"

section \<open>Reading events\<close>

definition read_key :: "(pubkey \<Rightarrow> 'e) \<Rightarrow> 'e reader" where
  "read_key c = then_read borsh_pubkey (\<lambda>k. done_read (c k))"

definition read_keys2 :: "(pubkey \<Rightarrow> pubkey \<Rightarrow> 'e) \<Rightarrow> 'e reader" where
  "read_keys2 c = then_read borsh_pubkey (\<lambda>k1. then_read borsh_pubkey (\<lambda>k2. done_read (c k1 k2)))"

definition read_keys3 :: "(pubkey \<Rightarrow> pubkey \<Rightarrow> pubkey \<Rightarrow> 'e) \<Rightarrow> 'e reader" where
  "read_keys3 c = then_read borsh_pubkey (\<lambda>k1. then_read borsh_pubkey (\<lambda>k2. then_read borsh_pubkey (\<lambda>k3.
     done_read (c k1 k2 k3))))"

lemma read_keys_Some [borsh_simps]:
  "read_key c1 bs = Some (e, r) \<longleftrightarrow> (\<exists>k. e = c1 k \<and> length k = 32 \<and> bs = k @ r)"
  "read_keys2 c2 bs = Some (e, r) \<longleftrightarrow> (\<exists>k1 k2. e = c2 k1 k2 \<and> length k1 = 32 \<and> length k2 = 32 \<and> bs = k1 @ k2 @ r)"
  "read_keys3 c3 bs = Some (e, r) \<longleftrightarrow> (\<exists>k1 k2 k3. e = c3 k1 k2 k3 \<and> length k1 = 32 \<and> length k2 = 32 \<and>
     length k3 = 32 \<and> bs = k1 @ k2 @ k3 @ r)"
  by (auto simp: read_key_def read_keys2_def read_keys3_def borsh_simps borsh_read) blast

definition wallet_event_readers :: "(bytes \<times> WalletEvent reader) list" where
  "wallet_event_readers = [
   ([20, 0], done_read GatewayWalletInitialized),
   ([20, 1], read_keys2 WalletEvent.OwnershipTransferStarted),
   ([20, 2], read_keys2 WalletEvent.OwnershipTransferred),
   ([20, 3], read_keys2 WalletEvent.PauserChanged),
   ([20, 4], read_keys2 DenylisterChanged),
   ([20, 5], read_keys2 WalletEvent.TokenControllerUpdated),
   ([20, 6], read_keys2 WalletEvent.TokenSupported),
   ([20, 7], then_read (read_keys3 Deposited) (\<lambda>c. then_read borsh_u64 (\<lambda>amount. done_read (c amount)))),
   ([20, 8], read_keys3 DelegateAdded),
   ([20, 9], read_keys3 DelegateRemoved),
   ([20, 10], read_key Denylisted),
   ([20, 11], read_key UnDenylisted),
   ([20, 12], then_read (read_keys2 WithdrawalInitiated) (\<lambda>c. then_read borsh_u64 (\<lambda>amount.
      then_read borsh_u64 (\<lambda>available. then_read borsh_u64 (\<lambda>withdrawing. then_read borsh_u64 (\<lambda>block.
      done_read (c amount available withdrawing block))))))),
   ([20, 13], read_key BurnSignerAdded),
   ([20, 14], read_key BurnSignerRemoved),
   ([20, 15], then_read (read_keys2 WithdrawalCompleted) (\<lambda>c. then_read borsh_u64 (\<lambda>amount. done_read (c amount)))),
   ([20, 16], then_read borsh_u64 (\<lambda>old. then_read borsh_u64 (\<lambda>new. done_read (WithdrawalDelayChanged old new)))),
   ([20, 17], read_keys2 FeeRecipientChanged),
   ([20, 18], read_key WalletEvent.Paused),
   ([20, 19], read_key WalletEvent.Unpaused),
   ([20, 20], then_read (read_keys3 GatewayBurned) (\<lambda>c. then_read borsh_u32 (\<lambda>domain.
      then_read (read_keys2 (c domain)) (\<lambda>c. then_read borsh_u64 (\<lambda>amount. then_read borsh_u64 (\<lambda>fee.
      then_read borsh_u64 (\<lambda>available. then_read borsh_u64 (\<lambda>withdrawing.
      done_read (c amount fee available withdrawing))))))))),
   ([20, 21], then_read (read_keys2 InsufficientBalance) (\<lambda>c. then_read borsh_u64 (\<lambda>amount.
      then_read borsh_u64 (\<lambda>available. then_read borsh_u64 (\<lambda>withdrawing. done_read (c amount available withdrawing))))))]"

definition minter_event_readers :: "(bytes \<times> MinterEvent reader) list" where
  "minter_event_readers = [
   ([10, 0], read_keys2 OwnershipTransferStarted),
   ([10, 1], read_keys2 OwnershipTransferred),
   ([10, 2], done_read GatewayMinterInitialized),
   ([10, 3], read_keys2 PauserChanged),
   ([10, 4], read_key AttestationSignerAdded),
   ([10, 5], read_key AttestationSignerRemoved),
   ([10, 6], read_keys2 TokenControllerUpdated),
   ([10, 7], read_keys2 TokenSupported),
   ([10, 8], then_read (read_keys2 TokenCustodyBurned) (\<lambda>c. then_read borsh_u64 (\<lambda>amount. done_read (c amount)))),
   ([10, 9], read_key Paused),
   ([10, 10], read_key Unpaused),
   ([10, 11], then_read (read_keys3 AttestationUsed) (\<lambda>c. then_read borsh_u64 (\<lambda>amount. done_read (c amount))))]"

definition read_event :: "(bytes \<times> 'e reader) list \<Rightarrow> 'e reader" where
  "read_event readers bs = (case find_handler readers bs of None \<Rightarrow> None | Some (m, body) \<Rightarrow> m body)"

abbreviation "read_wallet_event \<equiv> read_event wallet_event_readers"
abbreviation "read_minter_event \<equiv> read_event minter_event_readers"

text \<open>What a reader of the list reads begins with its discriminator.\<close>

lemma read_event_Some:
  assumes "read_event readers bs = Some (e, r)"
  obtains disc m body where "(disc, m) \<in> set readers" "bs = disc @ body" "m body = Some (e, r)"
proof -
  from assms obtain m body where m: "find_handler readers bs = Some (m, body)" "m body = Some (e, r)"
    by (auto simp: read_event_def split: option.splits)
  from find_handler_Some [OF m(1)] obtain disc where "(disc, m) \<in> set readers" "bs = disc @ body" by blast
  then show thesis using m(2) by (rule that)
qed

lemmas wallet_event_defs = wallet_event_data_def wallet_event_typed_def
lemmas minter_event_defs = minter_event_data_def minter_event_typed_def

text \<open>What was written is read back field by field.\<close>

lemma keys_read:
  "length k1 = 32 \<Longrightarrow> read_key c1 (k1 @ r) = Some (c1 k1, r)"
  "length k1 = 32 \<Longrightarrow> length k2 = 32 \<Longrightarrow> read_keys2 c2 (k1 @ k2 @ r) = Some (c2 k1 k2, r)"
  "length k1 = 32 \<Longrightarrow> length k2 = 32 \<Longrightarrow> length k3 = 32 \<Longrightarrow>
     read_keys3 c3 (k1 @ k2 @ k3 @ r) = Some (c3 k1 k2 k3, r)"
  by (simp_all add: read_key_def read_keys2_def read_keys3_def then_read_def done_read_def pubkey.read_write)

lemma then_keys_read:
  "length k1 = 32 \<Longrightarrow> length k2 = 32 \<Longrightarrow> then_read (read_keys2 c2) f (k1 @ k2 @ r) = f (c2 k1 k2) r"
  "length k1 = 32 \<Longrightarrow> length k2 = 32 \<Longrightarrow> length k3 = 32 \<Longrightarrow>
     then_read (read_keys3 c3) f (k1 @ k2 @ k3 @ r) = f (c3 k1 k2 k3) r"
  by (simp_all add: then_read_def keys_read)

lemma then_number_read:
  "then_read borsh_u32 f (u32_to_le w @ r) = f w r" "then_read borsh_u64 g (u64_to_le v @ r) = g v r"
  by (simp_all add: then_read_def u32.read_write u64.read_write)

lemmas event_fields_read = keys_read then_keys_read then_number_read done_read_def

lemma wallet_event_read: "wallet_event_typed e \<Longrightarrow> read_wallet_event (wallet_event_data e @ r) = Some (e, r)"
  by (cases e; simp add: wallet_event_defs read_event_def wallet_event_readers_def starts_with_def event_fields_read)

lemma minter_event_read: "minter_event_typed e \<Longrightarrow> read_minter_event (minter_event_data e @ r) = Some (e, r)"
  by (cases e; simp add: minter_event_defs read_event_def minter_event_readers_def starts_with_def event_fields_read)

lemma wallet_event_written:
  assumes "read_wallet_event bs = Some (e, r)"
  shows "wallet_event_typed e \<and> bs = wallet_event_data e @ r"
  using assms
proof (rule read_event_Some)
  fix disc m body
  assume "(disc, m) \<in> set wallet_event_readers" "bs = disc @ body" "m body = Some (e, r)"
  then show ?thesis
    unfolding wallet_event_readers_def by (auto simp: wallet_event_defs borsh_simps borsh_read)
qed

lemma minter_event_written:
  assumes "read_minter_event bs = Some (e, r)"
  shows "minter_event_typed e \<and> bs = minter_event_data e @ r"
  using assms
proof (rule read_event_Some)
  fix disc m body
  assume "(disc, m) \<in> set minter_event_readers" "bs = disc @ body" "m body = Some (e, r)"
  then show ?thesis
    unfolding minter_event_readers_def by (auto simp: minter_event_defs borsh_simps borsh_read)
qed

interpretation wallet_event: codec wallet_event_typed wallet_event_data read_wallet_event
  by unfold_locales (blast dest: wallet_event_written intro: wallet_event_read)

interpretation minter_event: codec minter_event_typed minter_event_data read_minter_event
  by unfold_locales (blast dest: minter_event_written intro: minter_event_read)

section \<open>The call of the program by itself\<close>

text \<open>No handler of either program and no IDL instruction takes the tag of events: the data goes to the event handler.\<close>

lemma event_tag_free:
  "find_handler wallet_handlers (event_ix_data d) = None" "find_handler minter_handlers (event_ix_data d) = None"
  "\<not> starts_with (event_ix_data d) IDL_IX_TAG_LE" "starts_with (event_ix_data d) EVENT_IX_TAG_LE"
  by (simp_all add: event_ix_data_def EVENT_IX_TAG_LE_def IDL_IX_TAG_LE_def starts_with_def wallet_handlers_def minter_handlers_def)

lemma event_call:
  "wallet_entry pf tx accounts (event_ix_data d) l =
     and_then (event_dispatch pf WALLET_PROGRAM_ID (tx_signers tx) accounts) (\<lambda>_. Inr (l, []))"
  "minter_entry pf tx accounts (event_ix_data d) l =
     and_then (event_dispatch pf MINTER_PROGRAM_ID (tx_signers tx) accounts) (\<lambda>_. Inr (l, []))"
  by (simp_all add: wallet_entry_def minter_entry_def program_entry_def event_tag_free)

lemma starts_with_append: "starts_with data disc \<longleftrightarrow> (\<exists>rest. data = disc @ rest)"
  unfolding starts_with_def by (metis append_eq_conv_conj append_take_drop_id)

text \<open>The event handler wants the signature of a program-derived address.\<close>

lemma event_dispatch_signed:
  assumes "event_dispatch pf p signers accounts = (Inr u :: ('e, unit) result)"
  shows "\<exists>k \<in> set signers. program_pda pf p k"
proof -
  from assms obtain b where "accounts ! 0 \<in> set signers" "try_bumps pf [EVENT_AUTHORITY_SEED] p 255 = Some (accounts ! 0, b)"
    by (auto simp: event_dispatch_def with_accounts_def result_simps find_program_address_Inr)
  then show ?thesis by (blast intro: pdaI)
qed

lemma no_event_from_outside:
  assumes "signed_by_outsiders pf tx"
  shows "wallet_entry pf tx accounts data l = Inr (l', es) \<Longrightarrow> \<not> starts_with data EVENT_IX_TAG_LE"
    and "minter_entry pf tx accounts data l = Inr (l', fs) \<Longrightarrow> \<not> starts_with data EVENT_IX_TAG_LE"
proof -
  assume run: "wallet_entry pf tx accounts data l = Inr (l', es)"
  show "\<not> starts_with data EVENT_IX_TAG_LE"
  proof
    assume "starts_with data EVENT_IX_TAG_LE"
    then obtain d where "data = event_ix_data d" by (auto simp: starts_with_append event_ix_data_def)
    with run obtain u where "event_dispatch pf WALLET_PROGRAM_ID (tx_signers tx) accounts = (Inr u :: unit wallet_result)"
      by (auto simp: event_call result_simps)
    with event_dispatch_signed outsider [OF assms] show False by blast
  qed
next
  assume run: "minter_entry pf tx accounts data l = Inr (l', fs)"
  show "\<not> starts_with data EVENT_IX_TAG_LE"
  proof
    assume "starts_with data EVENT_IX_TAG_LE"
    then obtain d where "data = event_ix_data d" by (auto simp: starts_with_append event_ix_data_def)
    with run obtain u where "event_dispatch pf MINTER_PROGRAM_ID (tx_signers tx) accounts = (Inr u :: unit minter_result)"
      by (auto simp: event_call result_simps)
    with event_dispatch_signed outsider [OF assms] show False by blast
  qed
qed

section \<open>What an observer reads\<close>

text \<open>Of the data of a program's calls, those with the tag are events.\<close>

definition event_of :: "'e reader \<Rightarrow> bytes \<Rightarrow> 'e option" where
  "event_of m data =
     (if starts_with data EVENT_IX_TAG_LE then map_option fst (m (drop (length EVENT_IX_TAG_LE) data)) else None)"

definition observed :: "'e reader \<Rightarrow> bytes list \<Rightarrow> 'e list" where
  "observed m = List.map_filter (event_of m)"

lemma observed_simps [simp]:
  "observed m [] = []"
  "observed m (d # ds) = (case event_of m d of Some e \<Rightarrow> e # observed m ds | None \<Rightarrow> observed m ds)"
  by (simp_all add: observed_def List.map_filter_def split: option.splits)

lemma observed_append: "observed m (xs @ ys) = observed m xs @ observed m ys"
  by (induction xs) (simp_all split: option.splits)

context codec
begin

lemma event_of_written: "valid e \<Longrightarrow> event_of decode (event_ix_data (encode e)) = Some e"
  by (simp add: event_of_def event_ix_data_def starts_with_append read_write_end)

text \<open>A call and the events sent in it.\<close>

lemma observed_call:
  "\<not> starts_with data EVENT_IX_TAG_LE \<Longrightarrow> \<forall>e \<in> set es. valid e \<Longrightarrow>
     observed decode (data # map (\<lambda>e. event_ix_data (encode e)) es) = es"
  by (simp add: event_of_def) (induction es; simp add: event_of_written)

end

text \<open>
  Histories of calls, as the data that the two programs receive: an accepted call, then one call for each event.
  The byte arrays of the events have their size.
\<close>

definition wallet_logged :: "platform \<Rightarrow> ledger \<Rightarrow> bytes list \<Rightarrow> ledger \<Rightarrow> bool" where
  "wallet_logged pf l log l' \<longleftrightarrow>
     (\<exists>tx accounts data es. signed_by_outsiders pf tx \<and> wallet_entry pf tx accounts data l = Inr (l', es) \<and>
        (\<forall>e \<in> set es. wallet_event_typed e) \<and> log = data # map (\<lambda>e. event_ix_data (wallet_event_data e)) es)"

definition minter_logged :: "platform \<Rightarrow> ledger \<Rightarrow> bytes list \<Rightarrow> ledger \<Rightarrow> bool" where
  "minter_logged pf l log l' \<longleftrightarrow>
     (\<exists>tx accounts data es. signed_by_outsiders pf tx \<and> minter_entry pf tx accounts data l = Inr (l', es) \<and>
        (\<forall>ix ea. minter_request accounts data = Inr (ix, ea) \<longrightarrow> attestation_fits ix l) \<and>
        (\<forall>e \<in> set es. minter_event_typed e) \<and> log = data # map (\<lambda>e. event_ix_data (minter_event_data e)) es)"

abbreviation "logged_step pf \<equiv> interleaved (wallet_logged pf) (minter_logged pf) (outside_called pf)"
abbreviation "logged_run pf \<equiv> machine_run (logged_step pf)"

abbreviation "wallet_observed log \<equiv> observed read_wallet_event (lefts log)"
abbreviation "minter_observed log \<equiv> observed read_minter_event (rights log)"

lemma logged_step_chain:
  assumes "logged_step pf l log l'"
  shows "\<exists>es. chain_step pf l es l' \<and> wallet_observed log = lefts es \<and> minter_observed log = rights es"
  using assms
proof cases
  case (by_left ds)
  then obtain tx accounts data es where tx: "signed_by_outsiders pf tx"
    and run: "wallet_entry pf tx accounts data l = Inr (l', es)" and typed: "\<forall>e \<in> set es. wallet_event_typed e"
    and ds: "ds = data # map (\<lambda>e. event_ix_data (wallet_event_data e)) es"
    unfolding wallet_logged_def by blast
  have "wallet_called pf l es l'" using tx run unfolding wallet_called_def by blast
  then have "chain_step pf l (map Inl es) l'" by (rule interleaved.by_left [of "wallet_called pf"])
  moreover have "observed read_wallet_event ds = es"
    using wallet_event.observed_call [OF no_event_from_outside(1) [OF tx run] typed] ds by simp
  ultimately show ?thesis using by_left(1) by (intro exI [of _ "map Inl es"]) simp
next
  case (by_right ds)
  then obtain tx accounts data es where tx: "signed_by_outsiders pf tx"
    and run: "minter_entry pf tx accounts data l = Inr (l', es)" and typed: "\<forall>e \<in> set es. minter_event_typed e"
    and fits: "\<forall>ix ea. minter_request accounts data = Inr (ix, ea) \<longrightarrow> attestation_fits ix l"
    and ds: "ds = data # map (\<lambda>e. event_ix_data (minter_event_data e)) es"
    unfolding minter_logged_def by blast
  have "minter_called pf l es l'" using tx run fits unfolding minter_called_def by blast
  then have "chain_step pf l (map Inr es) l'" by (rule interleaved.by_right [of "minter_called pf"])
  moreover have "observed read_minter_event ds = es"
    using minter_event.observed_call [OF no_event_from_outside(2) [OF tx run] typed] ds by simp
  ultimately show ?thesis using by_right(1) by (intro exI [of _ "map Inr es"]) simp
next
  case by_rest
  then have "chain_step pf l [] l'" by (simp add: interleaved.by_rest)
  then show ?thesis using by_rest(1) by (intro exI [of _ "[]"]) simp
qed

lemma logged_run_chain:
  "logged_run pf l log l' \<Longrightarrow>
     \<exists>es. chain_run pf l es l' \<and> wallet_observed log = lefts es \<and> minter_observed log = rights es"
proof (induction rule: machine_run.induct)
  case (run_refl l)
  have "chain_run pf l [] l" by (rule machine_run.run_refl)
  then show ?case by (intro exI [of _ "[]"]) simp
next
  case (run_step l log l1 ds l2)
  from run_step.IH obtain es where es: "chain_run pf l es l1" "wallet_observed log = lefts es" "minter_observed log = rights es"
    by blast
  from logged_step_chain [OF run_step.hyps(2)] obtain fs where
    fs: "chain_step pf l1 fs l2" "wallet_observed ds = lefts fs" "minter_observed ds = rights fs" by blast
  from machine_run.run_step [of "chain_step pf", OF es(1) fs(1)] es fs show ?case
    by (intro exI [of _ "es @ fs"]) (simp add: observed_append)
qed

end
