(* ===== verification/EventSpec.thy ===== *)
theory EventSpec
  imports EntrySpec Events
begin

text \<open>
  What an observer of the chain learns from the bytes of the calls alone: the events of both programs, in their
  order, and with them every deposit balance and every hash that was spent.
\<close>

text \<open>C14: The bytes of the calls tell the whole story.  Let outsiders call both programs with arbitrary data among
  steps of the rest of the chain, and let an observer read the data of all calls the programs receive, keep
  what begins with the tag of events and decode it.  What it reads are the events the programs emitted, in
  their order, as some history of the closed world has them, since an outsider's call with the tag is never
  accepted.  From the decoded events alone the abstract ledger computes all balances and unlock slots, and no
  hash occurs in them twice.\<close>

theorem observer_follows_balances:
  assumes "system_program_ok pf" "apart pf" "clean pf l" "wallet_wf pf l" "minter_wf pf l" "logged_run pf l log l'"
    and "no_deposit_collision pf P" "records_within P l" "balances_within P (wallet_observed log)"
  shows "event_fold balances_next (balances_of pf P l) (wallet_observed log) = Some (balances_of pf P l') \<and>
    distinct (List.map_filter burned_hash (wallet_observed log)) \<and>
    distinct (List.map_filter used_hash (minter_observed log)) \<and>
    (\<exists>es. closed_run pf l es l' \<and> lefts es = wallet_observed log \<and> rights es = minter_observed log)"
proof -
  have inv: "closed_inv pf l" "gateway_inv pf l" using assms(1-5) by (simp_all add: closed_inv_def gateway_inv_def)
  from logged_run_chain [OF assms(6)] obtain es where
    es: "chain_run pf l es l'" "wallet_observed log = lefts es" "minter_observed log = rights es" by blast
  from chain_run_closed [OF es(1) inv(1)] have closed: "closed_run pf l es l'" .
  from gateway_joint.run_projects [OF closed_run_gateway [OF closed inv(1)]] inv(2)
  have runs: "wallet_run pf l (lefts es) l'" "minter_run pf l (rights es) l'" by (simp_all add: gateway_inv_sides)
  have "machine_run (wallet_step_booked pf P) l (lefts es) l'"
    by (rule run_restrict [OF runs(1)]) (use assms(9) es(2) in \<open>auto simp: balances_within_def\<close>)
  from wallet_books.view_run [OF this] assms(1,4,7,8)
  have "event_fold balances_next (balances_of pf P l) (lefts es) = Some (balances_of pf P l')"
    by (simp add: balances_inv_def wallet_inv_def)
  moreover have "distinct (List.map_filter burned_hash (lefts es))" "distinct (List.map_filter used_hash (rights es))"
    using wallet_replay.run_spent [OF runs(1)] minter_replay.run_spent [OF runs(2)] inv(2)
    by (simp_all add: gateway_inv_sides wallet_side_def)
  ultimately show ?thesis using closed es(2,3) by auto
qed

text \<open>A deposit as the observer sees it: the call and the event.\<close>

abbreviation "sample_deposit_ix \<equiv> IxDeposit sample_deposit_ctx 25"
abbreviation "sample_deposit_event \<equiv> Deposited MINT_KEY ALICE ALICE 25"

definition sample_log :: "(bytes + bytes) list" where
  "sample_log = [Inl (wallet_data sample_deposit_ix), Inl (event_ix_data (wallet_event_data sample_deposit_event))]"

lemma sample_logged_run: "\<exists>l'. logged_run sample_platform sample_ledger sample_log l'"
proof -
  obtain l' where run: "deposit sample_platform sample_tx sample_deposit_ctx 25 sample_ledger = Inr (l', [sample_deposit_event])"
    using sample_deposit_run by blast
  have "wallet_args_ok sample_deposit_ix" by simp
  from sample_wallet_call [OF this, of sample_tx sample_ledger l' "[sample_deposit_event]" "[]"] run
  have call: "wallet_entry sample_platform sample_tx (wallet_keys [W_EVENTS, WALLET_PROGRAM_ID] sample_deposit_ix)
    (wallet_data sample_deposit_ix) sample_ledger = Inr (l', [sample_deposit_event])" by simp
  have "signed_by_outsiders sample_platform sample_tx" by (simp add: sample_outsiders sample_tx_def ALICE_def)
  moreover have "wallet_event_typed sample_deposit_event" by (simp add: wallet_event_typed_def key_list)
  ultimately have "wallet_logged sample_platform sample_ledger
      [wallet_data sample_deposit_ix, event_ix_data (wallet_event_data sample_deposit_event)] l'"
    unfolding wallet_logged_def using call
    by (intro exI [of _ sample_tx] exI [of _ "wallet_keys [W_EVENTS, WALLET_PROGRAM_ID] sample_deposit_ix"]
        exI [of _ "wallet_data sample_deposit_ix"] exI [of _ "[sample_deposit_event]"]) simp
  from run_single [of "logged_step sample_platform", OF interleaved.by_left [of "wallet_logged sample_platform", OF this]]
  show ?thesis unfolding sample_log_def by auto
qed

lemma sample_observed: "wallet_observed sample_log = [sample_deposit_event]"
proof -
  have typed: "wallet_event_typed sample_deposit_event" by (simp add: wallet_event_typed_def key_list)
  have "\<not> starts_with (wallet_data sample_deposit_ix) EVENT_IX_TAG_LE"
    by (simp add: starts_with_def EVENT_IX_TAG_LE_def)
  from wallet_event.observed_call [OF this, of "[sample_deposit_event]"] typed show ?thesis
    by (simp add: sample_log_def)
qed

theorem observer_follows_balances_witness:
  "\<exists>l'. logged_run sample_platform sample_ledger sample_log l' \<and>
     balances_of sample_platform {(MINT_KEY, ALICE)} l' (MINT_KEY, ALICE) = (95, 50, 90)"
proof -
  obtain l' where run: "logged_run sample_platform sample_ledger sample_log l'" using sample_logged_run by blast
  have within: "balances_within {(MINT_KEY, ALICE)} (wallet_observed sample_log)"
    unfolding sample_observed by (simp add: balances_within_def)
  from observer_follows_balances [OF sample_platform_ok sample_apart sample_clean sample_wf minter_ledger_wf run
      sample_pairs within]
  have "balances_of sample_platform {(MINT_KEY, ALICE)} l' =
    (balances_of sample_platform {(MINT_KEY, ALICE)} sample_ledger)((MINT_KEY, ALICE) := (95, 50, 90))"
    unfolding sample_observed by (auto simp: balances_of_def deposit_balance_def sample_views split: prod.splits)
  with run show ?thesis by auto
qed

end
