(* ===== verification/Spec2Isabelle.thy ===== *)
theory Spec2Isabelle
  imports MintSpec WalletSpec WalletGuards SharedSpec GatewaySpec EntrySpec MintProgress BurnProgress
    DepositorExit EventSpec
begin

text \<open>
  Circle Gateway on Solana: a verification development of the programs under src/programs and of the crate
  src/shared.

  The system.  Depositors put tokens into the custody accounts of GatewayWallet (gateway-wallet/src).  A balance
  leaves the wallet in two ways: by a delayed withdrawal of its depositor (initiate_withdrawal, withdraw), or by
  gateway_burn, when the operator submits a burn intent that the depositor or a delegate signed and a
  burn signer countersigned.  On the destination chain, GatewayMinter (gateway-minter/src) releases the tokens
  from its own custody accounts when it is shown an attestation set signed by an enabled attester
  (gateway_mint).  Both programs create a marker account for each transfer spec hash they have used
  (shared/src/lib.rs), so that no intent is burned twice and no attestation pays twice.  The rest is
  administration: two-step ownership, roles, a pause switch, a denylist, supported tokens.

  The model is a shallow embedding.  A handler is a function from the platform, the transaction, the keys
  of its accounts struct, its parameters and a ledger to a ledger and its events, or to a failure: an error
  of the program, of Anchor's generated validation, of a program behind a CPI, or a Rust panic (result
  type of Prelude; the release profile has overflow checks, so an overflow is a panic).  Account validation is
  written out constraint by constraint, in the order of the generated code.  Integers are words of their width,
  public keys byte lists, account data typed by its layout.

  Theories and what they model (paths under src/programs, names as in the code):
  \<^item> Prelude: words, results, checked arithmetic, slices, integer codecs; shared by all.
  \<^item> WalletTypes, MinterTypes: state.rs, error.rs, events.rs, seeds.rs of the two programs, with the methods
    that only change a record.
  \<^item> Ledger: accounts, transactions, program-derived addresses, Anchor's checks; TokenProgram: Transfer,
    Burn and InitializeAccount3 of the vendored spl-token, behind the CPI privilege check;
    TokenInstructions: the rest of that processor and its dispatch; AccountInit: init, init_if_needed, close
    and the write-back at exit.
  \<^item> Shared: shared/src/lib.rs.  Registry: the bounded vectors of tokens, signers and attesters, as locales.
  \<^item> WalletFunds (deposit.rs, deposit_for.rs, initiate_withdrawal.rs, withdrawal.rs), WalletDelegates
    (add_delegate.rs, remove_delegate.rs, denylist.rs, undenylist.rs, utils.rs), WalletAdmin (initialize.rs, the
    role instructions, add_token.rs), BurnData and FieldReader (burn_data.rs), Ed25519 (ed25519.rs),
    GatewayBurn (gateway_burn.rs).
  \<^item> MinterAdmin (initialize.rs, the role instructions, add_token.rs, burn_token_custody.rs), Attestation
    (attestation.rs), GatewayMint (gateway_mint.rs, both modes).
  \<^item> WalletMachine, MinterMachine: the dispatch of the two lib.rs, one constructor per instruction.
  \<^item> Borsh: the byte format of arguments and account data (vendored borsh-0.10.4), with the locale codec for a
    type's reader and writer; Layouts: the bytes of the five account types of the two state.rs, loading and
    storing (vendored anchor-attribute-account).
  \<^item> Idl: the seven IDL instructions that Anchor adds to a program; Entry: the generated entrypoint, its dispatch
    and its events (vendored anchor-syn); WalletEntry, MinterEntry: the discriminators, arguments and account structs
    of the two lib.rs; Events: the bytes of the two events.rs as emit_cpi sends them.

  The lemmas, in layers:
  \<^item> Views reads a ledger as typed maps and follows them through every primitive; each handler then has an effect
    lemma (deposit_effect, gateway_burn_effect, gateway_mint_effect and so on) that says what was checked and what
    changed, and wallet_effect and minter_effect collect the effects of all instructions.
  \<^item> Machine states runs and the contracts both programs meet, as locales: machine (an invariant of every
    step), replay_guard (an id is spent once), two_step_ownership, and event_sourced in Books (a state that
    is a fold of its events).  A step is a successful instruction signed by users, or anything the rest
    of the chain may do (wallet_env, minter_env).  WalletInvariant, WalletContracts, Solvency, Books and MinterContracts
    interpret the locales on the dispatch of the code.
  \<^item> Isolation shows for each instruction of one program what it leaves of the other, Gateway puts both
    programs on one ledger (gateway_step) and interprets the locales rely_guarantee, joint and accounted of Machine
    on them: each program's steps are steps the other's environment condition allows.  TokenSafety says what the token
    program's instructions cannot do without an owner's signature; ClosedWorld adds the token program, the
    system program, foreign programs and the IDL instructions as further actors (closed_step), and shows that the two
    environment conditions then hold.  Entrypoints calls both programs with raw data and account lists
    (chain_step) and shows that such calls are steps of the closed world.  Events reads back what the programs send
    themselves (logged_step: the data of the calls each program receives).  UserSignature says what the
    Ed25519 program's acceptance of a transaction means for a burn in it.
  \<^item> Progress is the converse of the effect lemmas for the steps behind the checks: when a marker can be made, and
    a transfer or burn by a program's address goes through.  MintProgress composes it over the elements of a set (mint_ready is kept
    by each release), BurnProgress over the four ledger steps of a burn, DepositorExit with solvency over two withdrawal instructions.
  \<^item> WalletSafety, WalletSpec, WalletGuards, MinterSafety, MintSpec, SharedSpec, GatewaySpec, EntrySpec, EventSpec and the
    three theories just named hold the properties;
    Balances, BurnData and Attestation those of their own component.  Samples and MinterSamples build a
    concrete platform and one ledger with both programs, on which the handlers run; the witnesses
    evaluate there.

  What is shown.  Over every history: custody covers all deposit balances of its mint; the balances are what the
  emitted events say; no transfer spec is burned or minted twice; ownership follows nomination and acceptance;
  the accounts stay well formed, keep their type and identity, and fit their space.  Over every history of
  both programs on one ledger: neither touches what the other relies on, each sees a history of its own, and
  tokens leave either program's accounts only as its events report; with the token program, the system program and
  foreign programs as actors, nothing else is assumed of the rest of the chain; and every history of calls
  of the entrypoints, with any data and any accounts, is such a history, whose events, balances and spent hashes an
  observer recovers from the data of the calls alone.

  Per instruction: who must have signed, what moves, to the last unit, and what stays; that an attestation and a
  burn intent that satisfy the checks are executed to the end, that in every reachable state a depositor can leave with the
  whole balance, and that a marker's creation cannot be blocked; what pausing and the denylist stop; that the two minting modes
  agree.  For the byte formats (attestation, burn message, instruction data, account data, events): what is accepted is
  exactly the encoding of what is read, no input makes the first two parsers panic, and no bytes load as two
  kinds of account.  A burn that a transaction calls itself carries the user's signature of its intent; one
  called by another program need not (burn_cpi_unbound).

  Hypotheses.  Code that is not in the repository is the record platform: keccak256 and SHA-256, the curve
  test, secp256k1_recover, rent, and the system program's instructions.  Nothing is assumed of the hash functions.
  system_program_ok is what the system program's documentation promises of a success, system_program_live (the liveness
  of markers, mints and burns) that it does not fail without reason.  Byte vectors are shorter than 2 ^ 64, as every usize
  length is, and the arrays of the events in a logged_run have the 32 bytes of their types.  custody_solvent and balances_follow_events (and observer_follows_balances) name a set of (mint, depositor) pairs whose deposit addresses
  do not collide, since addresses are hashes; where a collision cannot hurt, none is excluded.
  wallet_env and minter_env say that outsiders leave the program's records alone (keeps_records), that a new account
  of the program holds none, and that nobody else signs for its addresses;
  for the closed world they are proved, from the runtime's rules (a program changes the data and takes the lamports of its
  own accounts only; system_act and foreign_act) and from the conditions apart (no address is derived by both
  programs, which for a hash means no collision) and clean (the programs' token accounts start without
  delegate and close authority, as Anchor's init leaves them, and no program-derived address is the system
  program's, the incinerator's or that of an IDL).  ed25519_checked is the Ed25519 program's documented contract,
  for a signature scheme that is a parameter.

  Termination.  The only unbounded loop of the code is the attestation loop; while_next is a function with a measure
  (the elements left), so no fuel occurs.  The search for a bump tries 255 downwards, structurally.

  Not modelled: logs (msg!), which of
  several failing checks of an accounts struct is reported when the account list is too short, compute and
  transaction size limits, the Ed25519 program itself and the top-level instruction's relation to the running
  one (tx_index and tx_instructions are what the instructions sysvar shows, so a call by another program is
  a transaction whose current instruction is not the burn), lamport balances beyond what the system program's contract
  fixes, the byte layout of token accounts and of the token program's instructions, and its UI-amount
  conversions (they only set return data).  Vendored crates are translated only where the programs use them.
\<close>

end
